(* ===== verification/Prelude.thy ===== *)
theory Prelude
  imports Complex_Main
begin

text \<open>
  Shared vocabulary of the development: identifiers, the tables of the relational store as lists
  of rows with primary keys, the query idioms the services use (first row, filtered rows, updated
  rows), the part of Python's \<^verbatim>\<open>str\<close>, \<^verbatim>\<open>datetime\<close> and \<^verbatim>\<open>round\<close> the services rely on, and the
  generic lemmas that carry the component proofs.

  A table is the list of its rows in an arbitrary physical order.  A query without
  \<^verbatim>\<open>ORDER BY\<close> that reads one row takes the first matching row of that list; since theorems
  quantify over the whole table, every physical order is covered.
\<close>

section \<open>Collections of facts\<close>

named_theorems table_simps \<open>reading a table after it was written\<close>
named_theorems handler_defs \<open>definitions of the request handlers\<close>

section \<open>Identifiers and rows\<close>

type_synonym uuid = nat

definition lookup_row :: "('r \<Rightarrow> 'k) \<Rightarrow> 'k \<Rightarrow> 'r list \<Rightarrow> 'r option" where
  "lookup_row key k rows = find (\<lambda>r. key r = k) rows"

definition update_where :: "('r \<Rightarrow> bool) \<Rightarrow> ('r \<Rightarrow> 'r) \<Rightarrow> 'r list \<Rightarrow> 'r list" where
  "update_where P f rows = map (\<lambda>r. if P r then f r else r) rows"

definition update_row :: "('r \<Rightarrow> 'k) \<Rightarrow> 'k \<Rightarrow> ('r \<Rightarrow> 'r) \<Rightarrow> 'r list \<Rightarrow> 'r list" where
  "update_row key k f rows = update_where (\<lambda>r. key r = k) f rows"

definition count_where :: "('r \<Rightarrow> bool) \<Rightarrow> 'r list \<Rightarrow> nat" where
  "count_where P rows = length (filter P rows)"

definition exists_row :: "('r \<Rightarrow> bool) \<Rightarrow> 'r list \<Rightarrow> bool" where
  "exists_row P rows = list_ex P rows"

text \<open>Comparison of a nullable column with a value, as SQL and Python read it.\<close>

definition is_val :: "'a option \<Rightarrow> 'a \<Rightarrow> bool" where
  "is_val c v = (c = Some v)"

lemma find_SomeD: "find P xs = Some x \<Longrightarrow> P x \<and> x \<in> set xs"
  by (auto simp: find_Some_iff)

lemma find_append_Some: "find P xs = Some x \<Longrightarrow> find P (xs @ ys) = Some x"
  by (induction xs) (auto split: if_splits)

lemma find_map_key:
  "(\<And>r. key (f r) = key r) \<Longrightarrow>
   find (\<lambda>r. key r = k) (map (\<lambda>r. if P r then f r else r) rows)
     = map_option (\<lambda>r. if P r then f r else r) (find (\<lambda>r. key r = k) rows)"
  by (induction rows) auto

lemma lookup_row_SomeD: "lookup_row key k rows = Some r \<Longrightarrow> key r = k \<and> r \<in> set rows"
  unfolding lookup_row_def by (drule find_SomeD) simp

lemma lookup_row_mem: "lookup_row key k rows = Some r \<Longrightarrow> r \<in> set rows"
  by (drule lookup_row_SomeD) simp

lemma lookup_row_key: "lookup_row key k rows = Some r \<Longrightarrow> key r = k"
  by (drule lookup_row_SomeD) simp

lemma lookup_row_None: "lookup_row key k rows = None \<longleftrightarrow> k \<notin> key ` set rows"
  by (auto simp: lookup_row_def find_None_iff)

lemma lookup_row_distinct:
  "distinct (map key rows) \<Longrightarrow> r \<in> set rows \<Longrightarrow> lookup_row key (key r) rows = Some r"
  by (induction rows) (auto simp: lookup_row_def)

lemma lookup_row_append:
  "lookup_row key k (xs @ ys) =
     (case lookup_row key k xs of Some r \<Rightarrow> Some r | None \<Rightarrow> lookup_row key k ys)"
  by (induction xs) (auto simp: lookup_row_def)

lemma lookup_row_single: "lookup_row key k [r] = (if key r = k then Some r else None)"
  by (simp add: lookup_row_def)

lemma lookup_update_where:
  "(\<And>r. key (f r) = key r) \<Longrightarrow>
   lookup_row key k (update_where P f rows)
     = map_option (\<lambda>r. if P r then f r else r) (lookup_row key k rows)"
  unfolding lookup_row_def update_where_def by (rule find_map_key)

lemma lookup_update_row:
  assumes "\<And>r. key (f r) = key r"
  shows "lookup_row key k (update_row key k' f rows) =
     (if k = k' then map_option f (lookup_row key k rows) else lookup_row key k rows)"
  using assms unfolding update_row_def
  by (cases "lookup_row key k rows") (auto simp: lookup_update_where dest: lookup_row_key)

lemma map_key_update_where:
  "(\<And>r. key (f r) = key r) \<Longrightarrow> map key (update_where P f rows) = map key rows"
  by (induction rows) (auto simp: update_where_def)

lemma map_key_update_row:
  "(\<And>r. key (f r) = key r) \<Longrightarrow> map key (update_row k'' k f rows) = map key rows"
  unfolding update_row_def by (rule map_key_update_where)

lemma length_update_where [simp]: "length (update_where P f rows) = length rows"
  by (simp add: update_where_def)

lemma set_update_where: "set (update_where P f rows) = (\<lambda>r. if P r then f r else r) ` set rows"
  by (simp add: update_where_def)

lemma set_update_row:
  "set (update_row key k f rows) = (\<lambda>r. if key r = k then f r else r) ` set rows"
  by (simp add: update_row_def set_update_where)

lemma update_row_mem: "x \<in> set (update_row key k (\<lambda>_. r) rows) \<Longrightarrow> x = r \<or> x \<in> set rows"
  by (auto simp: set_update_row)

lemma filter_update_row_other:
  assumes "\<And>r. r \<in> set rows \<Longrightarrow> key r = k \<Longrightarrow> \<not> P r" and "\<not> P q"
  shows "filter P (update_row key k (\<lambda>_. q) rows) = filter P rows"
  using assms(1) by (induction rows) (auto simp: update_row_def update_where_def assms(2))

lemma map_key_put: "key q = k \<Longrightarrow> map key (update_row key k (\<lambda>_. q) rows) = map key rows"
  by (induction rows) (simp_all add: update_row_def update_where_def)

lemma unique_row: "distinct (map key rows) \<Longrightarrow> p \<in> set rows \<Longrightarrow> r \<in> set rows \<Longrightarrow> key r = key p \<Longrightarrow> r = p"
  by (auto simp: distinct_map dest: inj_onD)

lemma update_row_id: "k \<notin> key ` set rows \<Longrightarrow> update_row key k f rows = rows"
  by (induction rows) (auto simp: update_row_def update_where_def)

lemma count_where_append [simp]: "count_where P (xs @ ys) = count_where P xs + count_where P ys"
  by (simp add: count_where_def)

lemma count_where_Nil [simp]: "count_where P [] = 0"
  by (simp add: count_where_def)

lemma count_where_Cons [simp]:
  "count_where P (x # xs) = (if P x then Suc (count_where P xs) else count_where P xs)"
  by (simp add: count_where_def)

lemma count_where_mono:
  "(\<And>x. x \<in> set xs \<Longrightarrow> P x \<Longrightarrow> Q x) \<Longrightarrow> count_where P xs \<le> count_where Q xs"
  by (induction xs) (auto simp: le_SucI)

lemma count_where_0_iff: "count_where P xs = 0 \<longleftrightarrow> (\<forall>x \<in> set xs. \<not> P x)"
  by (auto simp: count_where_def filter_empty_conv)

lemma count_update_where_le:
  "(\<And>r. P r \<Longrightarrow> Q (f r) \<Longrightarrow> Q r) \<Longrightarrow> count_where Q (update_where P f rows) \<le> count_where Q rows"
  by (induction rows) (auto simp: update_where_def le_SucI)

lemma count_update_where_eq:
  "(\<And>r. P r \<Longrightarrow> Q (f r) = Q r) \<Longrightarrow> count_where Q (update_where P f rows) = count_where Q rows"
  by (induction rows) (auto simp: update_where_def)

section \<open>A table of a store as an interface\<close>

text \<open>
  What a repository promises about one table of the store it writes: reading back what was
  written, and that a write through another table leaves this one alone.  The client lemmas are
  the laws every handler proof uses: lookup after insert, lookup after update, and that primary
  keys stay distinct.
\<close>

locale keyed_table =
  fixes rows :: "'s \<Rightarrow> 'r list"
    and set_rows :: "'r list \<Rightarrow> 's \<Rightarrow> 's"
    and key :: "'r \<Rightarrow> uuid"
  assumes rows_set_rows: "rows (set_rows rs s) = rs"
    and set_rows_rows: "set_rows (rows s) s = s"
    and set_rows_twice: "set_rows rs (set_rows rs' s) = set_rows rs s"
begin

lemma lookup_inserted:
  "key r \<notin> key ` set (rows s) \<Longrightarrow>
   lookup_row key (key r) (rows (set_rows (rows s @ [r]) s)) = Some r"
  by (simp add: rows_set_rows lookup_row_append lookup_row_None [THEN iffD2] lookup_row_single)

lemma lookup_other_inserted:
  "k \<noteq> key r \<Longrightarrow> lookup_row key k (rows (set_rows (rows s @ [r]) s)) = lookup_row key k (rows s)"
  by (simp add: rows_set_rows lookup_row_append lookup_row_single split: option.splits)

lemma lookup_updated:
  assumes "\<And>r. key (f r) = key r"
  shows "lookup_row key k (rows (set_rows (update_row key k' f (rows s)) s)) =
    (if k = k' then map_option f (lookup_row key k (rows s)) else lookup_row key k (rows s))"
  using lookup_update_row [of key f] assms by (simp add: rows_set_rows)

lemma distinct_inserted:
  "distinct (map key (rows s)) \<Longrightarrow> key r \<notin> key ` set (rows s) \<Longrightarrow>
   distinct (map key (rows (set_rows (rows s @ [r]) s)))"
  by (simp add: rows_set_rows)

lemma distinct_updated:
  assumes "distinct (map key (rows s))" and "\<And>r. key (f r) = key r"
  shows "distinct (map key (rows (set_rows (update_row key k f (rows s)) s)))"
proof -
  have "map key (update_row key k f (rows s)) = map key (rows s)"
    using assms(2) by (rule map_key_update_row)
  with assms(1) show ?thesis by (simp add: rows_set_rows)
qed

end

section \<open>Python strings\<close>

text \<open>
  Characters are bytes here, so the string functions are the ASCII part of Python's.
\<close>

definition is_space :: "char \<Rightarrow> bool" where
  "is_space c = (let n = (of_char c :: nat) in (9 \<le> n \<and> n \<le> 13) \<or> (28 \<le> n \<and> n \<le> 32))"

definition lstrip :: "string \<Rightarrow> string" where
  "lstrip s = dropWhile is_space s"

definition strip :: "string \<Rightarrow> string" where
  "strip s = rev (lstrip (rev (lstrip s)))"

definition is_ascii_lower :: "char \<Rightarrow> bool" where
  "is_ascii_lower c = (let n = (of_char c :: nat) in 97 \<le> n \<and> n \<le> 122)"

definition is_ascii_upper :: "char \<Rightarrow> bool" where
  "is_ascii_upper c = (let n = (of_char c :: nat) in 65 \<le> n \<and> n \<le> 90)"

definition is_digit :: "char \<Rightarrow> bool" where
  "is_digit c = (let n = (of_char c :: nat) in 48 \<le> n \<and> n \<le> 57)"

definition upper_char :: "char \<Rightarrow> char" where
  "upper_char c = (if is_ascii_lower c then char_of ((of_char c :: nat) - 32) else c)"

definition lower_char :: "char \<Rightarrow> char" where
  "lower_char c = (if is_ascii_upper c then char_of ((of_char c :: nat) + 32) else c)"

definition upper :: "string \<Rightarrow> string" where "upper s = map upper_char s"
definition lower :: "string \<Rightarrow> string" where "lower s = map lower_char s"

lemma length_upper [simp]: "length (upper s) = length s"
  by (simp add: upper_def)

lemma dropWhile_head: "dropWhile P xs = [] \<or> \<not> P (hd (dropWhile P xs))"
  by (induction xs) auto

lemma lstrip_idem [simp]: "lstrip (lstrip s) = lstrip s"
  by (simp add: lstrip_def)

lemma lstrip_Nil [simp]: "lstrip [] = []"
  by (simp add: lstrip_def)

lemma lstrip_fixed: "lstrip s = s \<longleftrightarrow> s = [] \<or> \<not> is_space (hd s)"
proof (cases s)
  case (Cons a xs)
  have "length (dropWhile is_space xs) \<le> length xs" by (rule length_dropWhile_le)
  then have "dropWhile is_space xs \<noteq> a # xs" by auto
  with Cons show ?thesis by (simp add: lstrip_def)
qed (simp add: lstrip_def)

lemma hd_rev_lstrip_rev: "t \<noteq> [] \<Longrightarrow> lstrip (rev t) \<noteq> [] \<Longrightarrow> hd (rev (lstrip (rev t))) = hd t"
proof (induction t rule: rev_induct)
  case (snoc x xs)
  then show ?case by (cases xs) (auto simp: lstrip_def split: if_splits)
qed simp

lemma strip_idem [simp]: "strip (strip s) = strip s"
proof -
  let ?t = "lstrip s" and ?u = "lstrip (rev (lstrip s))"
  have "lstrip (rev ?u) = rev ?u"
  proof (cases "?u = []")
    case False
    then have "?t \<noteq> []" using lstrip_Nil by (metis rev.simps(1))
    with False have "hd (rev ?u) = hd ?t" by (intro hd_rev_lstrip_rev)
    moreover have "\<not> is_space (hd ?t)"
      using \<open>?t \<noteq> []\<close> lstrip_fixed [of ?t] by simp
    ultimately show ?thesis by (simp add: lstrip_fixed)
  qed simp
  then show ?thesis by (simp add: strip_def)
qed

section \<open>Searching and sorting\<close>

lemma find_snoc: "find P xs = None \<Longrightarrow> find P (xs @ [x]) = (if P x then Some x else None)"
  by (induction xs) (auto split: if_splits)

lemma list_ex_key: "list_ex (\<lambda>h. key h = k) xs \<longleftrightarrow> k \<in> key ` set xs"
  by (auto simp: list_ex_iff)

lemma lookup_put:
  "lookup_row key k rows = Some r \<Longrightarrow> key r' = k \<Longrightarrow>
   lookup_row key k (update_row key k (\<lambda>_. r') rows) = Some r'"
  by (induction rows) (auto simp: lookup_row_def update_row_def update_where_def)

lemma lookup_put_other:
  "k \<noteq> i \<Longrightarrow> key r' = i \<Longrightarrow> lookup_row key k (update_row key i (\<lambda>_. r') rows) = lookup_row key k rows"
  by (induction rows) (auto simp: lookup_row_def update_row_def update_where_def)

lemma sum_list_insort_key: "sum_list (map f (insort_key g x xs)) = (f x + sum_list (map f xs) :: int)"
  by (induction xs) auto

lemma sum_list_sort_key: "sum_list (map f (sort_key g xs)) = (sum_list (map f xs) :: int)"
  by (induction xs) (auto simp: sum_list_insort_key)

lemma sort_key_Nil_iff: "sort_key f xs = [] \<longleftrightarrow> xs = []"
  by (metis length_0_conv length_sort)

section \<open>Time\<close>

text \<open>
  An aware \<^verbatim>\<open>datetime\<close> is the number of microseconds since 1970-01-01T00:00Z; a naive one is the
  same count on the wall clock.  A \<^verbatim>\<open>date\<close> is the number of days since 1970-01-01 (a Thursday) and
  a \<^verbatim>\<open>time\<close> the microseconds since midnight.
\<close>

type_synonym datetime = int
type_synonym date = int
type_synonym time_of_day = int

definition seconds :: "int \<Rightarrow> int" where "seconds n = n * 1000000"
definition minutes :: "int \<Rightarrow> int" where "minutes n = n * 60000000"
definition hours_of :: "int \<Rightarrow> int" where "hours_of n = n * 3600000000"
definition days :: "int \<Rightarrow> int" where "days n = n * 86400000000"

definition date_of :: "datetime \<Rightarrow> date" where "date_of t = t div days 1"
definition time_of :: "datetime \<Rightarrow> time_of_day" where "time_of t = t mod days 1"
definition weekday :: "date \<Rightarrow> int" where "weekday d = (d + 3) mod 7"
definition combine :: "date \<Rightarrow> time_of_day \<Rightarrow> datetime" where "combine d t = days d + t"

lemma combine_date_time [simp]: "combine (date_of t) (time_of t) = t"
  by (simp add: combine_def date_of_def time_of_def days_def)

lemma date_of_combine: "0 \<le> t \<Longrightarrow> t < days 1 \<Longrightarrow> date_of (combine d t) = d"
  by (simp add: combine_def date_of_def days_def)

lemma time_of_combine: "0 \<le> t \<Longrightarrow> t < days 1 \<Longrightarrow> time_of (combine d t) = t"
  by (simp add: combine_def time_of_def days_def)

lemma weekday_range: "0 \<le> weekday d \<and> weekday d < 7"
  by (simp add: weekday_def)

section \<open>Rounding\<close>

text \<open>
  Python's \<^verbatim>\<open>round\<close> on the quotients the services form: to the nearest integer, ties to even.
\<close>

definition round_half_even :: "rat \<Rightarrow> int" where
  "round_half_even x =
     (let f = \<lfloor>x\<rfloor>; d = x - of_int f
      in if d < 1 / 2 then f else if 1 / 2 < d then f + 1 else if even f then f else f + 1)"

lemma round_half_even_near: "\<bar>of_int (round_half_even x) - x\<bar> \<le> 1 / 2"
proof -
  define f d where "f = \<lfloor>x\<rfloor>" and "d = x - of_int f"
  have d: "0 \<le> d" "d < 1" unfolding d_def f_def by linarith+
  have r: "round_half_even x =
      (if d < 1 / 2 then f else if 1 / 2 < d then f + 1 else if even f then f else f + 1)"
    by (simp add: round_half_even_def Let_def d_def f_def)
  have "of_int (round_half_even x) - x = of_int (round_half_even x - f) - d"
    by (simp add: d_def)
  with d show ?thesis by (auto simp: r)
qed

lemma round_half_even_nonneg: "0 \<le> x \<Longrightarrow> 0 \<le> round_half_even x"
  by (auto simp: round_half_even_def Let_def)

lemma round_half_even_mono: "x \<le> y \<Longrightarrow> round_half_even x \<le> round_half_even y"
proof -
  assume le: "x \<le> y"
  then have fl: "\<lfloor>x\<rfloor> \<le> \<lfloor>y\<rfloor>" by (rule floor_mono)
  show ?thesis
  proof (cases "\<lfloor>x\<rfloor> = \<lfloor>y\<rfloor>")
    case True
    with le show ?thesis by (auto simp: round_half_even_def Let_def)
  next
    case False
    with fl have "\<lfloor>x\<rfloor> + 1 \<le> \<lfloor>y\<rfloor>" by simp
    moreover have "round_half_even x \<le> \<lfloor>x\<rfloor> + 1" by (auto simp: round_half_even_def Let_def)
    moreover have "\<lfloor>y\<rfloor> \<le> round_half_even y" by (auto simp: round_half_even_def Let_def)
    ultimately show ?thesis by linarith
  qed
qed

lemma round_half_even_of_int [simp]: "round_half_even (of_int n) = n"
  by (simp add: round_half_even_def)

section \<open>Results\<close>

text \<open>
  The errors the services raise.  A \<^verbatim>\<open>DomainError\<close> (\<^verbatim>\<open>core/errors.py\<close>) is its machine-readable
  code and HTTP status; its human-readable message is not modelled.  An \<^verbatim>\<open>HTTPException\<close> has no
  code, so it is its status and detail.  The last five are the classes of \<^verbatim>\<open>payments/exceptions.py\<close>,
  which are told apart by class and message.
\<close>

datatype api_error =
    DomainError string nat
  | HTTPException nat string
  | ValueError string
  | LookupError string
  | IntegrityError string
  | DataError string
  | RuntimeError string
  | ProviderFailure string
  | PaymentError string
  | PaymentNotFound string
  | InvalidPaymentState string
  | IdempotencyConflict string
  | InvalidWebhook string

type_synonym 'a result = "api_error + 'a"

text \<open>
  A request handler runs in one session: what it wrote becomes visible when it commits and is
  discarded when it raises before.  Its outcome is the result together with the committed store.
\<close>

type_synonym ('s, 'a) outcome = "'a result \<times> 's"

definition bindE :: "'a result \<Rightarrow> ('a \<Rightarrow> 'b result) \<Rightarrow> 'b result" where
  "bindE m f = (case m of Inl e \<Rightarrow> Inl e | Inr x \<Rightarrow> f x)"

lemma bindE_simps [simp]: "bindE (Inl e) f = Inl e" "bindE (Inr x) f = f x"
  by (simp_all add: bindE_def)

lemma bindE_InrE:
  assumes "bindE m f = Inr y"
  obtains x where "m = Inr x" and "f x = Inr y"
  using assms by (cases m) auto

definition ensure :: "bool \<Rightarrow> api_error \<Rightarrow> unit result" where
  "ensure b e = (if b then Inr () else Inl e)"

lemma ensure_Inr [simp]: "ensure b e = Inr u \<longleftrightarrow> b"
  by (simp add: ensure_def)

lemma ensure_Inl [simp]: "ensure b e = Inl e' \<longleftrightarrow> \<not> b \<and> e' = e"
  by (auto simp: ensure_def)

definition of_option :: "api_error \<Rightarrow> 'a option \<Rightarrow> 'a result" where
  "of_option e x = (case x of None \<Rightarrow> Inl e | Some y \<Rightarrow> Inr y)"

lemma of_option_Inr [simp]: "of_option e x = Inr y \<longleftrightarrow> x = Some y"
  by (simp add: of_option_def split: option.splits)

text \<open>JSON documents stored in audit rows and event payloads.\<close>

datatype json =
    JNull
  | JBool bool
  | JInt int
  | JStr string
  | JUuid uuid
  | JTime datetime
  | JList "json list"
  | JObj "(string \<times> json) list"

type_synonym json_object = "(string \<times> json) list"

definition json_uuid :: "uuid option \<Rightarrow> json" where
  "json_uuid x = (case x of None \<Rightarrow> JNull | Some u \<Rightarrow> JUuid u)"

end
