(* ===== verification/Common.thy ===== *)
theory Common
  imports Prelude
begin

text \<open>
  \<^verbatim>\<open>apps/api/app/domains/common\<close>: the generic state machine, the value objects every command
  carries (\<^verbatim>\<open>Money\<close>, \<^verbatim>\<open>PageRequest\<close>, \<^verbatim>\<open>CommandContext\<close>, \<^verbatim>\<open>DomainEvent\<close>) with the checks of their
  \<^verbatim>\<open>__post_init__\<close>, and the list of states.  The interface \<open>lifecycle\<close> holds what the booking, job
  and work-request lifecycles share; each of them interprets it.
\<close>

section \<open>StateMachine\<close>

text \<open>\<^verbatim>\<open>transitions\<close> is a mapping from a state to its set of successors; a missing key has none.\<close>

type_synonym 's transitions = "'s \<rightharpoonup> 's list"

definition can_transition :: "'s transitions \<Rightarrow> 's \<Rightarrow> 's \<Rightarrow> bool" where
  "can_transition ts current target =
     (case ts current of None \<Rightarrow> False | Some targets \<Rightarrow> List.member targets target)"

definition require_transition :: "'s transitions \<Rightarrow> 's \<Rightarrow> 's \<Rightarrow> unit result" where
  "require_transition ts current target =
     (if \<not> can_transition ts current target then Inl (ValueError ''invalid state transition'')
      else Inr ())"

text \<open>
  A run against a transition check: every target is requested in turn and the first refusal stops
  it.  \<open>check\<close> is \<open>require_transition ts\<close> here and \<^verbatim>\<open>ensure_transition\<close> for bookings.
\<close>

fun run_checked :: "('s \<Rightarrow> 's \<Rightarrow> unit result) \<Rightarrow> 's \<Rightarrow> 's list \<Rightarrow> 's result" where
  "run_checked check s [] = Inr s"
| "run_checked check s (t # rest) =
     (case check s t of Inl e \<Rightarrow> Inl e | Inr _ \<Rightarrow> run_checked check t rest)"

lemma require_transition_Inr [simp]:
  "require_transition ts a b = Inr u \<longleftrightarrow> can_transition ts a b"
  by (simp add: require_transition_def)

lemma run_checked_append:
  "run_checked check s (xs @ ys) =
     (case run_checked check s xs of Inl e \<Rightarrow> Inl e | Inr t \<Rightarrow> run_checked check t ys)"
  by (induction xs arbitrary: s) (auto split: sum.splits)

text \<open>The last step of a run that ends in a state other than the one it started from.\<close>

lemma run_checked_last_step:
  assumes "run_checked check s path = Inr t" and "t \<noteq> s"
  obtains p r where "path = p @ [t]" and "run_checked check s p = Inr r" and "check r t = Inr ()"
proof (cases path rule: rev_cases)
  case Nil
  with assms show ?thesis by simp
next
  case (snoc p x)
  with assms(1) have "x = t" and "\<exists>r. run_checked check s p = Inr r \<and> check r x = Inr ()"
    by (auto simp: run_checked_append split: sum.splits)
  with snoc that show ?thesis by blast
qed

lemma run_checked_rtranclp:
  "run_checked check s path = Inr t \<Longrightarrow> (\<lambda>a b. check a b = Inr ())\<^sup>*\<^sup>* s t"
proof (induction path arbitrary: s)
  case (Cons x xs)
  then have "check s x = Inr ()" and "(\<lambda>a b. check a b = Inr ())\<^sup>*\<^sup>* x t"
    by (auto split: sum.splits)
  then show ?case by (rule converse_rtranclp_into_rtranclp)
qed simp

lemma rtranclp_closed:
  assumes "r\<^sup>*\<^sup>* a b" and "a \<in> S" and "\<And>x y. x \<in> S \<Longrightarrow> r x y \<Longrightarrow> y \<in> S"
  shows "b \<in> S"
  using assms(1,2) by (induction rule: rtranclp_induct) (auto intro: assms(3))

text \<open>
  What a lifecycle table promises: its end states are the states it lists no successor for.  Then
  an end state is never left, and a run that goes on from one is refused.
\<close>

locale lifecycle =
  fixes ts :: "'s transitions"
    and final :: "'s \<Rightarrow> bool"
  assumes final_iff: "final s \<longleftrightarrow> (case ts s of None \<Rightarrow> True | Some targets \<Rightarrow> targets = [])"
begin

lemma final_no_step: "final s \<Longrightarrow> \<not> can_transition ts s t"
  by (auto simp: final_iff can_transition_def split: option.splits)

lemma final_stays: "(can_transition ts)\<^sup>*\<^sup>* s t \<Longrightarrow> final s \<Longrightarrow> t = s"
  by (induction rule: converse_rtranclp_induct) (auto dest: final_no_step)

lemma final_run_refused:
  "final s \<Longrightarrow>
   run_checked (require_transition ts) s (t # path) = Inl (ValueError ''invalid state transition'')"
  by (simp add: require_transition_def final_no_step)

lemma not_final_step: "\<not> final s \<Longrightarrow> \<exists>t. can_transition ts s t"
  by (auto simp: final_iff can_transition_def neq_Nil_conv split: option.splits)

end

section \<open>Money\<close>

datatype decimal = Finite rat | Infinite | NaN

record money =
  amount :: decimal
  currency :: string

definition is_alpha :: "char \<Rightarrow> bool" where
  "is_alpha c = (is_ascii_lower c \<or> is_ascii_upper c)"

definition make_money :: "decimal \<Rightarrow> string \<Rightarrow> money result" where
  "make_money a cur =
     (let c = upper (strip cur)
      in if length c \<noteq> 3 \<or> \<not> list_all is_alpha c
         then Inl (ValueError ''currency must be a three-letter ISO code'')
         else case a of
           Finite _ \<Rightarrow> Inr \<lparr>amount = a, currency = c\<rparr>
         | _ \<Rightarrow> Inl (ValueError ''amount must be finite''))"

definition is_currency :: "string \<Rightarrow> bool" where
  "is_currency c = (length c = 3 \<and> list_all is_ascii_upper c)"

lemma upper_char_alpha: "is_alpha (upper_char c) \<Longrightarrow> is_ascii_upper (upper_char c)"
  by (auto simp: is_alpha_def upper_char_def is_ascii_lower_def is_ascii_upper_def Let_def
      of_char_of split: if_splits)

lemma upper_alpha: "list_all is_alpha (upper s) \<Longrightarrow> list_all is_ascii_upper (upper s)"
  by (induction s) (auto simp: upper_def upper_char_alpha)

lemma make_money_normalised:
  "make_money a cur = Inr m \<Longrightarrow>
   is_currency (currency m) \<and> currency m = upper (strip cur) \<and> (\<exists>q. amount m = Finite q)"
  using upper_alpha [of "strip cur"]
  by (auto simp: make_money_def is_currency_def Let_def split: if_splits decimal.splits)

section \<open>PageRequest\<close>

record page_request =
  pr_limit :: int
  pr_cursor :: "string option"

definition make_page_request :: "int \<Rightarrow> string option \<Rightarrow> page_request result" where
  "make_page_request limit cursor =
     (if \<not> (1 \<le> limit \<and> limit \<le> 200) then Inl (ValueError ''limit must be between 1 and 200'')
      else if (case cursor of None \<Rightarrow> False | Some c \<Rightarrow> strip c = [])
      then Inl (ValueError ''cursor must be non-empty when supplied'')
      else Inr \<lparr>pr_limit = limit, pr_cursor = cursor\<rparr>)"

section \<open>Clock\<close>

text \<open>
  A \<^verbatim>\<open>datetime\<close> as Python has it: naive wall-clock microseconds, or an instant with the offset of
  its zone.
\<close>

datatype py_datetime = Naive datetime | Aware datetime int

definition require_aware :: "py_datetime \<Rightarrow> py_datetime result" where
  "require_aware v =
     (case v of
        Naive _ \<Rightarrow> Inl (ValueError ''timezone-aware datetime required'')
      | Aware instant _ \<Rightarrow> Inr (Aware instant 0))"

section \<open>CommandContext and DomainEvent\<close>

record command_context =
  cc_actor_id :: "uuid option"
  cc_principal_type :: string
  cc_tenant_id :: "uuid option"
  cc_legal_entity_id :: "uuid option"
  cc_idempotency_key :: "string option"
  cc_request_id :: string
  cc_correlation_id :: string
  cc_ip_address :: "string option"
  cc_user_agent :: "string option"

definition check_command_context :: "command_context \<Rightarrow> command_context result" where
  "check_command_context c =
     (if strip (cc_principal_type c) = [] then Inl (ValueError ''principal_type must not be empty'')
      else if strip (cc_request_id c) = [] then Inl (ValueError ''request_id must not be empty'')
      else if strip (cc_correlation_id c) = []
      then Inl (ValueError ''correlation_id must not be empty'')
      else if (case cc_idempotency_key c of None \<Rightarrow> False | Some k \<Rightarrow> strip k = [])
      then Inl (ValueError ''idempotency_key must be non-empty when supplied'')
      else Inr c)"

record domain_event =
  de_event_type :: string
  de_aggregate_type :: string
  de_aggregate_id :: uuid
  de_aggregate_version :: int
  de_occurred_at :: py_datetime
  de_correlation_id :: string
  de_payload :: json_object

definition check_domain_event :: "domain_event \<Rightarrow> domain_event result" where
  "check_domain_event e =
     (if strip (de_event_type e) = [] \<or> strip (de_aggregate_type e) = []
      then Inl (ValueError ''event and aggregate types must not be empty'')
      else if de_aggregate_version e < 1
      then Inl (ValueError ''aggregate_version must be positive'')
      else case require_aware (de_occurred_at e) of
        Inl err \<Rightarrow> Inl err
      | Inr _ \<Rightarrow>
          if strip (de_correlation_id e) = []
          then Inl (ValueError ''correlation_id must not be empty'')
          else Inr e)"

lemma check_domain_event_Inr:
  "check_domain_event e = Inr e' \<longleftrightarrow>
     e' = e \<and> strip (de_event_type e) \<noteq> [] \<and> strip (de_aggregate_type e) \<noteq> [] \<and>
     1 \<le> de_aggregate_version e \<and> (\<exists>t off. de_occurred_at e = Aware t off) \<and>
     strip (de_correlation_id e) \<noteq> []"
  by (cases "de_occurred_at e") (auto simp: check_domain_event_def require_aware_def)

section \<open>U.S. states\<close>

definition US_STATES_AND_DC :: "string list" where
  "US_STATES_AND_DC = [
    ''AL'', ''AK'', ''AZ'', ''AR'', ''CA'', ''CO'', ''CT'', ''DE'', ''DC'', ''FL'', ''GA'', ''HI'',
    ''ID'', ''IL'', ''IN'', ''IA'', ''KS'', ''KY'', ''LA'', ''ME'', ''MD'', ''MA'', ''MI'', ''MN'',
    ''MS'', ''MO'', ''MT'', ''NE'', ''NV'', ''NH'', ''NJ'', ''NM'', ''NY'', ''NC'', ''ND'', ''OH'',
    ''OK'', ''OR'', ''PA'', ''RI'', ''SC'', ''SD'', ''TN'', ''TX'', ''UT'', ''VT'', ''VA'', ''WA'',
    ''WV'', ''WI'', ''WY'']"

lemma US_STATES_AND_DC_count: "length US_STATES_AND_DC = 51 \<and> distinct US_STATES_AND_DC"
  by (simp add: US_STATES_AND_DC_def)

end
