(* ===== verification/Booking_Models.thy ===== *)
theory Booking_Models
  imports Common
begin

text \<open>
  The rows of the booking side of the store: \<^verbatim>\<open>booking/models.py\<close>, \<^verbatim>\<open>booking/capacity_models.py\<close>,
  \<^verbatim>\<open>catalog/models.py\<close>, \<^verbatim>\<open>workforce/models.py\<close>, \<^verbatim>\<open>workforce/provider_models.py\<close>,
  \<^verbatim>\<open>provider_catalog/models.py\<close>, \<^verbatim>\<open>administration/models.py\<close> and the zone offering of
  \<^verbatim>\<open>geography/models.py\<close>.  A mapped class is a record that extends \<open>row\<close>, its column \<^verbatim>\<open>x\<close> is the
  field \<open>x\<close> under the table's prefix, and a nullable column is an option.  The column
  \<^verbatim>\<open>updated_at\<close>, which the ORM maintains and no modelled query reads, is left out.  A geometry is an
  opaque handle: only PostGIS looks inside.
\<close>

record row =
  pk :: uuid
  created_at :: datetime

type_synonym geometry = nat
type_synonym point = "rat \<times> rat"

section \<open>Enumerations\<close>

datatype booking_status =
    B_DRAFT | B_REQUESTED | B_PENDING_REVIEW | B_ADDRESS_VALIDATED | B_COVERAGE_CONFIRMED
  | B_AVAILABILITY_FOUND | B_CAPACITY_HELD | B_AWAITING_ASSIGNMENT | B_PROVIDER_ASSIGNED
  | B_PENDING_MANUAL_DISPATCH | B_TENTATIVE_HOLD | B_PENDING_PAYMENT
  | B_PENDING_PROVIDER_CONFIRMATION | B_CONFIRMED | B_EN_ROUTE | B_IN_PROGRESS | B_COMPLETED
  | B_NO_COVERAGE | B_NO_CAPACITY | B_QUOTE_REQUIRED | B_PROVIDER_DECLINED
  | B_REASSIGNMENT_REQUIRED | B_RESCHEDULED | B_CANCELLED | B_EXPIRED

definition CAPACITY_HOLDING_STATUSES :: "booking_status list" where
  "CAPACITY_HOLDING_STATUSES = [B_TENTATIVE_HOLD, B_PENDING_PROVIDER_CONFIRMATION]"

datatype capacity_hold_status = H_HELD | H_CONVERTED | H_EXPIRED | H_RELEASED

datatype availability_exception_reason =
    VACATION | SICK | PERSONAL | TRAINING | VEHICLE | HOLIDAY | MANUAL_BLOCK | OTHER_REASON

datatype assignment_method = AM_MANUAL | AM_SUGGESTED | AM_AUTOMATIC

datatype vendor_status =
    V_PENDING | V_UNDER_REVIEW | V_ACTIVE | V_PAUSED | V_SUSPENDED | V_REJECTED | V_OFFBOARDED

datatype worker_status = WK_INVITED | WK_ACTIVE | WK_INACTIVE

datatype credential_type = LICENSE | INSURANCE

datatype approval_status = AP_PENDING | AP_APPROVED | AP_REJECTED

section \<open>booking/models.py\<close>

record legal_entity = row +
  le_code :: string
  le_name :: string
  le_currency :: string
  le_active :: bool

record service_area = row +
  sa_legal_entity_id :: uuid
  sa_name :: string
  sa_country_code :: "string option"
  sa_state_code :: "string option"
  sa_city :: "string option"
  sa_postal_codes :: "string list"
  sa_center :: "point option"
  sa_radius_meters :: "int option"
  sa_boundary :: "geometry option"
  sa_active :: bool
  sa_priority :: int
  sa_emergency_enabled :: bool
  sa_version :: int

record address = row +
  ad_formatted_address :: string
  ad_label :: string
  ad_line1 :: string
  ad_line2 :: "string option"
  ad_city :: string
  ad_county :: "string option"
  ad_state_code :: "string option"
  ad_postal_code :: string
  ad_postal_code_plus4 :: "string option"
  ad_country_code :: string
  ad_location :: point
  ad_service_area_id :: "uuid option"
  ad_geocoding_provider :: string
  ad_timezone_name :: string
  ad_timezone_source :: string
  ad_address_validation_status :: string
  ad_validation_status :: string
  ad_provider_reference :: "string option"
  ad_validation_confidence :: "rat option"
  ad_service_zone_id :: "uuid option"
  ad_customer_id :: "uuid option"
  ad_is_default :: bool

record provider_service_coverage = row +
  psc_worker_id :: uuid
  psc_service_id :: uuid
  psc_postal_code :: string
  psc_active :: bool

record provider_working_hours = row +
  pwh_worker_id :: uuid
  pwh_weekday :: int
  pwh_start_time :: time_of_day
  pwh_end_time :: time_of_day
  pwh_capacity :: int

record customer = row +
  cu_first_name :: string
  cu_last_name :: string
  cu_email :: string
  cu_phone :: string
  cu_user_id :: "uuid option"
  cu_preferred_language :: string
  cu_default_address_id :: "uuid option"

record booking = row +
  bk_reference :: string
  bk_idempotency_key :: string
  bk_idempotency_request_hash :: string
  bk_customer_id :: uuid
  bk_address_id :: uuid
  bk_legal_entity_id :: uuid
  bk_service_id :: uuid
  bk_provider_worker_id :: "uuid option"
  bk_service_timezone_id :: string
  bk_recommended_provider_id :: "uuid option"
  bk_recommended_professional_id :: "uuid option"
  bk_assignment_score :: "int option"
  bk_assignment_reason :: "string option"
  bk_request_note :: "string option"
  bk_window_start :: datetime
  bk_window_end :: datetime
  bk_status :: booking_status
  bk_pricing_snapshot :: json_object
  bk_total_amount :: rat
  bk_currency :: string
  bk_expires_at :: datetime
  bk_guest_confirmation_token_hash :: string
  bk_guest_confirmation_expires_at :: datetime
  bk_guest_confirmation_revoked_at :: "datetime option"

record booking_answer =
  ba_id :: uuid
  ba_booking_id :: uuid
  ba_question_id :: uuid
  ba_value :: string

section \<open>booking/capacity_models.py\<close>

record service_zone = row +
  sz_name :: string
  sz_state :: "string option"
  sz_county :: "string option"
  sz_city :: "string option"
  sz_postal_code :: "string option"
  sz_postal_prefix :: "string option"
  sz_timezone_id :: "string option"
  sz_center :: "point option"
  sz_radius_meters :: "int option"
  sz_boundary :: "geometry option"
  sz_active :: bool
  sz_regular_service_enabled :: bool
  sz_emergency_service_enabled :: bool

record service_zone_postal_code = row +
  szp_service_zone_id :: uuid
  szp_postal_code :: string
  szp_city :: "string option"
  szp_state :: string
  szp_county :: "string option"
  szp_active :: bool
  szp_priority :: int

record provider_availability_rule = row +
  par_provider_professional_id :: uuid
  par_day_of_week :: int
  par_start_local_time :: time_of_day
  par_end_local_time :: time_of_day
  par_available :: bool
  par_emergency_only :: bool
  par_timezone_id :: string

record provider_availability_exception = row +
  pae_provider_professional_id :: uuid
  pae_start_at :: datetime
  pae_end_at :: datetime
  pae_timezone_id :: string
  pae_reason :: availability_exception_reason
  pae_status :: string
  pae_created_by :: uuid

record provider_capacity_rule = row +
  pcr_provider_id :: uuid
  pcr_professional_id :: "uuid option"
  pcr_max_jobs_daily :: int
  pcr_max_minutes_daily :: int
  pcr_max_concurrent_jobs :: int
  pcr_emergency_reserved_jobs :: int
  pcr_emergency_reserved_minutes :: int
  pcr_effective_from :: date
  pcr_effective_until :: "date option"

record capacity_hold = row +
  ch_booking_id :: "uuid option"
  ch_service_id :: uuid
  ch_address_id :: uuid
  ch_provider_candidate_id :: uuid
  ch_professional_candidate_id :: uuid
  ch_slot_start_utc :: datetime
  ch_slot_end_utc :: datetime
  ch_timezone_id :: string
  ch_capacity_minutes :: int
  ch_status :: capacity_hold_status
  ch_expires_at :: datetime
  ch_released_at :: "datetime option"
  ch_converted_at :: "datetime option"
  ch_owner_fingerprint_hash :: string
  ch_idempotency_key :: string

record provider_assignment_history = row +
  pah_booking_id :: uuid
  pah_previous_provider_id :: "uuid option"
  pah_new_provider_id :: "uuid option"
  pah_previous_professional_id :: "uuid option"
  pah_new_professional_id :: "uuid option"
  pah_reason :: string
  pah_assignment_method :: assignment_method
  pah_score_at_assignment :: "int option"
  pah_performed_by :: uuid

section \<open>catalog/models.py\<close>

datatype question_type =
    QT_text | QT_textarea | QT_number | QT_boolean | QT_single_choice | QT_multi_choice

record service_question =
  sq_id :: uuid
  sq_service_id :: uuid
  sq_key :: string
  sq_label :: string
  sq_help_text :: "string option"
  sq_question_type :: question_type
  sq_required :: bool
  sq_options :: "json_object list option"
  sq_validation :: "json_object option"
  sq_sort_order :: int
  sq_is_active :: bool

record service = row +
  sv_slug :: string
  sv_name :: string
  sv_description :: "string option"
  sv_category :: string
  sv_base_price :: "rat option"
  sv_pricing_model :: string
  sv_duration_minutes :: "int option"
  sv_provider_approval_required :: bool
  sv_before_buffer_minutes :: int
  sv_after_buffer_minutes :: int
  sv_emergency_eligible :: bool
  sv_sunday_emergency_eligible :: bool
  sv_quote_required :: bool
  sv_is_active :: bool
  sv_is_bookable :: bool
  sv_sort_order :: int
  sv_questions :: "service_question list"

section \<open>workforce, provider catalog, operating hours\<close>

record vendor = row +
  vn_legal_name :: string
  vn_display_name :: string
  vn_email :: string
  vn_phone :: string
  vn_provider_type :: string
  vn_business_address :: "string option"
  vn_city :: "string option"
  vn_state :: "string option"
  vn_postal_code :: "string option"
  vn_onboarding_status :: string
  vn_compliance_status :: string
  vn_timezone_id :: "string option"
  vn_owner_user_id :: "uuid option"
  vn_status :: vendor_status
  vn_service_radius_meters :: int
  vn_home_location :: "point option"
  vn_capabilities :: "string list"
  vn_payout_profile_ref :: "string option"
  vn_odoo_partner_id :: "string option"

record worker = row +
  wk_vendor_id :: uuid
  wk_user_id :: "uuid option"
  wk_first_name :: string
  wk_last_name :: string
  wk_email :: string
  wk_phone :: string
  wk_status :: worker_status
  wk_skills :: "string list"
  wk_current_location :: "point option"
  wk_location_updated_at :: "datetime option"
  wk_available :: bool
  wk_default_timezone_id :: "string option"
  wk_maximum_jobs_per_day :: int
  wk_maximum_minutes_per_day :: int
  wk_sunday_emergency_enabled :: bool

record provider_credential = row +
  pc_vendor_id :: uuid
  pc_credential_type :: credential_type
  pc_jurisdiction :: string
  pc_reference_last4 :: "string option"
  pc_verified :: bool
  pc_verified_at :: "datetime option"
  pc_expires_on :: date
  pc_verified_by :: "uuid option"

record provider_service = row +
  ps_provider_id :: uuid
  ps_service_id :: uuid
  ps_active :: bool
  ps_approval_status :: string

record provider_service_area = row +
  psa_provider_id :: uuid
  psa_professional_id :: "uuid option"
  psa_area_type :: string
  psa_service_zone_id :: "uuid option"
  psa_postal_code :: "string option"
  psa_city :: "string option"
  psa_county :: "string option"
  psa_state :: "string option"
  psa_center :: "point option"
  psa_radius_meters :: "int option"
  psa_active :: bool
  psa_approval_status :: string

record provider_catalog_service = row +
  pcs_vendor_id :: uuid
  pcs_service_id :: uuid
  pcs_status :: approval_status
  pcs_active :: bool
  pcs_display_order :: int
  pcs_version :: int
  pcs_reviewed_by :: "uuid option"
  pcs_reviewed_at :: "datetime option"
  pcs_rejection_reason :: "string option"

record operating_hour =
  oh_day_of_week :: int
  oh_start_local_time :: time_of_day
  oh_end_local_time :: time_of_day
  oh_emergency_only :: bool
  oh_active :: bool
  oh_updated_by :: "uuid option"

record service_zone_offering = row +
  szo_service_area_id :: uuid
  szo_service_id :: uuid
  szo_active :: bool
  szo_regular_service_enabled :: bool
  szo_emergency_service_enabled :: bool

end
