(* ===== verification/Booking_Lifecycle.thy ===== *)
theory Booking_Lifecycle
  imports Booking_Models
begin

text \<open>
  \<^verbatim>\<open>booking/lifecycle.py\<close>: the table of allowed booking transitions and the check that guards them.
\<close>

section \<open>The table\<close>

fun ALLOWED_TRANSITIONS :: "booking_status transitions" where
  "ALLOWED_TRANSITIONS B_DRAFT = Some [B_REQUESTED, B_EXPIRED]"
| "ALLOWED_TRANSITIONS B_REQUESTED = Some [B_PENDING_REVIEW, B_ADDRESS_VALIDATED, B_CANCELLED]"
| "ALLOWED_TRANSITIONS B_PENDING_REVIEW = Some [B_ADDRESS_VALIDATED, B_NO_COVERAGE, B_CANCELLED]"
| "ALLOWED_TRANSITIONS B_ADDRESS_VALIDATED =
     Some [B_COVERAGE_CONFIRMED, B_NO_COVERAGE, B_CANCELLED]"
| "ALLOWED_TRANSITIONS B_COVERAGE_CONFIRMED =
     Some [B_AVAILABILITY_FOUND, B_NO_CAPACITY, B_QUOTE_REQUIRED, B_CANCELLED]"
| "ALLOWED_TRANSITIONS B_AVAILABILITY_FOUND = Some [B_CAPACITY_HELD, B_NO_CAPACITY, B_CANCELLED]"
| "ALLOWED_TRANSITIONS B_CAPACITY_HELD =
     Some [B_AWAITING_ASSIGNMENT, B_PENDING_MANUAL_DISPATCH, B_EXPIRED, B_CANCELLED]"
| "ALLOWED_TRANSITIONS B_AWAITING_ASSIGNMENT =
     Some [B_PROVIDER_ASSIGNED, B_NO_CAPACITY, B_CANCELLED]"
| "ALLOWED_TRANSITIONS B_PENDING_MANUAL_DISPATCH =
     Some [B_PROVIDER_ASSIGNED, B_CONFIRMED, B_NO_CAPACITY, B_CANCELLED]"
| "ALLOWED_TRANSITIONS B_PROVIDER_ASSIGNED =
     Some [B_CONFIRMED, B_PROVIDER_DECLINED, B_REASSIGNMENT_REQUIRED, B_CANCELLED]"
| "ALLOWED_TRANSITIONS B_PROVIDER_DECLINED = Some [B_REASSIGNMENT_REQUIRED, B_CANCELLED]"
| "ALLOWED_TRANSITIONS B_REASSIGNMENT_REQUIRED =
     Some [B_PROVIDER_ASSIGNED, B_NO_CAPACITY, B_CANCELLED]"
| "ALLOWED_TRANSITIONS B_CONFIRMED =
     Some [B_EN_ROUTE, B_RESCHEDULED, B_REASSIGNMENT_REQUIRED, B_CANCELLED]"
| "ALLOWED_TRANSITIONS B_RESCHEDULED =
     Some [B_CAPACITY_HELD, B_AWAITING_ASSIGNMENT, B_PENDING_MANUAL_DISPATCH, B_CANCELLED]"
| "ALLOWED_TRANSITIONS B_EN_ROUTE = Some [B_IN_PROGRESS, B_CANCELLED]"
| "ALLOWED_TRANSITIONS B_IN_PROGRESS = Some [B_COMPLETED]"
| "ALLOWED_TRANSITIONS _ = None"

definition ensure_transition :: "booking_status \<Rightarrow> booking_status \<Rightarrow> unit result" where
  "ensure_transition current target =
     (if \<not> List.member (case ALLOWED_TRANSITIONS current of None \<Rightarrow> [] | Some ts \<Rightarrow> ts) target
      then Inl (DomainError ''INVALID_STATE_TRANSITION'' 409)
      else Inr ())"

section \<open>The interface\<close>

definition booking_final :: "booking_status \<Rightarrow> bool" where
  "booking_final s = (ALLOWED_TRANSITIONS s = None)"

lemma ensure_transition_Inr [simp]:
  "ensure_transition a b = Inr u \<longleftrightarrow> can_transition ALLOWED_TRANSITIONS a b"
  by (cases "ALLOWED_TRANSITIONS a") (simp_all add: ensure_transition_def can_transition_def)

lemma allowed_nonempty: "ALLOWED_TRANSITIONS s \<noteq> Some []"
  by (cases s) simp_all

interpretation booking_machine: lifecycle ALLOWED_TRANSITIONS booking_final
proof
  fix s
  show "booking_final s \<longleftrightarrow>
      (case ALLOWED_TRANSITIONS s of None \<Rightarrow> True | Some targets \<Rightarrow> targets = [])"
    using allowed_nonempty [of s] by (cases "ALLOWED_TRANSITIONS s") (auto simp: booking_final_def)
qed

section \<open>What the table guarantees\<close>

lemma into_completed: "can_transition ALLOWED_TRANSITIONS r B_COMPLETED \<Longrightarrow> r = B_IN_PROGRESS"
  by (cases r) (simp_all add: can_transition_def)

lemma into_in_progress: "can_transition ALLOWED_TRANSITIONS r B_IN_PROGRESS \<Longrightarrow> r = B_EN_ROUTE"
  by (cases r) (simp_all add: can_transition_def)

lemma into_en_route: "can_transition ALLOWED_TRANSITIONS r B_EN_ROUTE \<Longrightarrow> r = B_CONFIRMED"
  by (cases r) (simp_all add: can_transition_def)

lemma into_confirmed:
  "can_transition ALLOWED_TRANSITIONS r B_CONFIRMED \<Longrightarrow>
   r \<in> {B_PENDING_MANUAL_DISPATCH, B_PROVIDER_ASSIGNED}"
  by (cases r) (simp_all add: can_transition_def)

lemma booking_last_step:
  assumes "run_checked ensure_transition s path = Inr t" and "t \<noteq> s"
  obtains p r where "path = p @ [t]" and "run_checked ensure_transition s p = Inr r"
    and "can_transition ALLOWED_TRANSITIONS r t"
  using run_checked_last_step [OF assms] by (metis ensure_transition_Inr)

text \<open>
  A booking that reaches COMPLETED through checked transitions, from a status before the visit,
  was confirmed first and then passed EN_ROUTE and IN_PROGRESS: every accepted sequence of
  requested statuses ends in CONFIRMED, EN_ROUTE, IN_PROGRESS, COMPLETED.
\<close>

lemma completed_only_after_confirmed:
  assumes run: "run_checked ensure_transition s path = Inr B_COMPLETED"
    and start: "s \<notin> {B_CONFIRMED, B_EN_ROUTE, B_IN_PROGRESS, B_COMPLETED}"
  shows "\<exists>p. path = p @ [B_CONFIRMED, B_EN_ROUTE, B_IN_PROGRESS, B_COMPLETED]"
proof -
  obtain p1 r1 where p1: "path = p1 @ [B_COMPLETED]"
    "run_checked ensure_transition s p1 = Inr r1" "can_transition ALLOWED_TRANSITIONS r1 B_COMPLETED"
    using booking_last_step [OF run] start by blast
  with into_completed have "run_checked ensure_transition s p1 = Inr B_IN_PROGRESS" by blast
  then obtain p2 r2 where p2: "p1 = p2 @ [B_IN_PROGRESS]"
    "run_checked ensure_transition s p2 = Inr r2" "can_transition ALLOWED_TRANSITIONS r2 B_IN_PROGRESS"
    using booking_last_step start by blast
  with into_in_progress have "run_checked ensure_transition s p2 = Inr B_EN_ROUTE" by blast
  then obtain p3 r3 where p3: "p2 = p3 @ [B_EN_ROUTE]"
    "run_checked ensure_transition s p3 = Inr r3" "can_transition ALLOWED_TRANSITIONS r3 B_EN_ROUTE"
    using booking_last_step start by blast
  with into_en_route have "run_checked ensure_transition s p3 = Inr B_CONFIRMED" by blast
  then obtain p4 r4 where "p3 = p4 @ [B_CONFIRMED]"
    using booking_last_step start by blast
  with p1(1) p2(1) p3(1) show ?thesis by simp
qed

lemma completed_only_after_confirmed_witness:
  "\<exists>p. [B_PROVIDER_ASSIGNED, B_CONFIRMED, B_EN_ROUTE, B_IN_PROGRESS, B_COMPLETED]
      = p @ [B_CONFIRMED, B_EN_ROUTE, B_IN_PROGRESS, B_COMPLETED]"
proof -
  have "run_checked ensure_transition B_PENDING_MANUAL_DISPATCH
      [B_PROVIDER_ASSIGNED, B_CONFIRMED, B_EN_ROUTE, B_IN_PROGRESS, B_COMPLETED] = Inr B_COMPLETED"
    by (simp add: ensure_transition_def)
  then show ?thesis by (rule completed_only_after_confirmed) simp
qed

text \<open>
  The statuses without an exit are the outcomes (COMPLETED, NO_COVERAGE, NO_CAPACITY,
  QUOTE_REQUIRED, CANCELLED, EXPIRED) and the three legacy statuses; from one of them every request
  is refused with INVALID_STATE_TRANSITION (409), and a run never leaves it.
\<close>

theorem booking_end_states:
  "(booking_final s \<longleftrightarrow> s \<in> {B_COMPLETED, B_NO_COVERAGE, B_NO_CAPACITY, B_QUOTE_REQUIRED,
      B_CANCELLED, B_EXPIRED, B_TENTATIVE_HOLD, B_PENDING_PAYMENT,
      B_PENDING_PROVIDER_CONFIRMATION})
   \<and> (if booking_final s
      then run_checked ensure_transition s (t # path)
             = Inl (DomainError ''INVALID_STATE_TRANSITION'' 409)
      else \<exists>u. ensure_transition s u = Inr ())"
proof (intro conjI)
  show "booking_final s \<longleftrightarrow> s \<in> {B_COMPLETED, B_NO_COVERAGE, B_NO_CAPACITY, B_QUOTE_REQUIRED,
      B_CANCELLED, B_EXPIRED, B_TENTATIVE_HOLD, B_PENDING_PAYMENT,
      B_PENDING_PROVIDER_CONFIRMATION}"
    by (cases s) (simp_all add: booking_final_def)
  show "if booking_final s
      then run_checked ensure_transition s (t # path)
             = Inl (DomainError ''INVALID_STATE_TRANSITION'' 409)
      else \<exists>u. ensure_transition s u = Inr ()"
    using booking_machine.not_final_step [of s]
    by (auto simp: booking_final_def ensure_transition_def can_transition_def split: option.splits)
qed

end
