(* ===== verification/Capacity.thy ===== *)
theory Capacity
  imports Booking_Models
begin

text \<open>
  \<^verbatim>\<open>booking/capacity.py\<close>: the arithmetic that decides whether one more visit fits a provider's day.
\<close>

record capacity_limit =
  max_jobs :: int
  max_minutes :: int
  max_concurrent_jobs :: int
  emergency_reserved_jobs :: int
  emergency_reserved_minutes :: int

record capacity_usage =
  job_count :: int
  booking_minutes :: int
  hold_count :: int
  hold_minutes :: int
  buffer_minutes :: int
  travel_minutes :: int

definition reserved_minutes :: "capacity_usage \<Rightarrow> int" where
  "reserved_minutes u = booking_minutes u + hold_minutes u + buffer_minutes u + travel_minutes u"

record capacity_snapshot =
  cs_total_minutes :: int
  cs_reserved_minutes :: int
  cs_booking_minutes :: int
  cs_hold_minutes :: int
  cs_buffer_minutes :: int
  cs_travel_minutes :: int
  cs_remaining_minutes :: int
  cs_job_count :: int
  cs_hold_count :: int
  cs_max_job_count :: int

definition capacity_consumption :: "int \<Rightarrow> int \<Rightarrow> int \<Rightarrow> int \<Rightarrow> int result" where
  "capacity_consumption service_minutes before_buffer after_buffer travel =
     (let vs = [service_minutes, before_buffer, after_buffer, travel]
      in if service_minutes \<le> 0 \<or> list_ex (\<lambda>v. v < 0) vs
         then Inl (DomainError ''INVALID_CAPACITY'' 422)
         else Inr (sum_list vs))"

definition snapshot :: "capacity_limit \<Rightarrow> capacity_usage \<Rightarrow> bool \<Rightarrow> capacity_snapshot result" where
  "snapshot limit usage emergency =
     (if max_jobs limit \<le> 0 \<or> max_minutes limit \<le> 0 \<or> max_concurrent_jobs limit \<le> 0
      then Inl (DomainError ''INVALID_CAPACITY'' 422)
      else
        let jobs = (if emergency then max_jobs limit
                    else max (max_jobs limit - emergency_reserved_jobs limit) 0);
            mins = (if emergency then max_minutes limit
                    else max (max_minutes limit - emergency_reserved_minutes limit) 0);
            reserved = reserved_minutes usage
        in Inr \<lparr>cs_total_minutes = mins, cs_reserved_minutes = reserved,
                cs_booking_minutes = booking_minutes usage, cs_hold_minutes = hold_minutes usage,
                cs_buffer_minutes = buffer_minutes usage, cs_travel_minutes = travel_minutes usage,
                cs_remaining_minutes = max (mins - reserved) 0,
                cs_job_count = job_count usage + hold_count usage,
                cs_hold_count = hold_count usage, cs_max_job_count = jobs\<rparr>)"

definition ensure_capacity ::
  "capacity_limit \<Rightarrow> capacity_usage \<Rightarrow> int \<Rightarrow> int \<Rightarrow> bool \<Rightarrow> capacity_snapshot result"
where
  "ensure_capacity limit usage requested overlapping emergency =
     (case snapshot limit usage emergency of
        Inl e \<Rightarrow> Inl e
      | Inr current \<Rightarrow>
          if requested \<le> 0 then Inl (DomainError ''INVALID_CAPACITY'' 422)
          else if cs_job_count current \<ge> cs_max_job_count current
               \<or> requested > cs_remaining_minutes current
          then Inl (DomainError ''NO_CAPACITY'' 409)
          else if overlapping \<ge> max_concurrent_jobs limit
          then Inl (DomainError ''HOLD_CONFLICT'' 409)
          else Inr current)"

definition hold_is_active :: "string \<Rightarrow> py_datetime \<Rightarrow> datetime \<Rightarrow> bool result" where
  "hold_is_active status expires_at now =
     (case expires_at of
        Naive _ \<Rightarrow> Inl (DomainError ''INVALID_HOLD'' 500)
      | Aware t _ \<Rightarrow> Inr (status = ''HELD'' \<and> t > now))"

section \<open>What is left for ordinary and for emergency work\<close>

definition job_ceiling :: "capacity_limit \<Rightarrow> bool \<Rightarrow> int" where
  "job_ceiling limit emergency =
     (if emergency then max_jobs limit else max (max_jobs limit - emergency_reserved_jobs limit) 0)"

definition minute_ceiling :: "capacity_limit \<Rightarrow> bool \<Rightarrow> int" where
  "minute_ceiling limit emergency =
     (if emergency then max_minutes limit
      else max (max_minutes limit - emergency_reserved_minutes limit) 0)"

definition within_limit :: "capacity_limit \<Rightarrow> bool \<Rightarrow> capacity_usage \<Rightarrow> bool" where
  "within_limit limit emergency u =
     (job_count u + hold_count u \<le> job_ceiling limit emergency
      \<and> reserved_minutes u \<le> minute_ceiling limit emergency)"

text \<open>What a granted hold adds to the usage, as \<^verbatim>\<open>ProviderMatcher._usage\<close> counts it next time.\<close>

definition with_hold :: "int \<Rightarrow> capacity_usage \<Rightarrow> capacity_usage" where
  "with_hold requested u =
     u\<lparr>hold_count := hold_count u + 1, hold_minutes := hold_minutes u + requested\<rparr>"

text \<open>Holds requested one after the other; a refused request leaves the usage as it was.\<close>

fun grant_holds :: "capacity_limit \<Rightarrow> bool \<Rightarrow> capacity_usage \<Rightarrow> (int \<times> int) list \<Rightarrow> capacity_usage" where
  "grant_holds limit emergency u [] = u"
| "grant_holds limit emergency u ((requested, overlapping) # rest) =
     (case ensure_capacity limit u requested overlapping emergency of
        Inl _ \<Rightarrow> grant_holds limit emergency u rest
      | Inr _ \<Rightarrow> grant_holds limit emergency (with_hold requested u) rest)"

lemmas capacity_defs = ensure_capacity_def snapshot_def job_ceiling_def minute_ceiling_def

lemma ensure_capacity_Inr:
  "ensure_capacity limit u requested overlapping emergency = Inr c \<Longrightarrow>
     0 < requested \<and> overlapping < max_concurrent_jobs limit
     \<and> job_count u + hold_count u < job_ceiling limit emergency
     \<and> reserved_minutes u + requested \<le> minute_ceiling limit emergency
     \<and> cs_remaining_minutes c = minute_ceiling limit emergency - reserved_minutes u"
  by (auto simp: capacity_defs Let_def split: if_splits)

lemma with_hold_within:
  "ensure_capacity limit u requested overlapping emergency = Inr c \<Longrightarrow>
   within_limit limit emergency (with_hold requested u)"
  by (drule ensure_capacity_Inr) (auto simp: within_limit_def with_hold_def reserved_minutes_def)

text \<open>
  \<^verbatim>\<open>ensure_capacity\<close> accepts exactly when the limits are positive, the request is positive, one
  more visit stays within the job ceiling, its minutes within the minute ceiling and the number of
  overlapping visits below the concurrency limit; every refusal has the code of the first check
  that fails, in the order of the code.
\<close>

theorem ensure_capacity_decides:
  "ensure_capacity limit u requested overlapping emergency =
     (if max_jobs limit \<le> 0 \<or> max_minutes limit \<le> 0 \<or> max_concurrent_jobs limit \<le> 0 \<or> requested \<le> 0
      then Inl (DomainError ''INVALID_CAPACITY'' 422)
      else if job_ceiling limit emergency < job_count u + hold_count u + 1
           \<or> minute_ceiling limit emergency < reserved_minutes u + requested
      then Inl (DomainError ''NO_CAPACITY'' 409)
      else if max_concurrent_jobs limit < overlapping + 1
      then Inl (DomainError ''HOLD_CONFLICT'' 409)
      else snapshot limit u emergency)"
  by (auto simp: capacity_defs Let_def)

text \<open>
  C4: No sequence of capacity requests overbooks a day: from a usage within the ceilings, granting
  every accepted request in turn stays within them, and for ordinary (non-emergency) work the
  minutes and visits reserved for emergencies stay free.
\<close>

theorem grant_holds_within:
  assumes "within_limit limit emergency u"
  shows "within_limit limit emergency (grant_holds limit emergency u requests)"
  using assms
proof (induction limit emergency u requests rule: grant_holds.induct)
  case (2 limit emergency u requested overlapping rest)
  then show ?case
    by (cases "ensure_capacity limit u requested overlapping emergency")
      (auto dest: with_hold_within)
qed simp

definition sample_limit :: capacity_limit where
  "sample_limit = \<lparr>max_jobs = 3, max_minutes = 300, max_concurrent_jobs = 1,
     emergency_reserved_jobs = 1, emergency_reserved_minutes = 60\<rparr>"

definition idle_usage :: capacity_usage where
  "idle_usage = \<lparr>job_count = 0, booking_minutes = 0, hold_count = 0, hold_minutes = 0,
     buffer_minutes = 0, travel_minutes = 0\<rparr>"

theorem grant_holds_within_witness:
  "within_limit sample_limit False idle_usage
   \<and> hold_count (grant_holds sample_limit False idle_usage [(90, 0), (400, 0), (120, 0), (30, 0)]) = 2
   \<and> within_limit sample_limit False
       (grant_holds sample_limit False idle_usage [(90, 0), (400, 0), (120, 0), (30, 0)])"
proof (intro conjI)
  show idle: "within_limit sample_limit False idle_usage"
    by (simp add: within_limit_def sample_limit_def idle_usage_def job_ceiling_def
        minute_ceiling_def reserved_minutes_def)
  show "hold_count (grant_holds sample_limit False idle_usage
      [(90, 0), (400, 0), (120, 0), (30, 0)]) = 2"
    by (simp add: sample_limit_def idle_usage_def ensure_capacity_def snapshot_def with_hold_def
        reserved_minutes_def)
  show "within_limit sample_limit False
       (grant_holds sample_limit False idle_usage [(90, 0), (400, 0), (120, 0), (30, 0)])"
    using idle by (rule grant_holds_within)
qed

text \<open>
  The emergency reserve only helps emergencies: with non-negative reserves, what is accepted as
  ordinary work is accepted as emergency work too.
\<close>

theorem emergency_no_worse:
  assumes "0 \<le> emergency_reserved_jobs limit" and "0 \<le> emergency_reserved_minutes limit"
    and "ensure_capacity limit u requested overlapping False = Inr c"
  shows "\<exists>c'. ensure_capacity limit u requested overlapping True = Inr c'
      \<and> cs_remaining_minutes c \<le> cs_remaining_minutes c'"
  using assms by (auto simp: capacity_defs Let_def split: if_splits)

theorem emergency_no_worse_witness:
  "\<exists>c c'. ensure_capacity sample_limit idle_usage 240 0 False = Inr c
     \<and> ensure_capacity sample_limit idle_usage 240 0 True = Inr c'
     \<and> cs_remaining_minutes c \<le> cs_remaining_minutes c'"
proof -
  have "\<exists>c. ensure_capacity sample_limit idle_usage 240 0 False = Inr c"
    by (simp add: capacity_defs sample_limit_def idle_usage_def reserved_minutes_def)
  then obtain c where c: "ensure_capacity sample_limit idle_usage 240 0 False = Inr c" ..
  from emergency_no_worse [OF _ _ c] c show ?thesis
    by (auto simp: sample_limit_def)
qed

end
