(* ===== verification/Timezones.thy ===== *)
theory Timezones
  imports Booking_Models
begin

text \<open>
  \<^verbatim>\<open>booking/timezones.py\<close>: wall-clock appointments to UTC, and the operating-hours check.

  A \<^verbatim>\<open>ZoneInfo\<close> is its offset before the first transition and the list of its transitions (UTC
  instant, offset from then on) in ascending order; \<open>from_utc\<close> and \<open>utc_offset\<close> are what the standard
  library computes from them, with the \<^verbatim>\<open>fold\<close> flag as it defines it.  The database of zones is the
  parameter \<open>tzdb\<close>; a missing name is \<^verbatim>\<open>ZoneInfoNotFoundError\<close>.
\<close>

section \<open>ZoneInfo\<close>

record zone =
  tz_before :: int
  tz_transitions :: "(datetime \<times> int) list"

fun scan_utc :: "int \<Rightarrow> int \<Rightarrow> datetime \<Rightarrow> (datetime \<times> int) list \<Rightarrow> datetime \<Rightarrow> datetime \<times> bool" where
  "scan_utc prev off t [] u = (u + off, prev - off > u - t)"
| "scan_utc prev off t ((t', off') # rest) u =
     (if t' \<le> u then scan_utc off off' t' rest u else (u + off, prev - off > u - t))"

definition from_utc :: "zone \<Rightarrow> datetime \<Rightarrow> datetime \<times> bool" where
  "from_utc z u =
     (case tz_transitions z of
        [] \<Rightarrow> (u + tz_before z, False)
      | (t, off) # rest \<Rightarrow>
          if u < t then (u + tz_before z, False) else scan_utc (tz_before z) off t rest u)"

fun scan_local :: "int \<Rightarrow> (datetime \<times> int) list \<Rightarrow> bool \<Rightarrow> datetime \<Rightarrow> int" where
  "scan_local off [] fld l = off"
| "scan_local off ((t, off') # rest) fld l =
     (if t + (if fld then min off off' else max off off') \<le> l
      then scan_local off' rest fld l else off)"

definition utc_offset :: "zone \<Rightarrow> bool \<Rightarrow> datetime \<Rightarrow> int" where
  "utc_offset z fld l = scan_local (tz_before z) (tz_transitions z) fld l"

text \<open>
  Real zones change their offset by less than the time between two changes, so that the wall-clock
  stretches a change skips or repeats never touch.
\<close>

fun transitions_ok :: "int \<Rightarrow> (datetime \<times> int) list \<Rightarrow> bool" where
  "transitions_ok off [] = True"
| "transitions_ok off [_] = True"
| "transitions_ok off ((t, off') # (t', off'') # rest) =
     (t < t' \<and> t + max off off' \<le> t' + min off' off''
      \<and> transitions_ok off' ((t', off'') # rest))"

definition zone_ok :: "zone \<Rightarrow> bool" where
  "zone_ok z = transitions_ok (tz_before z) (tz_transitions z)"

section \<open>local_to_utc, local_interval\<close>

definition timezone :: "(string \<Rightarrow> zone option) \<Rightarrow> string \<Rightarrow> zone result" where
  "timezone tzdb name = of_option (DomainError ''TIMEZONE_UNRESOLVED'' 422) (tzdb name)"

text \<open>The folds whose reading of the wall-clock value survives a trip to UTC and back.\<close>

definition candidate_folds :: "zone \<Rightarrow> datetime \<Rightarrow> bool list" where
  "candidate_folds z l = filter (\<lambda>f. from_utc z (l - utc_offset z f l) = (l, f)) [False, True]"

definition local_to_utc ::
  "(string \<Rightarrow> zone option) \<Rightarrow> py_datetime \<Rightarrow> string \<Rightarrow> bool option \<Rightarrow> datetime result"
where
  "local_to_utc tzdb v name fld =
     (case v of
        Aware _ _ \<Rightarrow> Inl (DomainError ''INVALID_LOCAL_TIME'' 422)
      | Naive l \<Rightarrow>
          bindE (timezone tzdb name) (\<lambda>z.
            let candidates = candidate_folds z l;
                unique = remdups (map (\<lambda>f. utc_offset z f l) candidates)
            in if candidates = [] then Inl (DomainError ''NONEXISTENT_LOCAL_TIME'' 422)
               else if length unique > 1 \<and> fld = None
               then Inl (DomainError ''AMBIGUOUS_LOCAL_TIME'' 422)
               else
                 let selected_fold = (case fld of Some f \<Rightarrow> f | None \<Rightarrow> hd candidates)
                 in case find (\<lambda>f. f = selected_fold) candidates of
                      None \<Rightarrow> Inl (DomainError ''INVALID_LOCAL_TIME'' 422)
                    | Some f \<Rightarrow> Inr (l - utc_offset z f l)))"

record localized_interval =
  start_utc :: datetime
  end_utc :: datetime
  interval_timezone_id :: string

definition local_interval ::
  "(string \<Rightarrow> zone option) \<Rightarrow> py_datetime \<Rightarrow> py_datetime \<Rightarrow> string \<Rightarrow> bool option \<Rightarrow> bool option
   \<Rightarrow> localized_interval result"
where
  "local_interval tzdb start_local end_local name start_fold end_fold =
     bindE (local_to_utc tzdb start_local name start_fold) (\<lambda>s.
     bindE (local_to_utc tzdb end_local name end_fold) (\<lambda>e.
       if e \<le> s then Inl (DomainError ''INVALID_TIME_RANGE'' 422)
       else Inr \<lparr>start_utc = s, end_utc = e, interval_timezone_id = name\<rparr>))"

section \<open>enforce_breero_hours\<close>

definition OPEN_LOCAL :: time_of_day where "OPEN_LOCAL = hours_of 7"
definition CLOSE_LOCAL :: time_of_day where "CLOSE_LOCAL = hours_of 19"

definition enforce_breero_hours ::
  "datetime \<Rightarrow> datetime \<Rightarrow> bool \<Rightarrow> bool \<Rightarrow> time_of_day \<Rightarrow> time_of_day \<Rightarrow> bool option \<Rightarrow> unit result"
where
  "enforce_breero_hours start_local end_local service_emergency provider_sunday open_local
      close_local emergency_only =
     (if date_of start_local \<noteq> date_of end_local \<or> time_of start_local < open_local
         \<or> time_of end_local > close_local
      then Inl (DomainError ''OUTSIDE_OPERATING_HOURS'' 422)
      else
        let restricted = (case emergency_only of
                            None \<Rightarrow> weekday (date_of start_local) = 6
                          | Some b \<Rightarrow> b)
        in if restricted \<and> \<not> (service_emergency \<and> provider_sunday)
           then Inl (DomainError ''SUNDAY_EMERGENCY_ONLY'' 422)
           else Inr ())"

section \<open>Wall clocks are inverse to instants\<close>

definition boundary :: "int \<Rightarrow> datetime \<Rightarrow> int \<Rightarrow> bool \<Rightarrow> datetime" where
  "boundary off t off' f = t + (if f then min off off' else max off off')"

lemma scan_local_below:
  assumes "rest = [] \<or> (case hd rest of (t', off'') \<Rightarrow> l < boundary off t' off'' f)"
  shows "scan_local off rest f l = off"
  using assms by (cases rest) (auto simp: boundary_def split: if_splits)

text \<open>Once the wall clock has passed one transition, the scan continues behind it.\<close>

lemma scan_utc_inverse:
  assumes "transitions_ok prev ((t, off) # rest)" and "t \<le> u"
    and "scan_utc prev off t rest u = (l, f)"
  shows "boundary prev t off f \<le> l \<and> scan_local off rest f l = l - u"
  using assms
proof (induction rest arbitrary: prev off t)
  case Nil
  then show ?case by (auto simp: boundary_def)
next
  case (Cons x rest)
  obtain t' off' where x: "x = (t', off')" by (cases x)
  from Cons.prems(1) x have ok: "t < t'" "t + max prev off \<le> t' + min off off'"
    "transitions_ok off ((t', off') # rest)" by simp_all
  show ?case
  proof (cases "t' \<le> u")
    case True
    with Cons.prems(3) x have "scan_utc off off' t' rest u = (l, f)" by simp
    with Cons.IH [OF ok(3) True]
    have IH: "boundary off t' off' f \<le> l" "scan_local off' rest f l = l - u" by simp_all
    moreover have "boundary prev t off f \<le> boundary off t' off' f"
      using ok(2) by (auto simp: boundary_def)
    ultimately show ?thesis using x by (auto simp: boundary_def)
  next
    case False
    with Cons.prems(3) x have l: "l = u + off" and f: "f \<longleftrightarrow> prev - off > u - t" by auto
    have "boundary prev t off f \<le> l"
      using l f Cons.prems(2) by (auto simp: boundary_def)
    moreover have "l < boundary off t' off' f"
      using l f False ok(2) by (auto simp: boundary_def)
    ultimately show ?thesis using x l scan_local_below [of "x # rest"] by simp
  qed
qed

lemma from_utc_inverse:
  assumes "zone_ok z" and "from_utc z u = (l, f)"
  shows "utc_offset z f l = l - u"
proof (cases "tz_transitions z")
  case Nil
  with assms show ?thesis by (auto simp: utc_offset_def from_utc_def)
next
  case (Cons x rest)
  obtain t off where x: "x = (t, off)" by (cases x)
  with Cons assms(1) have ok: "transitions_ok (tz_before z) ((t, off) # rest)"
    by (simp add: zone_ok_def)
  show ?thesis
  proof (cases "u < t")
    case True
    with assms(2) Cons x have "l = u + tz_before z" and "f = False" by (auto simp: from_utc_def)
    moreover from this True have "\<not> t + max (tz_before z) off \<le> l" by linarith
    ultimately show ?thesis using Cons x by (simp add: utc_offset_def)
  next
    case False
    then have "t \<le> u" by simp
    with assms(2) Cons x have "scan_utc (tz_before z) off t rest u = (l, f)"
      by (simp add: from_utc_def)
    from scan_utc_inverse [OF ok \<open>t \<le> u\<close> this] Cons x show ?thesis
      by (simp add: utc_offset_def boundary_def)
  qed
qed

lemma candidate_mem:
  "f \<in> set (candidate_folds z l) \<longleftrightarrow> from_utc z (l - utc_offset z f l) = (l, f)"
  unfolding candidate_folds_def set_filter by (cases f) auto

lemma candidate_folds_iff:
  assumes "zone_ok z"
  shows "f \<in> set (candidate_folds z l) \<longleftrightarrow> (\<exists>u. from_utc z u = (l, f))"
proof
  assume "\<exists>u. from_utc z u = (l, f)"
  then obtain u where u: "from_utc z u = (l, f)" ..
  then have "l - utc_offset z f l = u" using from_utc_inverse [OF assms u] by simp
  with u show "f \<in> set (candidate_folds z l)" by (simp add: candidate_mem)
qed (auto simp: candidate_mem)

lemmas candidate_instant = candidate_mem [THEN iffD1]

lemma find_eq: "find (\<lambda>x. x = a) xs = (if a \<in> set xs then Some a else None)"
  by (induction xs) auto

lemma candidate_folds_cases:
  "candidate_folds z l \<in> {[], [False], [True], [False, True]}"
  by (simp add: candidate_folds_def)

lemma both_folds_differ:
  assumes "candidate_folds z l = [False, True]"
  shows "utc_offset z False l \<noteq> utc_offset z True l"
proof
  assume eq: "utc_offset z False l = utc_offset z True l"
  have "from_utc z (l - utc_offset z False l) = (l, False)"
    and "from_utc z (l - utc_offset z True l) = (l, True)"
    using assms candidate_instant [of _ z l] by simp_all
  with eq show False by (simp)
qed

section \<open>Properties\<close>

text \<open>
  Whatever instant \<^verbatim>\<open>local_to_utc\<close> returns shows exactly the requested wall-clock value in the
  zone of the service address, with the requested fold when one was given.  No assumption on the
  zone is needed.
\<close>

lemma local_to_utc_round_trip:
  assumes "local_to_utc tzdb (Naive l) name fld = Inr u"
  shows "\<exists>z f. tzdb name = Some z \<and> from_utc z u = (l, f) \<and> (case fld of None \<Rightarrow> True | Some g \<Rightarrow> f = g)"
proof -
  from assms obtain z where z: "tzdb name = Some z"
    by (auto simp: local_to_utc_def timezone_def elim: bindE_InrE)
  let ?sel = "case fld of Some f \<Rightarrow> f | None \<Rightarrow> hd (candidate_folds z l)"
  from assms z have "?sel \<in> set (candidate_folds z l)" and "u = l - utc_offset z ?sel l"
    by (auto simp: local_to_utc_def timezone_def of_option_def Let_def find_eq
        split: if_splits option.splits)
  then have "from_utc z u = (l, ?sel)" by (metis candidate_instant)
  then show ?thesis using z by (auto split: option.splits)
qed

definition new_york :: zone where
  "new_york = \<lparr>tz_before = - hours_of 5,
     tz_transitions = [(seconds 1772953200, - hours_of 4), (seconds 1793512800, - hours_of 5)]\<rparr>"

definition sample_tzdb :: "string \<Rightarrow> zone option" where
  "sample_tzdb name = (if name = ''America/New_York'' then Some new_york else None)"

lemmas tz_sample = sample_tzdb_def new_york_def local_to_utc_def timezone_def of_option_def
  candidate_folds_def utc_offset_def from_utc_def seconds_def hours_of_def

text \<open>2026-07-01 09:00 on the New York wall clock is 13:00 in UTC.\<close>

lemma summer_morning:
  "local_to_utc sample_tzdb (Naive (seconds 1782896400)) ''America/New_York'' None
     = Inr (seconds 1782910800)"
  by (simp add: tz_sample)

lemma local_to_utc_round_trip_witness:
  "\<exists>z f. sample_tzdb ''America/New_York'' = Some z
     \<and> from_utc z (seconds 1782910800) = (seconds 1782896400, f)"
  using local_to_utc_round_trip [OF summer_morning] by blast

text \<open>
  C7: In a zone whose offset changes are further apart than they are large, and without a chosen
  fold, \<^verbatim>\<open>local_to_utc\<close> returns an instant exactly when it is the only one that shows the wall-clock
  value; it reports NONEXISTENT_LOCAL_TIME exactly when there is none (the gap) and
  AMBIGUOUS_LOCAL_TIME exactly when there are several (the repeated hour).  It never guesses.
\<close>

theorem local_to_utc_never_guesses:
  assumes "tzdb name = Some z" and "zone_ok z"
  shows "(local_to_utc tzdb (Naive l) name None = Inr u \<longleftrightarrow> {v. fst (from_utc z v) = l} = {u})
    \<and> (local_to_utc tzdb (Naive l) name None = Inl (DomainError ''NONEXISTENT_LOCAL_TIME'' 422)
         \<longleftrightarrow> {v. fst (from_utc z v) = l} = {})
    \<and> (local_to_utc tzdb (Naive l) name None = Inl (DomainError ''AMBIGUOUS_LOCAL_TIME'' 422)
         \<longleftrightarrow> (\<exists>v w. v \<noteq> w \<and> fst (from_utc z v) = l \<and> fst (from_utc z w) = l))"
proof -
  let ?c = "candidate_folds z l" and ?S = "{v. fst (from_utc z v) = l}"
  have S: "?S = (\<lambda>f. l - utc_offset z f l) ` set ?c"
  proof (intro equalityI subsetI)
    fix v assume "v \<in> ?S"
    then obtain f where f: "from_utc z v = (l, f)" by (metis (mono_tags) mem_Collect_eq prod.collapse)
    with assms(2) have "f \<in> set ?c" and "v = l - utc_offset z f l"
      using candidate_folds_iff from_utc_inverse [OF assms(2) f] by auto
    then show "v \<in> (\<lambda>f. l - utc_offset z f l) ` set ?c" by blast
  next
    fix v assume "v \<in> (\<lambda>f. l - utc_offset z f l) ` set ?c"
    then show "v \<in> ?S" using candidate_instant by (auto)
  qed
  have two: "(\<exists>v w. v \<noteq> w \<and> fst (from_utc z v) = l \<and> fst (from_utc z w) = l)
      \<longleftrightarrow> (\<exists>v \<in> ?S. \<exists>w \<in> ?S. v \<noteq> w)" by blast
  consider "?c = []" | f where "?c = [f]" | "?c = [False, True]"
    using candidate_folds_cases [of z l] by auto
  then show ?thesis
  proof cases
    case 1
    with S have "?S = {}" by simp
    with 1 two show ?thesis
      using assms(1) by (simp add: local_to_utc_def timezone_def of_option_def)
  next
    case (2 f)
    with S have "?S = {l - utc_offset z f l}" by simp
    with 2 two show ?thesis
      using assms(1) by (auto simp: local_to_utc_def timezone_def of_option_def)
  next
    case 3
    with S have "?S = {l - utc_offset z False l, l - utc_offset z True l}" by simp
    with 3 two both_folds_differ [OF 3] show ?thesis
      using assms(1)
      by (auto simp: local_to_utc_def timezone_def of_option_def doubleton_eq_iff
         )
  qed
qed

text \<open>2026-03-08 02:30 does not exist and 2026-11-01 01:30 occurs twice in New York.\<close>

theorem local_to_utc_never_guesses_witness:
  "{v. fst (from_utc new_york v) = seconds 1772937000} = {}
   \<and> (\<exists>v w. v \<noteq> w \<and> fst (from_utc new_york v) = seconds 1793496600
        \<and> fst (from_utc new_york w) = seconds 1793496600)"
proof -
  have zone: "sample_tzdb ''America/New_York'' = Some new_york" "zone_ok new_york"
    by (simp_all add: sample_tzdb_def new_york_def zone_ok_def seconds_def hours_of_def)
  note spec = local_to_utc_never_guesses [where tzdb = sample_tzdb and
      name = "''America/New_York''", OF zone]
  have gap: "local_to_utc sample_tzdb (Naive (seconds 1772937000)) ''America/New_York'' None
      = Inl (DomainError ''NONEXISTENT_LOCAL_TIME'' 422)"
    by (simp add: tz_sample)
  have twice: "local_to_utc sample_tzdb (Naive (seconds 1793496600)) ''America/New_York'' None
      = Inl (DomainError ''AMBIGUOUS_LOCAL_TIME'' 422)"
    by (simp add: tz_sample)
  show ?thesis
  proof
    show "{v. fst (from_utc new_york v) = seconds 1772937000} = {}"
      by (rule spec [of "seconds 1772937000", THEN conjunct2, THEN conjunct1, THEN iffD1, OF gap])
    show "\<exists>v w. v \<noteq> w \<and> fst (from_utc new_york v) = seconds 1793496600
        \<and> fst (from_utc new_york w) = seconds 1793496600"
      by (rule spec [of "seconds 1793496600", THEN conjunct2, THEN conjunct2, THEN iffD1, OF twice])
  qed
qed

text \<open>
  An appointment that passes the operating-hours check lies on one calendar day, inside the
  opening hours, and is on a restricted day (Sunday unless configured otherwise) only for
  emergency-eligible services of a provider who takes Sunday emergencies; every other appointment
  is refused with the code of the rule it breaks.
\<close>

theorem breero_hours_decides:
  "enforce_breero_hours a b svc prov open_t close_t only =
     (if \<not> (combine (date_of a) open_t \<le> a \<and> b \<le> combine (date_of a) close_t
            \<and> date_of b = date_of a)
      then Inl (DomainError ''OUTSIDE_OPERATING_HOURS'' 422)
      else if (case only of None \<Rightarrow> weekday (date_of a) = 6 | Some r \<Rightarrow> r) \<and> \<not> (svc \<and> prov)
      then Inl (DomainError ''SUNDAY_EMERGENCY_ONLY'' 422)
      else Inr ())"
proof -
  have "time_of t < h \<longleftrightarrow> t < combine (date_of t) h" for t h
    using combine_date_time [of t] unfolding combine_def by linarith
  moreover have "h < time_of t \<longleftrightarrow> combine (date_of t) h < t" for t h
    using combine_date_time [of t] unfolding combine_def by linarith
  ultimately show ?thesis
    unfolding enforce_breero_hours_def Let_def by (auto simp: not_le)
qed

end
