(* ===== verification/Operations_Models.thy ===== *)
theory Operations_Models
  imports Booking_Models
begin

text \<open>
  The rows of the operations side of the store: jobs (\<^verbatim>\<open>jobs/models.py\<close>), dispatch
  (\<^verbatim>\<open>dispatch/models.py\<close>), the outbox and audit log (\<^verbatim>\<open>common/outbox.py\<close>), finance
  (\<^verbatim>\<open>finance/models.py\<close>), payments (\<^verbatim>\<open>payments/models.py\<close>), lead purchases
  (\<^verbatim>\<open>professional_leads/models.py\<close>) and public submissions.
\<close>

section \<open>auth/models.py\<close>

datatype user_role = UR_customer | UR_vendor_admin | UR_technician | UR_operations | UR_finance
  | UR_admin

record user = row +
  us_email :: string
  us_phone :: "string option"
  us_password_hash :: string
  us_full_name :: string
  us_role :: user_role
  us_is_active :: bool
  us_status :: string
  us_email_verified :: bool
  us_email_verified_at :: "datetime option"
  us_phone_verified_at :: "datetime option"
  us_last_login_at :: "datetime option"
  us_credential_version :: int
  us_password_set_required :: bool
  us_keycloak_subject :: "string option"
  us_keycloak_issuer :: "string option"
  us_keycloak_username :: "string option"
  us_keycloak_linked_at :: "datetime option"

record auth_session = row +
  ss_user_id :: uuid
  ss_token_hash :: string
  ss_family_id :: uuid
  ss_user_agent :: "string option"
  ss_ip_address :: "string option"
  ss_expires_at :: datetime
  ss_rotated_at :: "datetime option"
  ss_revoked_at :: "datetime option"

section \<open>jobs/models.py\<close>

datatype job_status =
    J_CREATED | J_MATCHING | J_OFFERED | J_ASSIGNED | J_EN_ROUTE | J_ON_SITE | J_DIAGNOSING
  | J_AWAITING_APPROVAL | J_IN_PROGRESS | J_COMPLETED | J_CANCELLED

datatype work_request_status =
    WR_DRAFT | WR_SUBMITTED | WR_PENDING_CUSTOMER | WR_APPROVED_PENDING_PAYMENT | WR_APPROVED
  | WR_DECLINED | WR_PAID | WR_CANCELLED | WR_EXPIRED

record job = row +
  jb_booking_id :: uuid
  jb_customer_id :: "uuid option"
  jb_service_id :: uuid
  jb_address_id :: uuid
  jb_status :: job_status
  jb_scheduled_start :: datetime
  jb_scheduled_end :: datetime
  jb_vendor_id :: "uuid option"
  jb_worker_id :: "uuid option"
  jb_version :: int
  jb_diagnostic_notes :: "string option"
  jb_completion_notes :: "string option"
  jb_completed_at :: "datetime option"

record job_event =
  je_job_id :: uuid
  je_from_status :: "job_status option"
  je_to_status :: job_status
  je_actor_id :: "uuid option"
  je_actor_type :: string
  je_reason :: "string option"
  je_metadata :: json_object

record line_item =
  li_description :: string
  li_quantity :: int
  li_unit_price_minor :: int

record work_request = row +
  wr_job_id :: uuid
  wr_status :: work_request_status
  wr_description :: string
  wr_line_items :: "line_item list"
  wr_subtotal_minor :: int
  wr_tax_minor :: int
  wr_total_minor :: int
  wr_currency :: string
  wr_payment_id :: "uuid option"
  wr_customer_decided_at :: "datetime option"
  wr_created_by :: uuid

section \<open>dispatch/models.py\<close>

datatype offer_status = O_PENDING | O_ACCEPTED | O_DECLINED | O_EXPIRED | O_WITHDRAWN

datatype assignment_status = AS_ACTIVE | AS_RELEASED | AS_COMPLETED

record dispatch_offer = row +
  of_job_id :: uuid
  of_vendor_id :: uuid
  of_worker_id :: "uuid option"
  of_status :: offer_status
  of_round :: int
  of_score :: int
  of_score_detail :: json_object
  of_expires_at :: datetime
  of_responded_at :: "datetime option"

record assignment =
  as_id :: uuid
  as_job_id :: uuid
  as_offer_id :: "uuid option"
  as_vendor_id :: uuid
  as_worker_id :: uuid
  as_status :: assignment_status
  as_assigned_by :: "uuid option"
  as_assigned_at :: datetime
  as_released_at :: "datetime option"

section \<open>common/outbox.py\<close>

datatype event_status =
    E_PENDING | E_PENDING_CONFIGURATION | E_PROCESSING | E_DELIVERED | E_RETRYING
  | E_FAILED_RETRYABLE | E_FAILED_TERMINAL | E_FAILED | E_DEAD_LETTER

record integration_event = row +
  ev_aggregate_type :: string
  ev_aggregate_id :: uuid
  ev_event_type :: string
  ev_aggregate_version :: int
  ev_schema_version :: int
  ev_idempotency_key :: "string option"
  ev_payload :: json_object
  ev_status :: event_status
  ev_attempt_count :: nat
  ev_next_attempt_at :: datetime
  ev_claimed_at :: "datetime option"
  ev_lease_expires_at :: "datetime option"
  ev_claim_token :: "uuid option"
  ev_processed_at :: "datetime option"
  ev_last_error :: "string option"
  ev_last_error_code :: "string option"
  ev_last_error_at :: "datetime option"
  ev_external_model :: "string option"
  ev_external_record_id :: "string option"

record audit_log =
  al_actor_id :: "uuid option"
  al_actor_type :: string
  al_action :: string
  al_resource_type :: string
  al_resource_id :: uuid
  al_metadata_json :: json_object
  al_created_at :: datetime

section \<open>finance/models.py\<close>

datatype compensation_method = CM_FIXED_MINOR | CM_PERCENTAGE | CM_SERVICE_RATE

datatype earning_status =
    EA_PENDING | EA_AVAILABLE | EA_HELD | EA_APPROVED | EA_BATCHED | EA_PAID | EA_CANCELLED
  | EA_REVERSED

datatype adjustment_type = ADJ_REFUND | ADJ_DISPUTE | ADJ_MANUAL | ADJ_REVERSAL

datatype payout_status =
    PO_DRAFT | PO_PENDING_APPROVAL | PO_APPROVED | PO_PROCESSING | PO_PAID | PO_FAILED
  | PO_CANCELLED

record compensation_plan = row +
  cp_vendor_id :: uuid
  cp_name :: string
  cp_method :: compensation_method
  cp_fixed_minor :: "int option"
  cp_percentage_bps :: "int option"
  cp_currency :: string
  cp_hold_days :: int
  cp_active :: bool
  cp_effective_from :: datetime
  cp_effective_to :: "datetime option"

record service_compensation =
  sc_id :: uuid
  sc_plan_id :: uuid
  sc_service_id :: uuid
  sc_rate_minor :: int
  sc_currency :: string

record compensation_snapshot =
  cs_id :: uuid
  cs_plan_id :: "uuid option"
  cs_vendor_id :: uuid
  cs_service_id :: uuid
  cs_method :: compensation_method
  cs_rule_json :: json_object
  cs_gross_minor :: int
  cs_compensation_minor :: int
  cs_currency :: string
  cs_hold_days :: int
  cs_committed_at :: datetime

record vendor_earning = row +
  ve_vendor_id :: uuid
  ve_job_id :: uuid
  ve_compensation_snapshot_id :: uuid
  ve_gross_minor :: int
  ve_fee_minor :: int
  ve_net_minor :: int
  ve_adjustment_total_minor :: int
  ve_currency :: string
  ve_status :: earning_status
  ve_available_at :: datetime
  ve_payout_batch_id :: "uuid option"

definition payable_minor :: "vendor_earning \<Rightarrow> int" where
  "payable_minor e = ve_net_minor e + ve_adjustment_total_minor e"

record earning_adjustment = row +
  aj_earning_id :: uuid
  aj_adjustment_type :: adjustment_type
  aj_amount_minor :: int
  aj_reason :: string
  aj_idempotency_key :: string
  aj_actor_id :: "uuid option"

record payout_batch = row +
  pb_reference :: string
  pb_status :: payout_status
  pb_currency :: string
  pb_total_minor :: int
  pb_earning_count :: int
  pb_reviewed_by :: "uuid option"
  pb_reviewed_at :: "datetime option"
  pb_approved_by :: "uuid option"
  pb_approved_at :: "datetime option"
  pb_idempotency_key :: "string option"
  pb_submitted_at :: "datetime option"
  pb_provider_transfer_id :: "string option"
  pb_provider_status :: "string option"
  pb_provider_reference :: "string option"
  pb_failure_reason :: "string option"

section \<open>payments/models.py\<close>

datatype payment_status =
    PY_CREATED | PY_REQUIRES_ACTION | PY_AUTHORIZED | PY_CAPTURED | PY_FAILED | PY_CANCELED
  | PY_REFUNDED | PY_PARTIALLY_REFUNDED

datatype payment_purpose = BOOKING_DIAGNOSTIC | QUOTE_ADDITIONAL_WORK | PROFESSIONAL_LEAD

record payment = row +
  py_booking_id :: "uuid option"
  py_quote_id :: "uuid option"
  py_lead_purchase_id :: "uuid option"
  py_payment_purpose :: payment_purpose
  py_provider :: string
  py_provider_payment_id :: "string option"
  py_status :: payment_status
  py_amount_minor :: int
  py_currency :: string
  py_captured_amount_minor :: int
  py_provider_client_secret :: "string option"
  py_failure_code :: "string option"
  py_metadata :: json_object

datatype refund_status = RF_PENDING | RF_SUCCEEDED | RF_FAILED | RF_CANCELED

record refund = row +
  rf_payment_id :: uuid
  rf_amount_minor :: int
  rf_status :: refund_status
  rf_provider_refund_id :: "string option"
  rf_idempotency_key :: string
  rf_reason :: "string option"
  rf_created_by :: uuid

record payment_event =
  pe_provider :: string
  pe_provider_event_id :: string
  pe_event_type :: string
  pe_payment_id :: "uuid option"
  pe_payload :: json_object
  pe_status :: string
  pe_attempts :: int
  pe_last_error :: "string option"
  pe_processed_at :: "datetime option"

record idempotency_record =
  ir_operation :: string
  ir_idempotency_key :: string
  ir_request_hash :: string
  ir_response_code :: "int option"
  ir_response_id :: "uuid option"

section \<open>professional_leads/models.py, public_submissions/models.py\<close>

datatype lead_status = L_AVAILABLE | L_RESERVED | L_PURCHASED | L_CLOSED

datatype lead_purchase_status = LP_PENDING_PAYMENT | LP_PAID | LP_FAILED | LP_REFUNDED

record professional_lead = row +
  pl_service_request_id :: "uuid option"
  pl_service_category :: string
  pl_location_summary :: string
  pl_qualification_criteria :: json_object
  pl_price_minor :: int
  pl_currency :: string
  pl_policy_version :: string
  pl_status :: lead_status
  pl_purchased_by_vendor_id :: "uuid option"
  pl_expires_at :: "datetime option"

record lead_purchase = row +
  lp_lead_id :: uuid
  lp_vendor_id :: uuid
  lp_idempotency_key :: string
  lp_price_minor :: int
  lp_currency :: string
  lp_status :: lead_purchase_status

datatype dispute_status = LD_OPEN | LD_APPROVED | LD_DENIED

record lead_dispute = row +
  ld_purchase_id :: uuid
  ld_vendor_id :: uuid
  ld_reason :: string
  ld_details :: string
  ld_status :: dispute_status
  ld_deadline_at :: datetime
  ld_resolution :: "string option"
  ld_resolution_reference :: "string option"

datatype submission_type = SERVICE_REQUEST | CONTACT | PROVIDER_INTEREST

datatype downstream_status = DS_PENDING | DS_PENDING_CONFIGURATION | DS_DELIVERED | DS_FAILED

record public_submission = row +
  sub_submission_type :: submission_type
  sub_idempotency_key :: string
  sub_request_hash :: string
  sub_normalized_email :: string
  sub_normalized_phone :: "string option"
  sub_payload :: json_object
  sub_downstream_status :: downstream_status
  sub_source_ip_hash :: string

section \<open>booking_intents/models.py\<close>

text \<open>
  A selected slot is stored as the JSON dump of a \<^verbatim>\<open>SlotSelection\<close>, whose wall-clock times are
  validated to have the shape hh:mm; they are kept as times of day.
\<close>

datatype booking_intent_status =
    BI_DRAFT | BI_ADDRESS_VALIDATED | BI_COVERAGE_CONFIRMED | BI_AVAILABILITY_FOUND
  | BI_SUBMITTED | BI_EXPIRED

record slot_selection =
  ss_slot_token :: string
  ss_start_local :: time_of_day
  ss_end_local :: time_of_day

record booking_intent = row +
  bi_public_reference :: string
  bi_anonymous_session_id :: uuid
  bi_service_id :: uuid
  bi_address_id :: "uuid option"
  bi_timezone_id :: "string option"
  bi_requested_date :: "date option"
  bi_selected_slot :: "slot_selection option"
  bi_status :: booking_intent_status
  bi_expires_at :: datetime
  bi_version :: int
  bi_booking_id :: "uuid option"

end
