(* ===== verification/Database.thy ===== *)
theory Database
  imports Operations_Models
begin

text \<open>
  The relational store as one record of tables, with one interpretation of the interface
  \<open>keyed_table\<close> for every table whose rows a handler updates by primary key, and the settings
  (\<^verbatim>\<open>settings/model.py\<close>) the handlers read.
\<close>

record db =
  legal_entities :: "legal_entity list"
  service_areas :: "service_area list"
  addresses :: "address list"
  coverages :: "provider_service_coverage list"
  working_hours :: "provider_working_hours list"
  customers :: "customer list"
  bookings :: "booking list"
  booking_answers :: "booking_answer list"
  service_zones :: "service_zone list"
  zone_postal_codes :: "service_zone_postal_code list"
  availability_rules :: "provider_availability_rule list"
  availability_exceptions :: "provider_availability_exception list"
  capacity_rules :: "provider_capacity_rule list"
  holds :: "capacity_hold list"
  assignment_history :: "provider_assignment_history list"
  services :: "service list"
  vendors :: "vendor list"
  workers :: "worker list"
  credentials :: "provider_credential list"
  provider_services :: "provider_service list"
  provider_service_areas :: "provider_service_area list"
  catalog_services :: "provider_catalog_service list"
  operating_hours :: "operating_hour list"
  zone_offerings :: "service_zone_offering list"
  jobs :: "job list"
  job_events :: "job_event list"
  work_requests :: "work_request list"
  offers :: "dispatch_offer list"
  assignments :: "assignment list"
  events :: "integration_event list"
  audit_logs :: "audit_log list"
  compensation_plans :: "compensation_plan list"
  service_compensations :: "service_compensation list"
  compensation_snapshots :: "compensation_snapshot list"
  earnings :: "vendor_earning list"
  adjustments :: "earning_adjustment list"
  payout_batches :: "payout_batch list"
  payments :: "payment list"
  refunds :: "refund list"
  payment_events :: "payment_event list"
  idempotency_records :: "idempotency_record list"
  leads :: "professional_lead list"
  lead_purchases :: "lead_purchase list"
  lead_disputes :: "lead_dispute list"
  submissions :: "public_submission list"
  booking_intents :: "booking_intent list"
  users :: "user list"
  auth_sessions :: "auth_session list"

definition empty_db :: db where
  "empty_db = \<lparr>legal_entities = [], service_areas = [], addresses = [], coverages = [],
    working_hours = [], customers = [], bookings = [], booking_answers = [], service_zones = [],
    zone_postal_codes = [], availability_rules = [], availability_exceptions = [],
    capacity_rules = [], holds = [], assignment_history = [], services = [], vendors = [],
    workers = [], credentials = [], provider_services = [], provider_service_areas = [],
    catalog_services = [], operating_hours = [], zone_offerings = [], jobs = [], job_events = [],
    work_requests = [], offers = [], assignments = [], events = [], audit_logs = [],
    compensation_plans = [], service_compensations = [], compensation_snapshots = [],
    earnings = [], adjustments = [], payout_batches = [], payments = [], refunds = [],
    payment_events = [], idempotency_records = [], leads = [], lead_purchases = [],
    lead_disputes = [], submissions = [], booking_intents = [], users = [], auth_sessions = []\<rparr>"

text \<open>The settings the modelled handlers read.\<close>

record settings =
  payments_enabled :: bool
  payout_enabled :: bool
  payout_provider :: string
  provider_assignment_mode :: string
  auto_assign_provider :: bool
  live_provider_dispatch :: bool
  keycloak_enabled :: bool
  keycloak_provisioning_enabled :: bool
  keycloak_issuer :: string
  stripe_enabled :: bool
  geocoding_enabled :: bool
  odoo_enabled :: bool
  middleware_enabled :: bool

interpretation booking_table:
  keyed_table "bookings :: db \<Rightarrow> booking list" "\<lambda>rs s. s\<lparr>bookings := rs\<rparr>" pk
  by unfold_locales simp_all

interpretation hold_table:
  keyed_table "holds :: db \<Rightarrow> capacity_hold list" "\<lambda>rs s. s\<lparr>holds := rs\<rparr>" pk
  by unfold_locales simp_all

interpretation job_table:
  keyed_table "jobs :: db \<Rightarrow> job list" "\<lambda>rs s. s\<lparr>jobs := rs\<rparr>" pk
  by unfold_locales simp_all

interpretation work_request_table:
  keyed_table "work_requests :: db \<Rightarrow> work_request list" "\<lambda>rs s. s\<lparr>work_requests := rs\<rparr>" pk
  by unfold_locales simp_all

interpretation offer_table:
  keyed_table "offers :: db \<Rightarrow> dispatch_offer list" "\<lambda>rs s. s\<lparr>offers := rs\<rparr>" pk
  by unfold_locales simp_all

interpretation event_table:
  keyed_table "events :: db \<Rightarrow> integration_event list" "\<lambda>rs s. s\<lparr>events := rs\<rparr>" pk
  by unfold_locales simp_all

interpretation earning_table:
  keyed_table "earnings :: db \<Rightarrow> vendor_earning list" "\<lambda>rs s. s\<lparr>earnings := rs\<rparr>" pk
  by unfold_locales simp_all

interpretation batch_table:
  keyed_table "payout_batches :: db \<Rightarrow> payout_batch list" "\<lambda>rs s. s\<lparr>payout_batches := rs\<rparr>" pk
  by unfold_locales simp_all

interpretation payment_table:
  keyed_table "payments :: db \<Rightarrow> payment list" "\<lambda>rs s. s\<lparr>payments := rs\<rparr>" pk
  by unfold_locales simp_all

interpretation refund_table:
  keyed_table "refunds :: db \<Rightarrow> refund list" "\<lambda>rs s. s\<lparr>refunds := rs\<rparr>" pk
  by unfold_locales simp_all

interpretation lead_table:
  keyed_table "leads :: db \<Rightarrow> professional_lead list" "\<lambda>rs s. s\<lparr>leads := rs\<rparr>" pk
  by unfold_locales simp_all

interpretation purchase_table:
  keyed_table "lead_purchases :: db \<Rightarrow> lead_purchase list" "\<lambda>rs s. s\<lparr>lead_purchases := rs\<rparr>" pk
  by unfold_locales simp_all

interpretation intent_table:
  keyed_table "booking_intents :: db \<Rightarrow> booking_intent list" "\<lambda>rs s. s\<lparr>booking_intents := rs\<rparr>" pk
  by unfold_locales simp_all

text \<open>Access by primary key, and the writes that several services share.\<close>

abbreviation get_booking :: "db \<Rightarrow> uuid \<Rightarrow> booking option" where
  "get_booking s i \<equiv> lookup_row pk i (bookings s)"

abbreviation get_job :: "db \<Rightarrow> uuid \<Rightarrow> job option" where
  "get_job s i \<equiv> lookup_row pk i (jobs s)"

abbreviation get_address :: "db \<Rightarrow> uuid \<Rightarrow> address option" where
  "get_address s i \<equiv> lookup_row pk i (addresses s)"

abbreviation get_service :: "db \<Rightarrow> uuid \<Rightarrow> service option" where
  "get_service s i \<equiv> lookup_row pk i (services s)"

abbreviation get_worker :: "db \<Rightarrow> uuid \<Rightarrow> worker option" where
  "get_worker s i \<equiv> lookup_row pk i (workers s)"

abbreviation get_vendor :: "db \<Rightarrow> uuid \<Rightarrow> vendor option" where
  "get_vendor s i \<equiv> lookup_row pk i (vendors s)"

abbreviation modify_booking :: "uuid \<Rightarrow> (booking \<Rightarrow> booking) \<Rightarrow> db \<Rightarrow> db" where
  "modify_booking i f s \<equiv> s\<lparr>bookings := update_row pk i f (bookings s)\<rparr>"

abbreviation modify_job :: "uuid \<Rightarrow> (job \<Rightarrow> job) \<Rightarrow> db \<Rightarrow> db" where
  "modify_job i f s \<equiv> s\<lparr>jobs := update_row pk i f (jobs s)\<rparr>"

abbreviation add_audit :: "audit_log \<Rightarrow> db \<Rightarrow> db" where
  "add_audit a s \<equiv> s\<lparr>audit_logs := audit_logs s @ [a]\<rparr>"

abbreviation add_event :: "integration_event \<Rightarrow> db \<Rightarrow> db" where
  "add_event e s \<equiv> s\<lparr>events := events s @ [e]\<rparr>"

text \<open>
  An outbox row as the services create it: not yet claimed and due at once.  The defaults are
  those of the columns.
\<close>

definition new_event ::
  "uuid \<Rightarrow> string \<Rightarrow> uuid \<Rightarrow> string \<Rightarrow> string option \<Rightarrow> json_object \<Rightarrow> datetime \<Rightarrow> integration_event"
where
  "new_event i agg_type agg_id ev_type key payload now =
     \<lparr>pk = i, created_at = now, ev_aggregate_type = agg_type, ev_aggregate_id = agg_id,
      ev_event_type = ev_type, ev_aggregate_version = 1, ev_schema_version = 1,
      ev_idempotency_key = key, ev_payload = payload, ev_status = E_PENDING,
      ev_attempt_count = 0, ev_next_attempt_at = now, ev_claimed_at = None,
      ev_lease_expires_at = None, ev_claim_token = None, ev_processed_at = None,
      ev_last_error = None, ev_last_error_code = None, ev_last_error_at = None,
      ev_external_model = None, ev_external_record_id = None\<rparr>"

end
