(* ===== verification/Postal.thy ===== *)
theory Postal
  imports Database
begin

text \<open>
  \<^verbatim>\<open>booking/postal.py\<close> and \<^verbatim>\<open>booking/zones.py\<close>: ZIP and state normalisation, and the choice of the
  service zone for a postal code.
\<close>

section \<open>postal.py\<close>

record us_postal_code =
  postal_code :: string
  plus4 :: "string option"

definition formatted :: "us_postal_code \<Rightarrow> string" where
  "formatted p = (case plus4 p of
      Some x \<Rightarrow> if x \<noteq> [] then postal_code p @ ''-'' @ x else postal_code p
    | None \<Rightarrow> postal_code p)"

text \<open>\<^verbatim>\<open>ZIP_PATTERN.fullmatch\<close>: five digits, then optionally a dash and four digits.\<close>

definition zip_fullmatch :: "string \<Rightarrow> us_postal_code option" where
  "zip_fullmatch s =
     (let zipc = take 5 s; rest = drop 5 s
      in if length zipc = 5 \<and> list_all is_digit zipc
         then (if rest = [] then Some \<lparr>postal_code = zipc, plus4 = None\<rparr>
               else if length rest = 5 \<and> hd rest = CHR ''-'' \<and> list_all is_digit (tl rest)
               then Some \<lparr>postal_code = zipc, plus4 = Some (tl rest)\<rparr>
               else None)
         else None)"

definition normalize_us_postal_code :: "string \<Rightarrow> us_postal_code result" where
  "normalize_us_postal_code v =
     of_option (DomainError ''INVALID_ZIP_CODE'' 422) (zip_fullmatch (strip v))"

definition normalize_state :: "string \<Rightarrow> string result" where
  "normalize_state v =
     (let state = upper (strip v)
      in if \<not> List.member US_STATES_AND_DC state
         then Inl (DomainError ''UNSUPPORTED_ADDRESS'' 422)
         else Inr state)"

lemma digit_not_space: "is_digit c \<Longrightarrow> \<not> is_space c"
  by (auto simp: is_digit_def is_space_def Let_def)

lemma dash_not_space: "\<not> is_space CHR ''-''"
  by (simp add: is_space_def)

lemma strip_no_space: "list_all (\<lambda>c. \<not> is_space c) s \<Longrightarrow> strip s = s"
proof -
  assume s: "list_all (\<lambda>c. \<not> is_space c) s"
  then have "lstrip s = s" by (cases s) (simp_all add: lstrip_def)
  moreover from s have "list_all (\<lambda>c. \<not> is_space c) (rev s)" by (simp add: list_all_iff)
  then have "lstrip (rev s) = rev s" by (cases "rev s") (simp_all add: lstrip_def)
  ultimately show ?thesis by (simp add: strip_def)
qed

lemma zip_fullmatch_formatted:
  assumes "zip_fullmatch s = Some p"
  shows "formatted p = s \<and> length (postal_code p) = 5 \<and> list_all is_digit (postal_code p)
    \<and> (case plus4 p of None \<Rightarrow> True | Some x \<Rightarrow> length x = 4 \<and> list_all is_digit x)"
proof (cases "drop 5 s")
  case Nil
  with assms show ?thesis
    by (auto simp: zip_fullmatch_def formatted_def Let_def split: if_splits)
next
  case (Cons c cs)
  with assms have p: "p = \<lparr>postal_code = take 5 s, plus4 = Some cs\<rparr>"
    and len: "length (take 5 s) = 5" "list_all is_digit (take 5 s)"
    and cs: "length cs = 4" "c = CHR ''-''" "list_all is_digit cs"
    by (auto simp: zip_fullmatch_def Let_def split: if_splits)
  have "take 5 s @ c # cs = s" using append_take_drop_id [of 5 s] Cons by simp
  with p len cs show ?thesis by (auto simp: formatted_def)
qed

lemma zip_no_space:
  assumes "zip_fullmatch s = Some p"
  shows "strip s = s"
proof -
  from zip_fullmatch_formatted [OF assms]
  have "list_all (\<lambda>c. \<not> is_space c) (formatted p)"
    by (auto simp: formatted_def list_all_iff digit_not_space dash_not_space
        split: option.splits if_splits)
  with zip_fullmatch_formatted [OF assms] show ?thesis by (simp add: strip_no_space)
qed

text \<open>
  C9: A normalised ZIP prints to a string that normalises to itself: five digits, with four more
  after a dash when present, and the printed form is the trimmed input.
\<close>

theorem postal_round_trip:
  assumes "normalize_us_postal_code v = Inr p"
  shows "formatted p = strip v \<and> normalize_us_postal_code (formatted p) = Inr p
    \<and> length (postal_code p) = 5 \<and> list_all is_digit (postal_code p)"
proof -
  from assms have m: "zip_fullmatch (strip v) = Some p"
    by (simp add: normalize_us_postal_code_def)
  from zip_fullmatch_formatted [OF m] m show ?thesis
    by (simp add: normalize_us_postal_code_def)
qed

theorem postal_round_trip_witness:
  "formatted \<lparr>postal_code = ''10115'', plus4 = Some ''0042''\<rparr> = strip '' 10115-0042 ''"
proof -
  have "normalize_us_postal_code '' 10115-0042 ''
      = Inr \<lparr>postal_code = ''10115'', plus4 = Some ''0042''\<rparr>"
    by code_simp
  from postal_round_trip [OF this] show ?thesis by simp
qed

section \<open>zones.py\<close>

type_synonym zone_row = "service_zone_postal_code \<times> service_zone"

text \<open>The join with its filters, ordered by priority and then by the id of the postal row.\<close>

definition zone_rows :: "db \<Rightarrow> string \<Rightarrow> string \<Rightarrow> zone_row list" where
  "zone_rows s zipc state =
     sort_key (\<lambda>r. szp_priority (fst r)) (sort_key (\<lambda>r. pk (fst r))
       [(p, z). p \<leftarrow> zone_postal_codes s, z \<leftarrow> service_zones s,
          pk z = szp_service_zone_id p \<and> szp_postal_code p = zipc \<and> szp_state p = state
          \<and> szp_active p \<and> sz_active z])"

definition city_matches :: "string \<Rightarrow> zone_row \<Rightarrow> bool" where
  "city_matches normalized_city r =
     (case szp_city (fst r) of
        None \<Rightarrow> True
      | Some c \<Rightarrow> c = [] \<or> lower c = normalized_city)"

definition resolve_postal ::
  "db \<Rightarrow> string \<Rightarrow> string \<Rightarrow> string option \<Rightarrow> zone_row option result"
where
  "resolve_postal s postal state city =
     bindE (normalize_us_postal_code postal) (\<lambda>p.
     bindE (normalize_state state) (\<lambda>state_code.
       let rows = zone_rows s (postal_code p) state_code;
           rows = (case city of
               None \<Rightarrow> rows
             | Some c \<Rightarrow>
                 if c = [] then rows
                 else let city_rows = filter (city_matches (lower (strip c))) rows
                      in if city_rows \<noteq> [] then city_rows else rows)
       in Inr (case rows of [] \<Rightarrow> None | r # _ \<Rightarrow> Some r)))"

lemma set_zone_rows:
  "set (zone_rows s zipc state) =
     {(p, z). p \<in> set (zone_postal_codes s) \<and> z \<in> set (service_zones s)
        \<and> pk z = szp_service_zone_id p \<and> szp_postal_code p = zipc \<and> szp_state p = state
        \<and> szp_active p \<and> sz_active z}"
  by (auto simp: zone_rows_def)

lemma sorted_zone_rows: "sorted (map (\<lambda>r. szp_priority (fst r)) (zone_rows s zipc state))"
  by (simp add: zone_rows_def)

lemma sorted_head_least: "sorted (map f (x # xs)) \<Longrightarrow> y \<in> set (x # xs) \<Longrightarrow> f x \<le> f y"
  by auto

text \<open>
  The zone resolved for a postal code is an active zone with an active row for exactly that
  ZIP and state, no eligible row that fits the city as well has a smaller priority number, and
  nothing is resolved exactly when no eligible row exists.
\<close>

lemma resolve_postal_best:
  assumes "resolve_postal s postal state (Some city) = Inr res"
    and "normalize_us_postal_code postal = Inr zipc" and "normalize_state state = Inr st"
    and "city \<noteq> []"
  shows "case res of
      None \<Rightarrow> zone_rows s (postal_code zipc) st = []
    | Some r \<Rightarrow> r \<in> set (zone_rows s (postal_code zipc) st)
        \<and> szp_active (fst r) \<and> sz_active (snd r) \<and> szp_postal_code (fst r) = postal_code zipc
        \<and> (\<forall>r' \<in> set (zone_rows s (postal_code zipc) st).
             city_matches (lower (strip city)) r' \<or> \<not> city_matches (lower (strip city)) r \<longrightarrow>
             szp_priority (fst r) \<le> szp_priority (fst r'))"
proof -
  let ?rows = "zone_rows s (postal_code zipc) st" and ?m = "city_matches (lower (strip city))"
  let ?chosen = "if filter ?m ?rows \<noteq> [] then filter ?m ?rows else ?rows"
  have res: "res = (case ?chosen of [] \<Rightarrow> None | r # _ \<Rightarrow> Some r)"
    using assms by (auto simp: resolve_postal_def Let_def)
  have sorted_chosen: "sorted (map (\<lambda>r. szp_priority (fst r)) ?chosen)"
    using sorted_zone_rows [of s "postal_code zipc" st] by (auto intro: sorted_filter)
  show ?thesis
  proof (cases ?chosen)
    case Nil
    with res show ?thesis by (auto split: if_splits)
  next
    case (Cons r rs)
    then have r: "r \<in> set ?rows" by (metis filter_is_subset list.set_intros(1) subsetD)
    have least: "szp_priority (fst r) \<le> szp_priority (fst r')" if "r' \<in> set ?chosen" for r'
      using sorted_chosen that unfolding Cons by (rule sorted_head_least)
    have "r' \<in> set ?chosen" if "r' \<in> set ?rows" "?m r' \<or> \<not> ?m r" for r'
    proof (cases "filter ?m ?rows = []")
      case False
      with Cons have "r \<in> set (filter ?m ?rows)" by (metis list.set_intros(1))
      with that False show ?thesis by auto
    qed (use that in simp)
    with least r res Cons show ?thesis by (auto simp: set_zone_rows)
  qed
qed

definition sample_zone :: service_zone where
  "sample_zone = \<lparr>pk = 1, created_at = 0, sz_name = ''Albany'', sz_state = Some ''NY'',
     sz_county = None, sz_city = None, sz_postal_code = None, sz_postal_prefix = None,
     sz_timezone_id = None, sz_center = None, sz_radius_meters = None, sz_boundary = None,
     sz_active = True, sz_regular_service_enabled = True, sz_emergency_service_enabled = False\<rparr>"

definition sample_zone_postal :: service_zone_postal_code where
  "sample_zone_postal = \<lparr>pk = 2, created_at = 0, szp_service_zone_id = 1,
     szp_postal_code = ''12207'', szp_city = Some ''Albany'', szp_state = ''NY'',
     szp_county = None, szp_active = True, szp_priority = 100\<rparr>"

definition zone_db :: db where
  "zone_db = empty_db\<lparr>service_zones := [sample_zone], zone_postal_codes := [sample_zone_postal]\<rparr>"

lemma zone_db_rows: "zone_rows zone_db ''12207'' ''NY'' = [(sample_zone_postal, sample_zone)]"
  by (simp add: zone_rows_def zone_db_def sample_zone_def sample_zone_postal_def)

lemma resolve_postal_best_witness:
  "(sample_zone_postal, sample_zone) \<in> set (zone_rows zone_db ''12207'' ''NY'')"
proof -
  have zipc: "normalize_us_postal_code ''12207'' = Inr \<lparr>postal_code = ''12207'', plus4 = None\<rparr>"
    by code_simp
  have st: "normalize_state ''ny'' = Inr ''NY''" by code_simp
  have "resolve_postal zone_db ''12207'' ''ny'' (Some ''albany'')
      = Inr (Some (sample_zone_postal, sample_zone))"
    using zipc st zone_db_rows by (simp add: resolve_postal_def)
  from resolve_postal_best [OF this zipc st] show ?thesis by simp
qed

end
