(* ===== verification/Samples.thy ===== *)
theory Samples
  imports Database Timezones
begin

text \<open>
  Concrete rows on which the properties are exercised: one vendor with one worker, qualified for
  one service at one New York address, and the instants of Wednesday 2026-07-01, 09:00 to 10:00
  local time.
\<close>

definition sample_service :: service where
  "sample_service = \<lparr>pk = 10, created_at = 0, sv_slug = ''plumbing'', sv_name = ''Plumbing'',
     sv_description = None, sv_category = ''home-services'', sv_base_price = None,
     sv_pricing_model = ''fixed'', sv_duration_minutes = Some 60,
     sv_provider_approval_required = True, sv_before_buffer_minutes = 0,
     sv_after_buffer_minutes = 0, sv_emergency_eligible = False,
     sv_sunday_emergency_eligible = False, sv_quote_required = False, sv_is_active = True,
     sv_is_bookable = True, sv_sort_order = 0, sv_questions = []\<rparr>"

definition sample_address :: address where
  "sample_address = \<lparr>pk = 20, created_at = 0, ad_formatted_address = ''1 State St, Albany'',
     ad_label = ''Home'', ad_line1 = ''1 State St'', ad_line2 = None, ad_city = ''Albany'',
     ad_county = None, ad_state_code = Some ''NY'', ad_postal_code = ''12207'',
     ad_postal_code_plus4 = None, ad_country_code = ''US'', ad_location = (0, 0),
     ad_service_area_id = Some 5, ad_geocoding_provider = ''geoapify'',
     ad_timezone_name = ''America/New_York'', ad_timezone_source = ''geoapify'',
     ad_address_validation_status = ''VALIDATED'', ad_validation_status = ''VALID'',
     ad_provider_reference = None, ad_validation_confidence = None, ad_service_zone_id = None,
     ad_customer_id = None, ad_is_default = False\<rparr>"

definition sample_vendor :: vendor where
  "sample_vendor = \<lparr>pk = 30, created_at = 0, vn_legal_name = ''Acme'', vn_display_name = ''Acme'',
     vn_email = ''acme@example.com'', vn_phone = ''5550100'', vn_provider_type = ''COMPANY'',
     vn_business_address = None, vn_city = None, vn_state = None, vn_postal_code = None,
     vn_onboarding_status = ''APPROVED'', vn_compliance_status = ''APPROVED'',
     vn_timezone_id = None, vn_owner_user_id = None, vn_status = V_ACTIVE,
     vn_service_radius_meters = 40000, vn_home_location = None, vn_capabilities = [],
     vn_payout_profile_ref = None, vn_odoo_partner_id = None\<rparr>"

definition sample_worker :: worker where
  "sample_worker = \<lparr>pk = 40, created_at = 0, wk_vendor_id = 30, wk_user_id = None,
     wk_first_name = ''Ada'', wk_last_name = ''Lee'', wk_email = ''ada@example.com'',
     wk_phone = ''5550101'', wk_status = WK_ACTIVE, wk_skills = [], wk_current_location = None,
     wk_location_updated_at = None, wk_available = True, wk_default_timezone_id = None,
     wk_maximum_jobs_per_day = 6, wk_maximum_minutes_per_day = 600,
     wk_sunday_emergency_enabled = False\<rparr>"

definition sample_credential :: "credential_type \<Rightarrow> provider_credential" where
  "sample_credential ty = \<lparr>pk = (case ty of LICENSE \<Rightarrow> 50 | INSURANCE \<Rightarrow> 51), created_at = 0,
     pc_vendor_id = 30, pc_credential_type = ty, pc_jurisdiction = ''NY'',
     pc_reference_last4 = None, pc_verified = True, pc_verified_at = Some 0,
     pc_expires_on = 30000, pc_verified_by = None\<rparr>"

definition sample_provider_service :: provider_service where
  "sample_provider_service = \<lparr>pk = 60, created_at = 0, ps_provider_id = 30, ps_service_id = 10,
     ps_active = True, ps_approval_status = ''APPROVED''\<rparr>"

definition sample_provider_area :: provider_service_area where
  "sample_provider_area = \<lparr>pk = 61, created_at = 0, psa_provider_id = 30,
     psa_professional_id = None, psa_area_type = ''POSTAL'', psa_service_zone_id = None,
     psa_postal_code = Some ''12207'', psa_city = None, psa_county = None, psa_state = None,
     psa_center = None, psa_radius_meters = None, psa_active = True,
     psa_approval_status = ''APPROVED''\<rparr>"

definition sample_rule :: provider_availability_rule where
  "sample_rule = \<lparr>pk = 62, created_at = 0, par_provider_professional_id = 40,
     par_day_of_week = 2, par_start_local_time = hours_of 8, par_end_local_time = hours_of 18,
     par_available = True, par_emergency_only = False, par_timezone_id = ''America/New_York''\<rparr>"

definition sample_db :: db where
  "sample_db = empty_db\<lparr>services := [sample_service], addresses := [sample_address],
     vendors := [sample_vendor], workers := [sample_worker],
     credentials := [sample_credential LICENSE, sample_credential INSURANCE],
     provider_services := [sample_provider_service],
     provider_service_areas := [sample_provider_area], availability_rules := [sample_rule]\<rparr>"

text \<open>A booking of that service, and the job of its visit.\<close>

definition sample_booking :: booking where
  "sample_booking = \<lparr>pk = 81, created_at = 0, bk_reference = ''BR-1'', bk_idempotency_key = ''b-1'',
     bk_idempotency_request_hash = ''h'', bk_customer_id = 82, bk_address_id = 20,
     bk_legal_entity_id = 6, bk_service_id = 10, bk_provider_worker_id = None,
     bk_service_timezone_id = ''America/New_York'', bk_recommended_provider_id = None,
     bk_recommended_professional_id = None, bk_assignment_score = None,
     bk_assignment_reason = None, bk_request_note = None, bk_window_start = seconds 1782910800,
     bk_window_end = seconds 1782914400, bk_status = B_PENDING_MANUAL_DISPATCH,
     bk_pricing_snapshot = [], bk_total_amount = 150, bk_currency = ''USD'',
     bk_expires_at = seconds 1785000000, bk_guest_confirmation_token_hash = ''t'',
     bk_guest_confirmation_expires_at = seconds 1785000000,
     bk_guest_confirmation_revoked_at = None\<rparr>"

definition sample_job :: job where
  "sample_job = \<lparr>pk = 80, created_at = 0, jb_booking_id = 81, jb_customer_id = Some 82,
     jb_service_id = 10, jb_address_id = 20, jb_status = J_IN_PROGRESS,
     jb_scheduled_start = seconds 1782910800, jb_scheduled_end = seconds 1782914400,
     jb_vendor_id = Some 30, jb_worker_id = Some 40, jb_version = 4,
     jb_diagnostic_notes = Some ''leak'', jb_completion_notes = None, jb_completed_at = None\<rparr>"

definition sample_now :: datetime where "sample_now = seconds 1782800000"
definition sample_local :: datetime where "sample_local = seconds 1782896400"
definition sample_start :: datetime where "sample_start = seconds 1782910800"
definition sample_end :: datetime where "sample_end = seconds 1782914400"

definition no_distance :: "uuid \<Rightarrow> uuid \<Rightarrow> rat option" where "no_distance v a = None"

lemmas sample_rows = sample_service_def sample_address_def sample_vendor_def sample_worker_def
  sample_credential_def sample_provider_service_def sample_provider_area_def sample_rule_def

end
