(* ===== verification/Matching.thy ===== *)
theory Matching
  imports Database Capacity Timezones Samples
begin

text \<open>
  \<^verbatim>\<open>booking/matching.py\<close>: which providers can take a visit, and how they are ranked.

  The zone database \<open>tzdb\<close>, the PostGIS distance \<open>st_distance\<close> between a vendor's home and an
  address (None when the vendor has no location) and the clock reading \<open>now\<close> are parameters.  The
  \<^verbatim>\<open>DISTINCT ON\<close> join of workers with their vendor and its approved services and areas is the list of
  worker and vendor pairs for which the joined rows exist.
\<close>

record provider_candidate =
  provider_id :: uuid
  professional_id :: uuid
  score :: int
  distance_meters :: "int option"
  available_capacity_minutes :: int
  schedule_match :: bool
  service_area_match :: bool
  warnings :: "string list"
  capacity_minutes :: int

section \<open>The steps\<close>

definition duration_or_default :: "service \<Rightarrow> int" where
  "duration_or_default sv = (case sv_duration_minutes sv of
      None \<Rightarrow> 60 | Some d \<Rightarrow> if d = 0 then 60 else d)"

definition base_rows ::
  "db \<Rightarrow> service \<Rightarrow> address \<Rightarrow> uuid option \<Rightarrow> (worker \<times> vendor) list"
where
  "base_rows s sv ad professional =
     take 250 [(w, v). w \<leftarrow> workers s, v \<leftarrow> vendors s,
       pk v = wk_vendor_id w
       \<and> list_ex (\<lambda>p. ps_provider_id p = pk v \<and> ps_service_id p = pk sv \<and> ps_active p
                      \<and> ps_approval_status p = ''APPROVED'') (provider_services s)
       \<and> list_ex (\<lambda>a. psa_provider_id a = pk v \<and> psa_postal_code a = Some (take 5 (ad_postal_code ad))
                      \<and> psa_active a \<and> psa_approval_status a = ''APPROVED'')
           (provider_service_areas s)
       \<and> vn_status v = V_ACTIVE \<and> vn_compliance_status v = ''APPROVED''
       \<and> wk_status w = WK_ACTIVE \<and> wk_available w
       \<and> (case professional of None \<Rightarrow> True | Some p \<Rightarrow> pk w = p)]"

text \<open>The weekday's operating hours apply; without a configured row the default hours do.\<close>

definition hours_open ::
  "db \<Rightarrow> service \<Rightarrow> worker \<Rightarrow> datetime \<Rightarrow> datetime \<Rightarrow> bool"
where
  "hours_open s sv w local_start local_end =
     (case lookup_row oh_day_of_week (weekday (date_of local_start)) (operating_hours s) of
        Some oh \<Rightarrow>
          oh_active oh
          \<and> enforce_breero_hours local_start local_end (sv_emergency_eligible sv)
              (wk_sunday_emergency_enabled w) (oh_start_local_time oh) (oh_end_local_time oh)
              (Some (oh_emergency_only oh)) = Inr ()
      | None \<Rightarrow>
          enforce_breero_hours local_start local_end (sv_emergency_eligible sv)
            (wk_sunday_emergency_enabled w) (hours_of 7) (hours_of 19) None = Inr ())"

definition schedule_matches ::
  "db \<Rightarrow> uuid \<Rightarrow> datetime \<Rightarrow> datetime \<Rightarrow> datetime \<Rightarrow> datetime \<Rightarrow> bool \<Rightarrow> bool"
where
  "schedule_matches s worker_id local_start local_end utc_start utc_end emergency =
     (list_ex (\<lambda>r. par_provider_professional_id r = worker_id
                 \<and> par_day_of_week r = weekday (date_of local_start) \<and> par_available r
                 \<and> par_start_local_time r \<le> time_of local_start
                 \<and> par_end_local_time r \<ge> time_of local_end
                 \<and> (emergency \<or> \<not> par_emergency_only r)) (availability_rules s)
      \<and> \<not> list_ex (\<lambda>x. pae_provider_professional_id x = worker_id \<and> pae_status x = ''ACTIVE''
                     \<and> pae_start_at x < utc_end \<and> pae_end_at x > utc_start)
            (availability_exceptions s))"

definition credentials_valid :: "db \<Rightarrow> uuid \<Rightarrow> string option \<Rightarrow> date \<Rightarrow> bool" where
  "credentials_valid s vendor_id state on_date =
     (case state of
        None \<Rightarrow> False
      | Some st \<Rightarrow>
          st \<noteq> []
          \<and> list_all (\<lambda>ty. list_ex (\<lambda>c. pc_vendor_id c = vendor_id \<and> pc_credential_type c = ty
                \<and> (pc_jurisdiction c = st \<or> pc_jurisdiction c = ''US'') \<and> pc_verified c
                \<and> pc_expires_on c \<ge> on_date) (credentials s)) [LICENSE, INSURANCE])"

definition limit_for :: "db \<Rightarrow> uuid \<Rightarrow> worker \<Rightarrow> date \<Rightarrow> capacity_limit" where
  "limit_for s vendor_id w on_date =
     (case sort_key (\<lambda>r. if pcr_professional_id r = None then 1 else 0 :: int)
             (sort_key (\<lambda>r. - pcr_effective_from r)
               (filter (\<lambda>r. pcr_provider_id r = vendor_id
                   \<and> (pcr_professional_id r = None \<or> pcr_professional_id r = Some (pk w))
                   \<and> pcr_effective_from r \<le> on_date
                   \<and> (case pcr_effective_until r of None \<Rightarrow> True | Some d \<Rightarrow> on_date \<le> d))
                 (capacity_rules s))) of
        [] \<Rightarrow> \<lparr>max_jobs = wk_maximum_jobs_per_day w, max_minutes = wk_maximum_minutes_per_day w,
                max_concurrent_jobs = 1, emergency_reserved_jobs = 0,
                emergency_reserved_minutes = 0\<rparr>
      | r # _ \<Rightarrow> \<lparr>max_jobs = pcr_max_jobs_daily r, max_minutes = pcr_max_minutes_daily r,
                max_concurrent_jobs = pcr_max_concurrent_jobs r,
                emergency_reserved_jobs = pcr_emergency_reserved_jobs r,
                emergency_reserved_minutes = pcr_emergency_reserved_minutes r\<rparr>)"

definition day_jobs :: "db \<Rightarrow> uuid \<Rightarrow> datetime \<Rightarrow> datetime \<Rightarrow> job list" where
  "day_jobs s worker_id day_start day_end =
     filter (\<lambda>j. jb_worker_id j = Some worker_id \<and> jb_scheduled_start j < day_end
         \<and> jb_scheduled_end j > day_start \<and> jb_status j \<notin> {J_CANCELLED, J_COMPLETED}) (jobs s)"

text \<open>
  A hold counts while it is held and unexpired, and after conversion while its booking is open and
  has no job yet.
\<close>

definition hold_counts :: "db \<Rightarrow> datetime \<Rightarrow> capacity_hold \<Rightarrow> bool" where
  "hold_counts s now h =
     ((ch_status h = H_HELD \<and> ch_expires_at h > now)
      \<or> (ch_status h = H_CONVERTED
         \<and> list_ex (\<lambda>b. ch_booking_id h = Some (pk b)
              \<and> bk_status b \<notin> {B_CANCELLED, B_EXPIRED, B_COMPLETED}) (bookings s)
         \<and> \<not> list_ex (\<lambda>j. ch_booking_id h = Some (jb_booking_id j)) (jobs s)))"

definition day_holds :: "db \<Rightarrow> uuid \<Rightarrow> datetime \<Rightarrow> datetime \<Rightarrow> datetime \<Rightarrow> capacity_hold list" where
  "day_holds s worker_id now day_start day_end =
     filter (\<lambda>h. ch_professional_candidate_id h = worker_id \<and> hold_counts s now h
         \<and> ch_slot_start_utc h < day_end \<and> ch_slot_end_utc h > day_start) (holds s)"

definition usage_for ::
  "db \<Rightarrow> datetime \<Rightarrow> uuid \<Rightarrow> date \<Rightarrow> datetime \<Rightarrow> datetime \<Rightarrow> zone \<Rightarrow> capacity_usage \<times> int"
where
  "usage_for s now worker_id local_date utc_start utc_end z =
     (let midnight = combine local_date 0;
          last_instant = combine local_date (days 1 - 1);
          day_start = midnight - utc_offset z False midnight;
          day_end = last_instant - utc_offset z False last_instant;
          js = day_jobs s worker_id day_start day_end;
          hs = day_holds s worker_id now day_start day_end;
          booked = sum_list (map (\<lambda>j. max (round_half_even
              (of_int (jb_scheduled_end j - jb_scheduled_start j) / 60000000)) 0) js);
          held = sum_list (map ch_capacity_minutes hs);
          overlaps = int (count_where (\<lambda>j. jb_scheduled_start j < utc_end
                                        \<and> jb_scheduled_end j > utc_start) js)
                   + int (count_where (\<lambda>h. ch_slot_start_utc h < utc_end
                                        \<and> ch_slot_end_utc h > utc_start) hs)
      in (\<lparr>job_count = int (length js), booking_minutes = booked, hold_count = int (length hs),
           hold_minutes = held, buffer_minutes = 0, travel_minutes = 0\<rparr>, overlaps))"

section \<open>ProviderMatcher.candidates\<close>

definition candidate_minutes :: "service \<Rightarrow> int option \<Rightarrow> int" where
  "candidate_minutes sv meters =
     duration_or_default sv + sv_before_buffer_minutes sv + sv_after_buffer_minutes sv
       + (case meters of None \<Rightarrow> 0 | Some d \<Rightarrow> round_half_even (of_int d / 500))"

definition candidate_score :: "int option \<Rightarrow> int \<Rightarrow> int \<Rightarrow> int" where
  "candidate_score meters remaining max_mins =
     (let capacity_score = min 10 (round_half_even (of_int remaining / of_int (max max_mins 1) * 10));
          distance_score = (case meters of
              None \<Rightarrow> 0
            | Some d \<Rightarrow> max 0 (25 - round_half_even (of_int d / 4000)))
      in 30 + distance_score + 15 + capacity_score)"

definition candidate_of ::
  "(uuid \<Rightarrow> uuid \<Rightarrow> rat option) \<Rightarrow> datetime \<Rightarrow> db \<Rightarrow> zone \<Rightarrow> service \<Rightarrow> address \<Rightarrow> datetime \<Rightarrow> datetime
   \<Rightarrow> bool \<Rightarrow> worker \<times> vendor \<Rightarrow> provider_candidate option"
where
  "candidate_of st_distance now s z sv ad utc_start utc_end emergency r =
     (let (w, v) = r;
          local_start = fst (from_utc z utc_start);
          local_end = fst (from_utc z utc_end)
      in if weekday (date_of local_start) = 6 \<and> \<not> wk_sunday_emergency_enabled w then None
         else if \<not> hours_open s sv w local_start local_end then None
         else if \<not> schedule_matches s (pk w) local_start local_end utc_start utc_end emergency
         then None
         else if \<not> credentials_valid s (pk v) (ad_state_code ad) (date_of local_start) then None
         else
           let meters = map_option round_half_even (st_distance (pk v) (pk ad));
               mins = candidate_minutes sv meters;
               limit = limit_for s (pk v) w (date_of local_start);
               (usage, overlaps) =
                 usage_for s now (pk w) (date_of local_start) utc_start utc_end z
           in case ensure_capacity limit usage mins overlaps emergency of
                Inl _ \<Rightarrow> None
              | Inr current \<Rightarrow> Some
                  \<lparr>provider_id = pk v, professional_id = pk w,
                   score = candidate_score meters (cs_remaining_minutes current) (max_minutes limit),
                   distance_meters = meters,
                   available_capacity_minutes = cs_remaining_minutes current,
                   schedule_match = True, service_area_match = True,
                   warnings = (if meters = None then [''distance_unavailable''] else []),
                   capacity_minutes = mins\<rparr>)"

text \<open>Best score first; equal scores by the text of the professional's id.\<close>

definition rank :: "provider_candidate list \<Rightarrow> provider_candidate list" where
  "rank cs = sort_key (\<lambda>c. - score c) (sort_key professional_id cs)"

definition candidates ::
  "(string \<Rightarrow> zone option) \<Rightarrow> (uuid \<Rightarrow> uuid \<Rightarrow> rat option) \<Rightarrow> datetime \<Rightarrow> db \<Rightarrow> service \<Rightarrow> address
   \<Rightarrow> datetime \<Rightarrow> datetime \<Rightarrow> bool \<Rightarrow> uuid option \<Rightarrow> provider_candidate list result"
where
  "candidates tzdb st_distance now s sv ad utc_start utc_end emergency professional =
     bindE (timezone tzdb (ad_timezone_name ad)) (\<lambda>z.
       Inr (rank (List.map_filter
         (candidate_of st_distance now s z sv ad utc_start utc_end emergency)
         (base_rows s sv ad professional))))"

section \<open>What a candidate guarantees\<close>

text \<open>The provider may be offered this visit: the filters of the join and the checks of the loop.\<close>

definition eligible :: "db \<Rightarrow> service \<Rightarrow> address \<Rightarrow> worker \<Rightarrow> vendor \<Rightarrow> bool" where
  "eligible s sv ad w v =
     (w \<in> set (workers s) \<and> v \<in> set (vendors s) \<and> pk v = wk_vendor_id w
      \<and> wk_status w = WK_ACTIVE \<and> wk_available w
      \<and> vn_status v = V_ACTIVE \<and> vn_compliance_status v = ''APPROVED''
      \<and> (\<exists>p \<in> set (provider_services s). ps_provider_id p = pk v \<and> ps_service_id p = pk sv
            \<and> ps_active p \<and> ps_approval_status p = ''APPROVED'')
      \<and> (\<exists>a \<in> set (provider_service_areas s). psa_provider_id a = pk v
            \<and> psa_postal_code a = Some (take 5 (ad_postal_code ad))
            \<and> psa_active a \<and> psa_approval_status a = ''APPROVED''))"

text \<open>One more visit of \<open>mins\<close> minutes still fits the worker's local day.\<close>

definition fits_day ::
  "db \<Rightarrow> datetime \<Rightarrow> zone \<Rightarrow> datetime \<Rightarrow> datetime \<Rightarrow> bool \<Rightarrow> worker \<Rightarrow> vendor \<Rightarrow> int \<Rightarrow> bool"
where
  "fits_day s now z utc_start utc_end emergency w v mins =
     (let d = date_of (fst (from_utc z utc_start));
          limit = limit_for s (pk v) w d;
          (usage, overlaps) = usage_for s now (pk w) d utc_start utc_end z
      in 0 < mins \<and> job_count usage + hold_count usage + 1 \<le> job_ceiling limit emergency
         \<and> reserved_minutes usage + mins \<le> minute_ceiling limit emergency
         \<and> overlaps < max_concurrent_jobs limit)"

lemma base_rows_eligible:
  "(w, v) \<in> set (base_rows s sv ad professional) \<Longrightarrow>
   eligible s sv ad w v \<and> (case professional of None \<Rightarrow> True | Some p \<Rightarrow> pk w = p)"
  unfolding base_rows_def by (drule in_set_takeD) (auto simp: eligible_def list_ex_iff)

lemma candidate_of_SomeD:
  assumes "candidate_of st_distance now s z sv ad a b emergency (w, v) = Some c"
  shows "provider_id c = pk v \<and> professional_id c = pk w
    \<and> schedule_matches s (pk w) (fst (from_utc z a)) (fst (from_utc z b)) a b emergency
    \<and> credentials_valid s (pk v) (ad_state_code ad) (date_of (fst (from_utc z a)))
    \<and> hours_open s sv w (fst (from_utc z a)) (fst (from_utc z b))
    \<and> fits_day s now z a b emergency w v (capacity_minutes c)
    \<and> capacity_minutes c
        = candidate_minutes sv (map_option round_half_even (st_distance (pk v) (pk ad)))"
  using assms
  by (auto simp: candidate_of_def fits_day_def Let_def split: if_splits prod.splits sum.splits
      dest!: ensure_capacity_Inr)

lemma set_rank [simp]: "set (rank cs) = set cs"
  by (simp add: rank_def)

lemma candidates_InrD:
  assumes "candidates tzdb st_distance now s sv ad a b emergency professional = Inr cs"
    and "c \<in> set cs"
  obtains z w v where "tzdb (ad_timezone_name ad) = Some z"
    and "(w, v) \<in> set (base_rows s sv ad professional)"
    and "candidate_of st_distance now s z sv ad a b emergency (w, v) = Some c"
proof -
  from assms(1) obtain z where z: "tzdb (ad_timezone_name ad) = Some z"
    and cs: "cs = rank (List.map_filter
        (candidate_of st_distance now s z sv ad a b emergency) (base_rows s sv ad professional))"
    by (auto simp: candidates_def timezone_def elim: bindE_InrE)
  from assms(2) cs obtain r where "r \<in> set (base_rows s sv ad professional)"
    and "candidate_of st_distance now s z sv ad a b emergency r = Some c"
    by (auto simp: map_filter_def)
  with z that show thesis by (cases r) blast
qed

lemma sort_key_sorts: "sorted (map f (sort_key f xs))"
  by (rule sorted_sort_key)

lemma candidates_ranked:
  assumes "candidates tzdb st_distance now s sv ad a b emergency professional = Inr cs"
  shows "sorted (map (\<lambda>c. - score c) cs)"
  using assms by (auto simp: candidates_def rank_def elim!: bindE_InrE)

section \<open>The interface the booking services rely on\<close>

text \<open>
  Hold creation and dispatch ask the matcher for candidates, take the first or look one up, and ask
  again for that professional alone.  They rely on these laws.
\<close>

locale candidate_source =
  fixes cands :: "uuid option \<Rightarrow> provider_candidate list result"
    and suits :: "provider_candidate \<Rightarrow> bool"
  assumes sound: "cands p = Inr cs \<Longrightarrow> c \<in> set cs \<Longrightarrow> suits c"
    and restricted: "cands (Some w) = Inr cs \<Longrightarrow> c \<in> set cs \<Longrightarrow> professional_id c = w"
    and ranked: "cands p = Inr cs \<Longrightarrow> sorted (map (\<lambda>c. - score c) cs)"
begin

lemma head_suits: "cands p = Inr (c # cs) \<Longrightarrow> suits c"
  using sound [of p "c # cs" c] by simp

lemma head_best: "cands p = Inr (c # cs) \<Longrightarrow> c' \<in> set (c # cs) \<Longrightarrow> score c' \<le> score c"
  using ranked [of p "c # cs"] by auto

lemma found_suits: "cands p = Inr cs \<Longrightarrow> find P cs = Some c \<Longrightarrow> suits c \<and> P c"
  using sound find_SomeD by metis

end

definition suitable ::
  "(string \<Rightarrow> zone option) \<Rightarrow> datetime \<Rightarrow> db \<Rightarrow> service \<Rightarrow> address \<Rightarrow> datetime \<Rightarrow> datetime \<Rightarrow> bool
   \<Rightarrow> provider_candidate \<Rightarrow> bool"
where
  "suitable tzdb now s sv ad a b emergency c =
     (\<exists>z w v. tzdb (ad_timezone_name ad) = Some z \<and> provider_id c = pk v \<and> professional_id c = pk w
        \<and> eligible s sv ad w v
        \<and> schedule_matches s (pk w) (fst (from_utc z a)) (fst (from_utc z b)) a b emergency
        \<and> credentials_valid s (pk v) (ad_state_code ad) (date_of (fst (from_utc z a)))
        \<and> hours_open s sv w (fst (from_utc z a)) (fst (from_utc z b))
        \<and> fits_day s now z a b emergency w v (capacity_minutes c))"

lemma candidates_suitable:
  assumes "candidates tzdb st_distance now s sv ad a b emergency professional = Inr cs"
    and "c \<in> set cs"
  shows "suitable tzdb now s sv ad a b emergency c
    \<and> (case professional of None \<Rightarrow> True | Some p \<Rightarrow> professional_id c = p)"
proof -
  obtain z w v where zwv: "tzdb (ad_timezone_name ad) = Some z"
    "(w, v) \<in> set (base_rows s sv ad professional)"
    "candidate_of st_distance now s z sv ad a b emergency (w, v) = Some c"
    using assms by (rule candidates_InrD)
  from base_rows_eligible [OF zwv(2)] candidate_of_SomeD [OF zwv(3)] zwv(1)
  show ?thesis by (auto simp: suitable_def split: option.splits)
qed

interpretation matcher: candidate_source
  "candidates tzdb st_distance now s sv ad a b emergency"
  "suitable tzdb now s sv ad a b emergency"
  for tzdb st_distance now s sv ad a b emergency
proof
  show "suitable tzdb now s sv ad a b emergency c"
    if "candidates tzdb st_distance now s sv ad a b emergency p = Inr cs" "c \<in> set cs" for p cs c
    using candidates_suitable [OF that] by simp
  show "professional_id c = w"
    if "candidates tzdb st_distance now s sv ad a b emergency (Some w) = Inr cs" "c \<in> set cs"
    for w cs c
    using candidates_suitable [OF that] by simp
  show "sorted (map (\<lambda>c. - score c) cs)"
    if "candidates tzdb st_distance now s sv ad a b emergency p = Inr cs" for p cs
    using that by (rule candidates_ranked)
qed

section \<open>Properties\<close>

text \<open>
  C11: Every provider the matcher returns is an active, available worker of an active, compliant
  vendor that has an approved service row and an approved area row for the ZIP; the local interval
  lies in one of the worker's availability rules and meets no active exception; licence and
  insurance are verified and unexpired; and the visit fits the day's job, minute and concurrency
  limits, with the minutes stored in the candidate.
\<close>

theorem candidates_sound:
  assumes "candidates tzdb st_distance now s sv ad a b emergency professional = Inr cs"
    and "c \<in> set cs"
  shows "\<exists>z w v. tzdb (ad_timezone_name ad) = Some z
    \<and> provider_id c = pk v \<and> professional_id c = pk w \<and> eligible s sv ad w v
    \<and> schedule_matches s (pk w) (fst (from_utc z a)) (fst (from_utc z b)) a b emergency
    \<and> credentials_valid s (pk v) (ad_state_code ad) (date_of (fst (from_utc z a)))
    \<and> fits_day s now z a b emergency w v (capacity_minutes c)"
  using matcher.sound [OF assms] unfolding suitable_def by blast

text \<open>
  Candidates come best score first, and a score lies between 45 and 80 when distances are not
  negative, so no provider can outrank another by more than the 25 points of distance and the 10
  points of free capacity.
\<close>

lemma candidate_score_bounds:
  assumes "0 \<le> remaining" and "case meters of None \<Rightarrow> True | Some d \<Rightarrow> 0 \<le> d"
  shows "45 \<le> candidate_score meters remaining max_mins
    \<and> candidate_score meters remaining max_mins \<le> 80"
proof -
  have "0 \<le> round_half_even (of_int remaining / of_int (max max_mins 1) * 10)"
    using assms(1) by (intro round_half_even_nonneg) (simp add: divide_nonneg_pos)
  moreover have "0 \<le> round_half_even (of_int d / 4000)" if "meters = Some d" for d
    using assms(2) that by (intro round_half_even_nonneg) simp
  ultimately show ?thesis
    by (auto simp: candidate_score_def Let_def split: option.splits)
qed

lemma candidate_of_score:
  assumes "candidate_of st_distance now s z sv ad a b emergency (w, v) = Some c"
    and "\<And>d. st_distance (pk v) (pk ad) = Some d \<Longrightarrow> 0 \<le> d"
  shows "45 \<le> score c \<and> score c \<le> 80"
proof -
  let ?m = "map_option round_half_even (st_distance (pk v) (pk ad))"
  from assms(1) obtain limit u req ov snap where "ensure_capacity limit u req ov emergency = Inr snap"
    and "score c = candidate_score ?m (cs_remaining_minutes snap) (max_minutes limit)"
    by (auto simp: candidate_of_def Let_def split: if_splits prod.splits sum.splits)
  moreover from this have "0 \<le> cs_remaining_minutes snap"
    using ensure_capacity_Inr by fastforce
  moreover have "case ?m of None \<Rightarrow> True | Some d \<Rightarrow> 0 \<le> d"
    using assms(2) by (auto split: option.splits intro: round_half_even_nonneg)
  ultimately show ?thesis using candidate_score_bounds by metis
qed

theorem candidates_best_first:
  assumes "candidates tzdb st_distance now s sv ad a b emergency professional = Inr cs"
    and "\<And>v d. st_distance v (pk ad) = Some d \<Longrightarrow> 0 \<le> d"
  shows "sorted_wrt (\<lambda>c c'. score c \<ge> score c') cs \<and> (\<forall>c \<in> set cs. 45 \<le> score c \<and> score c \<le> 80)"
proof
  show "sorted_wrt (\<lambda>c c'. score c \<ge> score c') cs"
    using matcher.ranked [OF assms(1)] by (simp add: sorted_map)
  show "\<forall>c \<in> set cs. 45 \<le> score c \<and> score c \<le> 80"
  proof
    fix c assume "c \<in> set cs"
    with assms(1) obtain z w v
      where "candidate_of st_distance now s z sv ad a b emergency (w, v) = Some c"
      by (rule candidates_InrD)
    then show "45 \<le> score c \<and> score c \<le> 80" using assms(2) by (rule candidate_of_score)
  qed
qed

section \<open>The sample provider\<close>

definition sample_candidate :: provider_candidate where
  "sample_candidate = \<lparr>provider_id = 30, professional_id = 40, score = 55, distance_meters = None,
     available_capacity_minutes = 600, schedule_match = True, service_area_match = True,
     warnings = [''distance_unavailable''], capacity_minutes = 60\<rparr>"

lemma sample_candidates:
  "candidates sample_tzdb no_distance sample_now sample_db sample_service sample_address
     sample_start sample_end False None = Inr [sample_candidate]"
  by code_simp

theorem candidates_sound_witness:
  "\<exists>z w v. eligible sample_db sample_service sample_address w v
     \<and> fits_day sample_db sample_now z sample_start sample_end False w v 60"
proof -
  have "capacity_minutes sample_candidate = 60" by (simp add: sample_candidate_def)
  with candidates_sound [OF sample_candidates, of sample_candidate] show ?thesis
    by (metis list.set_intros(1))
qed

theorem candidates_best_first_witness:
  "45 \<le> score sample_candidate \<and> score sample_candidate \<le> 80"
  using candidates_best_first [OF sample_candidates] by (simp add: no_distance_def)

end
