(* ===== verification/Holds.thy ===== *)
theory Holds
  imports Matching
begin

text \<open>
  \<^verbatim>\<open>booking/hold_service.py\<close>: temporary reservations of a provider's time.  The parameters are the
  zone database, the PostGIS distance, \<^verbatim>\<open>sha256\<close> (the hex digest of a string), the successive
  readings \<open>clk 0, clk 1, \<dots>\<close> of the clock during the request, and the id the ORM draws for a new
  row.  A handler runs to its commit without another one in between: the advisory lock on the
  idempotency key and the row locks serialise the requests modelled here.
\<close>

section \<open>Definitions\<close>

definition HOLD_DURATION :: int where "HOLD_DURATION = minutes 30"
definition MAX_ACTIVE_HOLDS_PER_OWNER :: nat where "MAX_ACTIVE_HOLDS_PER_OWNER = 3"

definition owner_fingerprint :: "(string \<Rightarrow> string) \<Rightarrow> string \<Rightarrow> string result" where
  "owner_fingerprint sha256 v =
     (let normalized = strip v
      in if length normalized < 16 then Inl (DomainError ''AUTH_REQUIRED'' 401)
         else Inr (sha256 normalized))"

text \<open>The wall-clock fields of a datetime, naive or aware.\<close>

definition wall :: "py_datetime \<Rightarrow> datetime" where
  "wall v = (case v of Naive l \<Rightarrow> l | Aware t off \<Rightarrow> t + off)"

definition shift :: "int \<Rightarrow> py_datetime \<Rightarrow> py_datetime" where
  "shift d v = (case v of Naive l \<Rightarrow> Naive (l + d) | Aware t off \<Rightarrow> Aware (t + d) off)"

definition owner_active :: "string \<Rightarrow> datetime \<Rightarrow> capacity_hold \<Rightarrow> bool" where
  "owner_active fingerprint now h =
     (ch_owner_fingerprint_hash h = fingerprint \<and> ch_status h = H_HELD \<and> ch_expires_at h > now)"

record hold_request =
  hr_service_id :: uuid
  hr_address_id :: uuid
  hr_start_local :: py_datetime
  hr_timezone_id :: string
  hr_booking_session :: string
  hr_idempotency_key :: string
  hr_emergency :: bool

text \<open>The service, the address and the interval a request is about, with the checks on them.\<close>

definition hold_slot ::
  "(string \<Rightarrow> zone option) \<Rightarrow> db \<Rightarrow> hold_request \<Rightarrow> (service \<times> address \<times> localized_interval) result"
where
  "hold_slot tzdb s r =
     (case get_service s (hr_service_id r) of
        None \<Rightarrow> Inl (DomainError ''SERVICE_NOT_BOOKABLE'' 422)
      | Some sv \<Rightarrow>
     bindE (ensure (sv_is_active sv \<and> sv_is_bookable sv) (DomainError ''SERVICE_NOT_BOOKABLE'' 422)) (\<lambda>_.
     bindE (ensure (\<not> sv_quote_required sv) (DomainError ''QUOTE_REQUIRED'' 422)) (\<lambda>_.
     case get_address s (hr_address_id r) of
        None \<Rightarrow> Inl (DomainError ''OUTSIDE_SERVICE_AREA'' 422)
      | Some ad \<Rightarrow>
     bindE (ensure (ad_service_zone_id ad \<noteq> None \<or> ad_service_area_id ad \<noteq> None)
        (DomainError ''OUTSIDE_SERVICE_AREA'' 422)) (\<lambda>_.
     bindE (ensure (hr_timezone_id r = ad_timezone_name ad)
        (DomainError ''TIMEZONE_UNRESOLVED'' 422)) (\<lambda>_.
     let end_local = shift (minutes (duration_or_default sv + sv_before_buffer_minutes sv
                       + sv_after_buffer_minutes sv)) (hr_start_local r) in
     bindE (enforce_breero_hours (wall (hr_start_local r)) (wall end_local)
        (sv_emergency_eligible sv) True OPEN_LOCAL CLOSE_LOCAL None) (\<lambda>_.
     bindE (local_interval tzdb (hr_start_local r) end_local (hr_timezone_id r) None None) (\<lambda>iv.
     Inr (sv, ad, iv))))))))"

text \<open>
  The rest of \<^verbatim>\<open>create\<close>, up to the new row: choose, lock and re-check the provider, count the
  owner's active holds, insert.
\<close>

definition plan_hold ::
  "(string \<Rightarrow> zone option) \<Rightarrow> (uuid \<Rightarrow> uuid \<Rightarrow> rat option) \<Rightarrow> (nat \<Rightarrow> datetime) \<Rightarrow> uuid \<Rightarrow> db
   \<Rightarrow> hold_request \<Rightarrow> string \<Rightarrow> service \<Rightarrow> address \<Rightarrow> localized_interval \<Rightarrow> capacity_hold result"
where
  "plan_hold tzdb st_distance clk new_id s r fingerprint sv ad iv =
     bindE (candidates tzdb st_distance (clk 0) s sv ad (start_utc iv) (end_utc iv)
        (hr_emergency r) None) (\<lambda>cs.
     case cs of
        [] \<Rightarrow> Inl (DomainError ''NO_CAPACITY'' 409)
      | chosen # _ \<Rightarrow>
     bindE (candidates tzdb st_distance (clk 1) s sv ad (start_utc iv) (end_utc iv)
        (hr_emergency r) (Some (professional_id chosen))) (\<lambda>refreshed.
     bindE (ensure (refreshed \<noteq> []) (DomainError ''HOLD_CONFLICT'' 409)) (\<lambda>_.
     bindE (ensure (count_where (owner_active fingerprint (clk 2)) (holds s)
          < MAX_ACTIVE_HOLDS_PER_OWNER) (DomainError ''RATE_LIMITED'' 429)) (\<lambda>_.
     bindE (ensure (\<not> list_ex (\<lambda>h. pk h = new_id) (holds s))
        (DomainError ''HOLD_CONFLICT'' 409)) (\<lambda>_.
     Inr \<lparr>pk = new_id, created_at = clk 2, ch_booking_id = None, ch_service_id = pk sv,
          ch_address_id = pk ad, ch_provider_candidate_id = provider_id chosen,
          ch_professional_candidate_id = professional_id chosen,
          ch_slot_start_utc = start_utc iv, ch_slot_end_utc = end_utc iv,
          ch_timezone_id = hr_timezone_id r, ch_capacity_minutes = capacity_minutes chosen,
          ch_status = H_HELD, ch_expires_at = clk 2 + HOLD_DURATION, ch_released_at = None,
          ch_converted_at = None, ch_owner_fingerprint_hash = fingerprint,
          ch_idempotency_key = hr_idempotency_key r\<rparr>)))))"

definition new_hold ::
  "(string \<Rightarrow> zone option) \<Rightarrow> (uuid \<Rightarrow> uuid \<Rightarrow> rat option) \<Rightarrow> (nat \<Rightarrow> datetime) \<Rightarrow> uuid \<Rightarrow> db
   \<Rightarrow> hold_request \<Rightarrow> string \<Rightarrow> capacity_hold result"
where
  "new_hold tzdb st_distance clk new_id s r fingerprint =
     bindE (hold_slot tzdb s r) (\<lambda>(sv, ad, iv).
       plan_hold tzdb st_distance clk new_id s r fingerprint sv ad iv)"

definition hold_audit :: "datetime \<Rightarrow> capacity_hold \<Rightarrow> string \<Rightarrow> audit_log" where
  "hold_audit now h action = \<lparr>al_actor_id = None, al_actor_type = ''booking_session'',
     al_action = action, al_resource_type = ''capacity_hold'', al_resource_id = pk h,
     al_metadata_json = [(''expires_at'', JTime (ch_expires_at h)),
                         (''timezone_id'', JStr (ch_timezone_id h))],
     al_created_at = now\<rparr>"

definition create_hold ::
  "(string \<Rightarrow> zone option) \<Rightarrow> (uuid \<Rightarrow> uuid \<Rightarrow> rat option) \<Rightarrow> (string \<Rightarrow> string) \<Rightarrow> (nat \<Rightarrow> datetime)
   \<Rightarrow> uuid \<Rightarrow> hold_request \<Rightarrow> db \<Rightarrow> (db, capacity_hold) outcome"
where
  "create_hold tzdb st_distance sha256 clk new_id r s =
     (case owner_fingerprint sha256 (hr_booking_session r) of
        Inl e \<Rightarrow> (Inl e, s)
      | Inr fingerprint \<Rightarrow>
          case find (\<lambda>h. ch_idempotency_key h = hr_idempotency_key r) (holds s) of
            Some existing \<Rightarrow>
              if ch_owner_fingerprint_hash existing \<noteq> fingerprint
              then (Inl (DomainError ''HOLD_CONFLICT'' 409), s)
              else (Inr existing, s)
          | None \<Rightarrow>
              case new_hold tzdb st_distance clk new_id s r fingerprint of
                Inl e \<Rightarrow> (Inl e, s)
              | Inr h \<Rightarrow>
                  (Inr h, add_audit (hold_audit (clk 3) h ''capacity_hold.created'')
                            (s\<lparr>holds := holds s @ [h]\<rparr>)))"

abbreviation modify_hold :: "uuid \<Rightarrow> (capacity_hold \<Rightarrow> capacity_hold) \<Rightarrow> db \<Rightarrow> db" where
  "modify_hold i f s \<equiv> s\<lparr>holds := update_row pk i f (holds s)\<rparr>"

definition get_hold ::
  "(string \<Rightarrow> string) \<Rightarrow> datetime \<Rightarrow> uuid \<Rightarrow> string \<Rightarrow> db \<Rightarrow> (db, capacity_hold) outcome"
where
  "get_hold sha256 now hold_id booking_session s =
     (case lookup_row pk hold_id (holds s) of
        None \<Rightarrow> (Inl (DomainError ''HOLD_NOT_FOUND'' 404), s)
      | Some h \<Rightarrow>
          case owner_fingerprint sha256 booking_session of
            Inl e \<Rightarrow> (Inl e, s)
          | Inr fingerprint \<Rightarrow>
              if ch_owner_fingerprint_hash h \<noteq> fingerprint
              then (Inl (DomainError ''HOLD_NOT_FOUND'' 404), s)
              else if ch_status h = H_HELD \<and> ch_expires_at h \<le> now
              then (Inr (h\<lparr>ch_status := H_EXPIRED\<rparr>),
                    modify_hold hold_id (\<lambda>x. x\<lparr>ch_status := H_EXPIRED\<rparr>) s)
              else (Inr h, s))"

definition release_hold ::
  "(string \<Rightarrow> string) \<Rightarrow> (nat \<Rightarrow> datetime) \<Rightarrow> uuid \<Rightarrow> string \<Rightarrow> db \<Rightarrow> (db, unit) outcome"
where
  "release_hold sha256 clk hold_id booking_session s =
     (case owner_fingerprint sha256 booking_session of
        Inl e \<Rightarrow> (Inl e, s)
      | Inr fingerprint \<Rightarrow>
          case lookup_row pk hold_id (holds s) of
            None \<Rightarrow> (Inl (DomainError ''HOLD_NOT_FOUND'' 404), s)
          | Some h \<Rightarrow>
              if ch_owner_fingerprint_hash h \<noteq> fingerprint
              then (Inl (DomainError ''HOLD_NOT_FOUND'' 404), s)
              else if ch_status h = H_HELD
              then (Inr (), add_audit (hold_audit (clk 1) h ''capacity_hold.released'')
                      (modify_hold hold_id
                        (\<lambda>x. x\<lparr>ch_status := H_RELEASED, ch_released_at := Some (clk 0)\<rparr>) s))
              else (Inr (), s))"

definition stale :: "datetime \<Rightarrow> capacity_hold \<Rightarrow> bool" where
  "stale now h = (ch_status h = H_HELD \<and> ch_expires_at h \<le> now)"

definition expire_stale :: "datetime \<Rightarrow> db \<Rightarrow> nat \<times> db" where
  "expire_stale now s =
     (count_where (stale now) (holds s),
      s\<lparr>holds := update_where (stale now) (\<lambda>h. h\<lparr>ch_status := H_EXPIRED\<rparr>) (holds s)\<rparr>)"

section \<open>Lemmas\<close>

lemma hold_slot_InrD:
  assumes "hold_slot tzdb s r = Inr (sv, ad, iv)"
  shows "get_service s (hr_service_id r) = Some sv \<and> get_address s (hr_address_id r) = Some ad
    \<and> sv_is_active sv \<and> sv_is_bookable sv \<and> \<not> sv_quote_required sv
    \<and> hr_timezone_id r = ad_timezone_name ad
    \<and> local_interval tzdb (hr_start_local r) (shift (minutes (duration_or_default sv
           + sv_before_buffer_minutes sv + sv_after_buffer_minutes sv)) (hr_start_local r))
           (hr_timezone_id r) None None = Inr iv"
  using assms unfolding hold_slot_def Let_def
  by (auto elim!: bindE_InrE split: option.splits)

lemma plan_hold_InrD:
  assumes "plan_hold tzdb st_distance clk new_id s r fp sv ad iv = Inr h"
  shows "\<exists>c cs. candidates tzdb st_distance (clk 0) s sv ad (start_utc iv) (end_utc iv)
           (hr_emergency r) None = Inr (c # cs)
    \<and> ch_provider_candidate_id h = provider_id c
    \<and> ch_professional_candidate_id h = professional_id c
    \<and> ch_capacity_minutes h = capacity_minutes c
    \<and> ch_slot_start_utc h = start_utc iv \<and> ch_slot_end_utc h = end_utc iv
    \<and> ch_service_id h = pk sv \<and> ch_address_id h = pk ad
    \<and> count_where (owner_active fp (clk 2)) (holds s) < MAX_ACTIVE_HOLDS_PER_OWNER
    \<and> new_id \<notin> pk ` set (holds s) \<and> pk h = new_id \<and> ch_booking_id h = None
    \<and> ch_status h = H_HELD \<and> ch_expires_at h = clk 2 + HOLD_DURATION
    \<and> ch_owner_fingerprint_hash h = fp \<and> ch_idempotency_key h = hr_idempotency_key r"
  using assms unfolding plan_hold_def
  by (auto elim!: bindE_InrE simp: list_ex_key split: list.splits)

lemma create_hold_cases:
  assumes "create_hold tzdb st_distance sha256 clk new_id r s = (res, s')"
  shows "(s' = s \<and> (case res of Inl _ \<Rightarrow> True | Inr h \<Rightarrow> h \<in> set (holds s)
            \<and> ch_idempotency_key h = hr_idempotency_key r
            \<and> owner_fingerprint sha256 (hr_booking_session r) = Inr (ch_owner_fingerprint_hash h)))
    \<or> (\<exists>h fp sv ad iv. res = Inr h \<and> owner_fingerprint sha256 (hr_booking_session r) = Inr fp
        \<and> hr_idempotency_key r \<notin> ch_idempotency_key ` set (holds s)
        \<and> hold_slot tzdb s r = Inr (sv, ad, iv)
        \<and> plan_hold tzdb st_distance clk new_id s r fp sv ad iv = Inr h
        \<and> s' = s\<lparr>holds := holds s @ [h],
                 audit_logs := audit_logs s @ [hold_audit (clk 3) h ''capacity_hold.created'']\<rparr>)"
proof (cases "owner_fingerprint sha256 (hr_booking_session r)")
  case (Inl e)
  with assms show ?thesis by (auto simp: create_hold_def)
next
  case fp: (Inr fp)
  show ?thesis
  proof (cases "find (\<lambda>h. ch_idempotency_key h = hr_idempotency_key r) (holds s)")
    case (Some h)
    with assms fp show ?thesis
      by (auto simp: create_hold_def dest: find_SomeD split: if_splits)
  next
    case None
    show ?thesis
    proof (cases "new_hold tzdb st_distance clk new_id s r fp")
      case (Inl e)
      from assms have "res = Inl e" "s' = s" by (simp_all add: create_hold_def fp None Inl)
      then show ?thesis by simp
    next
      case (Inr h)
      then obtain sv ad iv where "hold_slot tzdb s r = Inr (sv, ad, iv)"
        and "plan_hold tzdb st_distance clk new_id s r fp sv ad iv = Inr h"
        by (auto simp: new_hold_def elim: bindE_InrE)
      moreover from assms have "res = Inr h" "s' = s\<lparr>holds := holds s @ [h], audit_logs :=
          audit_logs s @ [hold_audit (clk 3) h ''capacity_hold.created'']\<rparr>"
        by (simp_all add: create_hold_def fp None Inr)
      moreover from None have "hr_idempotency_key r \<notin> ch_idempotency_key ` set (holds s)"
        by (auto simp: find_None_iff)
      ultimately show ?thesis using fp by blast
    qed
  qed
qed

section \<open>The hold table over time\<close>

text \<open>
  The operations on the hold table, with the clock that moves between them.  A handler's readings
  lie between the time it starts and the time it ends.  Conversion of a hold is the step a booking
  request and a reschedule make on this table.
\<close>

definition convert_hold :: "uuid \<Rightarrow> uuid \<Rightarrow> datetime \<Rightarrow> capacity_hold list \<Rightarrow> capacity_hold list" where
  "convert_hold hold_id booking_id now hs =
     update_row pk hold_id (\<lambda>h. h\<lparr>ch_booking_id := Some booking_id, ch_status := H_CONVERTED,
       ch_converted_at := Some now\<rparr>) hs"

text \<open>The held rows of a booking, one row kept apart, are released on cancel and on reschedule.\<close>

definition release_booking_holds ::
  "uuid \<Rightarrow> uuid option \<Rightarrow> datetime \<Rightarrow> capacity_hold list \<Rightarrow> capacity_hold list"
where
  "release_booking_holds booking_id keep now hs =
     update_where (\<lambda>h. ch_booking_id h = Some booking_id \<and> Some (pk h) \<noteq> keep
         \<and> ch_status h = H_HELD)
       (\<lambda>h. h\<lparr>ch_status := H_RELEASED, ch_released_at := Some now\<rparr>) hs"

inductive hold_step ::
  "datetime \<times> capacity_hold list \<Rightarrow> datetime \<times> capacity_hold list \<Rightarrow> bool" where
  hs_create: "create_hold tzdb st_distance sha256 clk new_id r s = (res, s') \<Longrightarrow>
     now \<le> clk 2 \<Longrightarrow> clk 2 \<le> now' \<Longrightarrow> hold_step (now, holds s) (now', holds s')"
| hs_get: "get_hold sha256 t hold_id booking_session s = (res, s') \<Longrightarrow>
     now \<le> now' \<Longrightarrow> hold_step (now, holds s) (now', holds s')"
| hs_release: "release_hold sha256 clk hold_id booking_session s = (res, s') \<Longrightarrow>
     now \<le> now' \<Longrightarrow> hold_step (now, holds s) (now', holds s')"
| hs_expire: "expire_stale t s = (n, s') \<Longrightarrow>
     now \<le> now' \<Longrightarrow> hold_step (now, holds s) (now', holds s')"
| hs_convert: "lookup_row pk hold_id hs = Some h \<Longrightarrow> ch_status h = H_HELD \<Longrightarrow>
     now \<le> now' \<Longrightarrow> hold_step (now, hs) (now', convert_hold hold_id b t hs)"
| hs_cancel: "now \<le> now' \<Longrightarrow> hold_step (now, hs) (now', release_booking_holds b keep t hs)"

inductive hold_reachable :: "datetime \<times> capacity_hold list \<Rightarrow> bool" where
  hold_start: "hold_reachable (now, [])"
| hold_next: "hold_reachable x \<Longrightarrow> hold_step x y \<Longrightarrow> hold_reachable y"

definition hold_inv :: "datetime \<times> capacity_hold list \<Rightarrow> bool" where
  "hold_inv x =
     (distinct (map pk (snd x)) \<and> distinct (map ch_idempotency_key (snd x))
      \<and> (\<forall>h \<in> set (snd x). ch_status h = H_CONVERTED \<longleftrightarrow> ch_booking_id h \<noteq> None)
      \<and> (\<forall>fp. count_where (owner_active fp (fst x)) (snd x) \<le> MAX_ACTIVE_HOLDS_PER_OWNER))"

lemma owner_active_later: "owner_active fp now' h \<Longrightarrow> now \<le> now' \<Longrightarrow> owner_active fp now h"
  by (simp add: owner_active_def)

lemma count_active_later:
  "now \<le> now' \<Longrightarrow> count_where (owner_active fp now') hs \<le> count_where (owner_active fp now) hs"
  by (rule count_where_mono) (rule owner_active_later)

text \<open>Ending some held rows, with keys and owner kept, keeps the invariant.\<close>

lemma hold_inv_update:
  assumes inv: "hold_inv (now, hs)" and le: "now \<le> now'"
    and keys: "\<And>h. pk (f h) = pk h" "\<And>h. ch_idempotency_key (f h) = ch_idempotency_key h"
    and ends: "\<And>h. h \<in> set hs \<Longrightarrow> P h \<Longrightarrow> ch_status (f h) \<noteq> H_HELD
        \<and> (ch_status (f h) = H_CONVERTED \<longleftrightarrow> ch_booking_id (f h) \<noteq> None)"
  shows "hold_inv (now', update_where P f hs)"
proof -
  have active: "count_where (owner_active fp now') (update_where P f hs)
      \<le> count_where (owner_active fp now) hs" for fp
    using ends
  proof (induction hs)
    case (Cons h hs)
    then have "count_where (owner_active fp now') (update_where P f hs)
        \<le> count_where (owner_active fp now) hs" by simp
    moreover have "owner_active fp now' (if P h then f h else h) \<Longrightarrow> owner_active fp now h"
      using Cons.prems [of h] le by (auto simp: owner_active_def split: if_splits)
    ultimately show ?case by (auto simp: update_where_def)
  qed (simp add: update_where_def)
  have "count_where (owner_active fp now') (update_where P f hs) \<le> MAX_ACTIVE_HOLDS_PER_OWNER" for fp
    using active [of fp] inv unfolding hold_inv_def by (metis fst_conv le_trans snd_conv)
  moreover have "ch_status h = H_CONVERTED \<longleftrightarrow> ch_booking_id h \<noteq> None"
    if "h \<in> set (update_where P f hs)" for h
  proof -
    from that obtain g where g: "g \<in> set hs" "h = (if P g then f g else g)"
      by (auto simp: set_update_where)
    then show ?thesis using ends [OF g(1)] inv by (auto simp: hold_inv_def split: if_splits)
  qed
  moreover have "map pk (update_where P f hs) = map pk hs"
    and "map ch_idempotency_key (update_where P f hs) = map ch_idempotency_key hs"
    using keys by (auto intro: map_key_update_where)
  ultimately show ?thesis using inv unfolding hold_inv_def by simp
qed

lemma held_row_unbooked:
  assumes "hold_inv (now, hs)" and "lookup_row pk i hs = Some h" and "ch_status h = H_HELD"
    and "x \<in> set hs" and "pk x = i"
  shows "ch_booking_id x = None"
proof -
  have "x = h" using assms lookup_row_distinct [of pk hs x] by (simp add: hold_inv_def)
  then show ?thesis using assms by (auto simp: hold_inv_def)
qed

text \<open>A held row that is released or expires.\<close>

lemma hold_inv_end_held:
  assumes inv: "hold_inv (now, hs)" and le: "now \<le> now'"
    and h: "lookup_row pk i hs = Some h" "ch_status h = H_HELD"
    and f: "\<And>x. pk (f x) = pk x" "\<And>x. ch_idempotency_key (f x) = ch_idempotency_key x"
      "\<And>x. ch_booking_id (f x) = ch_booking_id x" "\<And>x. ch_status (f x) \<in> {H_EXPIRED, H_RELEASED}"
  shows "hold_inv (now', update_row pk i f hs)"
  unfolding update_row_def
proof (rule hold_inv_update [OF inv le f(1,2)])
  fix x assume "x \<in> set hs" and "pk x = i"
  with held_row_unbooked [OF inv h] f(3,4) [of x]
  show "ch_status (f x) \<noteq> H_HELD \<and> (ch_status (f x) = H_CONVERTED \<longleftrightarrow> ch_booking_id (f x) \<noteq> None)"
    by auto
qed

lemma hold_inv_later:
  assumes inv: "hold_inv (now, hs)" and le: "now \<le> now'"
  shows "hold_inv (now', hs)"
proof -
  have "count_where (owner_active fp now') hs \<le> MAX_ACTIVE_HOLDS_PER_OWNER" for fp
    using count_active_later [OF le, of fp hs] inv unfolding hold_inv_def fst_conv snd_conv
    by (blast intro: le_trans)
  with inv show ?thesis by (simp add: hold_inv_def)
qed

lemma hold_inv_create:
  assumes inv: "hold_inv (now, holds s)"
    and create: "create_hold tzdb st_distance sha256 clk new_id r s = (res, s')"
    and le: "now \<le> clk 2" "clk 2 \<le> now'"
  shows "hold_inv (now', holds s')"
  using create_hold_cases [OF create]
proof (elim disjE exE conjE)
  assume "s' = s"
  then show ?thesis using hold_inv_later [OF inv] le by simp
next
  fix h fp sv ad iv
  assume new: "hr_idempotency_key r \<notin> ch_idempotency_key ` set (holds s)"
    and plan: "plan_hold tzdb st_distance clk new_id s r fp sv ad iv = Inr h"
    and s': "s' = s\<lparr>holds := holds s @ [h],
        audit_logs := audit_logs s @ [hold_audit (clk 3) h ''capacity_hold.created'']\<rparr>"
  from plan_hold_InrD [OF plan] have h: "pk h \<notin> pk ` set (holds s)" "ch_booking_id h = None"
    "ch_status h = H_HELD" "ch_owner_fingerprint_hash h = fp"
    "ch_idempotency_key h = hr_idempotency_key r"
    "count_where (owner_active fp (clk 2)) (holds s) < MAX_ACTIVE_HOLDS_PER_OWNER" by auto
  have "count_where (owner_active g now') (holds s @ [h]) \<le> MAX_ACTIVE_HOLDS_PER_OWNER" for g
  proof (cases "g = fp")
    case True
    have "count_where (owner_active fp now') (holds s) < MAX_ACTIVE_HOLDS_PER_OWNER"
      using count_active_later [OF le(2), of fp "holds s"] h(6) by simp
    with True show ?thesis by simp
  next
    case False
    then have "\<not> owner_active g now' h" using h(4) by (simp add: owner_active_def)
    moreover have "count_where (owner_active g now') (holds s) \<le> MAX_ACTIVE_HOLDS_PER_OWNER"
      using hold_inv_later [OF inv, of now'] le by (simp add: hold_inv_def)
    ultimately show ?thesis by simp
  qed
  moreover have "distinct (map pk (holds s @ [h]))"
    and "distinct (map ch_idempotency_key (holds s @ [h]))"
    using inv h new by (simp_all add: hold_inv_def)
  moreover have "\<forall>x \<in> set (holds s @ [h]). ch_status x = H_CONVERTED \<longleftrightarrow> ch_booking_id x \<noteq> None"
    using inv h by (simp add: hold_inv_def)
  ultimately show ?thesis unfolding hold_inv_def s' by simp
qed

text \<open>A held row has no booking, so releasing the held rows of a booking releases nothing.\<close>

lemma release_booking_holds_nothing:
  assumes "hold_inv (now, hs)"
  shows "release_booking_holds b keep t hs = hs"
proof -
  have "\<not> (ch_booking_id h = Some b \<and> Some (pk h) \<noteq> keep \<and> ch_status h = H_HELD)" if "h \<in> set hs" for h
    using assms that by (auto simp: hold_inv_def)
  then show ?thesis unfolding release_booking_holds_def update_where_def
    by (intro map_idI) auto
qed

lemma get_hold_cases:
  assumes "get_hold sha256 t hold_id booking_session s = (res, s')"
  shows "s' = s \<or> (\<exists>h. lookup_row pk hold_id (holds s) = Some h \<and> ch_status h = H_HELD
      \<and> ch_expires_at h \<le> t \<and> s' = modify_hold hold_id (\<lambda>x. x\<lparr>ch_status := H_EXPIRED\<rparr>) s)"
  using assms unfolding get_hold_def
  by (simp split: option.splits sum.splits if_splits)

lemma release_hold_cases:
  assumes "release_hold sha256 clk hold_id booking_session s = (res, s')"
  shows "s' = s \<or> (\<exists>h. lookup_row pk hold_id (holds s) = Some h \<and> ch_status h = H_HELD
      \<and> holds s' = update_row pk hold_id
          (\<lambda>x. x\<lparr>ch_status := H_RELEASED, ch_released_at := Some (clk 0)\<rparr>) (holds s))"
  using assms unfolding release_hold_def
  by (auto split: option.splits sum.splits if_splits)

lemma hold_step_inv: "hold_step x y \<Longrightarrow> hold_inv x \<Longrightarrow> hold_inv y"
proof (induction rule: hold_step.induct)
  case (hs_create tzdb st_distance sha256 clk new_id r s res s' now now')
  then show ?case by (blast intro: hold_inv_create)
next
  case (hs_get sha256 t hold_id booking_session s res s' now now')
  from get_hold_cases [OF hs_get(1)] show ?case
  proof (elim disjE exE conjE)
    assume "s' = s"
    then show ?thesis using hold_inv_later [OF hs_get(3,2)] by simp
  next
    fix h assume "lookup_row pk hold_id (holds s) = Some h" "ch_status h = H_HELD"
    note ended = hold_inv_end_held [OF hs_get(3,2) this]
    assume "s' = modify_hold hold_id (\<lambda>x. x\<lparr>ch_status := H_EXPIRED\<rparr>) s"
    then show ?thesis by (simp add: ended)
  qed
next
  case (hs_release sha256 clk hold_id booking_session s res s' now now')
  from release_hold_cases [OF hs_release(1)] show ?case
  proof (elim disjE exE conjE)
    assume "s' = s"
    then show ?thesis using hold_inv_later [OF hs_release(3,2)] by simp
  next
    fix h assume "lookup_row pk hold_id (holds s) = Some h" "ch_status h = H_HELD"
    note ended = hold_inv_end_held [OF hs_release(3,2) this]
    assume "holds s' = update_row pk hold_id
        (\<lambda>x. x\<lparr>ch_status := H_RELEASED, ch_released_at := Some (clk 0)\<rparr>) (holds s)"
    then show ?thesis by (simp add: ended)
  qed
next
  case (hs_expire t s n s' now now')
  have "hold_inv (now', update_where (stale t) (\<lambda>h. h\<lparr>ch_status := H_EXPIRED\<rparr>) (holds s))"
    by (rule hold_inv_update [OF hs_expire(3,2)])
      (use hs_expire(3) in \<open>auto simp: stale_def hold_inv_def\<close>)
  with hs_expire(1) show ?case by (auto simp: expire_stale_def)
next
  case (hs_convert hold_id hs h now now' b t)
  show ?case unfolding convert_hold_def update_row_def
    by (rule hold_inv_update [OF hs_convert(4,3)]) simp_all
next
  case (hs_cancel now now' hs b keep t)
  then show ?case by (simp add: release_booking_holds_nothing [OF hs_cancel(2)] hold_inv_later)
qed

lemma hold_reachable_inv: "hold_reachable x \<Longrightarrow> hold_inv x"
proof (induction rule: hold_reachable.induct)
  case (hold_start now)
  show ?case by (simp add: hold_inv_def MAX_ACTIVE_HOLDS_PER_OWNER_def)
next
  case (hold_next x y)
  then show ?case using hold_step_inv by blast
qed

text \<open>What a step does to a row that is no longer held: nothing.\<close>

lemma ended_row_kept:
  assumes "lookup_row pk i hs = Some g" and "ch_status g = H_HELD" and "distinct (map pk hs)"
    and "h \<in> set hs" and "ch_status h \<noteq> H_HELD"
  shows "h \<in> set (update_row pk i f hs)"
proof -
  have "pk h \<noteq> i" using lookup_row_distinct [OF assms(3,4)] assms by auto
  with assms(4) show ?thesis by (force simp: set_update_row)
qed

lemma ended_row_kept_where:
  "h \<in> set hs \<Longrightarrow> \<not> P h \<Longrightarrow> h \<in> set (update_where P f hs)"
  by (force simp: set_update_where)

lemma hold_step_ended:
  "hold_step x y \<Longrightarrow> hold_inv x \<Longrightarrow> h \<in> set (snd x) \<Longrightarrow> ch_status h \<noteq> H_HELD \<Longrightarrow> h \<in> set (snd y)"
proof (induction rule: hold_step.induct)
  case (hs_create tzdb st_distance sha256 clk new_id r s res s' now now')
  from create_hold_cases [OF hs_create(1)] hs_create(5) show ?case by auto
next
  case (hs_get sha256 t hold_id booking_session s res s' now now')
  from get_hold_cases [OF hs_get(1)] hs_get(3-5) show ?case
    by (auto simp: hold_inv_def intro: ended_row_kept)
next
  case (hs_release sha256 clk hold_id booking_session s res s' now now')
  from release_hold_cases [OF hs_release(1)] hs_release(3-5) show ?case
    by (auto simp: hold_inv_def intro: ended_row_kept)
next
  case (hs_expire t s n s' now now')
  then have "h \<in> set (update_where (stale t) (\<lambda>h. h\<lparr>ch_status := H_EXPIRED\<rparr>) (holds s))"
    by (intro ended_row_kept_where) (simp_all add: stale_def)
  with hs_expire(1) show ?case by (auto simp: expire_stale_def)
next
  case (hs_convert hold_id hs g now now' b t)
  then show ?case by (auto simp: convert_hold_def hold_inv_def intro: ended_row_kept)
next
  case (hs_cancel now now' hs b keep t)
  then show ?case by (simp add: release_booking_holds_def ended_row_kept_where)
qed

lemma hold_steps_ended:
  assumes "hold_step\<^sup>*\<^sup>* x y"
  shows "hold_inv x \<Longrightarrow> h \<in> set (snd x) \<Longrightarrow> ch_status h \<noteq> H_HELD \<Longrightarrow> hold_inv y \<and> h \<in> set (snd y)"
  using assms by (induction rule: rtranclp_induct) (auto intro: hold_step_inv hold_step_ended)

section \<open>Properties\<close>


text \<open>A hold that ended, released, expired or converted, stays as it is: no sequence of
  operations revives it or ties it to another booking.\<close>

lemma ended_hold_is_final:
  assumes "hold_reachable (now, hs)" and "hold_step\<^sup>*\<^sup>* (now, hs) (now', hs')"
    and "h \<in> set hs" and "ch_status h \<noteq> H_HELD"
  shows "h \<in> set hs'"
  using hold_steps_ended [OF assms(2)] hold_reachable_inv [OF assms(1)] assms(3,4) by simp

text \<open>Asking again with the same key and session, whatever the clock, the id drawn and the
  other fields of the request, gives back the first hold and writes nothing.\<close>

lemma create_hold_repeat:
  assumes "create_hold tzdb st_distance sha256 clk new_id r s = (Inr h, s')"
    and "hr_idempotency_key r' = hr_idempotency_key r"
    and "strip (hr_booking_session r') = strip (hr_booking_session r)"
  shows "create_hold tzdb st_distance sha256 clk' new_id' r' s' = (Inr h, s')"
proof -
  have same: "owner_fingerprint sha256 (hr_booking_session r') =
      owner_fingerprint sha256 (hr_booking_session r)"
    by (simp add: owner_fingerprint_def assms(3))
  show ?thesis
  proof (cases "find (\<lambda>x. ch_idempotency_key x = hr_idempotency_key r) (holds s)")
    case (Some x)
    with assms(1) have "s' = s \<and> h = x
        \<and> owner_fingerprint sha256 (hr_booking_session r) = Inr (ch_owner_fingerprint_hash x)"
      by (auto simp: create_hold_def split: sum.splits if_splits)
    with Some assms(2) same show ?thesis by (simp add: create_hold_def)
  next
    case None
    then have new: "hr_idempotency_key r \<notin> ch_idempotency_key ` set (holds s)"
      by (auto simp: find_None_iff)
    with create_hold_cases [OF assms(1)] obtain fp sv ad iv
      where fp: "owner_fingerprint sha256 (hr_booking_session r) = Inr fp"
        and plan: "plan_hold tzdb st_distance clk new_id s r fp sv ad iv = Inr h"
        and s': "holds s' = holds s @ [h]" by (auto simp: image_iff)
    from None have "find (\<lambda>x. ch_idempotency_key x = hr_idempotency_key r) (holds s @ [h]) = Some h"
      using plan_hold_InrD [OF plan] by (auto simp: find_snoc)
    with fp s' same assms(2) plan_hold_InrD [OF plan] show ?thesis by (auto simp: create_hold_def)
  qed
qed

text \<open>C16.  A request that adds a hold holds the interval its local times denote, for thirty
  minutes, for a professional who is suitable for it and whom no other candidate outscores, of an
  owner with at most two live holds before; a request that fails changes nothing.\<close>

theorem create_hold_sound:
  assumes "create_hold tzdb st_distance sha256 clk new_id r s = (res, s')"
  shows "(case res of Inl _ \<Rightarrow> s' = s | Inr h \<Rightarrow> holds s' = holds s \<and> h \<in> set (holds s)
    \<or> holds s' = holds s @ [h] \<and> ch_status h = H_HELD \<and> ch_expires_at h = clk 2 + minutes 30
      \<and> length (filter (owner_active (ch_owner_fingerprint_hash h) (clk 2)) (holds s)) \<le> 2
      \<and> (\<exists>sv ad c cs iv. get_service s (hr_service_id r) = Some sv
           \<and> get_address s (hr_address_id r) = Some ad
           \<and> local_interval tzdb (hr_start_local r) (shift (minutes (duration_or_default sv
               + sv_before_buffer_minutes sv + sv_after_buffer_minutes sv)) (hr_start_local r))
               (ad_timezone_name ad) None None = Inr iv
           \<and> ch_slot_start_utc h = start_utc iv \<and> ch_slot_end_utc h = end_utc iv
           \<and> ch_professional_candidate_id h = professional_id c
           \<and> suitable tzdb (clk 0) s sv ad (start_utc iv) (end_utc iv) (hr_emergency r) c
           \<and> candidates tzdb st_distance (clk 0) s sv ad (start_utc iv) (end_utc iv)
               (hr_emergency r) None = Inr (c # cs)
           \<and> (\<forall>c' \<in> set (c # cs). score c' \<le> score c)))"
  using create_hold_cases [OF assms]
proof (elim disjE exE conjE)
  fix h fp sv ad iv
  assume res: "res = Inr h" and slot: "hold_slot tzdb s r = Inr (sv, ad, iv)"
    and plan: "plan_hold tzdb st_distance clk new_id s r fp sv ad iv = Inr h"
    and s': "s' = s\<lparr>holds := holds s @ [h],
        audit_logs := audit_logs s @ [hold_audit (clk 3) h ''capacity_hold.created'']\<rparr>"
  from plan_hold_InrD [OF plan] obtain c cs where
    cs: "candidates tzdb st_distance (clk 0) s sv ad (start_utc iv) (end_utc iv)
           (hr_emergency r) None = Inr (c # cs)" and
    h: "ch_professional_candidate_id h = professional_id c" "ch_slot_start_utc h = start_utc iv"
      "ch_slot_end_utc h = end_utc iv" "ch_status h = H_HELD"
      "ch_expires_at h = clk 2 + HOLD_DURATION" "ch_owner_fingerprint_hash h = fp"
      "count_where (owner_active fp (clk 2)) (holds s) < MAX_ACTIVE_HOLDS_PER_OWNER" by auto
  have few: "length (filter (owner_active (ch_owner_fingerprint_hash h) (clk 2)) (holds s)) \<le> 2"
    using h(6,7) by (simp add: count_where_def MAX_ACTIVE_HOLDS_PER_OWNER_def)
  have best: "\<forall>c' \<in> set (c # cs). score c' \<le> score c" using matcher.head_best [OF cs] by blast
  have "\<exists>sv ad c cs iv. get_service s (hr_service_id r) = Some sv
      \<and> get_address s (hr_address_id r) = Some ad
      \<and> local_interval tzdb (hr_start_local r) (shift (minutes (duration_or_default sv
          + sv_before_buffer_minutes sv + sv_after_buffer_minutes sv)) (hr_start_local r))
          (ad_timezone_name ad) None None = Inr iv
      \<and> ch_slot_start_utc h = start_utc iv \<and> ch_slot_end_utc h = end_utc iv
      \<and> ch_professional_candidate_id h = professional_id c
      \<and> suitable tzdb (clk 0) s sv ad (start_utc iv) (end_utc iv) (hr_emergency r) c
      \<and> candidates tzdb st_distance (clk 0) s sv ad (start_utc iv) (end_utc iv)
          (hr_emergency r) None = Inr (c # cs)
      \<and> (\<forall>c' \<in> set (c # cs). score c' \<le> score c)"
    using hold_slot_InrD [OF slot] h(1-3) matcher.head_suits [OF cs] cs best by metis
  then show ?thesis using res s' h(4,5) few by (simp add: HOLD_DURATION_def)
qed (auto split: sum.splits)

section \<open>The sample hold\<close>

definition sample_hold_request :: hold_request where
  "sample_hold_request = \<lparr>hr_service_id = 10, hr_address_id = 20, hr_start_local = Naive sample_local,
     hr_timezone_id = ''America/New_York'', hr_booking_session = ''session-0123456789'',
     hr_idempotency_key = ''key-1'', hr_emergency = False\<rparr>"

definition sample_hold :: capacity_hold where
  "sample_hold = \<lparr>pk = 70, created_at = sample_now, ch_booking_id = None, ch_service_id = 10,
     ch_address_id = 20, ch_provider_candidate_id = 30, ch_professional_candidate_id = 40,
     ch_slot_start_utc = sample_start, ch_slot_end_utc = sample_end,
     ch_timezone_id = ''America/New_York'', ch_capacity_minutes = 60, ch_status = H_HELD,
     ch_expires_at = sample_now + minutes 30, ch_released_at = None, ch_converted_at = None,
     ch_owner_fingerprint_hash = ''session-0123456789'', ch_idempotency_key = ''key-1''\<rparr>"

definition hold_db :: db where
  "hold_db = sample_db\<lparr>holds := [sample_hold],
     audit_logs := [hold_audit sample_now sample_hold ''capacity_hold.created'']\<rparr>"


lemma sample_create:
  "create_hold sample_tzdb no_distance (\<lambda>v. v) (\<lambda>_. sample_now) 70 sample_hold_request sample_db
   = (Inr sample_hold, hold_db)"
  by code_simp

lemma sample_hold_reachable: "hold_reachable (sample_now, [sample_hold])"
proof -
  have "hold_step (sample_now, holds sample_db) (sample_now, holds hold_db)"
    using sample_create by (rule hs_create) simp_all
  then show ?thesis
    using hold_next [OF hold_start] by (simp add: sample_db_def empty_db_def hold_db_def)
qed

text \<open>The hold expires after half an hour.\<close>

definition expired_hold :: capacity_hold where
  "expired_hold = sample_hold\<lparr>ch_status := H_EXPIRED\<rparr>"

lemma sample_expiry:
  "hold_step (sample_now, [sample_hold]) (sample_now + minutes 30, [expired_hold])"
proof -
  have "expire_stale (sample_now + minutes 30) hold_db
      = (1, hold_db\<lparr>holds := [expired_hold]\<rparr>)" by code_simp
  then have "hold_step (sample_now, holds hold_db)
      (sample_now + minutes 30, holds (hold_db\<lparr>holds := [expired_hold]\<rparr>))"
    by (rule hs_expire) (simp add: minutes_def seconds_def)
  then show ?thesis by (simp add: hold_db_def)
qed


lemma ended_hold_is_final_witness:
  "expired_hold \<in> set [expired_hold] \<and> ch_status expired_hold = H_EXPIRED"
proof -
  have expired: "ch_status expired_hold = H_EXPIRED" by (simp add: expired_hold_def)
  have "hold_reachable (sample_now + minutes 30, [expired_hold])"
    using sample_hold_reachable sample_expiry by (rule hold_next)
  moreover have "hold_step (sample_now + minutes 30, [expired_hold])
      (sample_now + minutes 40, release_booking_holds 1 None 0 [expired_hold])"
    by (rule hs_cancel) (simp add: minutes_def seconds_def)
  moreover have "release_booking_holds 1 None 0 [expired_hold] = [expired_hold]"
    by (simp add: release_booking_holds_def update_where_def expired)
  ultimately have "expired_hold \<in> set [expired_hold]"
    using expired ended_hold_is_final [OF _ r_into_rtranclp, of _ _ _ _ expired_hold] by force
  with expired show ?thesis by simp
qed

theorem create_hold_repeat_witness:
  "create_hold sample_tzdb no_distance (\<lambda>v. v) (\<lambda>_. 0) 71
     (sample_hold_request\<lparr>hr_service_id := 99\<rparr>) hold_db = (Inr sample_hold, hold_db)"
  by (rule create_hold_repeat [OF sample_create]) simp_all

theorem create_hold_sound_witness:
  "length (filter (owner_active (ch_owner_fingerprint_hash sample_hold) sample_now)
     (holds sample_db)) \<le> 2 \<and> ch_expires_at sample_hold = sample_now + minutes 30"
proof -
  have new: "sample_hold \<notin> set (holds sample_db)" by (simp add: sample_db_def empty_db_def)
  from create_hold_sound [OF sample_create, unfolded sum.case] show ?thesis
  proof (elim disjE conjE)
    assume "sample_hold \<in> set (holds sample_db)"
    with new show ?thesis by (rule notE)
  qed (rule conjI)
qed

end
