(* ===== verification/Bookings.thy ===== *)
theory Bookings
  imports Database Timezones Samples
begin

text \<open>
  \<^verbatim>\<open>booking/repository.py\<close> and \<^verbatim>\<open>booking/service.py\<close>: address validation, availability search over
  working hours, and the creation of a tentative booking.  Parameters: the geocoding service, PostGIS
  \<^verbatim>\<open>ST_Covers\<close>, the zone database, \<^verbatim>\<open>sha256\<close> of a text and of a request's canonical JSON, and the
  tokens and ids drawn.  The counts of one search are taken at one reading of the clock.
\<close>

section \<open>Queries\<close>

definition service_area_at ::
  "(geometry \<Rightarrow> point \<Rightarrow> bool) \<Rightarrow> db \<Rightarrow> point \<Rightarrow> string \<Rightarrow> string option \<Rightarrow> string \<Rightarrow> string
   \<Rightarrow> (service_area \<times> legal_entity) option"
where
  "service_area_at st_covers s p country_code state_code city postal_code =
     (case [(a, e). a \<leftarrow> service_areas s, e \<leftarrow> legal_entities s,
              pk e = sa_legal_entity_id a, sa_active a, le_active e,
              sa_country_code a = Some country_code,
              sa_state_code a = None \<or> (state_code \<noteq> None \<and> sa_state_code a = state_code),
              (case sa_city a of None \<Rightarrow> True | Some c \<Rightarrow> lower c = lower city),
              sa_postal_codes a = [] \<or> List.member (sa_postal_codes a) (take 5 postal_code),
              (case sa_boundary a of None \<Rightarrow> True | Some g \<Rightarrow> st_covers g p)] of
        [] \<Rightarrow> None
      | r # _ \<Rightarrow> Some r)"

definition zone_offering :: "db \<Rightarrow> uuid \<Rightarrow> uuid \<Rightarrow> service_zone_offering option" where
  "zone_offering s area_id service_id =
     find (\<lambda>z. szo_service_area_id z = area_id \<and> szo_service_id z = service_id) (zone_offerings s)"

definition legal_entity_for_area :: "db \<Rightarrow> uuid \<Rightarrow> legal_entity option" where
  "legal_entity_for_area s area_id =
     (case [e. e \<leftarrow> legal_entities s, a \<leftarrow> service_areas s, sa_legal_entity_id a = pk e, pk a = area_id] of
        [] \<Rightarrow> None
      | e # _ \<Rightarrow> Some e)"

text \<open>A booking occupies capacity while it is confirmed, or holds a slot that has not expired.\<close>

definition occupies :: "datetime \<Rightarrow> booking \<Rightarrow> bool" where
  "occupies now b =
     (bk_status b = B_CONFIRMED
      \<or> (List.member CAPACITY_HOLDING_STATUSES (bk_status b) \<and> bk_expires_at b > now))"

definition booking_count :: "db \<Rightarrow> datetime \<Rightarrow> uuid \<Rightarrow> datetime \<Rightarrow> datetime \<Rightarrow> nat" where
  "booking_count s now service_id a b =
     count_where (\<lambda>k. bk_service_id k = service_id \<and> bk_window_start k = a \<and> bk_window_end k = b
         \<and> occupies now k) (bookings s)"

definition catalog_rows :: "db \<Rightarrow> uuid \<Rightarrow> uuid \<Rightarrow> provider_catalog_service option list" where
  "catalog_rows s vendor_id service_id =
     (case filter (\<lambda>c. pcs_vendor_id c = vendor_id \<and> pcs_service_id c = service_id) (catalog_services s) of
        [] \<Rightarrow> [None]
      | cs \<Rightarrow> map Some cs)"

definition eligible_provider_hours ::
  "db \<Rightarrow> uuid \<Rightarrow> string \<Rightarrow> int \<Rightarrow> (worker \<times> provider_working_hours) list"
where
  "eligible_provider_hours s service_id postal_code wd =
     [(w, h). w \<leftarrow> workers s, v \<leftarrow> vendors s, pk v = wk_vendor_id w,
              c \<leftarrow> coverages s, psc_worker_id c = pk w,
              h \<leftarrow> working_hours s, pwh_worker_id h = pk w,
              p \<leftarrow> catalog_rows s (pk v) service_id,
              vn_status v = V_ACTIVE, wk_status w = WK_ACTIVE, wk_available w,
              psc_active c, psc_service_id c = service_id, psc_postal_code c = take 5 postal_code,
              pwh_weekday h = wd,
              (case p of None \<Rightarrow> True | Some q \<Rightarrow> pcs_status q = AP_APPROVED \<and> pcs_active q)]"

definition provider_booking_count :: "db \<Rightarrow> datetime \<Rightarrow> uuid \<Rightarrow> datetime \<Rightarrow> datetime \<Rightarrow> nat" where
  "provider_booking_count s now worker_id a b =
     count_where (\<lambda>k. bk_provider_worker_id k = Some worker_id \<and> bk_window_start k < b
         \<and> bk_window_end k > a \<and> occupies now k) (bookings s)"

definition booking_by_idempotency_key :: "db \<Rightarrow> string \<Rightarrow> booking option" where
  "booking_by_idempotency_key s key = find (\<lambda>b. bk_idempotency_key b = key) (bookings s)"

definition customer_for_email :: "db \<Rightarrow> string \<Rightarrow> customer option" where
  "customer_for_email s email = find (\<lambda>c. cu_email c = email) (customers s)"

text \<open>\<^verbatim>\<open>CatalogRepository.active_detail\<close> with the id of a service, and with an id or a slug.\<close>

definition active_service :: "db \<Rightarrow> uuid \<Rightarrow> service option" where
  "active_service s i = find (\<lambda>v. pk v = i \<and> sv_is_active v) (services s)"

definition active_detail :: "db \<Rightarrow> uuid + string \<Rightarrow> service option" where
  "active_detail s identifier =
     (case identifier of
        Inl i \<Rightarrow> active_service s i
      | Inr slug \<Rightarrow> find (\<lambda>v. sv_slug v = slug \<and> sv_is_active v) (services s))"

section \<open>Fees and addresses\<close>

definition evaluation_fee :: "datetime \<Rightarrow> rat" where
  "evaluation_fee local_start = (if weekday (date_of local_start) = 6 then 300 else 200)"

record geocoded_address =
  ga_formatted_address :: string
  ga_line1 :: string
  ga_city :: string
  ga_postal_code :: string
  ga_country_code :: string
  ga_latitude :: rat
  ga_longitude :: rat
  ga_provider :: string
  ga_state_code :: "string option"
  ga_timezone_name :: "string option"
  ga_postal_code_plus4 :: "string option"

record address_validation =
  av_serviceable :: bool
  av_formatted_address :: string
  av_address_id :: "uuid option"
  av_service_area_id :: "uuid option"
  av_legal_entity_code :: "string option"

definition not_serviceable :: "geocoded_address \<Rightarrow> address_validation" where
  "not_serviceable g = \<lparr>av_serviceable = False, av_formatted_address = ga_formatted_address g,
     av_address_id = None, av_service_area_id = None, av_legal_entity_code = None\<rparr>"

text \<open>A text that is missing or empty is false.\<close>

definition given :: "string option \<Rightarrow> bool" where
  "given x = (case x of None \<Rightarrow> False | Some t \<Rightarrow> t \<noteq> [])"

definition validate_address ::
  "(string \<Rightarrow> geocoded_address result) \<Rightarrow> (geometry \<Rightarrow> point \<Rightarrow> bool) \<Rightarrow> datetime \<Rightarrow> uuid \<Rightarrow> string
   \<Rightarrow> db \<Rightarrow> (db, address_validation) outcome"
where
  "validate_address geocode st_covers now new_id line s =
     (case geocode line of
        Inl e \<Rightarrow> (Inl e, s)
      | Inr g \<Rightarrow>
          if ga_country_code g \<noteq> ''US''
             \<or> \<not> (case ga_state_code g of None \<Rightarrow> False | Some st \<Rightarrow> List.member US_STATES_AND_DC st)
             \<or> ga_postal_code g = [] \<or> \<not> given (ga_timezone_name g)
          then (Inr (not_serviceable g), s)
          else case service_area_at st_covers s (ga_longitude g, ga_latitude g) (ga_country_code g)
                      (ga_state_code g) (ga_city g) (ga_postal_code g) of
            None \<Rightarrow> (Inr (not_serviceable g), s)
          | Some (area, entity) \<Rightarrow>
              let ad = \<lparr>pk = new_id, created_at = now,
                    ad_formatted_address = ga_formatted_address g, ad_label = ''Home'',
                    ad_line1 = ga_line1 g, ad_line2 = None, ad_city = ga_city g, ad_county = None,
                    ad_state_code = ga_state_code g, ad_postal_code = ga_postal_code g,
                    ad_postal_code_plus4 = ga_postal_code_plus4 g,
                    ad_country_code = ga_country_code g,
                    ad_location = (ga_longitude g, ga_latitude g),
                    ad_service_area_id = Some (pk area), ad_geocoding_provider = ga_provider g,
                    ad_timezone_name = the (ga_timezone_name g), ad_timezone_source = ga_provider g,
                    ad_address_validation_status = ''VALIDATED'', ad_validation_status = ''VALID'',
                    ad_provider_reference = None, ad_validation_confidence = None,
                    ad_service_zone_id = None, ad_customer_id = None, ad_is_default = False\<rparr>
              in (Inr \<lparr>av_serviceable = True, av_formatted_address = ad_formatted_address ad,
                       av_address_id = Some new_id, av_service_area_id = Some (pk area),
                       av_legal_entity_code = Some (le_code entity)\<rparr>,
                  s\<lparr>addresses := addresses s @ [ad]\<rparr>))"

section \<open>Availability\<close>

record availability_slot =
  sl_start :: datetime
  sl_end :: datetime
  sl_remaining_capacity :: nat

text \<open>The starts of the whole hours of wall-clock time that fit before a boundary.\<close>

function hourly :: "datetime \<Rightarrow> datetime \<Rightarrow> datetime list" where
  "hourly cursor stop =
     (if cursor + minutes 60 \<le> stop then cursor # hourly (cursor + minutes 60) stop else [])"
  by auto
termination by (relation "measure (\<lambda>(c, b). nat (b - c))") (auto simp: minutes_def)

definition to_utc :: "zone \<Rightarrow> datetime \<Rightarrow> datetime" where
  "to_utc z l = l - utc_offset z False l"

text \<open>The free hours of the eligible providers on a day, one entry per provider and hour.\<close>

definition free_hours ::
  "db \<Rightarrow> datetime \<Rightarrow> zone \<Rightarrow> uuid \<Rightarrow> string \<Rightarrow> date \<Rightarrow> (datetime \<times> datetime) list"
where
  "free_hours s now z service_id postal_code d =
     [(to_utc z c, to_utc z (c + minutes 60)).
        (w, h) \<leftarrow> eligible_provider_hours s service_id postal_code (weekday d),
        c \<leftarrow> hourly (combine d (pwh_start_time h)) (combine d (pwh_end_time h)),
        int (provider_booking_count s now (pk w) (to_utc z c) (to_utc z (c + minutes 60)))
          < pwh_capacity h]"

text \<open>\<^verbatim>\<open>capacity_by_slot\<close>, sorted by slot.\<close>

definition tally :: "(datetime \<times> datetime) list \<Rightarrow> ((datetime \<times> datetime) \<times> nat) list" where
  "tally xs = map (\<lambda>k. (k, count_list xs k)) (sort_key fst (sort_key snd (remdups xs)))"

definition day_slots ::
  "db \<Rightarrow> datetime \<Rightarrow> zone \<Rightarrow> uuid \<Rightarrow> string \<Rightarrow> date \<Rightarrow> availability_slot list"
where
  "day_slots s now z service_id postal_code d =
     [\<lparr>sl_start = fst k, sl_end = snd k,
       sl_remaining_capacity = n - booking_count s now service_id (fst k) (snd k)\<rparr>.
        (k, n) \<leftarrow> tally (free_hours s now z service_id postal_code d),
        0 < n - booking_count s now service_id (fst k) (snd k)]"

definition search_availability ::
  "(string \<Rightarrow> zone option) \<Rightarrow> datetime \<Rightarrow> db \<Rightarrow> uuid \<Rightarrow> uuid \<Rightarrow> date \<Rightarrow> date \<Rightarrow> availability_slot list result"
where
  "search_availability tzdb now s service_id address_id date_from date_to =
     (case get_address s address_id of
        None \<Rightarrow> Inl (DomainError ''ADDRESS_NOT_SERVICEABLE'' 422)
      | Some ad \<Rightarrow>
          case ad_service_area_id ad of
            None \<Rightarrow> Inl (DomainError ''ADDRESS_NOT_SERVICEABLE'' 422)
          | Some area_id \<Rightarrow>
              if (case zone_offering s area_id service_id of
                    None \<Rightarrow> False
                  | Some z \<Rightarrow> \<not> (szo_active z \<and> szo_regular_service_enabled z))
              then Inl (DomainError ''SERVICE_NOT_OFFERED_IN_ZONE'' 422)
              else case tzdb (ad_timezone_name ad) of
                None \<Rightarrow> Inl (DomainError ''ADDRESS_TIMEZONE_INVALID'' 422)
              | Some z \<Rightarrow>
                  Inr (concat (map (day_slots s now z service_id (ad_postal_code ad))
                         [date_from..date_to])))"

section \<open>Creating a booking\<close>

record booking_create =
  bc_service_id :: uuid
  bc_first_name :: string
  bc_last_name :: string
  bc_email :: string
  bc_phone :: string
  bc_address_id :: uuid
  bc_window_start :: datetime
  bc_window_end :: datetime
  bc_answers :: "(uuid \<times> string) list"

definition required_questions :: "service \<Rightarrow> uuid list" where
  "required_questions sv = map sq_id (filter (\<lambda>q. sq_is_active q \<and> sq_required q) (sv_questions sv))"

definition valid_questions :: "service \<Rightarrow> uuid list" where
  "valid_questions sv = map sq_id (filter sq_is_active (sv_questions sv))"

text \<open>Everything \<^verbatim>\<open>create\<close> checks before it writes: the service, the address and the legal entity.\<close>

definition check_booking ::
  "(string \<Rightarrow> zone option) \<Rightarrow> (nat \<Rightarrow> datetime) \<Rightarrow> booking_create \<Rightarrow> db
   \<Rightarrow> (service \<times> address \<times> legal_entity) result"
where
  "check_booking tzdb clk p s =
     bindE (ensure (\<not> (bc_window_start p \<ge> bc_window_end p \<or> bc_window_start p \<le> clk 0))
       (DomainError ''INVALID_BOOKING_WINDOW'' 422)) (\<lambda>_.
     let sv = active_service s (bc_service_id p) in
     bindE (ensure (\<not> (case sv of None \<Rightarrow> False | Some v \<Rightarrow> \<not> sv_is_bookable v))
       (DomainError ''SERVICE_NOT_BOOKABLE'' 409)) (\<lambda>_.
     case get_address s (bc_address_id p) of
       None \<Rightarrow> Inl (DomainError ''ADDRESS_NOT_SERVICEABLE'' 422)
     | Some ad \<Rightarrow>
     bindE (of_option (DomainError ''ADDRESS_NOT_SERVICEABLE'' 422) (ad_service_area_id ad)) (\<lambda>area_id.
     bindE (of_option (DomainError ''ADDRESS_TIMEZONE_INVALID'' 422) (tzdb (ad_timezone_name ad))) (\<lambda>z.
     let local_date = date_of (fst (from_utc z (bc_window_start p))) in
     bindE (search_availability tzdb (clk 1) s (bc_service_id p) (bc_address_id p) local_date local_date)
       (\<lambda>slots.
     bindE (ensure (list_ex (\<lambda>k. sl_start k = bc_window_start p \<and> sl_end k = bc_window_end p) slots)
       (DomainError ''SLOT_UNAVAILABLE'' 409)) (\<lambda>_.
     bindE (ensure (eligible_provider_hours s (bc_service_id p) (ad_postal_code ad)
           (weekday local_date) \<noteq> [])
       (DomainError ''SLOT_UNAVAILABLE'' 409)) (\<lambda>_.
     bindE (of_option (DomainError ''LEGAL_ENTITY_NOT_FOUND'' 422) (legal_entity_for_area s area_id)) (\<lambda>entity.
     bindE (of_option (DomainError ''SERVICE_NOT_FOUND'' 404) sv) (\<lambda>v.
     bindE (ensure (list_all (\<lambda>q. List.member (map fst (bc_answers p)) q) (required_questions v))
       (DomainError ''REQUIRED_ANSWERS_MISSING'' 422)) (\<lambda>_.
     bindE (ensure (list_all (\<lambda>a. List.member (valid_questions v) (fst a)) (bc_answers p))
       (DomainError ''INVALID_QUESTION'' 422)) (\<lambda>_.
     Inr (v, ad, entity))))))))))))"

record booking_draws =
  bd_customer_id :: uuid
  bd_booking_id :: uuid
  bd_answer_id :: "nat \<Rightarrow> uuid"
  bd_reference :: string
  bd_guest_token :: string

definition new_customer :: "datetime \<Rightarrow> uuid \<Rightarrow> booking_create \<Rightarrow> customer" where
  "new_customer now i p = \<lparr>pk = i, created_at = now, cu_first_name = bc_first_name p,
     cu_last_name = bc_last_name p, cu_email = lower (bc_email p), cu_phone = bc_phone p,
     cu_user_id = None, cu_preferred_language = ''en-US'', cu_default_address_id = None\<rparr>"

definition new_booking ::
  "(string \<Rightarrow> string) \<Rightarrow> (nat \<Rightarrow> datetime) \<Rightarrow> booking_draws \<Rightarrow> booking_create \<Rightarrow> string \<Rightarrow> string
   \<Rightarrow> service \<Rightarrow> address \<Rightarrow> legal_entity \<Rightarrow> customer \<Rightarrow> booking"
where
  "new_booking sha256 clk d p key hash v ad entity c =
     \<lparr>pk = bd_booking_id d, created_at = clk 0, bk_reference = ''BR-'' @ bd_reference d,
      bk_idempotency_key = key, bk_idempotency_request_hash = hash, bk_customer_id = pk c,
      bk_address_id = pk ad, bk_legal_entity_id = pk entity, bk_service_id = bc_service_id p,
      bk_provider_worker_id = None, bk_service_timezone_id = ''UTC'',
      bk_recommended_provider_id = None, bk_recommended_professional_id = None,
      bk_assignment_score = None, bk_assignment_reason = None, bk_request_note = None,
      bk_window_start = bc_window_start p, bk_window_end = bc_window_end p,
      bk_status = B_TENTATIVE_HOLD,
      bk_pricing_snapshot = [(''service_id'', JUuid (bc_service_id p)), (''service_name'', JStr (sv_name v)),
        (''evaluation_fee'', JStr ''NOT_COLLECTED_ONLINE''), (''job_price'', JStr ''QUOTE_REQUIRED''),
        (''evaluation_minutes'', JInt 30), (''appointment_interval_minutes'', JInt 60),
        (''total'', JStr ''QUOTE_REQUIRED''), (''currency'', JStr (le_currency entity))],
      bk_total_amount = 0, bk_currency = le_currency entity,
      bk_expires_at = clk 2 + minutes 30,
      bk_guest_confirmation_token_hash = sha256 (bd_guest_token d),
      bk_guest_confirmation_expires_at = clk 3 + hours_of 24,
      bk_guest_confirmation_revoked_at = None\<rparr>"

definition store_booking ::
  "(string \<Rightarrow> string) \<Rightarrow> (nat \<Rightarrow> datetime) \<Rightarrow> booking_draws \<Rightarrow> booking_create \<Rightarrow> string \<Rightarrow> string
   \<Rightarrow> service \<Rightarrow> address \<Rightarrow> legal_entity \<Rightarrow> db \<Rightarrow> booking \<times> db"
where
  "store_booking sha256 clk d p key hash v ad entity s =
     (let (c, s1) = (case customer_for_email s (lower (bc_email p)) of
            Some c \<Rightarrow> (c, s)
          | None \<Rightarrow> let c = new_customer (clk 0) (bd_customer_id d) p
                    in (c, s\<lparr>customers := customers s @ [c]\<rparr>));
          s2 = (if cu_user_id c \<noteq> None \<and> ad_customer_id ad = None
                then s1\<lparr>addresses := update_row pk (pk ad) (\<lambda>a. a\<lparr>ad_customer_id := Some (pk c)\<rparr>)
                          (addresses s1)\<rparr>
                else s1);
          b = new_booking sha256 clk d p key hash v ad entity c
      in (b, s2\<lparr>bookings := bookings s2 @ [b],
               booking_answers := booking_answers s2 @ map (\<lambda>(k, q, txt). \<lparr>ba_id = bd_answer_id d k,
                 ba_booking_id = pk b, ba_question_id = q, ba_value = txt\<rparr>)
                 (List.enumerate 0 (bc_answers p))\<rparr>))"

definition create_booking ::
  "(string \<Rightarrow> zone option) \<Rightarrow> (string \<Rightarrow> string) \<Rightarrow> (booking_create \<Rightarrow> string) \<Rightarrow> (nat \<Rightarrow> datetime)
   \<Rightarrow> booking_draws \<Rightarrow> booking_create \<Rightarrow> string \<Rightarrow> db \<Rightarrow> (db, booking) outcome"
where
  "create_booking tzdb sha256 request_hash clk d p key s =
     (case booking_by_idempotency_key s key of
        Some b \<Rightarrow>
          if bk_idempotency_request_hash b \<notin> {''legacy'', request_hash p}
          then (Inl (DomainError ''IDEMPOTENCY_CONFLICT'' 409), s)
          else (Inr b, s)
      | None \<Rightarrow>
          case check_booking tzdb clk p s of
            Inl e \<Rightarrow> (Inl e, s)
          | Inr (v, ad, entity) \<Rightarrow>
              let (b, s') = store_booking sha256 clk d p key (request_hash p) v ad entity s
              in (Inr b, s'))"

declare hourly.simps [simp del]

section \<open>Lemmas\<close>

lemma hourly_range: "c \<in> set (hourly a b) \<Longrightarrow> a \<le> c \<and> c + minutes 60 \<le> b"
proof (induction a b rule: hourly.induct)
  case (1 a b)
  then show ?case by (subst (asm) (2) hourly.simps) (auto simp: minutes_def split: if_splits)
qed

lemma tally_count: "(k, n) \<in> set (tally xs) \<Longrightarrow> n = count_list xs k \<and> k \<in> set xs"
  by (auto simp: tally_def)

lemma day_slots_free:
  assumes "k \<in> set (day_slots s now z service_id postal_code d)"
  shows "booking_count s now service_id (sl_start k) (sl_end k)
    < count_list (free_hours s now z service_id postal_code d) (sl_start k, sl_end k)"
  using assms by (auto simp: day_slots_def dest!: tally_count)

lemma check_booking_InrD:
  assumes "check_booking tzdb clk p s = Inr (v, ad, entity)"
  shows "\<exists>z. get_address s (bc_address_id p) = Some ad \<and> tzdb (ad_timezone_name ad) = Some z
    \<and> bc_window_start p < bc_window_end p \<and> clk 0 < bc_window_start p
    \<and> active_service s (bc_service_id p) = Some v \<and> sv_is_bookable v
    \<and> booking_count s (clk 1) (bc_service_id p) (bc_window_start p) (bc_window_end p)
        < count_list (free_hours s (clk 1) z (bc_service_id p) (ad_postal_code ad)
            (date_of (fst (from_utc z (bc_window_start p))))) (bc_window_start p, bc_window_end p)
    \<and> set (required_questions v) \<subseteq> fst ` set (bc_answers p)
    \<and> fst ` set (bc_answers p) \<subseteq> set (valid_questions v)"
proof -
  from assms obtain z slots where z: "tzdb (ad_timezone_name ad) = Some z"
    and facts: "get_address s (bc_address_id p) = Some ad" "bc_window_start p < bc_window_end p"
      "clk 0 < bc_window_start p" "active_service s (bc_service_id p) = Some v" "sv_is_bookable v"
      "list_all (List.member (map fst (bc_answers p))) (required_questions v)"
      "list_all (\<lambda>a. fst a \<in> set (valid_questions v)) (bc_answers p)"
    and slots: "search_availability tzdb (clk 1) s (bc_service_id p) (bc_address_id p)
        (date_of (fst (from_utc z (bc_window_start p)))) (date_of (fst (from_utc z (bc_window_start p))))
        = Inr slots"
    and slot: "list_ex (\<lambda>k. sl_start k = bc_window_start p \<and> sl_end k = bc_window_end p) slots"
    unfolding check_booking_def Let_def
    by (auto simp: not_le elim!: bindE_InrE split: option.splits)
  from slots facts(1) z have "slots = day_slots s (clk 1) z (bc_service_id p) (ad_postal_code ad)
      (date_of (fst (from_utc z (bc_window_start p))))"
    by (auto simp: search_availability_def split: option.splits if_splits)
  with slot obtain k where "k \<in> set (day_slots s (clk 1) z (bc_service_id p) (ad_postal_code ad)
      (date_of (fst (from_utc z (bc_window_start p)))))"
    and "sl_start k = bc_window_start p" "sl_end k = bc_window_end p" by (auto simp: list_ex_iff)
  with day_slots_free [OF this(1)] z facts show ?thesis
    by (auto simp: list_all_iff)
qed

lemma store_booking_bookings:
  assumes "store_booking sha256 clk d p key hash v ad entity s = (b, s')"
  shows "bookings s' = bookings s @ [b] \<and> bk_idempotency_key b = key
    \<and> bk_idempotency_request_hash b = hash \<and> bk_status b = B_TENTATIVE_HOLD
    \<and> bk_expires_at b = clk 2 + minutes 30
    \<and> bk_window_start b = bc_window_start p \<and> bk_window_end b = bc_window_end p"
  using assms
  by (auto simp: store_booking_def new_booking_def Let_def split: option.splits if_splits)

lemma create_booking_cases:
  assumes "create_booking tzdb sha256 request_hash clk d p key s = (Inr b, s')"
  shows "s' = s \<and> booking_by_idempotency_key s key = Some b
      \<and> bk_idempotency_request_hash b \<in> {''legacy'', request_hash p}
    \<or> (\<exists>v ad entity. booking_by_idempotency_key s key = None
        \<and> check_booking tzdb clk p s = Inr (v, ad, entity)
        \<and> store_booking sha256 clk d p key (request_hash p) v ad entity s = (b, s'))"
  using assms unfolding create_booking_def
  by (auto split: option.splits if_splits sum.splits prod.splits)

section \<open>Properties\<close>


section \<open>The sample booking\<close>

definition sample_area :: service_area where
  "sample_area = \<lparr>pk = 5, created_at = 0, sa_legal_entity_id = 6, sa_name = ''Albany'',
     sa_country_code = Some ''US'', sa_state_code = Some ''NY'', sa_city = None,
     sa_postal_codes = [], sa_center = None, sa_radius_meters = None, sa_boundary = None,
     sa_active = True, sa_priority = 0, sa_emergency_enabled = False, sa_version = 1\<rparr>"

definition sample_entity :: legal_entity where
  "sample_entity = \<lparr>pk = 6, created_at = 0, le_code = ''US'', le_name = ''Breero Inc'',
     le_currency = ''USD'', le_active = True\<rparr>"

definition sample_coverage :: provider_service_coverage where
  "sample_coverage = \<lparr>pk = 63, created_at = 0, psc_worker_id = 40, psc_service_id = 10,
     psc_postal_code = ''12207'', psc_active = True\<rparr>"

definition sample_hours :: provider_working_hours where
  "sample_hours = \<lparr>pk = 64, created_at = 0, pwh_worker_id = 40, pwh_weekday = 2,
     pwh_start_time = hours_of 8, pwh_end_time = hours_of 18, pwh_capacity = 1\<rparr>"

definition area_db :: db where
  "area_db = sample_db\<lparr>service_areas := [sample_area], legal_entities := [sample_entity],
     coverages := [sample_coverage], working_hours := [sample_hours]\<rparr>"

definition sample_booking_request :: booking_create where
  "sample_booking_request = \<lparr>bc_service_id = 10, bc_first_name = ''Bo'', bc_last_name = ''Ray'',
     bc_email = ''Bo@Example.com'', bc_phone = ''5550102'', bc_address_id = 20,
     bc_window_start = sample_start, bc_window_end = sample_end, bc_answers = []\<rparr>"

definition sample_draws :: booking_draws where
  "sample_draws = \<lparr>bd_customer_id = 82, bd_booking_id = 81, bd_answer_id = (\<lambda>k. 200 + k),
     bd_reference = ''0A1B2C3D4E'', bd_guest_token = ''guest''\<rparr>"


end
