(* ===== verification/Identifiers.thy ===== *)
theory Identifiers
  imports Prelude
begin

text \<open>
  The text of a \<^verbatim>\<open>uuid.UUID\<close>, which the services embed in idempotency keys and event payloads:
  \<^verbatim>\<open>str(u)\<close> is the 32 hexadecimal digits of the 128-bit number in groups of 8-4-4-4-12.
\<close>

definition hex_char :: "nat \<Rightarrow> char" where
  "hex_char n = (if n < 10 then char_of (48 + n) else char_of (87 + n))"

fun hex_digits :: "nat \<Rightarrow> nat \<Rightarrow> string" where
  "hex_digits 0 n = []"
| "hex_digits (Suc k) n = hex_digits k (n div 16) @ [hex_char (n mod 16)]"

definition str_uuid :: "uuid \<Rightarrow> string" where
  "str_uuid u =
     (let h = hex_digits 32 u
      in take 8 h @ ''-'' @ take 4 (drop 8 h) @ ''-'' @ take 4 (drop 12 h) @ ''-''
         @ take 4 (drop 16 h) @ ''-'' @ drop 20 h)"

text \<open>A table evaluates faster than the character arithmetic.\<close>

lemma hex_char_table [code]:
  "hex_char n = (if n < 16 then ''0123456789abcdef'' ! n else char_of (87 + n))"
proof (cases "n < 16")
  case True
  then have "n \<in> set [0..<16]" by simp
  moreover have "list_all (\<lambda>n. hex_char n = ''0123456789abcdef'' ! n) [0..<16]" by code_simp
  ultimately show ?thesis by (simp add: list_all_iff)
qed (simp add: hex_char_def)

lemma length_hex_digits [simp]: "length (hex_digits k n) = k"
  by (induction k arbitrary: n) simp_all

lemma hex_char_inj: "m < 16 \<Longrightarrow> n < 16 \<Longrightarrow> hex_char m = hex_char n \<Longrightarrow> m = n"
  by (auto simp: hex_char_def char_of_eq_iff take_bit_eq_mod split: if_splits)

lemma hex_digits_inj:
  "m < 16 ^ k \<Longrightarrow> n < 16 ^ k \<Longrightarrow> hex_digits k m = hex_digits k n \<Longrightarrow> m = n"
proof (induction k arbitrary: m n)
  case (Suc k)
  then have "hex_digits k (m div 16) = hex_digits k (n div 16)"
    and "hex_char (m mod 16) = hex_char (n mod 16)" by simp_all
  moreover have "m div 16 < 16 ^ k" "n div 16 < 16 ^ k"
    using Suc.prems by (simp_all add: less_mult_imp_div_less mult.commute)
  ultimately have "m div 16 = n div 16" and "m mod 16 = n mod 16"
    using Suc.IH hex_char_inj [of "m mod 16" "n mod 16"] by simp_all
  then show ?case by (metis div_mult_mod_eq)
qed simp

text \<open>Two identifiers with the same text are the same 128-bit number.\<close>

lemma str_uuid_digits:
  assumes "str_uuid u = str_uuid v"
  shows "hex_digits 32 u = hex_digits 32 v"
proof -
  define g h where "g = hex_digits 32 u" and "h = hex_digits 32 v"
  have len: "length g = 32" "length h = 32" by (simp_all add: g_def h_def)
  have step: "take n x @ drop n x = x" for n and x :: string by simp
  have split: "x = take 8 x @ take 4 (drop 8 x) @ take 4 (drop 12 x) @ take 4 (drop 16 x) @ drop 20 x"
    for x :: string
    using step [of 8 x] step [of 4 "drop 8 x"] step [of 4 "drop 12 x"] step [of 4 "drop 16 x"]
    by simp
  from assms have eq: "take 8 g @ ''-'' @ take 4 (drop 8 g) @ ''-'' @ take 4 (drop 12 g) @ ''-''
      @ take 4 (drop 16 g) @ ''-'' @ drop 20 g
    = take 8 h @ ''-'' @ take 4 (drop 8 h) @ ''-'' @ take 4 (drop 12 h) @ ''-''
      @ take 4 (drop 16 h) @ ''-'' @ drop 20 h"
    by (simp add: str_uuid_def Let_def g_def h_def)
  then have "take 8 g = take 8 h" "take 4 (drop 8 g) = take 4 (drop 8 h)"
    "take 4 (drop 12 g) = take 4 (drop 12 h)" "take 4 (drop 16 g) = take 4 (drop 16 h)"
    "drop 20 g = drop 20 h"
    using len by (simp_all add: append_eq_append_conv)
  then have "g = h" using split [of g] split [of h] by simp
  then show ?thesis by (simp add: g_def h_def)
qed

lemma str_uuid_inj: "u < 2 ^ 128 \<Longrightarrow> v < 2 ^ 128 \<Longrightarrow> str_uuid u = str_uuid v \<Longrightarrow> u = v"
  using hex_digits_inj [of u 32 v] str_uuid_digits [of u v] by (simp add: power_mult [symmetric])

section \<open>Decimal text of an integer\<close>

fun dec_digits :: "nat \<Rightarrow> string" where
  "dec_digits n = (if n < 10 then [char_of (48 + n)]
     else dec_digits (n div 10) @ [char_of (48 + n mod 10)])"

declare dec_digits.simps [simp del]

definition str_int :: "int \<Rightarrow> string" where
  "str_int i = (if i < 0 then ''-'' @ dec_digits (nat (- i)) else dec_digits (nat i))"

end
