(* ===== verification/Finance.thy ===== *)
theory Finance
  imports Database Identifiers
begin

text \<open>
  \<^verbatim>\<open>finance/compensation.py\<close>, \<^verbatim>\<open>finance/repository.py\<close>, \<^verbatim>\<open>finance/service.py\<close> and the payout gateways of
  \<^verbatim>\<open>integrations/payouts.py\<close>: what a vendor earns on a completed job, adjustments of an earning, and
  the batches in which earnings are paid out.  Amounts are integers in minor units.
\<close>

section \<open>Compensation\<close>

record calculated_compensation =
  cc_amount_minor :: int
  cc_rule :: json_object

definition calculate_compensation ::
  "compensation_plan \<Rightarrow> int \<Rightarrow> service_compensation option \<Rightarrow> calculated_compensation result"
where
  "calculate_compensation plan gross_minor service_rate =
     (if gross_minor < 0 then Inl (ValueError ''gross_minor cannot be negative'')
      else case cp_method plan of
        CM_FIXED_MINOR \<Rightarrow>
          (case cp_fixed_minor plan of
             None \<Rightarrow> Inl (ValueError ''fixed compensation is not configured'')
           | Some f \<Rightarrow>
               if f < 0 then Inl (ValueError ''fixed compensation is not configured'')
               else Inr \<lparr>cc_amount_minor = f, cc_rule = [(''fixed_minor'', JInt f)]\<rparr>)
      | CM_PERCENTAGE \<Rightarrow>
          (case cp_percentage_bps plan of
             None \<Rightarrow> Inl (ValueError ''percentage_bps must be between 0 and 10000'')
           | Some bps \<Rightarrow>
               if \<not> (0 \<le> bps \<and> bps \<le> 10000)
               then Inl (ValueError ''percentage_bps must be between 0 and 10000'')
               else Inr \<lparr>cc_amount_minor = gross_minor * bps div 10000,
                         cc_rule = [(''percentage_bps'', JInt bps)]\<rparr>)
      | CM_SERVICE_RATE \<Rightarrow>
          (case service_rate of
             None \<Rightarrow> Inl (ValueError ''service compensation rate is not configured'')
           | Some rate \<Rightarrow>
               if sc_rate_minor rate < 0
               then Inl (ValueError ''service compensation rate is not configured'')
               else Inr \<lparr>cc_amount_minor = sc_rate_minor rate,
                         cc_rule = [(''service_rate_minor'', JInt (sc_rate_minor rate)),
                                    (''service_id'', JUuid (sc_service_id rate))]\<rparr>))"

section \<open>Queries\<close>

text \<open>A query that orders by a column keeps the table's order among equal keys.\<close>

definition list_earnings ::
  "db \<Rightarrow> uuid option \<Rightarrow> earning_status option \<Rightarrow> nat \<Rightarrow> vendor_earning list"
where
  "list_earnings s vendor_id status limit =
     take (min limit 500) (sort_key (\<lambda>e. - created_at e)
       (filter (\<lambda>e. (case vendor_id of None \<Rightarrow> True | Some v \<Rightarrow> ve_vendor_id e = v)
                  \<and> (case status of None \<Rightarrow> True | Some st \<Rightarrow> ve_status e = st)) (earnings s)))"

definition earning_for_job :: "db \<Rightarrow> uuid \<Rightarrow> vendor_earning option" where
  "earning_for_job s job_id = find (\<lambda>e. ve_job_id e = job_id) (earnings s)"

definition plan_effective :: "uuid \<Rightarrow> datetime \<Rightarrow> compensation_plan \<Rightarrow> bool" where
  "plan_effective vendor_id t p =
     (cp_vendor_id p = vendor_id \<and> cp_active p \<and> cp_effective_from p \<le> t
      \<and> (case cp_effective_to p of None \<Rightarrow> True | Some e \<Rightarrow> e > t))"

definition active_plan :: "db \<Rightarrow> uuid \<Rightarrow> datetime \<Rightarrow> compensation_plan option" where
  "active_plan s vendor_id t =
     (case sort_key (\<lambda>p. - cp_effective_from p)
             (filter (plan_effective vendor_id t) (compensation_plans s)) of
        [] \<Rightarrow> None
      | p # _ \<Rightarrow> Some p)"

definition service_rate :: "db \<Rightarrow> uuid \<Rightarrow> uuid \<Rightarrow> service_compensation option" where
  "service_rate s plan_id service_id =
     find (\<lambda>r. sc_plan_id r = plan_id \<and> sc_service_id r = service_id) (service_compensations s)"

definition batchable :: "string \<Rightarrow> uuid option \<Rightarrow> datetime \<Rightarrow> vendor_earning \<Rightarrow> bool" where
  "batchable cur vendor_id now e =
     (ve_status e = EA_AVAILABLE \<and> ve_available_at e \<le> now \<and> ve_currency e = cur
      \<and> (case vendor_id of None \<Rightarrow> True | Some v \<Rightarrow> ve_vendor_id e = v))"

definition available_earnings :: "db \<Rightarrow> string \<Rightarrow> uuid option \<Rightarrow> datetime \<Rightarrow> vendor_earning list" where
  "available_earnings s cur vendor_id now =
     sort_key ve_available_at (filter (batchable cur vendor_id now) (earnings s))"

abbreviation get_batch :: "db \<Rightarrow> uuid \<Rightarrow> payout_batch option" where
  "get_batch s i \<equiv> lookup_row pk i (payout_batches s)"

abbreviation modify_batch :: "uuid \<Rightarrow> (payout_batch \<Rightarrow> payout_batch) \<Rightarrow> db \<Rightarrow> db" where
  "modify_batch i f s \<equiv> s\<lparr>payout_batches := update_row pk i f (payout_batches s)\<rparr>"

section \<open>The payout gateway\<close>

record transfer_result =
  tr_transfer_id :: string
  tr_status :: string
  tr_provider_reference :: "string option"

text \<open>
  \<^verbatim>\<open>create_transfer\<close> of a gateway: amount, currency, destination and idempotency key, and the
  gateway's own state.  \<open>ProviderFailure c\<close> is \<^verbatim>\<open>IntegrationNotConfigured\<close> with code \<open>c\<close>.
\<close>

type_synonym 'g create_transfer =
  "int \<Rightarrow> string \<Rightarrow> string \<Rightarrow> string \<Rightarrow> 'g \<Rightarrow> transfer_result result \<times> 'g"

type_synonym transfers = "(string \<times> transfer_result) list"

definition fake_create_transfer :: "transfers create_transfer" where
  "fake_create_transfer amount_minor cur destination key g =
     (let g' = (if map_of g key = None
                then g @ [(key, \<lparr>tr_transfer_id = ''fake_'' @ key, tr_status = ''processing'',
                                tr_provider_reference = None\<rparr>)]
                else g)
      in case map_of g' key of
           None \<Rightarrow> (Inl (LookupError key), g')
         | Some t \<Rightarrow> (Inr t, g'))"

definition fake_get_transfer :: "string \<Rightarrow> transfers \<Rightarrow> transfer_result result" where
  "fake_get_transfer transfer_id g =
     (case find (\<lambda>kt. tr_transfer_id (snd kt) = transfer_id) g of
        None \<Rightarrow> Inl (LookupError transfer_id)
      | Some kt \<Rightarrow> Inr (snd kt))"

definition fake_cancel_transfer :: "string \<Rightarrow> transfers \<Rightarrow> transfer_result result" where
  "fake_cancel_transfer transfer_id g =
     bindE (fake_get_transfer transfer_id g) (\<lambda>current.
       Inr (current\<lparr>tr_status := ''cancelled''\<rparr>))"

definition unconfigured_create_transfer :: "'g create_transfer" where
  "unconfigured_create_transfer amount_minor cur destination key g =
     (Inl (ProviderFailure ''integration_not_configured''), g)"

definition get_payout_gateway :: "settings \<Rightarrow> 'g create_transfer result" where
  "get_payout_gateway cfg =
     (if \<not> payout_enabled cfg \<or> payout_provider cfg = [] then Inr unconfigured_create_transfer
      else Inl (ProviderFailure ''integration_not_configured''))"

section \<open>FinanceService\<close>

definition require_payouts_enabled :: "settings \<Rightarrow> unit result" where
  "require_payouts_enabled cfg = ensure (payout_enabled cfg) (HTTPException 503 ''payouts_disabled'')"

definition finance_audit ::
  "datetime \<Rightarrow> uuid option \<Rightarrow> string \<Rightarrow> string \<Rightarrow> uuid \<Rightarrow> json_object \<Rightarrow> audit_log"
where
  "finance_audit now actor_id action resource_type resource_id metadata =
     \<lparr>al_actor_id = actor_id, al_actor_type = ''user'', al_action = action,
      al_resource_type = resource_type, al_resource_id = resource_id,
      al_metadata_json = metadata, al_created_at = now\<rparr>"

fun method_value :: "compensation_method \<Rightarrow> string" where
  "method_value CM_FIXED_MINOR = ''FIXED_MINOR''"
| "method_value CM_PERCENTAGE = ''PERCENTAGE''"
| "method_value CM_SERVICE_RATE = ''SERVICE_RATE''"

fun adjustment_value :: "adjustment_type \<Rightarrow> string" where
  "adjustment_value ADJ_REFUND = ''REFUND''"
| "adjustment_value ADJ_DISPUTE = ''DISPUTE''"
| "adjustment_value ADJ_MANUAL = ''MANUAL''"
| "adjustment_value ADJ_REVERSAL = ''REVERSAL''"

record plan_create =
  pcq_vendor_id :: uuid
  pcq_name :: string
  pcq_method :: compensation_method
  pcq_fixed_minor :: "int option"
  pcq_percentage_bps :: "int option"
  pcq_currency :: string
  pcq_hold_days :: int
  pcq_effective_from :: datetime

definition create_compensation_plan ::
  "(nat \<Rightarrow> datetime) \<Rightarrow> uuid \<Rightarrow> plan_create \<Rightarrow> uuid option \<Rightarrow> db \<Rightarrow> (db, compensation_plan) outcome"
where
  "create_compensation_plan clk new_id p actor_id s =
     (if pcq_method p = CM_FIXED_MINOR \<and> pcq_fixed_minor p = None
      then (Inl (HTTPException 422 ''fixed_minor is required''), s)
      else if pcq_method p = CM_PERCENTAGE \<and> pcq_percentage_bps p = None
      then (Inl (HTTPException 422 ''percentage_bps is required''), s)
      else
        let plan = \<lparr>pk = new_id, created_at = clk 0, cp_vendor_id = pcq_vendor_id p,
              cp_name = pcq_name p, cp_method = pcq_method p, cp_fixed_minor = pcq_fixed_minor p,
              cp_percentage_bps = pcq_percentage_bps p, cp_currency = pcq_currency p,
              cp_hold_days = pcq_hold_days p, cp_active = True,
              cp_effective_from = pcq_effective_from p, cp_effective_to = None\<rparr>
        in (Inr plan,
            add_audit (finance_audit (clk 0) actor_id ''compensation_plan.change''
                ''vendor_compensation_plan'' new_id
                [(''method'', JStr (method_value (cp_method plan))),
                 (''vendor_id'', JUuid (cp_vendor_id plan))])
              (s\<lparr>compensation_plans := compensation_plans s @ [plan]\<rparr>)))"

text \<open>
  \<^verbatim>\<open>recognize_earning\<close> leaves the commit to its caller: on success it returns the earning and the
  store with the rows it added, on failure the error.  \<open>clk 0\<close> selects the plan, \<open>clk 1\<close> stamps the
  snapshot; \<open>new_id 0\<close> is the snapshot's id and \<open>new_id 1\<close> the earning's.
\<close>

definition http_422 :: "'a result \<Rightarrow> 'a result" where
  "http_422 r = (case r of Inl (ValueError m) \<Rightarrow> Inl (HTTPException 422 m) | _ \<Rightarrow> r)"

definition recognize_earning ::
  "(nat \<Rightarrow> datetime) \<Rightarrow> (nat \<Rightarrow> uuid) \<Rightarrow> job \<Rightarrow> int \<Rightarrow> int \<Rightarrow> string \<Rightarrow> db \<Rightarrow> (vendor_earning \<times> db) result"
where
  "recognize_earning clk new_id j gross_minor fee_minor cur s =
     bindE (ensure (jb_status j = J_COMPLETED \<and> jb_vendor_id j \<noteq> None)
       (HTTPException 409 ''Only completed assigned jobs can create earnings'')) (\<lambda>_.
     bindE (ensure (\<not> (gross_minor < 0 \<or> fee_minor < 0))
       (HTTPException 422 ''Invalid earning amounts'')) (\<lambda>_.
     case earning_for_job s (pk j) of
       Some existing \<Rightarrow> Inr (existing, s)
     | None \<Rightarrow>
     let vendor_id = the (jb_vendor_id j) in
     bindE (of_option (HTTPException 409 ''Vendor compensation plan is not configured'')
       (active_plan s vendor_id (clk 0))) (\<lambda>plan.
     bindE (http_422 (calculate_compensation plan gross_minor
       (service_rate s (pk plan) (jb_service_id j)))) (\<lambda>calculation.
     let snapshot = \<lparr>cs_id = new_id 0, cs_plan_id = Some (pk plan), cs_vendor_id = vendor_id,
           cs_service_id = jb_service_id j, cs_method = cp_method plan,
           cs_rule_json = cc_rule calculation, cs_gross_minor = gross_minor,
           cs_compensation_minor = cc_amount_minor calculation, cs_currency = cur,
           cs_hold_days = cp_hold_days plan, cs_committed_at = clk 1\<rparr>;
         earning = \<lparr>pk = new_id 1, created_at = clk 0, ve_vendor_id = vendor_id, ve_job_id = pk j,
           ve_compensation_snapshot_id = new_id 0, ve_gross_minor = gross_minor,
           ve_fee_minor = gross_minor - cc_amount_minor calculation,
           ve_net_minor = cc_amount_minor calculation, ve_adjustment_total_minor = 0,
           ve_currency = cur, ve_status = EA_PENDING,
           ve_available_at = clk 1 + days (cp_hold_days plan), ve_payout_batch_id = None\<rparr>
     in Inr (earning, s\<lparr>compensation_snapshots := compensation_snapshots s @ [snapshot],
                       earnings := earnings s @ [earning]\<rparr>)))))"

definition release_eligible :: "settings \<Rightarrow> datetime \<Rightarrow> db \<Rightarrow> (db, nat) outcome" where
  "release_eligible cfg now s =
     (case require_payouts_enabled cfg of
        Inl e \<Rightarrow> (Inl e, s)
      | Inr _ \<Rightarrow>
          let due = (\<lambda>e. ve_status e = EA_PENDING \<and> ve_available_at e \<le> now)
          in (Inr (count_where due (earnings s)),
              s\<lparr>earnings := update_where due (\<lambda>e. e\<lparr>ve_status := EA_AVAILABLE\<rparr>) (earnings s)\<rparr>))"

text \<open>The change an adjustment makes to its earning.\<close>

definition adjust_row :: "int \<Rightarrow> adjustment_type \<Rightarrow> vendor_earning \<Rightarrow> vendor_earning" where
  "adjust_row amount_minor ty e =
     (let e' = e\<lparr>ve_adjustment_total_minor := ve_adjustment_total_minor e + amount_minor\<rparr>
      in if payable_minor e' \<le> 0 then e'\<lparr>ve_status := EA_REVERSED\<rparr>
         else if ty = ADJ_DISPUTE then e'\<lparr>ve_status := EA_HELD\<rparr>
         else e')"

definition adjust_earning ::
  "(nat \<Rightarrow> datetime) \<Rightarrow> uuid \<Rightarrow> uuid \<Rightarrow> int \<Rightarrow> adjustment_type \<Rightarrow> string \<Rightarrow> string \<Rightarrow> uuid option
   \<Rightarrow> db \<Rightarrow> (db, earning_adjustment) outcome"
where
  "adjust_earning clk new_id earning_id amount_minor ty reason key actor_id s =
     (case lookup_row pk earning_id (earnings s) of
        None \<Rightarrow> (Inl (HTTPException 404 ''Earning not found''), s)
      | Some e \<Rightarrow>
          case find (\<lambda>a. aj_earning_id a = earning_id \<and> aj_idempotency_key a = key) (adjustments s) of
            Some existing \<Rightarrow> (Inr existing, s)
          | None \<Rightarrow>
              let a = \<lparr>pk = new_id, created_at = clk 0, aj_earning_id = earning_id,
                    aj_adjustment_type = ty, aj_amount_minor = amount_minor, aj_reason = reason,
                    aj_idempotency_key = key, aj_actor_id = actor_id\<rparr>
              in (Inr a,
                  add_audit (finance_audit (clk 0) actor_id ''earning.adjustment'' ''vendor_earning''
                      earning_id
                      [(''amount_minor'', JInt amount_minor), (''type'', JStr (adjustment_value ty)),
                       (''reason'', JStr reason)])
                    (s\<lparr>adjustments := adjustments s @ [a],
                       earnings := update_row pk earning_id (adjust_row amount_minor ty)
                         (earnings s)\<rparr>)))"

text \<open>The batch's reference, a date and eight random hexadecimal digits, is drawn by the caller.\<close>

definition create_batch ::
  "settings \<Rightarrow> (nat \<Rightarrow> datetime) \<Rightarrow> uuid \<Rightarrow> string \<Rightarrow> string \<Rightarrow> uuid option \<Rightarrow> uuid option \<Rightarrow> db
   \<Rightarrow> (db, payout_batch) outcome"
where
  "create_batch cfg clk new_id reference cur vendor_id actor_id s =
     (case require_payouts_enabled cfg of
        Inl e \<Rightarrow> (Inl e, s)
      | Inr _ \<Rightarrow>
          let es = available_earnings s cur vendor_id (clk 0)
          in if es = [] then (Inl (HTTPException 409 ''No available earnings''), s)
             else
               let batch = \<lparr>pk = new_id, created_at = clk 0, pb_reference = reference,
                     pb_status = PO_PENDING_APPROVAL, pb_currency = cur,
                     pb_total_minor = sum_list (map payable_minor es),
                     pb_earning_count = int (length es), pb_reviewed_by = actor_id,
                     pb_reviewed_at = (case actor_id of None \<Rightarrow> None | Some _ \<Rightarrow> Some (clk 1)),
                     pb_approved_by = None, pb_approved_at = None, pb_idempotency_key = None,
                     pb_submitted_at = None, pb_provider_transfer_id = None,
                     pb_provider_status = None, pb_provider_reference = None,
                     pb_failure_reason = None\<rparr>
               in (Inr batch,
                   add_audit (finance_audit (clk 2) actor_id ''payout.review'' ''payout_batch''
                       new_id [])
                     (s\<lparr>payout_batches := payout_batches s @ [batch],
                        earnings := update_where (\<lambda>e. pk e \<in> set (map pk es))
                          (\<lambda>e. e\<lparr>ve_status := EA_BATCHED, ve_payout_batch_id := Some new_id\<rparr>)
                          (earnings s)\<rparr>)))"

definition approve_batch ::
  "settings \<Rightarrow> (nat \<Rightarrow> datetime) \<Rightarrow> uuid \<Rightarrow> uuid \<Rightarrow> db \<Rightarrow> (db, payout_batch) outcome"
where
  "approve_batch cfg clk batch_id approver_id s =
     (case require_payouts_enabled cfg of
        Inl e \<Rightarrow> (Inl e, s)
      | Inr _ \<Rightarrow>
          case get_batch s batch_id of
            None \<Rightarrow> (Inl (HTTPException 404 ''Payout batch not found''), s)
          | Some b \<Rightarrow>
              if pb_status b \<noteq> PO_PENDING_APPROVAL
              then (Inl (HTTPException 409 ''Batch is not awaiting approval''), s)
              else
                let f = (\<lambda>x. x\<lparr>pb_status := PO_APPROVED, pb_approved_by := Some approver_id,
                            pb_approved_at := Some (clk 0)\<rparr>)
                in (Inr (f b),
                    add_audit (finance_audit (clk 1) (Some approver_id) ''payout.approve''
                        ''payout_batch'' batch_id [])
                      (modify_batch batch_id f s)))"

text \<open>
  \<^verbatim>\<open>submit_batch\<close> commits the idempotency key before the call, so an error of the gateway leaves
  the key (and the failure's code) behind.
\<close>

definition submit_key :: "payout_batch \<Rightarrow> string" where
  "submit_key b =
     (case pb_idempotency_key b of
        None \<Rightarrow> ''payout-batch:'' @ str_uuid (pk b)
      | Some k \<Rightarrow> if k = [] then ''payout-batch:'' @ str_uuid (pk b) else k)"

definition submit_batch ::
  "settings \<Rightarrow> 'g create_transfer \<Rightarrow> (nat \<Rightarrow> datetime) \<Rightarrow> uuid \<Rightarrow> uuid \<Rightarrow> uuid \<Rightarrow> db \<times> 'g
   \<Rightarrow> (db \<times> 'g, payout_batch) outcome"
where
  "submit_batch cfg create_transfer clk new_id batch_id actor_id sg =
     (case sg of (s, g) \<Rightarrow>
      case require_payouts_enabled cfg of
        Inl e \<Rightarrow> (Inl e, sg)
      | Inr _ \<Rightarrow>
          case get_batch s batch_id of
            None \<Rightarrow> (Inl (HTTPException 404 ''Payout batch not found''), sg)
          | Some b \<Rightarrow>
              if (case pb_provider_transfer_id b of None \<Rightarrow> False | Some t \<Rightarrow> t \<noteq> [])
              then (Inr b, sg)
              else if pb_status b \<noteq> PO_APPROVED
              then (Inl (HTTPException 409 ''Only approved batches can be submitted''), sg)
              else
                let key = submit_key b;
                    s1 = modify_batch batch_id (\<lambda>x. x\<lparr>pb_idempotency_key := Some key\<rparr>) s
                in case create_transfer (pb_total_minor b) (pb_currency b)
                          (''batch:'' @ str_uuid (pk b)) key g of
                     (Inl (ProviderFailure c), g') \<Rightarrow>
                       (Inl (HTTPException 503 c),
                        (modify_batch batch_id (\<lambda>x. x\<lparr>pb_failure_reason := Some c\<rparr>) s1, g'))
                   | (Inl e, g') \<Rightarrow> (Inl e, (s1, g'))
                   | (Inr t, g') \<Rightarrow>
                       let f = (\<lambda>x. x\<lparr>pb_idempotency_key := Some key,
                                pb_provider_transfer_id := Some (tr_transfer_id t),
                                pb_provider_reference := tr_provider_reference t,
                                pb_provider_status := Some (tr_status t),
                                pb_submitted_at := Some (clk 0), pb_status := PO_PROCESSING\<rparr>);
                           ev = new_event new_id ''payout'' batch_id ''payout.submitted'' None
                                [(''id'', JUuid batch_id), (''reference'', JStr (pb_reference b)),
                                 (''total_minor'', JInt (pb_total_minor b)),
                                 (''currency'', JStr (pb_currency b)),
                                 (''provider_status'', JStr (tr_status t))] (clk 1)
                       in (Inr (f b),
                           (add_audit (finance_audit (clk 2) (Some actor_id) ''payout.submit''
                               ''payout_batch'' batch_id
                               [(''provider_status'', JStr (tr_status t))])
                             (add_event ev (modify_batch batch_id f s)), g')))"

section \<open>The ledger\<close>

definition adjusted :: "db \<Rightarrow> uuid \<Rightarrow> int" where
  "adjusted s i = sum_list (map aj_amount_minor (filter (\<lambda>a. aj_earning_id a = i) (adjustments s)))"

definition batch_payable :: "db \<Rightarrow> uuid \<Rightarrow> int" where
  "batch_payable s b =
     sum_list (map payable_minor (filter (\<lambda>e. ve_payout_batch_id e = Some b) (earnings s)))"

definition earning_ok :: "db \<Rightarrow> vendor_earning \<Rightarrow> bool" where
  "earning_ok s e =
     (ve_gross_minor e = ve_fee_minor e + ve_net_minor e \<and> 0 \<le> ve_net_minor e
      \<and> ve_adjustment_total_minor e = adjusted s (pk e)
      \<and> (ve_status e = EA_BATCHED \<longrightarrow>
           (\<exists>b \<in> set (payout_batches s). ve_payout_batch_id e = Some (pk b))))"

definition ledger_inv :: "db \<Rightarrow> bool" where
  "ledger_inv s =
     (distinct (map pk (earnings s)) \<and> distinct (map ve_job_id (earnings s))
      \<and> distinct (map (\<lambda>a. (aj_earning_id a, aj_idempotency_key a)) (adjustments s))
      \<and> (\<forall>a \<in> set (adjustments s). aj_earning_id a \<in> pk ` set (earnings s))
      \<and> (\<forall>e \<in> set (earnings s). earning_ok s e))"

text \<open>
  The operations on the ledger in any order; the ids drawn for new earnings are new, and other
  parts of the program may change other tables between them.
\<close>

definition same_ledger :: "db \<Rightarrow> db \<Rightarrow> bool" where
  "same_ledger s t =
     (earnings s = earnings t \<and> adjustments s = adjustments t \<and> payout_batches s = payout_batches t)"

inductive finance_step :: "db \<Rightarrow> db \<Rightarrow> bool" where
  fs_recognize: "recognize_earning clk new_id j gross fee cur s = Inr (e, s') \<Longrightarrow>
     new_id 1 \<notin> pk ` set (earnings s) \<Longrightarrow> finance_step s s'"
| fs_release: "release_eligible cfg now s = (r, s') \<Longrightarrow> finance_step s s'"
| fs_adjust: "adjust_earning clk i earning_id amt ty reason key actor s = (r', s') \<Longrightarrow>
     finance_step s s'"
| fs_batch: "create_batch cfg clk i reference cur vendor_id actor s = (r'', s') \<Longrightarrow>
     finance_step s s'"
| fs_approve: "approve_batch cfg clk batch_id approver s = (r'', s') \<Longrightarrow> finance_step s s'"
| fs_submit: "submit_batch cfg create_transfer clk i batch_id actor (s, g :: transfers) = (r'', s', g') \<Longrightarrow>
     finance_step s s'"
| fs_other: "same_ledger s s' \<Longrightarrow> finance_step s s'"

inductive finance_reachable :: "db \<Rightarrow> bool" where
  finance_start: "earnings s = [] \<Longrightarrow> adjustments s = [] \<Longrightarrow> finance_reachable s"
| finance_next: "finance_reachable s \<Longrightarrow> finance_step s s' \<Longrightarrow> finance_reachable s'"

section \<open>Lemmas\<close>

lemma calculate_compensation_InrD:
  assumes "calculate_compensation plan gross rate = Inr c"
  shows "0 \<le> gross \<and> 0 \<le> cc_amount_minor c \<and> (cp_method plan = CM_PERCENTAGE \<longrightarrow>
    (\<exists>bps. cp_percentage_bps plan = Some bps \<and> 0 \<le> bps \<and> bps \<le> 10000
      \<and> cc_amount_minor c = gross * bps div 10000))"
  using assms
  by (auto simp: calculate_compensation_def pos_imp_zdiv_nonneg_iff
      split: if_splits compensation_method.splits option.splits)

lemma http_422_Inr [simp]: "http_422 r = Inr x \<longleftrightarrow> r = Inr x"
  by (auto simp: http_422_def split: sum.splits api_error.splits)

lemma recognize_earning_InrD:
  assumes "recognize_earning clk new_id j gross fee cur s = Inr (e, s')"
  shows "ve_job_id e = pk j \<and> (s' = s \<and> earning_for_job s (pk j) = Some e
    \<or> (\<exists>snap plan c. earning_for_job s (pk j) = None \<and> jb_vendor_id j = Some (ve_vendor_id e)
        \<and> active_plan s (ve_vendor_id e) (clk 0) = Some plan
        \<and> calculate_compensation plan gross (service_rate s (pk plan) (jb_service_id j)) = Inr c
        \<and> compensation_snapshots s' = compensation_snapshots s @ [snap]
        \<and> earnings s' = earnings s @ [e]
        \<and> s' = s\<lparr>compensation_snapshots := compensation_snapshots s', earnings := earnings s'\<rparr>
        \<and> pk e = new_id 1 \<and> ve_adjustment_total_minor e = 0 \<and> ve_status e = EA_PENDING
        \<and> ve_gross_minor e = gross \<and> ve_fee_minor e = gross - ve_net_minor e
        \<and> ve_net_minor e = cc_amount_minor c \<and> ve_payout_batch_id e = None
        \<and> cs_id snap = ve_compensation_snapshot_id e \<and> cs_gross_minor snap = gross
        \<and> cs_compensation_minor snap = cc_amount_minor c
        \<and> ve_available_at e = clk 1 + days (cp_hold_days plan)))"
  using assms unfolding recognize_earning_def
  by (auto elim!: bindE_InrE simp: Let_def earning_for_job_def dest: find_SomeD
      split: option.splits)

lemma earning_for_job_None: "earning_for_job s i = None \<longleftrightarrow> i \<notin> ve_job_id ` set (earnings s)"
  by (auto simp: earning_for_job_def find_None_iff)

text \<open>Rewriting earnings without touching their identity and amounts.\<close>

lemma ledger_inv_update:
  assumes inv: "ledger_inv s"
    and s': "earnings s' = update_where P f (earnings s)" "adjustments s' = adjustments s"
    and f: "\<And>e. pk (f e) = pk e" "\<And>e. ve_job_id (f e) = ve_job_id e"
      "\<And>e. ve_gross_minor (f e) = ve_gross_minor e" "\<And>e. ve_fee_minor (f e) = ve_fee_minor e"
      "\<And>e. ve_net_minor (f e) = ve_net_minor e"
      "\<And>e. ve_adjustment_total_minor (f e) = ve_adjustment_total_minor e"
    and batches: "pk ` set (payout_batches s) \<subseteq> pk ` set (payout_batches s')"
    and batched: "\<And>e. P e \<Longrightarrow> ve_status (f e) = EA_BATCHED \<Longrightarrow>
        \<exists>b \<in> set (payout_batches s'). ve_payout_batch_id (f e) = Some (pk b)"
  shows "ledger_inv s'"
proof -
  have same: "adjusted s' = adjusted s" by (rule ext) (simp add: adjusted_def s')
  have "earning_ok s' e'" if e': "e' \<in> set (earnings s')" for e'
  proof -
    from e' obtain e where e: "e \<in> set (earnings s)" "e' = (if P e then f e else e)"
      by (auto simp: s' set_update_where)
    with inv have ok: "earning_ok s e" by (simp add: ledger_inv_def)
    show ?thesis
    proof (cases "P e")
      case True
      with ok e batched [OF True] f show ?thesis by (simp add: earning_ok_def same)
    next
      case False
      have "\<exists>b' \<in> set (payout_batches s'). pk b' = pk b" if "b \<in> set (payout_batches s)" for b
        using batches that by fastforce
      with False ok e show ?thesis unfolding earning_ok_def same by (metis (full_types))
    qed
  qed
  moreover have "map pk (earnings s') = map pk (earnings s)"
    and "map ve_job_id (earnings s') = map ve_job_id (earnings s)"
    unfolding s' by (simp_all add: map_key_update_where f)
  moreover from this(1) have "pk ` set (earnings s') = pk ` set (earnings s)"
    by (metis set_map)
  ultimately show ?thesis using inv unfolding ledger_inv_def s'(2) by simp
qed

lemma ledger_inv_same:
  assumes "ledger_inv s" and "earnings s' = earnings s" "adjustments s' = adjustments s"
    and "pk ` set (payout_batches s) \<subseteq> pk ` set (payout_batches s')"
  shows "ledger_inv s'"
proof -
  have "earnings s' = update_where (\<lambda>_. False) (\<lambda>e. e) (earnings s)"
    using assms(2) by (simp add: update_where_def)
  then show ?thesis by (rule ledger_inv_update [OF assms(1)]) (use assms in simp_all)
qed

lemma ledger_inv_recognize:
  assumes inv: "ledger_inv s" and rec: "recognize_earning clk new_id j gross fee cur s = Inr (e, s')"
    and new: "new_id 1 \<notin> pk ` set (earnings s)"
  shows "ledger_inv s'"
  using recognize_earning_InrD [OF rec]
proof (elim disjE exE conjE)
  assume "s' = s"
  with inv show ?thesis by simp
next
  fix snap plan c
  assume job: "ve_job_id e = pk j" "earning_for_job s (pk j) = None"
    and c: "calculate_compensation plan gross (service_rate s (pk plan) (jb_service_id j)) = Inr c"
    and s'_def: "earnings s' = earnings s @ [e]"
      "s' = s\<lparr>compensation_snapshots := compensation_snapshots s', earnings := earnings s'\<rparr>"
    and e: "pk e = new_id 1" "ve_adjustment_total_minor e = 0" "ve_status e = EA_PENDING"
      "ve_gross_minor e = gross" "ve_fee_minor e = gross - ve_net_minor e"
      "ve_net_minor e = cc_amount_minor c"
  have s': "earnings s' = earnings s @ [e]" "adjustments s' = adjustments s"
    "payout_batches s' = payout_batches s"
    using s'_def(1) arg_cong [OF s'_def(2), of adjustments]
      arg_cong [OF s'_def(2), of payout_batches] by simp_all
  have none: "filter (\<lambda>a. aj_earning_id a = pk e) (adjustments s) = []"
    using inv new e(1) unfolding ledger_inv_def filter_empty_conv by metis
  have ok: "earning_ok s' x = earning_ok s x" for x by (simp add: earning_ok_def adjusted_def s')
  have "earning_ok s e"
    using e calculate_compensation_InrD [OF c] none by (simp add: earning_ok_def adjusted_def)
  then have all: "\<forall>x \<in> set (earnings s @ [e]). earning_ok s x" using inv by (simp add: ledger_inv_def)
  have "distinct (map pk (earnings s @ [e]))" "distinct (map ve_job_id (earnings s @ [e]))"
    using inv new e(1) job by (simp_all add: ledger_inv_def earning_for_job_None)
  moreover have "\<forall>a \<in> set (adjustments s). aj_earning_id a \<in> pk ` set (earnings s @ [e])"
    using inv by (auto simp: ledger_inv_def)
  ultimately show ?thesis using inv all unfolding ledger_inv_def ok by (simp add: s')
qed

lemma adjust_row_simps [simp]:
  "pk (adjust_row a ty e) = pk e" "ve_job_id (adjust_row a ty e) = ve_job_id e"
  "ve_gross_minor (adjust_row a ty e) = ve_gross_minor e"
  "ve_fee_minor (adjust_row a ty e) = ve_fee_minor e"
  "ve_net_minor (adjust_row a ty e) = ve_net_minor e"
  "ve_payout_batch_id (adjust_row a ty e) = ve_payout_batch_id e"
  "ve_adjustment_total_minor (adjust_row a ty e) = ve_adjustment_total_minor e + a"
  "payable_minor (adjust_row a ty e) = payable_minor e + a"
  by (simp_all add: adjust_row_def Let_def payable_minor_def)

lemma adjust_row_status:
  "ve_status (adjust_row a ty e) = EA_BATCHED \<Longrightarrow> ve_status e = EA_BATCHED"
  by (auto simp: adjust_row_def Let_def split: if_splits)

lemma adjust_earning_cases:
  assumes "adjust_earning clk i earning_id amt ty reason key actor s = (r, s')"
  shows "s' = s \<and> (case r of Inl _ \<Rightarrow> True | Inr a \<Rightarrow> a \<in> set (adjustments s))
    \<or> (\<exists>a. r = Inr a \<and> earning_id \<in> pk ` set (earnings s)
        \<and> (earning_id, key) \<notin> (\<lambda>a. (aj_earning_id a, aj_idempotency_key a)) ` set (adjustments s)
        \<and> aj_earning_id a = earning_id \<and> aj_idempotency_key a = key \<and> aj_amount_minor a = amt
        \<and> adjustments s' = adjustments s @ [a]
        \<and> earnings s' = update_row pk earning_id (adjust_row amt ty) (earnings s)
        \<and> payout_batches s' = payout_batches s)"
proof (cases "lookup_row pk earning_id (earnings s)")
  case None
  with assms show ?thesis by (auto simp: adjust_earning_def)
next
  case (Some e)
  then have mem: "earning_id \<in> pk ` set (earnings s)" by (metis image_eqI lookup_row_SomeD)
  show ?thesis
  proof (cases "find (\<lambda>a. aj_earning_id a = earning_id \<and> aj_idempotency_key a = key) (adjustments s)")
    case None
    then have "(earning_id, key) \<notin> (\<lambda>a. (aj_earning_id a, aj_idempotency_key a)) ` set (adjustments s)"
      by (auto simp: find_None_iff)
    with Some None mem assms show ?thesis by (auto simp: adjust_earning_def Let_def)
  next
    case found: (Some a)
    with Some assms show ?thesis by (auto simp: adjust_earning_def dest: find_SomeD)
  qed
qed

lemma ledger_inv_adjust:
  assumes inv: "ledger_inv s"
    and adjust: "adjust_earning clk i earning_id amt ty reason key actor s = (r, s')"
  shows "ledger_inv s'"
  using adjust_earning_cases [OF adjust]
proof (elim disjE exE conjE)
  assume "s' = s"
  with inv show ?thesis by simp
next
  fix a
  assume mem: "earning_id \<in> pk ` set (earnings s)"
    and key: "(earning_id, key) \<notin> (\<lambda>a. (aj_earning_id a, aj_idempotency_key a)) ` set (adjustments s)"
    and a: "aj_earning_id a = earning_id" "aj_idempotency_key a = key" "aj_amount_minor a = amt"
    and s': "adjustments s' = adjustments s @ [a]"
      "earnings s' = update_row pk earning_id (adjust_row amt ty) (earnings s)"
      "payout_batches s' = payout_batches s"
  have sums: "adjusted s' x = adjusted s x + (if x = earning_id then amt else 0)" for x
    using a by (simp add: adjusted_def s')
  have "earning_ok s' e'" if "e' \<in> set (earnings s')" for e'
  proof -
    from that obtain e where e: "e \<in> set (earnings s)"
      "e' = (if pk e = earning_id then adjust_row amt ty e else e)"
      by (auto simp: s' set_update_row)
    with inv have "earning_ok s e" by (simp add: ledger_inv_def)
    with e(2) adjust_row_status [of amt ty e] show ?thesis
      by (auto simp: earning_ok_def sums s'(3))
  qed
  moreover have "map pk (earnings s') = map pk (earnings s)"
    and "map ve_job_id (earnings s') = map ve_job_id (earnings s)"
    unfolding s' by (simp_all add: map_key_update_row)
  moreover from this(1) have "pk ` set (earnings s') = pk ` set (earnings s)" by (metis set_map)
  ultimately show ?thesis using inv mem key a unfolding ledger_inv_def s'(1) by simp
qed

lemma create_batch_cases:
  assumes "create_batch cfg clk i reference cur vendor_id actor s = (r, s')"
  shows "s' = s \<and> (\<exists>e. r = Inl e) \<or> (\<exists>b. r = Inr b \<and> pk b = i \<and> pb_currency b = cur
      \<and> pb_status b = PO_PENDING_APPROVAL
      \<and> available_earnings s cur vendor_id (clk 0) \<noteq> []
      \<and> pb_total_minor b = sum_list (map payable_minor (available_earnings s cur vendor_id (clk 0)))
      \<and> pb_earning_count b = int (length (available_earnings s cur vendor_id (clk 0)))
      \<and> payout_batches s' = payout_batches s @ [b] \<and> adjustments s' = adjustments s
      \<and> earnings s' = update_where
          (\<lambda>e. pk e \<in> set (map pk (available_earnings s cur vendor_id (clk 0))))
          (\<lambda>e. e\<lparr>ve_status := EA_BATCHED, ve_payout_batch_id := Some i\<rparr>) (earnings s))"
  using assms unfolding create_batch_def
  by (auto simp: Let_def split: sum.splits if_splits)

lemma ledger_inv_batch:
  assumes "ledger_inv s" and "create_batch cfg clk i reference cur vendor_id actor s = (r, s')"
  shows "ledger_inv s'"
  using create_batch_cases [OF assms(2)]
proof (elim disjE exE conjE)
  assume "s' = s"
  with assms show ?thesis by simp
next
  fix b
  assume b: "pk b = i" "payout_batches s' = payout_batches s @ [b]" "adjustments s' = adjustments s"
  assume "earnings s' = update_where
          (\<lambda>e. pk e \<in> set (map pk (available_earnings s cur vendor_id (clk 0))))
          (\<lambda>e. e\<lparr>ve_status := EA_BATCHED, ve_payout_batch_id := Some i\<rparr>) (earnings s)"
  then show ?thesis by (rule ledger_inv_update [OF assms(1)]) (use b in auto)
qed

lemma approve_batch_cases:
  assumes "approve_batch cfg clk batch_id approver s = (r, s')"
  shows "earnings s' = earnings s \<and> adjustments s' = adjustments s
    \<and> map pk (payout_batches s') = map pk (payout_batches s)"
  using assms unfolding approve_batch_def
  by (simp add: Let_def split: sum.splits if_splits option.splits)
    (auto simp: map_key_update_row)

lemma submit_batch_cases:
  assumes "submit_batch cfg create_transfer clk i batch_id actor (s, g) = (r, s', g')"
  shows "earnings s' = earnings s \<and> adjustments s' = adjustments s
    \<and> map pk (payout_batches s') = map pk (payout_batches s)"
  using assms unfolding submit_batch_def
  by (auto simp: Let_def map_key_update_row
      split: sum.splits if_splits option.splits prod.splits api_error.splits)

lemma ledger_inv_same_keys:
  assumes "ledger_inv s" and "earnings s' = earnings s \<and> adjustments s' = adjustments s
    \<and> map pk (payout_batches s') = map pk (payout_batches s)"
  shows "ledger_inv s'"
  by (rule ledger_inv_same [OF assms(1)]) (use assms(2) in \<open>auto dest: arg_cong [of _ _ set]\<close>)

lemma finance_step_inv: "finance_step s s' \<Longrightarrow> ledger_inv s \<Longrightarrow> ledger_inv s'"
proof (induction rule: finance_step.induct)
  case (fs_recognize clk new_id j gross fee cur s e s')
  then show ?case by (blast intro: ledger_inv_recognize)
next
  case (fs_release cfg now s r s')
  have "s' = s \<or> s' = s\<lparr>earnings := update_where (\<lambda>e. ve_status e = EA_PENDING \<and> ve_available_at e \<le> now)
      (\<lambda>e. e\<lparr>ve_status := EA_AVAILABLE\<rparr>) (earnings s)\<rparr>"
    using fs_release(1) by (auto simp: release_eligible_def Let_def split: sum.splits)
  then show ?case
  proof
    assume "s' = s"
    with fs_release(2) show ?thesis by simp
  next
    assume s': "s' = s\<lparr>earnings := update_where (\<lambda>e. ve_status e = EA_PENDING \<and> ve_available_at e \<le> now)
      (\<lambda>e. e\<lparr>ve_status := EA_AVAILABLE\<rparr>) (earnings s)\<rparr>"
    then have earnings_eq: "earnings s' = update_where
        (\<lambda>e. ve_status e = EA_PENDING \<and> ve_available_at e \<le> now)
        (\<lambda>e. e\<lparr>ve_status := EA_AVAILABLE\<rparr>) (earnings s)" by simp
    show ?thesis
      by (rule ledger_inv_update [OF fs_release(2) earnings_eq]) (simp_all add: s')
  qed
next
  case (fs_adjust clk i earning_id amt ty reason key actor s r' s')
  then show ?case by (blast intro: ledger_inv_adjust)
next
  case (fs_batch cfg clk i reference cur vendor_id actor s r'' s')
  then show ?case by (blast intro: ledger_inv_batch)
next
  case (fs_approve cfg clk batch_id approver s r'' s')
  show ?case by (rule ledger_inv_same_keys [OF fs_approve(2) approve_batch_cases [OF fs_approve(1)]])
next
  case (fs_submit cfg create_transfer clk i batch_id actor s g r'' s' g')
  show ?case by (rule ledger_inv_same_keys [OF fs_submit(2) submit_batch_cases [OF fs_submit(1)]])
next
  case (fs_other s s')
  then show ?case by (intro ledger_inv_same [of s s']) (simp_all add: same_ledger_def)
qed

lemma finance_reachable_inv: "finance_reachable s \<Longrightarrow> ledger_inv s"
proof (induction rule: finance_reachable.induct)
  case (finance_start s)
  then show ?case by (simp add: ledger_inv_def)
next
  case (finance_next s s')
  then show ?case by (blast intro: finance_step_inv)
qed

section \<open>The gateway's contract\<close>

text \<open>A gateway keyed by idempotency key answers a repeated request with the first transfer.\<close>

locale payout_gateway =
  fixes create_transfer :: "'g create_transfer"
  assumes same_key: "create_transfer a c d k g = (Inr t, g') \<Longrightarrow>
    create_transfer a' c' d' k g' = (Inr t, g')"
begin

text \<open>
  The commit after the call is lost, so the store still is the one with the key alone; submitting
  again finds the same transfer and leaves the gateway as it was.
\<close>

lemma resubmit:
  assumes sub: "submit_batch cfg create_transfer clk i batch_id actor (s, g) = (Inr b', s', g')"
    and b: "get_batch s batch_id = Some b" "pb_status b = PO_APPROVED"
      "pb_provider_transfer_id b = None"
  defines "s1 \<equiv> modify_batch batch_id (\<lambda>x. x\<lparr>pb_idempotency_key := Some (submit_key b)\<rparr>) s"
  shows "\<exists>b'' s''. submit_batch cfg create_transfer clk' i' batch_id actor' (s1, g') = (Inr b'', s'', g')
    \<and> pb_provider_transfer_id b'' = pb_provider_transfer_id b' \<and> pb_status b'' = PO_PROCESSING"
proof -
  have key: "submit_key (b\<lparr>pb_idempotency_key := Some (submit_key b)\<rparr>) = submit_key b"
    by (auto simp: submit_key_def split: option.splits)
  have enabled: "require_payouts_enabled cfg = Inr ()"
    using sub by (auto simp: submit_batch_def split: sum.splits)
  obtain t where t: "create_transfer (pb_total_minor b) (pb_currency b) (''batch:'' @ str_uuid (pk b))
      (submit_key b) g = (Inr t, g')" and b': "pb_provider_transfer_id b' = Some (tr_transfer_id t)"
    using sub b enabled
    by (auto simp: submit_batch_def Let_def split: prod.splits sum.splits api_error.splits)
  have "get_batch s1 batch_id = Some (b\<lparr>pb_idempotency_key := Some (submit_key b)\<rparr>)"
    using b(1) by (simp add: s1_def lookup_update_row)
  with b enabled key same_key [OF t] show ?thesis
    by (simp add: submit_batch_def Let_def b')
qed

end

lemma fake_transfer_found:
  "fake_create_transfer a c d k g = (Inr t, g') \<Longrightarrow> map_of g' k = Some t"
  by (auto simp: fake_create_transfer_def Let_def split: option.splits if_splits)

interpretation fake_gateway: payout_gateway fake_create_transfer
proof
  fix a c d k g t g' a' c' d'
  assume "fake_create_transfer a c d k g = (Inr t, g')"
  from fake_transfer_found [OF this] show "fake_create_transfer a' c' d' k g' = (Inr t, g')"
    by (simp add: fake_create_transfer_def Let_def)
qed

interpretation no_gateway: payout_gateway unconfigured_create_transfer
  by unfold_locales (simp add: unconfigured_create_transfer_def)

text \<open>The row of a batch after its submission.\<close>

lemma submitted_row:
  assumes "submit_batch cfg create_transfer clk i batch_id actor (s, g) = (Inr b', s', g')"
    and "get_batch s batch_id = Some b" and "pb_status b = PO_APPROVED"
    and "pb_provider_transfer_id b = None"
  shows "payout_enabled cfg \<and> get_batch s' batch_id = Some b' \<and> pb_status b' = PO_PROCESSING
    \<and> pb_provider_transfer_id b' \<noteq> None"
  using assms unfolding submit_batch_def
  by (auto simp: Let_def lookup_update_row require_payouts_enabled_def
      split: prod.splits sum.splits api_error.splits)

section \<open>Properties\<close>

text \<open>Compensation is never negative.  A percentage of the gross is rounded down to the minor
  unit, so it loses less than one unit and never exceeds the gross.\<close>

lemma compensation_bounds:
  assumes "calculate_compensation plan gross rate = Inr c"
  shows "0 \<le> cc_amount_minor c \<and> (cp_method plan = CM_PERCENTAGE \<longrightarrow> cc_amount_minor c \<le> gross
    \<and> (\<exists>bps. cp_percentage_bps plan = Some bps \<and> 10000 * cc_amount_minor c \<le> gross * bps
        \<and> gross * bps < 10000 * (cc_amount_minor c + 1)))"
proof -
  note c = calculate_compensation_InrD [OF assms]
  moreover have "gross * bps div 10000 \<le> gross" if "0 \<le> bps" "bps \<le> 10000" for bps :: int
  proof -
    have "gross * bps \<le> gross * 10000" using that c by (intro mult_left_mono) simp_all
    then have "gross * bps div 10000 \<le> gross * 10000 div 10000" by (rule zdiv_mono1) simp
    then show ?thesis by simp
  qed
  moreover have "10000 * (x div 10000) \<le> x \<and> x < 10000 * (x div 10000 + 1)" for x :: int
    by (simp add: algebra_simps) linarith
  ultimately show ?thesis by auto
qed

text \<open>C18.  Through any sequence of recognitions, releases, adjustments, batches, approvals and
  submissions, a job has at most one earning, gross is fee plus net, the adjustment total is the
  sum of the recorded adjustments, each idempotency key adjusts an earning once, and a batched
  earning names an existing batch.\<close>

theorem ledger_invariant:
  assumes "finance_reachable s"
  shows "distinct (map ve_job_id (earnings s))
    \<and> distinct (map (\<lambda>a. (aj_earning_id a, aj_idempotency_key a)) (adjustments s))
    \<and> (\<forall>e \<in> set (earnings s). ve_gross_minor e = ve_fee_minor e + ve_net_minor e
        \<and> ve_adjustment_total_minor e
            = sum_list (map aj_amount_minor (filter (\<lambda>a. aj_earning_id a = pk e) (adjustments s)))
        \<and> (ve_status e = EA_BATCHED \<longrightarrow>
             (\<exists>b \<in> set (payout_batches s). ve_payout_batch_id e = Some (pk b))))"
  using finance_reachable_inv [OF assms] by (auto simp: ledger_inv_def earning_ok_def adjusted_def)

lemma available_set:
  "set (available_earnings s cur v now) = {e \<in> set (earnings s). batchable cur v now e}"
  by (auto simp: available_earnings_def)

text \<open>The earnings a new batch takes are those that name it afterwards.\<close>

lemma batched_filter:
  assumes "distinct (map pk es)" and "\<And>e. e \<in> set es \<Longrightarrow> ve_payout_batch_id e \<noteq> Some i"
  shows "map payable_minor (filter (\<lambda>e. ve_payout_batch_id e = Some i)
      (update_where (\<lambda>e. pk e \<in> pk ` {e \<in> set es. P e})
        (\<lambda>e. e\<lparr>ve_status := EA_BATCHED, ve_payout_batch_id := Some i\<rparr>) es))
    = map payable_minor (filter P es)"
proof -
  have mem: "pk e \<in> pk ` {e \<in> set es. P e} \<longleftrightarrow> P e" if "e \<in> set es" for e
    using assms(1) that by (auto simp: distinct_map inj_on_def)
  have "update_where (\<lambda>e. pk e \<in> pk ` {e \<in> set es. P e})
        (\<lambda>e. e\<lparr>ve_status := EA_BATCHED, ve_payout_batch_id := Some i\<rparr>) es
      = update_where P (\<lambda>e. e\<lparr>ve_status := EA_BATCHED, ve_payout_batch_id := Some i\<rparr>) es"
    using mem by (simp add: update_where_def)
  moreover have "map payable_minor (filter (\<lambda>e. ve_payout_batch_id e = Some i)
      (update_where P (\<lambda>e. e\<lparr>ve_status := EA_BATCHED, ve_payout_batch_id := Some i\<rparr>) xs))
    = map payable_minor (filter P xs)" if "set xs \<subseteq> set es" for xs
    using that assms(2) by (induction xs) (auto simp: update_where_def payable_minor_def)
  ultimately show ?thesis by simp
qed

text \<open>A new batch takes every earning that is due, in its currency and for its vendor, and no
  other: its total is the sum they are payable, its count their number, and they name the batch.
  When nothing is due the request fails and changes nothing.\<close>

lemma create_batch_total:
  assumes "create_batch cfg clk i reference cur vendor_id actor s = (r, s')"
    and "finance_reachable s" and "\<forall>e \<in> set (earnings s). ve_payout_batch_id e \<noteq> Some i"
  shows "case r of Inl _ \<Rightarrow> s' = s
    | Inr b \<Rightarrow> pb_total_minor b = batch_payable s' i
        \<and> pb_total_minor b = sum_list (map payable_minor (filter (batchable cur vendor_id (clk 0)) (earnings s)))
        \<and> pb_earning_count b = int (length (filter (batchable cur vendor_id (clk 0)) (earnings s)))
        \<and> 0 < pb_earning_count b
        \<and> (\<forall>e \<in> set (earnings s'). ve_payout_batch_id e = Some i \<longrightarrow> ve_status e = EA_BATCHED)"
  using create_batch_cases [OF assms(1)]
proof (elim disjE exE conjE)
  fix b
  let ?due = "batchable cur vendor_id (clk 0)"
  assume r: "r = Inr b" and total: "pb_total_minor b =
      sum_list (map payable_minor (available_earnings s cur vendor_id (clk 0)))"
    and n: "pb_earning_count b = int (length (available_earnings s cur vendor_id (clk 0)))"
      "available_earnings s cur vendor_id (clk 0) \<noteq> []"
    and s': "earnings s' = update_where
        (\<lambda>e. pk e \<in> set (map pk (available_earnings s cur vendor_id (clk 0))))
        (\<lambda>e. e\<lparr>ve_status := EA_BATCHED, ve_payout_batch_id := Some i\<rparr>) (earnings s)"
  have "distinct (map pk (earnings s))"
    using finance_reachable_inv [OF assms(2)] by (simp add: ledger_inv_def)
  then have "batch_payable s' i = sum_list (map payable_minor (filter ?due (earnings s)))"
    using batched_filter [of "earnings s" i ?due] assms(3)
    by (simp add: batch_payable_def s' available_set)
  moreover have "\<forall>e \<in> set (earnings s'). ve_payout_batch_id e = Some i \<longrightarrow> ve_status e = EA_BATCHED"
    using assms(3) by (auto simp: s' set_update_where)
  ultimately show ?thesis using r total n
    by (simp add: available_earnings_def sum_list_sort_key sort_key_Nil_iff)
qed simp

text \<open>Submitting a batch is safe to repeat: after a success, submitting again returns the
  batch and calls nothing; and if the commit that follows the gateway's answer is lost, submitting
  again with the key stored before the call obtains the same transfer and creates no second one.\<close>

lemma submit_batch_once:
  assumes "submit_batch cfg fake_create_transfer clk i batch_id actor (s, g) = (Inr b', s', g')"
    and "get_batch s batch_id = Some b" and "pb_status b = PO_APPROVED"
    and "pb_provider_transfer_id b = None" and "pb_provider_transfer_id b' \<noteq> Some []"
  shows "submit_batch cfg create_transfer clk' i' batch_id actor' (s', g') = (Inr b', s', g')
    \<and> (\<exists>b'' s''. submit_batch cfg fake_create_transfer clk' i' batch_id actor'
          (modify_batch batch_id (\<lambda>x. x\<lparr>pb_idempotency_key := Some (submit_key b)\<rparr>) s, g')
          = (Inr b'', s'', g') \<and> pb_provider_transfer_id b'' = pb_provider_transfer_id b')"
proof
  from submitted_row [OF assms(1-4)] assms(5)
  show "submit_batch cfg create_transfer clk' i' batch_id actor' (s', g') = (Inr b', s', g')"
    by (auto simp: submit_batch_def require_payouts_enabled_def ensure_def)
  show "\<exists>b'' s''. submit_batch cfg fake_create_transfer clk' i' batch_id actor'
          (modify_batch batch_id (\<lambda>x. x\<lparr>pb_idempotency_key := Some (submit_key b)\<rparr>) s, g')
          = (Inr b'', s'', g') \<and> pb_provider_transfer_id b'' = pb_provider_transfer_id b'"
    using fake_gateway.resubmit [OF assms(1-4)] by blast
qed

text \<open>A new adjustment of an earning that is already in a batch changes what the batch's
  earnings are payable by its amount, while the batch and its total stay as they were: the amount
  submitted to the gateway is the one from before the adjustment.\<close>

lemma adjustment_misses_batch:
  assumes "adjust_earning clk i earning_id amt ty reason key actor s = (Inr a, s')"
    and "a \<notin> set (adjustments s)" and "finance_reachable s"
    and "lookup_row pk earning_id (earnings s) = Some e" and "ve_payout_batch_id e = Some bid"
  shows "batch_payable s' bid = batch_payable s bid + amt \<and> payout_batches s' = payout_batches s"
proof -
  have dist: "distinct (map pk (earnings s))"
    using finance_reachable_inv [OF assms(3)] by (simp add: ledger_inv_def)
  from adjust_earning_cases [OF assms(1)] assms(2)
  have s': "earnings s' = update_row pk earning_id (adjust_row amt ty) (earnings s)"
    "payout_batches s' = payout_batches s" by auto
  moreover have "sum_list (map payable_minor (filter (\<lambda>e. ve_payout_batch_id e = Some bid)
      (update_row pk earning_id (adjust_row amt ty) es)))
    = sum_list (map payable_minor (filter (\<lambda>e. ve_payout_batch_id e = Some bid) es)) + amt"
    if "distinct (map pk es)" "lookup_row pk earning_id es = Some e" for es
    using that
  proof (induction es)
    case (Cons x es)
    show ?case
    proof (cases "pk x = earning_id")
      case True
      with Cons.prems have "update_row pk earning_id (adjust_row amt ty) es = es"
        by (intro update_row_id) auto
      with True Cons.prems assms(5) show ?thesis
        by (auto simp: lookup_row_def update_row_def update_where_def)
    next
      case False
      with Cons show ?thesis by (auto simp: lookup_row_def update_row_def update_where_def)
    qed
  qed (simp add: lookup_row_def)
  ultimately show ?thesis using dist assms(4) by (simp add: batch_payable_def)
qed

section \<open>A sample ledger\<close>

text \<open>One completed job of 150.00 under a plan of 80 percent, released, batched and approved.\<close>

definition sample_plan :: compensation_plan where
  "sample_plan = \<lparr>pk = 90, created_at = 0, cp_vendor_id = 30, cp_name = ''standard'',
     cp_method = CM_PERCENTAGE, cp_fixed_minor = None, cp_percentage_bps = Some 8000,
     cp_currency = ''USD'', cp_hold_days = 7, cp_active = True, cp_effective_from = 0,
     cp_effective_to = None\<rparr>"

definition sample_done_job :: job where
  "sample_done_job = \<lparr>pk = 80, created_at = 0, jb_booking_id = 81, jb_customer_id = Some 82,
     jb_service_id = 10, jb_address_id = 20, jb_status = J_COMPLETED, jb_scheduled_start = 0,
     jb_scheduled_end = 0, jb_vendor_id = Some 30, jb_worker_id = Some 40, jb_version = 5,
     jb_diagnostic_notes = Some ''leak'', jb_completion_notes = Some ''fixed'',
     jb_completed_at = Some 0\<rparr>"

definition payout_settings :: settings where
  "payout_settings = \<lparr>payments_enabled = True, payout_enabled = True, payout_provider = [],
     provider_assignment_mode = ''MANUAL'', auto_assign_provider = False,
     live_provider_dispatch = False, keycloak_enabled = False,
     keycloak_provisioning_enabled = False, keycloak_issuer = [], stripe_enabled = True,
     geocoding_enabled = False, odoo_enabled = False, middleware_enabled = False\<rparr>"

definition ledger_db :: db where "ledger_db = empty_db\<lparr>compensation_plans := [sample_plan]\<rparr>"

definition earned_db :: db where
  "earned_db = (case recognize_earning (\<lambda>_. 1) (\<lambda>k. 100 + k) sample_done_job 15000 0 ''USD'' ledger_db of
     Inl _ \<Rightarrow> ledger_db | Inr (_, s) \<Rightarrow> s)"

definition released_db :: db where
  "released_db = snd (release_eligible payout_settings (days 8) earned_db)"

definition batched :: "(db, payout_batch) outcome" where
  "batched = create_batch payout_settings (\<lambda>_. days 8) 110 ''PAY-1'' ''USD'' None None released_db"

definition approved_db :: db where
  "approved_db = snd (approve_batch payout_settings (\<lambda>_. days 8) 110 5 (snd batched))"

definition submitted :: "(db \<times> transfers, payout_batch) outcome" where
  "submitted = submit_batch payout_settings fake_create_transfer (\<lambda>_. days 9) 120 110 5 (approved_db, [])"

lemma reachable_earned: "finance_reachable earned_db"
proof -
  have "recognize_earning (\<lambda>_. 1) (\<lambda>k. 100 + k) sample_done_job 15000 0 ''USD'' ledger_db
      = Inr (hd (earnings earned_db), earned_db)" by code_simp
  moreover have "100 + (1 :: nat) \<notin> pk ` set (earnings ledger_db)" by code_simp
  ultimately have "finance_step ledger_db earned_db" by (rule fs_recognize)
  moreover have "finance_reachable ledger_db"
    by (rule finance_start) (simp_all add: ledger_db_def empty_db_def)
  ultimately show ?thesis by (rule finance_next [rotated])
qed

lemma reachable_released: "finance_reachable released_db"
  using finance_next [OF reachable_earned fs_release [OF prod.collapse [symmetric]]]
  by (simp add: released_db_def)

lemma batched_eq: "create_batch payout_settings (\<lambda>_. days 8) 110 ''PAY-1'' ''USD'' None None released_db
    = (fst batched, snd batched)"
  by (simp add: batched_def)

lemma reachable_batched: "finance_reachable (snd batched)"
  by (rule finance_next [OF reachable_released fs_batch [OF batched_eq]])

lemma compensation_bounds_witness:
  "cc_amount_minor \<lparr>cc_amount_minor = 266, cc_rule = [(''percentage_bps'', JInt 8000)]\<rparr> \<le> 333"
proof -
  have "calculate_compensation sample_plan 333 None
      = Inr \<lparr>cc_amount_minor = 266, cc_rule = [(''percentage_bps'', JInt 8000)]\<rparr>" by code_simp
  from compensation_bounds [OF this] show ?thesis by (simp add: sample_plan_def)
qed

theorem ledger_invariant_witness:
  "map ve_fee_minor (earnings (snd batched)) = [3000] \<and> distinct (map ve_job_id (earnings (snd batched)))"
proof
  show "map ve_fee_minor (earnings (snd batched)) = [3000]" by code_simp
  show "distinct (map ve_job_id (earnings (snd batched)))"
    using ledger_invariant [OF reachable_batched] by blast
qed

theorem create_batch_total_witness:
  "\<exists>b. fst batched = Inr b \<and> pb_total_minor b = 12000 \<and> batch_payable (snd batched) 110 = 12000"
proof -
  obtain b where b: "fst batched = Inr b" "pb_total_minor b = 12000"
  proof
    show "fst batched = Inr (hd (payout_batches (snd batched)))"
      and "pb_total_minor (hd (payout_batches (snd batched))) = 12000" by code_simp+
  qed
  have "\<forall>e \<in> set (earnings released_db). ve_payout_batch_id e \<noteq> Some 110" by code_simp
  from create_batch_total [OF batched_eq reachable_released this] b show ?thesis by simp
qed

lemma submit_batch_once_witness:
  "\<exists>b s g. submitted = (Inr b, s, g) \<and> length g = 1
     \<and> submit_batch payout_settings unconfigured_create_transfer (\<lambda>_. 0) 121 110 6 (s, g) = (Inr b, s, g)"
proof -
  define b s g where "b = hd (payout_batches (fst (snd submitted)))"
    and "s = fst (snd submitted)" and "g = snd (snd submitted)"
  have "fst submitted = Inr b" unfolding b_def by code_simp
  then have sub: "submitted = (Inr b, s, g)" by (simp add: s_def g_def prod_eq_iff)
  have row: "get_batch approved_db 110 = Some (hd (payout_batches approved_db))"
    "pb_status (hd (payout_batches approved_db)) = PO_APPROVED"
    "pb_provider_transfer_id (hd (payout_batches approved_db)) = None" by code_simp+
  have id: "pb_provider_transfer_id b \<noteq> Some []" unfolding b_def by code_simp
  have "length g = 1" unfolding g_def by code_simp
  with submit_batch_once [OF sub [unfolded submitted_def] row id] sub show ?thesis by blast
qed

theorem adjustment_misses_batch_witness:
  "\<exists>s'. batch_payable (snd batched) 110 = 12000 \<and> batch_payable s' 110 = 2000
     \<and> payout_batches s' = payout_batches (snd batched)"
proof -
  define out where "out = adjust_earning (\<lambda>_. days 9) 130 101 (- 10000) ADJ_REFUND ''refund'' ''k''
      (Some 5) (snd batched)"
  define a where "a = hd (adjustments (snd out))"
  have "fst out = Inr a" unfolding a_def out_def by code_simp
  then have out: "adjust_earning (\<lambda>_. days 9) 130 101 (- 10000) ADJ_REFUND ''refund'' ''k'' (Some 5)
      (snd batched) = (Inr a, snd out)" by (simp add: out_def prod_eq_iff)
  have new: "a \<notin> set (adjustments (snd batched))" unfolding a_def out_def by code_simp
  have row: "lookup_row pk 101 (earnings (snd batched)) = Some (hd (earnings (snd batched)))"
    "ve_payout_batch_id (hd (earnings (snd batched))) = Some 110" by code_simp+
  have "batch_payable (snd batched) 110 = 12000" by code_simp
  with adjustment_misses_batch [OF out new reachable_batched row] show ?thesis by auto
qed

end
