(* ===== verification/Jobs.thy ===== *)
theory Jobs
  imports Finance Common Samples
begin

text \<open>
  \<^verbatim>\<open>jobs/service.py\<close>: the job and work-request lifecycles, the completion of a job with its
  earning and event, and additional-work requests.  \<open>clk\<close> gives the successive readings of the
  clock and \<open>new_id\<close> the ids drawn for new rows.
\<close>

section \<open>Definitions\<close>

fun TRANSITIONS :: "job_status transitions" where
  "TRANSITIONS J_CREATED = Some [J_MATCHING, J_CANCELLED]"
| "TRANSITIONS J_MATCHING = Some [J_OFFERED, J_ASSIGNED, J_CANCELLED]"
| "TRANSITIONS J_OFFERED = Some [J_MATCHING, J_ASSIGNED, J_CANCELLED]"
| "TRANSITIONS J_ASSIGNED = Some [J_EN_ROUTE, J_CANCELLED]"
| "TRANSITIONS J_EN_ROUTE = Some [J_ON_SITE, J_CANCELLED]"
| "TRANSITIONS J_ON_SITE = Some [J_DIAGNOSING, J_IN_PROGRESS, J_CANCELLED]"
| "TRANSITIONS J_DIAGNOSING = Some [J_AWAITING_APPROVAL, J_IN_PROGRESS, J_CANCELLED]"
| "TRANSITIONS J_AWAITING_APPROVAL = Some [J_IN_PROGRESS, J_CANCELLED]"
| "TRANSITIONS J_IN_PROGRESS = Some [J_COMPLETED, J_AWAITING_APPROVAL, J_CANCELLED]"
| "TRANSITIONS J_COMPLETED = Some []"
| "TRANSITIONS J_CANCELLED = Some []"

fun WORK_REQUEST_TRANSITIONS :: "work_request_status transitions" where
  "WORK_REQUEST_TRANSITIONS WR_DRAFT = Some [WR_SUBMITTED]"
| "WORK_REQUEST_TRANSITIONS WR_SUBMITTED = Some [WR_PENDING_CUSTOMER, WR_DECLINED]"
| "WORK_REQUEST_TRANSITIONS WR_PENDING_CUSTOMER = Some [WR_APPROVED_PENDING_PAYMENT, WR_DECLINED]"
| "WORK_REQUEST_TRANSITIONS WR_APPROVED_PENDING_PAYMENT = Some [WR_APPROVED]"
| "WORK_REQUEST_TRANSITIONS WR_APPROVED = Some []"
| "WORK_REQUEST_TRANSITIONS WR_DECLINED = Some []"
| "WORK_REQUEST_TRANSITIONS WR_PAID = Some []"
| "WORK_REQUEST_TRANSITIONS WR_CANCELLED = Some []"
| "WORK_REQUEST_TRANSITIONS WR_EXPIRED = Some []"

text \<open>An empty note counts as no note.\<close>

definition has_text :: "string option \<Rightarrow> bool" where
  "has_text n = (case n of None \<Rightarrow> False | Some t \<Rightarrow> t \<noteq> [])"

definition validate_completion :: "job \<Rightarrow> unit result" where
  "validate_completion j =
     bindE (ensure (jb_vendor_id j \<noteq> None \<and> jb_worker_id j \<noteq> None)
       (HTTPException 409 ''Job must be assigned before completion'')) (\<lambda>_.
     ensure (has_text (jb_diagnostic_notes j) \<and> has_text (jb_completion_notes j))
       (HTTPException 409 ''Diagnostic and completion notes are required''))"

text \<open>
  \<^verbatim>\<open>apply_transition\<close> returns the changed job and the event it recorded, or the job as it was and
  no event when the target is the current status.
\<close>

definition apply_transition ::
  "datetime \<Rightarrow> job_status \<Rightarrow> uuid option \<Rightarrow> string \<Rightarrow> string option \<Rightarrow> json_object \<Rightarrow> job
   \<Rightarrow> (job \<times> job_event option) result"
where
  "apply_transition now target actor_id actor_type reason metadata j =
     (if target = jb_status j then Inr (j, None)
      else if \<not> can_transition TRANSITIONS (jb_status j) target
      then Inl (HTTPException 409 ''Cannot transition job'')
      else bindE (if target = J_COMPLETED then validate_completion j else Inr ()) (\<lambda>_.
        Inr (j\<lparr>jb_status := target, jb_version := jb_version j + 1,
               jb_completed_at := (if target = J_COMPLETED then Some now else jb_completed_at j)\<rparr>,
             Some \<lparr>je_job_id = pk j, je_from_status = Some (jb_status j), je_to_status = target,
                   je_actor_id = actor_id, je_actor_type = actor_type, je_reason = reason,
                   je_metadata = metadata\<rparr>)))"

definition apply_work_request_transition ::
  "work_request_status \<Rightarrow> work_request \<Rightarrow> work_request result"
where
  "apply_work_request_transition target r =
     (if wr_status r = target then Inr r
      else if \<not> can_transition WORK_REQUEST_TRANSITIONS (wr_status r) target
      then Inl (HTTPException 409 ''Cannot transition work request'')
      else Inr (r\<lparr>wr_status := target\<rparr>))"

text \<open>The rows a transition leaves in the session.\<close>

definition put_job :: "job \<Rightarrow> job_event option \<Rightarrow> db \<Rightarrow> db" where
  "put_job j ev s =
     s\<lparr>jobs := update_row pk (pk j) (\<lambda>_. j) (jobs s),
       job_events := job_events s @ (case ev of None \<Rightarrow> [] | Some e \<Rightarrow> [e])\<rparr>"

definition put_request :: "work_request \<Rightarrow> db \<Rightarrow> db" where
  "put_request r s = s\<lparr>work_requests := update_row pk (pk r) (\<lambda>_. r) (work_requests s)\<rparr>"

text \<open>\<^verbatim>\<open>int\<close> of a decimal truncates towards zero.\<close>

definition int_of_decimal :: "rat \<Rightarrow> int" where
  "int_of_decimal x = (if 0 \<le> x then \<lfloor>x\<rfloor> else \<lceil>x\<rceil>)"

definition record_completion_effects ::
  "settings \<Rightarrow> (nat \<Rightarrow> datetime) \<Rightarrow> (nat \<Rightarrow> uuid) \<Rightarrow> job \<Rightarrow> db \<Rightarrow> db result"
where
  "record_completion_effects cfg clk new_id j s =
     bindE (if payout_enabled cfg \<and> earning_for_job s (pk j) = None
            then bindE (of_option (HTTPException 409 ''Job booking is unavailable'')
                   (get_booking s (jb_booking_id j))) (\<lambda>b.
                 bindE (get_payout_gateway cfg :: transfers create_transfer result) (\<lambda>_.
                 bindE (recognize_earning clk new_id j (int_of_decimal (bk_total_amount b * 100)) 0
                    (bk_currency b) s) (\<lambda>es. Inr (snd es))))
            else Inr s) (\<lambda>s1.
     Inr (add_event (new_event (new_id 2) ''job'' (pk j) ''job.completed'' None
            [(''job_id'', JUuid (pk j)), (''vendor_id'', json_uuid (jb_vendor_id j))] (clk 2)) s1))"

text \<open>The effects of a completion happen only when the status really changed.\<close>

definition completion_effects ::
  "settings \<Rightarrow> (nat \<Rightarrow> datetime) \<Rightarrow> (nat \<Rightarrow> uuid) \<Rightarrow> job_status \<Rightarrow> job \<Rightarrow> job_event option \<Rightarrow> db \<Rightarrow> db result"
where
  "completion_effects cfg clk new_id target j ev s =
     (if ev \<noteq> None \<and> target = J_COMPLETED then record_completion_effects cfg clk new_id j s else Inr s)"

definition transition_locked ::
  "settings \<Rightarrow> (nat \<Rightarrow> datetime) \<Rightarrow> (nat \<Rightarrow> uuid) \<Rightarrow> uuid \<Rightarrow> job_status \<Rightarrow> uuid option \<Rightarrow> string
   \<Rightarrow> string option \<Rightarrow> db \<Rightarrow> (db, job) outcome"
where
  "transition_locked cfg clk new_id job_id target actor_id actor_type reason s =
     (case get_job s job_id of
        None \<Rightarrow> (Inl (HTTPException 404 ''Job not found''), s)
      | Some j \<Rightarrow>
          case bindE (apply_transition (clk 0) target actor_id actor_type reason [] j) (\<lambda>(j', ev).
                 bindE (completion_effects cfg (\<lambda>k. clk (k + 1)) new_id target j' ev (put_job j' ev s))
                   (\<lambda>s'. Inr (j', s'))) of
            Inl e \<Rightarrow> (Inl e, s)
          | Inr (j', s') \<Rightarrow> (Inr j', s'))"

datatype notes_field = diagnostic_notes | completion_notes

definition set_notes :: "notes_field \<Rightarrow> string \<Rightarrow> job \<Rightarrow> job" where
  "set_notes fld notes j =
     (case fld of diagnostic_notes \<Rightarrow> j\<lparr>jb_diagnostic_notes := Some notes\<rparr>
      | completion_notes \<Rightarrow> j\<lparr>jb_completion_notes := Some notes\<rparr>)"

definition notes_reason :: "notes_field \<Rightarrow> string" where
  "notes_reason fld =
     (case fld of diagnostic_notes \<Rightarrow> ''diagnostic_notes_recorded''
      | completion_notes \<Rightarrow> ''completion_notes_recorded'')"

definition technician_note_transition ::
  "settings \<Rightarrow> (nat \<Rightarrow> datetime) \<Rightarrow> (nat \<Rightarrow> uuid) \<Rightarrow> uuid \<Rightarrow> uuid \<Rightarrow> uuid \<Rightarrow> notes_field \<Rightarrow> string
   \<Rightarrow> job_status \<Rightarrow> db \<Rightarrow> (db, job) outcome"
where
  "technician_note_transition cfg clk new_id job_id worker_id actor_id fld notes target s =
     (case get_job s job_id of
        None \<Rightarrow> (Inl (HTTPException 403 ''Technician is not assigned to this job''), s)
      | Some j \<Rightarrow>
          if jb_worker_id j \<noteq> Some worker_id
          then (Inl (HTTPException 403 ''Technician is not assigned to this job''), s)
          else
            case bindE (apply_transition (clk 0) target (Some actor_id) ''worker''
                     (Some (notes_reason fld)) [] (set_notes fld notes j)) (\<lambda>(j', ev).
                   bindE (completion_effects cfg (\<lambda>k. clk (k + 1)) new_id target j' ev (put_job j' ev s))
                     (\<lambda>s'. Inr (j', s'))) of
              Inl e \<Rightarrow> (Inl e, s)
            | Inr (j', s') \<Rightarrow> (Inr j', s'))"

record work_request_create =
  wrc_description :: string
  wrc_line_items :: "line_item list"
  wrc_tax_minor :: int
  wrc_currency :: string

definition subtotal :: "line_item list \<Rightarrow> int" where
  "subtotal items = sum_list (map (\<lambda>i. li_quantity i * li_unit_price_minor i) items)"

definition create_work_request ::
  "(nat \<Rightarrow> datetime) \<Rightarrow> uuid \<Rightarrow> uuid \<Rightarrow> work_request_create \<Rightarrow> uuid \<Rightarrow> db \<Rightarrow> (db, work_request) outcome"
where
  "create_work_request clk new_id job_id payload worker_id s =
     (case get_job s job_id of
        None \<Rightarrow> (Inl (HTTPException 404 ''Job not found''), s)
      | Some j \<Rightarrow>
          if jb_worker_id j \<noteq> Some worker_id
          then (Inl (HTTPException 403 ''Worker is not assigned to this job''), s)
          else if jb_status j \<notin> {J_ON_SITE, J_DIAGNOSING, J_IN_PROGRESS}
          then (Inl (HTTPException 409
                 ''Additional work cannot be requested in the current job state''), s)
          else
            let sub = subtotal (wrc_line_items payload);
                r = \<lparr>pk = new_id, created_at = clk 0, wr_job_id = pk j, wr_status = WR_SUBMITTED,
                     wr_description = wrc_description payload,
                     wr_line_items = wrc_line_items payload, wr_subtotal_minor = sub,
                     wr_tax_minor = wrc_tax_minor payload,
                     wr_total_minor = sub + wrc_tax_minor payload,
                     wr_currency = wrc_currency payload, wr_payment_id = None,
                     wr_customer_decided_at = None, wr_created_by = worker_id\<rparr>
            in case apply_transition (clk 0) J_AWAITING_APPROVAL (Some worker_id) ''worker''
                      (Some ''additional_work_requested'') [] j of
                 Inl e \<Rightarrow> (Inl e, s)
               | Inr (j', ev) \<Rightarrow>
                   (Inr r, put_job j' ev (s\<lparr>work_requests := work_requests s @ [r]\<rparr>)))"

definition decision_audit ::
  "datetime \<Rightarrow> settings \<Rightarrow> bool \<Rightarrow> uuid \<Rightarrow> work_request \<Rightarrow> audit_log"
where
  "decision_audit now cfg approve customer_id r =
     \<lparr>al_actor_id = Some customer_id, al_actor_type = ''user'',
      al_action = (if approve then ''quote.approve'' else ''quote.reject''),
      al_resource_type = ''work_request'', al_resource_id = pk r,
      al_metadata_json = [(''previous_status'', JStr ''PENDING_CUSTOMER''),
        (''new_status'', JStr (case wr_status r of
             WR_APPROVED_PENDING_PAYMENT \<Rightarrow> ''APPROVED_PENDING_PAYMENT''
           | WR_APPROVED \<Rightarrow> ''APPROVED'' | _ \<Rightarrow> ''DECLINED'')),
        (''payment_required'', JBool (approve \<and> payments_enabled cfg))],
      al_created_at = now\<rparr>"

definition decide_work_request ::
  "settings \<Rightarrow> (nat \<Rightarrow> datetime) \<Rightarrow> uuid \<Rightarrow> bool \<Rightarrow> uuid \<Rightarrow> db \<Rightarrow> (db, work_request) outcome"
where
  "decide_work_request cfg clk request_id approve customer_id s =
     (case lookup_row pk request_id (work_requests s) of
        None \<Rightarrow> (Inl (HTTPException 404 ''Work request not found''), s)
      | Some r \<Rightarrow>
          case get_job s (wr_job_id r) of
            None \<Rightarrow> (Inl (HTTPException 403 ''Not permitted to decide this request''), s)
          | Some j \<Rightarrow>
              if jb_customer_id j \<noteq> Some customer_id
              then (Inl (HTTPException 403 ''Not permitted to decide this request''), s)
              else if wr_status r \<noteq> WR_PENDING_CUSTOMER
              then (Inl (HTTPException 409 ''Work request has already been decided''), s)
              else
                let target = (if approve
                              then if payments_enabled cfg then WR_APPROVED_PENDING_PAYMENT
                                   else WR_APPROVED
                              else WR_DECLINED)
                in case bindE (if target = WR_APPROVED then Inr (r\<lparr>wr_status := target\<rparr>)
                               else apply_work_request_transition target r) (\<lambda>r1.
                        let r2 = r1\<lparr>wr_customer_decided_at := Some (clk 0)\<rparr>;
                            s1 = add_audit (decision_audit (clk 1) cfg approve customer_id r2)
                                   (put_request r2 s)
                        in if \<not> approve
                           then bindE (apply_transition (clk 2) J_IN_PROGRESS (Some customer_id)
                                  ''customer'' (Some ''additional_work_declined'') [] j)
                                  (\<lambda>(j', ev). Inr (r2, put_job j' ev s1))
                           else if \<not> payments_enabled cfg
                           then bindE (apply_transition (clk 2) J_IN_PROGRESS (Some customer_id)
                                  ''customer'' (Some ''quote_approved_no_payment'') [] j)
                                  (\<lambda>(j', ev). Inr (r2, put_job j' ev s1))
                           else Inr (r2, s1)) of
                     Inl e \<Rightarrow> (Inl e, s)
                   | Inr (r2, s2) \<Rightarrow> (Inr r2, s2))"

definition review_work_request ::
  "(nat \<Rightarrow> datetime) \<Rightarrow> uuid \<Rightarrow> bool \<Rightarrow> uuid option \<Rightarrow> db \<Rightarrow> (db, work_request) outcome"
where
  "review_work_request clk request_id approve actor_id s =
     (case lookup_row pk request_id (work_requests s) of
        None \<Rightarrow> (Inl (HTTPException 404 ''Work request not found''), s)
      | Some r \<Rightarrow>
          if wr_status r \<noteq> WR_SUBMITTED
          then (Inl (HTTPException 409 ''Work request has already been reviewed''), s)
          else
            case bindE (apply_work_request_transition
                     (if approve then WR_PENDING_CUSTOMER else WR_DECLINED) r) (\<lambda>r1.
                   let s1 = put_request r1 s
                   in if approve then Inr (r1, s1)
                      else case get_job s (wr_job_id r) of
                        None \<Rightarrow> Inr (r1, s1)
                      | Some j \<Rightarrow>
                          if jb_status j \<noteq> J_AWAITING_APPROVAL then Inr (r1, s1)
                          else bindE (apply_transition (clk 0) J_IN_PROGRESS actor_id ''operations''
                                 (Some ''work_request_rejected'') [] j)
                                 (\<lambda>(j', ev). Inr (r1, put_job j' ev s1))) of
              Inl e \<Rightarrow> (Inl e, s)
            | Inr (r1, s1) \<Rightarrow> (Inr r1, s1))"

text \<open>The operator and technician endpoints of \<^verbatim>\<open>api/v1/jobs/transitions.py\<close>.\<close>

definition technician_target :: "string \<Rightarrow> job_status option" where
  "technician_target command =
     (if command = ''en-route'' then Some J_EN_ROUTE
      else if command = ''arrive'' then Some J_ON_SITE
      else if command = ''diagnose'' then Some J_DIAGNOSING
      else if command = ''start'' then Some J_IN_PROGRESS
      else None)"

definition technician_command ::
  "settings \<Rightarrow> (nat \<Rightarrow> datetime) \<Rightarrow> (nat \<Rightarrow> uuid) \<Rightarrow> uuid \<Rightarrow> string \<Rightarrow> uuid \<Rightarrow> uuid \<Rightarrow> db \<Rightarrow> (db, job) outcome"
where
  "technician_command cfg clk new_id job_id command worker_id user_id s =
     (case get_job s job_id of
        None \<Rightarrow> (Inl (HTTPException 403 ''Technician is not assigned to this job''), s)
      | Some j \<Rightarrow>
          if jb_worker_id j \<noteq> Some worker_id
          then (Inl (HTTPException 403 ''Technician is not assigned to this job''), s)
          else case technician_target command of
            None \<Rightarrow> (Inl (HTTPException 422 ''Unknown technician command''), s)
          | Some target \<Rightarrow>
              transition_locked cfg clk new_id job_id target (Some user_id) ''worker'' None s)"

section \<open>The lifecycles\<close>

definition job_final :: "job_status \<Rightarrow> bool" where
  "job_final st = (st \<in> {J_COMPLETED, J_CANCELLED})"

interpretation job_machine: lifecycle TRANSITIONS job_final
proof
  fix st
  show "job_final st \<longleftrightarrow> (case TRANSITIONS st of None \<Rightarrow> True | Some targets \<Rightarrow> targets = [])"
    by (cases st) (simp_all add: job_final_def)
qed

definition work_request_final :: "work_request_status \<Rightarrow> bool" where
  "work_request_final st = (st \<in> {WR_APPROVED, WR_DECLINED, WR_PAID, WR_CANCELLED, WR_EXPIRED})"

interpretation work_request_machine: lifecycle WORK_REQUEST_TRANSITIONS work_request_final
proof
  fix st
  show "work_request_final st \<longleftrightarrow>
      (case WORK_REQUEST_TRANSITIONS st of None \<Rightarrow> True | Some targets \<Rightarrow> targets = [])"
    by (cases st) (simp_all add: work_request_final_def)
qed

section \<open>The history of a job\<close>

text \<open>\<open>chain a evs b\<close>: the events lead, one allowed transition after another, from \<open>a\<close> to \<open>b\<close>.\<close>

fun chain :: "job_status \<Rightarrow> job_event list \<Rightarrow> job_status \<Rightarrow> bool" where
  "chain a [] b = (a = b)"
| "chain a (e # es) b =
     (je_from_status e = Some a \<and> can_transition TRANSITIONS a (je_to_status e)
      \<and> chain (je_to_status e) es b)"

definition events_of :: "db \<Rightarrow> uuid \<Rightarrow> job_event list" where
  "events_of s i = filter (\<lambda>e. je_job_id e = i) (job_events s)"

text \<open>What happened to a job between two stores is what its new events say.\<close>

definition documented :: "db \<Rightarrow> db \<Rightarrow> uuid \<Rightarrow> bool" where
  "documented s s' i =
     (\<exists>evs. events_of s' i = events_of s i @ evs \<and>
       (case get_job s i of
          None \<Rightarrow> get_job s' i = None
        | Some j \<Rightarrow> (\<exists>j'. get_job s' i = Some j' \<and> chain (jb_status j) evs (jb_status j')
            \<and> jb_version j' = jb_version j + int (length evs))))"

inductive job_step :: "db \<Rightarrow> db \<Rightarrow> bool" where
  js_transition: "transition_locked cfg clk new_id job_id target actor_id actor_type reason s = (r, s')
     \<Longrightarrow> job_step s s'"
| js_note: "technician_note_transition cfg clk new_id job_id worker_id actor fld notes target s = (r, s')
     \<Longrightarrow> job_step s s'"
| js_command: "technician_command cfg clk new_id job_id command worker_id actor s = (r, s')
     \<Longrightarrow> job_step s s'"
| js_request: "create_work_request clk i job_id payload worker_id s = (r', s') \<Longrightarrow> job_step s s'"
| js_decide: "decide_work_request cfg clk request_id approve customer_id s = (r', s') \<Longrightarrow>
     job_step s s'"
| js_review: "review_work_request clk request_id approve actor_id s = (r', s') \<Longrightarrow> job_step s s'"

lemma chain_append: "chain a xs b \<Longrightarrow> chain b ys c \<Longrightarrow> chain a (xs @ ys) c"
  by (induction xs arbitrary: a) auto

lemma chain_reaches: "chain a evs b \<Longrightarrow> (can_transition TRANSITIONS)\<^sup>*\<^sup>* a b"
  by (induction evs arbitrary: a) (auto intro: converse_rtranclp_into_rtranclp)

lemma documented_refl [simp]: "documented s s i"
  by (auto simp: documented_def split: option.splits)

lemma documented_same: "jobs s' = jobs s \<Longrightarrow> job_events s' = job_events s \<Longrightarrow> documented s s' i"
  by (auto simp: documented_def events_of_def split: option.splits)

lemma documented_trans:
  assumes "documented s t i" and "documented t u i"
  shows "documented s u i"
proof -
  from assms obtain xs ys where ev: "events_of t i = events_of s i @ xs"
    "events_of u i = events_of t i @ ys"
    by (auto simp: documented_def)
  show ?thesis
  proof (cases "get_job s i")
    case None
    with assms ev have "get_job u i = None" by (auto simp: documented_def)
    with None ev show ?thesis by (auto simp: documented_def)
  next
    case (Some j)
    with assms(1) ev(1) obtain j' where j': "get_job t i = Some j'"
      "chain (jb_status j) xs (jb_status j')" "jb_version j' = jb_version j + int (length xs)"
      by (auto simp: documented_def)
    with assms(2) ev(2) obtain j'' where j'': "get_job u i = Some j''"
      "chain (jb_status j') ys (jb_status j'')" "jb_version j'' = jb_version j' + int (length ys)"
      by (auto simp: documented_def)
    from chain_append [OF j'(2) j''(2)] j'(3) j''(1,3) ev Some show ?thesis
      by (auto simp: documented_def)
  qed
qed

lemma apply_transition_InrD:
  assumes "apply_transition now target actor_id actor_type reason metadata j = Inr (j', ev)"
  shows "jb_status j' = target \<and> pk j' = pk j
    \<and> (ev = None \<and> j' = j
       \<or> (\<exists>e. ev = Some e \<and> je_job_id e = pk j \<and> je_from_status e = Some (jb_status j)
           \<and> je_to_status e = target \<and> can_transition TRANSITIONS (jb_status j) target
           \<and> jb_version j' = jb_version j + 1 \<and> jb_vendor_id j' = jb_vendor_id j
           \<and> jb_worker_id j' = jb_worker_id j \<and> jb_booking_id j' = jb_booking_id j
           \<and> (target = J_COMPLETED \<longrightarrow> validate_completion j = Inr ()
               \<and> jb_completed_at j' = Some now)))"
  using assms unfolding apply_transition_def
  by (auto elim!: bindE_InrE split: if_splits)

lemma apply_transition_pk:
  "apply_transition now target actor_id actor_type reason metadata j = Inr (j', ev) \<Longrightarrow> pk j' = pk j"
  by (drule apply_transition_InrD) simp

text \<open>Storing a job after a transition documents the change.\<close>

lemma documented_put_job:
  assumes job: "get_job s job_id = Some j" and same: "jb_status k = jb_status j"
      "jb_version k = jb_version j" "pk k = pk j"
    and ap: "apply_transition now target actor_id actor_type reason metadata k = Inr (j', ev)"
    and s1: "jobs s1 = jobs s" "job_events s1 = job_events s"
  shows "documented s (put_job j' ev s1) i"
proof -
  have pk: "pk j = job_id" using job by (rule lookup_row_key)
  note ap' = apply_transition_InrD [OF ap]
  have jobs: "get_job (put_job j' ev s1) i = (if i = job_id then Some j' else get_job s i)"
    using lookup_put [OF job, of j'] lookup_put_other [of i job_id pk j' "jobs s"] ap' same pk
    by (simp add: put_job_def s1)
  show ?thesis
  proof (cases ev)
    case None
    with ap' same job jobs pk show ?thesis
      by (auto simp: documented_def events_of_def put_job_def s1 split: option.splits)
  next
    case (Some e)
    with ap' same job jobs pk show ?thesis
      by (auto simp: documented_def events_of_def put_job_def s1 split: option.splits)
  qed
qed

lemma recognize_keeps:
  assumes "recognize_earning clk new_id j gross fee cur s = Inr (e, s')"
  shows "jobs s' = jobs s \<and> job_events s' = job_events s \<and> events s' = events s
    \<and> bookings s' = bookings s"
  using assms unfolding recognize_earning_def
  by (auto elim!: bindE_InrE simp: Let_def split: option.splits)

lemma completion_effects_keeps:
  assumes "completion_effects cfg clk new_id target j ev s = Inr s'"
  shows "jobs s' = jobs s \<and> job_events s' = job_events s"
  using assms unfolding completion_effects_def record_completion_effects_def
  by (auto elim!: bindE_InrE dest!: recognize_keeps split: if_splits)

lemma transition_locked_cases:
  assumes "transition_locked cfg clk new_id job_id target actor_id actor_type reason s = (r, s')"
  shows "s' = s \<and> (\<exists>e. r = Inl e) \<or> (\<exists>j j' ev. r = Inr j' \<and> get_job s job_id = Some j
      \<and> apply_transition (clk 0) target actor_id actor_type reason [] j = Inr (j', ev)
      \<and> completion_effects cfg (\<lambda>k. clk (k + 1)) new_id target j' ev (put_job j' ev s) = Inr s')"
  using assms unfolding transition_locked_def
  by (auto elim!: bindE_InrE split: option.splits sum.splits)

lemma technician_note_cases:
  assumes "technician_note_transition cfg clk new_id job_id worker_id actor fld notes target s = (r, s')"
  shows "s' = s \<and> (\<exists>e. r = Inl e) \<or> (\<exists>j j' ev. r = Inr j' \<and> get_job s job_id = Some j
      \<and> jb_worker_id j = Some worker_id
      \<and> apply_transition (clk 0) target (Some actor) ''worker'' (Some (notes_reason fld)) []
          (set_notes fld notes j) = Inr (j', ev)
      \<and> completion_effects cfg (\<lambda>k. clk (k + 1)) new_id target j' ev (put_job j' ev s) = Inr s')"
  using assms unfolding technician_note_transition_def
  by (auto elim!: bindE_InrE split: option.splits sum.splits if_splits)

lemma set_notes_simps [simp]:
  "jb_status (set_notes fld n j) = jb_status j" "jb_version (set_notes fld n j) = jb_version j"
  "pk (set_notes fld n j) = pk j" "jb_vendor_id (set_notes fld n j) = jb_vendor_id j"
  "jb_worker_id (set_notes fld n j) = jb_worker_id j"
  "jb_booking_id (set_notes fld n j) = jb_booking_id j"
  by (cases fld; simp add: set_notes_def)+

lemma documented_transition_locked:
  assumes "transition_locked cfg clk new_id job_id target actor_id actor_type reason s = (r, s')"
  shows "documented s s' i"
  using transition_locked_cases [OF assms]
proof (elim disjE exE conjE)
  fix j j' ev
  assume job: "get_job s job_id = Some j"
    and ap: "apply_transition (clk 0) target actor_id actor_type reason [] j = Inr (j', ev)"
    and eff: "completion_effects cfg (\<lambda>k. clk (k + 1)) new_id target j' ev (put_job j' ev s) = Inr s'"
  have "documented s (put_job j' ev s) i"
    using job refl refl refl ap refl refl by (rule documented_put_job)
  moreover have "documented (put_job j' ev s) s' i"
    using completion_effects_keeps [OF eff] by (intro documented_same) simp_all
  ultimately show ?thesis by (rule documented_trans)
qed simp

lemma documented_note:
  assumes "technician_note_transition cfg clk new_id job_id worker_id actor fld notes target s = (r, s')"
  shows "documented s s' i"
  using technician_note_cases [OF assms]
proof (elim disjE exE conjE)
  fix j j' ev
  assume job: "get_job s job_id = Some j"
    and ap: "apply_transition (clk 0) target (Some actor) ''worker'' (Some (notes_reason fld)) []
        (set_notes fld notes j) = Inr (j', ev)"
    and eff: "completion_effects cfg (\<lambda>k. clk (k + 1)) new_id target j' ev (put_job j' ev s) = Inr s'"
  have "documented s (put_job j' ev s) i"
    by (rule documented_put_job [OF job _ _ _ ap]) simp_all
  moreover have "documented (put_job j' ev s) s' i"
    using completion_effects_keeps [OF eff] by (intro documented_same) simp_all
  ultimately show ?thesis by (rule documented_trans)
qed simp

lemma create_work_request_cases:
  assumes "create_work_request clk i job_id payload worker_id s = (r, s')"
  shows "s' = s \<and> (\<exists>e. r = Inl e) \<or> (\<exists>q j j' ev. r = Inr q \<and> get_job s job_id = Some j
      \<and> jb_worker_id j = Some worker_id \<and> pk q = i \<and> wr_job_id q = job_id \<and> wr_status q = WR_SUBMITTED
      \<and> wr_subtotal_minor q = subtotal (wrc_line_items payload)
      \<and> wr_total_minor q = wr_subtotal_minor q + wr_tax_minor q
      \<and> jb_status j \<in> {J_ON_SITE, J_DIAGNOSING, J_IN_PROGRESS}
      \<and> apply_transition (clk 0) J_AWAITING_APPROVAL (Some worker_id) ''worker''
          (Some ''additional_work_requested'') [] j = Inr (j', ev)
      \<and> s' = put_job j' ev (s\<lparr>work_requests := work_requests s @ [q]\<rparr>))"
  using assms unfolding create_work_request_def
  by (auto simp: Let_def dest: lookup_row_key split: option.splits sum.splits if_splits)

lemma apply_work_request_transition_InrD:
  "apply_work_request_transition target r = Inr r' \<Longrightarrow>
   r' = r\<lparr>wr_status := target\<rparr> \<and> (wr_status r = target
     \<or> can_transition WORK_REQUEST_TRANSITIONS (wr_status r) target)"
  by (cases r) (auto simp: apply_work_request_transition_def split: if_splits)

text \<open>The status a decision gives the request.\<close>

definition decision :: "settings \<Rightarrow> bool \<Rightarrow> work_request_status" where
  "decision cfg approve =
     (if \<not> approve then WR_DECLINED
      else if payments_enabled cfg then WR_APPROVED_PENDING_PAYMENT else WR_APPROVED)"

lemma decide_work_request_cases:
  assumes "decide_work_request cfg clk request_id approve customer_id s = (r, s')"
  shows "s' = s \<and> (\<exists>e. r = Inl e) \<or> (\<exists>q j q' s1. r = Inr q'
      \<and> lookup_row pk request_id (work_requests s) = Some q \<and> wr_status q = WR_PENDING_CUSTOMER
      \<and> get_job s (wr_job_id q) = Some j \<and> jb_customer_id j = Some customer_id
      \<and> q' = q\<lparr>wr_status := decision cfg approve, wr_customer_decided_at := Some (clk 0)\<rparr>
      \<and> s1 = add_audit (decision_audit (clk 1) cfg approve customer_id q') (put_request q' s)
      \<and> (approve \<and> payments_enabled cfg \<and> s' = s1
         \<or> (\<exists>reason j' ev. \<not> (approve \<and> payments_enabled cfg) \<and> apply_transition (clk 2) J_IN_PROGRESS
               (Some customer_id) ''customer'' reason [] j = Inr (j', ev) \<and> s' = put_job j' ev s1)))"
  using assms unfolding decide_work_request_def decision_def
  by (auto simp: Let_def elim!: bindE_InrE dest!: apply_work_request_transition_InrD
      split: option.splits sum.splits if_splits)

lemma review_work_request_cases:
  assumes "review_work_request clk request_id approve actor_id s = (r, s')"
  shows "s' = s \<and> (\<exists>e. r = Inl e) \<or> (\<exists>q q'. r = Inr q'
      \<and> lookup_row pk request_id (work_requests s) = Some q \<and> wr_status q = WR_SUBMITTED
      \<and> q' = q\<lparr>wr_status := (if approve then WR_PENDING_CUSTOMER else WR_DECLINED)\<rparr>
      \<and> (s' = put_request q' s
         \<or> (\<exists>j j' ev. \<not> approve \<and> get_job s (wr_job_id q) = Some j \<and> apply_transition (clk 0)
              J_IN_PROGRESS actor_id ''operations'' (Some ''work_request_rejected'') [] j = Inr (j', ev)
              \<and> s' = put_job j' ev (put_request q' s))))"
  using assms unfolding review_work_request_def
  by (auto simp: Let_def elim!: bindE_InrE dest!: apply_work_request_transition_InrD
      split: option.splits sum.splits if_splits)

lemma put_request_keeps [simp]:
  "jobs (put_request q s) = jobs s" "job_events (put_request q s) = job_events s"
  by (simp_all add: put_request_def)

lemma job_step_documented: "job_step s s' \<Longrightarrow> documented s s' i"
proof (induction rule: job_step.induct)
  case (js_transition cfg clk new_id job_id target actor_id actor_type reason s r s')
  then show ?case by (rule documented_transition_locked)
next
  case (js_note cfg clk new_id job_id worker_id actor fld n target s r s')
  then show ?case by (rule documented_note)
next
  case (js_command cfg clk new_id job_id command worker_id actor s r s')
  then have "s' = s \<or> (\<exists>target. transition_locked cfg clk new_id job_id target (Some actor)
      ''worker'' None s = (r, s'))"
    by (auto simp: technician_command_def split: option.splits if_splits)
  then show ?case by (auto intro: documented_transition_locked)
next
  case (js_request clk i job_id payload worker_id s r' s')
  from create_work_request_cases [OF js_request] show ?case
    by (elim disjE exE conjE) (simp, clarsimp, rule documented_put_job, simp_all)
next
  case (js_decide cfg clk request_id approve customer_id s r' s')
  from decide_work_request_cases [OF js_decide] show ?case
  proof (elim disjE exE conjE)
    fix q j q' s1 reason j' ev
    assume "get_job s (wr_job_id q) = Some j"
      and "s1 = add_audit (decision_audit (clk 1) cfg approve customer_id q') (put_request q' s)"
      and "apply_transition (clk 2) J_IN_PROGRESS (Some customer_id) ''customer'' reason [] j = Inr (j', ev)"
      and "s' = put_job j' ev s1"
    then show ?thesis by (auto intro: documented_put_job)
  qed (auto intro: documented_same)
next
  case (js_review clk request_id approve actor_id s r' s')
  from review_work_request_cases [OF js_review] show ?case
  proof (elim disjE exE conjE)
    fix q q' j j' ev
    assume "get_job s (wr_job_id q) = Some j"
      and "apply_transition (clk 0) J_IN_PROGRESS actor_id ''operations''
          (Some ''work_request_rejected'') [] j = Inr (j', ev)"
      and "s' = put_job j' ev (put_request q' s)"
    then show ?thesis by (auto intro: documented_put_job)
  qed (auto intro: documented_same)
qed

lemma job_steps_documented: "job_step\<^sup>*\<^sup>* s s' \<Longrightarrow> documented s s' i"
  by (induction rule: rtranclp_induct) (auto intro: documented_trans job_step_documented)

lemma chain_final: "chain a evs b \<Longrightarrow> job_final a \<Longrightarrow> evs = [] \<and> b = a"
  using job_machine.final_no_step by (cases evs) auto

lemma validate_completion_Inr:
  "validate_completion j = Inr () \<Longrightarrow> jb_vendor_id j \<noteq> None \<and> jb_worker_id j \<noteq> None
     \<and> has_text (jb_diagnostic_notes j) \<and> has_text (jb_completion_notes j)"
  by (auto simp: validate_completion_def elim: bindE_InrE)

text \<open>A job that apply\_transition completes carries its assignment and both notes.\<close>

lemma completes_with_notes:
  assumes "apply_transition now J_COMPLETED actor_id actor_type reason metadata j = Inr (j', Some e)"
  shows "jb_vendor_id j' \<noteq> None \<and> jb_worker_id j' \<noteq> None \<and> has_text (jb_diagnostic_notes j')
    \<and> has_text (jb_completion_notes j')"
  using assms unfolding apply_transition_def
  by (auto elim!: bindE_InrE dest!: validate_completion_Inr split: if_splits)

lemma record_completion_effectsD:
  assumes "record_completion_effects cfg clk new_id j s = Inr s'"
  shows "\<exists>ev. events s' = events s @ [ev] \<and> ev_event_type ev = ''job.completed''
      \<and> ev_aggregate_id ev = pk j
      \<and> (if payout_enabled cfg \<and> earning_for_job s (pk j) = None
         then \<exists>b e. get_booking s (jb_booking_id j) = Some b \<and> earnings s' = earnings s @ [e]
            \<and> ve_job_id e = pk j \<and> ve_gross_minor e = int_of_decimal (bk_total_amount b * 100)
            \<and> ve_gross_minor e = ve_fee_minor e + ve_net_minor e
         else earnings s' = earnings s)"
proof (cases "payout_enabled cfg \<and> earning_for_job s (pk j) = None")
  case True
  with assms obtain b e s1 where b: "get_booking s (jb_booking_id j) = Some b"
    and rec: "recognize_earning clk new_id j (int_of_decimal (bk_total_amount b * 100)) 0
        (bk_currency b) s = Inr (e, s1)"
    and s': "s' = add_event (new_event (new_id 2) ''job'' (pk j) ''job.completed'' None
        [(''job_id'', JUuid (pk j)), (''vendor_id'', json_uuid (jb_vendor_id j))] (clk 2)) s1"
    by (auto simp: record_completion_effects_def elim!: bindE_InrE)
  from recognize_earning_InrD [OF rec] True have "earnings s1 = earnings s @ [e] \<and> ve_job_id e = pk j
      \<and> ve_gross_minor e = int_of_decimal (bk_total_amount b * 100)
      \<and> ve_gross_minor e = ve_fee_minor e + ve_net_minor e" by auto
  with True b s' recognize_keeps [OF rec] show ?thesis by (simp add: new_event_def)
next
  case False
  with assms show ?thesis
    by (auto simp: record_completion_effects_def new_event_def elim!: bindE_InrE split: if_splits)
qed

section \<open>Properties\<close>

text \<open>C22.  Whatever JobService does, in whatever order, a job's status moves only along the
  transition table, one recorded event per move and one version per event, and a completed or
  cancelled job never moves again.\<close>

theorem job_history_documented:
  assumes "job_step\<^sup>*\<^sup>* s s'" and "get_job s i = Some j"
  shows "\<exists>j' evs. get_job s' i = Some j' \<and> events_of s' i = events_of s i @ evs
    \<and> chain (jb_status j) evs (jb_status j') \<and> jb_version j' = jb_version j + int (length evs)
    \<and> (jb_status j \<in> {J_COMPLETED, J_CANCELLED} \<longrightarrow> jb_status j' = jb_status j \<and> evs = [])"
proof -
  from job_steps_documented [OF assms(1), of i] assms(2) obtain j' evs where
    "get_job s' i = Some j'" "events_of s' i = events_of s i @ evs"
    "chain (jb_status j) evs (jb_status j')" "jb_version j' = jb_version j + int (length evs)"
    by (auto simp: documented_def)
  moreover from chain_final [OF this(3)]
  have "jb_status j \<in> {J_COMPLETED, J_CANCELLED} \<longrightarrow> jb_status j' = jb_status j \<and> evs = []"
    by (simp add: job_final_def)
  ultimately show ?thesis by blast
qed


text \<open>C24.  A quote is decided at most once and only by the job's customer.  Approval leads to
  APPROVED and sends the job back to IN_PROGRESS when nothing is to be paid, and to
  APPROVED_PENDING_PAYMENT with the job untouched when payments are on; a refusal leads to DECLINED
  and IN_PROGRESS.  A second decision is refused with 409 and changes nothing.\<close>

theorem quote_decided_once:
  assumes "decide_work_request cfg clk request_id approve customer_id s = (Inr q', s')"
  shows "wr_status q' = (if approve then if payments_enabled cfg then WR_APPROVED_PENDING_PAYMENT
        else WR_APPROVED else WR_DECLINED)
    \<and> lookup_row pk request_id (work_requests s') = Some q'
    \<and> (\<exists>j j'. get_job s (wr_job_id q') = Some j \<and> jb_customer_id j = Some customer_id
         \<and> get_job s' (wr_job_id q') = Some j'
         \<and> (if approve \<and> payments_enabled cfg then j' = j else jb_status j' = J_IN_PROGRESS))
    \<and> (\<forall>cfg' clk' approve'. decide_work_request cfg' clk' request_id approve' customer_id s'
         \<in> {(Inl (HTTPException 409 ''Work request has already been decided''), s'),
            (Inl (HTTPException 403 ''Not permitted to decide this request''), s')})"
proof -
  from decide_work_request_cases [OF assms(1)] obtain q j s1 where
    q: "lookup_row pk request_id (work_requests s) = Some q" and
    job: "get_job s (wr_job_id q) = Some j" "jb_customer_id j = Some customer_id" and
    q': "q' = q\<lparr>wr_status := decision cfg approve, wr_customer_decided_at := Some (clk 0)\<rparr>" and
    s1: "s1 = add_audit (decision_audit (clk 1) cfg approve customer_id q') (put_request q' s)" and
    s': "approve \<and> payments_enabled cfg \<and> s' = s1
       \<or> (\<exists>reason j' ev. \<not> (approve \<and> payments_enabled cfg) \<and> apply_transition (clk 2) J_IN_PROGRESS
             (Some customer_id) ''customer'' reason [] j = Inr (j', ev) \<and> s' = put_job j' ev s1)"
    by blast
  have key: "pk q' = request_id" using lookup_row_key [OF q] q' by simp
  have row1: "lookup_row pk request_id (work_requests s1) = Some q'"
    using q key lookup_put [OF q, of "q'"] by (simp add: s1 put_request_def)
  have row: "lookup_row pk request_id (work_requests s') = Some q'"
    using s' row1 by (auto simp: put_job_def)
  have jobs1: "jobs s1 = jobs s" by (simp add: s1)
  have job': "\<exists>j'. get_job s' (wr_job_id q') = Some j'
      \<and> (if approve \<and> payments_enabled cfg then j' = j else jb_status j' = J_IN_PROGRESS)"
    using s'
  proof (elim disjE exE conjE)
    fix reason j' ev
    assume no: "\<not> (approve \<and> payments_enabled cfg)" and put: "s' = put_job j' ev s1"
      and "apply_transition (clk 2) J_IN_PROGRESS (Some customer_id) ''customer'' reason [] j = Inr (j', ev)"
    note ap = apply_transition_InrD [OF this(3)]
    have "get_job s' (wr_job_id q) = Some j'"
      using lookup_put [OF job(1), of j'] ap lookup_row_key [OF job(1)]
      by (simp add: put put_job_def jobs1)
    with ap no q' show ?thesis by auto
  qed (use job jobs1 q' in auto)
  have "decide_work_request cfg' clk' request_id approve' customer_id s'
      \<in> {(Inl (HTTPException 409 ''Work request has already been decided''), s'),
         (Inl (HTTPException 403 ''Not permitted to decide this request''), s')}" for cfg' clk' approve'
    using row q' by (auto simp: decide_work_request_def decision_def split: option.splits)
  with row job job' q' show ?thesis by (auto simp: decision_def)
qed

text \<open>Additional work is billed at the sum of quantity times unit price plus tax, only by the
  assigned worker; the job then waits for approval.  Although the handler admits a job that is
  ON_SITE, the lifecycle has no way from there to AWAITING_APPROVAL, so that request always fails.\<close>

theorem work_request_created:
  "case create_work_request clk i job_id payload worker_id s of
     (Inl e, s') \<Rightarrow> s' = s
   | (Inr q, s') \<Rightarrow> wr_total_minor q
         = sum_list (map (\<lambda>l. li_quantity l * li_unit_price_minor l) (wrc_line_items payload)) + wr_tax_minor q
       \<and> wr_status q = WR_SUBMITTED \<and> work_requests s' = work_requests s @ [q]
       \<and> (\<exists>j j'. get_job s job_id = Some j \<and> jb_worker_id j = Some worker_id
            \<and> jb_status j \<in> {J_DIAGNOSING, J_IN_PROGRESS}
            \<and> get_job s' job_id = Some j' \<and> jb_status j' = J_AWAITING_APPROVAL)"
proof -
  obtain r s' where out: "create_work_request clk i job_id payload worker_id s = (r, s')"
    by (cases "create_work_request clk i job_id payload worker_id s")
  from create_work_request_cases [OF out] show ?thesis
  proof (elim disjE exE conjE)
    fix q j j' ev
    assume r: "r = Inr q" and job: "get_job s job_id = Some j" "jb_worker_id j = Some worker_id"
      and q: "wr_status q = WR_SUBMITTED" "wr_subtotal_minor q = subtotal (wrc_line_items payload)"
        "wr_total_minor q = wr_subtotal_minor q + wr_tax_minor q"
      and st: "jb_status j \<in> {J_ON_SITE, J_DIAGNOSING, J_IN_PROGRESS}"
      and ap: "apply_transition (clk 0) J_AWAITING_APPROVAL (Some worker_id) ''worker''
          (Some ''additional_work_requested'') [] j = Inr (j', ev)"
      and s': "s' = put_job j' ev (s\<lparr>work_requests := work_requests s @ [q]\<rparr>)"
    note ap' = apply_transition_InrD [OF ap]
    from ap st have "jb_status j \<in> {J_DIAGNOSING, J_IN_PROGRESS}"
      by (auto simp: apply_transition_def can_transition_def)
    moreover have "get_job s' job_id = Some j'"
      using lookup_put [OF job(1), of j'] ap' lookup_row_key [OF job(1)] by (simp add: s' put_job_def)
    ultimately show ?thesis using out r q job ap' s' by (simp add: subtotal_def put_job_def)
  qed (simp add: out)
qed

section \<open>The sample job\<close>

definition job_settings :: settings where
  "job_settings = payout_settings\<lparr>payments_enabled := False\<rparr>"

definition sample_request :: work_request where
  "sample_request = \<lparr>pk = 85, created_at = 0, wr_job_id = 80, wr_status = WR_PENDING_CUSTOMER,
     wr_description = ''valve'', wr_line_items = [], wr_subtotal_minor = 4000, wr_tax_minor = 0,
     wr_total_minor = 4000, wr_currency = ''USD'', wr_payment_id = None,
     wr_customer_decided_at = None, wr_created_by = 40\<rparr>"

definition job_db :: db where
  "job_db = ledger_db\<lparr>bookings := [sample_booking], jobs := [sample_job],
     work_requests := [sample_request]\<rparr>"

definition completed_out :: "(db, job) outcome" where
  "completed_out = technician_note_transition job_settings (\<lambda>_. days 1) (\<lambda>k. 100 + k) 80 40 7
     completion_notes ''fixed'' J_COMPLETED job_db"

lemma completed_out_eq:
  "technician_note_transition job_settings (\<lambda>_. days 1) (\<lambda>k. 100 + k) 80 40 7
     completion_notes ''fixed'' J_COMPLETED job_db = (Inr (hd (jobs (snd completed_out))), snd completed_out)"
proof -
  have "fst completed_out = Inr (hd (jobs (snd completed_out)))" by code_simp
  then show ?thesis by (simp add: completed_out_def prod_eq_iff)
qed

lemma sample_job_row: "get_job job_db 80 = Some sample_job"
  by code_simp

theorem job_history_documented_witness:
  "\<exists>j' evs. get_job (snd completed_out) 80 = Some j' \<and> jb_version j' = 4 + int (length evs)
     \<and> chain J_IN_PROGRESS evs (jb_status j')"
  using job_history_documented [OF r_into_rtranclp [of job_step, OF js_note [OF completed_out_eq]] sample_job_row]
  by (auto simp: sample_job_def)


theorem quote_decided_once_witness:
  "\<exists>q s. decide_work_request job_settings (\<lambda>_. days 1) 85 True 82 job_db = (Inr q, s)
     \<and> wr_status q = WR_APPROVED"
proof -
  define out where "out = decide_work_request job_settings (\<lambda>_. days 1) 85 True 82 job_db"
  define q where "q = hd (work_requests (snd out))"
  have "fst out = Inr q" unfolding out_def q_def by code_simp
  then have out: "decide_work_request job_settings (\<lambda>_. days 1) 85 True 82 job_db = (Inr q, snd out)"
    by (simp add: out_def prod_eq_iff)
  from quote_decided_once [OF out] have "wr_status q = WR_APPROVED"
    by (simp add: job_settings_def)
  with out show ?thesis by blast
qed

end
