(* ===== verification/Public_Booking.thy ===== *)
theory Public_Booking
  imports Bookings Holds Jobs "HOL-Library.While_Combinator"
begin

text \<open>
  \<^verbatim>\<open>booking/public_service.py\<close> and the customer's commands of \<^verbatim>\<open>api/v1/customer/bookings.py\<close>: public
  availability, the request that turns a hold into a booking, the public status, and cancellation
  and rescheduling by the customer.  Parameters beside those of the services called: the Keycloak
  provisioner, the token hash, and the secrets and ids drawn.
\<close>

section \<open>Public availability\<close>

record public_address =
  pa_line1 :: string
  pa_line2 :: "string option"
  pa_city :: string
  pa_state :: string
  pa_postal_code :: string

fun join_comma :: "string list \<Rightarrow> string" where
  "join_comma [] = []"
| "join_comma [x] = x"
| "join_comma (x # y # rest) = x @ '', '' @ join_comma (y # rest)"

definition single_line :: "public_address \<Rightarrow> string" where
  "single_line a = join_comma (filter (\<lambda>v. v \<noteq> [])
     [pa_line1 a, case pa_line2 a of None \<Rightarrow> [] | Some l \<Rightarrow> l, pa_city a, pa_state a,
      pa_postal_code a, ''US''])"

definition two_digits :: "int \<Rightarrow> string" where
  "two_digits n = [char_of (nat (48 + n div 10)), char_of (nat (48 + n mod 10))]"

definition hhmm :: "datetime \<Rightarrow> string" where
  "hhmm l = two_digits (time_of l div hours_of 1) @ '':''
     @ two_digits (time_of l mod hours_of 1 div minutes 1)"

record public_slot =
  pst_start_local :: string
  pst_end_local :: string

record public_availability =
  pav_timezone :: string
  pav_date :: date
  pav_address_id :: uuid
  pav_slots :: "public_slot list"
  pav_reason :: "string option"

text \<open>The half-hourly starts at which a visit of the given length still ends by the boundary.\<close>

function half_hours :: "datetime \<Rightarrow> datetime \<Rightarrow> int \<Rightarrow> datetime list" where
  "half_hours cursor stop len =
     (if cursor + len \<le> stop then cursor # half_hours (cursor + minutes 30) stop len else [])"
  by auto
termination by (relation "measure (\<lambda>(c, b, l). nat (b - l + 1 - c))") (auto simp: minutes_def)

declare half_hours.simps [simp del]

definition consumed_minutes :: "service \<Rightarrow> int" where
  "consumed_minutes sv =
     duration_or_default sv + sv_before_buffer_minutes sv + sv_after_buffer_minutes sv"

text \<open>The starts that have a candidate; the first failing conversion or search ends the loop.\<close>

fun open_starts ::
  "(string \<Rightarrow> zone option) \<Rightarrow> (uuid \<Rightarrow> uuid \<Rightarrow> rat option) \<Rightarrow> datetime \<Rightarrow> db \<Rightarrow> service \<Rightarrow> address \<Rightarrow> bool
   \<Rightarrow> datetime list \<Rightarrow> datetime list result"
where
  "open_starts tzdb st_distance now s sv ad emergency [] = Inr []"
| "open_starts tzdb st_distance now s sv ad emergency (c # cs) =
     bindE (local_interval tzdb (Naive c) (Naive (c + minutes (consumed_minutes sv)))
        (ad_timezone_name ad) None None) (\<lambda>iv.
     bindE (candidates tzdb st_distance now s sv ad (start_utc iv) (end_utc iv) emergency None) (\<lambda>found.
     bindE (open_starts tzdb st_distance now s sv ad emergency cs) (\<lambda>rest.
     Inr (if found \<noteq> [] then c # rest else rest))))"

text \<open>
  The loop as the code writes it: the state is the cursor with the starts found so far, or with the
  error that was raised.
\<close>

type_synonym search_state = "datetime \<times> datetime list result"

definition search_goes_on :: "datetime \<Rightarrow> service \<Rightarrow> search_state \<Rightarrow> bool" where
  "search_goes_on stop sv st = (case st of
      (cursor, Inl e) \<Rightarrow> False
    | (cursor, Inr slots) \<Rightarrow> cursor + minutes (consumed_minutes sv) \<le> stop)"

definition search_turn ::
  "(string \<Rightarrow> zone option) \<Rightarrow> (uuid \<Rightarrow> uuid \<Rightarrow> rat option) \<Rightarrow> datetime \<Rightarrow> db \<Rightarrow> service \<Rightarrow> address \<Rightarrow> bool
   \<Rightarrow> search_state \<Rightarrow> search_state"
where
  "search_turn tzdb st_distance now s sv ad emergency st = (case st of
      (cursor, Inl e) \<Rightarrow> (cursor, Inl e)
    | (cursor, Inr slots) \<Rightarrow>
        case bindE (local_interval tzdb (Naive cursor) (Naive (cursor + minutes (consumed_minutes sv)))
               (ad_timezone_name ad) None None) (\<lambda>iv.
             candidates tzdb st_distance now s sv ad (start_utc iv) (end_utc iv) emergency None) of
          Inl e \<Rightarrow> (cursor, Inl e)
        | Inr found \<Rightarrow> (cursor + minutes 30, Inr (if found \<noteq> [] then slots @ [cursor] else slots)))"

definition search_loop ::
  "(string \<Rightarrow> zone option) \<Rightarrow> (uuid \<Rightarrow> uuid \<Rightarrow> rat option) \<Rightarrow> datetime \<Rightarrow> db \<Rightarrow> service \<Rightarrow> address \<Rightarrow> bool
   \<Rightarrow> date \<Rightarrow> search_state option"
where
  "search_loop tzdb st_distance now s sv ad emergency d =
     while_option (search_goes_on (combine d (hours_of 19)) sv) (search_turn tzdb st_distance now s sv ad emergency)
       (combine d (hours_of 7), Inr [])"

text \<open>The response, from the value of the loop over the half hours.\<close>

definition public_slots ::
  "(string \<Rightarrow> zone option) \<Rightarrow> (uuid \<Rightarrow> uuid \<Rightarrow> rat option) \<Rightarrow> datetime \<Rightarrow> db \<Rightarrow> service \<Rightarrow> address \<Rightarrow> date
   \<Rightarrow> bool \<Rightarrow> public_availability result"
where
  "public_slots tzdb st_distance now s sv ad requested_date emergency =
     bindE (open_starts tzdb st_distance now s sv ad emergency
              (half_hours (combine requested_date (hours_of 7))
                 (combine requested_date (hours_of 19)) (minutes (consumed_minutes sv)))) (\<lambda>cs.
     Inr \<lparr>pav_timezone = ad_timezone_name ad, pav_date = requested_date, pav_address_id = pk ad,
          pav_slots = map (\<lambda>c. \<lparr>pst_start_local = hhmm c,
            pst_end_local = hhmm (c + minutes (duration_or_default sv))\<rparr>) cs,
          pav_reason = (if cs = [] then Some ''NO_CAPACITY'' else None)\<rparr>)"

definition public_search ::
  "(string \<Rightarrow> geocoded_address result) \<Rightarrow> (geometry \<Rightarrow> point \<Rightarrow> bool) \<Rightarrow> (string \<Rightarrow> zone option)
   \<Rightarrow> (uuid \<Rightarrow> uuid \<Rightarrow> rat option) \<Rightarrow> datetime \<Rightarrow> uuid \<Rightarrow> uuid + string \<Rightarrow> public_address \<Rightarrow> date \<Rightarrow> bool
   \<Rightarrow> db \<Rightarrow> (db, public_availability) outcome"
where
  "public_search geocode st_covers tzdb st_distance now new_id service_id addr requested_date emergency s =
     (case active_detail s service_id of
        None \<Rightarrow> (Inl (DomainError ''SERVICE_NOT_BOOKABLE'' 422), s)
      | Some sv \<Rightarrow>
          if \<not> sv_is_bookable sv then (Inl (DomainError ''SERVICE_NOT_BOOKABLE'' 422), s)
          else if sv_quote_required sv then (Inl (DomainError ''QUOTE_REQUIRED'' 422), s)
          else if weekday requested_date = 6
                  \<and> \<not> (emergency \<and> sv_emergency_eligible sv \<and> sv_sunday_emergency_eligible sv)
          then (Inl (DomainError ''SUNDAY_EMERGENCY_ONLY'' 422), s)
          else case validate_address geocode st_covers now new_id (single_line addr) s of
            (Inl e, s1) \<Rightarrow> (Inl e, s1)
          | (Inr v, s1) \<Rightarrow>
              if \<not> av_serviceable v \<or> av_address_id v = None
              then (Inl (DomainError ''OUTSIDE_SERVICE_AREA'' 422), s1)
              else case get_address s1 (the (av_address_id v)) of
                None \<Rightarrow> (Inl (DomainError ''INVALID_ADDRESS'' 500), s1)
              | Some ad \<Rightarrow>
                  (public_slots tzdb st_distance now s1 sv ad requested_date emergency, s1))"

section \<open>The booking request\<close>

record booking_request =
  brq_hold_id :: uuid
  brq_booking_session :: string
  brq_first_name :: string
  brq_last_name :: string
  brq_email :: string
  brq_phone :: string
  brq_notes :: "string option"

record booking_request_read =
  brr_public_reference :: string
  brr_status :: booking_status
  brr_timezone :: string
  brr_start_at_utc :: datetime
  brr_end_at_utc :: datetime
  brr_account_created :: bool
  brr_access_token :: "string option"
  brr_refresh_token :: "string option"
  brr_password_set_required :: bool

record request_draws =
  rd_customer_id :: uuid
  rd_booking_id :: uuid
  rd_guest_token :: string
  rd_reference :: string

definition existing_read :: "booking \<Rightarrow> booking_request_read" where
  "existing_read b = \<lparr>brr_public_reference = bk_reference b, brr_status = bk_status b,
     brr_timezone = bk_service_timezone_id b, brr_start_at_utc = bk_window_start b,
     brr_end_at_utc = bk_window_end b, brr_account_created = False, brr_access_token = None,
     brr_refresh_token = None, brr_password_set_required = False\<rparr>"

definition rstrip_slash :: "string \<Rightarrow> string" where
  "rstrip_slash t = rev (dropWhile (\<lambda>c. c = CHR ''/'') (rev t))"

text \<open>
  The account the request is made for.  An existing one must be the one that is signed in.  For a new one
  the code passes \<^verbatim>\<open>hash_password(...)\<close>, a coroutine that is not awaited, as the password hash: the
  driver refuses it as the value of a text column when the user is flushed, so the rest of that branch
  is never reached.  Keycloak has been asked to create the identity by then.
\<close>

definition request_account_for ::
  "settings \<Rightarrow> (string \<Rightarrow> string \<Rightarrow> string \<Rightarrow> string result) \<Rightarrow> booking_request \<Rightarrow> uuid option
   \<Rightarrow> db \<Rightarrow> uuid result"
where
  "request_account_for cfg ensure_client r authenticated_user s =
     (let email = lower (strip (brq_email r)) in
      case find (\<lambda>u. us_email u = lower email) (users s) of
        Some u \<Rightarrow>
          if authenticated_user \<noteq> Some (pk u) then Inl (DomainError ''AUTH_REQUIRED'' 401) else Inr (pk u)
      | None \<Rightarrow>
          bindE (if keycloak_enabled cfg \<and> keycloak_provisioning_enabled cfg
                 then bindE (ensure_client email (brq_first_name r) (brq_last_name r)) (\<lambda>x. Inr (Some x))
                 else Inr None) (\<lambda>subject.
          Inl (DataError ''users.password_hash'')))"

definition request_customer_for ::
  "datetime \<Rightarrow> request_draws \<Rightarrow> booking_request \<Rightarrow> uuid \<Rightarrow> db \<Rightarrow> customer \<times> db"
where
  "request_customer_for now d r user_id s =
     (case find (\<lambda>c. cu_user_id c = Some user_id) (customers s) of
        Some c \<Rightarrow> (c, s)
      | None \<Rightarrow>
          let c = \<lparr>pk = rd_customer_id d, created_at = now, cu_first_name = brq_first_name r,
                cu_last_name = brq_last_name r, cu_email = lower (strip (brq_email r)),
                cu_phone = brq_phone r, cu_user_id = Some user_id,
                cu_preferred_language = ''en-US'', cu_default_address_id = None\<rparr>
          in (c, s\<lparr>customers := customers s @ [c]\<rparr>))"

definition requested_booking ::
  "(string \<Rightarrow> string) \<Rightarrow> datetime \<Rightarrow> request_draws \<Rightarrow> booking_request \<Rightarrow> capacity_hold \<Rightarrow> customer
   \<Rightarrow> address \<Rightarrow> legal_entity \<Rightarrow> booking"
where
  "requested_booking hash_token now d r h c ad entity =
     \<lparr>pk = rd_booking_id d, created_at = now, bk_reference = ''BR-'' @ rd_reference d,
      bk_idempotency_key = ''hold:'' @ str_uuid (pk h),
      bk_idempotency_request_hash = hash_token (str_uuid (pk h)), bk_customer_id = pk c,
      bk_address_id = pk ad, bk_legal_entity_id = pk entity, bk_service_id = ch_service_id h,
      bk_provider_worker_id = None, bk_service_timezone_id = ch_timezone_id h,
      bk_recommended_provider_id = None, bk_recommended_professional_id = None,
      bk_assignment_score = None, bk_assignment_reason = None, bk_request_note = brq_notes r,
      bk_window_start = ch_slot_start_utc h, bk_window_end = ch_slot_end_utc h,
      bk_status = B_PENDING_MANUAL_DISPATCH,
      bk_pricing_snapshot = [(''quote_required'', JBool False), (''payments_enabled'', JBool False)],
      bk_total_amount = 0, bk_currency = le_currency entity, bk_expires_at = now + days 30,
      bk_guest_confirmation_token_hash = hash_token (rd_guest_token d),
      bk_guest_confirmation_expires_at = now + days 30, bk_guest_confirmation_revoked_at = None\<rparr>"

text \<open>From a live hold to its booking.\<close>

definition convert_request ::
  "settings \<Rightarrow> (string \<Rightarrow> string \<Rightarrow> string \<Rightarrow> string result) \<Rightarrow> (string \<Rightarrow> string)
   \<Rightarrow> datetime \<Rightarrow> request_draws \<Rightarrow> booking_request \<Rightarrow> uuid option
   \<Rightarrow> capacity_hold \<Rightarrow> db \<Rightarrow> (booking_request_read \<times> db) result"
where
  "convert_request cfg ensure_client hash_token now d r authenticated_user h s =
     bindE (request_account_for cfg ensure_client r authenticated_user s) (\<lambda>user_id.
     let (c, s2) = request_customer_for now d r user_id s in
     bindE (of_option (DomainError ''OUTSIDE_SERVICE_AREA'' 422) (get_address s2 (ch_address_id h))) (\<lambda>ad.
     bindE (of_option (DomainError ''OUTSIDE_SERVICE_AREA'' 422) (ad_service_area_id ad)) (\<lambda>area_id.
     bindE (of_option (DomainError ''OUTSIDE_SERVICE_AREA'' 422) (legal_entity_for_area s2 area_id)) (\<lambda>entity.
     let b = requested_booking hash_token now d r h c ad entity in
     bindE (ensure (bk_idempotency_key b \<notin> set (map bk_idempotency_key (bookings s2)))
       (IntegrityError ''bookings_idempotency_key_key'')) (\<lambda>_.
     let s3 = s2\<lparr>addresses := update_row pk (pk ad) (\<lambda>a. a\<lparr>ad_customer_id := Some (pk c)\<rparr>) (addresses s2),
                bookings := bookings s2 @ [b],
                holds := convert_hold (pk h) (pk b) now (holds s2)\<rparr>
     in Inr (\<lparr>brr_public_reference = bk_reference b, brr_status = bk_status b,
              brr_timezone = bk_service_timezone_id b, brr_start_at_utc = bk_window_start b,
              brr_end_at_utc = bk_window_end b, brr_account_created = False,
              brr_access_token = None, brr_refresh_token = None, brr_password_set_required = False\<rparr>,
             add_audit \<lparr>al_actor_id = Some user_id, al_actor_type = ''customer'',
                al_action = ''booking.requested'', al_resource_type = ''booking'',
                al_resource_id = pk b,
                al_metadata_json = [(''status'', JStr ''PENDING_MANUAL_DISPATCH''),
                  (''timezone_id'', JStr (ch_timezone_id h)),
                  (''account_created'', JBool False)],
                al_created_at = now\<rparr> s3))))))"

definition create_request ::
  "settings \<Rightarrow> (string \<Rightarrow> string \<Rightarrow> string \<Rightarrow> string result) \<Rightarrow> (string \<Rightarrow> string)
   \<Rightarrow> datetime \<Rightarrow> request_draws \<Rightarrow> booking_request \<Rightarrow> uuid option
   \<Rightarrow> db \<Rightarrow> (db, booking_request_read) outcome"
where
  "create_request cfg ensure_client hash_token now d r authenticated_user s =
     (case lookup_row pk (brq_hold_id r) (holds s) of
        None \<Rightarrow> (Inl (DomainError ''HOLD_EXPIRED'' 409), s)
      | Some h \<Rightarrow>
          case owner_fingerprint hash_token (brq_booking_session r) of
            Inl e \<Rightarrow> (Inl e, s)
          | Inr fingerprint \<Rightarrow>
              case (if ch_owner_fingerprint_hash h = fingerprint \<and> ch_status h = H_CONVERTED
                    then Option.bind (ch_booking_id h) (get_booking s) else None) of
                Some b \<Rightarrow> (Inr (existing_read b), s)
              | None \<Rightarrow>
                  if ch_owner_fingerprint_hash h \<noteq> fingerprint \<or> ch_status h \<noteq> H_HELD
                     \<or> ch_expires_at h \<le> now
                  then (Inl (DomainError ''HOLD_EXPIRED'' 409), s)
                  else case convert_request cfg ensure_client hash_token now d r
                              authenticated_user h s of
                    Inl e \<Rightarrow> (Inl e, s)
                  | Inr (res, s') \<Rightarrow> (Inr res, s'))"

definition public_status :: "db \<Rightarrow> string \<Rightarrow> (string \<times> booking_status) result" where
  "public_status s reference =
     (case find (\<lambda>b. bk_reference b = reference) (bookings s) of
        None \<Rightarrow> Inl (DomainError ''BOOKING_NOT_FOUND'' 404)
      | Some b \<Rightarrow>
          Inr (bk_reference b,
               if bk_status b \<in> {B_REQUESTED, B_PENDING_REVIEW, B_PENDING_MANUAL_DISPATCH,
                    B_PROVIDER_ASSIGNED, B_CONFIRMED, B_CANCELLED, B_RESCHEDULED}
               then bk_status b else B_PENDING_REVIEW))"

section \<open>The customer's commands\<close>

fun booking_value :: "booking_status \<Rightarrow> string" where
  "booking_value B_DRAFT = ''DRAFT''"
| "booking_value B_REQUESTED = ''REQUESTED''"
| "booking_value B_PENDING_REVIEW = ''PENDING_REVIEW''"
| "booking_value B_ADDRESS_VALIDATED = ''ADDRESS_VALIDATED''"
| "booking_value B_COVERAGE_CONFIRMED = ''COVERAGE_CONFIRMED''"
| "booking_value B_AVAILABILITY_FOUND = ''AVAILABILITY_FOUND''"
| "booking_value B_CAPACITY_HELD = ''CAPACITY_HELD''"
| "booking_value B_AWAITING_ASSIGNMENT = ''AWAITING_ASSIGNMENT''"
| "booking_value B_PROVIDER_ASSIGNED = ''PROVIDER_ASSIGNED''"
| "booking_value B_PENDING_MANUAL_DISPATCH = ''PENDING_MANUAL_DISPATCH''"
| "booking_value B_TENTATIVE_HOLD = ''TENTATIVE_HOLD''"
| "booking_value B_PENDING_PAYMENT = ''PENDING_PAYMENT''"
| "booking_value B_PENDING_PROVIDER_CONFIRMATION = ''PENDING_PROVIDER_CONFIRMATION''"
| "booking_value B_CONFIRMED = ''CONFIRMED''"
| "booking_value B_EN_ROUTE = ''EN_ROUTE''"
| "booking_value B_IN_PROGRESS = ''IN_PROGRESS''"
| "booking_value B_COMPLETED = ''COMPLETED''"
| "booking_value B_NO_COVERAGE = ''NO_COVERAGE''"
| "booking_value B_NO_CAPACITY = ''NO_CAPACITY''"
| "booking_value B_QUOTE_REQUIRED = ''QUOTE_REQUIRED''"
| "booking_value B_PROVIDER_DECLINED = ''PROVIDER_DECLINED''"
| "booking_value B_REASSIGNMENT_REQUIRED = ''REASSIGNMENT_REQUIRED''"
| "booking_value B_RESCHEDULED = ''RESCHEDULED''"
| "booking_value B_CANCELLED = ''CANCELLED''"
| "booking_value B_EXPIRED = ''EXPIRED''"

definition customer_for :: "db \<Rightarrow> uuid \<Rightarrow> customer result" where
  "customer_for s user_id =
     of_option (HTTPException 404 ''Customer profile not found; verify your email to link it'')
       (find (\<lambda>c. cu_user_id c = Some user_id) (customers s))"

definition own_booking :: "db \<Rightarrow> customer \<Rightarrow> uuid \<Rightarrow> booking result" where
  "own_booking s c booking_id =
     of_option (HTTPException 404 ''Booking not found'')
       (find (\<lambda>b. pk b = booking_id \<and> bk_customer_id b = pk c) (bookings s))"

definition job_of_booking :: "db \<Rightarrow> uuid \<Rightarrow> job option" where
  "job_of_booking s booking_id = find (\<lambda>j. jb_booking_id j = booking_id) (jobs s)"

definition CANCELLABLE :: "booking_status list" where
  "CANCELLABLE = [B_REQUESTED, B_PENDING_REVIEW, B_CAPACITY_HELD, B_AWAITING_ASSIGNMENT,
     B_PENDING_MANUAL_DISPATCH, B_PROVIDER_ASSIGNED, B_PENDING_PAYMENT,
     B_PENDING_PROVIDER_CONFIRMATION, B_CONFIRMED]"

text \<open>The job of the booking, if any, is cancelled with it, unless a provider already has it.\<close>

definition cancel_job :: "(nat \<Rightarrow> datetime) \<Rightarrow> booking \<Rightarrow> uuid \<Rightarrow> db \<Rightarrow> db result" where
  "cancel_job clk b user_id s =
     (case job_of_booking s (pk b) of
        None \<Rightarrow> Inr s
      | Some j \<Rightarrow>
          bindE (ensure (jb_status j \<in> {J_CREATED, J_MATCHING, J_OFFERED})
            (HTTPException 409 ''Booking can no longer be cancelled online'')) (\<lambda>_.
          bindE (apply_transition (clk 1) J_CANCELLED (Some user_id) ''customer''
            (Some ''customer_cancelled_booking'') [] j) (\<lambda>(j', ev).
          Inr (put_job j' ev s))))"

definition cancel_booking ::
  "(nat \<Rightarrow> datetime) \<Rightarrow> uuid \<Rightarrow> uuid \<Rightarrow> db \<Rightarrow> (db, booking) outcome"
where
  "cancel_booking clk booking_id user_id s =
     (case bindE (customer_for s user_id) (\<lambda>c. own_booking s c booking_id) of
        Inl e \<Rightarrow> (Inl e, s)
      | Inr b \<Rightarrow>
          if bk_status b = B_CANCELLED then (Inr b, s)
          else if \<not> List.member CANCELLABLE (bk_status b)
          then (Inl (HTTPException 409 ''Booking cannot be cancelled in its current state''), s)
          else
            case cancel_job clk b user_id s of
              Inl e \<Rightarrow> (Inl e, s)
            | Inr s1 \<Rightarrow>
                let f = (\<lambda>x. x\<lparr>bk_status := B_CANCELLED,
                            bk_guest_confirmation_revoked_at := Some (clk 0)\<rparr>)
                in (Inr (f b),
                    add_audit \<lparr>al_actor_id = Some user_id, al_actor_type = ''customer'',
                        al_action = ''booking.cancel'', al_resource_type = ''booking'',
                        al_resource_id = pk b,
                        al_metadata_json = [(''from_status'', JStr (booking_value (bk_status b))),
                          (''refund_automatic'', JBool False)],
                        al_created_at = clk 3\<rparr>
                      ((modify_booking booking_id f s1)
                        \<lparr>holds := release_booking_holds (pk b) None (clk 2) (holds s1)\<rparr>)))"

definition RESCHEDULABLE :: "booking_status list" where
  "RESCHEDULABLE = [B_REQUESTED, B_PENDING_MANUAL_DISPATCH, B_PROVIDER_ASSIGNED, B_CONFIRMED]"

text \<open>The hold a reschedule uses must be live, the customer's own, and for the same service and address.\<close>

definition usable_hold ::
  "(string \<Rightarrow> string) \<Rightarrow> datetime \<Rightarrow> booking \<Rightarrow> string \<Rightarrow> capacity_hold option \<Rightarrow> capacity_hold result"
where
  "usable_hold sha256 now b booking_session hold =
     (case hold of
        None \<Rightarrow> Inl (HTTPException 409 ''A valid hold for this booking is required'')
      | Some h \<Rightarrow>
          bindE (owner_fingerprint sha256 booking_session) (\<lambda>fingerprint.
          bindE (ensure (\<not> (ch_owner_fingerprint_hash h \<noteq> fingerprint \<or> ch_status h \<noteq> H_HELD
               \<or> ch_expires_at h \<le> now \<or> ch_service_id h \<noteq> bk_service_id b
               \<or> ch_address_id h \<noteq> bk_address_id b))
            (HTTPException 409 ''A valid hold for this booking is required'')) (\<lambda>_. Inr h)))"

definition reschedule_check ::
  "(string \<Rightarrow> string) \<Rightarrow> datetime \<Rightarrow> uuid \<Rightarrow> uuid \<Rightarrow> string \<Rightarrow> uuid \<Rightarrow> db
   \<Rightarrow> (booking \<times> capacity_hold) result"
where
  "reschedule_check sha256 now booking_id hold_id booking_session user_id s =
     bindE (customer_for s user_id) (\<lambda>c.
     bindE (own_booking s c booking_id) (\<lambda>b.
     bindE (ensure (List.member RESCHEDULABLE (bk_status b))
       (HTTPException 409 ''Booking cannot be rescheduled in its current state'')) (\<lambda>_.
     bindE (usable_hold sha256 now b booking_session (lookup_row pk hold_id (holds s))) (\<lambda>h.
     Inr (b, h)))))"

definition reschedule_booking ::
  "(string \<Rightarrow> string) \<Rightarrow> datetime \<Rightarrow> uuid \<Rightarrow> uuid \<Rightarrow> string \<Rightarrow> uuid \<Rightarrow> db \<Rightarrow> (db, booking) outcome"
where
  "reschedule_booking sha256 now booking_id hold_id booking_session user_id s =
     (case reschedule_check sha256 now booking_id hold_id booking_session user_id s of
        Inl e \<Rightarrow> (Inl e, s)
      | Inr (b, h) \<Rightarrow>
          let f = (\<lambda>x. x\<lparr>bk_window_start := ch_slot_start_utc h, bk_window_end := ch_slot_end_utc h,
                      bk_service_timezone_id := ch_timezone_id h, bk_provider_worker_id := None,
                      bk_status := B_PENDING_MANUAL_DISPATCH\<rparr>)
          in (Inr (f b),
              add_audit \<lparr>al_actor_id = Some user_id, al_actor_type = ''customer'',
                  al_action = ''booking.rescheduled'', al_resource_type = ''booking'',
                  al_resource_id = pk b,
                  al_metadata_json = [(''previous'', JObj [(''start'', JTime (bk_window_start b)),
                      (''end'', JTime (bk_window_end b))]),
                    (''new_start'', JTime (ch_slot_start_utc h)),
                    (''timezone_id'', JStr (ch_timezone_id h))],
                  al_created_at = now\<rparr>
                ((modify_booking booking_id f s)
                  \<lparr>holds := convert_hold (pk h) (pk b) now
                     (release_booking_holds (pk b) (Some (pk h)) now (holds s))\<rparr>)))"

section \<open>Lemmas\<close>

lemma half_hours_mem:
  "c \<in> set (half_hours a b l) \<longleftrightarrow> (\<exists>k :: nat. c = a + minutes (30 * int k) \<and> c + l \<le> b)"
proof (induction a b l rule: half_hours.induct)
  case (1 a b l)
  have step: "minutes (30 * int (Suc k)) = minutes 30 + minutes (30 * int k)" for k
    by (simp add: minutes_def)
  show ?case
  proof (cases "a + l \<le> b")
    case False
    then have "\<not> a + minutes (30 * int k) + l \<le> b" for k by (auto simp: minutes_def)
    with False show ?thesis by (subst half_hours.simps) auto
  next
    case True
    have "(\<exists>k. c = a + minutes (30 * int k) \<and> c + l \<le> b) \<longleftrightarrow>
        c = a \<or> (\<exists>k. c = a + minutes 30 + minutes (30 * int k) \<and> c + l \<le> b)" (is "?L = ?R")
    proof
      assume ?L
      then obtain k where k: "c = a + minutes (30 * int k)" "c + l \<le> b" by blast
      show ?R
      proof (cases k)
        case 0
        with k show ?thesis by (simp add: minutes_def)
      next
        case (Suc n)
        with k step [of n] show ?thesis by (auto simp: algebra_simps)
      qed
    next
      assume ?R
      then show ?L
      proof
        assume "c = a"
        with True have "c = a + minutes (30 * int 0) \<and> c + l \<le> b" by (simp add: minutes_def)
        then show ?thesis by blast
      next
        assume "\<exists>k. c = a + minutes 30 + minutes (30 * int k) \<and> c + l \<le> b"
        then obtain k where "c = a + minutes 30 + minutes (30 * int k)" "c + l \<le> b" by blast
        with step [of k] have "c = a + minutes (30 * int (Suc k)) \<and> c + l \<le> b" by simp
        then show ?thesis by blast
      qed
    qed
    with True 1 show ?thesis by (subst half_hours.simps) auto
  qed
qed

text \<open>A start is open when its interval converts and has a candidate.\<close>

definition start_open ::
  "(string \<Rightarrow> zone option) \<Rightarrow> (uuid \<Rightarrow> uuid \<Rightarrow> rat option) \<Rightarrow> datetime \<Rightarrow> db \<Rightarrow> service \<Rightarrow> address \<Rightarrow> bool
   \<Rightarrow> datetime \<Rightarrow> bool"
where
  "start_open tzdb st_distance now s sv ad emergency c =
     (case bindE (local_interval tzdb (Naive c) (Naive (c + minutes (consumed_minutes sv)))
             (ad_timezone_name ad) None None) (\<lambda>iv.
           candidates tzdb st_distance now s sv ad (start_utc iv) (end_utc iv) emergency None) of
        Inl _ \<Rightarrow> False
      | Inr cs \<Rightarrow> cs \<noteq> [])"

lemma open_starts_filter:
  "open_starts tzdb st_distance now s sv ad emergency xs = Inr ys \<Longrightarrow>
   ys = filter (start_open tzdb st_distance now s sv ad emergency) xs"
  by (induction xs arbitrary: ys) (auto simp: start_open_def elim!: bindE_InrE)

lemma start_open_suitable:
  assumes "start_open tzdb st_distance now s sv ad emergency c"
  obtains iv x where "local_interval tzdb (Naive c) (Naive (c + minutes (consumed_minutes sv)))
        (ad_timezone_name ad) None None = Inr iv"
    and "suitable tzdb now s sv ad (start_utc iv) (end_utc iv) emergency x"
proof -
  from assms obtain iv cs where iv: "local_interval tzdb (Naive c)
      (Naive (c + minutes (consumed_minutes sv))) (ad_timezone_name ad) None None = Inr iv"
    and cs: "candidates tzdb st_distance now s sv ad (start_utc iv) (end_utc iv) emergency None = Inr cs"
      "cs \<noteq> []"
    by (auto simp: start_open_def elim!: bindE_InrE split: sum.splits)
  then obtain x rest where "cs = x # rest" by (cases cs) auto
  with cs matcher.head_suits have "suitable tzdb now s sv ad (start_utc iv) (end_utc iv) emergency x"
    by blast
  with iv that show thesis by blast
qed

lemma public_search_InrD:
  assumes "public_search geocode st_covers tzdb st_distance now i service_id addr d emergency s = (Inr p, s')"
  shows "\<exists>sv ad starts. active_detail s service_id = Some sv
    \<and> sv_is_bookable sv \<and> \<not> sv_quote_required sv
    \<and> (weekday d = 6 \<longrightarrow> emergency \<and> sv_emergency_eligible sv \<and> sv_sunday_emergency_eligible sv)
    \<and> get_address s' (pav_address_id p) = Some ad
    \<and> pav_slots p = map (\<lambda>c. \<lparr>pst_start_local = hhmm c,
         pst_end_local = hhmm (c + minutes (duration_or_default sv))\<rparr>) starts
    \<and> starts = filter (start_open tzdb st_distance now s' sv ad emergency)
         (half_hours (combine d (hours_of 7)) (combine d (hours_of 19)) (minutes (consumed_minutes sv)))
    \<and> pav_reason p = (if starts = [] then Some ''NO_CAPACITY'' else None)"
proof -
  from assms obtain sv ad a where sv: "active_detail s service_id = Some sv"
      "sv_is_bookable sv" "\<not> sv_quote_required sv"
      "weekday d = 6 \<longrightarrow> emergency \<and> sv_emergency_eligible sv \<and> sv_sunday_emergency_eligible sv"
    and ad: "get_address s' a = Some ad"
    and p: "public_slots tzdb st_distance now s' sv ad d emergency = Inr p"
    unfolding public_search_def by (auto split: option.splits if_splits prod.splits sum.splits)
  from p obtain cs where "open_starts tzdb st_distance now s' sv ad emergency
      (half_hours (combine d (hours_of 7)) (combine d (hours_of 19)) (minutes (consumed_minutes sv))) = Inr cs"
    and "pav_slots p = map (\<lambda>c. \<lparr>pst_start_local = hhmm c,
        pst_end_local = hhmm (c + minutes (duration_or_default sv))\<rparr>) cs"
    and "pav_reason p = (if cs = [] then Some ''NO_CAPACITY'' else None)"
    and addr: "pav_address_id p = pk ad"
    by (auto simp: public_slots_def elim!: bindE_InrE)
  moreover have "get_address s' (pav_address_id p) = Some ad"
    using ad lookup_row_key [OF ad] addr by simp
  ultimately show ?thesis using open_starts_filter sv by blast
qed

lemma request_customer_holds:
  "request_customer_for now d r u s = (c, s2) \<Longrightarrow> holds s2 = holds s \<and> bookings s2 = bookings s"
  by (auto simp: request_customer_for_def Let_def split: option.splits)

lemma convert_request_InrD:
  assumes "convert_request cfg ensure_client hash_token now d r who h s = Inr (res, s')"
  shows "\<exists>b. bookings s' = bookings s @ [b] \<and> holds s' = convert_hold (pk h) (pk b) now (holds s)
    \<and> pk b = rd_booking_id d \<and> bk_window_start b = ch_slot_start_utc h
    \<and> bk_window_end b = ch_slot_end_utc h \<and> bk_service_id b = ch_service_id h
    \<and> bk_status b = B_PENDING_MANUAL_DISPATCH \<and> bk_idempotency_key b = ''hold:'' @ str_uuid (pk h)
    \<and> bk_idempotency_key b \<notin> bk_idempotency_key ` set (bookings s)
    \<and> brr_public_reference res = bk_reference b"
proof -
  from assms obtain u where acc: "request_account_for cfg ensure_client r who s = Inr u"
    by (auto simp: convert_request_def elim!: bindE_InrE)
  obtain c s2 where c: "request_customer_for now d r u s = (c, s2)" by (cases "request_customer_for now d r u s")
  from assms acc c obtain ad entity where new:
    "bk_idempotency_key (requested_booking hash_token now d r h c ad entity)
       \<notin> bk_idempotency_key ` set (bookings s2)"
    "bookings s' = bookings s2 @ [requested_booking hash_token now d r h c ad entity]"
    "holds s' = convert_hold (pk h) (pk (requested_booking hash_token now d r h c ad entity)) now (holds s2)"
    "brr_public_reference res = bk_reference (requested_booking hash_token now d r h c ad entity)"
    by (auto simp: convert_request_def Let_def elim!: bindE_InrE)
  with request_customer_holds [OF c] show ?thesis
    by (auto simp: requested_booking_def)
qed

lemma create_request_cases:
  assumes "create_request cfg ensure_client hash_token now d r who s = (res, s')"
  shows "s' = s \<or> (\<exists>h x. lookup_row pk (brq_hold_id r) (holds s) = Some h \<and> ch_status h = H_HELD
      \<and> now < ch_expires_at h
      \<and> owner_fingerprint hash_token (brq_booking_session r) = Inr (ch_owner_fingerprint_hash h)
      \<and> res = Inr x
      \<and> convert_request cfg ensure_client hash_token now d r who h s = Inr (x, s'))"
  using assms unfolding create_request_def
  by (auto split: option.splits sum.splits if_splits)

text \<open>On the hold table each command is a sequence of the steps of the previous chapter.\<close>

lemma create_request_hold_step:
  assumes "create_request cfg ensure_client hash_token now d r who s = (res, s')"
    and "t \<le> t'"
  shows "hold_step\<^sup>*\<^sup>* (t, holds s) (t', holds s') \<or> holds s' = holds s"
  using create_request_cases [OF assms(1)]
proof (elim disjE exE conjE)
  fix h x
  assume h: "lookup_row pk (brq_hold_id r) (holds s) = Some h" "ch_status h = H_HELD"
    and "convert_request cfg ensure_client hash_token now d r who h s = Inr (x, s')"
  from convert_request_InrD [OF this(3)] obtain b :: booking where
    "holds s' = convert_hold (pk h) (pk b) now (holds s)" by blast
  moreover have "pk h = brq_hold_id r" using h(1) by (rule lookup_row_key)
  ultimately show ?thesis
    using hs_convert [OF h assms(2)] by (simp add: r_into_rtranclp)
qed simp

lemma cancel_job_InrD:
  assumes "cancel_job clk b user_id s = Inr s1"
  shows "holds s1 = holds s \<and> bookings s1 = bookings s \<and> customers s1 = customers s
    \<and> (case job_of_booking s (pk b) of None \<Rightarrow> s1 = s
       | Some j \<Rightarrow> jb_status j \<in> {J_CREATED, J_MATCHING, J_OFFERED}
           \<and> (\<exists>j' e. pk j' = pk j \<and> jb_status j' = J_CANCELLED \<and> je_from_status e = Some (jb_status j)
                \<and> je_to_status e = J_CANCELLED \<and> s1 = put_job j' (Some e) s))"
proof (cases "job_of_booking s (pk b)")
  case None
  with assms show ?thesis by (simp add: cancel_job_def)
next
  case (Some j)
  with assms obtain j' ev where st: "jb_status j \<in> {J_CREATED, J_MATCHING, J_OFFERED}"
    and ap: "apply_transition (clk 1) J_CANCELLED (Some user_id) ''customer''
        (Some ''customer_cancelled_booking'') [] j = Inr (j', ev)"
    and s1: "s1 = put_job j' ev s"
    by (auto simp: cancel_job_def elim!: bindE_InrE)
  from apply_transition_InrD [OF ap] st obtain e where "ev = Some e" "pk j' = pk j"
    "jb_status j' = J_CANCELLED" "je_from_status e = Some (jb_status j)" "je_to_status e = J_CANCELLED"
    by auto
  moreover have "holds s1 = holds s" "bookings s1 = bookings s" "customers s1 = customers s"
    by (simp_all add: s1 put_job_def)
  ultimately show ?thesis using Some st s1 by (simp only: option.case) blast
qed

lemma cancel_cases:
  assumes "cancel_booking clk booking_id user_id s = (res, s')"
  shows "s' = s \<and> (\<forall>x. res = Inr x \<longrightarrow> bk_status x = B_CANCELLED
        \<and> bindE (customer_for s user_id) (\<lambda>c. own_booking s c booking_id) = Inr x)
    \<or> (\<exists>b c s1. res = Inr (b\<lparr>bk_status := B_CANCELLED, bk_guest_confirmation_revoked_at := Some (clk 0)\<rparr>)
        \<and> customer_for s user_id = Inr c \<and> own_booking s c booking_id = Inr b
        \<and> List.member CANCELLABLE (bk_status b) \<and> cancel_job clk b user_id s = Inr s1
        \<and> customers s' = customers s1 \<and> jobs s' = jobs s1 \<and> job_events s' = job_events s1
        \<and> bookings s' = update_row pk booking_id (\<lambda>x. x\<lparr>bk_status := B_CANCELLED,
            bk_guest_confirmation_revoked_at := Some (clk 0)\<rparr>) (bookings s1)
        \<and> holds s' = release_booking_holds (pk b) None (clk 2) (holds s1))"
proof (cases "bindE (customer_for s user_id) (\<lambda>c. own_booking s c booking_id)")
  case (Inl e)
  with assms have "s' = s" "res = Inl e" by (simp_all add: cancel_booking_def)
  then show ?thesis by simp
next
  case (Inr b)
  then obtain c where c: "customer_for s user_id = Inr c" "own_booking s c booking_id = Inr b"
    by (auto elim: bindE_InrE)
  show ?thesis
  proof (cases "cancel_job clk b user_id s")
    case (Inl e)
    with assms c show ?thesis by (auto simp: cancel_booking_def split: if_splits)
  next
    case (Inr s1)
    with assms c show ?thesis by (auto simp: cancel_booking_def Let_def split: if_splits)
  qed
qed

lemma cancel_hold_step:
  assumes "cancel_booking clk booking_id user_id s = (res, s')" and "t \<le> t'"
  shows "hold_step\<^sup>*\<^sup>* (t, holds s) (t', holds s') \<or> holds s' = holds s"
  using cancel_cases [OF assms(1)]
proof (elim disjE exE conjE)
  fix b c s1
  assume "cancel_job clk b user_id s = Inr s1"
    and s': "holds s' = release_booking_holds (pk b) None (clk 2) (holds s1)"
  with cancel_job_InrD [OF this(1)] show ?thesis
    using hs_cancel [OF assms(2), of "holds s" "pk b" None "clk 2"] by (simp add: r_into_rtranclp)
qed simp

lemma reschedule_cases:
  assumes "reschedule_booking sha256 now booking_id hold_id booking_session user_id s = (res, s')"
  shows "s' = s \<and> (\<exists>e. res = Inl e) \<or> (\<exists>b h b'. res = Inr b'
      \<and> List.member RESCHEDULABLE (bk_status b) \<and> b \<in> set (bookings s) \<and> pk b = booking_id
      \<and> lookup_row pk hold_id (holds s) = Some h \<and> ch_status h = H_HELD \<and> now < ch_expires_at h
      \<and> owner_fingerprint sha256 booking_session = Inr (ch_owner_fingerprint_hash h)
      \<and> ch_service_id h = bk_service_id b \<and> ch_address_id h = bk_address_id b
      \<and> bk_window_start b' = ch_slot_start_utc h \<and> bk_window_end b' = ch_slot_end_utc h
      \<and> bk_status b' = B_PENDING_MANUAL_DISPATCH \<and> bk_provider_worker_id b' = None \<and> pk b' = pk b
      \<and> jobs s' = jobs s
      \<and> bookings s' = update_row pk booking_id (\<lambda>x. x\<lparr>bk_window_start := ch_slot_start_utc h,
          bk_window_end := ch_slot_end_utc h, bk_service_timezone_id := ch_timezone_id h,
          bk_provider_worker_id := None, bk_status := B_PENDING_MANUAL_DISPATCH\<rparr>) (bookings s)
      \<and> holds s' = convert_hold (pk h) (pk b) now
          (release_booking_holds (pk b) (Some (pk h)) now (holds s)))"
proof (cases "reschedule_check sha256 now booking_id hold_id booking_session user_id s")
  case (Inl e)
  with assms have "s' = s" "res = Inl e" by (simp_all add: reschedule_booking_def)
  then show ?thesis by blast
next
  case (Inr bh)
  then obtain b h where bh: "bh = (b, h)" and facts: "b \<in> set (bookings s)" "pk b = booking_id"
    "List.member RESCHEDULABLE (bk_status b)" "lookup_row pk hold_id (holds s) = Some h"
    "ch_status h = H_HELD" "now < ch_expires_at h"
    "owner_fingerprint sha256 booking_session = Inr (ch_owner_fingerprint_hash h)"
    "ch_service_id h = bk_service_id b" "ch_address_id h = bk_address_id b"
    by (auto simp: reschedule_check_def own_booking_def usable_hold_def not_le elim!: bindE_InrE
        dest!: find_SomeD split: option.splits)
  with assms Inr show ?thesis by (auto simp: reschedule_booking_def Let_def)
qed

lemma reschedule_hold_step:
  assumes "reschedule_booking sha256 now booking_id hold_id booking_session user_id s = (res, s')"
    and "t \<le> t'" and "hold_inv (t, holds s)"
  shows "hold_step\<^sup>*\<^sup>* (t, holds s) (t', holds s') \<or> holds s' = holds s"
  using reschedule_cases [OF assms(1)]
proof (elim disjE exE conjE)
  fix b h b'
  assume h: "lookup_row pk hold_id (holds s) = Some h" "ch_status h = H_HELD"
    and s': "holds s' = convert_hold (pk h) (pk b) now
        (release_booking_holds (pk b) (Some (pk h)) now (holds s))"
  from hs_convert [OF h assms(2), of "pk b" now] lookup_row_key [OF h(1)] s'
  show ?thesis by (simp add: release_booking_holds_nothing [OF assms(3)] r_into_rtranclp)
qed simp

text \<open>The loop is the search over the half hours.\<close>

lemma open_starts_step:
  "open_starts tzdb st_distance now s sv ad emergency (c # cs) =
     bindE (bindE (local_interval tzdb (Naive c) (Naive (c + minutes (consumed_minutes sv))) (ad_timezone_name ad) None None)
        (\<lambda>iv. candidates tzdb st_distance now s sv ad (start_utc iv) (end_utc iv) emergency None)) (\<lambda>found.
     map_sum id (if found \<noteq> [] then Cons c else id) (open_starts tzdb st_distance now s sv ad emergency cs))"
  by (simp add: bindE_def split: sum.splits)

lemma search_loop_from:
  "\<exists>c. while_option (search_goes_on b sv) (search_turn tzdb st_distance now s sv ad emergency) (cursor, Inr slots)
     = Some (c, map_sum id ((@) slots) (open_starts tzdb st_distance now s sv ad emergency
                  (half_hours cursor b (minutes (consumed_minutes sv)))))"
proof (induction cursor b "minutes (consumed_minutes sv)" arbitrary: slots rule: half_hours.induct)
  case (1 cursor b)
  let ?while = "while_option (search_goes_on b sv) (search_turn tzdb st_distance now s sv ad emergency)"
  let ?rest = "half_hours (cursor + minutes 30) b (minutes (consumed_minutes sv))"
  define found where "found = bindE (local_interval tzdb (Naive cursor) (Naive (cursor + minutes (consumed_minutes sv)))
               (ad_timezone_name ad) None None) (\<lambda>iv.
             candidates tzdb st_distance now s sv ad (start_utc iv) (end_utc iv) emergency None)"
  show ?case
  proof (cases "cursor + minutes (consumed_minutes sv) \<le> b")
    case False
    then show ?thesis
      by (subst half_hours.simps, subst while_option_unfold) (simp add: search_goes_on_def)
  next
    case True
    then have starts: "half_hours cursor b (minutes (consumed_minutes sv)) = cursor # ?rest"
      by (subst half_hours.simps) simp
    have turn: "?while (cursor, Inr slots) = ?while (search_turn tzdb st_distance now s sv ad emergency (cursor, Inr slots))"
      using True by (subst while_option_unfold) (simp add: search_goes_on_def)
    show ?thesis
    proof (cases found)
      case (Inl e)
      have stop: "?while (cursor, Inl e) = Some (cursor, Inl e)"
        by (subst while_option_unfold) (simp add: search_goes_on_def)
      from Inl stop show ?thesis
        by (simp add: turn starts open_starts_step search_turn_def flip: found_def del: open_starts.simps)
    next
      case (Inr cs)
      define slots' where "slots' = (if cs \<noteq> [] then slots @ [cursor] else slots)"
      from 1 [OF True, of slots'] obtain c where
        "?while (cursor + minutes 30, Inr slots') = Some (c, map_sum id ((@) slots')
           (open_starts tzdb st_distance now s sv ad emergency ?rest))"
        by blast
      with Inr show ?thesis
        by (cases "open_starts tzdb st_distance now s sv ad emergency ?rest")
          (simp_all add: turn starts open_starts_step search_turn_def slots'_def flip: found_def del: open_starts.simps)
    qed
  qed
qed

section \<open>Properties\<close>

text \<open>
  C10: The search of the day's starts ends for every service, whatever its duration and buffers, and
  its value is the list of exactly the half-hourly starts with a candidate whose visit ends by seven in
  the evening, or the first error raised.
\<close>

theorem search_terminates:
  "\<exists>cursor. search_loop tzdb st_distance now s sv ad emergency d
     = Some (cursor, open_starts tzdb st_distance now s sv ad emergency
         (half_hours (combine d (hours_of 7)) (combine d (hours_of 19)) (minutes (consumed_minutes sv))))"
proof -
  have "map_sum id ((@) []) r = r" for r :: "datetime list result"
    by (cases r) simp_all
  with search_loop_from [where slots = "[]"] show ?thesis unfolding search_loop_def by metis
qed


text \<open>C27.  Public availability lists exactly the half-hourly starts between 07:00 and 19:00 on the
  requested day at which the whole visit fits before 19:00, its local time is a real one and a
  candidate exists; every listed start has a suitable provider; the reason NO_CAPACITY is given
  exactly when the list is empty; and a Sunday is searched only for an eligible emergency.\<close>

theorem public_search_exact:
  assumes "public_search geocode st_covers tzdb st_distance now i service_id addr d emergency s = (Inr p, s')"
  shows "\<exists>sv ad starts. active_detail s service_id = Some sv
    \<and> (weekday d = 6 \<longrightarrow> emergency \<and> sv_emergency_eligible sv \<and> sv_sunday_emergency_eligible sv)
    \<and> get_address s' (pav_address_id p) = Some ad
    \<and> pav_slots p = map (\<lambda>c. \<lparr>pst_start_local = hhmm c,
         pst_end_local = hhmm (c + minutes (duration_or_default sv))\<rparr>) starts
    \<and> (\<forall>c. c \<in> set starts \<longleftrightarrow> (\<exists>k :: nat. c = combine d (hours_of 7) + minutes (30 * int k)
           \<and> c + minutes (consumed_minutes sv) \<le> combine d (hours_of 19))
         \<and> start_open tzdb st_distance now s' sv ad emergency c)
    \<and> (\<forall>c \<in> set starts. \<exists>iv x. local_interval tzdb (Naive c)
           (Naive (c + minutes (consumed_minutes sv))) (ad_timezone_name ad) None None = Inr iv
         \<and> suitable tzdb now s' sv ad (start_utc iv) (end_utc iv) emergency x)
    \<and> (pav_reason p = Some ''NO_CAPACITY'' \<longleftrightarrow> pav_slots p = [])"
proof -
  from public_search_InrD [OF assms] obtain sv ad starts where
    base: "active_detail s service_id = Some sv" "get_address s' (pav_address_id p) = Some ad"
      "weekday d = 6 \<longrightarrow> emergency \<and> sv_emergency_eligible sv \<and> sv_sunday_emergency_eligible sv"
    and slots: "pav_slots p = map (\<lambda>c. \<lparr>pst_start_local = hhmm c,
        pst_end_local = hhmm (c + minutes (duration_or_default sv))\<rparr>) starts"
    and starts: "starts = filter (start_open tzdb st_distance now s' sv ad emergency)
        (half_hours (combine d (hours_of 7)) (combine d (hours_of 19)) (minutes (consumed_minutes sv)))"
    and reason: "pav_reason p = (if starts = [] then Some ''NO_CAPACITY'' else None)" by blast
  have mem: "c \<in> set starts \<longleftrightarrow> (\<exists>k :: nat. c = combine d (hours_of 7) + minutes (30 * int k)
           \<and> c + minutes (consumed_minutes sv) \<le> combine d (hours_of 19))
         \<and> start_open tzdb st_distance now s' sv ad emergency c" for c
    unfolding starts set_filter half_hours_mem by blast
  moreover have "\<exists>iv x. local_interval tzdb (Naive c) (Naive (c + minutes (consumed_minutes sv)))
        (ad_timezone_name ad) None None = Inr iv
      \<and> suitable tzdb now s' sv ad (start_utc iv) (end_utc iv) emergency x" if "c \<in> set starts" for c
    using that mem [of c] start_open_suitable [of tzdb st_distance now s' sv ad emergency c] by blast
  moreover have "pav_reason p = Some ''NO_CAPACITY'' \<longleftrightarrow> pav_slots p = []" using reason slots by simp
  ultimately show ?thesis using base slots by blast
qed

text \<open>C28.  A booking request converts a live hold of its own session into one booking of exactly
  the held interval, awaiting dispatch, and the hold names that booking from then on.  Asking again
  returns that booking and writes nothing, whoever asks with the session.\<close>

theorem booking_request_once:
  assumes "create_request cfg ensure_client hash_token now d r who s = (Inr x, s')"
    and "rd_booking_id d \<notin> pk ` set (bookings s)"
  shows "s' = s \<or> (\<exists>h b. lookup_row pk (brq_hold_id r) (holds s) = Some h \<and> ch_status h = H_HELD
      \<and> now < ch_expires_at h \<and> bookings s' = bookings s @ [b]
      \<and> bk_window_start b = ch_slot_start_utc h \<and> bk_window_end b = ch_slot_end_utc h
      \<and> bk_status b = B_PENDING_MANUAL_DISPATCH
      \<and> lookup_row pk (brq_hold_id r) (holds s') = Some (h\<lparr>ch_booking_id := Some (pk b),
          ch_status := H_CONVERTED, ch_converted_at := Some now\<rparr>)
      \<and> (\<forall>ensure_client' now' d' who'. create_request cfg ensure_client' hash_token now' d' r
           who' s' = (Inr (existing_read b), s')))"
  using create_request_cases [OF assms(1)]
proof (elim disjE exE conjE)
  fix h x'
  assume h: "lookup_row pk (brq_hold_id r) (holds s) = Some h" "ch_status h = H_HELD" "now < ch_expires_at h"
    and fp: "owner_fingerprint hash_token (brq_booking_session r) = Inr (ch_owner_fingerprint_hash h)"
    and conv: "convert_request cfg ensure_client hash_token now d r who h s = Inr (x', s')"
  from convert_request_InrD [OF conv] obtain b where b: "bookings s' = bookings s @ [b]"
    "holds s' = convert_hold (pk h) (pk b) now (holds s)" "pk b = rd_booking_id d"
    "bk_window_start b = ch_slot_start_utc h" "bk_window_end b = ch_slot_end_utc h"
    "bk_status b = B_PENDING_MANUAL_DISPATCH" by blast
  have hold': "lookup_row pk (brq_hold_id r) (holds s') = Some (h\<lparr>ch_booking_id := Some (pk b),
      ch_status := H_CONVERTED, ch_converted_at := Some now\<rparr>)"
    using h(1) lookup_row_key [OF h(1)] by (simp add: b(2) convert_hold_def lookup_update_row)
  have "get_booking s' (pk b) = Some b"
    using assms(2) b(1,3) by (simp add: lookup_row_append lookup_row_None [THEN iffD2] lookup_row_single)
  with hold' fp have again: "create_request cfg ensure_client' hash_token now' d' r who' s'
      = (Inr (existing_read b), s')" for ensure_client' now' d' who'
    by (simp add: create_request_def)
  from h b(1,4-6) hold' again show ?thesis by blast
qed simp



lemma find_map_same: "(\<And>x. P (f x) = P x) \<Longrightarrow> find P (map f xs) = map_option f (find P xs)"
  by (induction xs) auto

lemma lookup_row_ex: "x \<in> set rows \<Longrightarrow> \<exists>y. lookup_row key (key x) rows = Some y"
  using lookup_row_None [of key "key x" rows] by (cases "lookup_row key (key x) rows") auto

text \<open>A customer's cancellation cancels an own booking together with its job, which no
  provider may have taken yet, recording the job's event; cancelling again returns the booking and
  writes nothing.\<close>

lemma cancel_booking_effect:
  assumes "cancel_booking clk booking_id user_id s = (Inr b', s')"
  shows "bk_status b' = B_CANCELLED
    \<and> cancel_booking clk' booking_id user_id s' = (Inr b', s')
    \<and> (s' = s \<or> (\<forall>j. job_of_booking s booking_id = Some j \<longrightarrow>
          jb_status j \<in> {J_CREATED, J_MATCHING, J_OFFERED}
          \<and> (\<exists>j' e. get_job s' (pk j) = Some j' \<and> jb_status j' = J_CANCELLED
               \<and> job_events s' = job_events s @ [e] \<and> je_to_status e = J_CANCELLED)))"
  using cancel_cases [OF assms]
proof (elim disjE exE conjE)
  assume "s' = s" and st: "\<forall>x. Inr b' = Inr x \<longrightarrow> bk_status x = B_CANCELLED
        \<and> bindE (customer_for s user_id) (\<lambda>c. own_booking s c booking_id) = Inr x"
  then show ?thesis by (simp add: cancel_booking_def)
next
  fix b c s1
  let ?f = "\<lambda>x. x\<lparr>bk_status := B_CANCELLED, bk_guest_confirmation_revoked_at := Some (clk 0)\<rparr>"
  assume b': "Inr b' = Inr (?f b)" and c: "customer_for s user_id = Inr c" "own_booking s c booking_id = Inr b"
    and job: "cancel_job clk b user_id s = Inr s1"
    and s': "customers s' = customers s1" "jobs s' = jobs s1" "job_events s' = job_events s1"
      "bookings s' = update_row pk booking_id ?f (bookings s1)"
  note s1 = cancel_job_InrD [OF job]
  have b: "pk b = booking_id" using c(2) by (auto simp: own_booking_def dest: find_SomeD)
  have "own_booking s' c booking_id = Inr b'"
    using c(2) b b' s1
    by (simp add: own_booking_def s' update_row_def update_where_def find_map_same)
  moreover have "customer_for s' user_id = Inr c" using c(1) s' s1 by (simp add: customer_for_def)
  ultimately have again: "cancel_booking clk' booking_id user_id s' = (Inr b', s')"
    using b' by (simp add: cancel_booking_def)
  have "jb_status j \<in> {J_CREATED, J_MATCHING, J_OFFERED}
      \<and> (\<exists>j' e. get_job s' (pk j) = Some j' \<and> jb_status j' = J_CANCELLED
           \<and> job_events s' = job_events s @ [e] \<and> je_to_status e = J_CANCELLED)"
    if j: "job_of_booking s booking_id = Some j" for j
  proof -
    from s1 j b obtain j' e where st: "jb_status j \<in> {J_CREATED, J_MATCHING, J_OFFERED}"
      and j': "pk j' = pk j" "jb_status j' = J_CANCELLED" "je_to_status e = J_CANCELLED"
      and put: "s1 = put_job j' (Some e) s" by auto
    from j have "j \<in> set (jobs s)" by (auto simp: job_of_booking_def dest: find_SomeD)
    then obtain y where "get_job s (pk j) = Some y" using lookup_row_ex [of j "jobs s" pk] by blast
    from lookup_put [OF this, of j'] j' st show ?thesis by (simp add: s' put put_job_def)
  qed
  with again b' show ?thesis by simp
qed

section \<open>The sample request\<close>

definition public_settings :: settings where "public_settings = payout_settings"

definition sample_user :: user where
  "sample_user = \<lparr>pk = 83, created_at = 0, us_email = ''bo@example.com'', us_phone = None,
     us_password_hash = ''p'', us_full_name = ''Bo Ray'', us_role = UR_customer, us_is_active = True,
     us_status = ''ACTIVE'', us_email_verified = False, us_email_verified_at = None,
     us_phone_verified_at = None, us_last_login_at = None, us_credential_version = 1,
     us_password_set_required = False, us_keycloak_subject = None, us_keycloak_issuer = None,
     us_keycloak_username = None, us_keycloak_linked_at = None\<rparr>"

definition request_db :: db where
  "request_db = area_db\<lparr>holds := [sample_hold], users := [sample_user]\<rparr>"

definition sample_request_for_hold :: booking_request where
  "sample_request_for_hold = \<lparr>brq_hold_id = 70, brq_booking_session = ''session-0123456789'',
     brq_first_name = ''Bo'', brq_last_name = ''Ray'', brq_email = '' Bo@Example.com'',
     brq_phone = ''5550102'', brq_notes = None\<rparr>"

definition sample_request_draws :: request_draws where
  "sample_request_draws = \<lparr>rd_customer_id = 82, rd_booking_id = 81, rd_guest_token = ''g'', rd_reference = ''abc''\<rparr>"

definition requested :: "(db, booking_request_read) outcome" where
  "requested = create_request public_settings (\<lambda>_ _ _. Inl (ProviderFailure [])) (\<lambda>t. t) sample_now
     sample_request_draws sample_request_for_hold (Some 83) request_db"

definition requested_read :: booking_request_read where
  "requested_read = existing_read (hd (bookings (snd requested)))"

lemma requested_eq:
  "create_request public_settings (\<lambda>_ _ _. Inl (ProviderFailure [])) (\<lambda>t. t) sample_now
     sample_request_draws sample_request_for_hold (Some 83) request_db
   = (Inr requested_read, snd requested)"
proof -
  have "fst requested = Inr requested_read" by code_simp
  then show ?thesis by (simp add: requested_def prod_eq_iff)
qed

theorem booking_request_once_witness:
  "\<exists>b. bookings (snd requested) = [b] \<and> bk_window_start b = sample_start"
proof -
  have none: "rd_booking_id sample_request_draws \<notin> pk ` set (bookings request_db)" by code_simp
  have changed: "snd requested \<noteq> request_db" by code_simp
  have start: "bookings request_db = []" "ch_slot_start_utc sample_hold = sample_start"
    "lookup_row pk (brq_hold_id sample_request_for_hold) (holds request_db) = Some sample_hold"
    by code_simp+
  from booking_request_once [OF requested_eq none] changed start show ?thesis by force
qed

definition stranger_request :: booking_request where
  "stranger_request = sample_request_for_hold\<lparr>brq_email := ''new@example.com''\<rparr>"


lemma cancel_booking_effect_witness:
  "\<exists>b s. cancel_booking (\<lambda>_. sample_now) 81 83 (snd requested) = (Inr b, s) \<and> bk_status b = B_CANCELLED
     \<and> cancel_booking (\<lambda>_. 0) 81 83 s = (Inr b, s)"
proof -
  define out where "out = cancel_booking (\<lambda>_. sample_now) 81 83 (snd requested)"
  have "fst out = Inr (hd (bookings (snd out)))" unfolding out_def by code_simp
  then have eq: "cancel_booking (\<lambda>_. sample_now) 81 83 (snd requested)
      = (Inr (hd (bookings (snd out))), snd out)" by (simp add: out_def prod_eq_iff)
  from cancel_booking_effect [OF eq] eq show ?thesis by blast
qed

text \<open>A second hold of the session, two hours later, to which the booking is moved.\<close>

definition second_out :: "(db, capacity_hold) outcome" where
  "second_out = create_hold sample_tzdb no_distance (\<lambda>v. v) (\<lambda>_. sample_now) 71
     (sample_hold_request\<lparr>hr_start_local := Naive (sample_local + hours_of 2),
        hr_idempotency_key := ''key-2''\<rparr>) (snd requested)"

definition moved :: "(db, booking) outcome" where
  "moved = reschedule_booking (\<lambda>v. v) sample_now 81 71 ''session-0123456789'' 83 (snd second_out)"

lemma sample_request_reachable: "hold_reachable (sample_now, holds (snd requested))"
proof -
  have "hold_step\<^sup>*\<^sup>* (sample_now, holds request_db) (sample_now, holds (snd requested))
      \<or> holds (snd requested) = holds request_db"
    by (rule create_request_hold_step [OF requested_eq]) simp
  moreover have "holds request_db = [sample_hold]" by (simp add: request_db_def)
  moreover have "hold_reachable y" if "hold_step\<^sup>*\<^sup>* x y" "hold_reachable x" for x y
    using that by (induction rule: rtranclp_induct) (auto intro: hold_next)
  ultimately show ?thesis using sample_hold_reachable by auto
qed

lemma second_reachable: "hold_reachable (sample_now, holds (snd second_out))"
  unfolding second_out_def
  by (rule hold_next [OF sample_request_reachable hs_create [OF prod.collapse [symmetric]]]) simp_all


text \<open>A service of eleven and a half hours on the sample day, by a worker who works that long.\<close>

definition long_db :: db where
  "long_db = area_db\<lparr>services := [sample_service\<lparr>sv_duration_minutes := Some 690\<rparr>],
     workers := [sample_worker\<lparr>wk_maximum_minutes_per_day := 720\<rparr>],
     availability_rules := [sample_rule\<lparr>par_start_local_time := hours_of 7,
       par_end_local_time := hours_of 19\<rparr>]\<rparr>"

definition sample_geocode :: "string \<Rightarrow> geocoded_address result" where
  "sample_geocode line = Inr \<lparr>ga_formatted_address = line, ga_line1 = ''1 State St'',
     ga_city = ''Albany'', ga_postal_code = ''12207'', ga_country_code = ''US'', ga_latitude = 42,
     ga_longitude = -73, ga_provider = ''geoapify'', ga_state_code = Some ''NY'',
     ga_timezone_name = Some ''America/New_York'', ga_postal_code_plus4 = None\<rparr>"

definition searched :: "(db, public_availability) outcome" where
  "searched = public_search sample_geocode (\<lambda>_ _. True) sample_tzdb no_distance sample_now 21 (Inl 10)
     \<lparr>pa_line1 = ''1 State St'', pa_line2 = None, pa_city = ''Albany'', pa_state = ''NY'',
      pa_postal_code = ''12207''\<rparr> (date_of sample_local) False long_db"

definition searched_slots :: "public_slot list" where
  "searched_slots = [\<lparr>pst_start_local = ''07:00'', pst_end_local = ''18:30''\<rparr>,
     \<lparr>pst_start_local = ''07:30'', pst_end_local = ''19:00''\<rparr>]"

theorem public_search_exact_witness:
  "\<exists>p s. searched = (Inr p, s) \<and> pav_slots p = searched_slots \<and> pav_reason p \<noteq> Some ''NO_CAPACITY''"
proof -
  define p where "p = \<lparr>pav_timezone = ''America/New_York'', pav_date = date_of sample_local,
      pav_address_id = 21, pav_slots = searched_slots, pav_reason = None\<rparr>"
  have "fst searched = Inr p" unfolding p_def by code_simp
  then have eq: "searched = (Inr p, snd searched)" by (simp add: prod_eq_iff)
  have "pav_slots p \<noteq> []" by (simp add: p_def searched_slots_def)
  with public_search_exact [OF eq [unfolded searched_def]] have "pav_reason p \<noteq> Some ''NO_CAPACITY''"
    by blast
  with eq show ?thesis by (auto simp: p_def)
qed

end
