(* ===== verification/Scheduling.thy ===== *)
theory Scheduling
  imports Public_Booking
begin

text \<open>
  \<^verbatim>\<open>booking/scheduling.py\<close>: an operator confirms a booking for a worker.  \<open>clk\<close> gives the readings of
  the clock, \<open>new_id\<close> the ids drawn for the job, the assignment and the event.
\<close>

section \<open>Definitions\<close>

definition locked_booking :: "db \<Rightarrow> uuid \<Rightarrow> booking result" where
  "locked_booking s booking_id = of_option (DomainError ''BOOKING_NOT_FOUND'' 404) (get_booking s booking_id)"

text \<open>
  The overlap count.  SQL compares \<^verbatim>\<open>Job.id\<close> with the id of the booking's own job, a scalar
  subquery: when the booking has no job the subquery is NULL, the comparison is unknown for every
  row, and no row is counted.
\<close>

definition overlapping_jobs :: "db \<Rightarrow> booking \<Rightarrow> uuid \<Rightarrow> nat" where
  "overlapping_jobs s b worker_id =
     count_where (\<lambda>j. jb_worker_id j = Some worker_id
         \<and> (case job_of_booking s (pk b) of None \<Rightarrow> False | Some own \<Rightarrow> pk j \<noteq> pk own)
         \<and> jb_scheduled_start j < bk_window_end b \<and> jb_scheduled_end j > bk_window_start b
         \<and> jb_status j \<notin> {J_CANCELLED, J_COMPLETED}) (jobs s)"

definition covers :: "db \<Rightarrow> worker \<Rightarrow> uuid \<Rightarrow> string \<Rightarrow> bool" where
  "covers s w service_id postal_code =
     list_ex (\<lambda>c. psc_worker_id c = pk w \<and> psc_service_id c = service_id
         \<and> psc_postal_code c = take 5 postal_code \<and> psc_active c) (coverages s)"

definition hours_on :: "db \<Rightarrow> worker \<Rightarrow> int \<Rightarrow> provider_working_hours option" where
  "hours_on s w wd = find (\<lambda>h. pwh_worker_id h = pk w \<and> pwh_weekday h = wd) (working_hours s)"

definition valid_credential_types :: "db \<Rightarrow> uuid \<Rightarrow> string \<Rightarrow> date \<Rightarrow> credential_type list" where
  "valid_credential_types s vendor_id state_code d =
     map pc_credential_type (filter (\<lambda>c. pc_vendor_id c = vendor_id
         \<and> pc_jurisdiction c \<in> {state_code, ''US''} \<and> pc_verified c \<and> pc_verified_at c \<noteq> None
         \<and> pc_expires_on c \<ge> d) (credentials s))"

definition qualified_worker ::
  "(string \<Rightarrow> zone option) \<Rightarrow> datetime \<Rightarrow> db \<Rightarrow> booking \<Rightarrow> uuid \<Rightarrow> (worker \<times> vendor) result"
where
  "qualified_worker tzdb now s b worker_id =
     bindE (ensure (\<not> (bk_expires_at b \<le> now \<and> bk_status b \<noteq> B_CONFIRMED))
       (DomainError ''HOLD_EXPIRED'' 409)) (\<lambda>_.
     bindE (of_option (DomainError ''ADDRESS_NOT_VALIDATED'' 422) (get_address s (bk_address_id b))) (\<lambda>ad.
     bindE (ensure (given (ad_state_code ad) \<and> ad_timezone_name ad \<noteq> [])
       (DomainError ''ADDRESS_NOT_VALIDATED'' 422)) (\<lambda>_.
     bindE (of_option (DomainError ''ADDRESS_TIMEZONE_INVALID'' 422) (tzdb (ad_timezone_name ad))) (\<lambda>z.
     let local_start = fst (from_utc z (bk_window_start b));
         local_end = fst (from_utc z (bk_window_end b)) in
     bindE (of_option (DomainError ''PROVIDER_UNAVAILABLE'' 409) (get_worker s worker_id)) (\<lambda>w.
     bindE (of_option (DomainError ''PROVIDER_UNAVAILABLE'' 409) (get_vendor s (wk_vendor_id w))) (\<lambda>v.
     bindE (ensure (wk_status w = WK_ACTIVE \<and> wk_available w)
       (DomainError ''PROVIDER_UNAVAILABLE'' 409)) (\<lambda>_.
     bindE (ensure (vn_status v = V_ACTIVE) (DomainError ''PROVIDER_NOT_APPROVED'' 409)) (\<lambda>_.
     bindE (of_option (DomainError ''PROVIDER_OUT_OF_COVERAGE'' 409)
       (if covers s w (bk_service_id b) (ad_postal_code ad)
        then hours_on s w (weekday (date_of local_start)) else None)) (\<lambda>h.
     bindE (ensure (\<not> (time_of local_start < pwh_start_time h \<or> time_of local_end > pwh_end_time h))
       (DomainError ''PROVIDER_OUT_OF_COVERAGE'' 409)) (\<lambda>_.
     bindE (ensure (let ts = valid_credential_types s (pk v) (the (ad_state_code ad)) (date_of local_start)
                    in List.member ts LICENSE \<and> List.member ts INSURANCE)
       (DomainError ''PROVIDER_CREDENTIALS_INVALID'' 409)) (\<lambda>_.
     bindE (ensure (\<not> int (overlapping_jobs s b (pk w)) \<ge> pwh_capacity h)
       (DomainError ''PROVIDER_CAPACITY_UNAVAILABLE'' 409)) (\<lambda>_.
     Inr (w, v)))))))))))))"

definition assigned_job :: "datetime \<Rightarrow> uuid \<Rightarrow> booking \<Rightarrow> uuid \<Rightarrow> uuid \<Rightarrow> job" where
  "assigned_job now i b vendor_id worker_id =
     \<lparr>pk = i, created_at = now, jb_booking_id = pk b, jb_customer_id = Some (bk_customer_id b),
      jb_service_id = bk_service_id b, jb_address_id = bk_address_id b, jb_status = J_ASSIGNED,
      jb_scheduled_start = bk_window_start b, jb_scheduled_end = bk_window_end b,
      jb_vendor_id = Some vendor_id, jb_worker_id = Some worker_id, jb_version = 1,
      jb_diagnostic_notes = None, jb_completion_notes = None, jb_completed_at = None\<rparr>"

definition new_assignment ::
  "datetime \<Rightarrow> uuid \<Rightarrow> uuid \<Rightarrow> uuid option \<Rightarrow> uuid \<Rightarrow> uuid \<Rightarrow> uuid option \<Rightarrow> assignment"
where
  "new_assignment now i job_id offer_id vendor_id worker_id actor_id =
     \<lparr>as_id = i, as_job_id = job_id, as_offer_id = offer_id, as_vendor_id = vendor_id,
      as_worker_id = worker_id, as_status = AS_ACTIVE, as_assigned_by = actor_id,
      as_assigned_at = now, as_released_at = None\<rparr>"

text \<open>The partial unique index \<^verbatim>\<open>uq_active_assignment_job\<close>: one active assignment per job.\<close>

definition active_assignment :: "db \<Rightarrow> uuid \<Rightarrow> assignment option" where
  "active_assignment s job_id =
     find (\<lambda>a. as_job_id a = job_id \<and> as_status a = AS_ACTIVE) (assignments s)"

definition confirm_key :: "uuid \<Rightarrow> string" where
  "confirm_key booking_id = ''booking.confirmed:'' @ str_uuid booking_id"

definition confirm_audit :: "datetime \<Rightarrow> booking \<Rightarrow> uuid \<Rightarrow> string \<Rightarrow> string \<Rightarrow> uuid option \<Rightarrow> audit_log" where
  "confirm_audit now b actor_id action reason worker_id =
     \<lparr>al_actor_id = Some actor_id, al_actor_type = ''user'', al_action = action,
      al_resource_type = ''booking'', al_resource_id = pk b,
      al_metadata_json = [(''reason'', JStr reason), (''worker_id'', json_uuid worker_id)],
      al_created_at = now\<rparr>"

text \<open>The booking's job: the existing one, which must be the worker's, or a new one with its assignment.\<close>

definition job_for_confirmation ::
  "(nat \<Rightarrow> datetime) \<Rightarrow> (nat \<Rightarrow> uuid) \<Rightarrow> booking \<Rightarrow> worker \<Rightarrow> vendor \<Rightarrow> uuid \<Rightarrow> db \<Rightarrow> (job \<times> db) result"
where
  "job_for_confirmation clk new_id b w v actor_id s =
     (case job_of_booking s (pk b) of
        Some existing \<Rightarrow>
          if jb_worker_id existing \<noteq> Some (pk w)
          then Inl (DomainError ''BOOKING_ASSIGNMENT_MISMATCH'' 409)
          else Inr (existing, s)
      | None \<Rightarrow>
          let j = assigned_job (clk 0) (new_id 0) b (pk v) (pk w)
          in Inr (j, s\<lparr>jobs := jobs s @ [j], assignments := assignments s @
               [new_assignment (clk 0) (new_id 1) (pk j) None (pk v) (pk w) (Some actor_id)]\<rparr>))"

definition CONFIRMABLE :: "booking_status list" where
  "CONFIRMABLE = [B_REQUESTED, B_PENDING_MANUAL_DISPATCH, B_TENTATIVE_HOLD, B_PROVIDER_ASSIGNED]"

text \<open>
  \<^verbatim>\<open>confirm\<close>, its checks first.  The outbox's unique idempotency key is checked when the event is flushed at commit; a
  duplicate is an \<^verbatim>\<open>IntegrityError\<close> that nothing here handles.
\<close>

definition confirm_check ::
  "(string \<Rightarrow> zone option) \<Rightarrow> (nat \<Rightarrow> datetime) \<Rightarrow> (nat \<Rightarrow> uuid) \<Rightarrow> uuid \<Rightarrow> uuid \<Rightarrow> uuid
   \<Rightarrow> db \<Rightarrow> (booking \<times> worker \<times> job \<times> db) result"
where
  "confirm_check tzdb clk new_id booking_id worker_id actor_id s =
     bindE (locked_booking s booking_id) (\<lambda>b.
     bindE (ensure (List.member CONFIRMABLE (bk_status b))
       (DomainError ''BOOKING_NOT_CONFIRMABLE'' 409)) (\<lambda>_.
     bindE (qualified_worker tzdb (clk 0) s b worker_id) (\<lambda>(w, v).
     bindE (job_for_confirmation clk new_id b w v actor_id s) (\<lambda>(j, s1).
     bindE (ensure (\<not> list_ex (\<lambda>e. ev_idempotency_key e = Some (confirm_key (pk b))) (events s))
       (IntegrityError ''integration_events_idempotency_key'')) (\<lambda>_.
     Inr (b, w, j, s1))))))"

definition confirm ::
  "(string \<Rightarrow> zone option) \<Rightarrow> (nat \<Rightarrow> datetime) \<Rightarrow> (nat \<Rightarrow> uuid) \<Rightarrow> uuid \<Rightarrow> uuid \<Rightarrow> uuid \<Rightarrow> string
   \<Rightarrow> db \<Rightarrow> (db, job) outcome"
where
  "confirm tzdb clk new_id booking_id worker_id actor_id reason s =
     (case confirm_check tzdb clk new_id booking_id worker_id actor_id s of
        Inl e \<Rightarrow> (Inl e, s)
      | Inr (b, w, j, s1) \<Rightarrow>
          (Inr j,
           add_event (new_event (new_id 2) ''booking'' (pk b) ''booking.confirmed''
               (Some (confirm_key (pk b)))
               [(''booking_id'', JUuid (pk b)), (''job_id'', JUuid (pk j)),
                (''payment_required'', JBool False)] (clk 2))
             (add_audit (confirm_audit (clk 1) b actor_id ''booking.operator_confirm'' reason
                 (Some (pk w)))
               (modify_booking booking_id
                 (\<lambda>x. x\<lparr>bk_provider_worker_id := Some (pk w), bk_status := B_CONFIRMED\<rparr>) s1))))"

section \<open>Lemmas\<close>

text \<open>What it takes for a worker to be sent to a booking.\<close>

definition fit_for ::
  "(string \<Rightarrow> zone option) \<Rightarrow> db \<Rightarrow> booking \<Rightarrow> worker \<Rightarrow> vendor \<Rightarrow> bool"
where
  "fit_for tzdb s b w v = (get_vendor s (wk_vendor_id w) = Some v
    \<and> wk_status w = WK_ACTIVE \<and> wk_available w \<and> vn_status v = V_ACTIVE
    \<and> (\<exists>ad z h. get_address s (bk_address_id b) = Some ad \<and> tzdb (ad_timezone_name ad) = Some z
        \<and> covers s w (bk_service_id b) (ad_postal_code ad)
        \<and> hours_on s w (weekday (date_of (fst (from_utc z (bk_window_start b))))) = Some h
        \<and> pwh_start_time h \<le> time_of (fst (from_utc z (bk_window_start b)))
        \<and> time_of (fst (from_utc z (bk_window_end b))) \<le> pwh_end_time h
        \<and> {LICENSE, INSURANCE} \<subseteq> set (valid_credential_types s (pk v) (the (ad_state_code ad))
            (date_of (fst (from_utc z (bk_window_start b)))))
        \<and> int (overlapping_jobs s b (pk w)) < pwh_capacity h))"

lemma qualified_worker_InrD:
  assumes "qualified_worker tzdb now s b worker_id = Inr (w, v)"
  shows "get_worker s worker_id = Some w \<and> fit_for tzdb s b w v
    \<and> (bk_expires_at b \<le> now \<longrightarrow> bk_status b = B_CONFIRMED)"
  using assms unfolding qualified_worker_def fit_for_def Let_def
  by (auto simp: not_less not_le elim!: bindE_InrE split: if_splits)

lemma job_for_confirmation_InrD:
  assumes "job_for_confirmation clk new_id b w v actor_id s = Inr (j, s1)"
  shows "jb_worker_id j = Some (pk w) \<and> bookings s1 = bookings s \<and> events s1 = events s
    \<and> (job_of_booking s (pk b) = Some j \<and> s1 = s \<or> job_of_booking s (pk b) = None
        \<and> j = assigned_job (clk 0) (new_id 0) b (pk v) (pk w) \<and> jobs s1 = jobs s @ [j])"
  using assms unfolding job_for_confirmation_def
  by (auto simp: Let_def assigned_job_def split: option.splits if_splits)

lemma confirm_check_InrD:
  assumes "confirm_check tzdb clk new_id booking_id worker_id actor_id s = Inr (b, w, j, s1)"
  shows "get_booking s booking_id = Some b \<and> pk b = booking_id \<and> List.member CONFIRMABLE (bk_status b)
    \<and> (\<exists>v. qualified_worker tzdb (clk 0) s b worker_id = Inr (w, v)
          \<and> job_for_confirmation clk new_id b w v actor_id s = Inr (j, s1))
    \<and> Some (confirm_key booking_id) \<notin> ev_idempotency_key ` set (events s)"
proof -
  have b: "get_booking s booking_id = Some b" and
    rest: "List.member CONFIRMABLE (bk_status b)"
      "\<exists>v. qualified_worker tzdb (clk 0) s b worker_id = Inr (w, v)
          \<and> job_for_confirmation clk new_id b w v actor_id s = Inr (j, s1)"
      "Some (confirm_key (pk b)) \<notin> ev_idempotency_key ` set (events s)"
    using assms unfolding confirm_check_def locked_booking_def
    by (auto simp: list_ex_key elim!: bindE_InrE split: prod.splits)
  with lookup_row_key [OF b] show ?thesis by simp
qed

lemma confirm_cases:
  assumes "confirm tzdb clk new_id booking_id worker_id actor_id reason s = (res, s')"
  obtains (refused) e where "confirm_check tzdb clk new_id booking_id worker_id actor_id s = Inl e"
      "res = Inl e" "s' = s"
  | (confirmed) b w j s1 ev
    where "confirm_check tzdb clk new_id booking_id worker_id actor_id s = Inr (b, w, j, s1)"
      "res = Inr j" "jobs s' = jobs s1" "events s' = events s1 @ [ev]"
      "ev_idempotency_key ev = Some (confirm_key (pk b))"
      "bookings s' = update_row pk booking_id
         (\<lambda>x. x\<lparr>bk_provider_worker_id := Some (pk w), bk_status := B_CONFIRMED\<rparr>) (bookings s1)"
proof (cases "confirm_check tzdb clk new_id booking_id worker_id actor_id s")
  case (Inl e)
  with assms show thesis by (intro refused) (auto simp: confirm_def)
next
  case (Inr r)
  obtain b w j s1 where "r = (b, w, j, s1)" by (cases r)
  with Inr assms show thesis
    by (intro confirmed [of b w j s1]) (auto simp: confirm_def new_event_def)
qed

lemma overlapping_jobs_no_job:
  "job_of_booking s (pk b) = None \<Longrightarrow> overlapping_jobs s b worker_id = 0"
  by (simp add: overlapping_jobs_def count_where_def)

lemma job_of_booking_SomeD:
  assumes "job_of_booking s booking_id = Some j"
  shows "j \<in> set (jobs s) \<and> jb_booking_id j = booking_id"
  using find_SomeD [OF assms [unfolded job_of_booking_def]] by simp

section \<open>Properties\<close>

text \<open>C31.  An operator's confirmation either changes nothing or confirms the booking for the chosen
  worker: the booking was waiting for it and had not expired; the worker is active and available, its
  vendor is active, and coverage, working hours, licence and insurance support the visit; the worker
  has the booking's job, which is new and has the booking's window unless it existed before; and one
  \<^verbatim>\<open>booking.confirmed\<close> event is queued.\<close>
theorem confirm_sound:
  assumes "confirm tzdb clk new_id booking_id worker_id actor_id reason s = (res, s')"
  shows "(\<forall>e. res = Inl e \<longrightarrow> s' = s) \<and> (\<forall>j. res = Inr j \<longrightarrow> (\<exists>b w v ev.
      get_booking s booking_id = Some b \<and> List.member CONFIRMABLE (bk_status b) \<and> clk 0 < bk_expires_at b
    \<and> get_booking s' booking_id
        = Some (b\<lparr>bk_provider_worker_id := Some worker_id, bk_status := B_CONFIRMED\<rparr>)
    \<and> get_worker s worker_id = Some w \<and> fit_for tzdb s b w v
    \<and> j \<in> set (jobs s') \<and> jb_booking_id j = booking_id \<and> jb_worker_id j = Some worker_id
    \<and> (job_of_booking s booking_id = Some j \<and> jobs s' = jobs s
       \<or> job_of_booking s booking_id = None \<and> jobs s' = jobs s @ [j]
         \<and> jb_scheduled_start j = bk_window_start b \<and> jb_scheduled_end j = bk_window_end b)
    \<and> events s' = events s @ [ev] \<and> ev_idempotency_key ev = Some (confirm_key booking_id)))"
    (is "?refused \<and> (\<forall>j. res = Inr j \<longrightarrow> (\<exists>b w v ev. ?confirmed j b w v ev))")
  using assms
proof (cases rule: confirm_cases)
  case refused
  then show ?thesis by simp
next
  case (confirmed b w j s1 ev)
  from confirm_check_InrD [OF confirmed(1)] obtain v where
    b: "get_booking s booking_id = Some b" "pk b = booking_id" "List.member CONFIRMABLE (bk_status b)"
    and q: "qualified_worker tzdb (clk 0) s b worker_id = Inr (w, v)"
    and jc: "job_for_confirmation clk new_id b w v actor_id s = Inr (j, s1)" by blast
  note Q = qualified_worker_InrD [OF q] and J = job_for_confirmation_InrD [OF jc]
  from Q have w: "get_worker s worker_id = Some w" by blast
  note pw = lookup_row_key [OF w]
  have live: "clk 0 < bk_expires_at b" using Q b(3) by (auto simp: CONFIRMABLE_def)
  have row: "get_booking s' booking_id
      = Some (b\<lparr>bk_provider_worker_id := Some worker_id, bk_status := B_CONFIRMED\<rparr>)"
    using confirmed(6) J b(1) pw by (simp add: lookup_update_row)
  have job: "j \<in> set (jobs s') \<and> jb_booking_id j = booking_id
      \<and> (job_of_booking s booking_id = Some j \<and> jobs s' = jobs s
         \<or> job_of_booking s booking_id = None \<and> jobs s' = jobs s @ [j]
           \<and> jb_scheduled_start j = bk_window_start b \<and> jb_scheduled_end j = bk_window_end b)"
    using J b(2) confirmed(3) job_of_booking_SomeD [of s booking_id j] by (auto simp: assigned_job_def)
  have ev: "events s' = events s @ [ev]" "ev_idempotency_key ev = Some (confirm_key booking_id)"
    using confirmed(4,5) J b(2) by simp_all
  have jw: "jb_worker_id j = Some worker_id" using J pw by simp
  show ?thesis
  proof (intro conjI allI impI)
    fix k assume "res = Inr k"
    with confirmed(2) have "k = j" by simp
    with Q w b live row jw job ev show "\<exists>b w v ev. ?confirmed k b w v ev" by blast
  qed (use confirmed(2) in simp)
qed

text \<open>The overlap check does not see a booking that has no job yet: as long as every working-hours
  row has a positive capacity, confirming such a booking never fails for lack of the worker's
  capacity, whatever jobs the worker already has at that time.\<close>
lemma confirm_overlap_blind:
  assumes "job_of_booking s booking_id = None"
    and "\<And>h. h \<in> set (working_hours s) \<Longrightarrow> pwh_capacity h > 0"
  shows "fst (confirm tzdb clk new_id booking_id worker_id actor_id reason s)
    \<noteq> Inl (DomainError ''PROVIDER_CAPACITY_UNAVAILABLE'' 409)"
proof -
  have none: "overlapping_jobs s b i = 0" if "get_booking s booking_id = Some b" for b i
    using overlapping_jobs_no_job [of s b i] lookup_row_key [OF that] assms(1) by simp
  have cap: "\<not> pwh_capacity h \<le> 0" if "hours_on s w d = Some h" for w d h
    using assms(2) find_SomeD [OF that [unfolded hours_on_def]] by force
  have "confirm_check tzdb clk new_id booking_id worker_id actor_id s
      \<noteq> Inl (DomainError ''PROVIDER_CAPACITY_UNAVAILABLE'' 409)"
    unfolding confirm_check_def locked_booking_def qualified_worker_def Let_def
      job_for_confirmation_def bindE_def ensure_def of_option_def
    by (auto simp: none split: option.splits if_splits sum.splits prod.splits dest!: cap)
  then show ?thesis unfolding confirm_def by (auto split: sum.splits prod.splits)
qed

text \<open>A booking is confirmed at most once: in every later state, whatever happened to the booking
  in between (a reschedule that sends it back to manual dispatch included), confirming it again fails
  and changes nothing.\<close>
lemma confirm_never_again:
  assumes "confirm tzdb clk new_id booking_id worker_id actor_id reason s = (Inr j, s')"
    and "set (events s') \<subseteq> set (events t)"
  shows "\<exists>e. confirm tzdb' clk' new_id' booking_id worker_id' actor_id' reason' t = (Inl e, t)"
proof -
  from assms(1) have "Some (confirm_key booking_id) \<in> ev_idempotency_key ` set (events s')"
  proof (cases rule: confirm_cases)
    case (confirmed b w j s1 ev)
    with confirm_check_InrD [OF confirmed(1)] show ?thesis by (simp add: image_iff)
  qed simp
  with assms(2) have dup: "Some (confirm_key booking_id) \<in> ev_idempotency_key ` set (events t)" by blast
  obtain res t' where run: "confirm tzdb' clk' new_id' booking_id worker_id' actor_id' reason' t = (res, t')"
    by fastforce
  then show ?thesis
  proof (cases rule: confirm_cases)
    case (confirmed b w j s1 ev)
    with confirm_check_InrD [OF confirmed(1)] dup show ?thesis by blast
  qed (use run in blast)
qed

section \<open>The sample confirmation\<close>

text \<open>A booking for a worker who takes one visit at a time and has a job in that very hour.\<close>

definition busy_job :: job where
  "busy_job = sample_job\<lparr>jb_booking_id := 91, jb_status := J_ASSIGNED\<rparr>"

definition busy_db :: db where
  "busy_db = area_db\<lparr>bookings := [sample_booking], jobs := [busy_job]\<rparr>"

lemma busy_confirmed:
  obtains j s' where "confirm sample_tzdb (\<lambda>_. sample_now) (\<lambda>i. 300 + i) 81 40 7 ''ok'' busy_db = (Inr j, s')"
proof -
  have "get_booking busy_db 81 = Some sample_booking" "job_of_booking busy_db 81 = None"
    "events busy_db = []" "List.member CONFIRMABLE (bk_status sample_booking)" "pk sample_booking = 81"
    by code_simp+
  moreover have "qualified_worker sample_tzdb sample_now busy_db sample_booking 40
      = Inr (sample_worker, sample_vendor)" by code_simp
  ultimately show thesis
    by (intro that) (simp add: confirm_def confirm_check_def locked_booking_def of_option_def
        job_for_confirmation_def ensure_def Let_def)
qed

theorem confirm_sound_witness:
  "\<exists>b. get_booking (snd (confirm sample_tzdb (\<lambda>_. sample_now) (\<lambda>i. 300 + i) 81 40 7 ''ok'' busy_db)) 81
     = Some b \<and> bk_status b = B_CONFIRMED"
proof -
  obtain j s' where eq: "confirm sample_tzdb (\<lambda>_. sample_now) (\<lambda>i. 300 + i) 81 40 7 ''ok'' busy_db = (Inr j, s')"
    by (rule busy_confirmed)
  from confirm_sound [OF eq, THEN conjunct2, rule_format, OF refl]
  obtain b where "get_booking s' 81 = Some (b\<lparr>bk_provider_worker_id := Some 40, bk_status := B_CONFIRMED\<rparr>)"
    by blast
  with eq show ?thesis by simp
qed

theorem confirm_overlap_blind_witness:
  "fst (confirm sample_tzdb (\<lambda>_. sample_now) (\<lambda>i. 300 + i) 81 40 7 ''ok'' busy_db)
     \<noteq> Inl (DomainError ''PROVIDER_CAPACITY_UNAVAILABLE'' 409)
   \<and> (jb_worker_id busy_job, jb_scheduled_start busy_job) = (Some 40, bk_window_start sample_booking)
   \<and> map pwh_capacity (working_hours busy_db) = [1]"
proof -
  have none: "job_of_booking busy_db 81 = None" by code_simp
  have pos: "pwh_capacity h > 0" if "h \<in> set (working_hours busy_db)" for h
    using that by (simp add: busy_db_def area_db_def sample_hours_def)
  have rest: "(jb_worker_id busy_job, jb_scheduled_start busy_job) = (Some 40, bk_window_start sample_booking)"
    "map pwh_capacity (working_hours busy_db) = [1]" by code_simp+
  from confirm_overlap_blind [of busy_db 81, OF none pos] rest show ?thesis by blast
qed

text \<open>The confirmed booking is sent back to manual dispatch, as a reschedule does, and confirmed again.\<close>

theorem confirm_never_again_witness:
  "\<exists>j s'. confirm sample_tzdb (\<lambda>_. sample_now) (\<lambda>i. 300 + i) 81 40 7 ''ok'' busy_db = (Inr j, s')
     \<and> (\<exists>e. fst (confirm sample_tzdb (\<lambda>_. sample_now) (\<lambda>i. 500 + i) 81 40 7 ''again''
          (modify_booking 81 (\<lambda>b. b\<lparr>bk_status := B_PENDING_MANUAL_DISPATCH\<rparr>) s')) = Inl e)"
proof -
  obtain j s' where eq: "confirm sample_tzdb (\<lambda>_. sample_now) (\<lambda>i. 300 + i) 81 40 7 ''ok'' busy_db = (Inr j, s')"
    by (rule busy_confirmed)
  have "\<exists>e. confirm sample_tzdb (\<lambda>_. sample_now) (\<lambda>i. 500 + i) 81 40 7 ''again''
          (modify_booking 81 (\<lambda>b. b\<lparr>bk_status := B_PENDING_MANUAL_DISPATCH\<rparr>) s')
      = (Inl e, modify_booking 81 (\<lambda>b. b\<lparr>bk_status := B_PENDING_MANUAL_DISPATCH\<rparr>) s')"
    by (rule confirm_never_again [OF eq]) simp
  with eq show ?thesis by force
qed

end
