(* ===== verification/Dispatch.thy ===== *)
theory Dispatch
  imports Scheduling
begin

text \<open>
  \<^verbatim>\<open>dispatch/repository.py\<close>, \<^verbatim>\<open>dispatch/service.py\<close> and \<^verbatim>\<open>dispatch/admin_service.py\<close>: offers to
  vendors and their answers, manual assignment, and the operator's assignment of a professional to a
  booking.  \<open>clk i\<close> is the i-th reading of the clock, \<open>new_id\<close> gives the ids drawn.
\<close>

section \<open>Queries\<close>

definition candidate_workers :: "db \<Rightarrow> string list \<Rightarrow> nat \<Rightarrow> uuid option \<Rightarrow> (vendor \<times> worker) list" where
  "candidate_workers s capabilities limit worker_id =
     take limit [(v, w). v \<leftarrow> vendors s, w \<leftarrow> workers s, wk_vendor_id w = pk v,
       vn_status v = V_ACTIVE, wk_status w = WK_ACTIVE, wk_available w,
       capabilities = [] \<or> set capabilities \<subseteq> set (vn_capabilities v),
       worker_id = None \<or> worker_id = Some (pk w)]"

abbreviation get_offer :: "db \<Rightarrow> uuid \<Rightarrow> dispatch_offer option" where
  "get_offer s i \<equiv> lookup_row pk i (offers s)"

definition offers_for_job :: "db \<Rightarrow> uuid \<Rightarrow> dispatch_offer list" where
  "offers_for_job s job_id = sort_key (\<lambda>q. - of_score q) (filter (\<lambda>q. of_job_id q = job_id) (offers s))"

definition expire_due :: "datetime \<Rightarrow> db \<Rightarrow> nat \<times> db" where
  "expire_due now s =
     (let due = (\<lambda>q. of_status q = O_PENDING \<and> of_expires_at q \<le> now)
      in (count_where due (offers s),
          s\<lparr>offers := update_where due (\<lambda>q. q\<lparr>of_status := O_EXPIRED\<rparr>) (offers s)\<rparr>))"

section \<open>DispatchService\<close>

definition next_round :: "db \<Rightarrow> uuid \<Rightarrow> int" where
  "next_round s job_id =
     (case offers_for_job s job_id of [] \<Rightarrow> 0 | q # qs \<Rightarrow> fold (\<lambda>x m. max m (of_round x)) qs (of_round q)) + 1"

definition new_offer :: "datetime \<Rightarrow> uuid \<Rightarrow> uuid \<Rightarrow> int \<Rightarrow> nat \<Rightarrow> vendor \<times> worker \<Rightarrow> dispatch_offer" where
  "new_offer now i job_id rnd ranking = (\<lambda>(v, w).
     \<lparr>pk = i, created_at = now, of_job_id = job_id, of_vendor_id = pk v, of_worker_id = Some (pk w),
      of_status = O_PENDING, of_round = rnd, of_score = 1000 - int ranking,
      of_score_detail = [(''availability'', JInt 100), (''capability'', JInt 100)],
      of_expires_at = now + minutes 15, of_responded_at = None\<rparr>)"

definition new_offers :: "datetime \<Rightarrow> (nat \<Rightarrow> uuid) \<Rightarrow> uuid \<Rightarrow> int \<Rightarrow> (vendor \<times> worker) list \<Rightarrow> dispatch_offer list" where
  "new_offers now new_id job_id rnd found =
     map (\<lambda>(k, c). new_offer now (new_id k) job_id rnd k c) (enumerate 0 found)"

text \<open>The unique constraint on job, vendor and round of the offers.\<close>

definition offer_key :: "dispatch_offer \<Rightarrow> uuid \<times> uuid \<times> int" where
  "offer_key q = (of_job_id q, of_vendor_id q, of_round q)"

definition MATCHABLE :: "job_status list" where
  "MATCHABLE = [J_CREATED, J_MATCHING, J_OFFERED]"

text \<open>The job through MATCHING to OFFERED, with the events of both moves.\<close>

definition offer_job ::
  "(nat \<Rightarrow> datetime) \<Rightarrow> uuid option \<Rightarrow> nat \<Rightarrow> int \<Rightarrow> job \<Rightarrow> db \<Rightarrow> db result"
where
  "offer_job clk actor_id n rnd j s =
     bindE (if jb_status j = J_CREATED
            then apply_transition (clk 1) J_MATCHING actor_id ''system'' (Some ''matching_started'') [] j
            else Inr (j, None)) (\<lambda>(j1, ev1).
     bindE (apply_transition (clk 2) J_OFFERED actor_id ''system'' (Some ''offers_created'')
              [(''count'', JInt (int n)), (''round'', JInt rnd)] j1) (\<lambda>(j2, ev2).
     Inr (put_job j2 ev2 (put_job j1 ev1 s))))"

definition match ::
  "(nat \<Rightarrow> datetime) \<Rightarrow> (nat \<Rightarrow> uuid) \<Rightarrow> uuid \<Rightarrow> uuid option \<Rightarrow> db \<Rightarrow> (db, dispatch_offer list) outcome"
where
  "match clk new_id job_id actor_id s =
     (case get_job s job_id of
        None \<Rightarrow> (Inl (HTTPException 404 ''Job not found''), s)
      | Some j \<Rightarrow>
          if \<not> List.member MATCHABLE (jb_status j)
          then (Inl (HTTPException 409 ''Job cannot be matched in its current state''), s)
          else
            let rnd = next_round s job_id;
                found = candidate_workers s [] 10
                  (Option.bind (get_booking s (jb_booking_id j)) bk_provider_worker_id)
            in if found = [] then
                 (case apply_transition (clk 0) J_MATCHING actor_id ''system'' (Some ''no_candidates'') [] j of
                    Inl e \<Rightarrow> (Inl e, s)
                  | Inr (j', ev) \<Rightarrow> (Inr [], put_job j' ev s))
               else
                 let qs = new_offers (clk 0) new_id (pk j) rnd found
                 in case offer_job clk actor_id (length qs) rnd j s of
                      Inl e \<Rightarrow> (Inl e, s)
                    | Inr s1 \<Rightarrow>
                        if \<not> distinct (map offer_key (offers s @ qs))
                        then (Inl (IntegrityError ''dispatch_offers_job_vendor_round''), s)
                        else (Inr qs, s1\<lparr>offers := offers s1 @ qs\<rparr>))"

definition assignment_audit ::
  "datetime \<Rightarrow> uuid \<Rightarrow> uuid \<Rightarrow> json_object \<Rightarrow> audit_log"
where
  "assignment_audit now actor_id job_id metadata =
     \<lparr>al_actor_id = Some actor_id, al_actor_type = ''user'', al_action = ''assignment.create'',
      al_resource_type = ''job'', al_resource_id = job_id, al_metadata_json = metadata,
      al_created_at = now\<rparr>"

text \<open>
  What both ways of assigning a worker do to the store: the assignment, the audit row, the job after
  its transition and the booking that waited for its provider.  A second active assignment of the job
  violates the partial unique index.
\<close>

definition assign_worker ::
  "datetime \<Rightarrow> datetime \<Rightarrow> uuid \<Rightarrow> uuid option \<Rightarrow> uuid \<Rightarrow> uuid \<Rightarrow> uuid \<Rightarrow> json_object \<Rightarrow> job
   \<Rightarrow> job_event option \<Rightarrow> db \<Rightarrow> (assignment \<times> db) result"
where
  "assign_worker first now i offer_id vendor_id worker_id actor_id metadata j ev s =
     (let a = new_assignment first i (pk j) offer_id vendor_id worker_id (Some actor_id);
          s1 = put_job (j\<lparr>jb_vendor_id := Some vendor_id, jb_worker_id := Some worker_id\<rparr>) ev s
      in if active_assignment s (pk j) \<noteq> None then Inl (IntegrityError ''uq_active_assignment_job'')
         else Inr (a, modify_booking (jb_booking_id j)
           (\<lambda>b. if bk_status b = B_PENDING_PROVIDER_CONFIRMATION then b\<lparr>bk_status := B_CONFIRMED\<rparr> else b)
           (s1\<lparr>assignments := assignments s1 @ [a],
               audit_logs := audit_logs s1 @ [assignment_audit now actor_id (pk j) metadata]\<rparr>)))"

definition free_worker :: "db \<Rightarrow> uuid option \<Rightarrow> uuid \<Rightarrow> worker option" where
  "free_worker s worker_id vendor_id =
     find (\<lambda>w. Some (pk w) = worker_id \<and> wk_vendor_id w = vendor_id \<and> wk_available w) (workers s)"

definition holds_slot :: "db \<Rightarrow> job \<Rightarrow> uuid \<Rightarrow> bool" where
  "holds_slot s j worker_id =
     (case get_booking s (jb_booking_id j) of
        None \<Rightarrow> True | Some b \<Rightarrow> bk_provider_worker_id b = Some worker_id)"

text \<open>The acceptance of a pending offer.\<close>

definition accept_offer ::
  "(nat \<Rightarrow> datetime) \<Rightarrow> uuid \<Rightarrow> uuid option \<Rightarrow> uuid \<Rightarrow> dispatch_offer \<Rightarrow> db \<Rightarrow> (dispatch_offer \<times> db) result"
where
  "accept_offer clk new_id worker_id actor_id q s =
     bindE (of_option (HTTPException 409 ''Selected worker is unavailable'')
       (free_worker s (if worker_id \<noteq> None then worker_id else of_worker_id q) (of_vendor_id q))) (\<lambda>w.
     bindE (of_option (HTTPException 409 ''Job is no longer assignable'') (get_job s (of_job_id q))) (\<lambda>j.
     bindE (ensure (jb_status j \<in> {J_OFFERED, J_MATCHING})
       (HTTPException 409 ''Job is no longer assignable'')) (\<lambda>_.
     bindE (ensure (holds_slot s j (pk w))
       (HTTPException 409 ''Worker does not hold the reserved provider slot'')) (\<lambda>_.
     bindE (apply_transition (clk 3) J_ASSIGNED (Some actor_id) ''vendor'' (Some ''offer_accepted'') [] j)
       (\<lambda>(j', ev).
     bindE (assign_worker (clk 0) (clk 2) new_id (Some (pk q)) (of_vendor_id q) (pk w) actor_id
       [(''vendor_id'', JUuid (of_vendor_id q)), (''worker_id'', JUuid (pk w))] j' ev s) (\<lambda>(a, s1).
     let q' = q\<lparr>of_status := O_ACCEPTED, of_responded_at := Some (clk 1)\<rparr>
     in Inr (q', s1\<lparr>offers := update_where
           (\<lambda>x. of_job_id x = pk j \<and> pk x \<noteq> pk q \<and> of_status x = O_PENDING)
           (\<lambda>x. x\<lparr>of_status := O_WITHDRAWN\<rparr>) (update_row pk (pk q) (\<lambda>_. q') (offers s1))\<rparr>)))))))"

text \<open>An expired offer is marked and the change is committed before the error is raised.\<close>

definition decide_offer ::
  "(nat \<Rightarrow> datetime) \<Rightarrow> uuid \<Rightarrow> uuid \<Rightarrow> uuid \<Rightarrow> bool \<Rightarrow> uuid option \<Rightarrow> uuid \<Rightarrow> db \<Rightarrow> (db, dispatch_offer) outcome"
where
  "decide_offer clk new_id offer_id vendor_id accept worker_id actor_id s =
     (case get_offer s offer_id of
        None \<Rightarrow> (Inl (HTTPException 404 ''Offer not found''), s)
      | Some q \<Rightarrow>
          if of_vendor_id q \<noteq> vendor_id
          then (Inl (HTTPException 403 ''Offer belongs to another vendor''), s)
          else if of_status q \<noteq> O_PENDING
          then (Inl (HTTPException 409 ''Offer is no longer pending''), s)
          else if of_expires_at q \<le> clk 0
          then (Inl (HTTPException 409 ''Offer has expired''),
                s\<lparr>offers := update_row pk offer_id (\<lambda>x. x\<lparr>of_status := O_EXPIRED\<rparr>) (offers s)\<rparr>)
          else if \<not> accept then
            let q' = q\<lparr>of_status := O_DECLINED, of_responded_at := Some (clk 1)\<rparr>
            in (Inr q', s\<lparr>offers := update_row pk offer_id (\<lambda>_. q') (offers s)\<rparr>)
          else case accept_offer clk new_id worker_id actor_id q s of
                 Inl e \<Rightarrow> (Inl e, s)
               | Inr (q', s') \<Rightarrow> (Inr q', s'))"

text \<open>The checks of \<^verbatim>\<open>manual_assign\<close>, and its effect.\<close>

definition manual_check :: "uuid \<Rightarrow> uuid \<Rightarrow> uuid \<Rightarrow> db \<Rightarrow> job result" where
  "manual_check job_id vendor_id worker_id s =
     bindE (of_option (HTTPException 404 ''Job not found'') (get_job s job_id)) (\<lambda>j.
     bindE (of_option (HTTPException 409 ''Worker is unavailable or belongs to another vendor'')
       (free_worker s (Some worker_id) vendor_id)) (\<lambda>_.
     bindE (ensure (List.member MATCHABLE (jb_status j)) (HTTPException 409 ''Job is not assignable'')) (\<lambda>_.
     bindE (ensure (holds_slot s j worker_id)
       (HTTPException 409 ''Worker does not hold the reserved provider slot'')) (\<lambda>_.
     Inr j))))"

definition manual_assign ::
  "(nat \<Rightarrow> datetime) \<Rightarrow> uuid \<Rightarrow> uuid \<Rightarrow> uuid \<Rightarrow> uuid \<Rightarrow> uuid \<Rightarrow> string \<Rightarrow> db \<Rightarrow> (db, assignment) outcome"
where
  "manual_assign clk new_id job_id vendor_id worker_id actor_id reason s =
     (case bindE (manual_check job_id vendor_id worker_id s) (\<lambda>j.
           bindE (apply_transition (clk 1) J_ASSIGNED (Some actor_id) ''operations'' (Some reason) [] j)
             (\<lambda>(j', ev).
           assign_worker (clk 0) (clk 0) new_id None vendor_id worker_id actor_id
             [(''vendor_id'', JUuid vendor_id), (''worker_id'', JUuid worker_id),
              (''reason'', JStr reason)] j' ev s)) of
        Inl e \<Rightarrow> (Inl e, s)
      | Inr (a, s') \<Rightarrow> (Inr a, s'))"

section \<open>AdminDispatchService\<close>

definition booking_candidates ::
  "(string \<Rightarrow> zone option) \<Rightarrow> (uuid \<Rightarrow> uuid \<Rightarrow> rat option) \<Rightarrow> datetime \<Rightarrow> db \<Rightarrow> uuid
   \<Rightarrow> provider_candidate list result"
where
  "booking_candidates tzdb st_distance now s booking_id =
     bindE (of_option (DomainError ''BOOKING_NOT_FOUND'' 404) (get_booking s booking_id)) (\<lambda>b.
     bindE (of_option (DomainError ''INVALID_BOOKING'' 422) (get_address s (bk_address_id b))) (\<lambda>ad.
     bindE (of_option (DomainError ''INVALID_BOOKING'' 422) (get_service s (bk_service_id b))) (\<lambda>sv.
     candidates tzdb st_distance now s sv ad (bk_window_start b) (bk_window_end b) False None)))"

definition ASSIGNABLE :: "booking_status list" where
  "ASSIGNABLE = [B_REQUESTED, B_PENDING_REVIEW, B_PENDING_MANUAL_DISPATCH, B_AWAITING_ASSIGNMENT,
     B_REASSIGNMENT_REQUIRED, B_PROVIDER_ASSIGNED]"

definition method_allowed :: "settings \<Rightarrow> assignment_method \<Rightarrow> bool" where
  "method_allowed cfg m =
     (\<not> (m = AM_MANUAL \<and> provider_assignment_mode cfg \<noteq> ''MANUAL'')
      \<and> \<not> (m = AM_AUTOMATIC \<and> \<not> (provider_assignment_mode cfg = ''AUTOMATIC''
            \<and> auto_assign_provider cfg \<and> live_provider_dispatch cfg)))"

definition candidate_for :: "uuid \<Rightarrow> provider_candidate list \<Rightarrow> provider_candidate result" where
  "candidate_for professional cs =
     of_option (DomainError ''NO_CAPACITY'' 409) (find (\<lambda>c. professional_id c = professional) cs)"

definition assign_check ::
  "settings \<Rightarrow> (string \<Rightarrow> zone option) \<Rightarrow> (uuid \<Rightarrow> uuid \<Rightarrow> rat option) \<Rightarrow> (nat \<Rightarrow> datetime) \<Rightarrow> uuid \<Rightarrow> uuid
   \<Rightarrow> assignment_method \<Rightarrow> db \<Rightarrow> (booking \<times> provider_candidate \<times> worker) result"
where
  "assign_check cfg tzdb st_distance clk booking_id professional method s =
     bindE (ensure (method_allowed cfg method) (DomainError ''FORBIDDEN'' 403)) (\<lambda>_.
     bindE (of_option (DomainError ''BOOKING_NOT_FOUND'' 404) (get_booking s booking_id)) (\<lambda>b.
     bindE (ensure (List.member ASSIGNABLE (bk_status b))
       (DomainError ''INVALID_STATE_TRANSITION'' 409)) (\<lambda>_.
     bindE (booking_candidates tzdb st_distance (clk 0) s (pk b)) (\<lambda>cs.
     bindE (candidate_for professional cs) (\<lambda>_.
     bindE (booking_candidates tzdb st_distance (clk 1) s (pk b)) (\<lambda>cs'.
     bindE (candidate_for professional cs') (\<lambda>c.
     bindE (of_option (DomainError ''NO_PROVIDER_COVERAGE'' 409) (get_worker s professional)) (\<lambda>w.
     Inr (b, c, w)))))))))"

definition release_active :: "datetime \<Rightarrow> uuid \<Rightarrow> db \<Rightarrow> db" where
  "release_active now job_id s =
     (case active_assignment s job_id of
        None \<Rightarrow> s
      | Some a \<Rightarrow> s\<lparr>assignments := update_row as_id (as_id a)
          (\<lambda>x. x\<lparr>as_status := AS_RELEASED, as_released_at := Some now\<rparr>) (assignments s)\<rparr>)"

text \<open>
  The booking's job, taken from whoever had it or created.  The status of an existing job is set
  without a transition and without an event.
\<close>

definition take_job ::
  "(nat \<Rightarrow> datetime) \<Rightarrow> (nat \<Rightarrow> uuid) \<Rightarrow> booking \<Rightarrow> worker \<Rightarrow> db \<Rightarrow> uuid \<times> uuid option \<times> db"
where
  "take_job clk new_id b w s =
     (case job_of_booking s (pk b) of
        Some j \<Rightarrow> (pk j, jb_vendor_id j, modify_job (pk j)
          (\<lambda>x. x\<lparr>jb_vendor_id := Some (wk_vendor_id w), jb_worker_id := Some (pk w),
               jb_status := J_ASSIGNED\<rparr>) (release_active (clk 2) (pk j) s))
      | None \<Rightarrow> (new_id 0, None,
          s\<lparr>jobs := jobs s @ [assigned_job (clk 0) (new_id 0) b (wk_vendor_id w) (pk w)]\<rparr>))"

fun assignment_method_value :: "assignment_method \<Rightarrow> string" where
  "assignment_method_value AM_MANUAL = ''MANUAL''"
| "assignment_method_value AM_SUGGESTED = ''SUGGESTED''"
| "assignment_method_value AM_AUTOMATIC = ''AUTOMATIC''"

definition dispatch_audit ::
  "datetime \<Rightarrow> uuid \<Rightarrow> uuid \<Rightarrow> string \<Rightarrow> string \<Rightarrow> uuid option \<Rightarrow> assignment_method \<Rightarrow> audit_log"
where
  "dispatch_audit now actor_id booking_id action reason worker_id method =
     \<lparr>al_actor_id = Some actor_id, al_actor_type = ''user'', al_action = action,
      al_resource_type = ''booking'', al_resource_id = booking_id,
      al_metadata_json = [(''reason'', JStr reason), (''worker_id'', json_uuid worker_id),
        (''assignment_method'', JStr (assignment_method_value method)), (''live_dispatch'', JBool False)],
      al_created_at = now\<rparr>"

definition assigned_booking :: "provider_candidate \<Rightarrow> uuid \<Rightarrow> string \<Rightarrow> booking \<Rightarrow> booking" where
  "assigned_booking c worker_id reason b =
     b\<lparr>bk_provider_worker_id := Some worker_id, bk_recommended_provider_id := Some (provider_id c),
       bk_recommended_professional_id := Some (professional_id c),
       bk_assignment_score := Some (score c), bk_assignment_reason := Some reason,
       bk_status := B_PROVIDER_ASSIGNED\<rparr>"

definition assign ::
  "settings \<Rightarrow> (string \<Rightarrow> zone option) \<Rightarrow> (uuid \<Rightarrow> uuid \<Rightarrow> rat option) \<Rightarrow> (nat \<Rightarrow> datetime) \<Rightarrow> (nat \<Rightarrow> uuid)
   \<Rightarrow> uuid \<Rightarrow> uuid \<Rightarrow> uuid \<Rightarrow> string \<Rightarrow> bool \<Rightarrow> assignment_method \<Rightarrow> db \<Rightarrow> (db, booking) outcome"
where
  "assign cfg tzdb st_distance clk new_id booking_id professional actor_id reason reassign method s =
     (case assign_check cfg tzdb st_distance clk booking_id professional method s of
        Inl e \<Rightarrow> (Inl e, s)
      | Inr (b, c, w) \<Rightarrow>
          (case take_job clk new_id b w s of (job_id, previous_provider, s1) \<Rightarrow>
            (Inr (assigned_booking c (pk w) reason b),
             (modify_booking booking_id (assigned_booking c (pk w) reason) s1)
               \<lparr>assignments := assignments s1
                  @ [new_assignment (clk 0) (new_id 1) job_id None (wk_vendor_id w) (pk w) (Some actor_id)],
                assignment_history := assignment_history s1
                  @ [\<lparr>pk = new_id 2, created_at = clk 0, pah_booking_id = pk b,
                      pah_previous_provider_id = previous_provider,
                      pah_new_provider_id = Some (wk_vendor_id w),
                      pah_previous_professional_id = bk_provider_worker_id b,
                      pah_new_professional_id = Some (pk w), pah_reason = reason,
                      pah_assignment_method = method, pah_score_at_assignment = Some (score c),
                      pah_performed_by = actor_id\<rparr>],
                audit_logs := audit_logs s1 @ [dispatch_audit (clk 3) actor_id (pk b)
                  (if reassign then ''booking.reassigned'' else ''booking.assigned'') reason
                  (Some (pk w)) method]\<rparr>)))"

definition automatic_assign ::
  "settings \<Rightarrow> (string \<Rightarrow> zone option) \<Rightarrow> (uuid \<Rightarrow> uuid \<Rightarrow> rat option) \<Rightarrow> (nat \<Rightarrow> datetime) \<Rightarrow> (nat \<Rightarrow> uuid)
   \<Rightarrow> uuid \<Rightarrow> uuid \<Rightarrow> db \<Rightarrow> (db, booking) outcome"
where
  "automatic_assign cfg tzdb st_distance clk new_id booking_id actor_id s =
     (case booking_candidates tzdb st_distance (clk 0) s booking_id of
        Inl e \<Rightarrow> (Inl e, s)
      | Inr [] \<Rightarrow> (Inl (DomainError ''NO_CAPACITY'' 409), s)
      | Inr (c # _) \<Rightarrow> assign cfg tzdb st_distance (\<lambda>k. clk (k + 1)) new_id booking_id
          (professional_id c) actor_id ''automatic_match'' False AM_AUTOMATIC s)"

definition unassign_job :: "datetime \<Rightarrow> booking \<Rightarrow> db \<Rightarrow> db" where
  "unassign_job now b s =
     (case job_of_booking s (pk b) of
        None \<Rightarrow> s
      | Some j \<Rightarrow> modify_job (pk j)
          (\<lambda>x. x\<lparr>jb_vendor_id := None, jb_worker_id := None, jb_status := J_MATCHING\<rparr>)
          (release_active now (pk j) s))"

definition unassign ::
  "(nat \<Rightarrow> datetime) \<Rightarrow> uuid \<Rightarrow> uuid \<Rightarrow> uuid \<Rightarrow> string \<Rightarrow> db \<Rightarrow> (db, booking) outcome"
where
  "unassign clk new_id booking_id actor_id reason s =
     (case get_booking s booking_id of
        None \<Rightarrow> (Inl (DomainError ''INVALID_STATE_TRANSITION'' 409), s)
      | Some b \<Rightarrow>
          if bk_status b \<noteq> B_PROVIDER_ASSIGNED
          then (Inl (DomainError ''INVALID_STATE_TRANSITION'' 409), s)
          else
            let s1 = unassign_job (clk 0) b s;
                f = (\<lambda>x. x\<lparr>bk_provider_worker_id := None, bk_status := B_REASSIGNMENT_REQUIRED\<rparr>)
            in (Inr (f b), (modify_booking booking_id f s1)
               \<lparr>assignment_history := assignment_history s1
                  @ [\<lparr>pk = new_id, created_at = clk 0, pah_booking_id = pk b,
                      pah_previous_provider_id = Option.bind (job_of_booking s (pk b)) jb_vendor_id,
                      pah_new_provider_id = None,
                      pah_previous_professional_id = bk_provider_worker_id b,
                      pah_new_professional_id = None, pah_reason = reason,
                      pah_assignment_method = AM_MANUAL, pah_score_at_assignment = None,
                      pah_performed_by = actor_id\<rparr>],
                audit_logs := audit_logs s1 @ [dispatch_audit (clk 1) actor_id (pk b)
                  ''booking.unassigned'' reason None AM_MANUAL]\<rparr>))"

section \<open>Jobs and their crews\<close>

text \<open>
  The invariant of jobs and assignments: a job has at most one active assignment, and a job with an
  active assignment has that vendor and worker and is past matching.
\<close>

definition crewed :: "job_status \<Rightarrow> bool" where
  "crewed st = (st \<notin> {J_CREATED, J_MATCHING, J_OFFERED})"

definition active_for :: "uuid \<Rightarrow> assignment \<Rightarrow> bool" where
  "active_for k a = (as_job_id a = k \<and> as_status a = AS_ACTIVE)"

definition crew_ok :: "job list \<Rightarrow> assignment \<Rightarrow> bool" where
  "crew_ok js a = (\<exists>j. lookup_row pk (as_job_id a) js = Some j \<and> jb_vendor_id j = Some (as_vendor_id a)
     \<and> jb_worker_id j = Some (as_worker_id a) \<and> crewed (jb_status j))"

definition crew_inv :: "job list \<Rightarrow> assignment list \<Rightarrow> bool" where
  "crew_inv js as = (distinct (map pk js) \<and> (\<forall>k. count_where (active_for k) as \<le> 1)
     \<and> (\<forall>a \<in> set as. as_status a = AS_ACTIVE \<longrightarrow> crew_ok js a))"

lemma crewed_closed: "can_transition TRANSITIONS a b \<Longrightarrow> crewed a \<Longrightarrow> crewed b"
  by (cases a) (auto simp: can_transition_def crewed_def)

lemma active_assignment_None:
  "active_assignment s k = None \<longleftrightarrow> count_where (active_for k) (assignments s) = 0"
  by (auto simp: active_assignment_def find_None_iff count_where_0_iff active_for_def)

text \<open>A job may change freely while it has no active assignment, and get one when it fits.\<close>

lemma crew_inv_free:
  assumes "crew_inv js as" and "count_where (active_for k) as = 0"
    and "map pk js' = map pk js" and "\<And>i. i \<noteq> k \<Longrightarrow> lookup_row pk i js' = lookup_row pk i js"
  shows "crew_inv js' as"
proof -
  have "crew_ok js' a" if a: "a \<in> set as" "as_status a = AS_ACTIVE" for a
  proof -
    from assms(1) a have "crew_ok js a" by (simp add: crew_inv_def)
    moreover have "as_job_id a \<noteq> k" using assms(2) a by (auto simp: count_where_0_iff active_for_def)
    ultimately show ?thesis by (simp add: crew_ok_def assms(4))
  qed
  moreover have "distinct (map pk js')" using assms(1,3) by (simp add: crew_inv_def)
  ultimately show ?thesis using assms(1) by (simp add: crew_inv_def)
qed

lemma crew_inv_add:
  assumes "crew_inv js as" and "count_where (active_for (as_job_id a)) as = 0" and "crew_ok js a"
  shows "crew_inv js (as @ [a])"
proof -
  have "count_where (active_for k) (as @ [a]) \<le> 1" for k
  proof (cases "k = as_job_id a")
    case False
    then show ?thesis using assms(1) by (simp add: crew_inv_def active_for_def)
  qed (use assms(2) in simp)
  then show ?thesis using assms(1,3) by (auto simp: crew_inv_def)
qed

lemma crew_inv_update:
  assumes "crew_inv js as" and "map pk js' = map pk js"
    and "\<And>i j. lookup_row pk i js = Some j \<Longrightarrow> \<exists>j'. lookup_row pk i js' = Some j'
      \<and> jb_vendor_id j' = jb_vendor_id j \<and> jb_worker_id j' = jb_worker_id j
      \<and> (crewed (jb_status j) \<longrightarrow> crewed (jb_status j'))"
  shows "crew_inv js' as"
proof -
  have "crew_ok js' a" if "crew_ok js a" for a
    using that assms(3) unfolding crew_ok_def by metis
  then show ?thesis using assms(1,2) by (auto simp: crew_inv_def)
qed

lemma crew_inv_new_job:
  assumes "crew_inv js as" and "pk j \<notin> pk ` set js"
  shows "crew_inv (js @ [j]) as"
proof -
  have "crew_ok (js @ [j]) a" if "crew_ok js a" for a
    using that by (auto simp: crew_ok_def lookup_row_append)
  then show ?thesis using assms by (auto simp: crew_inv_def)
qed

lemma fresh_job_uncrewed:
  assumes "crew_inv js as" and "k \<notin> pk ` set js"
  shows "count_where (active_for k) as = 0"
proof -
  have "as_job_id a \<noteq> k" if "a \<in> set as" "as_status a = AS_ACTIVE" for a
  proof -
    from assms(1) that have "crew_ok js a" by (simp add: crew_inv_def)
    then obtain j where "lookup_row pk (as_job_id a) js = Some j" by (auto simp: crew_ok_def)
    then have "as_job_id a \<in> pk ` set js" using lookup_row_None [of pk "as_job_id a" js] by auto
    then show ?thesis using assms(2) by blast
  qed
  then show ?thesis by (auto simp: count_where_0_iff active_for_def)
qed

text \<open>Releasing the active assignment leaves the job without one.\<close>

lemma count_one_released:
  assumes "count_where (active_for k) as \<le> 1" and "find (active_for k) as = Some a"
  shows "count_where (active_for k) (update_row as_id (as_id a)
    (\<lambda>x. x\<lparr>as_status := AS_RELEASED, as_released_at := r\<rparr>) as) = 0"
  using assms
proof (induction as)
  case (Cons x xs)
  show ?case
  proof (cases "active_for k x")
    case True
    with Cons.prems have "x = a" "count_where (active_for k) xs = 0" by simp_all
    then show ?thesis
      by (auto simp: update_row_def update_where_def count_where_0_iff active_for_def)
  next
    case False
    with Cons show ?thesis by (auto simp: update_row_def update_where_def active_for_def)
  qed
qed simp

lemma crew_inv_release:
  assumes "crew_inv (jobs s) (assignments s)"
  shows "crew_inv (jobs s) (assignments (release_active now k s))
    \<and> count_where (active_for k) (assignments (release_active now k s)) = 0
    \<and> jobs (release_active now k s) = jobs s"
proof (cases "active_assignment s k")
  case None
  with assms active_assignment_None [of s k] show ?thesis by (simp add: release_active_def)
next
  case (Some a)
  let ?f = "\<lambda>x. x\<lparr>as_status := AS_RELEASED, as_released_at := Some now\<rparr>"
  let ?as = "update_row as_id (as_id a) ?f (assignments s)"
  have le: "count_where (active_for i) ?as \<le> count_where (active_for i) (assignments s)" for i
    unfolding update_row_def by (rule count_update_where_le) (simp add: active_for_def)
  have "crew_ok (jobs s) x" if "x \<in> set ?as" "as_status x = AS_ACTIVE" for x
    using that assms by (auto simp: crew_inv_def update_row_def update_where_def split: if_splits)
  with assms le have inv: "crew_inv (jobs s) ?as"
    unfolding crew_inv_def by (meson le_trans)
  have "find (active_for k) (assignments s) = Some a"
    using Some by (simp add: active_assignment_def active_for_def [abs_def])
  with assms have "count_where (active_for k) ?as = 0"
    by (intro count_one_released) (auto simp: crew_inv_def)
  with inv Some show ?thesis by (simp add: release_active_def)
qed

section \<open>The operations on jobs and assignments\<close>

text \<open>A job moved along its lifecycle, its crew and the assignments as they were.\<close>

definition job_moved :: "db \<Rightarrow> db \<Rightarrow> bool" where
  "job_moved s s' = (assignments s' = assignments s \<and> (jobs s' = jobs s
     \<or> (\<exists>i j j'. get_job s i = Some j \<and> pk j' = i \<and> jb_vendor_id j' = jb_vendor_id j
          \<and> jb_worker_id j' = jb_worker_id j \<and> (crewed (jb_status j) \<longrightarrow> crewed (jb_status j'))
          \<and> jobs s' = update_row pk i (\<lambda>_. j') (jobs s))))"

lemma job_moved_refl [simp]: "job_moved s s"
  by (simp add: job_moved_def)

lemma job_moved_same: "assignments s' = assignments s \<Longrightarrow> jobs s' = jobs s \<Longrightarrow> job_moved s s'"
  by (simp add: job_moved_def)

lemma job_moved_put:
  assumes "get_job s i = Some j"
    and "apply_transition now target actor_id actor_type reason metadata k = Inr (j', ev)"
    and "pk k = pk j" "jb_vendor_id k = jb_vendor_id j" "jb_worker_id k = jb_worker_id j"
      "jb_status k = jb_status j"
    and "assignments s' = assignments s" "jobs s' = jobs (put_job j' ev s)"
  shows "job_moved s s'"
proof -
  have i: "pk j = i" using assms(1) by (rule lookup_row_key)
  note ap = apply_transition_InrD [OF assms(2)]
  from ap assms(3-6) have "crewed (jb_status j) \<longrightarrow> crewed (jb_status j')"
    by (auto intro: crewed_closed)
  moreover from ap assms(3-6) have "jb_vendor_id j' = jb_vendor_id j \<and> jb_worker_id j' = jb_worker_id j
      \<and> pk j' = i" using i by auto
  moreover from this assms(8) have "jobs s' = update_row pk i (\<lambda>_. j') (jobs s)"
    by (simp add: put_job_def)
  ultimately show ?thesis using assms(1,7) unfolding job_moved_def by blast
qed

lemma crew_inv_moved:
  assumes "job_moved s s'" and "crew_inv (jobs s) (assignments s)"
  shows "crew_inv (jobs s') (assignments s')"
proof -
  from assms(1) have as: "assignments s' = assignments s" by (simp add: job_moved_def)
  from assms(1) consider "jobs s' = jobs s"
    | i j j' where "get_job s i = Some j" "pk j' = i" "jb_vendor_id j' = jb_vendor_id j"
      "jb_worker_id j' = jb_worker_id j" "crewed (jb_status j) \<longrightarrow> crewed (jb_status j')"
      "jobs s' = update_row pk i (\<lambda>_. j') (jobs s)"
    unfolding job_moved_def by blast
  then show ?thesis
  proof cases
    case 1
    with assms(2) as show ?thesis by simp
  next
    case 2
    have keys: "map pk (jobs s') = map pk (jobs s)"
      unfolding 2(6) update_row_def update_where_def using 2(2) by simp
    show ?thesis unfolding as
    proof (rule crew_inv_update [OF assms(2) keys])
      fix k jk assume jk: "get_job s k = Some jk"
      show "\<exists>j''. get_job s' k = Some j'' \<and> jb_vendor_id j'' = jb_vendor_id jk
        \<and> jb_worker_id j'' = jb_worker_id jk \<and> (crewed (jb_status jk) \<longrightarrow> crewed (jb_status j''))"
      proof (cases "k = i")
        case True
        with 2 jk lookup_put [OF 2(1,2)] show ?thesis by simp
      next
        case False
        with lookup_put_other [of k i pk j' "jobs s"] 2(2,6) jk show ?thesis by simp
      qed
    qed
  qed
qed

lemma completion_effects_assignments:
  assumes "completion_effects cfg clk new_id target j ev s = Inr s'"
  shows "assignments s' = assignments s"
  using assms unfolding completion_effects_def record_completion_effects_def recognize_earning_def
  by (auto elim!: bindE_InrE simp: Let_def split: if_splits option.splits)

lemma put_job_assignments [simp]: "assignments (put_job j ev s) = assignments s"
  by (simp add: put_job_def)

lemma put_request_assignments [simp]: "assignments (put_request q s) = assignments s"
  by (simp add: put_request_def)

lemma transition_locked_moved:
  assumes "transition_locked cfg clk new_id job_id target actor_id actor_type reason s = (r, s')"
  shows "job_moved s s'"
  using transition_locked_cases [OF assms]
proof (elim disjE exE conjE)
  fix j j' ev
  assume job: "get_job s job_id = Some j"
    and ap: "apply_transition (clk 0) target actor_id actor_type reason [] j = Inr (j', ev)"
    and eff: "completion_effects cfg (\<lambda>k. clk (k + 1)) new_id target j' ev (put_job j' ev s) = Inr s'"
  show ?thesis
    by (rule job_moved_put [OF job ap])
      (use completion_effects_keeps [OF eff] completion_effects_assignments [OF eff] in simp_all)
qed simp

lemma job_step_moved: "job_step s s' \<Longrightarrow> job_moved s s'"
proof (induction rule: job_step.induct)
  case (js_transition cfg clk new_id job_id target actor_id actor_type reason s r s')
  then show ?case by (rule transition_locked_moved)
next
  case (js_note cfg clk new_id job_id worker_id actor fld n target s r s')
  from technician_note_cases [OF js_note] show ?case
  proof (elim disjE exE conjE)
    fix j j' ev
    assume job: "get_job s job_id = Some j"
      and ap: "apply_transition (clk 0) target (Some actor) ''worker'' (Some (notes_reason fld)) []
          (set_notes fld n j) = Inr (j', ev)"
      and eff: "completion_effects cfg (\<lambda>k. clk (k + 1)) new_id target j' ev (put_job j' ev s) = Inr s'"
    show ?thesis
      by (rule job_moved_put [OF job ap])
        (use completion_effects_keeps [OF eff] completion_effects_assignments [OF eff] in simp_all)
  qed simp
next
  case (js_command cfg clk new_id job_id command worker_id actor s r s')
  then have "s' = s \<or> (\<exists>target. transition_locked cfg clk new_id job_id target (Some actor)
      ''worker'' None s = (r, s'))"
    by (auto simp: technician_command_def split: option.splits if_splits)
  then show ?case by (auto intro: transition_locked_moved)
next
  case (js_request clk i job_id payload worker_id s r' s')
  from create_work_request_cases [OF js_request] show ?case
    by (elim disjE exE conjE) (simp, rule job_moved_put, assumption, assumption, simp_all add: put_job_def)
next
  case (js_decide cfg clk request_id approve customer_id s r' s')
  from decide_work_request_cases [OF js_decide] show ?case
  proof (elim disjE exE conjE)
    fix q j q' s1 reason j' ev
    assume "get_job s (wr_job_id q) = Some j"
      and "apply_transition (clk 2) J_IN_PROGRESS (Some customer_id) ''customer'' reason [] j = Inr (j', ev)"
      and "s1 = add_audit (decision_audit (clk 1) cfg approve customer_id q') (put_request q' s)"
      and "s' = put_job j' ev s1"
    then show ?thesis by (intro job_moved_put) (auto simp: put_job_def)
  qed (auto intro: job_moved_same)
next
  case (js_review clk request_id approve actor_id s r' s')
  from review_work_request_cases [OF js_review] show ?case
  proof (elim disjE exE conjE)
    fix q q' j j' ev
    assume "get_job s (wr_job_id q) = Some j"
      and "apply_transition (clk 0) J_IN_PROGRESS actor_id ''operations''
          (Some ''work_request_rejected'') [] j = Inr (j', ev)"
      and "s' = put_job j' ev (put_request q' s)"
    then show ?thesis by (intro job_moved_put) (auto simp: put_job_def)
  qed (auto intro: job_moved_same)
qed

lemma job_of_booking_get:
  assumes "distinct (map pk (jobs s))" and "job_of_booking s booking_id = Some j"
  shows "get_job s (pk j) = Some j"
  using assms job_of_booking_SomeD by (intro lookup_row_distinct) blast+

lemma cancel_moved:
  assumes "cancel_booking clk booking_id user_id s = (res, s')" and "distinct (map pk (jobs s))"
  shows "job_moved s s'"
proof (cases "s' = s")
  case False
  with assms(1) obtain b s1 where c: "cancel_job clk b user_id s = Inr s1"
    and s': "jobs s' = jobs s1" "assignments s' = assignments s1"
    by (auto simp: cancel_booking_def Let_def split: sum.splits if_splits)
  show ?thesis
  proof (cases "job_of_booking s (pk b)")
    case None
    with c s' show ?thesis by (simp add: cancel_job_def job_moved_same)
  next
    case (Some j)
    with c obtain j' ev where ap: "apply_transition (clk 1) J_CANCELLED (Some user_id) ''customer''
        (Some ''customer_cancelled_booking'') [] j = Inr (j', ev)" and "s1 = put_job j' ev s"
      by (auto simp: cancel_job_def elim!: bindE_InrE)
    with s' show ?thesis
      by (intro job_moved_put [OF job_of_booking_get [OF assms(2) Some] ap]) simp_all
  qed
qed simp

text \<open>Matching moves the job and adds offers.\<close>

lemma offer_job_InrD:
  assumes "get_job s i = Some j" and "offer_job clk actor_id n rnd j s = Inr s1"
  shows "\<exists>t j2. job_moved s t \<and> job_moved t s1 \<and> offers s1 = offers s
    \<and> get_job s1 i = Some j2 \<and> jb_status j2 = J_OFFERED \<and> assignments s1 = assignments s"
proof -
  from assms(2) obtain j1 ev1 j2 ev2 where
    a1: "(if jb_status j = J_CREATED
          then apply_transition (clk 1) J_MATCHING actor_id ''system'' (Some ''matching_started'') [] j
          else Inr (j, None)) = Inr (j1, ev1)"
    and a2: "apply_transition (clk 2) J_OFFERED actor_id ''system'' (Some ''offers_created'')
        [(''count'', JInt (int n)), (''round'', JInt rnd)] j1 = Inr (j2, ev2)"
    and s1: "s1 = put_job j2 ev2 (put_job j1 ev1 s)"
    by (auto simp: offer_job_def elim!: bindE_InrE)
  have i: "pk j = i" using assms(1) by (rule lookup_row_key)
  have pk1: "pk j1 = i" using a1 i by (auto split: if_splits dest: apply_transition_pk)
  have g1: "get_job (put_job j1 ev1 s) i = Some j1"
    using lookup_put [OF assms(1) pk1] pk1 by (simp add: put_job_def)
  have m1: "job_moved s (put_job j1 ev1 s)"
  proof (cases "jb_status j = J_CREATED")
    case True
    with a1 show ?thesis by (intro job_moved_put [OF assms(1), where k = j]) auto
  next
    case False
    with a1 have "j1 = j" by simp
    then show ?thesis using assms(1) i unfolding job_moved_def
      by (auto simp: put_job_def intro!: exI [of _ i] exI [of _ j])
  qed
  have m2: "job_moved (put_job j1 ev1 s) s1"
    unfolding s1 by (rule job_moved_put [OF g1 a2]) simp_all
  note p2 = apply_transition_InrD [OF a2]
  have "get_job s1 i = Some j2"
    using lookup_put [OF g1, of j2] p2 pk1 by (simp add: s1 put_job_def)
  moreover have "offers s1 = offers s" by (simp add: s1 put_job_def)
  ultimately show ?thesis using m1 m2 p2 by (auto simp: s1)
qed

lemma match_cases:
  assumes "match clk new_id job_id actor_id s = (res, s')"
  obtains (refused) e where "res = Inl e" "s' = s"
  | (nobody) j j' ev where "get_job s job_id = Some j" "res = Inr []" "s' = put_job j' ev s"
      "apply_transition (clk 0) J_MATCHING actor_id ''system'' (Some ''no_candidates'') [] j = Inr (j', ev)"
      "candidate_workers s [] 10
         (Option.bind (get_booking s (jb_booking_id j)) bk_provider_worker_id) = []"
  | (offered) j s1 qs where "get_job s job_id = Some j" "res = Inr qs" "s' = s1\<lparr>offers := offers s1 @ qs\<rparr>"
      "List.member MATCHABLE (jb_status j)"
      "qs = new_offers (clk 0) new_id job_id (next_round s job_id) (candidate_workers s [] 10
         (Option.bind (get_booking s (jb_booking_id j)) bk_provider_worker_id))"
      "offer_job clk actor_id (length qs) (next_round s job_id) j s = Inr s1"
      "distinct (map offer_key (offers s @ qs))" "qs \<noteq> []"
proof (cases "get_job s job_id")
  case None
  with assms show thesis by (intro refused) (auto simp: match_def)
next
  case (Some j)
  note job = this and pk = lookup_row_key [OF this]
  define found where "found = candidate_workers s [] 10
    (Option.bind (get_booking s (jb_booking_id j)) bk_provider_worker_id)"
  define qs where "qs = new_offers (clk 0) new_id (pk j) (next_round s job_id) found"
  show thesis
  proof (cases "List.member MATCHABLE (jb_status j)")
    case False
    with assms job show thesis by (intro refused) (auto simp: match_def)
  next
    case member: True
    show thesis
    proof (cases "found = []")
      case True
      show thesis
      proof (cases "apply_transition (clk 0) J_MATCHING actor_id ''system'' (Some ''no_candidates'') [] j")
        case (Inl e)
        with assms job member True show thesis
          by (intro refused) (auto simp: match_def Let_def found_def [symmetric])
      next
        case (Inr r)
        then obtain j' ev where "apply_transition (clk 0) J_MATCHING actor_id ''system''
            (Some ''no_candidates'') [] j = Inr (j', ev)" by (cases r) simp
        with assms job member True show thesis
          by (intro nobody) (auto simp: match_def Let_def found_def [symmetric])
      qed
    next
      case False
      then have "qs \<noteq> []" by (simp add: qs_def new_offers_def enumerate_eq_zip)
      have run: "(case offer_job clk actor_id (length qs) (next_round s job_id) j s of
          Inl e \<Rightarrow> (Inl e, s)
        | Inr s1 \<Rightarrow> if \<not> distinct (map offer_key (offers s @ qs))
            then (Inl (IntegrityError ''dispatch_offers_job_vendor_round''), s)
            else (Inr qs, s1\<lparr>offers := offers s1 @ qs\<rparr>)) = (res, s')"
        using assms job member False unfolding match_def Let_def qs_def found_def by simp
      show thesis
      proof (cases "offer_job clk actor_id (length qs) (next_round s job_id) j s")
        case (Inl e)
        with run show thesis by (intro refused) auto
      next
        case (Inr s1)
        show thesis
        proof (cases "distinct (map offer_key (offers s @ qs))")
          case True
          with run Inr have "res = Inr qs" "s' = s1\<lparr>offers := offers s1 @ qs\<rparr>" by simp_all
          with job member Inr True \<open>qs \<noteq> []\<close> show thesis
            by (intro offered) (auto simp: qs_def found_def pk)
        next
          case False
          with run Inr show thesis by (intro refused) auto
        qed
      qed
    qed
  qed
qed

lemma match_crew:
  assumes "match clk new_id job_id actor_id s = (res, s')" and "crew_inv (jobs s) (assignments s)"
  shows "crew_inv (jobs s') (assignments s')"
  using assms(1)
proof (cases rule: match_cases)
  case refused
  with assms(2) show ?thesis by simp
next
  case (nobody j j' ev)
  then have "job_moved s s'" by (intro job_moved_put [OF nobody(1,4)]) simp_all
  then show ?thesis using assms(2) by (rule crew_inv_moved)
next
  case (offered j s1 qs)
  from offer_job_InrD [OF offered(1,6)] obtain t where "job_moved s t" "job_moved t s1" by blast
  then have "crew_inv (jobs s1) (assignments s1)" using assms(2) by (blast intro: crew_inv_moved)
  with offered(3) show ?thesis by simp
qed

text \<open>Both ways of assigning a worker to a job that has no active assignment.\<close>

lemma assign_worker_InrD:
  assumes "get_job s i = Some j" and "pk j' = i" and "crewed (jb_status j')"
    and "assign_worker first now k offer_id vendor_id worker_id actor_id metadata j' ev s = Inr (a, s1)"
  shows "get_job s1 i = Some (j'\<lparr>jb_vendor_id := Some vendor_id, jb_worker_id := Some worker_id\<rparr>)
    \<and> assignments s1 = assignments s @ [a] \<and> offers s1 = offers s \<and> as_job_id a = i
    \<and> as_status a = AS_ACTIVE \<and> as_offer_id a = offer_id \<and> as_vendor_id a = vendor_id
    \<and> as_worker_id a = worker_id
    \<and> (crew_inv (jobs s) (assignments s) \<longrightarrow> crew_inv (jobs s1) (assignments s1))"
proof -
  define j'' where "j'' = j'\<lparr>jb_vendor_id := Some vendor_id, jb_worker_id := Some worker_id\<rparr>"
  have pk: "pk j'' = i" using assms(2) by (simp add: j''_def)
  from assms(2,4) have none: "count_where (active_for i) (assignments s) = 0"
    and a: "a = new_assignment first k i offer_id vendor_id worker_id (Some actor_id)"
    and s1: "assignments s1 = assignments s @ [a]" "jobs s1 = jobs (put_job j'' ev s)" "offers s1 = offers s"
    by (auto simp: assign_worker_def Let_def active_assignment_None j''_def put_job_def split: if_splits)
  have js: "jobs s1 = update_row pk i (\<lambda>_. j'') (jobs s)" using s1(2) pk by (simp add: put_job_def)
  have get: "get_job s1 i = Some j''" unfolding js by (rule lookup_put [OF assms(1) pk])
  have "crew_inv (jobs s1) (assignments s1)" if inv: "crew_inv (jobs s) (assignments s)"
  proof -
    have "crew_inv (jobs s1) (assignments s)"
    proof (rule crew_inv_free [OF inv none])
      show "map pk (jobs s1) = map pk (jobs s)"
        unfolding js update_row_def update_where_def using pk by simp
      show "get_job s1 l = get_job s l" if "l \<noteq> i" for l
        unfolding js using lookup_put_other [of l i pk j'' "jobs s"] that pk by simp
    qed
    then show ?thesis unfolding s1(1)
      by (rule crew_inv_add)
        (use none get assms(3) in \<open>auto simp: a new_assignment_def crew_ok_def j''_def\<close>)
  qed
  with get s1 show ?thesis by (simp add: a new_assignment_def j''_def)
qed

lemma accept_offer_InrD:
  assumes "accept_offer clk new_id worker_id actor_id q s = Inr (q', s')"
  obtains w j j' ev a s1 where
    "free_worker s (if worker_id \<noteq> None then worker_id else of_worker_id q) (of_vendor_id q) = Some w"
    "get_job s (of_job_id q) = Some j" "pk j = of_job_id q" "jb_status j \<in> {J_OFFERED, J_MATCHING}" "holds_slot s j (pk w)"
    "pk j' = of_job_id q" "jb_status j' = J_ASSIGNED"
    "assign_worker (clk 0) (clk 2) new_id (Some (pk q)) (of_vendor_id q) (pk w) actor_id
       [(''vendor_id'', JUuid (of_vendor_id q)), (''worker_id'', JUuid (pk w))] j' ev s = Inr (a, s1)"
    "q' = q\<lparr>of_status := O_ACCEPTED, of_responded_at := Some (clk 1)\<rparr>"
    "s' = s1\<lparr>offers := update_where (\<lambda>x. of_job_id x = of_job_id q \<and> pk x \<noteq> pk q \<and> of_status x = O_PENDING)
       (\<lambda>x. x\<lparr>of_status := O_WITHDRAWN\<rparr>) (update_row pk (pk q) (\<lambda>_. q') (offers s1))\<rparr>"
proof -
  from assms obtain w j j' ev a s1 where
    steps: "free_worker s (if worker_id \<noteq> None then worker_id else of_worker_id q) (of_vendor_id q) = Some w"
      "get_job s (of_job_id q) = Some j" "jb_status j \<in> {J_OFFERED, J_MATCHING}" "holds_slot s j (pk w)"
    and ap: "apply_transition (clk 3) J_ASSIGNED (Some actor_id) ''vendor'' (Some ''offer_accepted'') [] j
      = Inr (j', ev)"
    and aw: "assign_worker (clk 0) (clk 2) new_id (Some (pk q)) (of_vendor_id q) (pk w) actor_id
       [(''vendor_id'', JUuid (of_vendor_id q)), (''worker_id'', JUuid (pk w))] j' ev s = Inr (a, s1)"
    and res: "q' = q\<lparr>of_status := O_ACCEPTED, of_responded_at := Some (clk 1)\<rparr>"
      "s' = s1\<lparr>offers := update_where (\<lambda>x. of_job_id x = pk j \<and> pk x \<noteq> pk q \<and> of_status x = O_PENDING)
       (\<lambda>x. x\<lparr>of_status := O_WITHDRAWN\<rparr>) (update_row pk (pk q) (\<lambda>_. q') (offers s1))\<rparr>"
    unfolding accept_offer_def Let_def
    by (auto elim!: bindE_InrE simp del: insert_iff)
  have pk: "pk j = of_job_id q" using steps(2) by (rule lookup_row_key)
  from apply_transition_InrD [OF ap] pk have "pk j' = of_job_id q" "jb_status j' = J_ASSIGNED" by auto
  with steps pk aw res show thesis by (intro that) auto
qed

lemma decide_offer_crew:
  assumes "decide_offer clk new_id offer_id vendor_id accept worker_id actor_id s = (res, s')"
    and "crew_inv (jobs s) (assignments s)"
  shows "crew_inv (jobs s') (assignments s')"
proof (cases "jobs s' = jobs s \<and> assignments s' = assignments s")
  case False
  with assms(1) obtain q q' where "accept_offer clk new_id worker_id actor_id q s = Inr (q', s')"
    by (auto simp: decide_offer_def Let_def split: option.splits if_splits sum.splits)
  then show ?thesis
  proof (cases rule: accept_offer_InrD)
    case (1 w j j' ev a s1)
    have "crewed (jb_status j')" using 1(7) by (simp add: crewed_def)
    from assign_worker_InrD [OF 1(2,6) this 1(8)] assms(2)
    have "crew_inv (jobs s1) (assignments s1)" by blast
    with 1(10) show ?thesis by simp
  qed
qed (use assms(2) in simp)

lemma manual_assign_InrD:
  assumes "manual_assign clk new_id job_id vendor_id worker_id actor_id reason s = (Inr a, s')"
  obtains j j' ev where "manual_check job_id vendor_id worker_id s = Inr j"
    "get_job s job_id = Some j" "pk j' = job_id" "jb_status j' = J_ASSIGNED"
    "apply_transition (clk 1) J_ASSIGNED (Some actor_id) ''operations'' (Some reason) [] j = Inr (j', ev)"
    "assign_worker (clk 0) (clk 0) new_id None vendor_id worker_id actor_id
       [(''vendor_id'', JUuid vendor_id), (''worker_id'', JUuid worker_id), (''reason'', JStr reason)] j' ev s
     = Inr (a, s')"
proof -
  from assms obtain j j' ev where c: "manual_check job_id vendor_id worker_id s = Inr j"
    and ap: "apply_transition (clk 1) J_ASSIGNED (Some actor_id) ''operations'' (Some reason) [] j = Inr (j', ev)"
    and aw: "assign_worker (clk 0) (clk 0) new_id None vendor_id worker_id actor_id
       [(''vendor_id'', JUuid vendor_id), (''worker_id'', JUuid worker_id), (''reason'', JStr reason)] j' ev s
     = Inr (a, s')"
    by (auto simp: manual_assign_def elim!: bindE_InrE split: sum.splits)
  from c have job: "get_job s job_id = Some j" by (auto simp: manual_check_def elim!: bindE_InrE)
  from apply_transition_InrD [OF ap] lookup_row_key [OF job]
  have "pk j' = job_id" "jb_status j' = J_ASSIGNED" by auto
  with c job ap aw show thesis by (intro that)
qed

lemma manual_assign_refused:
  "manual_assign clk new_id job_id vendor_id worker_id actor_id reason s = (Inl e, s') \<Longrightarrow> s' = s"
  by (auto simp: manual_assign_def split: sum.splits)

lemma manual_assign_crew:
  assumes "manual_assign clk new_id job_id vendor_id worker_id actor_id reason s = (res, s')"
    and "crew_inv (jobs s) (assignments s)"
  shows "crew_inv (jobs s') (assignments s')"
proof (cases res)
  case (Inl e)
  with assms manual_assign_refused show ?thesis by blast
next
  case (Inr a)
  with assms(1) show ?thesis
  proof (cases rule: manual_assign_InrD [OF assms(1) [unfolded Inr]])
    case (1 j j' ev)
    have "crewed (jb_status j')" using 1(4) by (simp add: crewed_def)
    from assign_worker_InrD [OF 1(2,3) this 1(6)] assms(2) show ?thesis by blast
  qed
qed

lemma modify_job_lookup:
  assumes "\<And>x. pk (f x) = pk x"
  shows "get_job (modify_job i f s) k = (if k = i then map_option f (get_job s k) else get_job s k)"
    and "map pk (jobs (modify_job i f s)) = map pk (jobs s)"
  using assms by (simp_all add: lookup_update_row map_key_update_row)

text \<open>Releasing a job's crew and changing the job.\<close>

lemma release_modify_crew:
  assumes "crew_inv (jobs s) (assignments s)" and "\<And>x. pk (f x) = pk x"
    and "t = modify_job i f (release_active now i s)"
  shows "crew_inv (jobs t) (assignments t) \<and> count_where (active_for i) (assignments t) = 0
    \<and> get_job t i = map_option f (get_job s i)"
proof -
  note rel = crew_inv_release [OF assms(1), of now i]
  have "crew_inv (jobs t) (assignments (release_active now i s))"
    by (rule crew_inv_free [OF rel [THEN conjunct1] rel [THEN conjunct2, THEN conjunct1]])
      (use rel modify_job_lookup [OF assms(2)] in \<open>simp_all add: assms(3)\<close>)
  with rel modify_job_lookup(1) [OF assms(2)] show ?thesis
    by (simp add: assms(3))
qed

lemma assign_cases:
  assumes "assign cfg tzdb st_distance clk new_id booking_id professional actor_id reason reassign method s
    = (res, s')"
  obtains (refused) e where "assign_check cfg tzdb st_distance clk booking_id professional method s = Inl e"
      "res = Inl e" "s' = s"
  | (assigned) b c w job_id prev s1
    where "assign_check cfg tzdb st_distance clk booking_id professional method s = Inr (b, c, w)"
      "take_job clk new_id b w s = (job_id, prev, s1)" "res = Inr (assigned_booking c (pk w) reason b)"
      "jobs s' = jobs s1" "assignments s' = assignments s1
         @ [new_assignment (clk 0) (new_id 1) job_id None (wk_vendor_id w) (pk w) (Some actor_id)]"
      "job_events s' = job_events s"
      "bookings s' = update_row pk booking_id (assigned_booking c (pk w) reason) (bookings s)"
proof (cases "assign_check cfg tzdb st_distance clk booking_id professional method s")
  case (Inl e)
  with assms show thesis by (intro refused) (auto simp: assign_def)
next
  case (Inr r)
  obtain b c w where r: "r = (b, c, w)" by (cases r)
  obtain job_id prev s1 where t: "take_job clk new_id b w s = (job_id, prev, s1)"
    by (cases "take_job clk new_id b w s")
  have keep: "job_events s1 = job_events s" "bookings s1 = bookings s"
    using t by (auto simp: take_job_def release_active_def split: option.splits)
  from assms Inr r t keep show thesis
    by (intro assigned [of b c w job_id prev s1]) (auto simp: assign_def)
qed

lemma assign_crew:
  assumes "assign cfg tzdb st_distance clk new_id booking_id professional actor_id reason reassign method s
      = (res, s')"
    and inv: "crew_inv (jobs s) (assignments s)" and fresh: "new_id 0 \<notin> pk ` set (jobs s)"
  shows "crew_inv (jobs s') (assignments s')"
  using assms(1)
proof (cases rule: assign_cases)
  case refused
  with inv show ?thesis by simp
next
  case (assigned b c w job_id prev s1)
  let ?a = "new_assignment (clk 0) (new_id 1) job_id None (wk_vendor_id w) (pk w) (Some actor_id)"
  have "crew_inv (jobs s1) (assignments s1) \<and> count_where (active_for job_id) (assignments s1) = 0
      \<and> crew_ok (jobs s1) ?a"
  proof (cases "job_of_booking s (pk b)")
    case (Some j)
    define f where "f = (\<lambda>x :: job. x\<lparr>jb_vendor_id := Some (wk_vendor_id w), jb_worker_id := Some (pk w),
      jb_status := J_ASSIGNED\<rparr>)"
    have s1: "job_id = pk j" "s1 = modify_job (pk j) f (release_active (clk 2) (pk j) s)"
      using assigned(2) Some by (auto simp: take_job_def f_def)
    have "get_job s (pk j) = Some j" using inv Some by (intro job_of_booking_get) (simp_all add: crew_inv_def)
    moreover have "pk (f x) = pk x" for x by (simp add: f_def)
    ultimately show ?thesis using release_modify_crew [OF inv _ s1(2)]
      by (simp add: s1(1) crew_ok_def new_assignment_def f_def crewed_def)
  next
    case None
    let ?j = "assigned_job (clk 0) (new_id 0) b (wk_vendor_id w) (pk w)"
    have s1: "job_id = new_id 0" "jobs s1 = jobs s @ [?j]" "assignments s1 = assignments s"
      using assigned(2) None by (auto simp: take_job_def)
    have "crew_inv (jobs s @ [?j]) (assignments s)"
      using inv fresh by (intro crew_inv_new_job) (simp_all add: assigned_job_def)
    moreover have "crew_ok (jobs s @ [?j]) ?a" using fresh lookup_row_None [of pk "new_id 0" "jobs s"]
      by (simp add: crew_ok_def new_assignment_def s1 lookup_row_append lookup_row_single assigned_job_def crewed_def)
    ultimately show ?thesis using fresh_job_uncrewed [OF inv fresh] s1 by simp
  qed
  then show ?thesis using assigned(4,5) by (auto intro!: crew_inv_add simp: new_assignment_def)
qed

lemma unassign_crew:
  assumes "unassign clk new_id booking_id actor_id reason s = (res, s')"
    and inv: "crew_inv (jobs s) (assignments s)"
  shows "crew_inv (jobs s') (assignments s')"
proof (cases "s' = s")
  case False
  with assms(1) obtain b where "jobs s' = jobs (unassign_job (clk 0) b s)"
      "assignments s' = assignments (unassign_job (clk 0) b s)"
    by (auto simp: unassign_def Let_def split: option.splits if_splits)
  then show ?thesis using inv release_modify_crew [OF inv]
    by (auto simp: unassign_job_def split: option.splits)
qed (use inv in simp)

lemma confirm_crew:
  assumes "confirm tzdb clk new_id booking_id worker_id actor_id reason s = (res, s')"
    and inv: "crew_inv (jobs s) (assignments s)" and fresh: "new_id 0 \<notin> pk ` set (jobs s)"
  shows "crew_inv (jobs s') (assignments s')"
proof (cases "s' = s")
  case False
  with assms(1) obtain b w v j s1 where jc: "job_for_confirmation clk new_id b w v actor_id s = Inr (j, s1)"
    and s': "jobs s' = jobs s1" "assignments s' = assignments s1"
    by (auto simp: confirm_def confirm_check_def elim!: bindE_InrE split: sum.splits prod.splits)
  show ?thesis
  proof (cases "job_of_booking s (pk b)")
    case None
    let ?j = "assigned_job (clk 0) (new_id 0) b (pk v) (pk w)"
    let ?a = "new_assignment (clk 0) (new_id 1) (new_id 0) None (pk v) (pk w) (Some actor_id)"
    have s1: "jobs s1 = jobs s @ [?j]" "assignments s1 = assignments s @ [?a]"
      using jc None by (auto simp: job_for_confirmation_def Let_def assigned_job_def)
    have "crew_inv (jobs s @ [?j]) (assignments s)"
      using inv fresh by (intro crew_inv_new_job) (simp_all add: assigned_job_def)
    moreover have "crew_ok (jobs s @ [?j]) ?a" using fresh lookup_row_None [of pk "new_id 0" "jobs s"]
      by (simp add: crew_ok_def new_assignment_def lookup_row_append lookup_row_single assigned_job_def crewed_def)
    ultimately show ?thesis using fresh_job_uncrewed [OF inv fresh] s1 s'
      by (auto intro!: crew_inv_add simp: new_assignment_def)
  next
    case (Some k)
    with jc inv s' show ?thesis by (auto simp: job_for_confirmation_def split: if_splits)
  qed
qed (use inv in simp)

section \<open>Steps\<close>

inductive dispatch_step :: "db \<Rightarrow> db \<Rightarrow> bool" where
  ds_match: "match clk new_id job_id actor s = (r1, s') \<Longrightarrow> dispatch_step s s'"
| ds_decide: "decide_offer clk i offer_id vendor_id accept worker actor_id s = (r2, s') \<Longrightarrow> dispatch_step s s'"
| ds_expire: "expire_due now s = (n, s') \<Longrightarrow> dispatch_step s s'"
| ds_manual: "manual_assign clk i job_id vendor_id worker_id actor_id reason s = (r3, s') \<Longrightarrow> dispatch_step s s'"
| ds_assign: "assign cfg tzdb st_distance clk new_id booking_id worker_id actor_id reason re method s = (r4, s')
     \<Longrightarrow> new_id 0 \<notin> pk ` set (jobs s) \<Longrightarrow> dispatch_step s s'"
| ds_automatic: "automatic_assign cfg tzdb st_distance clk new_id booking_id actor_id s = (r4, s')
     \<Longrightarrow> new_id 0 \<notin> pk ` set (jobs s) \<Longrightarrow> dispatch_step s s'"
| ds_unassign: "unassign clk i booking_id actor_id reason s = (r4, s') \<Longrightarrow> dispatch_step s s'"
| ds_confirm: "confirm tzdb clk new_id booking_id worker_id actor_id reason s = (r5, s')
     \<Longrightarrow> new_id 0 \<notin> pk ` set (jobs s) \<Longrightarrow> dispatch_step s s'"
| ds_cancel: "cancel_booking clk booking_id user_id s = (r4, s') \<Longrightarrow> dispatch_step s s'"
| ds_job: "job_step s s' \<Longrightarrow> dispatch_step s s'"

lemma dispatch_step_crew:
  assumes "dispatch_step s s'" and "crew_inv (jobs s) (assignments s)"
  shows "crew_inv (jobs s') (assignments s')"
  using assms
proof (induction rule: dispatch_step.induct)
  case (ds_automatic cfg tzdb st_distance clk new_id booking_id actor_id s r4 s')
  then show ?case
    by (auto simp: automatic_assign_def split: sum.splits list.splits intro: assign_crew)
next
  case (ds_cancel clk booking_id user_id s r4 s')
  then have "job_moved s s'" by (intro cancel_moved) (auto simp: crew_inv_def)
  then show ?case using ds_cancel.prems by (rule crew_inv_moved)
next
  case (ds_job s s')
  then show ?case by (blast intro: crew_inv_moved job_step_moved)
next
  case (ds_expire now s n s')
  then show ?case by (auto simp: expire_due_def Let_def)
qed (rule match_crew decide_offer_crew manual_assign_crew unassign_crew assign_crew confirm_crew,
  assumption+)+

lemma dispatch_steps_crew:
  assumes "dispatch_step\<^sup>*\<^sup>* s s'" and "crew_inv (jobs s) (assignments s)"
  shows "crew_inv (jobs s') (assignments s')"
  using assms by (induction rule: rtranclp_induct) (auto intro: dispatch_step_crew)

section \<open>Rounds of offers\<close>

lemma fold_max_ge: "m \<le> fold (\<lambda>x m. max m (f x)) xs (m :: int)"
  by (induction xs arbitrary: m) (auto intro: order_trans [OF max.cobounded1])

lemma fold_max_mem: "x \<in> set xs \<Longrightarrow> f x \<le> fold (\<lambda>x m. max m (f x)) xs (m :: int)"
  by (induction xs arbitrary: m) (auto intro: order_trans [OF _ fold_max_ge])

lemma next_round_new:
  assumes "q \<in> set (offers s)" and "of_job_id q = job_id"
  shows "of_round q < next_round s job_id"
proof -
  have mem: "q \<in> set (offers_for_job s job_id)" using assms by (simp add: offers_for_job_def)
  then obtain p ps where ps: "offers_for_job s job_id = p # ps" by (cases "offers_for_job s job_id") auto
  with mem consider "q = p" | "q \<in> set ps" by auto
  then have "of_round q \<le> fold (\<lambda>x m. max m (of_round x)) ps (of_round p)"
    by cases (auto intro: fold_max_ge fold_max_mem)
  then show ?thesis by (simp add: next_round_def ps)
qed

lemma new_offers_nth:
  assumes "k < length found"
  shows "new_offers now new_id job_id rnd found ! k = new_offer now (new_id k) job_id rnd k (found ! k)"
  using assms by (simp add: new_offers_def nth_enumerate_eq split: prod.splits)

lemma length_new_offers [simp]: "length (new_offers now new_id job_id rnd found) = length found"
  by (simp add: new_offers_def)

lemma new_offer_simps [simp]:
  "of_job_id (new_offer now i job_id rnd k c) = job_id" "of_round (new_offer now i job_id rnd k c) = rnd"
  "of_vendor_id (new_offer now i job_id rnd k c) = pk (fst c)"
  "of_status (new_offer now i job_id rnd k c) = O_PENDING"
  "of_score (new_offer now i job_id rnd k c) = 1000 - int k"
  "of_expires_at (new_offer now i job_id rnd k c) = now + minutes 15"
  "pk (new_offer now i job_id rnd k c) = i"
  by (cases c; simp add: new_offer_def)+

lemma new_offers_facts:
  fixes now new_id job_id rnd and found :: "(vendor \<times> worker) list"
  defines "qs \<equiv> new_offers now new_id job_id rnd found"
  shows "map of_vendor_id qs = map (\<lambda>c. pk (fst c)) found"
    and "map offer_key qs = map (\<lambda>c. (job_id, pk (fst c), rnd)) found"
    and "sorted_wrt (\<lambda>p q. of_score p > of_score q) qs"
    and "q \<in> set qs \<Longrightarrow> of_job_id q = job_id \<and> of_status q = O_PENDING \<and> of_round q = rnd
      \<and> of_expires_at q = now + minutes 15"
proof -
  show "map of_vendor_id qs = map (\<lambda>c. pk (fst c)) found"
    by (rule nth_equalityI) (simp_all add: qs_def new_offers_nth)
  show "map offer_key qs = map (\<lambda>c. (job_id, pk (fst c), rnd)) found"
    by (rule nth_equalityI) (simp_all add: qs_def new_offers_nth offer_key_def)
  show "sorted_wrt (\<lambda>p q. of_score p > of_score q) qs"
    by (simp add: sorted_wrt_iff_nth_less qs_def new_offers_nth)
  show "of_job_id q = job_id \<and> of_status q = O_PENDING \<and> of_round q = rnd
      \<and> of_expires_at q = now + minutes 15" if "q \<in> set qs"
    using that by (auto simp: qs_def in_set_conv_nth new_offers_nth)
qed

text \<open>New offers collide on the unique key exactly when two of them go to one vendor.\<close>

lemma offer_keys_distinct:
  assumes "distinct (map offer_key (offers s))"
  shows "distinct (map offer_key (offers s @ new_offers now new_id job_id (next_round s job_id) found))
    \<longleftrightarrow> distinct (map (\<lambda>c. pk (fst c)) found)"
proof -
  have "(job_id, v, next_round s job_id) \<notin> offer_key ` set (offers s)" for v
    using next_round_new [of _ s job_id] by (force simp: offer_key_def)
  then have "offer_key ` set (offers s) \<inter> set (map (\<lambda>c. (job_id, pk (fst c), next_round s job_id)) found) = {}"
    by auto
  moreover have "distinct (map (\<lambda>c. (job_id, pk (fst c), next_round s job_id)) found)
      \<longleftrightarrow> distinct (map (\<lambda>c. pk (fst c)) found)"
    by (simp add: distinct_map inj_on_def)
  ultimately show ?thesis using assms
    unfolding map_append distinct_append new_offers_facts(2) list.set_map [of offer_key] by blast
qed

lemma match_nonempty:
  assumes "get_job s job_id = Some j" and "List.member MATCHABLE (jb_status j)"
    and "found = candidate_workers s [] 10
      (Option.bind (get_booking s (jb_booking_id j)) bk_provider_worker_id)" and "found \<noteq> []"
    and "qs = new_offers (clk 0) new_id job_id (next_round s job_id) found"
  shows "\<exists>s1. offer_job clk actor_id (length qs) (next_round s job_id) j s = Inr s1
    \<and> match clk new_id job_id actor_id s =
      (if distinct (map offer_key (offers s @ qs)) then (Inr qs, s1\<lparr>offers := offers s1 @ qs\<rparr>)
       else (Inl (IntegrityError ''dispatch_offers_job_vendor_round''), s))"
proof -
  have "\<exists>s1. offer_job clk actor_id (length qs) (next_round s job_id) j s = Inr s1"
    using assms(2) by (auto simp: offer_job_def MATCHABLE_def apply_transition_def can_transition_def)
  moreover have "pk j = job_id" using assms(1) by (rule lookup_row_key)
  ultimately show ?thesis using assms by (auto simp: match_def Let_def)
qed

section \<open>The worker whose time a booking holds\<close>

definition in_local_day :: "zone \<Rightarrow> datetime \<Rightarrow> datetime \<Rightarrow> bool" where
  "in_local_day z a b =
     (let d = date_of (fst (from_utc z a)); midnight = combine d 0; last_instant = combine d (days 1 - 1)
      in a < last_instant - utc_offset z False last_instant
         \<and> midnight - utc_offset z False midnight < b)"

lemma counted_hold_overlaps:
  assumes "h \<in> set (holds s)" and "hold_counts s now h"
    and "ch_slot_start_utc h = a" "ch_slot_end_utc h = b" "a < b" and "in_local_day z a b"
  shows "snd (usage_for s now (ch_professional_candidate_id h) (date_of (fst (from_utc z a))) a b z) \<ge> 1"
proof -
  define d where "d = date_of (fst (from_utc z a))"
  define m where "m = combine d 0 - utc_offset z False (combine d 0)"
  define l where "l = combine d (days 1 - 1) - utc_offset z False (combine d (days 1 - 1))"
  define n where "n = count_where (\<lambda>g. ch_slot_start_utc g < b \<and> ch_slot_end_utc g > a)
      (day_holds s (ch_professional_candidate_id h) now m l)"
  have "m < b" "a < l" using assms(6) by (simp_all add: in_local_day_def Let_def m_def l_def d_def)
  then have "n \<noteq> 0" using assms(1-5) by (auto simp: n_def count_where_0_iff day_holds_def)
  moreover have "snd (usage_for s now (ch_professional_candidate_id h) d a b z) \<ge> int n"
    by (simp add: usage_for_def Let_def n_def m_def l_def)
  ultimately show ?thesis by (simp add: d_def)
qed

lemma one_at_a_time:
  assumes "\<And>r. r \<in> set (capacity_rules s) \<Longrightarrow> pcr_max_concurrent_jobs r \<le> 1"
  shows "max_concurrent_jobs (limit_for s vendor_id w d) \<le> 1"
proof -
  define rs where "rs = sort_key (\<lambda>r. if pcr_professional_id r = None then 1 else 0 :: int)
    (sort_key (\<lambda>r. - pcr_effective_from r) (filter (\<lambda>r. pcr_provider_id r = vendor_id
       \<and> (pcr_professional_id r = None \<or> pcr_professional_id r = Some (pk w))
       \<and> pcr_effective_from r \<le> d
       \<and> (case pcr_effective_until r of None \<Rightarrow> True | Some e \<Rightarrow> d \<le> e)) (capacity_rules s)))"
  have "r \<in> set (capacity_rules s)" if "r \<in> set rs" for r using that by (simp add: rs_def)
  then show ?thesis using assms unfolding limit_for_def rs_def [symmetric]
    by (auto split: list.splits)
qed

lemma held_worker_no_candidate:
  assumes "candidates tzdb st_distance now s sv ad a b False None = Inr cs"
    and "tzdb (ad_timezone_name ad) = Some z" and "in_local_day z a b" and "a < b"
    and "h \<in> set (holds s)" "hold_counts s now h" "ch_slot_start_utc h = a" "ch_slot_end_utc h = b"
    and "\<And>r. r \<in> set (capacity_rules s) \<Longrightarrow> pcr_max_concurrent_jobs r \<le> 1"
    and "c \<in> set cs"
  shows "professional_id c \<noteq> ch_professional_candidate_id h"
proof
  assume same: "professional_id c = ch_professional_candidate_id h"
  from assms(1,10) obtain z' w v where z': "tzdb (ad_timezone_name ad) = Some z'"
    and c: "candidate_of st_distance now s z' sv ad a b False (w, v) = Some c"
    by (rule candidates_InrD)
  with assms(2) have "z' = z" by simp
  with candidate_of_SomeD [OF c] same
  have "fits_day s now z a b False w v (capacity_minutes c)" "pk w = ch_professional_candidate_id h"
    by auto
  then have "snd (usage_for s now (ch_professional_candidate_id h) (date_of (fst (from_utc z a))) a b z)
      < max_concurrent_jobs (limit_for s (pk v) w (date_of (fst (from_utc z a))))"
    by (auto simp: fits_day_def Let_def split: prod.splits)
  also have "\<dots> \<le> 1" using assms(9) by (rule one_at_a_time)
  finally show False using counted_hold_overlaps [OF assms(5-8,4,3)] by simp
qed

section \<open>Properties\<close>

text \<open>C34.  However matching, offers, manual and operator assignment, confirmation, cancellation and
  the jobs' own commands interleave, a job has at most one active assignment, and a job with an active
  assignment has exactly that vendor and worker and is past matching.\<close>
theorem crew_invariant:
  assumes "dispatch_step\<^sup>*\<^sup>* s s'" and "crew_inv (jobs s) (assignments s)"
  shows "count_where (\<lambda>a. as_job_id a = job_id \<and> as_status a = AS_ACTIVE) (assignments s') \<le> 1
    \<and> (\<forall>a. active_assignment s' job_id = Some a \<longrightarrow> (\<exists>j. get_job s' job_id = Some j
        \<and> jb_vendor_id j = Some (as_vendor_id a) \<and> jb_worker_id j = Some (as_worker_id a)
        \<and> jb_status j \<notin> {J_CREATED, J_MATCHING, J_OFFERED}))"
proof -
  from dispatch_steps_crew [OF assms] have inv: "crew_inv (jobs s') (assignments s')" .
  have "crew_ok (jobs s') a \<and> as_job_id a = job_id" if "active_assignment s' job_id = Some a" for a
    using inv find_SomeD [OF that [unfolded active_assignment_def]] by (simp add: crew_inv_def)
  moreover have "count_where (active_for job_id) (assignments s') \<le> 1" using inv by (simp add: crew_inv_def)
  ultimately show ?thesis by (fastforce simp: crew_ok_def crewed_def active_for_def [abs_def])
qed

text \<open>C35.  A vendor's acceptance gives the job to one of its free workers, who holds the reserved slot,
  and settles the round: the job is ASSIGNED, every other offer for it is no longer pending, and no
  other offer for the job can be accepted afterwards.\<close>
theorem accepted_offer_exclusive:
  assumes "decide_offer clk i offer_id vendor_id True worker actor_id s = (Inr q', s')"
  shows "of_status q' = O_ACCEPTED \<and> get_offer s' offer_id = Some q' \<and> of_vendor_id q' = vendor_id
    \<and> (\<exists>j w. get_job s' (of_job_id q') = Some j \<and> jb_status j = J_ASSIGNED \<and> jb_worker_id j = Some (pk w)
        \<and> w \<in> set (workers s) \<and> wk_vendor_id w = vendor_id \<and> wk_available w)
    \<and> (\<forall>q \<in> set (offers s'). of_job_id q = of_job_id q' \<longrightarrow> of_status q \<noteq> O_PENDING)
    \<and> (\<forall>k q. get_offer s' k = Some q \<longrightarrow> of_job_id q = of_job_id q' \<longrightarrow>
        (\<exists>e. fst (decide_offer clk' i' k vendor_id' True worker' actor_id' s') = Inl e))"
proof -
  from assms obtain q where q: "get_offer s offer_id = Some q" "of_vendor_id q = vendor_id"
    "of_status q = O_PENDING" and acc: "accept_offer clk i worker actor_id q s = Inr (q', s')"
    by (auto simp: decide_offer_def Let_def split: option.splits if_splits sum.splits)
  have pk: "pk q = offer_id" using q(1) by (rule lookup_row_key)
  from acc show ?thesis
  proof (cases rule: accept_offer_InrD)
    case (1 w j j' ev a s1)
    have "crewed (jb_status j')" using 1(7) by (simp add: crewed_def)
    note aw = assign_worker_InrD [OF 1(2,6) this 1(8)]
    have job: "get_job s' (of_job_id q) = Some (j'\<lparr>jb_vendor_id := Some vendor_id, jb_worker_id := Some (pk w)\<rparr>)"
      using aw 1(10) q(2) by simp
    have w: "w \<in> set (workers s)" "wk_vendor_id w = vendor_id" "wk_available w"
      using find_SomeD [OF 1(1) [unfolded free_worker_def]] q(2) by auto
    have os: "offers s' = update_where (\<lambda>x. of_job_id x = of_job_id q \<and> pk x \<noteq> pk q \<and> of_status x = O_PENDING)
        (\<lambda>x. x\<lparr>of_status := O_WITHDRAWN\<rparr>) (update_row pk offer_id (\<lambda>_. q') (offers s))"
      using 1(10) aw pk by simp
    have "get_offer s' offer_id = Some q'"
      unfolding os using lookup_put [OF q(1), of q'] pk 1(9) by (simp add: lookup_update_where)
    moreover have settled: "of_status x \<noteq> O_PENDING" if "x \<in> set (offers s')" "of_job_id x = of_job_id q" for x
      using that pk 1(9) unfolding os by (auto simp: update_where_def update_row_def split: if_splits)
    moreover have "\<exists>e. fst (decide_offer clk' i' k vendor_id' True worker' actor_id' s') = Inl e"
      if "get_offer s' k = Some x" "of_job_id x = of_job_id q" for k x
      using that settled [OF lookup_row_mem [OF that(1)] that(2)] by (auto simp: decide_offer_def)
    ultimately show ?thesis using job w 1(7,9) q(2) by auto
  qed
qed

text \<open>Matching a job that waits for a provider, with \<open>found\<close> the available workers: with none the
  job is MATCHING; when each belongs to a different vendor, each vendor gets one offer of a new round,
  open for fifteen minutes, in descending score, and the job is OFFERED; when two belong to one vendor
  the request fails on the unique key and nothing changes.\<close>
lemma match_decides:
  assumes "get_job s job_id = Some j" and "List.member MATCHABLE (jb_status j)"
    and "distinct (map offer_key (offers s))"
    and "found = candidate_workers s [] 10
      (Option.bind (get_booking s (jb_booking_id j)) bk_provider_worker_id)"
  shows "match clk new_id job_id actor_id s = (res, s') \<Longrightarrow>
    (if found = [] then res = Inr [] \<and> (\<exists>j'. get_job s' job_id = Some j' \<and> jb_status j' = J_MATCHING)
     else if distinct (map (\<lambda>c. pk (fst c)) found)
     then \<exists>qs. res = Inr qs \<and> offers s' = offers s @ qs \<and> map of_vendor_id qs = map (\<lambda>c. pk (fst c)) found
       \<and> (\<exists>j'. get_job s' job_id = Some j' \<and> jb_status j' = J_OFFERED)
       \<and> sorted_wrt (\<lambda>p q. of_score p > of_score q) qs
       \<and> (\<forall>q \<in> set qs. of_status q = O_PENDING \<and> of_expires_at q = clk 0 + minutes 15
           \<and> (\<forall>p \<in> set (offers s). of_job_id p = job_id \<longrightarrow> of_round p < of_round q))
     else res = Inl (IntegrityError ''dispatch_offers_job_vendor_round'') \<and> s' = s)"
proof -
  assume run: "match clk new_id job_id actor_id s = (res, s')"
  define qs where "qs = new_offers (clk 0) new_id job_id (next_round s job_id) found"
  show ?thesis
  proof (cases "found = []")
    case True
    have "\<exists>j' ev. apply_transition (clk 0) J_MATCHING actor_id ''system'' (Some ''no_candidates'') [] j = Inr (j', ev)"
      using assms(2) by (auto simp: MATCHABLE_def apply_transition_def can_transition_def)
    then obtain j' ev where ap: "apply_transition (clk 0) J_MATCHING actor_id ''system''
        (Some ''no_candidates'') [] j = Inr (j', ev)" by blast
    from apply_transition_InrD [OF ap] have "jb_status j' = J_MATCHING" "pk j' = job_id"
      using lookup_row_key [OF assms(1)] by auto
    moreover have "res = Inr []" "s' = put_job j' ev s"
      using run assms(1,2,4) True ap by (auto simp: match_def Let_def)
    ultimately show ?thesis using True lookup_put [OF assms(1), of j'] by (simp add: put_job_def)
  next
    case False
    from match_nonempty [where clk = clk and actor_id = actor_id, OF assms(1,2,4) False qs_def] obtain s1
      where s1: "offer_job clk actor_id (length qs) (next_round s job_id) j s = Inr s1"
      and m: "match clk new_id job_id actor_id s =
        (if distinct (map offer_key (offers s @ qs)) then (Inr qs, s1\<lparr>offers := offers s1 @ qs\<rparr>)
         else (Inl (IntegrityError ''dispatch_offers_job_vendor_round''), s))" by blast
    note keys = offer_keys_distinct [OF assms(3), of "clk 0" new_id job_id found, folded qs_def]
    note facts = new_offers_facts [where now = "clk 0" and new_id = new_id and job_id = job_id
        and rnd = "next_round s job_id" and found = found, folded qs_def]
    show ?thesis
    proof (cases "distinct (map (\<lambda>c. pk (fst c)) found)")
      case True
      with keys m run have "res = Inr qs" "s' = s1\<lparr>offers := offers s1 @ qs\<rparr>" by auto
      moreover from offer_job_InrD [OF assms(1) s1] obtain j2 where "offers s1 = offers s"
        "get_job s1 job_id = Some j2" "jb_status j2 = J_OFFERED" by blast
      ultimately show ?thesis using True False facts next_round_new [of _ s job_id] by simp
    next
      case dup: False
      with keys have "\<not> distinct (map offer_key (offers s @ qs))" by blast
      with m run have "res = Inl (IntegrityError ''dispatch_offers_job_vendor_round'')" "s' = s"
        by (simp_all split: if_splits)
      with dup False show ?thesis by simp
    qed
  qed
qed

text \<open>Manual assignment, once its own checks passed and no assignment is active: a job that is
  MATCHING or OFFERED goes to the worker; a job that is CREATED, which the checks admit, is always
  refused by the job lifecycle.\<close>
lemma manual_assign_decides:
  assumes "manual_check job_id vendor_id worker_id s = Inr j" and "active_assignment s job_id = None"
  shows "if jb_status j = J_CREATED
    then manual_assign clk i job_id vendor_id worker_id actor_id reason s
      = (Inl (HTTPException 409 ''Cannot transition job''), s)
    else \<exists>a s' j'. manual_assign clk i job_id vendor_id worker_id actor_id reason s = (Inr a, s')
      \<and> get_job s' job_id = Some j' \<and> jb_status j' = J_ASSIGNED \<and> jb_vendor_id j' = Some vendor_id
      \<and> jb_worker_id j' = Some worker_id \<and> assignments s' = assignments s @ [a]
      \<and> as_worker_id a = worker_id \<and> as_status a = AS_ACTIVE"
proof -
  from assms(1) have job: "get_job s job_id = Some j" and st: "List.member MATCHABLE (jb_status j)"
    by (auto simp: manual_check_def elim!: bindE_InrE)
  show ?thesis
  proof (cases "jb_status j = J_CREATED")
    case True
    with assms(1) show ?thesis
      by (simp add: manual_assign_def apply_transition_def can_transition_def)
  next
    case False
    with st obtain j' ev where ap: "apply_transition (clk 1) J_ASSIGNED (Some actor_id) ''operations''
        (Some reason) [] j = Inr (j', ev)"
      by (auto simp: MATCHABLE_def apply_transition_def can_transition_def)
    have j': "pk j' = job_id" "crewed (jb_status j')" "jb_status j' = J_ASSIGNED"
      using apply_transition_InrD [OF ap] lookup_row_key [OF job] by (auto simp: crewed_def)
    define meta where "meta = [(''vendor_id'', JUuid vendor_id), (''worker_id'', JUuid worker_id),
      (''reason'', JStr reason)]"
    obtain a s' where aw: "assign_worker (clk 0) (clk 0) i None vendor_id worker_id actor_id meta j' ev s
        = Inr (a, s')"
      using assms(2) j'(1) by (simp add: assign_worker_def Let_def)
    then have run: "manual_assign clk i job_id vendor_id worker_id actor_id reason s = (Inr a, s')"
      using assms(1) ap by (simp add: manual_assign_def meta_def)
    note eff = assign_worker_InrD [OF job j'(1,2) aw]
    have "jb_status (j'\<lparr>jb_vendor_id := Some vendor_id, jb_worker_id := Some worker_id\<rparr>) = J_ASSIGNED"
      using j'(3) by simp
    with False run eff show ?thesis by force
  qed
qed

text \<open>A booking made from a hold keeps that hold counted until it has a job.  So where providers
  take one visit at a time, the operator cannot assign the booking to the very worker whose time the
  hold reserved: the search finds the worker occupied and the request fails.\<close>
lemma held_worker_not_assignable:
  assumes b: "get_booking s booking_id = Some b" and job: "job_of_booking s booking_id = None"
    and h: "h \<in> set (holds s)" "ch_status h = H_CONVERTED" "ch_booking_id h = Some booking_id"
      "ch_slot_start_utc h = bk_window_start b" "ch_slot_end_utc h = bk_window_end b"
      "bk_window_start b < bk_window_end b"
    and ad: "get_address s (bk_address_id b) = Some ad" "tzdb (ad_timezone_name ad) = Some z"
      "in_local_day z (bk_window_start b) (bk_window_end b)"
    and rules: "\<And>r. r \<in> set (capacity_rules s) \<Longrightarrow> pcr_max_concurrent_jobs r \<le> 1"
  shows "\<exists>e. assign cfg tzdb st_distance clk new_id booking_id (ch_professional_candidate_id h) actor_id
    reason reassign method s = (Inl e, s)"
proof (cases "assign_check cfg tzdb st_distance clk booking_id (ch_professional_candidate_id h) method s")
  case (Inl e)
  then show ?thesis by (simp add: assign_def)
next
  case (Inr r)
  have pk: "pk b = booking_id" using b by (rule lookup_row_key)
  from Inr b pk obtain cs c where st: "List.member ASSIGNABLE (bk_status b)"
    and found: "booking_candidates tzdb st_distance (clk 0) s booking_id = Inr cs"
    and c: "candidate_for (ch_professional_candidate_id h) cs = Inr c"
    by (auto simp: assign_check_def elim!: bindE_InrE)
  have "ch_booking_id h \<noteq> Some (jb_booking_id j)" if "j \<in> set (jobs s)" for j
    using job that h(3) by (auto simp: job_of_booking_def find_None_iff)
  then have counts: "hold_counts s (clk 0) h"
    using h(2,3) pk st lookup_row_mem [OF b] by (auto simp: hold_counts_def list_ex_iff ASSIGNABLE_def)
  from found b ad(1) obtain sv where cs: "candidates tzdb st_distance (clk 0) s sv ad (bk_window_start b)
      (bk_window_end b) False None = Inr cs"
    by (auto simp: booking_candidates_def elim!: bindE_InrE)
  have c': "c \<in> set cs" "professional_id c = ch_professional_candidate_id h"
    using c by (auto simp: candidate_for_def dest: find_SomeD)
  have "professional_id c \<noteq> ch_professional_candidate_id h"
    using cs ad(2,3) h(6,1) counts h(4,5) rules c'(1) by (rule held_worker_no_candidate)
  with c'(2) show ?thesis by contradiction
qed

section \<open>Samples\<close>

text \<open>The crew of a freshly confirmed booking.\<close>

theorem crew_invariant_witness:
  "\<exists>s'. dispatch_step busy_db s' \<and>
     count_where (\<lambda>a. as_job_id a = 300 \<and> as_status a = AS_ACTIVE) (assignments s') \<le> 1"
proof -
  obtain j s' where eq: "confirm sample_tzdb (\<lambda>_. sample_now) (\<lambda>i. 300 + i) 81 40 7 ''ok'' busy_db = (Inr j, s')"
    by (rule busy_confirmed)
  have fresh: "300 + 0 \<notin> pk ` set (jobs busy_db)" by code_simp
  have inv: "crew_inv (jobs busy_db) (assignments busy_db)"
    by (simp add: busy_db_def area_db_def sample_db_def empty_db_def crew_inv_def)
  have step: "dispatch_step busy_db s'" by (rule ds_confirm [OF eq]) (rule fresh)
  from crew_invariant [OF r_into_rtranclp [of dispatch_step, OF step] inv, of 300] step show ?thesis by blast
qed

definition offered_job :: job where
  "offered_job = sample_job\<lparr>jb_status := J_MATCHING, jb_vendor_id := None, jb_worker_id := None\<rparr>"

definition offer_db :: db where
  "offer_db = sample_db\<lparr>bookings := [sample_booking\<lparr>bk_provider_worker_id := Some 40\<rparr>],
     jobs := [offered_job]\<rparr>"

definition matched :: "(db, dispatch_offer list) outcome" where
  "matched = match (\<lambda>_. sample_now) (\<lambda>i. 600 + i) 80 None offer_db"

definition accepted :: "(db, dispatch_offer) outcome" where
  "accepted = decide_offer (\<lambda>_. sample_now) 700 600 30 True None 7 (snd matched)"

theorem match_decides_witness:
  "\<exists>qs. fst matched = Inr qs \<and> map of_vendor_id qs = [30]"
proof -
  have job: "get_job offer_db 80 = Some offered_job" "List.member MATCHABLE (jb_status offered_job)"
    "distinct (map offer_key (offers offer_db))" by code_simp+
  have found: "[(sample_vendor, sample_worker)] = candidate_workers offer_db [] 10
      (Option.bind (get_booking offer_db (jb_booking_id offered_job)) bk_provider_worker_id)" by code_simp
  have "match (\<lambda>_. sample_now) (\<lambda>i. 600 + i) 80 None offer_db = (fst matched, snd matched)"
    by (simp add: matched_def)
  from match_decides [OF job found this] show ?thesis by (auto simp: sample_vendor_def)
qed

theorem accepted_offer_exclusive_witness:
  "\<exists>q' j. fst accepted = Inr q' \<and> of_status q' = O_ACCEPTED \<and> get_job (snd accepted) 80 = Some j
     \<and> jb_status j = J_ASSIGNED"
proof -
  have st: "\<not> isl (fst accepted)" by code_simp
  define q' where "q' = projr (fst accepted)"
  have eq: "decide_offer (\<lambda>_. sample_now) 700 600 30 True None 7 (snd matched) = (Inr q', snd accepted)"
    using st unfolding accepted_def [symmetric] q'_def by (simp add: prod_eq_iff)
  have "of_job_id q' = 80" unfolding q'_def by code_simp
  with accepted_offer_exclusive [OF eq] have "of_status q' = O_ACCEPTED"
    "\<exists>j. get_job (snd accepted) 80 = Some j \<and> jb_status j = J_ASSIGNED" by metis+
  moreover have "fst accepted = Inr q'" using st by (simp add: q'_def)
  ultimately show ?thesis by blast
qed

lemma manual_assign_decides_witness:
  "fst (manual_assign (\<lambda>_. sample_now) 700 80 30 40 7 ''ok''
     (offer_db\<lparr>jobs := [offered_job\<lparr>jb_status := J_CREATED\<rparr>]\<rparr>))
   = Inl (HTTPException 409 ''Cannot transition job'')"
proof -
  let ?s = "offer_db\<lparr>jobs := [offered_job\<lparr>jb_status := J_CREATED\<rparr>]\<rparr>"
  have "manual_check 80 30 40 ?s = Inr (offered_job\<lparr>jb_status := J_CREATED\<rparr>)" by code_simp
  moreover have "active_assignment ?s 80 = None" by code_simp
  ultimately have "if jb_status (offered_job\<lparr>jb_status := J_CREATED\<rparr>) = J_CREATED
    then manual_assign (\<lambda>_. sample_now) 700 80 30 40 7 ''ok'' ?s
      = (Inl (HTTPException 409 ''Cannot transition job''), ?s) else True"
    using manual_assign_decides [of 80 30 40 ?s _ "\<lambda>_. sample_now" 700 7 "''ok''"] by simp
  then show ?thesis by simp
qed

text \<open>The booking requested from the sample hold, and the worker of that hold.\<close>

lemma held_worker_not_assignable_witness:
  "\<exists>e. assign public_settings sample_tzdb no_distance (\<lambda>_. sample_now) (\<lambda>i. 800 + i) 81 40 7 ''ok'' False
     AM_MANUAL (snd requested) = (Inl e, snd requested)"
proof -
  define b where "b = hd (bookings (snd requested))"
  define h where "h = hd (holds (snd requested))"
  have b: "get_booking (snd requested) 81 = Some b" unfolding b_def by code_simp
  have job: "job_of_booking (snd requested) 81 = None" by code_simp
  have h: "h \<in> set (holds (snd requested))" "ch_status h = H_CONVERTED" "ch_booking_id h = Some 81"
    "ch_slot_start_utc h = bk_window_start b" "ch_slot_end_utc h = bk_window_end b"
    "bk_window_start b < bk_window_end b" unfolding h_def b_def by code_simp+
  have w: "ch_professional_candidate_id h = 40" unfolding h_def by code_simp
  define ad where "ad = hd (addresses (snd requested))"
  have ad: "get_address (snd requested) (bk_address_id b) = Some ad"
    "sample_tzdb (ad_timezone_name ad) = Some new_york"
    "in_local_day new_york (bk_window_start b) (bk_window_end b)" unfolding ad_def b_def by code_simp+
  have rules: "capacity_rules (snd requested) = []" by code_simp
  have "\<exists>e. assign public_settings sample_tzdb no_distance (\<lambda>_. sample_now) (\<lambda>i. 800 + i) 81
      (ch_professional_candidate_id h) 7 ''ok'' False AM_MANUAL (snd requested) = (Inl e, snd requested)"
    by (rule held_worker_not_assignable [OF b job h ad(1)]) (use ad(2,3) rules in simp_all)
  then show ?thesis unfolding w .
qed

end
