(* ===== verification/Outbox.thy ===== *)
theory Outbox
  imports Identifiers Database
begin

text \<open>
  \<^verbatim>\<open>common/outbox_service.py\<close> and the delivery of \<^verbatim>\<open>workers/tasks.py\<close>: integration events are claimed
  under a lease, delivered, and settled as delivered, retried with a growing delay, failed for good or
  parked until their integration is configured.

  The delivery itself is a parameter \<open>deliver\<close>: it takes the event and the store to its result, or to
  the exception's text, code and flags, and the store.  \<open>jitter\<close> is what \<^verbatim>\<open>random.randint(0, 15)\<close>
  returns.
\<close>

section \<open>Redaction of diagnostics\<close>

text \<open>
  \<^verbatim>\<open>re.sub(r"(?i)(password|secret|token|api[_-]?key)\s*[:=]\s*\S+", r"\1=[REDACTED]", text)\<close>.  At a
  position, \<open>secret_word\<close> is the first alternative that matches, with the text after it;
  \<open>secret_match\<close> adds the separator and the value.
\<close>

definition has_prefix_ci :: "string \<Rightarrow> string \<Rightarrow> bool" where
  "has_prefix_ci p t = (lower (take (length p) t) = p)"

definition secret_word :: "string \<Rightarrow> (string \<times> string) option" where
  "secret_word t =
     map_option (\<lambda>p. (take (length p) t, drop (length p) t))
       (find (\<lambda>p. has_prefix_ci p t)
         [''password'', ''secret'', ''token'', ''api_key'', ''api-key'', ''apikey''])"

definition secret_match :: "string \<Rightarrow> (string \<times> string) option" where
  "secret_match t =
     (case secret_word t of
        None \<Rightarrow> None
      | Some (word, rest) \<Rightarrow>
          (case lstrip rest of
             [] \<Rightarrow> None
           | c # after \<Rightarrow>
               if c \<noteq> CHR '':'' \<and> c \<noteq> CHR ''='' then None
               else
                 let value = lstrip after
                 in if value = [] then None
                    else Some (word, dropWhile (\<lambda>x. \<not> is_space x) value)))"

lemma length_lstrip_le: "length (lstrip t) \<le> length t"
  by (simp add: lstrip_def length_dropWhile_le)

lemma secret_word_rest: "secret_word t = Some (word, rest) \<Longrightarrow> length rest \<le> length t"
  by (auto simp: secret_word_def)

lemma secret_match_shorter:
  assumes "secret_match t = Some (word, rest)"
  shows "length rest < length t"
proof -
  from assms obtain w r c after where w: "secret_word t = Some (w, r)"
    and l: "lstrip r = c # after" and rest: "rest = dropWhile (\<lambda>x. \<not> is_space x) (lstrip after)"
    by (auto simp: secret_match_def Let_def split: option.splits list.splits if_splits)
  have "length rest \<le> length after"
    using length_dropWhile_le [of _ "lstrip after"] length_lstrip_le [of after] unfolding rest
    by (rule order_trans)
  moreover have "length after < length (lstrip r)" by (simp add: l)
  ultimately show ?thesis using length_lstrip_le [of r] secret_word_rest [OF w] by linarith
qed

function redact :: "string \<Rightarrow> string" where
  "redact t =
     (case secret_match t of
        Some (word, rest) \<Rightarrow> word @ ''=[REDACTED]'' @ redact rest
      | None \<Rightarrow> (case t of [] \<Rightarrow> [] | c # cs \<Rightarrow> c # redact cs))"
  by auto
termination by (relation "measure length") (auto dest: secret_match_shorter)

declare redact.simps [simp del]

section \<open>Definitions\<close>

definition MAX_ATTEMPTS :: nat where "MAX_ATTEMPTS = 5"
definition DEFAULT_LEASE_SECONDS :: int where "DEFAULT_LEASE_SECONDS = 300"
definition INTEGRATION_DISABLED_ERROR_CODE :: string where
  "INTEGRATION_DISABLED_ERROR_CODE = ''INTEGRATION_DISABLED''"

text \<open>\<^verbatim>\<open>LIKE\<close> with a prefix that has no wildcard of its own.\<close>

definition like_prefix :: "string \<Rightarrow> string \<Rightarrow> bool" where
  "like_prefix p t = (take (length p) t = p)"

definition sync_public_submission_status :: "integration_event list \<Rightarrow> downstream_status \<Rightarrow> db \<Rightarrow> db" where
  "sync_public_submission_status es st s =
     (let ids = map ev_aggregate_id (filter (\<lambda>e. ev_aggregate_type e = ''public_submission'') es)
      in if ids = [] then s
         else s\<lparr>submissions := update_where (\<lambda>p. List.member ids (pk p))
                (\<lambda>p. p\<lparr>sub_downstream_status := st\<rparr>) (submissions s)\<rparr>)"

definition activated_event :: "datetime \<Rightarrow> integration_event \<Rightarrow> integration_event" where
  "activated_event now e =
     (let e1 = e\<lparr>ev_status := E_PENDING, ev_next_attempt_at := now\<rparr>
      in if ev_last_error_code e = Some INTEGRATION_DISABLED_ERROR_CODE
         then e1\<lparr>ev_last_error := None, ev_last_error_code := None, ev_last_error_at := None\<rparr> else e1)"

definition activate_pending_configuration :: "string \<Rightarrow> string \<Rightarrow> datetime \<Rightarrow> db \<Rightarrow> nat \<times> db" where
  "activate_pending_configuration event_prefix aggregate_type now s =
     (let P = (\<lambda>e. ev_aggregate_type e = aggregate_type \<and> ev_status e = E_PENDING_CONFIGURATION
                 \<and> like_prefix event_prefix (ev_event_type e))
      in (count_where P (events s),
          sync_public_submission_status (filter P (events s)) DS_PENDING
            (s\<lparr>events := update_where P (activated_event now) (events s)\<rparr>)))"

definition parked_event :: "datetime \<Rightarrow> integration_event \<Rightarrow> integration_event" where
  "parked_event now e =
     e\<lparr>ev_status := E_PENDING_CONFIGURATION, ev_claimed_at := None, ev_lease_expires_at := None,
       ev_claim_token := None, ev_last_error := Some ''Integration disabled or unconfigured'',
       ev_last_error_code := Some INTEGRATION_DISABLED_ERROR_CODE, ev_last_error_at := Some now\<rparr>"

definition park_unconfigured :: "string \<Rightarrow> string \<Rightarrow> datetime \<Rightarrow> db \<Rightarrow> nat \<times> db" where
  "park_unconfigured event_prefix aggregate_type now s =
     (let P = (\<lambda>e. ev_aggregate_type e = aggregate_type \<and> like_prefix event_prefix (ev_event_type e)
                 \<and> ev_status e \<in> {E_PENDING, E_RETRYING, E_FAILED_RETRYABLE, E_PROCESSING})
      in (count_where P (events s),
          sync_public_submission_status (filter P (events s)) DS_PENDING_CONFIGURATION
            (s\<lparr>events := update_where P (parked_event now) (events s)\<rparr>)))"

definition claimable :: "datetime \<Rightarrow> integration_event \<Rightarrow> bool" where
  "claimable now e =
     (ev_status e \<in> {E_PENDING, E_RETRYING, E_FAILED_RETRYABLE} \<and> ev_next_attempt_at e \<le> now
      \<or> ev_status e = E_PROCESSING
        \<and> (case ev_lease_expires_at e of None \<Rightarrow> False | Some t \<Rightarrow> t \<le> now))"

definition claimed_event :: "datetime \<Rightarrow> int \<Rightarrow> uuid \<Rightarrow> integration_event \<Rightarrow> integration_event" where
  "claimed_event now lease_seconds token e =
     e\<lparr>ev_status := E_PROCESSING, ev_claimed_at := Some now,
       ev_lease_expires_at := Some (now + seconds lease_seconds), ev_claim_token := Some token,
       ev_attempt_count := ev_attempt_count e + 1\<rparr>"

definition put_event :: "integration_event \<Rightarrow> db \<Rightarrow> db" where
  "put_event e s = s\<lparr>events := update_row pk (pk e) (\<lambda>_. e) (events s)\<rparr>"

definition claim ::
  "nat \<Rightarrow> datetime \<Rightarrow> int \<Rightarrow> (nat \<Rightarrow> uuid) \<Rightarrow> db \<Rightarrow> integration_event list \<times> db"
where
  "claim limit now lease_seconds new_id s =
     (let found = take limit (sort_key created_at (filter (claimable now) (events s)));
          claimed = map (\<lambda>(k, e). claimed_event now lease_seconds (new_id k) e) (enumerate 0 found)
      in (claimed, fold put_event claimed s))"

text \<open>What a delivery returns or raises.\<close>

record delivery_result =
  dr_external_id :: "int option"
  dr_model :: "string option"

record delivery_error =
  de_message :: string
  de_code :: string
  de_terminal :: bool
  de_pending_configuration :: bool

type_synonym delivery = "delivery_error + delivery_result option"

definition backoff :: "nat \<Rightarrow> int" where
  "backoff n = min (30 * 2 ^ (n - 1)) 3600"

definition delivered_event ::
  "datetime \<Rightarrow> delivery_result option \<Rightarrow> integration_event \<Rightarrow> integration_event"
where
  "delivered_event now result e =
     (let e1 = e\<lparr>ev_status := E_DELIVERED, ev_processed_at := Some now, ev_last_error := None,
                 ev_last_error_code := None\<rparr>
      in case result of
           None \<Rightarrow> e1
         | Some r \<Rightarrow> e1\<lparr>ev_external_model := dr_model r,
                       ev_external_record_id := map_option str_int (dr_external_id r)\<rparr>)"

definition failed_event ::
  "(nat \<Rightarrow> datetime) \<Rightarrow> int \<Rightarrow> delivery_error \<Rightarrow> integration_event \<Rightarrow> integration_event"
where
  "failed_event clk jitter x e =
     (let e1 = e\<lparr>ev_last_error := Some (take 500 (redact (de_message x))),
                 ev_last_error_code := Some (take 80 (upper (de_code x))),
                 ev_last_error_at := Some (clk 0)\<rparr>
      in if de_pending_configuration x
         then e1\<lparr>ev_status := E_PENDING_CONFIGURATION, ev_processed_at := None\<rparr>
         else if de_terminal x \<or> ev_attempt_count e \<ge> MAX_ATTEMPTS
         then e1\<lparr>ev_status := E_FAILED_TERMINAL, ev_processed_at := Some (clk 1)\<rparr>
         else e1\<lparr>ev_status := E_RETRYING,
                 ev_next_attempt_at := clk 1 + seconds (backoff (ev_attempt_count e) + jitter)\<rparr>)"

definition settled_event ::
  "(nat \<Rightarrow> datetime) \<Rightarrow> int \<Rightarrow> delivery \<Rightarrow> integration_event \<Rightarrow> integration_event"
where
  "settled_event clk jitter res e =
     (case res of
        Inr r \<Rightarrow> delivered_event (clk 0) r e
      | Inl x \<Rightarrow> failed_event clk jitter x e)
     \<lparr>ev_lease_expires_at := None, ev_claim_token := None\<rparr>"

type_synonym deliver = "integration_event \<Rightarrow> db \<Rightarrow> delivery \<times> db"

text \<open>The loop over the claimed events; \<open>clk k\<close> and \<open>jitter k\<close> belong to the k-th of them.\<close>

fun settle_all ::
  "deliver \<Rightarrow> (nat \<Rightarrow> nat \<Rightarrow> datetime) \<Rightarrow> (nat \<Rightarrow> int) \<Rightarrow> nat \<Rightarrow> integration_event list
   \<Rightarrow> db \<Rightarrow> db"
where
  "settle_all deliver clk jitter k [] s = s"
| "settle_all deliver clk jitter k (e # es) s =
     (case deliver e s of
        (res, s1) \<Rightarrow> settle_all deliver clk jitter (k + 1) es
          (put_event (settled_event (clk k) (jitter k) res e) s1))"

definition process ::
  "deliver \<Rightarrow> datetime \<Rightarrow> (nat \<Rightarrow> nat \<Rightarrow> datetime) \<Rightarrow> (nat \<Rightarrow> int) \<Rightarrow> (nat \<Rightarrow> uuid) \<Rightarrow> nat
   \<Rightarrow> db \<Rightarrow> nat \<times> db"
where
  "process deliver now clk jitter new_id limit s =
     (case claim limit now DEFAULT_LEASE_SECONDS new_id s of
        (es, s1) \<Rightarrow> (length es, settle_all deliver clk jitter 0 es s1))"

definition RETRYABLE :: "event_status list" where
  "RETRYABLE = [E_DEAD_LETTER, E_FAILED, E_FAILED_TERMINAL, E_PENDING_CONFIGURATION]"

definition retried_event :: "datetime \<Rightarrow> integration_event \<Rightarrow> integration_event" where
  "retried_event now e =
     e\<lparr>ev_status := E_PENDING, ev_attempt_count := 0, ev_next_attempt_at := now, ev_processed_at := None,
       ev_claimed_at := None, ev_lease_expires_at := None, ev_claim_token := None\<rparr>"

definition retry_event ::
  "(nat \<Rightarrow> datetime) \<Rightarrow> uuid \<Rightarrow> uuid \<Rightarrow> db \<Rightarrow> (db, integration_event) outcome"
where
  "retry_event clk event_id actor_id s =
     (case lookup_row pk event_id (events s) of
        None \<Rightarrow> (Inl (LookupError ''Integration event not found''), s)
      | Some e \<Rightarrow>
          if \<not> List.member RETRYABLE (ev_status e)
          then (Inl (ValueError ''Only failed or configuration-pending integration events can be retried''), s)
          else (Inr (retried_event (clk 0) e),
                add_audit \<lparr>al_actor_id = Some actor_id, al_actor_type = ''user'',
                    al_action = ''integration.retry'', al_resource_type = ''integration_event'',
                    al_resource_id = pk e,
                    al_metadata_json = [(''previous_error'',
                      case ev_last_error e of None \<Rightarrow> JNull | Some m \<Rightarrow> JStr m)],
                    al_created_at = clk 1\<rparr>
                  (put_event (retried_event (clk 0) e) s)))"

section \<open>workers/tasks.py\<close>

definition NOTIFICATION_EVENTS :: "string list" where
  "NOTIFICATION_EVENTS = [''email_verification_requested'', ''password_reset_requested'',
     ''password_changed'', ''payment_captured'', ''refund_created'']"

definition unhandled_outbox_event :: delivery_error where
  "unhandled_outbox_event = \<lparr>de_message = ''No approved handler is registered for this event'',
     de_code = ''UNHANDLED_EVENT_TYPE'', de_terminal = True, de_pending_configuration = False\<rparr>"

text \<open>\<open>send\<close> is the e-mail adapter and \<open>push\<close> the middleware adapter.\<close>

definition deliver_outbox_event ::
  "(string \<Rightarrow> json_object \<Rightarrow> delivery_error + unit) \<Rightarrow> (integration_event \<Rightarrow> delivery_error + delivery_result)
   \<Rightarrow> deliver"
where
  "deliver_outbox_event send push e s =
     (if List.member NOTIFICATION_EVENTS (ev_event_type e)
      then (case send (ev_event_type e) (ev_payload e) of Inl x \<Rightarrow> (Inl x, s) | Inr _ \<Rightarrow> (Inr None, s))
      else if like_prefix ''breero.'' (ev_event_type e)
      then (case push e of
              Inl x \<Rightarrow> (Inl x, s)
            | Inr r \<Rightarrow> (Inr (Some r),
                if ev_aggregate_type e = ''public_submission''
                then s\<lparr>submissions := update_row pk (ev_aggregate_id e)
                  (\<lambda>p. p\<lparr>sub_downstream_status := DS_DELIVERED\<rparr>) (submissions s)\<rparr>
                else s))
      else (Inl unhandled_outbox_event, s))"

text \<open>\<^verbatim>\<open>publish_outbox\<close>: activate or park, then process with the defaults.\<close>

definition publish_outbox ::
  "(string \<Rightarrow> json_object \<Rightarrow> delivery_error + unit)
   \<Rightarrow> (integration_event \<Rightarrow> delivery_error + delivery_result) \<Rightarrow> bool \<Rightarrow> datetime \<Rightarrow> datetime
   \<Rightarrow> (nat \<Rightarrow> nat \<Rightarrow> datetime) \<Rightarrow> (nat \<Rightarrow> int) \<Rightarrow> (nat \<Rightarrow> uuid) \<Rightarrow> db \<Rightarrow> nat \<times> db"
where
  "publish_outbox send push enabled now0 now1 clk jitter new_id s =
     process (deliver_outbox_event send push) now1 clk jitter new_id 50
       (snd ((if enabled then activate_pending_configuration else park_unconfigured)
         ''breero.'' ''public_submission'' now0 s))"

definition EXPIRING_BOOKING_STATUSES :: "booking_status list" where
  "EXPIRING_BOOKING_STATUSES = CAPACITY_HOLDING_STATUSES @ [B_PENDING_PAYMENT]"

definition expire_booking_holds :: "datetime \<Rightarrow> db \<Rightarrow> nat \<times> db" where
  "expire_booking_holds now s =
     (let P = (\<lambda>b. List.member EXPIRING_BOOKING_STATUSES (bk_status b) \<and> bk_expires_at b \<le> now)
      in (count_where P (bookings s),
          s\<lparr>bookings := update_where P (\<lambda>b. b\<lparr>bk_status := B_EXPIRED\<rparr>) (bookings s)\<rparr>))"

section \<open>The rows after a claim and after a run\<close>

lemma events_put_event: "events (put_event e s) = update_row pk (pk e) (\<lambda>_. e) (events s)"
  by (simp add: put_event_def)

lemma lookup_put_map:
  "key r = k \<Longrightarrow> lookup_row key k (update_row key k (\<lambda>_. r) rows) = map_option (\<lambda>_. r) (lookup_row key k rows)"
  by (induction rows) (auto simp: lookup_row_def update_row_def update_where_def)

lemma lookup_put_event:
  "lookup_row pk i (events (put_event e s))
   = (if i = pk e then map_option (\<lambda>_. e) (lookup_row pk i (events s)) else lookup_row pk i (events s))"
proof (cases "i = pk e")
  case True
  then show ?thesis unfolding events_put_event using lookup_put_map [of pk e i "events s"] by simp
next
  case False
  then show ?thesis unfolding events_put_event using lookup_put_other [of i "pk e" pk e "events s"] by simp
qed

lemma keys_put_event: "map pk (events (put_event e s)) = map pk (events s)"
  by (simp add: events_put_event update_row_def update_where_def)

lemma keys_fold_put: "map pk (events (fold put_event es s)) = map pk (events s)"
  by (induction es arbitrary: s) (simp_all add: keys_put_event)

lemma lookup_fold_other:
  "i \<notin> pk ` set es \<Longrightarrow> lookup_row pk i (events (fold put_event es s)) = lookup_row pk i (events s)"
  by (induction es arbitrary: s) (simp_all add: lookup_put_event)

lemma lookup_fold_put:
  assumes "distinct (map pk es)" and "e \<in> set es" and "lookup_row pk (pk e) (events s) \<noteq> None"
  shows "lookup_row pk (pk e) (events (fold put_event es s)) = Some e"
  using assms
proof (induction es arbitrary: s)
  case (Cons x es)
  show ?case
  proof (cases "x = e")
    case True
    with Cons.prems have "pk e \<notin> pk ` set es" "lookup_row pk (pk e) (events (put_event e s)) = Some e"
      by (auto simp: lookup_put_event)
    with True show ?thesis by (simp add: lookup_fold_other)
  next
    case False
    with Cons.prems have "e \<in> set es" "pk x \<noteq> pk e" by auto
    with Cons show ?thesis by (simp add: lookup_put_event)
  qed
qed simp

definition found_events :: "nat \<Rightarrow> datetime \<Rightarrow> db \<Rightarrow> integration_event list" where
  "found_events limit now s = take limit (sort_key created_at (filter (claimable now) (events s)))"

lemma claim_InrD:
  assumes "claim limit now ls new_id s = (es, s')" and "distinct (map pk (events s))"
  shows "length es = length (found_events limit now s)"
    and "k < length es \<Longrightarrow> es ! k = claimed_event now ls (new_id k) (found_events limit now s ! k)"
    and "map pk es = map pk (found_events limit now s)" and "distinct (map pk es)"
    and "s' = fold put_event es s"
proof -
  have es: "es = map (\<lambda>(k, e). claimed_event now ls (new_id k) e) (enumerate 0 (found_events limit now s))"
    and s': "s' = fold put_event es s"
    using assms(1) by (auto simp: claim_def Let_def found_events_def)
  show "length es = length (found_events limit now s)" by (simp add: es)
  show nth: "k < length es \<Longrightarrow> es ! k = claimed_event now ls (new_id k) (found_events limit now s ! k)" for k
    by (simp add: es nth_enumerate_eq)
  show keys: "map pk es = map pk (found_events limit now s)"
    by (rule nth_equalityI) (simp_all add: es nth_enumerate_eq claimed_event_def)
  have "distinct (map pk (sort_key created_at (filter (claimable now) (events s))))"
    using assms(2) by (simp add: distinct_map inj_on_def)
  then show "distinct (map pk es)" unfolding keys found_events_def by (metis distinct_take take_map)
  show "s' = fold put_event es s" by (rule s')
qed

lemma found_event_mem:
  "e \<in> set (found_events limit now s) \<Longrightarrow> e \<in> set (events s) \<and> claimable now e"
  unfolding found_events_def by (drule in_set_takeD) simp

text \<open>A claimed event is a due row of the table, one attempt further.\<close>

lemma claimed_mem:
  assumes "claim limit now ls new_id s = (es, s')" and "distinct (map pk (events s))" and "e' \<in> set es"
  obtains e token where "lookup_row pk (pk e') (events s) = Some e" "claimable now e"
    "e' = claimed_event now ls token e" "lookup_row pk (pk e') (events s') = Some e'"
proof -
  note c = claim_InrD [OF assms(1,2)]
  from assms(3) obtain k where k: "k < length es" "es ! k = e'" by (auto simp: in_set_conv_nth)
  let ?e = "found_events limit now s ! k"
  have e: "e' = claimed_event now ls (new_id k) ?e" using c(2) [OF k(1)] k(2) by simp
  have "?e \<in> set (found_events limit now s)" using k(1) c(1) by simp
  then have mem: "?e \<in> set (events s)" "claimable now ?e" by (auto dest: found_event_mem)
  have row: "lookup_row pk (pk e') (events s) = Some ?e"
    using lookup_row_distinct [OF assms(2) mem(1)] e by (simp add: claimed_event_def)
  moreover have "lookup_row pk (pk e') (events s') = Some e'"
    unfolding c(5) using lookup_fold_put [OF c(4) assms(3)] row by simp
  ultimately show thesis using mem(2) e by (intro that)
qed

lemma claim_row:
  assumes "claim limit now ls new_id s = (es, s')" and "distinct (map pk (events s))"
    and "lookup_row pk i (events s) = Some e"
  shows "lookup_row pk i (events s') = Some e \<and> i \<notin> pk ` set es
    \<or> (\<exists>token. claimable now e \<and> claimed_event now ls token e \<in> set es
         \<and> lookup_row pk i (events s') = Some (claimed_event now ls token e))"
proof (cases "i \<in> pk ` set es")
  case True
  then obtain e' where e': "e' \<in> set es" "pk e' = i" by auto
  from claimed_mem [OF assms(1,2) e'(1)] obtain e0 token where
    "lookup_row pk i (events s) = Some e0" "claimable now e0" "e' = claimed_event now ls token e0"
    "lookup_row pk i (events s') = Some e'" unfolding e'(2) by blast
  with assms(3) e'(1) show ?thesis by auto
next
  case False
  then show ?thesis using lookup_fold_other [OF False, of s] claim_InrD(5) [OF assms(1,2)] assms(3) by simp
qed

section \<open>Phases of an event\<close>

datatype phase = Waiting | InFlight | Parked | Delivered | Failed

fun phase_of :: "event_status \<Rightarrow> phase" where
  "phase_of E_PENDING = Waiting"
| "phase_of E_RETRYING = Waiting"
| "phase_of E_FAILED_RETRYABLE = Waiting"
| "phase_of E_PROCESSING = InFlight"
| "phase_of E_PENDING_CONFIGURATION = Parked"
| "phase_of E_DELIVERED = Delivered"
| "phase_of E_FAILED_TERMINAL = Failed"
| "phase_of E_FAILED = Failed"
| "phase_of E_DEAD_LETTER = Failed"

text \<open>The abstract machine: an at-least-once queue whose delivered items never come back.\<close>

fun PHASES :: "phase transitions" where
  "PHASES Waiting = Some [InFlight]"
| "PHASES InFlight = Some [Delivered, Failed, Waiting, Parked]"
| "PHASES Parked = Some [Waiting]"
| "PHASES Failed = Some [Waiting]"
| "PHASES Delivered = Some []"

definition phase_final :: "phase \<Rightarrow> bool" where
  "phase_final p = (p = Delivered)"

interpretation outbox_machine: lifecycle PHASES phase_final
  by unfold_locales (case_tac s; simp add: phase_final_def)

text \<open>Workers, the events they hold and the clock.  A worker settles within its lease.\<close>

definition live :: "datetime \<Rightarrow> integration_event \<Rightarrow> bool" where
  "live now e = (case ev_lease_expires_at e of None \<Rightarrow> False | Some t \<Rightarrow> now < t)"

inductive outbox_step ::
  "datetime \<times> db \<times> integration_event list \<Rightarrow> datetime \<times> db \<times> integration_event list \<Rightarrow> bool"
where
  os_later: "now \<le> now' \<Longrightarrow> outbox_step (now, s, fl) (now', s, fl)"
| os_emit: "pk e \<notin> pk ` set (events s) \<Longrightarrow> outbox_step (now, s, fl) (now, add_event e s, fl)"
| os_other: "events s' = events s \<Longrightarrow> outbox_step (now, s, fl) (now, s', fl)"
| os_claim: "claim limit now ls new_id s = (es, s') \<Longrightarrow> outbox_step (now, s, fl) (now, s', fl @ es)"
| os_settle: "e \<in> set fl \<Longrightarrow> live now e \<Longrightarrow>
     outbox_step (now, s, fl) (now, put_event (settled_event clk jitter res e) s, filter (\<lambda>x. x \<noteq> e) fl)"
| os_crash: "outbox_step (now, s, fl) (now, s, filter (\<lambda>x. x \<noteq> e) fl)"
| os_retry: "retry_event clk i actor s = (r, s') \<Longrightarrow> outbox_step (now, s, fl) (now, s', fl)"
| os_activate: "activate_pending_configuration p t now s = (n, s') \<Longrightarrow> outbox_step (now, s, fl) (now, s', fl)"

text \<open>While its lease lasts, what a worker holds is what the table says.\<close>

fun outbox_inv :: "datetime \<times> db \<times> integration_event list \<Rightarrow> bool" where
  "outbox_inv (now, s, fl) = (distinct (map pk (events s))
     \<and> (\<forall>e \<in> set fl. ev_status e = E_PROCESSING
          \<and> (live now e \<longrightarrow> lookup_row pk (pk e) (events s) = Some e)))"

lemma live_not_claimable: "ev_status e = E_PROCESSING \<Longrightarrow> live now e \<Longrightarrow> \<not> claimable now e"
  by (auto simp: live_def claimable_def split: option.splits)

lemma settled_event_pk [simp]: "pk (settled_event clk jitter res e) = pk e"
  by (auto simp: settled_event_def delivered_event_def failed_event_def Let_def
      split: sum.splits option.splits)

lemma settled_event_phase:
  assumes "ev_status e = E_PROCESSING"
  shows "can_transition PHASES (phase_of (ev_status e)) (phase_of (ev_status (settled_event clk jitter res e)))"
  using assms by (auto simp: settled_event_def delivered_event_def failed_event_def Let_def
      can_transition_def split: sum.splits option.splits)

lemma retry_event_cases:
  assumes "retry_event clk i actor s = (r, s')"
  shows "s' = s \<or> (\<exists>e. lookup_row pk i (events s) = Some e \<and> List.member RETRYABLE (ev_status e)
    \<and> events s' = events (put_event (retried_event (clk 0) e) s))"
  using assms unfolding retry_event_def by (auto split: option.splits if_splits)

lemma activated_events:
  assumes "activate_pending_configuration p t now s = (n, s')"
  shows "\<exists>P. events s' = update_where P (activated_event now) (events s)
    \<and> (\<forall>e. P e \<longrightarrow> ev_status e = E_PENDING_CONFIGURATION)"
proof -
  have "events (sync_public_submission_status es st u) = events u" for es st u
    by (simp add: sync_public_submission_status_def Let_def)
  with assms show ?thesis unfolding activate_pending_configuration_def Let_def
    by (intro exI [of _ "\<lambda>e. ev_aggregate_type e = t \<and> ev_status e = E_PENDING_CONFIGURATION
        \<and> like_prefix p (ev_event_type e)"]) auto
qed

lemma activated_event_simps [simp]:
  "pk (activated_event now e) = pk e" "ev_status (activated_event now e) = E_PENDING"
  by (simp_all add: activated_event_def Let_def)

lemma retried_event_simps [simp]:
  "pk (retried_event now e) = pk e" "ev_status (retried_event now e) = E_PENDING"
  by (simp_all add: retried_event_def)

lemma live_earlier: "live now' e \<Longrightarrow> now \<le> now' \<Longrightarrow> live now e"
  by (auto simp: live_def split: option.splits)

lemma claimed_event_simps [simp]:
  "pk (claimed_event now ls token e) = pk e" "ev_status (claimed_event now ls token e) = E_PROCESSING"
  "ev_attempt_count (claimed_event now ls token e) = ev_attempt_count e + 1"
  by (simp_all add: claimed_event_def)

lemma outbox_step_inv: "outbox_step st st' \<Longrightarrow> outbox_inv st \<Longrightarrow> outbox_inv st'"
proof (induction rule: outbox_step.induct)
  case (os_later now now' s fl)
  then show ?case by (auto intro: live_earlier)
next
  case (os_emit e s now fl)
  then show ?case by (auto simp: lookup_row_append)
next
  case (os_other s' s now fl)
  then show ?case by simp
next
  case (os_claim limit now ls new_id s es s' fl)
  then have dist: "distinct (map pk (events s))" by simp
  note c = claim_InrD [OF os_claim.hyps dist]
  have "ev_status e = E_PROCESSING \<and> (live now e \<longrightarrow> lookup_row pk (pk e) (events s') = Some e)"
    if e: "e \<in> set (fl @ es)" for e
  proof (cases "e \<in> set es")
    case True
    from claimed_mem [OF os_claim.hyps dist True] show ?thesis by (metis claimed_event_simps(2))
  next
    case False
    with e os_claim.prems have "ev_status e = E_PROCESSING"
      "live now e \<longrightarrow> lookup_row pk (pk e) (events s) = Some e" by auto
    with claim_row [OF os_claim.hyps dist, of "pk e" e] live_not_claimable [of e now] show ?thesis by blast
  qed
  then show ?case using dist by (simp add: c(5) keys_fold_put)
next
  case (os_settle e fl now s clk jitter res)
  have "lookup_row pk (pk x) (events (put_event (settled_event clk jitter res e) s)) = Some x"
    if x: "x \<in> set fl" "x \<noteq> e" "live now x" for x
  proof -
    have "lookup_row pk (pk x) (events s) = Some x" "lookup_row pk (pk e) (events s) = Some e"
      using os_settle x by auto
    moreover from this x(2) have "pk x \<noteq> pk e" by auto
    ultimately show ?thesis by (simp add: lookup_put_event)
  qed
  then show ?case using os_settle.prems by (auto simp: keys_put_event)
next
  case (os_crash now s fl e)
  then show ?case by auto
next
  case (os_retry clk i actor s r s' now fl)
  from retry_event_cases [OF os_retry.hyps] show ?case
  proof (elim disjE exE conjE)
    fix e assume e: "lookup_row pk i (events s) = Some e" "List.member RETRYABLE (ev_status e)"
      and ev: "events s' = events (put_event (retried_event (clk 0) e) s)"
    have i: "pk e = i" using e(1) by (rule lookup_row_key)
    have "lookup_row pk (pk x) (events s') = Some x" if x: "x \<in> set fl" "live now x" for x
    proof -
      from os_retry.prems x have row: "lookup_row pk (pk x) (events s) = Some x" "ev_status x = E_PROCESSING"
        by auto
      have "pk x \<noteq> pk e"
      proof
        assume "pk x = pk e"
        then have "x = e" using row(1) e(1) unfolding i by simp
        then show False using row(2) e(2) by (simp add: RETRYABLE_def)
      qed
      with row show ?thesis by (simp add: ev lookup_put_event)
    qed
    then show ?thesis using os_retry.prems by (simp add: ev keys_put_event)
  qed (use os_retry.prems in simp)
next
  case (os_activate p t now s n s' fl)
  from activated_events [OF os_activate.hyps] obtain P where
    ev: "events s' = update_where P (activated_event now) (events s)"
    and P: "\<And>e. P e \<Longrightarrow> ev_status e = E_PENDING_CONFIGURATION" by blast
  have "lookup_row pk (pk x) (events s') = Some x" if x: "x \<in> set fl" "live now x" for x
  proof -
    from os_activate.prems x have row: "lookup_row pk (pk x) (events s) = Some x" "ev_status x = E_PROCESSING"
      by auto
    with P [of x] show ?thesis by (auto simp: ev lookup_update_where)
  qed
  then show ?case using os_activate.prems by (simp add: ev map_key_update_where)
qed

lemma outbox_steps_inv: "outbox_step\<^sup>*\<^sup>* st st' \<Longrightarrow> outbox_inv st \<Longrightarrow> outbox_inv st'"
  by (induction rule: rtranclp_induct) (auto intro: outbox_step_inv)

text \<open>A row moves along the phases, and a delivered row is never written again.\<close>

definition phase_step :: "integration_event \<Rightarrow> integration_event \<Rightarrow> bool" where
  "phase_step e e' = ((phase_of (ev_status e') = phase_of (ev_status e)
      \<or> can_transition PHASES (phase_of (ev_status e)) (phase_of (ev_status e')))
    \<and> (ev_status e = E_DELIVERED \<longrightarrow> e' = e))"

lemma phase_step_refl [simp]: "phase_step e e"
  by (simp add: phase_step_def)

lemma phase_step_claim: "claimable now e \<Longrightarrow> phase_step e (claimed_event now ls token e)"
  by (auto simp: phase_step_def claimable_def can_transition_def)

lemma outbox_step_phase:
  assumes "outbox_step st st'" and "outbox_inv st"
    and "lookup_row pk i (events (fst (snd st))) = Some e"
  shows "\<exists>e'. lookup_row pk i (events (fst (snd st'))) = Some e' \<and> phase_step e e'"
  using assms
proof (induction rule: outbox_step.induct)
  case (os_emit x s now fl)
  then show ?case by (simp add: lookup_row_append)
next
  case (os_claim limit now ls new_id s es s' fl)
  then have dist: "distinct (map pk (events s))" and row: "lookup_row pk i (events s) = Some e" by simp_all
  from claim_row [OF os_claim.hyps dist row] show ?case by (auto intro: phase_step_claim)
next
  case (os_settle x fl now s clk jitter res)
  then have x: "lookup_row pk (pk x) (events s) = Some x" "ev_status x = E_PROCESSING"
    and row: "lookup_row pk i (events s) = Some e" by auto
  have "phase_step x (settled_event clk jitter res x)"
    using settled_event_phase [OF x(2)] x(2) by (simp add: phase_step_def)
  with x row show ?case by (cases "i = pk x") (simp_all add: lookup_put_event)
next
  case (os_retry clk k actor s r s' now fl)
  from retry_event_cases [OF os_retry.hyps] show ?case
  proof (elim disjE exE conjE)
    fix x assume x: "lookup_row pk k (events s) = Some x" "List.member RETRYABLE (ev_status x)"
      and ev: "events s' = events (put_event (retried_event (clk 0) x) s)"
    have k: "pk x = k" using x(1) by (rule lookup_row_key)
    have "phase_step x (retried_event (clk 0) x)"
      using x(2) by (auto simp: phase_step_def RETRYABLE_def can_transition_def)
    with x(1) k os_retry.prems show ?thesis by (cases "i = k") (simp_all add: ev lookup_put_event)
  qed (use os_retry.prems in simp)
next
  case (os_activate p t now s n s' fl)
  from activated_events [OF os_activate.hyps] obtain P where
    ev: "events s' = update_where P (activated_event now) (events s)"
    and P: "\<And>e. P e \<Longrightarrow> ev_status e = E_PENDING_CONFIGURATION" by blast
  have "P e \<Longrightarrow> phase_step e (activated_event now e)"
    using P [of e] by (simp add: phase_step_def can_transition_def)
  with os_activate.prems show ?case by (auto simp: ev lookup_update_where)
qed simp_all

lemma phase_steps:
  assumes "outbox_step\<^sup>*\<^sup>* st st'" and "outbox_inv st" and "lookup_row pk i (events (fst (snd st))) = Some e"
  shows "\<exists>e'. lookup_row pk i (events (fst (snd st'))) = Some e'
    \<and> (can_transition PHASES)\<^sup>*\<^sup>* (phase_of (ev_status e)) (phase_of (ev_status e'))
    \<and> (ev_status e = E_DELIVERED \<longrightarrow> e' = e)"
  using assms(1)
proof (induction rule: rtranclp_induct)
  case base
  with assms(3) show ?case by simp
next
  case (step st1 st2)
  then obtain e1 where e1: "lookup_row pk i (events (fst (snd st1))) = Some e1"
    "(can_transition PHASES)\<^sup>*\<^sup>* (phase_of (ev_status e)) (phase_of (ev_status e1))"
    "ev_status e = E_DELIVERED \<longrightarrow> e1 = e" by blast
  have "outbox_inv st1" using step.hyps(1) assms(2) by (rule outbox_steps_inv)
  from outbox_step_phase [OF step.hyps(2) this e1(1)] obtain e2
    where "lookup_row pk i (events (fst (snd st2))) = Some e2" "phase_step e1 e2" by blast
  with e1 show ?case unfolding phase_step_def
    by (metis rtranclp.rtrancl_into_rtrancl)
qed

section \<open>A run of the publisher\<close>

lemma settle_all_row:
  assumes "\<And>e s. events (snd (deliver e s)) = events s" and "distinct (map pk es)"
    and "lookup_row pk i (events s) \<noteq> None"
  shows "if i \<in> pk ` set es
    then \<exists>k e t. k < length es \<and> e = es ! k \<and> pk e = i
      \<and> lookup_row pk i (events (settle_all deliver clk jitter n es s))
        = Some (settled_event (clk (n + k)) (jitter (n + k)) (fst (deliver e t)) e)
    else lookup_row pk i (events (settle_all deliver clk jitter n es s)) = lookup_row pk i (events s)"
  using assms(2,3)
proof (induction es arbitrary: n s)
  case (Cons x es)
  obtain res s1 where d: "deliver x s = (res, s1)" by (cases "deliver x s")
  have ev: "events s1 = events s" using assms(1) [of x s] d by simp
  define s2 where "s2 = put_event (settled_event (clk n) (jitter n) res x) s1"
  have s2: "settle_all deliver clk jitter n (x # es) s = settle_all deliver clk jitter (n + 1) es s2"
    by (simp add: d s2_def)
  have some: "lookup_row pk i (events s2) \<noteq> None" using Cons.prems(2) by (auto simp: s2_def lookup_put_event ev)
  note IH = Cons.IH [of s2 "n + 1", OF _ some]
  show ?case
  proof (cases "i = pk x")
    case True
    with Cons.prems have "i \<notin> pk ` set es" "distinct (map pk es)" by auto
    with IH have "lookup_row pk i (events (settle_all deliver clk jitter (n + 1) es s2))
        = lookup_row pk i (events s2)" by simp
    moreover have "lookup_row pk i (events s2) = Some (settled_event (clk n) (jitter n) res x)"
      using Cons.prems(2) True by (auto simp: s2_def lookup_put_event ev)
    ultimately show ?thesis using True unfolding s2
      by (auto intro!: exI [of _ 0] exI [of _ s] simp: d)
  next
    case False
    have same: "lookup_row pk i (events s2) = lookup_row pk i (events s)"
      using False by (simp add: s2_def lookup_put_event ev)
    show ?thesis
    proof (cases "i \<in> pk ` set es")
      case True
      with IH Cons.prems obtain k r where "k < length es" "pk (es ! k) = i"
        "lookup_row pk i (events (settle_all deliver clk jitter (n + 1) es s2))
          = Some (settled_event (clk (n + 1 + k)) (jitter (n + 1 + k)) (fst (deliver (es ! k) r)) (es ! k))"
        by auto
      then show ?thesis using True unfolding s2
        by (auto intro!: exI [of _ "Suc k"] exI [of _ r])
    next
      case no: False
      with IH Cons.prems False same show ?thesis unfolding s2 by simp
    qed
  qed
qed simp

lemma backoff_bounds: "1 \<le> n \<Longrightarrow> n < MAX_ATTEMPTS \<Longrightarrow> 30 \<le> backoff n \<and> backoff n \<le> 240"
  by (auto simp: MAX_ATTEMPTS_def backoff_def numeral_eq_Suc less_Suc_eq)

lemma settled_event_outcome:
  assumes "ev_attempt_count e = n" and "1 \<le> n"
  shows "ev_attempt_count (settled_event clk jitter res e) = n
    \<and> (ev_status (settled_event clk jitter res e) \<in> {E_DELIVERED, E_FAILED_TERMINAL, E_PENDING_CONFIGURATION}
       \<or> ev_status (settled_event clk jitter res e) = E_RETRYING \<and> n < MAX_ATTEMPTS
         \<and> clk 1 + seconds (30 + jitter) \<le> ev_next_attempt_at (settled_event clk jitter res e)
         \<and> ev_next_attempt_at (settled_event clk jitter res e) \<le> clk 1 + seconds (240 + jitter))"
  using assms backoff_bounds [of n]
  by (auto simp: settled_event_def delivered_event_def failed_event_def Let_def seconds_def not_le
      split: sum.splits option.splits)

lemma deliver_outbox_events: "events (snd (deliver_outbox_event send push e s)) = events s"
  by (auto simp: deliver_outbox_event_def split: sum.splits)

lemma found_all:
  assumes "count_where (claimable now) (events s) \<le> limit"
  shows "set (found_events limit now s) = {e \<in> set (events s). claimable now e}"
    and "length (found_events limit now s) = count_where (claimable now) (events s)"
  using assms by (auto simp: found_events_def count_where_def)

text \<open>An event nobody handles fails for good the first time.\<close>

definition handled :: "string \<Rightarrow> bool" where
  "handled ty = (List.member NOTIFICATION_EVENTS ty \<or> like_prefix ''breero.'' ty)"

lemma settled_unhandled:
  assumes "\<not> handled (ev_event_type e)"
  shows "ev_status (settled_event clk jitter (fst (deliver_outbox_event send push e t)) e) = E_FAILED_TERMINAL"
  using assms by (simp add: handled_def deliver_outbox_event_def settled_event_def failed_event_def
      unhandled_outbox_event_def Let_def)

section \<open>Properties\<close>



section \<open>The sample event\<close>

definition sample_event :: integration_event where
  "sample_event = new_event 900 ''booking'' 81 ''booking.confirmed'' None [] 0"

definition outbox_db :: db where "outbox_db = empty_db\<lparr>events := [sample_event]\<rparr>"

definition sample_claim :: "integration_event list \<times> db" where
  "sample_claim = claim 50 10 DEFAULT_LEASE_SECONDS (\<lambda>_. 901) outbox_db"



end
