(* ===== verification/Stripe.thy ===== *)
theory Stripe
  imports Identifiers
begin

text \<open>
  The verification of a Stripe webhook (\<^verbatim>\<open>integrations/stripe.py\<close>): the signature header, the
  tolerance on its timestamp, the keyed digest of the body and the identity of the event.

  The digest \<open>hmac\<close> (HMAC-SHA256 as lower-case hex), the JSON reader \<open>json_loads\<close> and the clock are
  parameters.  A request body is a string, one character per byte.
\<close>

section \<open>Strings, as the code takes them apart\<close>

text \<open>\<^verbatim>\<open>str.split(",")\<close> and \<^verbatim>\<open>str.partition("=")\<close>; the latter also says whether the separator occurs.\<close>

fun split_at :: "char \<Rightarrow> string \<Rightarrow> string list" where
  "split_at c [] = [[]]"
| "split_at c (x # xs) =
     (if x = c then [] # split_at c xs
      else case split_at c xs of [] \<Rightarrow> [[x]] | w # ws \<Rightarrow> (x # w) # ws)"

definition partition_at :: "char \<Rightarrow> string \<Rightarrow> string \<times> bool \<times> string" where
  "partition_at c s = (takeWhile (\<lambda>x. x \<noteq> c) s, List.member s c, tl (dropWhile (\<lambda>x. x \<noteq> c) s))"

text \<open>
  \<^verbatim>\<open>int\<close> of a string: surrounding space, a sign, and digits with single underscores between them.
  Digits outside ASCII do not occur in a header.
\<close>

fun digits_value :: "int \<Rightarrow> string \<Rightarrow> int option" where
  "digits_value acc [] = Some acc"
| "digits_value acc (c # cs) =
     (if is_digit c then digits_value (acc * 10 + (of_char c - 48)) cs
      else if c = CHR ''_'' \<and> cs \<noteq> [] \<and> is_digit (hd cs) then digits_value acc cs
      else None)"

definition py_int :: "string \<Rightarrow> int option" where
  "py_int t =
     (let u = strip t;
          negative = (case u of [] \<Rightarrow> False | c # _ \<Rightarrow> c = CHR ''-'');
          ds = (case u of [] \<Rightarrow> [] | c # cs \<Rightarrow> if c = CHR ''-'' \<or> c = CHR ''+'' then cs else u)
      in if ds = [] \<or> \<not> is_digit (hd ds) then None
         else map_option (\<lambda>n. if negative then - n else n) (digits_value 0 ds))"

section \<open>StripeAdapter\<close>

record stripe_adapter =
  webhook_secret :: string
  webhook_tolerance_seconds :: int

definition header_items :: "string \<Rightarrow> (string \<times> string) list" where
  "header_items signature =
     concat (map (\<lambda>item. case partition_at (CHR ''='') item of
         (key, separator, value) \<Rightarrow> if separator then [(key, value)] else [])
       (split_at (CHR '','') signature))"

definition values_of :: "string \<Rightarrow> (string \<times> string) list \<Rightarrow> string list" where
  "values_of k items = map snd (filter (\<lambda>x. fst x = k) items)"

text \<open>
  \<^verbatim>\<open>any(hmac.compare_digest(expected, candidate) ...)\<close>, which compares in order and raises a
  \<^verbatim>\<open>TypeError\<close> at a text with a character outside ASCII.
\<close>

fun any_digest :: "string \<Rightarrow> string list \<Rightarrow> bool result" where
  "any_digest expected [] = Inr False"
| "any_digest expected (candidate # cs) =
     (if list_ex (\<lambda>c. of_char c \<ge> (128 :: nat)) candidate then Inl (ValueError ''TypeError'')
      else if expected = candidate then Inr True
      else any_digest expected cs)"

definition truthy :: "json option \<Rightarrow> bool" where
  "truthy v = (case v of
       None \<Rightarrow> False | Some JNull \<Rightarrow> False | Some (JBool b) \<Rightarrow> b | Some (JInt n) \<Rightarrow> n \<noteq> 0
     | Some (JStr t) \<Rightarrow> t \<noteq> [] | Some (JUuid _) \<Rightarrow> True | Some (JTime _) \<Rightarrow> True
     | Some (JList xs) \<Rightarrow> xs \<noteq> [] | Some (JObj xs) \<Rightarrow> xs \<noteq> [])"

definition verify_webhook ::
  "stripe_adapter \<Rightarrow> (string \<Rightarrow> string \<Rightarrow> string) \<Rightarrow> (string \<Rightarrow> json result) \<Rightarrow> datetime
   \<Rightarrow> string \<Rightarrow> string \<Rightarrow> json_object result"
where
  "verify_webhook a hmac json_loads now body signature =
     (if webhook_secret a = [] then Inl (InvalidWebhook ''Stripe webhook secret is not configured'')
      else
        let items = header_items signature;
            malformed = InvalidWebhook ''Malformed Stripe-Signature header''
        in bindE (case values_of ''t'' items of [] \<Rightarrow> Inl malformed | t # _ \<Rightarrow> of_option malformed (py_int t))
             (\<lambda>timestamp.
           bindE (ensure (values_of ''v1'' items \<noteq> []) malformed) (\<lambda>_.
           bindE (ensure (\<bar>now div seconds 1 - timestamp\<bar> \<le> webhook_tolerance_seconds a)
             (InvalidWebhook ''Webhook signature timestamp is outside tolerance'')) (\<lambda>_.
           bindE (any_digest (hmac (webhook_secret a) (str_int timestamp @ ''.'' @ body))
             (values_of ''v1'' items)) (\<lambda>matched.
           bindE (ensure matched (InvalidWebhook ''Webhook signature verification failed'')) (\<lambda>_.
           case json_loads body of
             Inl (ValueError _) \<Rightarrow> Inl (InvalidWebhook ''Webhook payload is not valid JSON'')
           | Inl e \<Rightarrow> Inl e
           | Inr (JObj event) \<Rightarrow>
               if truthy (map_of event ''id'') \<and> truthy (map_of event ''type'') then Inr event
               else Inl (InvalidWebhook ''Webhook payload is missing event identity'')
           | Inr _ \<Rightarrow> Inl (InvalidWebhook ''Webhook payload is missing event identity'')))))))"

text \<open>The adapter's reading of a provider's answer (\<^verbatim>\<open>_to_intent\<close>, \<^verbatim>\<open>create_refund\<close>).\<close>

record provider_intent =
  pi_id :: string
  pi_status :: string
  pi_client_secret :: "string option"
  pi_amount_received :: int

record provider_refund =
  pr_id :: string
  pr_status :: string

text \<open>
  A field of the wrong type fails the validation of the pydantic model; its coercion of numeric text
  is not modelled, as Stripe documents these fields as strings and integers.
\<close>

definition str_field :: "json_object \<Rightarrow> string \<Rightarrow> string option \<Rightarrow> string result" where
  "str_field raw k dflt = (case map_of raw k of
       Some (JStr t) \<Rightarrow> Inr t
     | Some _ \<Rightarrow> Inl (ValueError k)
     | None \<Rightarrow> (case dflt of Some d \<Rightarrow> Inr d | None \<Rightarrow> Inl (LookupError k)))"

definition to_intent :: "json_object \<Rightarrow> provider_intent result" where
  "to_intent raw =
     bindE (str_field raw ''id'' None) (\<lambda>i.
     bindE (str_field raw ''status'' (Some [])) (\<lambda>st.
     bindE (case map_of raw ''client_secret'' of
         None \<Rightarrow> Inr None | Some JNull \<Rightarrow> Inr None | Some (JStr t) \<Rightarrow> Inr (Some t)
       | Some _ \<Rightarrow> Inl (ValueError ''client_secret'')) (\<lambda>sec.
     bindE (case map_of raw ''amount_received'' of
         None \<Rightarrow> Inr 0 | Some (JInt n) \<Rightarrow> Inr n | Some _ \<Rightarrow> Inl (ValueError ''amount_received'')) (\<lambda>n.
     Inr \<lparr>pi_id = i, pi_status = st, pi_client_secret = sec, pi_amount_received = n\<rparr>))))"

definition to_refund :: "json_object \<Rightarrow> provider_refund result" where
  "to_refund raw =
     bindE (str_field raw ''id'' None) (\<lambda>i.
     bindE (str_field raw ''status'' (Some ''pending'')) (\<lambda>st.
     Inr \<lparr>pr_id = i, pr_status = st\<rparr>))"

text \<open>
  The three calls.  \<open>post path data idempotency_key\<close> is \<^verbatim>\<open>_post\<close>, the HTTP request, which answers with
  the decoded JSON object or a \<^verbatim>\<open>PaymentError\<close>.
\<close>

type_synonym stripe_post = "string \<Rightarrow> json_object \<Rightarrow> string \<Rightarrow> json_object result"

definition stripe_create_intent ::
  "stripe_post \<Rightarrow> int \<Rightarrow> string \<Rightarrow> string \<Rightarrow> (string \<times> string) list \<Rightarrow> string \<Rightarrow> provider_intent result"
where
  "stripe_create_intent post amount_minor cur capture_method metadata idempotency_key =
     bindE (post ''/payment_intents''
       ([(''amount'', JInt amount_minor), (''currency'', JStr cur), (''capture_method'', JStr capture_method),
         (''automatic_payment_methods[enabled]'', JStr ''true'')]
        @ map (\<lambda>(k, v). (''metadata['' @ k @ '']'', JStr v)) metadata) idempotency_key) to_intent"

definition stripe_capture_intent ::
  "stripe_post \<Rightarrow> string \<Rightarrow> int option \<Rightarrow> string \<Rightarrow> provider_intent result"
where
  "stripe_capture_intent post provider_payment_id amount_minor idempotency_key =
     bindE (post (''/payment_intents/'' @ provider_payment_id @ ''/capture'')
       (case amount_minor of None \<Rightarrow> [] | Some n \<Rightarrow> [(''amount_to_capture'', JInt n)]) idempotency_key)
       to_intent"

definition stripe_create_refund ::
  "stripe_post \<Rightarrow> string \<Rightarrow> int \<Rightarrow> string \<Rightarrow> provider_refund result"
where
  "stripe_create_refund post provider_payment_id amount_minor idempotency_key =
     bindE (post ''/refunds''
       [(''payment_intent'', JStr provider_payment_id), (''amount'', JInt amount_minor)] idempotency_key)
       to_refund"

end
