(* ===== verification/Payments.thy ===== *)
theory Payments
  imports Jobs Stripe
begin

text \<open>
  Payments of bookings, quotes and professional leads (\<^verbatim>\<open>payments/service.py\<close>,
  \<^verbatim>\<open>payments/repository.py\<close>): intents, capture, the provider's webhooks, refunds, and what a captured
  payment settles.

  The payment provider is a parameter, one function per call of \<^verbatim>\<open>PaymentProvider\<close>; \<^verbatim>\<open>Stripe\<close> holds
  the adapter.  The text of an exception is \<open>str_exc\<close>, the digest of a request \<open>request_hash\<close>.
\<close>

section \<open>Requests and views\<close>

record payment_intent_create =
  pic_booking_id :: "uuid option"
  pic_quote_id :: "uuid option"
  pic_lead_purchase_id :: "uuid option"
  pic_payment_purpose :: payment_purpose
  pic_amount_minor :: int
  pic_currency :: string
  pic_capture_method :: string
  pic_metadata :: "(string \<times> string) list"

record payment_view =
  pv_id :: uuid
  pv_booking_id :: "uuid option"
  pv_quote_id :: "uuid option"
  pv_lead_purchase_id :: "uuid option"
  pv_payment_purpose :: payment_purpose
  pv_provider :: string
  pv_status :: payment_status
  pv_amount_minor :: int
  pv_currency :: string
  pv_captured_amount_minor :: int
  pv_client_secret :: "string option"
  pv_failure_code :: "string option"
  pv_created_at :: datetime

definition view :: "payment \<Rightarrow> payment_view" where
  "view p = \<lparr>pv_id = pk p, pv_booking_id = py_booking_id p, pv_quote_id = py_quote_id p,
     pv_lead_purchase_id = py_lead_purchase_id p, pv_payment_purpose = py_payment_purpose p,
     pv_provider = py_provider p, pv_status = py_status p, pv_amount_minor = py_amount_minor p,
     pv_currency = py_currency p, pv_captured_amount_minor = py_captured_amount_minor p,
     pv_client_secret = py_provider_client_secret p, pv_failure_code = py_failure_code p,
     pv_created_at = created_at p\<rparr>"

definition STRIPE_STATUS :: "(string \<times> payment_status) list" where
  "STRIPE_STATUS =
     [(''requires_payment_method'', PY_CREATED), (''requires_confirmation'', PY_CREATED),
      (''requires_action'', PY_REQUIRES_ACTION), (''processing'', PY_AUTHORIZED),
      (''requires_capture'', PY_AUTHORIZED), (''succeeded'', PY_CAPTURED), (''canceled'', PY_CANCELED)]"

definition stripe_status :: "string \<Rightarrow> payment_status \<Rightarrow> payment_status" where
  "stripe_status t dflt = (case map_of STRIPE_STATUS t of Some st \<Rightarrow> st | None \<Rightarrow> dflt)"

definition REFUND_STATUS :: "(string \<times> refund_status) list" where
  "REFUND_STATUS = [(''pending'', RF_PENDING), (''succeeded'', RF_SUCCEEDED), (''failed'', RF_FAILED),
     (''canceled'', RF_CANCELED)]"

definition refund_status_value :: "refund_status \<Rightarrow> string" where
  "refund_status_value st = (case st of RF_PENDING \<Rightarrow> ''pending'' | RF_SUCCEEDED \<Rightarrow> ''succeeded''
     | RF_FAILED \<Rightarrow> ''failed'' | RF_CANCELED \<Rightarrow> ''canceled'')"

definition purpose_value :: "payment_purpose \<Rightarrow> string" where
  "purpose_value p = (case p of BOOKING_DIAGNOSTIC \<Rightarrow> ''BOOKING_DIAGNOSTIC''
     | QUOTE_ADDITIONAL_WORK \<Rightarrow> ''QUOTE_ADDITIONAL_WORK'' | PROFESSIONAL_LEAD \<Rightarrow> ''PROFESSIONAL_LEAD'')"

text \<open>The constraint \<^verbatim>\<open>valid_payment_reference\<close> of the table.\<close>

definition valid_payment_reference :: "payment \<Rightarrow> bool" where
  "valid_payment_reference p = (case py_payment_purpose p of
       BOOKING_DIAGNOSTIC \<Rightarrow> py_booking_id p \<noteq> None \<and> py_quote_id p = None \<and> py_lead_purchase_id p = None
     | QUOTE_ADDITIONAL_WORK \<Rightarrow> py_booking_id p = None \<and> py_quote_id p \<noteq> None \<and> py_lead_purchase_id p = None
     | PROFESSIONAL_LEAD \<Rightarrow> py_booking_id p = None \<and> py_quote_id p = None \<and> py_lead_purchase_id p \<noteq> None)"

section \<open>Queries\<close>

abbreviation get_payment :: "db \<Rightarrow> uuid \<Rightarrow> payment option" where
  "get_payment s i \<equiv> lookup_row pk i (payments s)"

definition get_by_provider_id :: "db \<Rightarrow> string \<Rightarrow> payment option" where
  "get_by_provider_id s t = find (\<lambda>p. py_provider_payment_id p = Some t) (payments s)"

definition get_idempotency :: "db \<Rightarrow> string \<Rightarrow> string \<Rightarrow> idempotency_record option" where
  "get_idempotency s operation key =
     find (\<lambda>r. ir_operation r = operation \<and> ir_idempotency_key r = key) (idempotency_records s)"

definition get_payment_event :: "db \<Rightarrow> string \<Rightarrow> string \<Rightarrow> payment_event option" where
  "get_payment_event s provider event_id =
     find (\<lambda>e. pe_provider e = provider \<and> pe_provider_event_id e = event_id) (payment_events s)"

definition refund_by_key :: "db \<Rightarrow> uuid \<Rightarrow> string \<Rightarrow> refund option" where
  "refund_by_key s payment_id key =
     find (\<lambda>r. rf_payment_id r = payment_id \<and> rf_idempotency_key r = key) (refunds s)"

definition refund_by_provider_id :: "db \<Rightarrow> string \<Rightarrow> refund option" where
  "refund_by_provider_id s t = find (\<lambda>r. rf_provider_refund_id r = Some t) (refunds s)"

text \<open>\<^verbatim>\<open>coalesce(sum(amount_minor), 0)\<close> of a payment's refunds in some states.\<close>

definition refunded_sum :: "(refund_status \<Rightarrow> bool) \<Rightarrow> uuid \<Rightarrow> refund list \<Rightarrow> int" where
  "refunded_sum q payment_id rs =
     sum_list (map rf_amount_minor (filter (\<lambda>r. rf_payment_id r = payment_id \<and> q (rf_status r)) rs))"

definition live_refund :: "refund_status \<Rightarrow> bool" where
  "live_refund st = (st = RF_PENDING \<or> st = RF_SUCCEEDED)"

text \<open>The flush of a new payment: its provider id is unique per provider.\<close>

definition add_payment :: "payment \<Rightarrow> db \<Rightarrow> db result" where
  "add_payment p s =
     bindE (ensure (\<not> list_ex (\<lambda>q. py_provider q = py_provider p \<and> py_provider_payment_id q \<noteq> None
         \<and> py_provider_payment_id q = py_provider_payment_id p) (payments s))
       (IntegrityError ''uq_payments_provider_payment_id'')) (\<lambda>_.
     bindE (ensure (valid_payment_reference p) (IntegrityError ''valid_payment_reference'')) (\<lambda>_.
     bindE (ensure (\<not> list_ex (\<lambda>q. py_lead_purchase_id q \<noteq> None
         \<and> py_lead_purchase_id q = py_lead_purchase_id p) (payments s))
       (IntegrityError ''payments_lead_purchase_id'')) (\<lambda>_.
     Inr (s\<lparr>payments := payments s @ [p]\<rparr>))))"

abbreviation put_payment :: "payment \<Rightarrow> db \<Rightarrow> db" where
  "put_payment p s \<equiv> s\<lparr>payments := update_row pk (pk p) (\<lambda>_. p) (payments s)\<rparr>"

section \<open>Intents\<close>

text \<open>\<^verbatim>\<open>Decimal.quantize(Decimal("1"), rounding=ROUND_HALF_UP)\<close>: halves go away from zero.\<close>

definition round_half_up :: "rat \<Rightarrow> int" where
  "round_half_up x = (if 0 \<le> x then \<lfloor>x + 1 / 2\<rfloor> else \<lceil>x - 1 / 2\<rceil>)"

type_synonym create_intent_call =
  "int \<Rightarrow> string \<Rightarrow> string \<Rightarrow> (string \<times> string) list \<Rightarrow> string \<Rightarrow> provider_intent result"
type_synonym capture_intent_call = "string \<Rightarrow> int option \<Rightarrow> string \<Rightarrow> provider_intent result"
type_synonym create_refund_call = "string \<Rightarrow> int \<Rightarrow> string \<Rightarrow> provider_refund result"

text \<open>What the intent may be for; the result is the metadata sent to the provider.\<close>

definition dict_set :: "'k \<Rightarrow> 'v \<Rightarrow> ('k \<times> 'v) list \<Rightarrow> ('k \<times> 'v) list" where
  "dict_set k v d = (if list_ex (\<lambda>x. fst x = k) d
     then map (\<lambda>x. if fst x = k then (k, v) else x) d else d @ [(k, v)])"

definition intent_subject :: "payment_intent_create \<Rightarrow> db \<Rightarrow> (string \<times> string) list result" where
  "intent_subject p s =
     (if pic_payment_purpose p = BOOKING_DIAGNOSTIC then
        bindE (ensure (pic_booking_id p \<noteq> None \<and> pic_quote_id p = None)
          (InvalidPaymentState ''Booking payments require only booking_id'')) (\<lambda>_.
        bindE (of_option (PaymentNotFound ''Booking not found'') (get_booking s (the (pic_booking_id p)))) (\<lambda>b.
        bindE (ensure (pic_amount_minor p = round_half_up (bk_total_amount b * 100)
            \<and> upper (pic_currency p) = upper (bk_currency b))
          (InvalidPaymentState ''Payment amount or currency does not match the booking'')) (\<lambda>_.
        bindE (ensure (bk_status b = B_PENDING_PAYMENT)
          (InvalidPaymentState ''Booking is not awaiting payment'')) (\<lambda>_.
        Inr (dict_set ''booking_id'' (str_uuid (pk b)) (pic_metadata p))))))
      else
        bindE (ensure (pic_quote_id p \<noteq> None \<and> pic_booking_id p = None)
          (InvalidPaymentState ''Additional-work payments require only quote_id'')) (\<lambda>_.
        bindE (of_option (PaymentNotFound ''Quote not found'')
          (lookup_row pk (the (pic_quote_id p)) (work_requests s))) (\<lambda>q.
        bindE (ensure (wr_status q = WR_APPROVED_PENDING_PAYMENT)
          (InvalidPaymentState ''Quote is not awaiting payment'')) (\<lambda>_.
        bindE (ensure (pic_amount_minor p = wr_total_minor q
            \<and> upper (pic_currency p) = upper (wr_currency q))
          (InvalidPaymentState ''Payment amount or currency does not match the quote'')) (\<lambda>_.
        Inr (dict_set ''quote_id'' (str_uuid (pk q)) (pic_metadata p)))))))"

definition json_metadata :: "(string \<times> string) list \<Rightarrow> json_object" where
  "json_metadata m = map (\<lambda>(k, v). (k, JStr v)) m"

text \<open>The part of \<^verbatim>\<open>create_intent\<close> after the search for an earlier request with the key.\<close>

definition new_intent ::
  "create_intent_call \<Rightarrow> (payment_intent_create \<Rightarrow> string) \<Rightarrow> datetime \<Rightarrow> uuid \<Rightarrow> payment_intent_create
   \<Rightarrow> string \<Rightarrow> db \<Rightarrow> (payment \<times> db) result"
where
  "new_intent create request_hash now new_id p key s =
     bindE (intent_subject p s) (\<lambda>metadata.
     bindE (create (pic_amount_minor p) (pic_currency p) (pic_capture_method p) metadata key) (\<lambda>i.
     let row = \<lparr>pk = new_id, created_at = now, py_booking_id = pic_booking_id p, py_quote_id = pic_quote_id p,
           py_lead_purchase_id = None, py_payment_purpose = pic_payment_purpose p, py_provider = ''stripe'',
           py_provider_payment_id = Some (pi_id i), py_status = stripe_status (pi_status i) PY_CREATED,
           py_amount_minor = pic_amount_minor p, py_currency = pic_currency p,
           py_captured_amount_minor = pi_amount_received i,
           py_provider_client_secret = pi_client_secret i, py_failure_code = None,
           py_metadata = json_metadata metadata\<rparr>;
         record_row = \<lparr>ir_operation = ''create_intent'', ir_idempotency_key = key,
           ir_request_hash = request_hash p, ir_response_code = Some 201, ir_response_id = Some new_id\<rparr>
     in bindE (add_payment row s) (\<lambda>s1.
        Inr (row, s1\<lparr>idempotency_records := idempotency_records s1 @ [record_row]\<rparr>))))"

definition create_intent ::
  "create_intent_call \<Rightarrow> (payment_intent_create \<Rightarrow> string) \<Rightarrow> datetime \<Rightarrow> uuid \<Rightarrow> payment_intent_create
   \<Rightarrow> string \<Rightarrow> db \<Rightarrow> (db, payment_view) outcome"
where
  "create_intent create request_hash now new_id p key s =
     (if pic_payment_purpose p = PROFESSIONAL_LEAD
      then (Inl (InvalidPaymentState ''Professional lead payments must use the provider purchase endpoint''), s)
      else case get_idempotency s ''create_intent'' key of
        Some existing \<Rightarrow>
          if ir_request_hash existing \<noteq> request_hash p
          then (Inl (IdempotencyConflict ''Idempotency key was already used with another request''), s)
          else (case ir_response_id existing of
                  None \<Rightarrow> (Inl (IdempotencyConflict ''Request with this idempotency key is still processing''), s)
                | Some i \<Rightarrow>
                    (case get_payment s i of
                       None \<Rightarrow> (Inl (PaymentNotFound ''Stored idempotent payment no longer exists''), s)
                     | Some row \<Rightarrow> (Inr (view row), s)))
      | None \<Rightarrow>
          case new_intent create request_hash now new_id p key s of
            Inl e \<Rightarrow> (Inl e, s)
          | Inr (row, s') \<Rightarrow> (Inr (view row), s'))"

definition create_professional_lead_intent ::
  "create_intent_call \<Rightarrow> datetime \<Rightarrow> uuid \<Rightarrow> uuid \<Rightarrow> int \<Rightarrow> string \<Rightarrow> uuid \<Rightarrow> uuid \<Rightarrow> string \<Rightarrow> db
   \<Rightarrow> (payment \<times> db) result"
where
  "create_professional_lead_intent create now new_id lead_purchase_id amount_minor cur provider_id
     lead_id key s =
     (case find (\<lambda>p. py_lead_purchase_id p = Some lead_purchase_id) (payments s) of
        Some existing \<Rightarrow> Inr (existing, s)
      | None \<Rightarrow>
          let ids = [(''lead_purchase_id'', str_uuid lead_purchase_id), (''lead_id'', str_uuid lead_id),
                (''provider_id'', str_uuid provider_id)]
          in bindE (create amount_minor cur ''automatic''
                 (ids @ [(''purpose'', purpose_value PROFESSIONAL_LEAD)])
                 (''professional-lead:'' @ key)) (\<lambda>i.
             let row = \<lparr>pk = new_id, created_at = now, py_booking_id = None, py_quote_id = None,
                   py_lead_purchase_id = Some lead_purchase_id, py_payment_purpose = PROFESSIONAL_LEAD,
                   py_provider = ''stripe'', py_provider_payment_id = Some (pi_id i),
                   py_status = stripe_status (pi_status i) PY_CREATED, py_amount_minor = amount_minor,
                   py_currency = upper cur, py_captured_amount_minor = pi_amount_received i,
                   py_provider_client_secret = pi_client_secret i, py_failure_code = None,
                   py_metadata = json_metadata ids\<rparr>
             in bindE (add_payment row s) (\<lambda>s'. Inr (row, s'))))"

definition get_view :: "uuid \<Rightarrow> db \<Rightarrow> payment_view result" where
  "get_view payment_id s = bindE (of_option (PaymentNotFound ''Payment not found'') (get_payment s payment_id))
     (\<lambda>p. Inr (view p))"

section \<open>What a captured payment settles\<close>

abbreviation get_purchase :: "db \<Rightarrow> uuid option \<Rightarrow> lead_purchase option" where
  "get_purchase s i \<equiv> Option.bind i (\<lambda>j. lookup_row pk j (lead_purchases s))"

abbreviation get_lead :: "db \<Rightarrow> uuid \<Rightarrow> professional_lead option" where
  "get_lead s i \<equiv> lookup_row pk i (leads s)"

abbreviation put_purchase :: "lead_purchase \<Rightarrow> db \<Rightarrow> db" where
  "put_purchase x s \<equiv> s\<lparr>lead_purchases := update_row pk (pk x) (\<lambda>_. x) (lead_purchases s)\<rparr>"

abbreviation put_lead :: "professional_lead \<Rightarrow> db \<Rightarrow> db" where
  "put_lead x s \<equiv> s\<lparr>leads := update_row pk (pk x) (\<lambda>_. x) (leads s)\<rparr>"

definition settle_lead :: "payment \<Rightarrow> db \<Rightarrow> db result" where
  "settle_lead p s =
     bindE (of_option (PaymentNotFound ''Payment references an unknown lead purchase'')
       (get_purchase s (py_lead_purchase_id p))) (\<lambda>purchase.
     case get_lead s (lp_lead_id purchase) of
       None \<Rightarrow> Inl (InvalidPaymentState ''Lead cannot be settled from its current state'')
     | Some lead \<Rightarrow>
         bindE (ensure (pl_status lead = L_RESERVED \<or> pl_status lead = L_PURCHASED)
           (InvalidPaymentState ''Lead cannot be settled from its current state'')) (\<lambda>_.
         Inr (put_lead (lead\<lparr>pl_status := L_PURCHASED\<rparr>)
               (put_purchase (purchase\<lparr>lp_status := LP_PAID\<rparr>) s))))"

text \<open>\<open>None\<close> is the early return for a quote that is already approved, after which no event is added.\<close>

definition settle_quote :: "datetime \<Rightarrow> payment \<Rightarrow> db \<Rightarrow> db option result" where
  "settle_quote now p s =
     bindE (of_option (PaymentNotFound ''Payment references an unknown quote'')
       (Option.bind (py_quote_id p) (\<lambda>i. lookup_row pk i (work_requests s)))) (\<lambda>q.
     if wr_status q = WR_APPROVED then Inr None
     else
       bindE (ensure (wr_status q = WR_APPROVED_PENDING_PAYMENT)
         (InvalidPaymentState ''Quote cannot be settled from its current state'')) (\<lambda>_.
       bindE (apply_work_request_transition WR_APPROVED q) (\<lambda>q1.
       let s1 = put_request (q1\<lparr>wr_payment_id := Some (pk p)\<rparr>) s
       in case get_job s1 (wr_job_id q) of
            Some j \<Rightarrow>
              if jb_status j = J_AWAITING_APPROVAL
              then bindE (apply_transition now J_IN_PROGRESS None ''system''
                     (Some ''additional_work_payment_captured'') [] j) (\<lambda>(j', ev).
                   Inr (Some (put_job j' ev s1)))
              else Inr (Some s1)
          | None \<Rightarrow> Inr (Some s1))))"

definition job_of_payment :: "datetime \<Rightarrow> uuid \<Rightarrow> booking \<Rightarrow> job" where
  "job_of_payment now new_id b =
     \<lparr>pk = new_id, created_at = now, jb_booking_id = pk b, jb_customer_id = Some (bk_customer_id b),
      jb_service_id = bk_service_id b, jb_address_id = bk_address_id b, jb_status = J_CREATED,
      jb_scheduled_start = bk_window_start b, jb_scheduled_end = bk_window_end b, jb_vendor_id = None,
      jb_worker_id = None, jb_version = 1, jb_diagnostic_notes = None, jb_completion_notes = None,
      jb_completed_at = None\<rparr>"

definition confirm_booking_and_create_job ::
  "(nat \<Rightarrow> datetime) \<Rightarrow> (nat \<Rightarrow> uuid) \<Rightarrow> payment \<Rightarrow> db \<Rightarrow> db result"
where
  "confirm_booking_and_create_job clk new_id p s =
     bindE (of_option (PaymentNotFound ''Payment references an unknown booking'')
       (Option.bind (py_booking_id p) (get_booking s))) (\<lambda>b.
     if bk_status b = B_PENDING_PROVIDER_CONFIRMATION \<or> bk_status b = B_CONFIRMED then Inr s
     else
       bindE (ensure (bk_status b = B_PENDING_PAYMENT)
         (InvalidPaymentState ''Booking cannot be confirmed from its current state'')) (\<lambda>_.
       let s1 = modify_booking (pk b) (\<lambda>x. x\<lparr>bk_status := B_PENDING_PROVIDER_CONFIRMATION\<rparr>) s
       in if list_ex (\<lambda>j. jb_booking_id j = pk b) (jobs s) then Inr s1
          else
            Inr (add_event (new_event (new_id 1) ''job'' (new_id 0) ''job.created'' None
                    [(''job_id'', JUuid (new_id 0)), (''booking_id'', JUuid (pk b))] (clk 1))
                  (s1\<lparr>jobs := jobs s1 @ [job_of_payment (clk 0) (new_id 0) b],
                      job_events := job_events s1 @
                        [\<lparr>je_job_id = new_id 0, je_from_status = None, je_to_status = J_CREATED,
                          je_actor_id = None, je_actor_type = ''system'',
                          je_reason = Some ''payment_captured'', je_metadata = []\<rparr>]\<rparr>))))"

definition settle ::
  "(nat \<Rightarrow> datetime) \<Rightarrow> (nat \<Rightarrow> uuid) \<Rightarrow> payment \<Rightarrow> db \<Rightarrow> db result"
where
  "settle clk new_id p s =
     bindE (case py_payment_purpose p of
              PROFESSIONAL_LEAD \<Rightarrow> bindE (settle_lead p s) (\<lambda>s1. Inr (Some s1))
            | QUOTE_ADDITIONAL_WORK \<Rightarrow> settle_quote (clk 0) p s
            | BOOKING_DIAGNOSTIC \<Rightarrow> bindE (confirm_booking_and_create_job clk new_id p s) (\<lambda>s1. Inr (Some s1)))
       (\<lambda>r. case r of
          None \<Rightarrow> Inr s
        | Some s1 \<Rightarrow>
            Inr (add_event (new_event (new_id 2) ''payment'' (pk p) ''payment_captured'' None
                   [(''payment_id'', JUuid (pk p)), (''purpose'', JStr (purpose_value (py_payment_purpose p)))]
                   (clk 2)) s1))"

text \<open>A failed or cancelled payment of a lead frees the lead; a full refund is noted on the purchase.\<close>

definition release_failed_lead_purchase :: "payment \<Rightarrow> db \<Rightarrow> db" where
  "release_failed_lead_purchase p s =
     (if py_payment_purpose p \<noteq> PROFESSIONAL_LEAD then s
      else case get_purchase s (py_lead_purchase_id p) of
        None \<Rightarrow> s
      | Some purchase \<Rightarrow>
          let s1 = put_purchase (purchase\<lparr>lp_status := LP_FAILED\<rparr>) s
          in case get_lead s (lp_lead_id purchase) of
               Some lead \<Rightarrow>
                 if pl_status lead = L_RESERVED
                 then put_lead (lead\<lparr>pl_status := L_AVAILABLE, pl_purchased_by_vendor_id := None\<rparr>) s1
                 else s1
             | None \<Rightarrow> s1)"

definition mark_lead_purchase_refunded :: "payment \<Rightarrow> db \<Rightarrow> db" where
  "mark_lead_purchase_refunded p s =
     (case get_purchase s (py_lead_purchase_id p) of
        Some purchase \<Rightarrow>
          if py_status p = PY_REFUNDED then put_purchase (purchase\<lparr>lp_status := LP_REFUNDED\<rparr>) s else s
      | None \<Rightarrow> s)"

section \<open>Capture\<close>

definition has_provider_id :: "payment \<Rightarrow> bool" where
  "has_provider_id p = (case py_provider_payment_id p of None \<Rightarrow> False | Some t \<Rightarrow> t \<noteq> [])"

definition capture_authorized ::
  "capture_intent_call \<Rightarrow> (nat \<Rightarrow> datetime) \<Rightarrow> (nat \<Rightarrow> uuid) \<Rightarrow> payment \<Rightarrow> int option \<Rightarrow> string \<Rightarrow> db
   \<Rightarrow> (payment \<times> db) result"
where
  "capture_authorized capture_intent clk new_id p amount_minor key s =
     bindE (capture_intent (the (py_provider_payment_id p)) amount_minor key) (\<lambda>i.
       let p1 = p\<lparr>py_status := stripe_status (pi_status i) (py_status p),
                  py_captured_amount_minor := pi_amount_received i\<rparr>;
           s1 = put_payment p1 s
       in if py_status p1 = PY_CAPTURED then bindE (settle clk new_id p1 s1) (\<lambda>s2. Inr (p1, s2))
          else Inr (p1, s1))"

definition capture ::
  "capture_intent_call \<Rightarrow> (nat \<Rightarrow> datetime) \<Rightarrow> (nat \<Rightarrow> uuid) \<Rightarrow> uuid \<Rightarrow> int option \<Rightarrow> string \<Rightarrow> db
   \<Rightarrow> (db, payment_view) outcome"
where
  "capture capture_intent clk new_id payment_id amount_minor key s =
     (case get_payment s payment_id of
        None \<Rightarrow> (Inl (PaymentNotFound ''Payment not found''), s)
      | Some p \<Rightarrow>
          if py_status p = PY_CAPTURED then (Inr (view p), s)
          else if py_status p \<noteq> PY_AUTHORIZED \<or> \<not> has_provider_id p
          then (Inl (InvalidPaymentState ''Only an authorized payment can be captured''), s)
          else if (case amount_minor of None \<Rightarrow> False | Some n \<Rightarrow> n > py_amount_minor p)
          then (Inl (InvalidPaymentState ''Capture amount exceeds authorized amount''), s)
          else case capture_authorized capture_intent clk new_id p amount_minor key s of
            Inl e \<Rightarrow> (Inl e, s)
          | Inr (p1, s2) \<Rightarrow> (Inr (view p1), s2))"

section \<open>Refunds\<close>

text \<open>
  The identifier of a new refund is drawn when the row is flushed.  The event that reports the refund
  is built before that, except that marking the purchase of a lead queries the database and so flushes
  the refund first: otherwise the event carries the text None.
\<close>

definition refund_event_id :: "bool \<Rightarrow> uuid \<Rightarrow> json" where
  "refund_event_id flushed new_id = (if flushed then JUuid new_id else JStr ''None'')"

definition refund_audit :: "datetime \<Rightarrow> uuid \<Rightarrow> string option \<Rightarrow> refund \<Rightarrow> payment \<Rightarrow> audit_log" where
  "refund_audit now actor_id reason r p =
     \<lparr>al_actor_id = Some actor_id, al_actor_type = ''user'', al_action = ''refund.create'',
      al_resource_type = ''payment'', al_resource_id = pk p,
      al_metadata_json = [(''amount_minor'', JInt (rf_amount_minor r)), (''currency'', JStr (py_currency p)),
        (''reason'', (case reason of None \<Rightarrow> JNull | Some t \<Rightarrow> JStr t)),
        (''provider_refund_id'', (case rf_provider_refund_id r of None \<Rightarrow> JNull | Some t \<Rightarrow> JStr t)),
        (''provider_status'', JStr (refund_status_value (rf_status r)))],
      al_created_at = now\<rparr>"

definition new_refund ::
  "create_refund_call \<Rightarrow> (nat \<Rightarrow> datetime) \<Rightarrow> (nat \<Rightarrow> uuid) \<Rightarrow> payment \<Rightarrow> int option \<Rightarrow> string \<Rightarrow> uuid
   \<Rightarrow> string option \<Rightarrow> db \<Rightarrow> (refund \<times> db) result"
where
  "new_refund create_refund clk new_id p amount_minor key actor_id reason s =
     bindE (ensure (py_status p = PY_CAPTURED \<or> py_status p = PY_PARTIALLY_REFUNDED)
       (InvalidPaymentState ''Only captured payments can be refunded'')) (\<lambda>_.
     let remaining = py_captured_amount_minor p - refunded_sum live_refund (pk p) (refunds s);
         requested = (case amount_minor of Some n \<Rightarrow> n | None \<Rightarrow> remaining)
     in bindE (ensure (\<not> (requested \<le> 0 \<or> requested > remaining))
          (InvalidPaymentState ''Refund amount exceeds refundable balance'')) (\<lambda>_.
        bindE (create_refund (the (py_provider_payment_id p)) requested key) (\<lambda>pr.
        let st = (case map_of REFUND_STATUS (pr_status pr) of Some v \<Rightarrow> v | None \<Rightarrow> RF_PENDING);
            r = \<lparr>pk = new_id 0, created_at = clk 0, rf_payment_id = pk p, rf_amount_minor = requested,
                 rf_status = st, rf_provider_refund_id = Some (pr_id pr), rf_idempotency_key = key,
                 rf_reason = reason, rf_created_by = actor_id\<rparr>;
            s1 = add_audit (refund_audit (clk 1) actor_id reason r p) (s\<lparr>refunds := refunds s @ [r]\<rparr>);
            p1 = p\<lparr>py_status := (if requested = remaining then PY_REFUNDED else PY_PARTIALLY_REFUNDED)\<rparr>;
            lead = (py_payment_purpose p = PROFESSIONAL_LEAD);
            s2 = (if st = RF_SUCCEEDED
                  then (if lead then mark_lead_purchase_refunded p1 (put_payment p1 s1) else put_payment p1 s1)
                  else s1)
        in bindE (ensure (\<not> list_ex (\<lambda>x. rf_provider_refund_id x = Some (pr_id pr)) (refunds s))
             (IntegrityError ''uq_refunds_provider_id'')) (\<lambda>_.
           Inr (r, add_event (new_event (new_id 1) ''payment'' (pk p) ''refund_created'' None
                  [(''payment_id'', JUuid (pk p)),
                   (''refund_id'', refund_event_id (st = RF_SUCCEEDED \<and> lead) (new_id 0)),
                   (''amount_minor'', JInt requested)] (clk 2)) s2)))))"

definition refund_payment ::
  "create_refund_call \<Rightarrow> (nat \<Rightarrow> datetime) \<Rightarrow> (nat \<Rightarrow> uuid) \<Rightarrow> uuid \<Rightarrow> int option \<Rightarrow> string \<Rightarrow> uuid
   \<Rightarrow> string option \<Rightarrow> db \<Rightarrow> (db, refund) outcome"
where
  "refund_payment create_refund clk new_id payment_id amount_minor key actor_id reason s =
     (case get_payment s payment_id of
        None \<Rightarrow> (Inl (PaymentNotFound ''Payment not found''), s)
      | Some p \<Rightarrow>
          if \<not> has_provider_id p then (Inl (PaymentNotFound ''Payment not found''), s)
          else case refund_by_key s (pk p) key of
            Some existing \<Rightarrow> (Inr existing, s)
          | None \<Rightarrow>
              case new_refund create_refund clk new_id p amount_minor key actor_id reason s of
                Inl e \<Rightarrow> (Inl e, s)
              | Inr (r, s') \<Rightarrow> (Inr r, s'))"

section \<open>Webhooks\<close>

text \<open>
  Reading the verified event.  \<open>sub_object d k\<close> is \<^verbatim>\<open>d.get(k, {})\<close> with a method called on the result,
  which raises an \<^verbatim>\<open>AttributeError\<close> unless it is an object.  \<open>text_value\<close> is a value on its way to a
  nullable text column, where the driver refuses everything but a string.
\<close>

definition sub_object :: "json_object \<Rightarrow> string \<Rightarrow> json_object result" where
  "sub_object d k = (case map_of d k of
       None \<Rightarrow> Inr [] | Some (JObj x) \<Rightarrow> Inr x | Some _ \<Rightarrow> Inl (ValueError ''AttributeError''))"

definition text_value :: "json option \<Rightarrow> string option result" where
  "text_value v = (case v of
       None \<Rightarrow> Inr None | Some JNull \<Rightarrow> Inr None | Some (JStr t) \<Rightarrow> Inr (Some t)
     | Some _ \<Rightarrow> Inl (ValueError ''DataError''))"

definition object_is :: "string \<Rightarrow> json_object \<Rightarrow> bool" where
  "object_is t d = (map_of d ''object'' = Some (JStr t))"

text \<open>A dictionary or set lookup with a JSON value: a list or an object is not hashable.\<close>

definition hashed_text :: "json option \<Rightarrow> string option result" where
  "hashed_text v = (case v of
       Some (JStr t) \<Rightarrow> Inr (Some t)
     | Some (JList _) \<Rightarrow> Inl (ValueError ''TypeError'') | Some (JObj _) \<Rightarrow> Inl (ValueError ''TypeError'')
     | _ \<Rightarrow> Inr None)"

definition webhook_payment ::
  "(nat \<Rightarrow> datetime) \<Rightarrow> (nat \<Rightarrow> uuid) \<Rightarrow> string \<Rightarrow> json_object \<Rightarrow> payment \<Rightarrow> db \<Rightarrow> db result"
where
  "webhook_payment clk new_id event_type d p s =
     (if event_type = ''payment_intent.payment_failed'' then
        bindE (sub_object d ''last_payment_error'') (\<lambda>le.
        bindE (text_value (map_of le ''code'')) (\<lambda>code.
        let p1 = p\<lparr>py_status := PY_FAILED, py_failure_code := code\<rparr>
        in Inr (release_failed_lead_purchase p1 (put_payment p1 s))))
      else if event_type = ''payment_intent.canceled'' then
        let p1 = p\<lparr>py_status := PY_CANCELED\<rparr>
        in Inr (release_failed_lead_purchase p1 (put_payment p1 s))
      else if take 15 event_type = ''payment_intent.'' then
        bindE (hashed_text (map_of d ''status'')) (\<lambda>st.
        bindE (case map_of d ''amount_received'' of
                 None \<Rightarrow> Inr (py_captured_amount_minor p) | Some (JInt n) \<Rightarrow> Inr n
               | Some _ \<Rightarrow> Inl (ValueError ''DataError'')) (\<lambda>received.
        let p1 = p\<lparr>py_status := (case st of None \<Rightarrow> py_status p | Some t \<Rightarrow> stripe_status t (py_status p)),
                   py_captured_amount_minor := received\<rparr>;
            s1 = put_payment p1 s
        in if py_status p1 = PY_CAPTURED then settle clk new_id p1 s1 else Inr s1))
      else Inr s)"

definition webhook_refund :: "json_object \<Rightarrow> refund \<Rightarrow> db \<Rightarrow> (uuid option \<times> db) result" where
  "webhook_refund d r s =
     bindE (hashed_text (map_of d ''status'')) (\<lambda>st.
     case Option.bind st (map_of REFUND_STATUS) of
       None \<Rightarrow> Inr (None, s)
     | Some v \<Rightarrow>
         let s1 = s\<lparr>refunds := update_row pk (pk r) (\<lambda>x. x\<lparr>rf_status := v\<rparr>) (refunds s)\<rparr>
         in case get_payment s1 (rf_payment_id r) of
              None \<Rightarrow> Inr (None, s1)
            | Some p \<Rightarrow>
                if v = RF_SUCCEEDED then
                  let refunded = refunded_sum (\<lambda>x. x = RF_SUCCEEDED) (pk p) (refunds s1);
                      p1 = p\<lparr>py_status := (if refunded \<ge> py_captured_amount_minor p then PY_REFUNDED
                               else PY_PARTIALLY_REFUNDED)\<rparr>;
                      s2 = put_payment p1 s1
                  in Inr (Some (pk p), if py_payment_purpose p = PROFESSIONAL_LEAD
                            then mark_lead_purchase_refunded p1 s2 else s2)
                else Inr (Some (pk p), s1))"

text \<open>The body of the \<^verbatim>\<open>try\<close> before the event is recorded; it finds the payment the event is about.\<close>

definition handle_event ::
  "(nat \<Rightarrow> datetime) \<Rightarrow> (nat \<Rightarrow> uuid) \<Rightarrow> string \<Rightarrow> json_object \<Rightarrow> db \<Rightarrow> (uuid option \<times> db) result"
where
  "handle_event clk new_id event_type event s =
     bindE (sub_object event ''data'') (\<lambda>data.
     bindE (sub_object data ''object'') (\<lambda>d.
     bindE (if object_is ''payment_intent'' d \<and> truthy (map_of d ''id'')
            then bindE (text_value (map_of d ''id'')) (\<lambda>t. Inr (Option.bind t (get_by_provider_id s)))
            else Inr None) (\<lambda>found.
     case found of
       Some p \<Rightarrow> bindE (webhook_payment clk new_id event_type d p s) (\<lambda>s'. Inr (Some (pk p), s'))
     | None \<Rightarrow>
         if object_is ''refund'' d \<and> truthy (map_of d ''id'') then
           bindE (text_value (map_of d ''id'')) (\<lambda>t.
           case Option.bind t (refund_by_provider_id s) of
             None \<Rightarrow> Inr (None, s)
           | Some r \<Rightarrow> webhook_refund d r s)
         else Inr (None, s))))"

definition same_event :: "string \<Rightarrow> payment_event \<Rightarrow> bool" where
  "same_event event_id e = (pe_provider e = ''stripe'' \<and> pe_provider_event_id e = event_id)"

definition record_processed ::
  "datetime \<Rightarrow> string \<Rightarrow> string \<Rightarrow> json_object \<Rightarrow> uuid option \<Rightarrow> db \<Rightarrow> db"
where
  "record_processed now event_id event_type event payment_id s =
     (case get_payment_event s ''stripe'' event_id of
        Some _ \<Rightarrow>
          s\<lparr>payment_events := update_where (same_event event_id)
             (\<lambda>e. e\<lparr>pe_status := ''processed'', pe_attempts := pe_attempts e + 1, pe_last_error := None,
                    pe_processed_at := Some now, pe_payment_id := payment_id, pe_payload := event\<rparr>)
             (payment_events s)\<rparr>
      | None \<Rightarrow>
          s\<lparr>payment_events := payment_events s @
             [\<lparr>pe_provider = ''stripe'', pe_provider_event_id = event_id, pe_event_type = event_type,
               pe_payment_id = payment_id, pe_payload = event, pe_status = ''processed'', pe_attempts = 1,
               pe_last_error = None, pe_processed_at = Some now\<rparr>]\<rparr>)"

definition record_failed ::
  "(api_error \<Rightarrow> string) \<Rightarrow> string \<Rightarrow> string \<Rightarrow> json_object \<Rightarrow> api_error \<Rightarrow> db \<Rightarrow> db"
where
  "record_failed str_exc event_id event_type event e s =
     (case get_payment_event s ''stripe'' event_id of
        Some _ \<Rightarrow>
          s\<lparr>payment_events := update_where (same_event event_id)
             (\<lambda>x. x\<lparr>pe_status := ''failed'', pe_attempts := pe_attempts x + 1,
                    pe_last_error := Some (take 2000 (str_exc e))\<rparr>)
             (payment_events s)\<rparr>
      | None \<Rightarrow>
          s\<lparr>payment_events := payment_events s @
             [\<lparr>pe_provider = ''stripe'', pe_provider_event_id = event_id, pe_event_type = event_type,
               pe_payment_id = None, pe_payload = event, pe_status = ''failed'', pe_attempts = 1,
               pe_last_error = Some (take 2000 (str_exc e)), pe_processed_at = None\<rparr>]\<rparr>)"

definition is_payment_error :: "api_error \<Rightarrow> bool" where
  "is_payment_error e = (case e of PaymentError _ \<Rightarrow> True | PaymentNotFound _ \<Rightarrow> True
     | InvalidPaymentState _ \<Rightarrow> True | IdempotencyConflict _ \<Rightarrow> True | InvalidWebhook _ \<Rightarrow> True | _ \<Rightarrow> False)"

definition already_processed :: "db \<Rightarrow> string \<Rightarrow> bool" where
  "already_processed s event_id = (case get_payment_event s ''stripe'' event_id of
       None \<Rightarrow> False | Some e \<Rightarrow> pe_status e = ''processed'')"

definition event_identity :: "json_object \<Rightarrow> (string \<times> string) option" where
  "event_identity event = (case (map_of event ''id'', map_of event ''type'') of
       (Some (JStr event_id), Some (JStr event_type)) \<Rightarrow> Some (event_id, event_type)
     | _ \<Rightarrow> None)"

text \<open>
  \<^verbatim>\<open>process_webhook\<close>.  Stripe's event identifiers and types are strings; another value is refused by
  the database driver.
\<close>

definition process_webhook ::
  "(string \<Rightarrow> string \<Rightarrow> json_object result) \<Rightarrow> (api_error \<Rightarrow> string) \<Rightarrow> (nat \<Rightarrow> datetime) \<Rightarrow> (nat \<Rightarrow> uuid)
   \<Rightarrow> string \<Rightarrow> string \<Rightarrow> db \<Rightarrow> (db, string \<times> bool) outcome"
where
  "process_webhook verify str_exc clk new_id body signature s =
     (case verify body signature of
        Inl e \<Rightarrow> (Inl e, s)
      | Inr event \<Rightarrow>
          case event_identity event of
            None \<Rightarrow> (Inl (ValueError ''DataError''), s)
          | Some (event_id, event_type) \<Rightarrow>
              if already_processed s event_id then (Inr (event_id, True), s)
              else (case handle_event clk new_id event_type event s of
                  Inr (payment_id, s1) \<Rightarrow>
                    (Inr (event_id, False), record_processed (clk 3) event_id event_type event payment_id s1)
                | Inl e \<Rightarrow>
                    (Inl (if is_payment_error e then e else PaymentError ''Webhook processing failed''),
                     record_failed str_exc event_id event_type event e s)))"

end
