(* ===== verification/Leads.thy ===== *)
theory Leads
  imports Payments
begin

text \<open>
  Professional leads (\<^verbatim>\<open>professional_leads/service.py\<close>): which leads a vendor sees, the purchase that
  reserves a lead and starts its payment, and disputes.
\<close>

definition lead_eligible :: "vendor \<Rightarrow> professional_lead \<Rightarrow> bool" where
  "lead_eligible v lead = List.member (map lower (vn_capabilities v)) (lower (pl_service_category lead))"

definition lead_expired :: "datetime \<Rightarrow> professional_lead \<Rightarrow> bool" where
  "lead_expired now lead = (case pl_expires_at lead of None \<Rightarrow> False | Some t \<Rightarrow> t \<le> now)"

definition available_leads :: "datetime \<Rightarrow> vendor \<Rightarrow> db \<Rightarrow> professional_lead list" where
  "available_leads now v s =
     filter (lead_eligible v) (filter (\<lambda>l. pl_status l = L_AVAILABLE \<and> \<not> lead_expired now l) (leads s))"

definition get_available_lead :: "datetime \<Rightarrow> uuid \<Rightarrow> vendor \<Rightarrow> db \<Rightarrow> professional_lead result" where
  "get_available_lead now lead_id v s =
     bindE (of_option (DomainError ''LEAD_NOT_FOUND'' 404) (get_lead s lead_id)) (\<lambda>lead.
     bindE (ensure (pl_status lead = L_AVAILABLE \<and> lead_eligible v lead)
       (DomainError ''LEAD_NOT_FOUND'' 404)) (\<lambda>_.
     bindE (ensure (\<not> lead_expired now lead) (DomainError ''LEAD_NOT_FOUND'' 404)) (\<lambda>_.
     Inr lead)))"

section \<open>Purchase\<close>

record lead_purchase_view =
  lpv_id :: uuid
  lpv_lead_id :: uuid
  lpv_vendor_id :: uuid
  lpv_price_minor :: int
  lpv_currency :: string
  lpv_status :: lead_purchase_status
  lpv_payment_id :: uuid
  lpv_payment_status :: payment_status
  lpv_client_secret :: "string option"

definition lead_view :: "lead_purchase \<Rightarrow> payment \<Rightarrow> lead_purchase_view" where
  "lead_view x p = \<lparr>lpv_id = pk x, lpv_lead_id = lp_lead_id x, lpv_vendor_id = lp_vendor_id x,
     lpv_price_minor = lp_price_minor x, lpv_currency = lp_currency x, lpv_status = lp_status x,
     lpv_payment_id = pk p, lpv_payment_status = py_status p,
     lpv_client_secret = py_provider_client_secret p\<rparr>"

definition purchase_view :: "lead_purchase \<Rightarrow> db \<Rightarrow> lead_purchase_view result" where
  "purchase_view x s =
     bindE (of_option (DomainError ''PAYMENT_NOT_FOUND'' 409)
       (find (\<lambda>p. py_lead_purchase_id p = Some (pk x)) (payments s))) (\<lambda>p.
     Inr (lead_view x p))"

text \<open>
  The flush of a purchase: a lead is sold at most once, and a vendor's key is used once
  (\<^verbatim>\<open>unique=True\<close> on \<^verbatim>\<open>lead_id\<close>, \<^verbatim>\<open>uq_lead_purchase_key\<close>).
\<close>

definition add_purchase :: "lead_purchase \<Rightarrow> db \<Rightarrow> db result" where
  "add_purchase x s =
     bindE (ensure (\<not> list_ex (\<lambda>y. lp_lead_id y = lp_lead_id x) (lead_purchases s))
       (IntegrityError ''professional_lead_purchases_lead_id'')) (\<lambda>_.
     bindE (ensure (\<not> list_ex (\<lambda>y. lp_vendor_id y = lp_vendor_id x
         \<and> lp_idempotency_key y = lp_idempotency_key x) (lead_purchases s))
       (IntegrityError ''uq_lead_purchase_key'')) (\<lambda>_.
     Inr (s\<lparr>lead_purchases := lead_purchases s @ [x]\<rparr>)))"

definition buy_lead ::
  "create_intent_call \<Rightarrow> (nat \<Rightarrow> datetime) \<Rightarrow> (nat \<Rightarrow> uuid) \<Rightarrow> uuid \<Rightarrow> vendor \<Rightarrow> string \<Rightarrow> db
   \<Rightarrow> (lead_purchase_view \<times> db) result"
where
  "buy_lead create clk new_id lead_id v key s =
     bindE (of_option (DomainError ''LEAD_UNAVAILABLE'' 409) (get_lead s lead_id)) (\<lambda>lead.
     bindE (ensure (pl_status lead = L_AVAILABLE) (DomainError ''LEAD_UNAVAILABLE'' 409)) (\<lambda>_.
     bindE (ensure (\<not> lead_expired (clk 0) lead) (DomainError ''LEAD_UNAVAILABLE'' 409)) (\<lambda>_.
     bindE (ensure (lead_eligible v lead) (DomainError ''PROVIDER_NOT_ELIGIBLE'' 403)) (\<lambda>_.
     let x = \<lparr>pk = new_id 0, created_at = clk 1, lp_lead_id = pk lead, lp_vendor_id = pk v,
           lp_idempotency_key = key, lp_price_minor = pl_price_minor lead, lp_currency = pl_currency lead,
           lp_status = LP_PENDING_PAYMENT\<rparr>
     in bindE (add_purchase x s) (\<lambda>s1.
        bindE (create_professional_lead_intent create (clk 1) (new_id 1) (pk x) (pl_price_minor lead)
          (pl_currency lead) (pk v) (pk lead) key s1) (\<lambda>(p, s2).
        Inr (lead_view x p,
             put_lead (lead\<lparr>pl_status := L_RESERVED, pl_purchased_by_vendor_id := Some (pk v)\<rparr>) s2)))))))"

definition purchase_lead ::
  "settings \<Rightarrow> create_intent_call option \<Rightarrow> (nat \<Rightarrow> datetime) \<Rightarrow> (nat \<Rightarrow> uuid) \<Rightarrow> uuid \<Rightarrow> uuid \<Rightarrow> string
   \<Rightarrow> db \<Rightarrow> (db, lead_purchase_view) outcome"
where
  "purchase_lead cfg payment_provider clk new_id lead_id vendor_id key s =
     (if \<not> stripe_enabled cfg then (Inl (DomainError ''PAYMENT_PROVIDER_UNAVAILABLE'' 503), s)
      else case get_vendor s vendor_id of
        None \<Rightarrow> (Inl (DomainError ''PROVIDER_NOT_ELIGIBLE'' 403), s)
      | Some v \<Rightarrow>
          if vn_status v \<noteq> V_ACTIVE then (Inl (DomainError ''PROVIDER_NOT_ELIGIBLE'' 403), s)
          else case payment_provider of
            None \<Rightarrow> (Inl (DomainError ''PAYMENT_PROVIDER_UNAVAILABLE'' 503), s)
          | Some create \<Rightarrow>
              case find (\<lambda>x. lp_vendor_id x = vendor_id \<and> lp_idempotency_key x = key) (lead_purchases s) of
                Some existing \<Rightarrow>
                  if lp_lead_id existing \<noteq> lead_id then (Inl (DomainError ''IDEMPOTENCY_CONFLICT'' 409), s)
                  else (purchase_view existing s, s)
              | None \<Rightarrow>
                  case buy_lead create clk new_id lead_id v key s of
                    Inl e \<Rightarrow> (Inl e, s)
                  | Inr (res, s') \<Rightarrow> (Inr res, s'))"

section \<open>Disputes\<close>

definition DISPUTE_WINDOW :: int where "DISPUTE_WINDOW = hours_of 72"

definition dispute_event ::
  "settings \<Rightarrow> datetime \<Rightarrow> datetime \<Rightarrow> uuid \<Rightarrow> uuid \<Rightarrow> lead_purchase \<Rightarrow> lead_dispute \<Rightarrow> integration_event"
where
  "dispute_event cfg submitted_at now new_id lead_id x d =
     (new_event new_id ''lead_dispute'' (pk d) ''breero.lead_dispute.created''
        (Some (''lead_dispute:'' @ str_uuid (pk d) @ '':1''))
        [(''dispute_id'', JUuid (pk d)), (''lead_id'', JUuid lead_id), (''provider_id'', JUuid (ld_vendor_id d)),
         (''purchase_id'', JUuid (pk x)), (''reason'', JStr (ld_reason d)), (''details'', JStr (ld_details d)),
         (''submitted_at'', JTime submitted_at), (''deadline_at'', JTime (ld_deadline_at d)),
         (''status'', JStr ''OPEN''), (''amount_minor'', JInt (lp_price_minor x)),
         (''currency'', JStr (lp_currency x))] now)
      \<lparr>ev_status := (if odoo_enabled cfg then E_PENDING else E_PENDING_CONFIGURATION)\<rparr>"

definition dispute_lead ::
  "settings \<Rightarrow> (nat \<Rightarrow> datetime) \<Rightarrow> (nat \<Rightarrow> uuid) \<Rightarrow> uuid \<Rightarrow> uuid \<Rightarrow> string \<Rightarrow> string \<Rightarrow> db
   \<Rightarrow> (db, lead_dispute) outcome"
where
  "dispute_lead cfg clk new_id lead_id vendor_id reason details s =
     (case find (\<lambda>x. lp_lead_id x = lead_id \<and> lp_vendor_id x = vendor_id) (lead_purchases s) of
        None \<Rightarrow> (Inl (DomainError ''PURCHASE_NOT_FOUND'' 404), s)
      | Some x \<Rightarrow>
          if clk 0 > created_at x + DISPUTE_WINDOW
          then (Inl (DomainError ''DISPUTE_WINDOW_EXPIRED'' 422), s)
          else case find (\<lambda>d. ld_purchase_id d = pk x \<and> ld_reason d = reason) (lead_disputes s) of
            Some existing \<Rightarrow> (Inr existing, s)
          | None \<Rightarrow>
              let d = \<lparr>pk = new_id 0, created_at = clk 1, ld_purchase_id = pk x, ld_vendor_id = vendor_id,
                    ld_reason = reason, ld_details = details, ld_status = LD_OPEN,
                    ld_deadline_at = created_at x + DISPUTE_WINDOW, ld_resolution = None,
                    ld_resolution_reference = None\<rparr>
              in (Inr d, add_event (dispute_event cfg (clk 2) (clk 3) (new_id 1) lead_id x d)
                    (s\<lparr>lead_disputes := lead_disputes s @ [d]\<rparr>)))"

definition get_dispute :: "uuid \<Rightarrow> uuid \<Rightarrow> uuid \<Rightarrow> db \<Rightarrow> lead_dispute result" where
  "get_dispute lead_id dispute_id vendor_id s =
     of_option (DomainError ''DISPUTE_NOT_FOUND'' 404)
       (find (\<lambda>d. pk d = dispute_id \<and> ld_vendor_id d = vendor_id
          \<and> list_ex (\<lambda>x. pk x = ld_purchase_id d \<and> lp_lead_id x = lead_id) (lead_purchases s))
        (lead_disputes s))"

end
