(* ===== verification/Payment_Ledger.thy ===== *)
theory Payment_Ledger
  imports Leads Samples
begin

text \<open>
  What holds of the payment tables however the payment, webhook, refund and lead commands interleave:
  the invariant of payments and refunds, the at-most-once processing of webhooks, what a capture
  settles, and the sale of a lead.
\<close>

lemma of_option_simps [simp]: "of_option e (Some x) = Inr x" "of_option e None = Inl e"
  by (simp_all add: of_option_def)

lemma ensure_simps [simp]: "ensure True e = Inr ()" "ensure False e = Inl e"
  by (simp_all add: ensure_def)

section \<open>Sums of refunds\<close>

lemma refunded_sum_Nil [simp]: "refunded_sum q i [] = 0"
  by (simp add: refunded_sum_def)

lemma refunded_sum_snoc [simp]:
  "refunded_sum q i (rs @ [r]) =
     refunded_sum q i rs + (if rf_payment_id r = i \<and> q (rf_status r) then rf_amount_minor r else 0)"
  by (simp add: refunded_sum_def)

lemma refunded_sum_absent: "i \<notin> rf_payment_id ` set rs \<Longrightarrow> refunded_sum q i rs = 0"
  by (induction rs) (auto simp: refunded_sum_def)

text \<open>A change of status that makes no refund live again does not raise the sum.\<close>

lemma refunded_sum_map_le:
  assumes "\<And>x. x \<in> set rs \<Longrightarrow> rf_payment_id (f x) = rf_payment_id x"
    and "\<And>x. x \<in> set rs \<Longrightarrow> rf_amount_minor (f x) = rf_amount_minor x \<and> 0 \<le> rf_amount_minor x"
    and "\<And>x. x \<in> set rs \<Longrightarrow> q (rf_status (f x)) \<Longrightarrow> q (rf_status x)"
  shows "refunded_sum q i (map f rs) \<le> refunded_sum q i rs"
  using assms by (induction rs) (auto simp: refunded_sum_def intro: add_increasing)

section \<open>The invariant\<close>

definition pay_inv :: "db \<Rightarrow> bool" where
  "pay_inv s \<longleftrightarrow>
     distinct (map pk (payments s)) \<and> distinct (map pk (refunds s))
     \<and> (\<forall>r \<in> set (refunds s). rf_payment_id r \<in> pk ` set (payments s) \<and> 0 < rf_amount_minor r)
     \<and> (\<forall>p \<in> set (payments s). valid_payment_reference p
          \<and> refunded_sum live_refund (pk p) (refunds s) \<le> py_captured_amount_minor p)"

text \<open>Replacing a payment by one that captures no less, and the other changes the commands make.\<close>

lemma pay_inv_same: "pay_inv s \<Longrightarrow> payments s' = payments s \<Longrightarrow> refunds s' = refunds s \<Longrightarrow> pay_inv s'"
  by (simp add: pay_inv_def)

lemma pay_inv_put:
  assumes inv: "pay_inv s" and p: "p \<in> set (payments s)"
    and s': "payments s' = update_row pk (pk p1) (\<lambda>_. p1) (payments s)" "refunds s' = refunds s"
    and p1: "pk p1 = pk p" "py_captured_amount_minor p \<le> py_captured_amount_minor p1"
      "valid_payment_reference p1"
  shows "pay_inv s'"
proof -
  have keys: "map pk (update_row pk (pk p1) (\<lambda>_. p1) xs) = map pk xs" for xs :: "payment list"
    by (induction xs) (auto simp: update_row_def update_where_def)
  have dom: "pk ` set (payments s') = pk ` set (payments s)"
    using keys [of "payments s"] unfolding s' by (metis list.set_map)
  have mem: "x = p1 \<or> x \<in> set (payments s)" if "x \<in> set (payments s')" for x
    using that unfolding s' set_update_row by auto
  have "refunded_sum live_refund (pk p) (refunds s) \<le> py_captured_amount_minor p"
    using inv p by (simp add: pay_inv_def)
  then have "refunded_sum live_refund (pk p1) (refunds s) \<le> py_captured_amount_minor p1"
    using p1 by simp
  with inv p1(3) mem show ?thesis
    unfolding pay_inv_def dom s'(2) by (auto simp: s'(1) keys)
qed

lemma pay_inv_new_payment:
  assumes inv: "pay_inv s" and s': "payments s' = payments s @ [p]" "refunds s' = refunds s"
    and p: "pk p \<notin> pk ` set (payments s)" "0 \<le> py_captured_amount_minor p" "valid_payment_reference p"
  shows "pay_inv s'"
proof -
  have "pk p \<notin> rf_payment_id ` set (refunds s)" using inv p(1) by (auto simp: pay_inv_def)
  then have "refunded_sum live_refund (pk p) (refunds s) = 0" by (rule refunded_sum_absent)
  with inv p show ?thesis unfolding pay_inv_def s' by auto
qed

lemma pay_inv_new_refund:
  assumes inv: "pay_inv s" and p: "p \<in> set (payments s)"
    and s': "payments s' = payments s" "refunds s' = refunds s @ [r]"
    and r: "pk r \<notin> pk ` set (refunds s)" "rf_payment_id r = pk p" "0 < rf_amount_minor r"
      "rf_amount_minor r \<le> py_captured_amount_minor p - refunded_sum live_refund (pk p) (refunds s)"
  shows "pay_inv s'"
proof -
  have uniq: "x = p" if "x \<in> set (payments s)" "pk x = pk p" for x
    using that p inv by (auto simp: pay_inv_def distinct_map inj_on_def)
  have "refunded_sum live_refund (pk x) (refunds s') \<le> py_captured_amount_minor x"
    if x: "x \<in> set (payments s)" for x
  proof (cases "pk x = pk p")
    case True
    with uniq x have "x = p" by simp
    then show ?thesis using r by (auto simp: s'(2))
  next
    case False
    then show ?thesis using inv x r(2) by (simp add: pay_inv_def s'(2))
  qed
  with inv r p show ?thesis unfolding pay_inv_def s'(1) by (auto simp: s'(2))
qed

lemma pay_inv_refund_status:
  assumes inv: "pay_inv s" and r: "r \<in> set (refunds s)"
    and s': "payments s' = payments s"
      "refunds s' = update_row pk (pk r) (\<lambda>x. x\<lparr>rf_status := v\<rparr>) (refunds s)"
    and live: "live_refund v \<Longrightarrow> live_refund (rf_status r)"
  shows "pay_inv s'"
proof -
  let ?f = "\<lambda>x. if pk x = pk r then x\<lparr>rf_status := v\<rparr> else x"
  have map: "refunds s' = map ?f (refunds s)" by (simp add: s' update_row_def update_where_def)
  have uniq: "x = r" if "x \<in> set (refunds s)" "pk x = pk r" for x
    using that r inv by (auto simp: pay_inv_def distinct_map inj_on_def)
  have "refunded_sum live_refund i (refunds s') \<le> refunded_sum live_refund i (refunds s)" for i
    unfolding map
  proof (rule refunded_sum_map_le)
    fix x assume x: "x \<in> set (refunds s)"
    show "rf_payment_id (?f x) = rf_payment_id x" by simp
    show "rf_amount_minor (?f x) = rf_amount_minor x \<and> 0 \<le> rf_amount_minor x"
      using inv x by (auto simp: pay_inv_def less_imp_le)
    assume "live_refund (rf_status (?f x))"
    then show "live_refund (rf_status x)" using live uniq x by (auto split: if_splits)
  qed
  then have sums: "refunded_sum live_refund (pk p) (refunds s') \<le> py_captured_amount_minor p"
    if "p \<in> set (payments s)" for p
    using inv that unfolding pay_inv_def by (meson order_trans)
  have keys: "map pk (refunds s') = map pk (refunds s)" by (simp add: map comp_def if_distrib)
  have rows: "rf_payment_id x \<in> pk ` set (payments s) \<and> 0 < rf_amount_minor x" if "x \<in> set (refunds s')" for x
    using that inv unfolding map by (auto simp: pay_inv_def)
  from inv sums keys rows show ?thesis unfolding pay_inv_def s'(1) by auto
qed

section \<open>What the commands write\<close>

text \<open>The three tables of this theory, and the settlements that leave them alone.\<close>

definition money_kept :: "db \<Rightarrow> db \<Rightarrow> bool" where
  "money_kept s s' \<longleftrightarrow>
     payments s' = payments s \<and> refunds s' = refunds s \<and> payment_events s' = payment_events s"

lemma money_kept_refl [simp]: "money_kept s s"
  by (simp add: money_kept_def)

lemma put_request_money [simp]: "money_kept s (put_request r s)"
  by (simp add: money_kept_def put_request_def)

lemma put_job_money [simp]: "money_kept s (put_job j ev s') \<longleftrightarrow> money_kept s s'"
  by (simp add: money_kept_def put_job_def)

lemma settle_lead_money: "settle_lead p s = Inr s' \<Longrightarrow> money_kept s s'"
  by (auto simp: settle_lead_def money_kept_def elim!: bindE_InrE split: option.splits)

lemma settle_quote_money: "settle_quote now p s = Inr (Some s') \<Longrightarrow> money_kept s s'"
  by (auto simp: settle_quote_def Let_def elim!: bindE_InrE split: option.splits if_splits)

lemma confirm_booking_money: "confirm_booking_and_create_job clk new_id p s = Inr s' \<Longrightarrow> money_kept s s'"
  by (auto simp: confirm_booking_and_create_job_def money_kept_def Let_def elim!: bindE_InrE
      split: if_splits)

lemma settle_money: "settle clk new_id p s = Inr s' \<Longrightarrow> money_kept s s'"
  unfolding settle_def
  by (auto simp: money_kept_def elim!: bindE_InrE split: option.splits payment_purpose.splits
      dest!: settle_lead_money settle_quote_money confirm_booking_money)

lemma release_failed_money [simp]: "money_kept s (release_failed_lead_purchase p s') \<longleftrightarrow> money_kept s s'"
  by (auto simp: release_failed_lead_purchase_def money_kept_def Let_def split: option.splits)

lemma mark_refunded_money [simp]: "money_kept s (mark_lead_purchase_refunded p s') \<longleftrightarrow> money_kept s s'"
  by (auto simp: mark_lead_purchase_refunded_def money_kept_def split: option.splits)

text \<open>A command that changes one payment: the new row keeps its subject.\<close>

lemma valid_payment_reference_updates [simp]:
  "valid_payment_reference (p\<lparr>py_status := st\<rparr>) = valid_payment_reference p"
  "valid_payment_reference (p\<lparr>py_captured_amount_minor := n\<rparr>) = valid_payment_reference p"
  "valid_payment_reference (p\<lparr>py_failure_code := c\<rparr>) = valid_payment_reference p"
  by (cases "py_payment_purpose p"; simp add: valid_payment_reference_def)+

definition payment_changed :: "payment \<Rightarrow> payment \<Rightarrow> db \<Rightarrow> db \<Rightarrow> bool" where
  "payment_changed p p1 s s' \<longleftrightarrow> money_kept (put_payment p1 s) s' \<and> pk p1 = pk p
     \<and> (valid_payment_reference p \<longrightarrow> valid_payment_reference p1)"

lemma capture_authorized_InrD:
  assumes "capture_authorized ci clk new_id p amount_minor key s = Inr (p1, s')"
  obtains i where "ci (the (py_provider_payment_id p)) amount_minor key = Inr i"
    "p1 = p\<lparr>py_status := stripe_status (pi_status i) (py_status p),
            py_captured_amount_minor := pi_amount_received i\<rparr>"
    "if py_status p1 = PY_CAPTURED then settle clk new_id p1 (put_payment p1 s) = Inr s'
     else s' = put_payment p1 s"
  using assms unfolding capture_authorized_def Let_def by (auto elim!: bindE_InrE split: if_splits)

lemma capture_cases:
  assumes "capture ci clk new_id payment_id amount_minor key s = (res, s')"
  obtains (refused) e where "res = Inl e" "s' = s"
  | (already) p where "get_payment s payment_id = Some p" "py_status p = PY_CAPTURED" "res = Inr (view p)" "s' = s"
  | (captured) p i p1 where "get_payment s payment_id = Some p" "py_status p = PY_AUTHORIZED"
      "ci (the (py_provider_payment_id p)) amount_minor key = Inr i"
      "p1 = p\<lparr>py_status := stripe_status (pi_status i) (py_status p),
              py_captured_amount_minor := pi_amount_received i\<rparr>"
      "res = Inr (view p1)" "payment_changed p p1 s s'"
      "if py_status p1 = PY_CAPTURED then settle clk new_id p1 (put_payment p1 s) = Inr s'
       else s' = put_payment p1 s"
proof (cases res)
  case (Inl e)
  with assms have "s' = s" by (auto simp: capture_def split: option.splits if_splits sum.splits)
  with Inl show ?thesis by (rule refused)
next
  case (Inr v)
  with assms obtain p where p: "get_payment s payment_id = Some p"
    by (auto simp: capture_def split: option.splits)
  show ?thesis
  proof (cases "py_status p = PY_CAPTURED")
    case True
    with p assms Inr show ?thesis by (intro already) (auto simp: capture_def)
  next
    case False
    with p assms Inr obtain p1 where st: "py_status p = PY_AUTHORIZED" and v: "v = view p1"
      and "capture_authorized ci clk new_id p amount_minor key s = Inr (p1, s')"
      by (auto simp: capture_def split: if_splits sum.splits)
    from this(3) show ?thesis
    proof (cases rule: capture_authorized_InrD)
      case (1 i)
      have "payment_changed p p1 s s'"
        using 1(3) settle_money by (auto simp: payment_changed_def 1(2) split: if_splits)
      from captured [OF p st 1(1,2) _ this 1(3)] show ?thesis by (simp add: Inr v)
    qed
  qed
qed

lemma add_payment_InrD:
  "add_payment p s = Inr s' \<Longrightarrow> s' = s\<lparr>payments := payments s @ [p]\<rparr> \<and> valid_payment_reference p"
  by (auto simp: add_payment_def elim!: bindE_InrE)

lemma new_intent_InrD:
  assumes "new_intent create h now i p key s = Inr (row, s')"
  obtains metadata pi where "intent_subject p s = Inr metadata"
    "create (pic_amount_minor p) (pic_currency p) (pic_capture_method p) metadata key = Inr pi"
    "pk row = i" "py_captured_amount_minor row = pi_amount_received pi" "valid_payment_reference row"
    "py_provider_payment_id row = Some (pi_id pi)" "py_payment_purpose row = pic_payment_purpose p"
    "py_booking_id row = pic_booking_id p" "py_quote_id row = pic_quote_id p"
    "py_amount_minor row = pic_amount_minor p" "py_currency row = pic_currency p"
    "s' = s\<lparr>payments := payments s @ [row],
            idempotency_records := idempotency_records s @
              [\<lparr>ir_operation = ''create_intent'', ir_idempotency_key = key, ir_request_hash = h p,
                ir_response_code = Some 201, ir_response_id = Some i\<rparr>]\<rparr>"
  using assms unfolding new_intent_def Let_def
  by (auto elim!: bindE_InrE dest!: add_payment_InrD)

lemma lead_intent_InrD:
  assumes "create_professional_lead_intent create now i lp n cur v lead key s = Inr (row, s')"
  obtains (existing) "s' = s"
  | (new) metadata k pi where "create n cur ''automatic'' metadata k = Inr pi" "pk row = i"
      "py_captured_amount_minor row = pi_amount_received pi" "valid_payment_reference row"
      "py_provider_payment_id row = Some (pi_id pi)"
      "py_lead_purchase_id row = Some lp" "py_payment_purpose row = PROFESSIONAL_LEAD"
      "s' = s\<lparr>payments := payments s @ [row]\<rparr>"
  using assms unfolding create_professional_lead_intent_def Let_def
  by (auto split: option.splits elim!: bindE_InrE dest!: add_payment_InrD)

lemma new_refund_InrD:
  assumes "new_refund cr clk new_id p amount_minor key actor_id reason s = Inr (r, s')"
  obtains p1 where "rf_payment_id r = pk p" "pk r = new_id 0" "0 < rf_amount_minor r" "rf_idempotency_key r = key"
    "rf_amount_minor r \<le> py_captured_amount_minor p - refunded_sum live_refund (pk p) (refunds s)"
    "refunds s' = refunds s @ [r]" "payment_events s' = payment_events s"
    "payments s' = payments s \<or> payments s' = update_row pk (pk p1) (\<lambda>_. p1) (payments s)"
    "pk p1 = pk p" "py_captured_amount_minor p1 = py_captured_amount_minor p"
    "valid_payment_reference p1 = valid_payment_reference p"
proof -
  let ?remaining = "py_captured_amount_minor p - refunded_sum live_refund (pk p) (refunds s)"
  let ?requested = "case amount_minor of Some n \<Rightarrow> n | None \<Rightarrow> ?remaining"
  let ?p1 = "p\<lparr>py_status := (if ?requested = ?remaining then PY_REFUNDED else PY_PARTIALLY_REFUNDED)\<rparr>"
  have marked: "payments (mark_lead_purchase_refunded q t) = payments t"
    "refunds (mark_lead_purchase_refunded q t) = refunds t"
    "payment_events (mark_lead_purchase_refunded q t) = payment_events t" for q t
    by (auto simp: mark_lead_purchase_refunded_def split: option.splits)
  from assms show ?thesis
    unfolding new_refund_def Let_def
    by (intro that [of ?p1]) (auto elim!: bindE_InrE simp: marked split: if_splits option.splits)
qed

lemma refund_payment_cases:
  assumes "refund_payment cr clk new_id payment_id amount_minor key actor_id reason s = (res, s')"
  obtains (unchanged) "s' = s"
  | (refunded) p r where "get_payment s payment_id = Some p" "refund_by_key s (pk p) key = None"
      "new_refund cr clk new_id p amount_minor key actor_id reason s = Inr (r, s')" "res = Inr r"
  using assms unfolding refund_payment_def
  by (auto split: option.splits if_splits sum.splits)

text \<open>
  What Stripe documents about its events: the amount received of an intent never falls, and a refund
  that failed or was cancelled stays so.
\<close>

definition event_object :: "json_object \<Rightarrow> json_object result" where
  "event_object event = bindE (sub_object event ''data'') (\<lambda>d. sub_object d ''object'')"

definition documented_event :: "json_object \<Rightarrow> db \<Rightarrow> bool" where
  "documented_event event s \<longleftrightarrow> (case event_object event of
       Inl _ \<Rightarrow> True
     | Inr d \<Rightarrow>
         (case map_of d ''id'' of
            Some (JStr t) \<Rightarrow>
              (case (get_by_provider_id s t, map_of d ''amount_received'') of
                 (Some p, Some (JInt n)) \<Rightarrow> py_captured_amount_minor p \<le> n | _ \<Rightarrow> True)
              \<and> (case (refund_by_provider_id s t, map_of d ''status'') of
                   (Some r, Some (JStr v)) \<Rightarrow>
                     (case map_of REFUND_STATUS v of
                        Some st \<Rightarrow> live_refund (rf_status r) \<or> \<not> live_refund st | None \<Rightarrow> True)
                 | _ \<Rightarrow> True)
          | _ \<Rightarrow> True))"

lemma webhook_payment_InrD:
  assumes "webhook_payment clk new_id event_type d p s = Inr s'"
  obtains (unchanged) "s' = s"
  | (changed) p1 where "payment_changed p p1 s s'"
      "py_captured_amount_minor p1 = py_captured_amount_minor p
       \<or> map_of d ''amount_received'' = Some (JInt (py_captured_amount_minor p1))"
proof -
  consider "event_type = ''payment_intent.payment_failed''" | "event_type = ''payment_intent.canceled''"
    | "event_type \<notin> {''payment_intent.payment_failed'', ''payment_intent.canceled''}"
      "take 15 event_type = ''payment_intent.''"
    | "take 15 event_type \<noteq> ''payment_intent.''" by auto
  then show ?thesis
  proof cases
    case 1
    with assms obtain code where "s' = release_failed_lead_purchase
        (p\<lparr>py_status := PY_FAILED, py_failure_code := code\<rparr>)
        (put_payment (p\<lparr>py_status := PY_FAILED, py_failure_code := code\<rparr>) s)"
      by (auto simp: webhook_payment_def Let_def elim!: bindE_InrE)
    then show ?thesis
      by (intro changed [of "p\<lparr>py_status := PY_FAILED, py_failure_code := code\<rparr>"]) (simp_all add: payment_changed_def)
  next
    case 2
    with assms show ?thesis
      by (intro changed [of "p\<lparr>py_status := PY_CANCELED\<rparr>"])
        (auto simp: webhook_payment_def Let_def payment_changed_def)
  next
    case 3
    with assms obtain st n where n: "n = py_captured_amount_minor p \<or> map_of d ''amount_received'' = Some (JInt n)"
      and s': "(let p1 = p\<lparr>py_status := st, py_captured_amount_minor := n\<rparr>; s1 = put_payment p1 s
        in if py_status p1 = PY_CAPTURED then settle clk new_id p1 s1 else Inr s1) = Inr s'"
      by (auto simp: webhook_payment_def elim!: bindE_InrE split: option.splits json.splits)
    then show ?thesis
      by (intro changed [of "p\<lparr>py_status := st, py_captured_amount_minor := n\<rparr>"])
        (auto simp: payment_changed_def Let_def dest: settle_money split: if_splits)
  next
    case 4
    then have "event_type \<noteq> ''payment_intent.payment_failed''" "event_type \<noteq> ''payment_intent.canceled''"
      by auto
    with 4 assms show ?thesis by (intro unchanged) (simp add: webhook_payment_def)
  qed
qed

lemma pay_inv_changed:
  assumes "pay_inv s" "p \<in> set (payments s)" "payment_changed p p1 s s'"
    "py_captured_amount_minor p \<le> py_captured_amount_minor p1"
  shows "pay_inv s'"
proof (rule pay_inv_put [OF assms(1,2), of s' p1])
  show "valid_payment_reference p1" using assms by (auto simp: payment_changed_def pay_inv_def)
qed (use assms(3,4) in \<open>auto simp: payment_changed_def money_kept_def\<close>)

lemma webhook_refund_inv:
  assumes inv: "pay_inv s" and r: "r \<in> set (refunds s)" and ok: "webhook_refund d r s = Inr (i, s')"
    and doc: "\<And>v st. map_of d ''status'' = Some (JStr v) \<Longrightarrow> map_of REFUND_STATUS v = Some st \<Longrightarrow>
      live_refund st \<Longrightarrow> live_refund (rf_status r)"
  shows "pay_inv s' \<and> payment_events s' = payment_events s"
proof -
  obtain st where st: "hashed_text (map_of d ''status'') = Inr st" using ok
    by (auto simp: webhook_refund_def elim!: bindE_InrE)
  show ?thesis
  proof (cases "Option.bind st (map_of REFUND_STATUS)")
    case None
    with ok st inv show ?thesis by (simp add: webhook_refund_def)
  next
    case (Some v)
    let ?s1 = "s\<lparr>refunds := update_row pk (pk r) (\<lambda>x. x\<lparr>rf_status := v\<rparr>) (refunds s)\<rparr>"
    have live: "live_refund v \<Longrightarrow> live_refund (rf_status r)"
      using doc Some st by (cases "map_of d ''status''"; cases "the (map_of d ''status'')") (auto simp: hashed_text_def)
    have inv1: "pay_inv ?s1" by (rule pay_inv_refund_status [OF inv r _ _ live]) simp_all
    have eq: "webhook_refund d r s = (case get_payment s (rf_payment_id r) of None \<Rightarrow> Inr (None, ?s1)
        | Some p \<Rightarrow> if v = RF_SUCCEEDED then
            let p1 = p\<lparr>py_status := (if refunded_sum (\<lambda>x. x = RF_SUCCEEDED) (pk p) (refunds ?s1)
                  \<ge> py_captured_amount_minor p then PY_REFUNDED else PY_PARTIALLY_REFUNDED)\<rparr>;
                s2 = put_payment p1 ?s1
            in Inr (Some (pk p), if py_payment_purpose p = PROFESSIONAL_LEAD
                      then mark_lead_purchase_refunded p1 s2 else s2)
          else Inr (Some (pk p), ?s1))"
      unfolding webhook_refund_def st
      by (cases "get_payment s (rf_payment_id r)") (simp_all add: Some Let_def)
    show ?thesis
    proof (cases "s' = ?s1")
      case True
      with inv1 show ?thesis by simp
    next
      case False
      with ok obtain p where p: "get_payment s (rf_payment_id r) = Some p"
        unfolding eq by (cases "get_payment s (rf_payment_id r)") auto
      define p1 where "p1 = p\<lparr>py_status := (if refunded_sum (\<lambda>x. x = RF_SUCCEEDED) (pk p) (refunds ?s1)
                  \<ge> py_captured_amount_minor p then PY_REFUNDED else PY_PARTIALLY_REFUNDED)\<rparr>"
      from ok False have "money_kept (put_payment p1 ?s1) s'"
        unfolding eq p by (auto simp: p1_def Let_def split: if_splits)
      then have ch: "payment_changed p p1 ?s1 s'" by (simp add: payment_changed_def p1_def)
      have "p \<in> set (payments ?s1)" using lookup_row_mem [OF p] by simp
      from pay_inv_changed [OF inv1 this ch] have "pay_inv s'" by (simp add: p1_def)
      with ch show ?thesis by (simp add: payment_changed_def money_kept_def)
    qed
  qed
qed

lemma handle_event_InrD:
  assumes "handle_event clk new_id event_type event s = Inr (i, s')"
  obtains (unchanged) "s' = s"
  | (payment) d t p where "event_object event = Inr d" "map_of d ''id'' = Some (JStr t)"
      "get_by_provider_id s t = Some p" "i = Some (pk p)" "webhook_payment clk new_id event_type d p s = Inr s'"
  | (refund) d t r where "event_object event = Inr d" "map_of d ''id'' = Some (JStr t)"
      "refund_by_provider_id s t = Some r" "webhook_refund d r s = Inr (i, s')"
proof -
  have key: "\<exists>u. v = Some (JStr u) \<and> t = Some u" if "text_value v = Inr t" "truthy v" for v t
    using that by (auto simp: text_value_def truthy_def split: option.splits json.splits)
  from assms obtain x d found where d: "sub_object event ''data'' = Inr x" "sub_object x ''object'' = Inr d"
    and found: "(if object_is ''payment_intent'' d \<and> truthy (map_of d ''id'')
            then bindE (text_value (map_of d ''id'')) (\<lambda>t. Inr (Option.bind t (get_by_provider_id s)))
            else Inr None) = Inr found"
    and rest: "(case found of
       Some p \<Rightarrow> bindE (webhook_payment clk new_id event_type d p s) (\<lambda>s'. Inr (Some (pk p), s'))
     | None \<Rightarrow>
         if object_is ''refund'' d \<and> truthy (map_of d ''id'') then
           bindE (text_value (map_of d ''id'')) (\<lambda>t.
           case Option.bind t (refund_by_provider_id s) of
             None \<Rightarrow> Inr (None, s)
           | Some r \<Rightarrow> webhook_refund d r s)
         else Inr (None, s)) = Inr (i, s')"
    unfolding handle_event_def by (elim bindE_InrE)
  have ob: "event_object event = Inr d" using d by (simp add: event_object_def)
  show ?thesis
  proof (cases found)
    case (Some p)
    with found obtain t where t: "truthy (map_of d ''id'')" "text_value (map_of d ''id'') = Inr t"
      "Option.bind t (get_by_provider_id s) = Some p"
      by (auto elim!: bindE_InrE split: if_splits)
    with key [OF t(2,1)] obtain u where "map_of d ''id'' = Some (JStr u)" "get_by_provider_id s u = Some p"
      by auto
    moreover from rest Some have "webhook_payment clk new_id event_type d p s = Inr s'" "i = Some (pk p)"
      by (auto elim!: bindE_InrE)
    ultimately show ?thesis using ob by (intro payment)
  next
    case None
    show ?thesis
    proof (cases "s' = s")
      case True then show ?thesis by (rule unchanged)
    next
      case False
      with rest None obtain t where t: "truthy (map_of d ''id'')" "text_value (map_of d ''id'') = Inr t"
        "(case Option.bind t (refund_by_provider_id s) of None \<Rightarrow> Inr (None, s)
           | Some r \<Rightarrow> webhook_refund d r s) = Inr (i, s')"
        by (auto elim!: bindE_InrE split: if_splits)
      with key [OF t(2,1)] False obtain u r where "map_of d ''id'' = Some (JStr u)"
        "refund_by_provider_id s u = Some r" "webhook_refund d r s = Inr (i, s')"
        by (auto split: option.splits)
      with ob show ?thesis by (intro refund)
    qed
  qed
qed

lemma handle_event_inv:
  assumes inv: "pay_inv s" and doc: "documented_event event s"
    and ok: "handle_event clk new_id event_type event s = Inr (i, s')"
  shows "pay_inv s' \<and> payment_events s' = payment_events s"
  using ok
proof (cases rule: handle_event_InrD)
  case unchanged
  with inv show ?thesis by simp
next
  case (payment d t p)
  have p: "p \<in> set (payments s)" using payment(3) by (auto simp: get_by_provider_id_def dest: find_SomeD)
  from payment(5) show ?thesis
  proof (cases rule: webhook_payment_InrD)
    case unchanged
    with inv show ?thesis by simp
  next
    case (changed p1)
    have "py_captured_amount_minor p \<le> py_captured_amount_minor p1"
      using changed(2) doc payment(1-3) by (auto simp: documented_event_def)
    with changed(1) show ?thesis using pay_inv_changed [OF inv p] by (auto simp: payment_changed_def money_kept_def)
  qed
next
  case (refund d t r)
  have r: "r \<in> set (refunds s)" using refund(3) by (auto simp: refund_by_provider_id_def dest: find_SomeD)
  show ?thesis
    by (rule webhook_refund_inv [OF inv r refund(4)]) (use doc refund(1-3) in \<open>auto simp: documented_event_def\<close>)
qed

lemma process_webhook_cases:
  assumes "process_webhook verify str_exc clk new_id body sg s = (res, s')"
  obtains (unchanged) "s' = s" "isl res \<or> (\<exists>event_id. res = Inr (event_id, True) \<and> already_processed s event_id)"
  | (processed) event event_id event_type i s1 where "verify body sg = Inr event"
      "event_identity event = Some (event_id, event_type)" "\<not> already_processed s event_id"
      "handle_event clk new_id event_type event s = Inr (i, s1)" "res = Inr (event_id, False)"
      "s' = record_processed (clk 3) event_id event_type event i s1"
  | (failed) event event_id event_type e where "verify body sg = Inr event"
      "event_identity event = Some (event_id, event_type)" "\<not> already_processed s event_id"
      "handle_event clk new_id event_type event s = Inl e" "isl res"
      "s' = record_failed str_exc event_id event_type event e s"
proof (cases "verify body sg")
  case (Inl e)
  with assms show ?thesis by (intro unchanged) (auto simp: process_webhook_def)
next
  case ev: (Inr event)
  show ?thesis
  proof (cases "event_identity event")
    case None
    with ev assms show ?thesis by (intro unchanged) (auto simp: process_webhook_def)
  next
    case (Some ids)
    then obtain event_id event_type where ids: "event_identity event = Some (event_id, event_type)"
      by (cases ids) simp
    show ?thesis
    proof (cases "already_processed s event_id")
      case True
      with ev ids assms show ?thesis by (intro unchanged) (auto simp: process_webhook_def)
    next
      case fresh: False
      show ?thesis
      proof (cases "handle_event clk new_id event_type event s")
        case (Inl e)
        with ev ids fresh assms show ?thesis by (intro failed) (auto simp: process_webhook_def)
      next
        case (Inr y)
        obtain i s1 where y: "y = (i, s1)" by (cases y)
        show ?thesis
          by (rule processed [OF ev ids fresh Inr [unfolded y]])
            (use assms in \<open>simp_all add: process_webhook_def ev ids fresh Inr y\<close>)
      qed
    qed
  qed
qed

lemma record_processed_money [simp]:
  "payments (record_processed now event_id event_type event i s) = payments s"
  "refunds (record_processed now event_id event_type event i s) = refunds s"
  by (auto simp: record_processed_def split: option.splits)

lemma record_failed_money [simp]:
  "payments (record_failed str_exc event_id event_type event e s) = payments s"
  "refunds (record_failed str_exc event_id event_type event e s) = refunds s"
  by (auto simp: record_failed_def split: option.splits)

lemma purchase_lead_cases:
  assumes "purchase_lead cfg provider clk new_id lead_id vendor_id key s = (res, s')"
  obtains (unchanged) "s' = s"
  | (bought) create v lead x p s1 where "provider = Some create" "get_vendor s vendor_id = Some v"
      "get_lead s lead_id = Some lead" "pl_status lead = L_AVAILABLE" "lead_eligible v lead"
      "add_purchase x s = Inr (s\<lparr>lead_purchases := lead_purchases s @ [x]\<rparr>)" "pk x = new_id 0"
      "lp_lead_id x = lead_id" "lp_vendor_id x = vendor_id" "lp_status x = LP_PENDING_PAYMENT"
      "create_professional_lead_intent create (clk 1) (new_id 1) (pk x) (pl_price_minor lead)
         (pl_currency lead) vendor_id lead_id key (s\<lparr>lead_purchases := lead_purchases s @ [x]\<rparr>) = Inr (p, s1)"
      "res = Inr (lead_view x p)"
      "s' = put_lead (lead\<lparr>pl_status := L_RESERVED, pl_purchased_by_vendor_id := Some vendor_id\<rparr>) s1"
proof (cases "s' = s")
  case True then show ?thesis by (rule unchanged)
next
  case False
  with assms obtain create v w where *: "provider = Some create" "get_vendor s vendor_id = Some v" "res = Inr w"
    "buy_lead create clk new_id lead_id v key s = Inr (w, s')"
    unfolding purchase_lead_def by (auto split: if_splits option.splits sum.splits)
  have v: "pk v = vendor_id" using *(2) by (rule lookup_row_key)
  from *(4) obtain lead s0 p s1 where lead: "get_lead s lead_id = Some lead" "pl_status lead = L_AVAILABLE"
      "lead_eligible v lead" and
    b: "add_purchase \<lparr>pk = new_id 0, created_at = clk 1, lp_lead_id = pk lead, lp_vendor_id = pk v,
           lp_idempotency_key = key, lp_price_minor = pl_price_minor lead, lp_currency = pl_currency lead,
           lp_status = LP_PENDING_PAYMENT\<rparr> s = Inr s0"
      "create_professional_lead_intent create (clk 1) (new_id 1) (new_id 0) (pl_price_minor lead)
         (pl_currency lead) (pk v) (pk lead) key s0 = Inr (p, s1)"
      "w = lead_view \<lparr>pk = new_id 0, created_at = clk 1, lp_lead_id = pk lead, lp_vendor_id = pk v,
           lp_idempotency_key = key, lp_price_minor = pl_price_minor lead, lp_currency = pl_currency lead,
           lp_status = LP_PENDING_PAYMENT\<rparr> p"
      "s' = put_lead (lead\<lparr>pl_status := L_RESERVED, pl_purchased_by_vendor_id := Some (pk v)\<rparr>) s1"
    unfolding buy_lead_def Let_def by (auto elim!: bindE_InrE)
  have l: "pk lead = lead_id" using lead(1) by (rule lookup_row_key)
  have s0: "s0 = s\<lparr>lead_purchases := lead_purchases s @ [\<lparr>pk = new_id 0, created_at = clk 1, lp_lead_id = pk lead,
       lp_vendor_id = pk v, lp_idempotency_key = key, lp_price_minor = pl_price_minor lead,
       lp_currency = pl_currency lead, lp_status = LP_PENDING_PAYMENT\<rparr>]\<rparr>"
    using b(1) by (auto simp: add_purchase_def elim!: bindE_InrE)
  show ?thesis
    by (rule bought [OF *(1,2) lead, where x = "\<lparr>pk = new_id 0, created_at = clk 1, lp_lead_id = pk lead,
       lp_vendor_id = pk v, lp_idempotency_key = key, lp_price_minor = pl_price_minor lead,
       lp_currency = pl_currency lead, lp_status = LP_PENDING_PAYMENT\<rparr>"])
      (use b *(3) in \<open>simp_all add: s0 l v\<close>)
qed

section \<open>Commands in any order\<close>

text \<open>
  One step of the service as the payment tables see it: a payment command, or anything that leaves
  these tables alone.  The premises are what Stripe documents (amounts received are not negative and do
  not fall, a failed refund stays failed) and that drawn identifiers are new.
\<close>

definition reports_amounts :: "create_intent_call \<Rightarrow> bool" where
  "reports_amounts create \<longleftrightarrow> (\<forall>n cur m md key pi. create n cur m md key = Inr pi \<longrightarrow> 0 \<le> pi_amount_received pi)"

lemma reports_amountsD: "reports_amounts create \<Longrightarrow> create n cur m md key = Inr a \<Longrightarrow> 0 \<le> pi_amount_received a"
  unfolding reports_amounts_def by blast

inductive payment_step :: "db \<Rightarrow> db \<Rightarrow> bool" where
  step_create: "create_intent create h now i p key s = (res, s') \<Longrightarrow> reports_amounts create \<Longrightarrow>
    i \<notin> pk ` set (payments s) \<Longrightarrow> payment_step s s'"
| step_lead: "purchase_lead cfg (Some create) clk new_id lead_id vendor_id key s = (res, s') \<Longrightarrow>
    reports_amounts create \<Longrightarrow> new_id 1 \<notin> pk ` set (payments s) \<Longrightarrow> payment_step s s'"
| step_capture: "capture ci clk new_id payment_id amount_minor key s = (res, s') \<Longrightarrow>
    (\<forall>p pi. get_payment s payment_id = Some p \<longrightarrow> ci (the (py_provider_payment_id p)) amount_minor key = Inr pi
       \<longrightarrow> py_captured_amount_minor p \<le> pi_amount_received pi) \<Longrightarrow> payment_step s s'"
| step_refund: "refund_payment cr clk new_id payment_id amount_minor key actor_id reason s = (res, s') \<Longrightarrow>
    new_id 0 \<notin> pk ` set (refunds s) \<Longrightarrow> payment_step s s'"
| step_webhook: "process_webhook verify str_exc clk new_id body sg s = (res, s') \<Longrightarrow>
    (\<forall>event. verify body sg = Inr event \<longrightarrow> documented_event event s) \<Longrightarrow> payment_step s s'"
| step_other: "money_kept s s' \<Longrightarrow> payment_step s s'"

lemma create_intent_cases:
  assumes "create_intent create h now i p key s = (res, s')"
  obtains (unchanged) "s' = s" | (created) row where "new_intent create h now i p key s = Inr (row, s')"
    "res = Inr (view row)" "get_idempotency s ''create_intent'' key = None"
  using assms unfolding create_intent_def by (auto split: if_splits option.splits sum.splits)

lemma payment_step_inv:
  assumes "payment_step s s'" and "pay_inv s"
  shows "pay_inv s'"
  using assms
proof (induction rule: payment_step.induct)
  case (step_create create h now i p key s res s')
  from step_create(1) show ?case
  proof (cases rule: create_intent_cases)
    case unchanged
    with step_create show ?thesis by simp
  next
    case (created row)
    from created(1) show ?thesis
    proof (cases rule: new_intent_InrD)
      case (1 metadata pi)
      have "0 \<le> py_captured_amount_minor row"
        unfolding 1(4) by (rule reports_amountsD [OF step_create(2) 1(2)])
      with step_create(3) show ?thesis
        by (intro pay_inv_new_payment [OF step_create(4), of s' row]) (simp_all add: 1)
    qed
  qed
next
  case (step_lead cfg create clk new_id lead_id vendor_id key s res s')
  from step_lead(1) show ?case
  proof (cases rule: purchase_lead_cases)
    case unchanged
    with step_lead show ?thesis by simp
  next
    case (bought create' v lead x p s1)
    let ?s0 = "s\<lparr>lead_purchases := lead_purchases s @ [x]\<rparr>"
    have inv0: "pay_inv ?s0" using step_lead(4) by (rule pay_inv_same) simp_all
    from bought(11) have "pay_inv s1"
    proof (cases rule: lead_intent_InrD)
      case existing
      with inv0 show ?thesis by simp
    next
      case (new metadata k pi)
      from step_lead(2) bought(1) have "reports_amounts create'" by simp
      then have "0 \<le> py_captured_amount_minor p" unfolding new(3) using new(1) by (rule reports_amountsD)
      with step_lead(3) show ?thesis
        by (intro pay_inv_new_payment [OF inv0, of s1 p]) (simp_all add: new(2,4,8))
    qed
    then show ?thesis by (rule pay_inv_same) (simp_all add: bought(13))
  qed
next
  case (step_capture ci clk new_id payment_id amount_minor key s res s')
  from step_capture(1) show ?case
  proof (cases rule: capture_cases)
    case (refused e)
    with step_capture show ?thesis by simp
  next
    case (already p)
    with step_capture show ?thesis by simp
  next
    case (captured p i p1)
    have "py_captured_amount_minor p \<le> py_captured_amount_minor p1"
      using step_capture(2) captured(1,3,4) by simp
    with captured(1,6) step_capture(3) show ?thesis by (blast intro: pay_inv_changed lookup_row_mem)
  qed
next
  case (step_refund cr clk new_id payment_id amount_minor key actor_id reason s res s')
  from step_refund(1) show ?case
  proof (cases rule: refund_payment_cases)
    case unchanged
    with step_refund show ?thesis by simp
  next
    case (refunded p r)
    have p: "p \<in> set (payments s)" using refunded(1) by (rule lookup_row_mem)
    let ?s1 = "s\<lparr>refunds := refunds s @ [r]\<rparr>"
    from refunded(3) show ?thesis
    proof (cases rule: new_refund_InrD)
      case (1 p1)
      have inv1: "pay_inv ?s1"
        by (rule pay_inv_new_refund [OF step_refund(3) p, of _ r]) (use step_refund(2) in \<open>simp_all add: 1(1-3,5)\<close>)
      have "valid_payment_reference p1" using step_refund(3) p 1(11) by (simp add: pay_inv_def)
      with 1(8) show ?thesis
      proof (elim disjE)
        assume "payments s' = payments s"
        with 1(6) show ?thesis by (intro pay_inv_same [OF inv1]) simp_all
      next
        assume "payments s' = update_row pk (pk p1) (\<lambda>_. p1) (payments s)" and "valid_payment_reference p1"
        with p 1(6,9,10) show ?thesis by (intro pay_inv_put [OF inv1, of p]) simp_all
      qed
    qed
  qed
next
  case (step_webhook verify str_exc clk new_id body sg s res s')
  from step_webhook(1) show ?case
  proof (cases rule: process_webhook_cases)
    case unchanged
    with step_webhook show ?thesis by simp
  next
    case (processed event event_id event_type i s1)
    then have "pay_inv s1" using handle_event_inv step_webhook(2,3) by blast
    then show ?thesis by (rule pay_inv_same) (simp_all add: processed(6))
  next
    case (failed event event_id event_type e)
    from step_webhook(3) show ?thesis by (rule pay_inv_same) (simp_all add: failed(6))
  qed
next
  case (step_other s s')
  then show ?case by (simp add: money_kept_def pay_inv_def)
qed

lemma payment_steps_inv: "payment_step\<^sup>*\<^sup>* s s' \<Longrightarrow> pay_inv s \<Longrightarrow> pay_inv s'"
  by (induction rule: rtranclp_induct) (auto intro: payment_step_inv)

section \<open>Webhooks are processed at most once\<close>

lemma find_update_where_same:
  assumes "\<And>e. P e \<Longrightarrow> P (f e)"
  shows "find P (update_where P f es) = map_option f (find P es)"
  using assms by (induction es) (auto simp: update_where_def)

lemma find_update_where_other:
  assumes "\<And>e. Q e \<Longrightarrow> \<not> P e" and "\<And>e. P (f e) \<Longrightarrow> P e" and "\<And>e. Q e \<Longrightarrow> P (f e) \<Longrightarrow> False"
  shows "find P (update_where Q f es) = find P es"
  using assms by (induction es) (auto simp: update_where_def)

lemma get_payment_event_same: "get_payment_event s ''stripe'' event_id = find (same_event event_id) (payment_events s)"
  by (simp add: get_payment_event_def same_event_def [abs_def])

lemma same_event_updates [simp]:
  "same_event i (e\<lparr>pe_status := a\<rparr>) = same_event i e" "same_event i (e\<lparr>pe_attempts := b\<rparr>) = same_event i e"
  "same_event i (e\<lparr>pe_last_error := c\<rparr>) = same_event i e" "same_event i (e\<lparr>pe_processed_at := d\<rparr>) = same_event i e"
  "same_event i (e\<lparr>pe_payment_id := f\<rparr>) = same_event i e" "same_event i (e\<lparr>pe_payload := g\<rparr>) = same_event i e"
  by (simp_all add: same_event_def)

lemma same_event_unique: "same_event i e \<Longrightarrow> same_event j e \<Longrightarrow> i = j"
  by (simp add: same_event_def)

lemma record_processed_marks:
  "already_processed (record_processed now event_id event_type event i s) event_id"
proof (cases "find (same_event event_id) (payment_events s)")
  case None
  then show ?thesis
    by (simp add: already_processed_def get_payment_event_same record_processed_def find_snoc)
      (simp add: same_event_def)
next
  case (Some e)
  then show ?thesis
    by (simp add: already_processed_def get_payment_event_same record_processed_def find_update_where_same)
qed

lemma record_failed_unmarked:
  "\<not> already_processed (record_failed str_exc event_id event_type event e s) event_id"
proof (cases "find (same_event event_id) (payment_events s)")
  case None
  then show ?thesis
    by (simp add: already_processed_def get_payment_event_same record_failed_def find_snoc)
next
  case (Some x)
  then show ?thesis
    by (simp add: already_processed_def get_payment_event_same record_failed_def find_update_where_same)
qed

text \<open>The row of another event, and of one that was processed before, stays.\<close>

lemma record_other:
  assumes "j \<noteq> event_id"
  shows "already_processed (record_processed now event_id event_type event i s) j \<longleftrightarrow> already_processed s j"
    and "already_processed (record_failed str_exc event_id event_type event e s) j \<longleftrightarrow> already_processed s j"
proof -
  have upd: "find (same_event j) (update_where (same_event event_id) f es) = find (same_event j) es"
    if "\<And>e. same_event j (f e) = same_event j e" for f es
    using that assms same_event_unique by (intro find_update_where_other) blast+
  have snoc: "find (same_event j) (es @ [e]) = find (same_event j) es" if "same_event event_id e" for es e
    using that assms same_event_unique by (induction es) auto
  show "already_processed (record_processed now event_id event_type event i s) j \<longleftrightarrow> already_processed s j"
    unfolding already_processed_def get_payment_event_same record_processed_def
    by (cases "find (same_event event_id) (payment_events s)") (simp_all add: upd snoc same_event_def)
  show "already_processed (record_failed str_exc event_id event_type event e s) j \<longleftrightarrow> already_processed s j"
    unfolding already_processed_def get_payment_event_same record_failed_def
    by (cases "find (same_event event_id) (payment_events s)") (simp_all add: upd snoc same_event_def)
qed

lemma create_intent_events:
  assumes "create_intent create h now i p key s = (res, s')"
  shows "payment_events s' = payment_events s"
  using assms
proof (cases rule: create_intent_cases)
  case (created row)
  from created(1) show ?thesis by (cases rule: new_intent_InrD) simp
qed simp

lemma purchase_lead_events:
  assumes "purchase_lead cfg provider clk new_id lead_id vendor_id key s = (res, s')"
  shows "payment_events s' = payment_events s"
  using assms
proof (cases rule: purchase_lead_cases)
  case (bought create v lead x p s1)
  from bought(11) have "payment_events s1 = payment_events s" by (cases rule: lead_intent_InrD) simp_all
  then show ?thesis by (simp add: bought(13))
qed simp

lemma refund_payment_events:
  assumes "refund_payment cr clk new_id payment_id amount_minor key actor_id reason s = (res, s')"
  shows "payment_events s' = payment_events s"
  using assms
proof (cases rule: refund_payment_cases)
  case (refunded p r)
  from refunded(3) show ?thesis by (cases rule: new_refund_InrD)
qed simp

lemma capture_events:
  assumes "capture ci clk new_id payment_id amount_minor key s = (res, s')"
  shows "payment_events s' = payment_events s"
  using assms by (cases rule: capture_cases) (simp_all add: payment_changed_def money_kept_def)

lemma handle_event_events:
  assumes "handle_event clk new_id event_type event s = Inr (i, s')"
  shows "payment_events s' = payment_events s"
  using assms
proof (cases rule: handle_event_InrD)
  case (payment d t p)
  from payment(5) show ?thesis
    by (cases rule: webhook_payment_InrD) (simp_all add: payment_changed_def money_kept_def)
next
  case (refund d t r)
  have mark: "payment_events (mark_lead_purchase_refunded q u) = payment_events u" for q u
    by (auto simp: mark_lead_purchase_refunded_def split: option.splits)
  from refund(4) show ?thesis unfolding webhook_refund_def Let_def
    by (auto simp: mark elim!: bindE_InrE split: option.splits if_splits)
qed simp

lemma process_webhook_processed:
  assumes "process_webhook verify str_exc clk new_id body sg s = (res, s')" and "already_processed s j"
  shows "already_processed s' j"
  using assms(1)
proof (cases rule: process_webhook_cases)
  case unchanged
  with assms(2) show ?thesis by simp
next
  case (processed event event_id event_type i s1)
  have "already_processed s1 j"
    using handle_event_events [OF processed(4)] assms(2) by (simp add: already_processed_def get_payment_event_def)
  moreover have "j \<noteq> event_id" using processed(3) assms(2) by auto
  ultimately show ?thesis by (simp add: processed(6) record_other)
next
  case (failed event event_id event_type e)
  have "j \<noteq> event_id" using failed(3) assms(2) by auto
  with assms(2) show ?thesis by (simp add: failed(6) record_other)
qed

lemma payment_step_processed:
  assumes "payment_step s s'" and "already_processed s j"
  shows "already_processed s' j"
proof -
  have same: "already_processed s' j" if "payment_events s' = payment_events s"
    using assms(2) that by (simp add: already_processed_def get_payment_event_def)
  from assms(1) show ?thesis
    by (cases rule: payment_step.cases)
      (use same assms(2) in \<open>auto simp: money_kept_def dest: create_intent_events purchase_lead_events
         capture_events refund_payment_events process_webhook_processed\<close>)
qed

lemma payment_steps_processed: "payment_step\<^sup>*\<^sup>* s s' \<Longrightarrow> already_processed s j \<Longrightarrow> already_processed s' j"
  by (induction rule: rtranclp_induct) (auto intro: payment_step_processed)

section \<open>What a capture settles\<close>

text \<open>
  The state after a payment was settled, against the state before: the booking awaits its provider and
  has a job, the quote is approved and its job goes on, or the purchase is paid and the lead sold.
\<close>

definition settled :: "payment \<Rightarrow> db \<Rightarrow> db \<Rightarrow> bool" where
  "settled p s s' = (case py_payment_purpose p of
       BOOKING_DIAGNOSTIC \<Rightarrow> (\<exists>b. Option.bind (py_booking_id p) (get_booking s) = Some b
         \<and> (bk_status b \<in> {B_PENDING_PROVIDER_CONFIRMATION, B_CONFIRMED} \<and> bookings s' = bookings s \<and> jobs s' = jobs s
            \<or> bk_status b = B_PENDING_PAYMENT
              \<and> get_booking s' (pk b) = Some (b\<lparr>bk_status := B_PENDING_PROVIDER_CONFIRMATION\<rparr>)
              \<and> (\<exists>j \<in> set (jobs s'). jb_booking_id j = pk b)))
     | QUOTE_ADDITIONAL_WORK \<Rightarrow> (\<exists>q. Option.bind (py_quote_id p) (\<lambda>i. lookup_row pk i (work_requests s)) = Some q
         \<and> (wr_status q = WR_APPROVED \<and> s' = s
            \<or> wr_status q = WR_APPROVED_PENDING_PAYMENT
              \<and> lookup_row pk (pk q) (work_requests s')
                = Some (q\<lparr>wr_status := WR_APPROVED, wr_payment_id := Some (pk p)\<rparr>)
              \<and> (\<forall>j. get_job s' (wr_job_id q) = Some j \<longrightarrow> jb_status j \<noteq> J_AWAITING_APPROVAL)))
     | PROFESSIONAL_LEAD \<Rightarrow> (\<exists>x lead. get_purchase s (py_lead_purchase_id p) = Some x
         \<and> lookup_row pk (pk x) (lead_purchases s') = Some (x\<lparr>lp_status := LP_PAID\<rparr>)
         \<and> get_lead s (lp_lead_id x) = Some lead \<and> pl_status lead \<in> {L_RESERVED, L_PURCHASED}
         \<and> get_lead s' (pk lead) = Some (lead\<lparr>pl_status := L_PURCHASED\<rparr>)))"

lemma settle_booking:
  assumes "confirm_booking_and_create_job clk new_id p s = Inr s'" and "py_payment_purpose p = BOOKING_DIAGNOSTIC"
  shows "settled p s (add_event e s')"
proof -
  from assms(1) obtain b where b: "Option.bind (py_booking_id p) (get_booking s) = Some b"
    unfolding confirm_booking_and_create_job_def by (auto elim!: bindE_InrE)
  then have row: "get_booking s (pk b) = Some b" by (auto simp: bind_eq_Some_conv dest: lookup_row_key)
  show ?thesis
  proof (cases "bk_status b \<in> {B_PENDING_PROVIDER_CONFIRMATION, B_CONFIRMED}")
    case True
    with assms b show ?thesis by (auto simp: settled_def confirm_booking_and_create_job_def)
  next
    case False
    with assms(1) b have st: "bk_status b = B_PENDING_PAYMENT"
      by (auto simp: confirm_booking_and_create_job_def elim!: bindE_InrE)
    have s': "bookings s' = update_row pk (pk b) (\<lambda>x. x\<lparr>bk_status := B_PENDING_PROVIDER_CONFIRMATION\<rparr>) (bookings s)"
      "\<exists>j \<in> set (jobs s'). jb_booking_id j = pk b"
      using assms(1) b st False
      by (auto simp: confirm_booking_and_create_job_def Let_def list_ex_iff job_of_payment_def split: if_splits)
    have "get_booking s' (pk b) = Some (b\<lparr>bk_status := B_PENDING_PROVIDER_CONFIRMATION\<rparr>)"
      using row by (simp add: s'(1) lookup_update_row)
    with b st s'(2) assms(2) show ?thesis by (simp add: settled_def)
  qed
qed

lemma settle_lead_settled:
  assumes "settle_lead p s = Inr s'" and "py_payment_purpose p = PROFESSIONAL_LEAD"
  shows "settled p s (add_event e s')"
proof -
  from assms(1) obtain x lead where x: "get_purchase s (py_lead_purchase_id p) = Some x"
    and lead: "get_lead s (lp_lead_id x) = Some lead" "pl_status lead \<in> {L_RESERVED, L_PURCHASED}"
    and s': "s' = put_lead (lead\<lparr>pl_status := L_PURCHASED\<rparr>) (put_purchase (x\<lparr>lp_status := LP_PAID\<rparr>) s)"
    unfolding settle_lead_def by (auto elim!: bindE_InrE split: option.splits)
  have "lookup_row pk (pk x) (lead_purchases s) = Some x"
    using x by (auto simp: bind_eq_Some_conv dest: lookup_row_key)
  then have "lookup_row pk (pk x) (lead_purchases s') = Some (x\<lparr>lp_status := LP_PAID\<rparr>)"
    by (simp add: s' lookup_put)
  moreover have "get_lead s (pk lead) = Some lead" using lead(1) lookup_row_key [OF lead(1)] by simp
  then have "get_lead s' (pk lead) = Some (lead\<lparr>pl_status := L_PURCHASED\<rparr>)" by (simp add: s' lookup_put)
  ultimately show ?thesis using x lead assms(2) by (auto simp: settled_def)
qed

lemma settle_quote_settled:
  assumes "settle_quote now p s = Inr r" and "py_payment_purpose p = QUOTE_ADDITIONAL_WORK"
  shows "case r of None \<Rightarrow> settled p s s | Some s' \<Rightarrow> settled p s (add_event e s')"
proof -
  from assms(1) obtain q where q: "Option.bind (py_quote_id p) (\<lambda>i. lookup_row pk i (work_requests s)) = Some q"
    unfolding settle_quote_def by (auto elim!: bindE_InrE)
  then have row: "lookup_row pk (pk q) (work_requests s) = Some q"
    by (auto simp: bind_eq_Some_conv dest: lookup_row_key)
  show ?thesis
  proof (cases "wr_status q = WR_APPROVED")
    case True
    with assms q show ?thesis by (simp add: settle_quote_def settled_def)
  next
    case False
    with assms(1) q have st: "wr_status q = WR_APPROVED_PENDING_PAYMENT"
      by (auto simp: settle_quote_def elim!: bindE_InrE)
    let ?q = "q\<lparr>wr_status := WR_APPROVED, wr_payment_id := Some (pk p)\<rparr>"
    let ?s1 = "put_request ?q s"
    have row1: "lookup_row pk (pk q) (work_requests ?s1) = Some ?q"
      using row by (simp add: put_request_def lookup_put)
    have jobs1: "jobs ?s1 = jobs s" by (simp add: put_request_def)
    have move: "apply_work_request_transition WR_APPROVED q = Inr (q\<lparr>wr_status := WR_APPROVED\<rparr>)"
      by (simp add: apply_work_request_transition_def st can_transition_def)
    consider "r = Some ?s1" "\<And>j. get_job s (wr_job_id q) = Some j \<Longrightarrow> jb_status j \<noteq> J_AWAITING_APPROVAL"
      | j j' ev where "get_job s (wr_job_id q) = Some j" "r = Some (put_job j' ev ?s1)" "jb_status j' = J_IN_PROGRESS"
        "pk j' = pk j"
      using assms(1) q st jobs1 unfolding settle_quote_def
      by (auto simp: move Let_def elim!: bindE_InrE split: option.splits if_splits dest!: apply_transition_InrD)
    then show ?thesis
    proof cases
      case 1
      with q st row1 jobs1 assms(2) show ?thesis by (simp add: settled_def)
    next
      case (2 j j' ev)
      have "get_job (put_job j' ev ?s1) (wr_job_id q) = Some j'"
        using 2(1,4) lookup_row_key [OF 2(1)] by (simp add: put_job_def jobs1 lookup_put)
      moreover have "work_requests (put_job j' ev ?s1) = work_requests ?s1" by (simp add: put_job_def)
      ultimately show ?thesis using 2(2,3) q st row1 assms(2) by (simp add: settled_def)
    qed
  qed
qed

lemma settle_settled: "settle clk new_id p s = Inr s' \<Longrightarrow> settled p s s'"
  unfolding settle_def
  by (auto elim!: bindE_InrE split: option.splits payment_purpose.splits
      intro: settle_booking settle_lead_settled dest: settle_quote_settled)

section \<open>The signature of a webhook\<close>

lemma any_digest_mem: "any_digest expected cs = Inr True \<Longrightarrow> expected \<in> set cs"
  by (induction cs) (auto split: if_splits)

lemma verify_webhook_InrD:
  assumes "verify_webhook a hmac json_loads now body sg = Inr event"
  obtains t ts timestamp where "webhook_secret a \<noteq> []" "values_of ''t'' (header_items sg) = t # ts"
    "py_int t = Some timestamp" "\<bar>now div seconds 1 - timestamp\<bar> \<le> webhook_tolerance_seconds a"
    "hmac (webhook_secret a) (str_int timestamp @ ''.'' @ body) \<in> set (values_of ''v1'' (header_items sg))"
proof -
  from assms obtain timestamp where sec: "webhook_secret a \<noteq> []"
    and ts: "(case values_of ''t'' (header_items sg) of
        [] \<Rightarrow> Inl (InvalidWebhook ''Malformed Stripe-Signature header'')
      | t # _ \<Rightarrow> of_option (InvalidWebhook ''Malformed Stripe-Signature header'') (py_int t)) = Inr timestamp"
    and tol: "\<bar>now div seconds 1 - timestamp\<bar> \<le> webhook_tolerance_seconds a"
    and dig: "any_digest (hmac (webhook_secret a) (str_int timestamp @ ''.'' @ body))
      (values_of ''v1'' (header_items sg)) = Inr True"
    unfolding verify_webhook_def Let_def by (auto elim!: bindE_InrE split: if_splits)
  show ?thesis
  proof (cases "values_of ''t'' (header_items sg)")
    case Nil
    with ts show ?thesis by simp
  next
    case (Cons t rest)
    with ts have "py_int t = Some timestamp" by simp
    from that [OF sec Cons this tol any_digest_mem [OF dig]] show ?thesis .
  qed
qed

section \<open>A lead whose payment failed\<close>

lemma failed_webhook_lead:
  assumes x: "get_purchase s (py_lead_purchase_id p) = Some x" and lead: "get_lead s (lp_lead_id x) = Some lead"
    and res: "pl_status lead = L_RESERVED" and p: "py_payment_purpose p = PROFESSIONAL_LEAD"
    and ok: "webhook_payment clk new_id ''payment_intent.payment_failed'' d p s = Inr s'"
  shows "leads s' = update_row pk (pk lead)
      (\<lambda>_. lead\<lparr>pl_status := L_AVAILABLE, pl_purchased_by_vendor_id := None\<rparr>) (leads s)
    \<and> lead_purchases s' = update_row pk (pk x) (\<lambda>_. x\<lparr>lp_status := LP_FAILED\<rparr>) (lead_purchases s)
    \<and> vendors s' = vendors s"
proof -
  from ok obtain code where "s' = release_failed_lead_purchase
      (p\<lparr>py_status := PY_FAILED, py_failure_code := code\<rparr>)
      (put_payment (p\<lparr>py_status := PY_FAILED, py_failure_code := code\<rparr>) s)"
    by (auto simp: webhook_payment_def Let_def elim!: bindE_InrE)
  then show ?thesis using x lead res p by (simp add: release_failed_lead_purchase_def)
qed

lemma sold_lead_refused:
  assumes "get_lead s lead_id = Some lead" "pl_status lead = L_AVAILABLE" "\<not> lead_expired (clk 0) lead"
    "lead_eligible v lead" "y \<in> set (lead_purchases s)" "lp_lead_id y = lead_id"
  shows "buy_lead create clk new_id lead_id v key s = Inl (IntegrityError ''professional_lead_purchases_lead_id'')"
proof -
  have "pk lead = lead_id" using assms(1) by (rule lookup_row_key)
  then have "list_ex (\<lambda>y. lp_lead_id y = pk lead) (lead_purchases s)" using assms(5,6) by (auto simp: list_ex_iff)
  then show ?thesis using assms(1-4) by (simp add: buy_lead_def add_purchase_def Let_def)
qed

section \<open>Properties\<close>



text \<open>C5.  A capture that fails changes nothing.  One that succeeds returns the stored payment, and when it
  has just become captured, its subject is settled in the same transaction: the booking waits for its
  provider and has a job, the quote is approved with this payment and its job no longer waits for
  approval, or the purchase is paid and the lead sold.\<close>
theorem capture_settles:
  assumes "capture ci clk new_id payment_id amount_minor key s = (res, s')"
  shows "case res of
      Inl _ \<Rightarrow> s' = s
    | Inr v \<Rightarrow> (\<exists>p1. get_payment s' payment_id = Some p1 \<and> v = view p1
        \<and> (s' \<noteq> s \<longrightarrow> py_status p1 = PY_CAPTURED \<longrightarrow> settled p1 (put_payment p1 s) s'))"
  using assms
proof (cases rule: capture_cases)
  case (refused e)
  then show ?thesis by simp
next
  case (already p)
  then show ?thesis by simp
next
  case (captured p i p1)
  have "pk p1 = payment_id" using lookup_row_key [OF captured(1)] by (simp add: captured(4))
  then have "get_payment s' payment_id = Some p1"
    using captured(1,6) lookup_put [OF captured(1), of p1] by (simp add: payment_changed_def money_kept_def)
  moreover have "settled p1 (put_payment p1 s) s'" if "py_status p1 = PY_CAPTURED"
    using captured(7) that by (auto intro: settle_settled)
  ultimately show ?thesis using captured(5) by simp
qed


text \<open>C12.  Without a signature made with the configured secret a webhook has no effect: whenever
  \<^verbatim>\<open>process_webhook\<close> with the Stripe adapter changes the store or accepts the request, the header carries
  a timestamp within the tolerance of the clock and, among its v1 signatures, the keyed digest of that
  timestamp and the very body.\<close>
theorem webhook_authentic:
  assumes "process_webhook (verify_webhook a hmac json_loads now) str_exc clk new_id body sg s = (res, s')"
    and "s' \<noteq> s \<or> \<not> isl res"
  shows "webhook_secret a \<noteq> [] \<and> (\<exists>t ts timestamp. values_of ''t'' (header_items sg) = t # ts
    \<and> py_int t = Some timestamp \<and> \<bar>now div seconds 1 - timestamp\<bar> \<le> webhook_tolerance_seconds a
    \<and> hmac (webhook_secret a) (str_int timestamp @ ''.'' @ body) \<in> set (values_of ''v1'' (header_items sg)))"
proof -
  from assms obtain event where "verify_webhook a hmac json_loads now body sg = Inr event"
    unfolding process_webhook_def by (auto split: sum.splits)
  then show ?thesis by (rule verify_webhook_InrD) blast
qed

text \<open>When the payment of a reserved lead fails, the lead is offered again but can never be sold: the
  webhook makes it available to every eligible vendor, yet its failed purchase keeps the unique lead
  reference, so whoever buys it, with a new key, gets an integrity error.\<close>
lemma failed_lead_unsellable:
  assumes "process_webhook verify str_exc clk new_id body sg s = (Inr (event_id, False), s')"
    and "verify body sg = Inr event" and "event_identity event = Some (event_id, ''payment_intent.payment_failed'')"
    and "event_object event = Inr d" and "object_is ''payment_intent'' d"
    and "map_of d ''id'' = Some (JStr t)" and "t \<noteq> []" and "get_by_provider_id s t = Some p"
    and "py_payment_purpose p = PROFESSIONAL_LEAD" and "get_purchase s (py_lead_purchase_id p) = Some x"
    and "get_lead s (lp_lead_id x) = Some lead" and "pl_status lead = L_RESERVED"
    and "stripe_enabled cfg" and "get_vendor s vendor_id = Some v" and "vn_status v = V_ACTIVE"
    and "lead_eligible v lead" and "\<not> lead_expired (clk' 0) lead"
    and "\<not> list_ex (\<lambda>y. lp_vendor_id y = vendor_id \<and> lp_idempotency_key y = key) (lead_purchases s)"
  shows "lead\<lparr>pl_status := L_AVAILABLE, pl_purchased_by_vendor_id := None\<rparr> \<in> set (available_leads (clk' 0) v s')
    \<and> purchase_lead cfg (Some create) clk' new_id' (pk lead) vendor_id key s'
      = (Inl (IntegrityError ''professional_lead_purchases_lead_id''), s')"
proof -
  let ?lead = "lead\<lparr>pl_status := L_AVAILABLE, pl_purchased_by_vendor_id := None\<rparr>"
  let ?x = "x\<lparr>lp_status := LP_FAILED\<rparr>"
  from assms(1-3) obtain i s1 where h: "handle_event clk new_id ''payment_intent.payment_failed'' event s = Inr (i, s1)"
    and s': "s' = record_processed (clk 3) event_id ''payment_intent.payment_failed'' event i s1"
    by (auto simp: process_webhook_def split: if_splits sum.splits)
  have "truthy (map_of d ''id'')" "text_value (map_of d ''id'') = Inr (Some t)"
    using assms(6,7) by (simp_all add: truthy_def text_value_def)
  with h assms(4,5,8) have "webhook_payment clk new_id ''payment_intent.payment_failed'' d p s = Inr s1"
    by (auto simp: handle_event_def event_object_def elim!: bindE_InrE split: option.splits)
  from failed_webhook_lead [OF assms(10-12) assms(9) this]
  have s1: "leads s' = update_row pk (pk lead) (\<lambda>_. ?lead) (leads s)"
    "lead_purchases s' = update_row pk (pk x) (\<lambda>_. ?x) (lead_purchases s)" "vendors s' = vendors s"
    by (auto simp: s' record_processed_def split: option.splits)
  have keys: "pk lead = lp_lead_id x" using assms(11) by (rule lookup_row_key)
  have x: "x \<in> set (lead_purchases s)" using assms(10) by (auto simp: bind_eq_Some_conv dest: lookup_row_mem)
  have get: "get_lead s' (pk lead) = Some ?lead" using assms(11) keys by (simp add: s1(1) lookup_put)
  have sold: "?x \<in> set (lead_purchases s')" using x by (force simp: s1(2) set_update_row)
  have none: "find (\<lambda>y. lp_vendor_id y = vendor_id \<and> lp_idempotency_key y = key) (lead_purchases s') = None"
    using assms(18) x by (auto simp: find_None_iff s1(2) set_update_row list_ex_iff split: if_splits)
  have el: "lead_eligible v ?lead" "\<not> lead_expired (clk' 0) ?lead"
    using assms(16,17) by (simp_all add: lead_eligible_def lead_expired_def)
  have "buy_lead create clk' new_id' (pk lead) v key s' = Inl (IntegrityError ''professional_lead_purchases_lead_id'')"
    by (rule sold_lead_refused [where clk = clk', OF get _ el(2,1) sold]) (simp_all add: keys)
  then have "purchase_lead cfg (Some create) clk' new_id' (pk lead) vendor_id key s'
      = (Inl (IntegrityError ''professional_lead_purchases_lead_id''), s')"
    using assms(13-15) none by (simp add: purchase_lead_def s1(3))
  moreover have "?lead \<in> set (available_leads (clk' 0) v s')"
    using lookup_row_mem [OF get] el by (simp add: available_leads_def)
  ultimately show ?thesis by blast
qed

section \<open>A sample provider\<close>

definition sample_post :: stripe_post where
  "sample_post path form key =
     (if path = ''/refunds'' then Inr [(''id'', JStr (''re_'' @ key)), (''status'', JStr ''succeeded'')]
      else if path = ''/payment_intents''
      then Inr [(''id'', JStr (''pi_'' @ key)), (''status'', JStr ''requires_capture''),
             (''client_secret'', JStr ''secret'')]
      else Inr [(''id'', JStr ''pi_k''), (''status'', JStr ''succeeded''), (''amount_received'', JInt 9500)])"

lemma sample_reports: "reports_amounts (stripe_create_intent sample_post)"
  unfolding reports_amounts_def
  by (auto simp: stripe_create_intent_def sample_post_def to_intent_def str_field_def)

definition pay_booking :: booking where
  "pay_booking = sample_booking\<lparr>bk_status := B_PENDING_PAYMENT, bk_total_amount := 95, bk_currency := ''USD''\<rparr>"

definition pay_lead :: professional_lead where
  "pay_lead = \<lparr>pk = 70, created_at = 0, pl_service_request_id = None, pl_service_category = ''Plumbing'',
     pl_location_summary = ''Austin'', pl_qualification_criteria = [], pl_price_minor = 2500,
     pl_currency = ''usd'', pl_policy_version = ''1'', pl_status = L_AVAILABLE,
     pl_purchased_by_vendor_id = None, pl_expires_at = None\<rparr>"

definition pay_db :: db where
  "pay_db = empty_db\<lparr>bookings := [pay_booking], leads := [pay_lead],
     vendors := [sample_vendor\<lparr>vn_capabilities := [''plumbing'']\<rparr>]\<rparr>"

definition pay_request :: payment_intent_create where
  "pay_request = \<lparr>pic_booking_id = Some (pk sample_booking), pic_quote_id = None, pic_lead_purchase_id = None,
     pic_payment_purpose = BOOKING_DIAGNOSTIC, pic_amount_minor = 9500, pic_currency = ''usd'',
     pic_capture_method = ''manual'', pic_metadata = []\<rparr>"

definition intended :: "payment_view result \<times> db" where
  "intended = create_intent (stripe_create_intent sample_post) (\<lambda>_. ''hash'') 1 900 pay_request ''k'' pay_db"

definition captured_out :: "payment_view result \<times> db" where
  "captured_out = capture (stripe_capture_intent sample_post) (\<lambda>n. 2 + int n) (\<lambda>n. 910 + n) 900 None ''c'' (snd intended)"

definition refunded_out :: "refund result \<times> db" where
  "refunded_out = refund_payment (stripe_create_refund sample_post) (\<lambda>n. 10 + int n) (\<lambda>n. 920 + n) 900
     (Some 4000) ''r'' 7 None (snd captured_out)"

definition pay_row :: payment where
  "pay_row = \<lparr>pk = 900, created_at = 1, py_booking_id = Some 81, py_quote_id = None, py_lead_purchase_id = None,
     py_payment_purpose = BOOKING_DIAGNOSTIC, py_provider = ''stripe'', py_provider_payment_id = Some ''pi_k'',
     py_status = PY_AUTHORIZED, py_amount_minor = 9500, py_currency = ''usd'', py_captured_amount_minor = 0,
     py_provider_client_secret = Some ''secret'', py_failure_code = None,
     py_metadata = [(''booking_id'', JStr (str_uuid 81))]\<rparr>"

lemmas sample_simps = sample_post_def to_intent_def to_refund_def str_field_def stripe_create_intent_def
  stripe_capture_intent_def stripe_create_refund_def stripe_status_def STRIPE_STATUS_def REFUND_STATUS_def
  pay_db_def pay_booking_def empty_db_def pay_request_def pay_row_def sample_booking_def
  lookup_row_def update_row_def update_where_def Let_def

lemma sample_upper: "upper ''usd'' = ''USD''" "upper ''USD'' = ''USD''"
  by code_simp+

lemma sample_price: "round_half_up 9500 = 9500"
  by code_simp

lemma intended_eq:
  "intended = (Inr (view pay_row), pay_db\<lparr>payments := [pay_row], idempotency_records :=
     [\<lparr>ir_operation = ''create_intent'', ir_idempotency_key = ''k'', ir_request_hash = ''hash'',
       ir_response_code = Some 201, ir_response_id = Some 900\<rparr>]\<rparr>)"
  by (simp add: intended_def create_intent_def new_intent_def intent_subject_def get_idempotency_def
      add_payment_def valid_payment_reference_def dict_set_def json_metadata_def sample_upper sample_price
      sample_simps)

lemma captured_eq:
  "payments (snd captured_out) = [pay_row\<lparr>py_status := PY_CAPTURED, py_captured_amount_minor := 9500\<rparr>]
   \<and> refunds (snd captured_out) = []
   \<and> fst captured_out = Inr (view (pay_row\<lparr>py_status := PY_CAPTURED, py_captured_amount_minor := 9500\<rparr>))"
  by (simp add: captured_out_def intended_eq capture_def capture_authorized_def has_provider_id_def settle_def
      confirm_booking_and_create_job_def sample_simps)

lemma refunded_eq:
  "payments (snd refunded_out) = [pay_row\<lparr>py_status := PY_PARTIALLY_REFUNDED, py_captured_amount_minor := 9500\<rparr>]
   \<and> map rf_amount_minor (refunds (snd refunded_out)) = [4000]
   \<and> map rf_payment_id (refunds (snd refunded_out)) = [900]
   \<and> map rf_status (refunds (snd refunded_out)) = [RF_SUCCEEDED]
   \<and> fst refunded_out = Inr (hd (refunds (snd refunded_out)))
   \<and> refund_by_key (snd refunded_out) 900 ''r'' = Some (hd (refunds (snd refunded_out)))"
  by (simp add: refunded_out_def captured_eq refund_payment_def has_provider_id_def refund_by_key_def new_refund_def
      sample_simps)

lemma sample_steps: "payment_step\<^sup>*\<^sup>* pay_db (snd refunded_out)"
proof -
  have "payment_step pay_db (snd intended)"
    by (rule step_create [OF _ sample_reports]) (simp add: intended_def prod_eq_iff, simp add: pay_db_def empty_db_def)
  moreover have "payment_step (snd intended) (snd captured_out)"
  proof (rule step_capture)
    show "capture (stripe_capture_intent sample_post) (\<lambda>n. 2 + int n) (\<lambda>n. 910 + n) 900 None ''c'' (snd intended)
      = (fst captured_out, snd captured_out)" by (simp add: captured_out_def)
  qed (auto simp: intended_eq stripe_capture_intent_def sample_simps)
  moreover have "payment_step (snd captured_out) (snd refunded_out)"
    by (rule step_refund [where res = "fst refunded_out"]) (simp add: refunded_out_def, simp add: captured_eq)
  ultimately show ?thesis by (meson converse_rtranclp_into_rtranclp rtranclp.rtrancl_refl)
qed


definition sample_event_body :: json_object where
  "sample_event_body = [(''id'', JStr ''evt_1''), (''type'', JStr ''payment_intent.processing''),
     (''data'', JObj [(''object'', JObj [(''object'', JStr ''payment_intent''), (''id'', JStr ''pi_k''),
        (''status'', JStr ''processing'')])])]"

definition hooked :: "(string \<times> bool) result \<times> db" where
  "hooked = process_webhook (\<lambda>_ _. Inr sample_event_body) (\<lambda>_. []) (\<lambda>n. 20 + int n) (\<lambda>n. 930 + n) [] [] (snd intended)"

lemma hooked_fst: "fst hooked = Inr (''evt_1'', False)"
  by (simp add: hooked_def process_webhook_def sample_event_body_def event_identity_def already_processed_def
      get_payment_event_def handle_event_def sub_object_def object_is_def truthy_def text_value_def
      get_by_provider_id_def webhook_payment_def hashed_text_def intended_eq sample_simps)


text \<open>The capture of that booking's payment settles it.\<close>
theorem capture_settles_witness:
  "\<exists>p1. get_payment (snd captured_out) 900 = Some p1 \<and> py_status p1 = PY_CAPTURED
    \<and> settled p1 (put_payment p1 (snd intended)) (snd captured_out)"
proof -
  have "capture (stripe_capture_intent sample_post) (\<lambda>n. 2 + int n) (\<lambda>n. 910 + n) 900 None ''c'' (snd intended)
    = (fst captured_out, snd captured_out)" by (simp add: captured_out_def)
  from capture_settles [OF this] have "\<exists>p1. get_payment (snd captured_out) 900 = Some p1
    \<and> (snd captured_out \<noteq> snd intended \<longrightarrow> py_status p1 = PY_CAPTURED \<longrightarrow>
       settled p1 (put_payment p1 (snd intended)) (snd captured_out))"
    by (auto simp: captured_eq)
  moreover have "snd captured_out \<noteq> snd intended"
  proof
    assume "snd captured_out = snd intended"
    then have "payments (snd captured_out) = payments (snd intended)" by simp
    then show False by (simp add: captured_eq intended_eq pay_row_def)
  qed
  moreover have "get_payment (snd captured_out) 900
    = Some (pay_row\<lparr>py_status := PY_CAPTURED, py_captured_amount_minor := 9500\<rparr>)"
    by (simp add: captured_eq lookup_row_def pay_row_def)
  ultimately show ?thesis by auto
qed


definition sample_adapter :: stripe_adapter where
  "sample_adapter = \<lparr>webhook_secret = ''whsec'', webhook_tolerance_seconds = 300\<rparr>"

definition sample_hmac :: "string \<Rightarrow> string \<Rightarrow> string" where
  "sample_hmac k m = k @ take 4 m"

definition signed_hook :: "(string \<times> bool) result \<times> db" where
  "signed_hook = process_webhook (verify_webhook sample_adapter sample_hmac (\<lambda>_. Inr (JObj sample_event_body)) (seconds 100))
     (\<lambda>_. []) (\<lambda>n. 20 + int n) (\<lambda>n. 930 + n) ''body'' ''t=99,v1=bad,v1=whsec99.b'' (snd intended)"

lemma sample_verified:
  "verify_webhook sample_adapter sample_hmac (\<lambda>_. Inr (JObj sample_event_body)) (seconds 100) ''body''
     ''t=99,v1=bad,v1=whsec99.b'' = Inr sample_event_body"
  by code_simp

text \<open>A signed event is accepted, and its header carries the digest.\<close>
theorem webhook_authentic_witness:
  "\<exists>t ts timestamp. values_of ''t'' (header_items ''t=99,v1=bad,v1=whsec99.b'') = t # ts
    \<and> py_int t = Some timestamp \<and> \<bar>seconds 100 div seconds 1 - timestamp\<bar> \<le> 300
    \<and> sample_hmac ''whsec'' (str_int timestamp @ ''.'' @ ''body'')
        \<in> set (values_of ''v1'' (header_items ''t=99,v1=bad,v1=whsec99.b''))"
proof -
  have "fst signed_hook = fst hooked"
    by (simp add: signed_hook_def hooked_def process_webhook_def sample_verified)
  then have "\<not> isl (fst signed_hook)" by (simp add: hooked_fst)
  with webhook_authentic [of sample_adapter sample_hmac "\<lambda>_. Inr (JObj sample_event_body)" "seconds 100" "\<lambda>_. []"
      "\<lambda>n. 20 + int n" "\<lambda>n. 930 + n" "''body''" "''t=99,v1=bad,v1=whsec99.b''" "snd intended"
      "fst signed_hook" "snd signed_hook"]
  show ?thesis by (simp add: signed_hook_def sample_adapter_def)
qed

definition bought_out :: "lead_purchase_view result \<times> db" where
  "bought_out = purchase_lead payout_settings (Some (stripe_create_intent sample_post)) (\<lambda>n. 60 + int n)
     (\<lambda>n. 800 + n) 70 30 ''key'' pay_db"

definition bought_lead :: professional_lead where
  "bought_lead = pay_lead\<lparr>pl_status := L_RESERVED, pl_purchased_by_vendor_id := Some 30\<rparr>"

definition bought_purchase :: lead_purchase where
  "bought_purchase = \<lparr>pk = 800, created_at = 61, lp_lead_id = 70, lp_vendor_id = 30, lp_idempotency_key = ''key'',
     lp_price_minor = 2500, lp_currency = ''usd'', lp_status = LP_PENDING_PAYMENT\<rparr>"

lemma sample_lower: "lower ''Plumbing'' = ''plumbing''" "lower ''plumbing'' = ''plumbing''"
  by code_simp+

lemma bought_eq:
  "leads (snd bought_out) = [bought_lead] \<and> lead_purchases (snd bought_out) = [bought_purchase]
   \<and> vendors (snd bought_out) = [sample_vendor\<lparr>vn_capabilities := [''plumbing'']\<rparr>]
   \<and> map py_lead_purchase_id (payments (snd bought_out)) = [Some 800]
   \<and> map py_provider_payment_id (payments (snd bought_out)) = [Some ''pi_professional-lead:key'']
   \<and> map py_payment_purpose (payments (snd bought_out)) = [PROFESSIONAL_LEAD]
   \<and> payment_events (snd bought_out) = []"
  by (simp add: bought_out_def purchase_lead_def buy_lead_def add_purchase_def create_professional_lead_intent_def
      payout_settings_def sample_vendor_def lead_eligible_def sample_lower lead_expired_def pay_lead_def add_payment_def
      valid_payment_reference_def bought_lead_def bought_purchase_def sample_simps)

definition failure_event :: json_object where
  "failure_event = [(''id'', JStr ''evt_2''), (''type'', JStr ''payment_intent.payment_failed''),
     (''data'', JObj [(''object'', JObj [(''object'', JStr ''payment_intent''),
        (''id'', JStr ''pi_professional-lead:key'')])])]"

definition failed_hook :: "(string \<times> bool) result \<times> db" where
  "failed_hook = process_webhook (\<lambda>_ _. Inr failure_event) (\<lambda>_. []) (\<lambda>n. 70 + int n) (\<lambda>n. 830 + n) [] [] (snd bought_out)"

text \<open>A vendor reserves a lead, the payment fails, and the vendor cannot buy it with another key.\<close>
lemma failed_lead_unsellable_witness:
  "bought_lead\<lparr>pl_status := L_AVAILABLE, pl_purchased_by_vendor_id := None\<rparr>
     \<in> set (available_leads 80 (sample_vendor\<lparr>vn_capabilities := [''plumbing'']\<rparr>) (snd failed_hook))
   \<and> purchase_lead payout_settings (Some (stripe_create_intent sample_post)) (\<lambda>n. 80 + int n) (\<lambda>n. 850 + n) 70 30
       ''again'' (snd failed_hook)
     = (Inl (IntegrityError ''professional_lead_purchases_lead_id''), snd failed_hook)"
proof -
  let ?d = "[(''object'', JStr ''payment_intent''), (''id'', JStr ''pi_professional-lead:key'')]"
  have "map py_lead_purchase_id (payments (snd bought_out)) = [Some 800]"
    "map py_provider_payment_id (payments (snd bought_out)) = [Some ''pi_professional-lead:key'']"
    "map py_payment_purpose (payments (snd bought_out)) = [PROFESSIONAL_LEAD]" using bought_eq by simp_all
  then obtain p where p: "payments (snd bought_out) = [p]" "py_lead_purchase_id p = Some 800"
    "py_provider_payment_id p = Some ''pi_professional-lead:key''" "py_payment_purpose p = PROFESSIONAL_LEAD"
    by (auto simp: map_eq_Cons_conv)
  have ob: "event_object failure_event = Inr ?d" by (simp add: event_object_def failure_event_def sub_object_def)
  have ids: "event_identity failure_event = Some (''evt_2'', ''payment_intent.payment_failed'')"
    by (simp add: event_identity_def failure_event_def)
  have get: "get_by_provider_id (snd bought_out) ''pi_professional-lead:key'' = Some p"
    by (simp add: get_by_provider_id_def p)
  have hook: "process_webhook (\<lambda>_ _. Inr failure_event) (\<lambda>_. []) (\<lambda>n. 70 + int n) (\<lambda>n. 830 + n) [] [] (snd bought_out)
    = (Inr (''evt_2'', False), snd failed_hook)"
    by (simp add: failed_hook_def process_webhook_def event_identity_def already_processed_def get_payment_event_def bought_eq
        handle_event_def sub_object_def failure_event_def object_is_def truthy_def text_value_def get
        webhook_payment_def Let_def)
  have pk: "pk bought_lead = 70" by (simp add: bought_lead_def pay_lead_def)
  have v: "get_vendor (snd bought_out) 30 = Some (sample_vendor\<lparr>vn_capabilities := [''plumbing'']\<rparr>)"
    by (simp add: bought_eq lookup_row_def sample_vendor_def)
  have x: "get_purchase (snd bought_out) (py_lead_purchase_id p) = Some bought_purchase"
    by (simp add: p bought_eq lookup_row_def bought_purchase_def)
  have lead: "get_lead (snd bought_out) (lp_lead_id bought_purchase) = Some bought_lead"
    by (simp add: bought_eq lookup_row_def bought_purchase_def pk)
  have el: "lead_eligible (sample_vendor\<lparr>vn_capabilities := [''plumbing'']\<rparr>) bought_lead"
    by (simp add: lead_eligible_def bought_lead_def pay_lead_def sample_lower)
  show ?thesis
    using failed_lead_unsellable [where clk' = "\<lambda>n. 80 + int n" and new_id' = "\<lambda>n. 850 + n" and key = "''again''"
        and cfg = payout_settings and create = "stripe_create_intent sample_post",
        OF hook refl ids ob _ _ _ get p(4) x lead _ _ v _ el]
    by (simp add: object_is_def pk bought_eq bought_purchase_def bought_lead_def pay_lead_def payout_settings_def
        lead_expired_def sample_vendor_def)
qed

end
