(* ===== verification/Tokens.thy ===== *)
theory Tokens
  imports Identifiers Stripe
begin

text \<open>
  Text that requests carry: \<^verbatim>\<open>uuid.UUID(text)\<close>, hexadecimal bytes, a person's name, and the cookie that
  names the anonymous session of a booking draft (\<^verbatim>\<open>api/v1/booking_intents.py\<close>).
\<close>

section \<open>Hexadecimal text\<close>

definition hex_value :: "char \<Rightarrow> nat option" where
  "hex_value c =
     (let n = (of_char c :: nat) in
      if 48 \<le> n \<and> n \<le> 57 then Some (n - 48)
      else if 97 \<le> n \<and> n \<le> 102 then Some (n - 87)
      else if 65 \<le> n \<and> n \<le> 70 then Some (n - 55)
      else None)"

text \<open>\<^verbatim>\<open>bytes.fromhex\<close>: two digits a byte, with ASCII white space between the bytes.\<close>

definition hex_space :: "char \<Rightarrow> bool" where
  "hex_space c = (let n = (of_char c :: nat) in n = 32 \<or> (9 \<le> n \<and> n \<le> 13))"

fun from_hex :: "string \<Rightarrow> nat list option" where
  "from_hex [] = Some []"
| "from_hex [c] = (if hex_space c then Some [] else None)"
| "from_hex (c # d # cs) =
     (if hex_space c then from_hex (d # cs)
      else case (hex_value c, hex_value d) of
        (Some a, Some b) \<Rightarrow> map_option (\<lambda>bs. (16 * a + b) # bs) (from_hex cs)
      | _ \<Rightarrow> None)"

text \<open>\<^verbatim>\<open>int(text, 16)\<close>: white space around, a sign, a prefix, and single underscores between the digits.\<close>

fun hex_number :: "nat \<Rightarrow> string \<Rightarrow> nat option" where
  "hex_number acc [] = Some acc"
| "hex_number acc (c # cs) =
     (case hex_value c of
        Some v \<Rightarrow> hex_number (16 * acc + v) cs
      | None \<Rightarrow> if c = CHR ''_'' \<and> cs \<noteq> [] \<and> hex_value (hd cs) \<noteq> None then hex_number acc cs else None)"

definition hex_prefix :: "string \<Rightarrow> string" where
  "hex_prefix t =
     (if take 2 t = ''0x'' \<or> take 2 t = ''0X''
      then (if take 1 (drop 2 t) = ''_'' then drop 3 t else drop 2 t) else t)"

definition py_int_hex :: "string \<Rightarrow> int option" where
  "py_int_hex t =
     (let u = strip t;
          negative = (take 1 u = ''-'');
          v = hex_prefix (if take 1 u = ''-'' \<or> take 1 u = ''+'' then drop 1 u else u)
      in if v = [] \<or> hex_value (hd v) = None then None
         else map_option (\<lambda>n. if negative then - int n else int n) (hex_number 0 v))"

section \<open>uuid.UUID\<close>

text \<open>\<^verbatim>\<open>str.replace(p, "")\<close>, from left to right.\<close>

fun remove_text :: "string \<Rightarrow> string \<Rightarrow> string" where
  "remove_text p [] = []"
| "remove_text p (c # cs) =
     (if p \<noteq> [] \<and> take (length p) (c # cs) = p then remove_text p (drop (length p - 1) cs)
      else c # remove_text p cs)"

definition strip_chars :: "char list \<Rightarrow> string \<Rightarrow> string" where
  "strip_chars cs t =
     rev (dropWhile (\<lambda>c. List.member cs c) (rev (dropWhile (\<lambda>c. List.member cs c) t)))"

definition parse_uuid :: "string \<Rightarrow> uuid option" where
  "parse_uuid t =
     (let h = remove_text ''-'' (strip_chars ''{}'' (remove_text ''uuid:'' (remove_text ''urn:'' t)))
      in if length h \<noteq> 32 then None
         else case py_int_hex h of
           Some n \<Rightarrow> if 0 \<le> n \<and> n < 2 ^ 128 then Some (nat n) else None
         | None \<Rightarrow> None)"

lemma hex_value_hex_char: "n < 16 \<Longrightarrow> hex_value (hex_char n) = Some n"
proof -
  assume "n < 16"
  then have "n \<in> set [0..<16]" by simp
  moreover have "list_all (\<lambda>n. hex_value (hex_char n) = Some n) [0..<16]" by code_simp
  ultimately show ?thesis by (simp add: list_all_iff)
qed

lemma hex_digits_chars: "set (hex_digits k n) \<subseteq> hex_char ` {..<16}"
  by (induction k arbitrary: n) auto

lemma hex_number_append:
  "hex_number acc xs = Some a \<Longrightarrow> ys \<noteq> [] \<Longrightarrow> hex_value (hd ys) \<noteq> None \<Longrightarrow>
   hex_number acc (xs @ ys) = hex_number a ys"
  by (induction xs arbitrary: acc) (auto split: option.splits if_splits simp: neq_Nil_conv)

lemma hex_number_digits: "n < 16 ^ k \<Longrightarrow> hex_number 0 (hex_digits k n) = Some n"
proof (induction k arbitrary: n)
  case (Suc k)
  then have "hex_number 0 (hex_digits k (n div 16)) = Some (n div 16)"
    by (simp add: less_mult_imp_div_less mult.commute)
  then have "hex_number 0 (hex_digits (Suc k) n) = hex_number (n div 16) [hex_char (n mod 16)]"
    using hex_number_append [of 0 "hex_digits k (n div 16)" "n div 16" "[hex_char (n mod 16)]"]
    by (simp add: hex_value_hex_char)
  also have "\<dots> = Some n" by (simp add: hex_value_hex_char)
  finally show ?case .
qed simp

lemma hex_char_not: "hex_char ` {..<16} \<inter> set ''-{}ux +_X'' = {}"
proof -
  have "list_all (\<lambda>n. hex_char n \<notin> set ''-{}ux +_X'') [0..<16]" by code_simp
  then show ?thesis by (auto simp: list_all_iff)
qed

lemma hex_char_not_space: "n < 16 \<Longrightarrow> \<not> is_space (hex_char n)"
proof -
  assume "n < 16"
  then have "n \<in> set [0..<16]" by simp
  moreover have "list_all (\<lambda>n. \<not> is_space (hex_char n)) [0..<16]" by code_simp
  ultimately show ?thesis by (simp add: list_all_iff)
qed

lemma remove_text_id: "p \<noteq> [] \<Longrightarrow> hd p \<notin> set t \<Longrightarrow> remove_text p t = t"
  by (induction t) (auto simp: neq_Nil_conv)

lemma remove_char: "remove_text [c] t = filter (\<lambda>x. x \<noteq> c) t"
  by (induction t) auto

lemma strip_chars_id: "set cs \<inter> set t = {} \<Longrightarrow> strip_chars cs t = t"
proof -
  assume none: "set cs \<inter> set t = {}"
  have "dropWhile (\<lambda>c. List.member cs c) x = x" if "set x \<subseteq> set t" for x
    using that none by (cases x) auto
  from this [of t] this [of "rev t"] show ?thesis by (simp add: strip_chars_def)
qed

lemma strip_id: "\<forall>c \<in> set t. \<not> is_space c \<Longrightarrow> strip t = t"
proof -
  assume none: "\<forall>c \<in> set t. \<not> is_space c"
  have "lstrip x = x" if "set x \<subseteq> set t" for x
    using that none by (cases x) (auto simp: lstrip_def)
  from this [of t] this [of "rev t"] show ?thesis by (simp add: strip_def)
qed

lemma str_uuid_chars: "set (str_uuid u) \<subseteq> insert (CHR ''-'') (hex_char ` {..<16})"
proof -
  have parts: "set (take m (drop k (hex_digits 32 u))) \<subseteq> hex_char ` {..<16}"
    "set (drop k (hex_digits 32 u)) \<subseteq> hex_char ` {..<16}" for m k
    using hex_digits_chars [of 32 u] set_take_subset [of m "drop k (hex_digits 32 u)"]
      set_drop_subset [of k "hex_digits 32 u"] by blast+
  show ?thesis
    using parts(1) [of 8 0] parts(1) [of 4 8] parts(1) [of 4 12] parts(1) [of 4 16] parts(2) [of 20]
    by (auto simp: str_uuid_def Let_def)
qed

lemma filter_str_uuid: "filter (\<lambda>x. x \<noteq> CHR ''-'') (str_uuid u) = hex_digits 32 u"
proof -
  have keep: "filter (\<lambda>x. x \<noteq> CHR ''-'') x = x" if "set x \<subseteq> hex_char ` {..<16}" for x
    using that hex_char_not by (intro filter_True) auto
  have parts: "set (take m (drop k (hex_digits 32 u))) \<subseteq> hex_char ` {..<16}"
    "set (drop k (hex_digits 32 u)) \<subseteq> hex_char ` {..<16}" for m k
    using hex_digits_chars [of 32 u] set_take_subset [of m "drop k (hex_digits 32 u)"]
      set_drop_subset [of k "hex_digits 32 u"] by blast+
  have glue: "take n x @ take m (drop n x) = take (n + m) x" for n m and x :: string
    by (simp add: take_add)
  show ?thesis
    using keep [OF parts(1) [of 8 0]] keep [OF parts(1) [of 4 8]] keep [OF parts(1) [of 4 12]]
      keep [OF parts(1) [of 4 16]] keep [OF parts(2) [of 20]]
      glue [of 8 "hex_digits 32 u" 4] glue [of 12 "hex_digits 32 u" 4] glue [of 16 "hex_digits 32 u" 4]
      append_take_drop_id [of 20 "hex_digits 32 u"]
    by (simp add: str_uuid_def Let_def append_assoc [symmetric] del: append_assoc append_take_drop_id)
qed

text \<open>The text of a UUID reads back as the same UUID.\<close>

lemma parse_str_uuid:
  assumes "u < 2 ^ 128"
  shows "parse_uuid (str_uuid u) = Some u"
proof -
  note chars = str_uuid_chars [of u] and none = hex_char_not
  have no: "CHR ''u'' \<notin> set (str_uuid u)" "set ''{}'' \<inter> set (str_uuid u) = {}"
    using chars none by auto
  have stripped: "remove_text ''-'' (strip_chars ''{}'' (remove_text ''uuid:'' (remove_text ''urn:'' (str_uuid u))))
      = hex_digits 32 u"
    using no by (simp add: remove_text_id strip_chars_id remove_char filter_str_uuid)
  define h where "h = hex_digits 32 u"
  have h: "set h \<subseteq> hex_char ` {..<16}" "length h = 32" by (simp_all add: h_def hex_digits_chars)
  then have "strip h = h" using hex_char_not_space by (intro strip_id) auto
  moreover obtain c cs where c: "h = c # cs" using h(2) by (cases h) auto
  moreover obtain n where n: "n < 16" "c = hex_char n" using h(1) c by auto
  moreover obtain d ds where d: "cs = d # ds" using h(2) c by (cases cs) auto
  moreover have "c \<notin> set ''-{}ux +_X''" "d \<notin> set ''-{}ux +_X''"
    using h(1) none unfolding c d by (meson disjoint_iff list.set_intros subsetD)+
  moreover have "hex_number 0 h = Some u"
    unfolding h_def by (rule hex_number_digits) (use assms in simp)
  ultimately have "py_int_hex h = Some (int u)"
    by (simp add: py_int_hex_def hex_prefix_def hex_value_hex_char)
  moreover have "int u < 2 ^ 128" using assms by (simp add: of_nat_less_iff [symmetric] del: of_nat_less_iff)
  ultimately show ?thesis using stripped h(2) by (simp add: parse_uuid_def h_def)
qed

section \<open>Sets of texts in order\<close>

text \<open>\<^verbatim>\<open>sorted({...})\<close>: by the codes of the characters, a prefix first, without repetition.\<close>

fun text_le :: "string \<Rightarrow> string \<Rightarrow> bool" where
  "text_le [] ys = True"
| "text_le (x # xs) [] = False"
| "text_le (x # xs) (y # ys) = (of_char x < (of_char y :: nat) \<or> x = y \<and> text_le xs ys)"

fun text_insert :: "string \<Rightarrow> string list \<Rightarrow> string list" where
  "text_insert x [] = [x]"
| "text_insert x (y # ys) = (if text_le x y then x # y # ys else y # text_insert x ys)"

definition sorted_set :: "string list \<Rightarrow> string list" where
  "sorted_set xs = foldr text_insert (remdups xs) []"

lemma text_le_linear: "text_le x y \<or> text_le y x"
  by (induction x y rule: text_le.induct) auto

lemma text_le_trans: "text_le x y \<Longrightarrow> text_le y z \<Longrightarrow> text_le x z"
  by (induction x y arbitrary: z rule: text_le.induct) (case_tac z; auto)+

lemma set_text_insert [simp]: "set (text_insert x ys) = insert x (set ys)"
  by (induction ys) auto

lemma sorted_text_insert: "sorted_wrt text_le ys \<Longrightarrow> sorted_wrt text_le (text_insert x ys)"
proof (induction ys)
  case (Cons y ys)
  then show ?case
    using text_le_linear [of x y] text_le_trans [of x y] by (cases "text_le x y") auto
qed simp

lemma set_sorted_set [simp]: "set (sorted_set xs) = set xs"
proof -
  have "set (foldr text_insert ys []) = set ys" for ys by (induction ys) auto
  then show ?thesis by (simp add: sorted_set_def)
qed

lemma sorted_sorted_set: "sorted_wrt text_le (sorted_set xs)"
proof -
  have "sorted_wrt text_le (foldr text_insert ys [])" for ys
    by (induction ys) (auto intro: sorted_text_insert)
  then show ?thesis by (simp add: sorted_set_def)
qed

lemma distinct_text_insert: "x \<notin> set ys \<Longrightarrow> distinct ys \<Longrightarrow> distinct (text_insert x ys)"
  by (induction ys) auto

lemma distinct_sorted_set: "distinct (sorted_set xs)"
proof -
  have "distinct ys \<Longrightarrow> distinct (foldr text_insert ys [])" for ys
  proof (induction ys)
    case (Cons y ys)
    have "set (foldr text_insert ys []) = set ys" by (induction ys) auto
    with Cons show ?case by (simp add: distinct_text_insert)
  qed simp
  then show ?thesis by (simp add: sorted_set_def)
qed

section \<open>Names and sessions\<close>

text \<open>
  \<^verbatim>\<open>str.isdigit\<close> also holds of the superscript digits of Latin-1, which \<^verbatim>\<open>int\<close> refuses, as it refuses
  more than 4300 digits.
\<close>

definition py_isdigit :: "string \<Rightarrow> bool" where
  "py_isdigit t = (t \<noteq> [] \<and> list_all (\<lambda>c. is_digit c \<or> of_char c \<in> {178, 179, 185 :: nat}) t)"

text \<open>\<^verbatim>\<open>name.split(maxsplit=1)\<close>: the first word and the rest, if there is a word.\<close>

definition name_parts :: "string \<Rightarrow> (string \<times> string) result" where
  "name_parts t =
     (let u = lstrip t
      in if u = [] then Inl (LookupError ''IndexError'')
         else Inr (takeWhile (\<lambda>c. \<not> is_space c) u, lstrip (dropWhile (\<lambda>c. \<not> is_space c) u)))"

text \<open>A cookie that names no session is replaced where the route creates one.\<close>

definition booking_session_id :: "string option \<Rightarrow> bool \<Rightarrow> uuid \<Rightarrow> uuid result" where
  "booking_session_id raw create new_id =
     (case Option.bind raw (\<lambda>t. if t = [] then None else parse_uuid t) of
        Some u \<Rightarrow> Inr u
      | None \<Rightarrow> if create then Inr new_id else Inl (DomainError ''BOOKING_INTENT_NOT_FOUND'' 404))"

end
