(* ===== verification/Booking_Intents.thy ===== *)
theory Booking_Intents
  imports Bookings Tokens Samples
begin

text \<open>
  Booking intents (\<^verbatim>\<open>booking_intents/service.py\<close>, \<^verbatim>\<open>api/v1/booking_intents.py\<close>): the draft of a
  booking that an anonymous session fills in step by step and submits.  Every change carries the version
  it was made against, and a submitted intent becomes a booking through \<^verbatim>\<open>BookingService.create\<close>.

  A field of an update that the request leaves out is \<open>None\<close>; one that is explicitly null is
  \<open>Some None\<close>.
\<close>

definition BOOKING_INTENT_TTL :: int where "BOOKING_INTENT_TTL = minutes 120"

definition EDITABLE_STATUSES :: "booking_intent_status list" where
  "EDITABLE_STATUSES = [BI_DRAFT, BI_ADDRESS_VALIDATED, BI_COVERAGE_CONFIRMED, BI_AVAILABILITY_FOUND]"

definition status_value :: "booking_intent_status \<Rightarrow> string" where
  "status_value st = (case st of BI_DRAFT \<Rightarrow> ''DRAFT'' | BI_ADDRESS_VALIDATED \<Rightarrow> ''ADDRESS_VALIDATED''
     | BI_COVERAGE_CONFIRMED \<Rightarrow> ''COVERAGE_CONFIRMED'' | BI_AVAILABILITY_FOUND \<Rightarrow> ''AVAILABILITY_FOUND''
     | BI_SUBMITTED \<Rightarrow> ''SUBMITTED'' | BI_EXPIRED \<Rightarrow> ''EXPIRED'')"

record intent_update =
  iu_service_id :: "uuid option option"
  iu_address_id :: "uuid option option"
  iu_timezone_id :: "string option option"
  iu_requested_date :: "date option option"
  iu_selected_slot :: "slot_selection option option"
  iu_clear_selected_slot :: bool

text \<open>\<^verbatim>\<open>validate_patch\<close> of the request model; an explicit false of the flag counts as given.\<close>

definition update_given :: "intent_update \<Rightarrow> bool \<Rightarrow> bool" where
  "update_given c flag_given \<longleftrightarrow>
     (iu_service_id c \<noteq> None \<or> iu_address_id c \<noteq> None \<or> iu_timezone_id c \<noteq> None
      \<or> iu_requested_date c \<noteq> None \<or> iu_selected_slot c \<noteq> None \<or> flag_given)
     \<and> \<not> (Option.bind (iu_selected_slot c) id \<noteq> None \<and> iu_clear_selected_slot c)"

section \<open>The version in the If-Match header\<close>

definition strip_char :: "char \<Rightarrow> string \<Rightarrow> string" where
  "strip_char q t = rev (dropWhile (\<lambda>c. c = q) (rev (dropWhile (\<lambda>c. c = q) t)))"

definition if_match_version :: "string option \<Rightarrow> int result" where
  "if_match_version if_match = (case if_match of
       None \<Rightarrow> Inl (DomainError ''PRECONDITION_REQUIRED'' 428)
     | Some h \<Rightarrow>
         let v0 = strip h;
             v1 = (if take 2 v0 = ''W/'' then strip (drop 2 v0) else v0);
             v2 = strip_char (CHR 0x22) v1
         in if \<not> py_isdigit v2 then Inl (DomainError ''INVALID_IF_MATCH'' 400)
            else if length v2 > 4300 then Inl (ValueError v2)
            else (case py_int v2 of
                    None \<Rightarrow> Inl (ValueError v2)
                  | Some n \<Rightarrow> if n < 1 then Inl (DomainError ''INVALID_IF_MATCH'' 400) else Inr n))"

definition etag :: "int \<Rightarrow> string" where
  "etag version = CHR 0x22 # str_int version @ [CHR 0x22]"

section \<open>Reading an intent\<close>

definition owned_intent :: "db \<Rightarrow> uuid \<Rightarrow> uuid \<Rightarrow> booking_intent option" where
  "owned_intent s intent_id session_id =
     find (\<lambda>i. pk i = intent_id \<and> bi_anonymous_session_id i = session_id) (booking_intents s)"

definition put_intent :: "booking_intent \<Rightarrow> db \<Rightarrow> db" where
  "put_intent i s = s\<lparr>booking_intents := update_row pk (pk i) (\<lambda>_. i) (booking_intents s)\<rparr>"

definition intent_audit :: "datetime \<Rightarrow> booking_intent \<Rightarrow> string \<Rightarrow> json_object \<Rightarrow> audit_log" where
  "intent_audit now i action metadata =
     \<lparr>al_actor_id = None, al_actor_type = ''anonymous_session'', al_action = action,
      al_resource_type = ''booking_intent'', al_resource_id = pk i,
      al_metadata_json = [(''public_reference'', JStr (bi_public_reference i)),
        (''anonymous_session_id'', JUuid (bi_anonymous_session_id i))] @ metadata,
      al_created_at = now\<rparr>"

definition expired_intent :: "booking_intent \<Rightarrow> booking_intent" where
  "expired_intent i = i\<lparr>bi_status := BI_EXPIRED, bi_selected_slot := None, bi_version := bi_version i + 1\<rparr>"

text \<open>
  \<^verbatim>\<open>_owned\<close> followed by \<^verbatim>\<open>_reject_expired\<close>, which commits the expiry before it raises.
\<close>

definition live_intent ::
  "(nat \<Rightarrow> datetime) \<Rightarrow> uuid \<Rightarrow> uuid \<Rightarrow> db \<Rightarrow> (db, booking_intent) outcome"
where
  "live_intent clk intent_id session_id s =
     (case owned_intent s intent_id session_id of
        None \<Rightarrow> (Inl (DomainError ''BOOKING_INTENT_NOT_FOUND'' 404), s)
      | Some i \<Rightarrow>
          if bi_status i \<noteq> BI_EXPIRED \<and> bi_status i \<noteq> BI_SUBMITTED \<and> bi_expires_at i \<le> clk 0
          then (Inl (DomainError ''BOOKING_INTENT_EXPIRED'' 410),
                add_audit (intent_audit (clk 1) (expired_intent i) ''booking_intent.expire''
                    [(''version'', JInt (bi_version i + 1))])
                  (put_intent (expired_intent i) s))
          else if bi_status i = BI_EXPIRED then (Inl (DomainError ''BOOKING_INTENT_EXPIRED'' 410), s)
          else (Inr i, s))"

definition require_version :: "booking_intent \<Rightarrow> int \<Rightarrow> unit result" where
  "require_version i expected =
     ensure (bi_version i = expected) (DomainError ''BOOKING_INTENT_VERSION_CONFLICT'' 409)"

definition intent_timezone :: "(string \<Rightarrow> zone option) \<Rightarrow> string option \<Rightarrow> zone result" where
  "intent_timezone tzdb tz = (case tz of
       None \<Rightarrow> Inl (DomainError ''TIMEZONE_REQUIRED'' 422)
     | Some t \<Rightarrow> if t = [] then Inl (DomainError ''TIMEZONE_REQUIRED'' 422)
         else of_option (DomainError ''TIMEZONE_INVALID'' 422) (tzdb t))"

section \<open>Creating\<close>

definition create_booking_intent ::
  "(nat \<Rightarrow> datetime) \<Rightarrow> uuid \<Rightarrow> string \<Rightarrow> uuid \<Rightarrow> uuid \<Rightarrow> db \<Rightarrow> (db, booking_intent) outcome"
where
  "create_booking_intent clk new_id reference service_id session_id s =
     (case active_service s service_id of
        None \<Rightarrow> (Inl (DomainError ''SERVICE_NOT_FOUND'' 404), s)
      | Some _ \<Rightarrow>
          if list_ex (\<lambda>i. bi_public_reference i = reference) (booking_intents s)
          then (Inl (IntegrityError ''booking_intents_public_reference''), s)
          else
            let i = \<lparr>pk = new_id, created_at = clk 0, bi_public_reference = reference,
                  bi_anonymous_session_id = session_id, bi_service_id = service_id, bi_address_id = None,
                  bi_timezone_id = None, bi_requested_date = None, bi_selected_slot = None,
                  bi_status = BI_DRAFT, bi_expires_at = clk 0 + BOOKING_INTENT_TTL, bi_version = 1,
                  bi_booking_id = None\<rparr>
            in (Inr i, add_audit (intent_audit (clk 1) i ''booking_intent.create'' [(''service_id'', JUuid service_id)])
                  (s\<lparr>booking_intents := booking_intents s @ [i]\<rparr>)))"

definition get_booking_intent ::
  "(nat \<Rightarrow> datetime) \<Rightarrow> uuid \<Rightarrow> uuid \<Rightarrow> db \<Rightarrow> (db, booking_intent) outcome"
where
  "get_booking_intent clk intent_id session_id s = live_intent clk intent_id session_id s"

section \<open>Updating\<close>

text \<open>The parts of \<^verbatim>\<open>update\<close>, in its order; each is skipped when its field is not given.\<close>

definition update_service :: "db \<Rightarrow> uuid option option \<Rightarrow> booking_intent \<Rightarrow> booking_intent result" where
  "update_service s v i = (case v of
       None \<Rightarrow> Inr i
     | Some None \<Rightarrow> Inl (DomainError ''SERVICE_REQUIRED'' 422)
     | Some (Some service_id) \<Rightarrow>
         bindE (of_option (DomainError ''SERVICE_NOT_FOUND'' 404) (active_service s service_id)) (\<lambda>_.
         Inr (if service_id = bi_service_id i then i
              else i\<lparr>bi_service_id := service_id, bi_address_id := None, bi_timezone_id := None,
                     bi_requested_date := None, bi_selected_slot := None, bi_status := BI_DRAFT\<rparr>)))"

definition update_address :: "db \<Rightarrow> uuid option option \<Rightarrow> booking_intent \<Rightarrow> booking_intent result" where
  "update_address s v i = (case v of
       None \<Rightarrow> Inr i
     | Some address_id \<Rightarrow>
         bindE (case address_id of
                  None \<Rightarrow> Inr None
                | Some a \<Rightarrow>
                    bindE (of_option (DomainError ''ADDRESS_NOT_FOUND'' 422) (get_address s a)) (\<lambda>ad.
                    bindE (ensure (ad_customer_id ad = None) (DomainError ''ADDRESS_NOT_FOUND'' 422)) (\<lambda>_.
                    Inr (Some ad)))) (\<lambda>ad.
         let i1 = (if address_id = bi_address_id i then i
                   else i\<lparr>bi_address_id := address_id, bi_timezone_id := None, bi_requested_date := None,
                          bi_selected_slot := None\<rparr>)
         in Inr (i1\<lparr>bi_status := (case ad of
                None \<Rightarrow> BI_DRAFT
              | Some a \<Rightarrow> if ad_service_area_id a \<noteq> None then BI_COVERAGE_CONFIRMED else BI_ADDRESS_VALIDATED)\<rparr>)))"

definition update_timezone ::
  "(string \<Rightarrow> zone option) \<Rightarrow> string option option \<Rightarrow> booking_intent \<Rightarrow> booking_intent result"
where
  "update_timezone tzdb v i = (case v of
       None \<Rightarrow> Inr i
     | Some tz \<Rightarrow>
         bindE (case tz of None \<Rightarrow> Inr () | Some _ \<Rightarrow> bindE (intent_timezone tzdb tz) (\<lambda>_. Inr ())) (\<lambda>_.
         Inr (i\<lparr>bi_timezone_id := tz, bi_selected_slot := None\<rparr>)))"

definition update_date ::
  "(string \<Rightarrow> zone option) \<Rightarrow> datetime \<Rightarrow> date option option \<Rightarrow> booking_intent \<Rightarrow> booking_intent result"
where
  "update_date tzdb now v i = (case v of
       None \<Rightarrow> Inr i
     | Some d \<Rightarrow>
         bindE (case d of
                  None \<Rightarrow> Inr ()
                | Some day \<Rightarrow>
                    bindE (if given (bi_timezone_id i)
                           then bindE (intent_timezone tzdb (bi_timezone_id i)) (\<lambda>z. Inr (fst (from_utc z now)))
                           else Inr now) (\<lambda>local.
                    ensure (\<not> day < date_of local) (DomainError ''REQUESTED_DATE_IN_PAST'' 422))) (\<lambda>_.
         Inr (i\<lparr>bi_requested_date := d, bi_selected_slot := None\<rparr>)))"

definition status_after_clearing_slot :: "db \<Rightarrow> booking_intent \<Rightarrow> booking_intent_status" where
  "status_after_clearing_slot s i = (case bi_address_id i of
       None \<Rightarrow> BI_DRAFT
     | Some a \<Rightarrow> (case get_address s a of
         Some ad \<Rightarrow> if ad_service_area_id ad \<noteq> None then BI_COVERAGE_CONFIRMED else BI_ADDRESS_VALIDATED
       | None \<Rightarrow> BI_ADDRESS_VALIDATED))"

definition clear_slot :: "db \<Rightarrow> booking_intent \<Rightarrow> booking_intent" where
  "clear_slot s i = i\<lparr>bi_selected_slot := None, bi_status := status_after_clearing_slot s i\<rparr>"

text \<open>\<^verbatim>\<open>_slot_window\<close> reads the wall clock with \<^verbatim>\<open>fold=0\<close> and does not check that it exists.\<close>

definition slot_window ::
  "(string \<Rightarrow> zone option) \<Rightarrow> booking_intent \<Rightarrow> slot_selection \<Rightarrow> (datetime \<times> datetime) result"
where
  "slot_window tzdb i sl =
     bindE (intent_timezone tzdb (bi_timezone_id i)) (\<lambda>z.
     bindE (of_option (ValueError ''AssertionError'') (bi_requested_date i)) (\<lambda>d.
     Inr (to_utc z (combine d (ss_start_local sl)), to_utc z (combine d (ss_end_local sl)))))"

definition select_slot ::
  "(string \<Rightarrow> zone option) \<Rightarrow> datetime \<Rightarrow> db \<Rightarrow> slot_selection \<Rightarrow> booking_intent \<Rightarrow> booking_intent result"
where
  "select_slot tzdb now s sl i =
     bindE (ensure (bi_address_id i \<noteq> None \<and> given (bi_timezone_id i) \<and> bi_requested_date i \<noteq> None)
       (DomainError ''BOOKING_INTENT_INCOMPLETE'' 422)) (\<lambda>_.
     bindE (of_option (DomainError ''SERVICE_NOT_FOUND'' 404) (active_service s (bi_service_id i))) (\<lambda>v.
     bindE (ensure (sv_is_bookable v) (DomainError ''SERVICE_NOT_BOOKABLE'' 409)) (\<lambda>_.
     bindE (slot_window tzdb i sl) (\<lambda>(window_start, window_end).
     bindE (search_availability tzdb now s (bi_service_id i) (the (bi_address_id i))
       (the (bi_requested_date i)) (the (bi_requested_date i))) (\<lambda>slots.
     bindE (ensure (list_ex (\<lambda>k. sl_start k = window_start \<and> sl_end k = window_end) slots)
       (DomainError ''SLOT_UNAVAILABLE'' 409)) (\<lambda>_.
     Inr (i\<lparr>bi_selected_slot := Some sl, bi_status := BI_AVAILABILITY_FOUND\<rparr>)))))))"

definition update_slot ::
  "(string \<Rightarrow> zone option) \<Rightarrow> datetime \<Rightarrow> db \<Rightarrow> slot_selection option option \<Rightarrow> booking_intent
   \<Rightarrow> booking_intent result"
where
  "update_slot tzdb now s v i = (case v of
       None \<Rightarrow> Inr i
     | Some None \<Rightarrow> Inr (clear_slot s i)
     | Some (Some sl) \<Rightarrow> select_slot tzdb now s sl i)"

definition edit_intent ::
  "(string \<Rightarrow> zone option) \<Rightarrow> (nat \<Rightarrow> datetime) \<Rightarrow> db \<Rightarrow> intent_update \<Rightarrow> int \<Rightarrow> booking_intent
   \<Rightarrow> booking_intent result"
where
  "edit_intent tzdb clk s c expected_version i =
     bindE (require_version i expected_version) (\<lambda>_.
     bindE (ensure (List.member EDITABLE_STATUSES (bi_status i))
       (DomainError ''BOOKING_INTENT_NOT_EDITABLE'' 409)) (\<lambda>_.
     bindE (update_service s (iu_service_id c) i) (\<lambda>i1.
     bindE (update_address s (iu_address_id c) i1) (\<lambda>i2.
     bindE (update_timezone tzdb (iu_timezone_id c) i2) (\<lambda>i3.
     bindE (update_date tzdb (clk 1) (iu_requested_date c) i3) (\<lambda>i4.
     let i5 = (if iu_clear_selected_slot c then clear_slot s i4 else i4)
     in bindE (update_slot tzdb (clk 2) s (iu_selected_slot c) i5) (\<lambda>i6.
        Inr (i6\<lparr>bi_version := bi_version i6 + 1\<rparr>))))))))"

definition update_booking_intent ::
  "(string \<Rightarrow> zone option) \<Rightarrow> (nat \<Rightarrow> datetime) \<Rightarrow> uuid \<Rightarrow> uuid \<Rightarrow> intent_update \<Rightarrow> int \<Rightarrow> db
   \<Rightarrow> (db, booking_intent) outcome"
where
  "update_booking_intent tzdb clk intent_id session_id c expected_version s =
     (case live_intent clk intent_id session_id s of
        (Inl e, s1) \<Rightarrow> (Inl e, s1)
      | (Inr i, s1) \<Rightarrow>
          (case edit_intent tzdb clk s1 c expected_version i of
             Inl e \<Rightarrow> (Inl e, s1)
           | Inr i' \<Rightarrow>
               (Inr i', add_audit (intent_audit (clk 3) i' ''booking_intent.update''
                   [(''status'', JStr (status_value (bi_status i'))), (''version'', JInt (bi_version i'))])
                 (put_intent i' s1))))"

section \<open>Abandoning and submitting\<close>

definition abandon_booking_intent ::
  "(nat \<Rightarrow> datetime) \<Rightarrow> uuid \<Rightarrow> uuid \<Rightarrow> int \<Rightarrow> db \<Rightarrow> (db, unit) outcome"
where
  "abandon_booking_intent clk intent_id session_id expected_version s =
     (case owned_intent s intent_id session_id of
        None \<Rightarrow> (Inl (DomainError ''BOOKING_INTENT_NOT_FOUND'' 404), s)
      | Some i \<Rightarrow>
          (case require_version i expected_version of
             Inl e \<Rightarrow> (Inl e, s)
           | Inr _ \<Rightarrow>
               if bi_status i = BI_SUBMITTED
               then (Inl (DomainError ''BOOKING_INTENT_ALREADY_SUBMITTED'' 409), s)
               else if bi_status i = BI_EXPIRED then (Inr (), s)
               else (Inr (), add_audit (intent_audit (clk 0) (expired_intent i) ''booking_intent.abandon''
                      [(''version'', JInt (bi_version i + 1))]) (put_intent (expired_intent i) s))))"

text \<open>What \<^verbatim>\<open>submit\<close> hands to the booking service; its asserts and the reading of the slot may raise.\<close>

record intent_contact =
  ic_first_name :: string
  ic_last_name :: string
  ic_email :: string
  ic_phone :: string
  ic_answers :: "(uuid \<times> string) list"

definition booking_of_intent ::
  "(string \<Rightarrow> zone option) \<Rightarrow> intent_contact \<Rightarrow> int \<Rightarrow> booking_intent \<Rightarrow> booking_create result"
where
  "booking_of_intent tzdb c expected_version i =
     bindE (require_version i expected_version) (\<lambda>_.
     bindE (ensure (bi_status i = BI_AVAILABILITY_FOUND) (DomainError ''BOOKING_INTENT_NOT_READY'' 409)) (\<lambda>_.
     bindE (ensure (bi_address_id i \<noteq> None \<and> given (bi_timezone_id i) \<and> bi_requested_date i \<noteq> None)
       (ValueError ''AssertionError'')) (\<lambda>_.
     bindE (of_option (ValueError ''SlotSelection'') (bi_selected_slot i)) (\<lambda>sl.
     bindE (slot_window tzdb i sl) (\<lambda>(window_start, window_end).
     Inr \<lparr>bc_service_id = bi_service_id i, bc_first_name = ic_first_name c, bc_last_name = ic_last_name c,
          bc_email = ic_email c, bc_phone = ic_phone c, bc_address_id = the (bi_address_id i),
          bc_window_start = window_start, bc_window_end = window_end, bc_answers = ic_answers c\<rparr>)))))"

definition submit_booking_intent ::
  "(string \<Rightarrow> zone option) \<Rightarrow> (string \<Rightarrow> string) \<Rightarrow> (booking_create \<Rightarrow> string) \<Rightarrow> (nat \<Rightarrow> datetime)
   \<Rightarrow> booking_draws \<Rightarrow> uuid \<Rightarrow> uuid \<Rightarrow> intent_contact \<Rightarrow> int \<Rightarrow> string \<Rightarrow> db \<Rightarrow> (db, booking) outcome"
where
  "submit_booking_intent tzdb sha256 request_hash clk d intent_id session_id c expected_version key s =
     (case live_intent clk intent_id session_id s of
        (Inl e, s1) \<Rightarrow> (Inl e, s1)
      | (Inr i, s1) \<Rightarrow>
          (case booking_of_intent tzdb c expected_version i of
             Inl e \<Rightarrow> (Inl e, s1)
           | Inr p \<Rightarrow>
               (case create_booking tzdb sha256 request_hash (\<lambda>n. clk (n + 1)) d p key s1 of
                  (Inl e, s2) \<Rightarrow> (Inl e, s2)
                | (Inr b, s2) \<Rightarrow>
                    let i' = i\<lparr>bi_status := BI_SUBMITTED, bi_booking_id := Some (pk b),
                               bi_version := bi_version i + 1\<rparr>
                    in (Inr b, add_audit (intent_audit (clk 5) i' ''booking_intent.submit''
                          [(''booking_id'', JUuid (pk b)), (''version'', JInt (bi_version i'))])
                        (put_intent i' s2)))))"

section \<open>What an update keeps\<close>

definition is_open :: "booking_intent \<Rightarrow> bool" where
  "is_open i \<longleftrightarrow> bi_status i \<noteq> BI_SUBMITTED \<and> bi_status i \<noteq> BI_EXPIRED"

definition slot_ok :: "booking_intent \<Rightarrow> bool" where
  "slot_ok i \<longleftrightarrow> (bi_selected_slot i \<noteq> None \<longrightarrow>
     bi_address_id i \<noteq> None \<and> given (bi_timezone_id i) \<and> bi_requested_date i \<noteq> None)"

definition edited :: "booking_intent \<Rightarrow> booking_intent \<Rightarrow> bool" where
  "edited i i' \<longleftrightarrow> pk i' = pk i \<and> bi_anonymous_session_id i' = bi_anonymous_session_id i
     \<and> bi_public_reference i' = bi_public_reference i \<and> bi_version i' = bi_version i
     \<and> bi_booking_id i' = bi_booking_id i \<and> bi_expires_at i' = bi_expires_at i
     \<and> (is_open i \<longrightarrow> is_open i')
     \<and> (slot_ok i \<longrightarrow> slot_ok i')"

lemma edited_refl [simp]: "edited i i"
  by (simp add: edited_def)

lemma edited_trans: "edited i j \<Longrightarrow> edited j k \<Longrightarrow> edited i k"
  by (simp add: edited_def)

lemma editable_iff: "List.member EDITABLE_STATUSES (bi_status i) \<longleftrightarrow> is_open i"
  by (cases "bi_status i") (simp_all add: EDITABLE_STATUSES_def is_open_def)

lemma update_service_edited: "update_service s v i = Inr i' \<Longrightarrow> edited i i'"
  by (auto simp: update_service_def edited_def slot_ok_def is_open_def elim!: bindE_InrE split: option.splits if_splits)

lemma update_address_edited: "update_address s v i = Inr i' \<Longrightarrow> edited i i'"
  by (auto simp: update_address_def edited_def slot_ok_def is_open_def Let_def elim!: bindE_InrE
      split: option.splits if_splits)

lemma update_timezone_edited: "update_timezone tzdb v i = Inr i' \<Longrightarrow> edited i i'"
  by (auto simp: update_timezone_def edited_def slot_ok_def is_open_def elim!: bindE_InrE split: option.splits)

lemma update_date_edited: "update_date tzdb now v i = Inr i' \<Longrightarrow> edited i i'"
  by (auto simp: update_date_def edited_def slot_ok_def is_open_def elim!: bindE_InrE split: option.splits)

lemma clear_slot_edited [simp]: "edited i (clear_slot s i)"
  by (auto simp: clear_slot_def edited_def slot_ok_def status_after_clearing_slot_def is_open_def split: option.splits)

lemma select_slot_edited: "select_slot tzdb now s sl i = Inr i' \<Longrightarrow> edited i i'"
  by (auto simp: select_slot_def edited_def slot_ok_def is_open_def elim!: bindE_InrE)

lemma update_slot_edited: "update_slot tzdb now s v i = Inr i' \<Longrightarrow> edited i i'"
  by (auto simp: update_slot_def split: option.splits dest: select_slot_edited)

lemma edit_intent_InrD:
  assumes "edit_intent tzdb clk s c v i = Inr i'"
  shows "bi_version i = v \<and> is_open i \<and> bi_version i' = v + 1
    \<and> edited i (i'\<lparr>bi_version := v\<rparr>)"
proof -
  from assms obtain i1 i2 i3 i4 i6 where v: "bi_version i = v" "is_open i"
    and e: "update_service s (iu_service_id c) i = Inr i1" "update_address s (iu_address_id c) i1 = Inr i2"
      "update_timezone tzdb (iu_timezone_id c) i2 = Inr i3"
      "update_date tzdb (clk 1) (iu_requested_date c) i3 = Inr i4"
      "update_slot tzdb (clk 2) s (iu_selected_slot c)
         (if iu_clear_selected_slot c then clear_slot s i4 else i4) = Inr i6"
    and i': "i' = i6\<lparr>bi_version := bi_version i6 + 1\<rparr>"
    unfolding edit_intent_def require_version_def Let_def editable_iff by (auto elim!: bindE_InrE)
  have "edited i i4"
    using e(1-4) update_service_edited update_address_edited update_timezone_edited update_date_edited
    by (meson edited_trans)
  moreover have "edited i4 i6"
    using edited_trans [OF clear_slot_edited update_slot_edited] update_slot_edited e(5)
    by (cases "iu_clear_selected_slot c") simp_all
  ultimately have "edited i i6" by (rule edited_trans)
  then show ?thesis using v by (simp add: i' edited_def slot_ok_def is_open_def)
qed

section \<open>The table of intents under any sequence of commands\<close>

inductive intent_step :: "db \<Rightarrow> db \<Rightarrow> bool" where
  is_create: "create_booking_intent clk new_id reference service_id session_id s = (res, s') \<Longrightarrow>
    new_id \<notin> pk ` set (booking_intents s) \<Longrightarrow> intent_step s s'"
| is_get: "get_booking_intent clk intent_id session_id s = (res, s') \<Longrightarrow> intent_step s s'"
| is_update: "update_booking_intent tzdb clk intent_id session_id c expected s = (res, s') \<Longrightarrow> intent_step s s'"
| is_abandon: "abandon_booking_intent clk intent_id session_id expected s = (ares, s') \<Longrightarrow> intent_step s s'"
| is_submit: "submit_booking_intent tzdb sha256 request_hash clk d intent_id session_id contact expected key s
    = (bres, s') \<Longrightarrow> intent_step s s'"
| is_other: "booking_intents s' = booking_intents s \<Longrightarrow> intent_step s s'"

definition intent_ok :: "booking_intent \<Rightarrow> bool" where
  "intent_ok i \<longleftrightarrow> 1 \<le> bi_version i \<and> slot_ok i
     \<and> (bi_status i = BI_SUBMITTED \<longleftrightarrow> bi_booking_id i \<noteq> None)
     \<and> (bi_status i = BI_EXPIRED \<longrightarrow> bi_selected_slot i = None)"

definition intents_inv :: "db \<Rightarrow> bool" where
  "intents_inv s \<longleftrightarrow> distinct (map pk (booking_intents s)) \<and> distinct (map bi_public_reference (booking_intents s))
     \<and> (\<forall>i \<in> set (booking_intents s). intent_ok i)"

text \<open>A step leaves the table, appends a first version, or moves one open intent one version on.\<close>

definition advanced :: "booking_intent \<Rightarrow> booking_intent \<Rightarrow> bool" where
  "advanced i i' \<longleftrightarrow> pk i' = pk i \<and> bi_anonymous_session_id i' = bi_anonymous_session_id i
     \<and> bi_public_reference i' = bi_public_reference i \<and> bi_expires_at i' = bi_expires_at i
     \<and> bi_version i' = bi_version i + 1
     \<and> is_open i \<and> (intent_ok i \<longrightarrow> intent_ok i')"

lemma advanced_expired: "is_open i \<Longrightarrow> advanced i (expired_intent i)"
  by (auto simp: advanced_def expired_intent_def intent_ok_def slot_ok_def is_open_def)

lemma advanced_edit:
  assumes "edit_intent tzdb clk s c v i = Inr i'"
  shows "advanced i i'"
proof -
  note d = edit_intent_InrD [OF assms]
  have v: "bi_version i = v" "is_open i" "bi_version i' = v + 1" using d by simp_all
  have ids: "pk i' = pk i" "bi_anonymous_session_id i' = bi_anonymous_session_id i"
    "bi_public_reference i' = bi_public_reference i" "bi_expires_at i' = bi_expires_at i"
    "bi_booking_id i' = bi_booking_id i" using d by (simp_all add: edited_def)
  have "is_open i'" "slot_ok i \<Longrightarrow> slot_ok i'" using d v by (simp_all add: edited_def is_open_def slot_ok_def)
  then have "intent_ok i \<longrightarrow> intent_ok i'" using v ids by (simp add: intent_ok_def is_open_def)
  with v ids show ?thesis by (simp add: advanced_def)
qed

lemma owned_intent_mem: "owned_intent s i ses = Some x \<Longrightarrow>
  x \<in> set (booking_intents s) \<and> pk x = i \<and> bi_anonymous_session_id x = ses"
  unfolding owned_intent_def by (drule find_SomeD) simp

lemma live_intent_cases:
  assumes "live_intent clk intent_id session_id s = (res, s1)"
  obtains (refused) e where "res = Inl e" "s1 = s" "e \<noteq> DomainError ''BOOKING_INTENT_VERSION_CONFLICT'' 409"
  | (expires) i where "res = Inl (DomainError ''BOOKING_INTENT_EXPIRED'' 410)"
      "owned_intent s intent_id session_id = Some i" "is_open i"
      "booking_intents s1 = update_row pk (pk i) (\<lambda>_. expired_intent i) (booking_intents s)"
  | (live) i where "res = Inr i" "s1 = s" "owned_intent s intent_id session_id = Some i" "bi_status i \<noteq> BI_EXPIRED"
proof (cases "owned_intent s intent_id session_id")
  case None
  then have "live_intent clk intent_id session_id s = (Inl (DomainError ''BOOKING_INTENT_NOT_FOUND'' 404), s)"
    by (simp add: live_intent_def)
  with assms show ?thesis by (intro refused) auto
next
  case (Some i)
  show ?thesis
  proof (cases "bi_status i \<noteq> BI_EXPIRED \<and> bi_status i \<noteq> BI_SUBMITTED \<and> bi_expires_at i \<le> clk 0")
    case True
    then have "live_intent clk intent_id session_id s = (Inl (DomainError ''BOOKING_INTENT_EXPIRED'' 410),
        add_audit (intent_audit (clk 1) (expired_intent i) ''booking_intent.expire'' [(''version'', JInt (bi_version i + 1))])
          (put_intent (expired_intent i) s))"
      using Some by (simp add: live_intent_def)
    with True Some assms show ?thesis
      by (intro expires [of i]) (auto simp: put_intent_def is_open_def expired_intent_def)
  next
    case False
    show ?thesis
    proof (cases "bi_status i = BI_EXPIRED")
      case True
      then have "live_intent clk intent_id session_id s = (Inl (DomainError ''BOOKING_INTENT_EXPIRED'' 410), s)"
        using Some by (simp add: live_intent_def)
      with assms show ?thesis by (intro refused) auto
    next
      case fresh: False
      then have "live_intent clk intent_id session_id s = (Inr i, s)"
        using False Some by (simp add: live_intent_def)
      with assms fresh Some show ?thesis by (intro live) simp_all
    qed
  qed
qed

lemma update_cases:
  assumes "update_booking_intent tzdb clk intent_id session_id c expected s = (res, s')"
  obtains (refused) e where "res = Inl e" "s' = s"
  | (expires) i where "res = Inl (DomainError ''BOOKING_INTENT_EXPIRED'' 410)"
      "owned_intent s intent_id session_id = Some i" "is_open i"
      "booking_intents s' = update_row pk (pk i) (\<lambda>_. expired_intent i) (booking_intents s)"
  | (updated) i i' where "res = Inr i'" "owned_intent s intent_id session_id = Some i"
      "edit_intent tzdb clk s c expected i = Inr i'"
      "booking_intents s' = update_row pk (pk i) (\<lambda>_. i') (booking_intents s)"
proof (cases "live_intent clk intent_id session_id s")
  case (Pair r s1)
  then show ?thesis
  proof (cases rule: live_intent_cases)
    case (refused e)
    with Pair assms show ?thesis by (intro that(1)) (auto simp: update_booking_intent_def)
  next
    case (expires i)
    with Pair assms show ?thesis by (intro that(2)) (auto simp: update_booking_intent_def)
  next
    case (live i)
    show ?thesis
    proof (cases "edit_intent tzdb clk s c expected i")
      case (Inl e)
      with Pair live assms show ?thesis by (intro that(1) [of e]) (auto simp: update_booking_intent_def)
    next
      case (Inr i')
      have "pk i' = pk i" using advanced_edit [OF Inr] by (simp add: advanced_def)
      with Inr Pair live assms show ?thesis
        by (intro that(3) [of i' i]) (auto simp: update_booking_intent_def put_intent_def)
    qed
  qed
qed

lemma create_booking_intents [simp]:
  "booking_intents (snd (create_booking tzdb sha256 h clk d p key s)) = booking_intents s"
  by (auto simp: create_booking_def store_booking_def Let_def split: option.splits sum.splits prod.splits)

definition submitted_intent :: "booking \<Rightarrow> booking_intent \<Rightarrow> booking_intent" where
  "submitted_intent b i = i\<lparr>bi_status := BI_SUBMITTED, bi_booking_id := Some (pk b), bi_version := bi_version i + 1\<rparr>"

lemma advanced_submitted: "is_open i \<Longrightarrow> advanced i (submitted_intent b i)"
  by (auto simp: advanced_def submitted_intent_def intent_ok_def slot_ok_def is_open_def)

lemma submit_cases:
  assumes "submit_booking_intent tzdb sha256 h clk d intent_id session_id c expected key s = (res, s')"
  obtains (refused) e where "res = Inl e" "booking_intents s' = booking_intents s"
  | (expires) i where "res = Inl (DomainError ''BOOKING_INTENT_EXPIRED'' 410)"
      "owned_intent s intent_id session_id = Some i" "is_open i"
      "booking_intents s' = update_row pk (pk i) (\<lambda>_. expired_intent i) (booking_intents s)"
  | (submitted) i p b s2 where "res = Inr b" "owned_intent s intent_id session_id = Some i"
      "booking_of_intent tzdb c expected i = Inr p"
      "create_booking tzdb sha256 h (\<lambda>n. clk (n + 1)) d p key s = (Inr b, s2)"
      "booking_intents s' = update_row pk (pk i) (\<lambda>_. submitted_intent b i) (booking_intents s)"
      "bookings s' = bookings s2"
proof (cases "live_intent clk intent_id session_id s")
  case (Pair r s1)
  then show ?thesis
  proof (cases rule: live_intent_cases)
    case (refused e)
    with Pair assms show ?thesis by (intro that(1)) (auto simp: submit_booking_intent_def)
  next
    case (expires i)
    with Pair assms show ?thesis by (intro that(2)) (auto simp: submit_booking_intent_def)
  next
    case (live i)
    show ?thesis
    proof (cases "booking_of_intent tzdb c expected i")
      case (Inl e)
      with Pair live assms show ?thesis by (intro that(1)) (auto simp: submit_booking_intent_def)
    next
      case p: (Inr p)
      obtain r2 s2 where cb: "create_booking tzdb sha256 h (\<lambda>n. clk (n + 1)) d p key s = (r2, s2)"
        by (cases "create_booking tzdb sha256 h (\<lambda>n. clk (n + 1)) d p key s")
      have kept: "booking_intents s2 = booking_intents s"
        using create_booking_intents [of tzdb sha256 h "\<lambda>n. clk (n + 1)" d p key s]
        unfolding cb by simp
      show ?thesis
      proof (cases r2)
        case (Inl e)
        with p cb kept Pair live assms show ?thesis by (intro that(1)) (auto simp: submit_booking_intent_def)
      next
        case (Inr b)
        with p cb kept Pair live assms show ?thesis
          by (intro that(3) [of b i p s2])
            (auto simp: submit_booking_intent_def put_intent_def submitted_intent_def Let_def)
      qed
    qed
  qed
qed

lemma booking_of_intent_InrD:
  "booking_of_intent tzdb c v i = Inr p \<Longrightarrow>
   bi_version i = v \<and> bi_status i = BI_AVAILABILITY_FOUND \<and> bi_selected_slot i \<noteq> None \<and> bc_service_id p = bi_service_id i
   \<and> bi_address_id i = Some (bc_address_id p)"
  by (auto simp: booking_of_intent_def require_version_def elim!: bindE_InrE)

lemma intent_step_cases:
  assumes "intent_step s s'"
  obtains (same) "booking_intents s' = booking_intents s"
  | (new) i where "booking_intents s' = booking_intents s @ [i]" "pk i \<notin> pk ` set (booking_intents s)"
      "bi_public_reference i \<notin> bi_public_reference ` set (booking_intents s)" "intent_ok i"
  | (moved) i i' where "i \<in> set (booking_intents s)" "advanced i i'"
      "booking_intents s' = update_row pk (pk i) (\<lambda>_. i') (booking_intents s)"
  using assms
proof (cases rule: intent_step.cases)
  case (is_create clk new_id reference service_id session_id res)
  show ?thesis
  proof (cases "booking_intents s' = booking_intents s")
    case True then show ?thesis by (rule same)
  next
    case False
    with is_create show ?thesis
      by (intro new [of "\<lparr>pk = new_id, created_at = clk 0, bi_public_reference = reference,
            bi_anonymous_session_id = session_id, bi_service_id = service_id, bi_address_id = None,
            bi_timezone_id = None, bi_requested_date = None, bi_selected_slot = None,
            bi_status = BI_DRAFT, bi_expires_at = clk 0 + BOOKING_INTENT_TTL, bi_version = 1,
            bi_booking_id = None\<rparr>"])
        (auto simp: create_booking_intent_def Let_def list_ex_iff intent_ok_def slot_ok_def split: option.splits if_splits)
  qed
next
  case (is_get clk intent_id session_id res)
  then have "live_intent clk intent_id session_id s = (res, s')" by (simp add: get_booking_intent_def)
  then show ?thesis
    by (cases rule: live_intent_cases) (use same moved advanced_expired owned_intent_mem in \<open>blast+\<close>)
next
  case (is_update tzdb clk intent_id session_id c expected res)
  then show ?thesis
  proof (cases rule: update_cases)
    case (expires i)
    then show ?thesis using moved [of i "expired_intent i"] owned_intent_mem advanced_expired by blast
  next
    case (updated i i')
    then show ?thesis using moved [of i i'] owned_intent_mem advanced_edit by blast
  qed (use same in simp)
next
  case (is_abandon clk intent_id session_id expected ares)
  show ?thesis
  proof (cases "booking_intents s' = booking_intents s")
    case True then show ?thesis by (rule same)
  next
    case False
    with is_abandon obtain i where "owned_intent s intent_id session_id = Some i" "is_open i"
      "booking_intents s' = update_row pk (pk i) (\<lambda>_. expired_intent i) (booking_intents s)"
      by (auto simp: abandon_booking_intent_def put_intent_def expired_intent_def is_open_def
          split: option.splits sum.splits if_splits)
    then show ?thesis using moved [of i "expired_intent i"] owned_intent_mem advanced_expired by blast
  qed
next
  case (is_submit tzdb sha256 h clk d intent_id session_id c expected key bres)
  then show ?thesis
  proof (cases rule: submit_cases)
    case (expires i)
    then show ?thesis using moved [of i "expired_intent i"] owned_intent_mem advanced_expired by blast
  next
    case (submitted i p b s2)
    have "is_open i" using booking_of_intent_InrD [OF submitted(3)] by (simp add: is_open_def)
    then show ?thesis using submitted moved [of i "submitted_intent b i"] owned_intent_mem advanced_submitted by blast
  qed (use same in simp)
qed (rule same)

lemma advanced_ok: "advanced i i' \<Longrightarrow> intent_ok i \<Longrightarrow> intent_ok i'"
  by (simp add: advanced_def)

lemma map_put_intent:
  assumes "f i' = f i" and "distinct (map pk xs)" and "i \<in> set xs"
  shows "map f (update_row pk (pk i) (\<lambda>_. i') xs) = map f xs"
proof -
  have "r = i" if "r \<in> set xs" "pk r = pk i" for r
    using that assms(2,3) by (auto simp: distinct_map inj_on_def)
  then show ?thesis using assms(1) by (auto simp: update_row_def update_where_def)
qed

lemma intent_step_inv:
  assumes "intent_step s s'" and inv: "intents_inv s"
  shows "intents_inv s'"
  using assms(1)
proof (cases rule: intent_step_cases)
  case (moved i i')
  have keys: "pk i' = pk i" "bi_public_reference i' = bi_public_reference i" using moved(2) by (simp_all add: advanced_def)
  have d: "distinct (map pk (booking_intents s))" using inv by (simp add: intents_inv_def)
  have "intent_ok i'" using inv moved by (auto simp: intents_inv_def intro: advanced_ok)
  then have "\<forall>x \<in> set (booking_intents s'). intent_ok x"
    using inv by (auto simp: moved(3) set_update_row intents_inv_def)
  with inv show ?thesis
    by (simp add: intents_inv_def moved(3) map_put_intent [OF keys(1) d moved(1)] map_put_intent [OF keys(2) d moved(1)])
qed (use inv in \<open>auto simp: intents_inv_def\<close>)

lemma intent_steps_inv: "intent_step\<^sup>*\<^sup>* s s' \<Longrightarrow> intents_inv s \<Longrightarrow> intents_inv s'"
  by (induction rule: rtranclp_induct) (auto intro: intent_step_inv)

text \<open>A row is never lost; it stays as it is or its version grows, which only an open one's can.\<close>

definition grown_intent :: "booking_intent \<Rightarrow> booking_intent \<Rightarrow> bool" where
  "grown_intent i i' \<longleftrightarrow> i' = i \<or> bi_version i < bi_version i' \<and> is_open i \<and> pk i' = pk i
     \<and> bi_anonymous_session_id i' = bi_anonymous_session_id i"

lemma grown_intent_trans: "grown_intent i j \<Longrightarrow> grown_intent j k \<Longrightarrow> grown_intent i k"
  by (auto simp: grown_intent_def)

lemma intent_step_grows:
  assumes "intent_step s s'" and "intents_inv s" and "owned_intent s n ses = Some i"
  shows "\<exists>i'. owned_intent s' n ses = Some i' \<and> grown_intent i i'"
  using assms(1)
proof (cases rule: intent_step_cases)
  case same
  with assms(3) show ?thesis by (auto simp: owned_intent_def grown_intent_def)
next
  case (new x)
  with assms(3) show ?thesis by (auto simp: owned_intent_def grown_intent_def find_append_Some)
next
  case (moved x x')
  have x': "pk x' = pk x" "bi_anonymous_session_id x' = bi_anonymous_session_id x"
    using moved(2) by (simp_all add: advanced_def)
  note i = owned_intent_mem [OF assms(3)]
  have uniq: "y = x" if "y \<in> set (booking_intents s)" "pk y = pk x" for y
    using that assms(2) moved(1) by (auto simp: intents_inv_def distinct_map inj_on_def)
  have "owned_intent s' n ses = (if pk x = n then Some x' else Some i)"
  proof (cases "pk x = n")
    case True
    then have "i = x" using uniq i by simp
    have "find (\<lambda>y. pk y = n \<and> bi_anonymous_session_id y = ses) (update_row pk (pk x) (\<lambda>_. x') xs)
      = (if x \<in> set xs then Some x' else None)" if "set xs \<subseteq> set (booking_intents s)" for xs
      using that x' uniq True i \<open>i = x\<close>
      by (induction xs) (auto simp: update_row_def update_where_def)
    from this [of "booking_intents s"] True moved(1) show ?thesis by (simp add: owned_intent_def moved(3))
  next
    case False
    have "find (\<lambda>y. pk y = n \<and> bi_anonymous_session_id y = ses) (update_row pk (pk x) (\<lambda>_. x') xs)
      = find (\<lambda>y. pk y = n \<and> bi_anonymous_session_id y = ses) xs" for xs
      using False x' by (induction xs) (auto simp: update_row_def update_where_def)
    with False assms(3) show ?thesis by (simp add: owned_intent_def moved(3))
  qed
  moreover have "grown_intent x x'" using moved(2) by (simp add: grown_intent_def advanced_def)
  moreover have "i = x" if "pk x = n" using uniq i that by simp
  ultimately show ?thesis by (auto simp: grown_intent_def)
qed

lemma intent_steps_grow:
  assumes "intent_step\<^sup>*\<^sup>* s s'" and "intents_inv s" and "owned_intent s n ses = Some i"
  shows "\<exists>i'. owned_intent s' n ses = Some i' \<and> grown_intent i i'"
  using assms
proof (induction rule: rtranclp_induct)
  case base
  then show ?case by (auto simp: grown_intent_def)
next
  case (step y z)
  then obtain j where j: "owned_intent y n ses = Some j" "grown_intent i j" by blast
  have "intents_inv y" using step intent_steps_inv by blast
  from intent_step_grows [OF step(2) this j(1)] j(2) show ?case using grown_intent_trans by blast
qed

section \<open>Properties\<close>

lemma stale_update_refused:
  assumes "owned_intent s n ses = Some i" and "bi_version i \<noteq> v"
  shows "isl (fst (update_booking_intent tzdb clk n ses c v s))"
proof (cases "update_booking_intent tzdb clk n ses c v s")
  case (Pair res s')
  then show ?thesis
    by (cases rule: update_cases) (use assms edit_intent_InrD in \<open>auto simp: Pair\<close>)
qed

lemma stale_submit_refused:
  assumes "owned_intent s n ses = Some i" and "bi_version i \<noteq> v"
  shows "isl (fst (submit_booking_intent tzdb sha h clk d n ses contact v key s))"
proof (cases "submit_booking_intent tzdb sha h clk d n ses contact v key s")
  case (Pair res s')
  then show ?thesis
    by (cases rule: submit_cases) (use assms booking_of_intent_InrD in \<open>auto simp: Pair\<close>)
qed


text \<open>A change of the time zone or of the date drops the selected slot of an intent but leaves its
  status AVAILABILITY_FOUND.  Submitting it then fails with an internal error (an assertion, or the
  validation of the missing slot) and not with BOOKING_INTENT_NOT_READY, and stores nothing.\<close>
lemma intent_slot_lost:
  assumes "live_intent clk n ses s = (Inr i, s)" and "bi_status i = BI_AVAILABILITY_FOUND"
    and "c = \<lparr>iu_service_id = None, iu_address_id = None, iu_timezone_id = Some tz, iu_requested_date = None,
             iu_selected_slot = None, iu_clear_selected_slot = False\<rparr>"
    and "\<forall>t. tz = Some t \<longrightarrow> t \<noteq> [] \<and> tzdb t \<noteq> None"
    and "distinct (map pk (booking_intents s))" and "clk' 0 < bi_expires_at i"
  shows "\<exists>i' s'. update_booking_intent tzdb clk n ses c (bi_version i) s = (Inr i', s')
    \<and> bi_status i' = BI_AVAILABILITY_FOUND \<and> bi_selected_slot i' = None
    \<and> submit_booking_intent tzdb sha h clk' d n ses contact (bi_version i') key s'
      \<in> {(Inl (ValueError ''AssertionError''), s'), (Inl (ValueError ''SlotSelection''), s')}"
proof -
  let ?i = "i\<lparr>bi_timezone_id := tz, bi_selected_slot := None, bi_version := bi_version i + 1\<rparr>"
  from assms(1) obtain own: "owned_intent s n ses = Some i" by (cases rule: live_intent_cases) auto
  note mem = owned_intent_mem [OF own]
  have "edit_intent tzdb clk s c (bi_version i) i = Inr ?i"
    using assms(2,4)
    by (cases tz) (auto simp: assms(3) edit_intent_def require_version_def EDITABLE_STATUSES_def
        update_service_def update_address_def update_timezone_def update_date_def update_slot_def
        intent_timezone_def of_option_def ensure_def split: option.splits)
  then have up: "update_booking_intent tzdb clk n ses c (bi_version i) s
    = (Inr ?i, add_audit (intent_audit (clk 3) ?i ''booking_intent.update''
         [(''status'', JStr (status_value (bi_status ?i))), (''version'', JInt (bi_version ?i))]) (put_intent ?i s))"
    by (simp add: update_booking_intent_def assms(1))
  define s' where "s' = add_audit (intent_audit (clk 3) ?i ''booking_intent.update''
         [(''status'', JStr (status_value (bi_status ?i))), (''version'', JInt (bi_version ?i))]) (put_intent ?i s)"
  have "find (\<lambda>y. pk y = n \<and> bi_anonymous_session_id y = ses) (update_row pk (pk i) (\<lambda>_. ?i) xs) = Some ?i"
    if "i \<in> set xs" "distinct (map pk xs)" for xs
    using that mem by (induction xs) (auto simp: update_row_def update_where_def)
  then have "owned_intent s' n ses = Some ?i"
    using mem assms(5) by (simp add: owned_intent_def s'_def put_intent_def)
  then have live: "live_intent clk' n ses s' = (Inr ?i, s')"
    using assms(2,6) by (simp add: live_intent_def)
  have "booking_of_intent tzdb contact (bi_version ?i) ?i
      \<in> {Inl (ValueError ''AssertionError''), Inl (ValueError ''SlotSelection'')}"
    using assms(2) by (simp add: booking_of_intent_def require_version_def ensure_def of_option_def)
  then have "submit_booking_intent tzdb sha h clk' d n ses contact (bi_version ?i) key s'
      \<in> {(Inl (ValueError ''AssertionError''), s'), (Inl (ValueError ''SlotSelection''), s')}"
    by (auto simp: submit_booking_intent_def live)
  with up assms(2) show ?thesis by (auto simp: s'_def)
qed

section \<open>A sample intent\<close>

definition intent_db :: db where
  "intent_db = empty_db\<lparr>services := [sample_service]\<rparr>"

definition drafted :: "booking_intent result \<times> db" where
  "drafted = create_booking_intent (\<lambda>n. int n) 400 ''BI-1'' 10 7 intent_db"

definition dateless :: intent_update where
  "dateless = \<lparr>iu_service_id = None, iu_address_id = None, iu_timezone_id = None, iu_requested_date = Some None,
     iu_selected_slot = None, iu_clear_selected_slot = False\<rparr>"

definition redrafted :: "booking_intent result \<times> db" where
  "redrafted = update_booking_intent (\<lambda>_. None) (\<lambda>n. 10 + int n) 400 7 dateless 1 (snd drafted)"

definition no_contact :: intent_contact where
  "no_contact = \<lparr>ic_first_name = ''A'', ic_last_name = ''B'', ic_email = ''a@b.co'', ic_phone = ''55501'', ic_answers = []\<rparr>"

lemma drafted_isl: "\<not> isl (fst drafted)" "\<not> isl (fst redrafted)"
  by code_simp+


definition ready_intent :: booking_intent where
  "ready_intent = \<lparr>pk = 401, created_at = 0, bi_public_reference = ''BI-2'', bi_anonymous_session_id = 7,
     bi_service_id = 10, bi_address_id = Some 20, bi_timezone_id = Some ''UTC'', bi_requested_date = Some 5,
     bi_selected_slot = Some \<lparr>ss_slot_token = ''token'', ss_start_local = hours_of 9, ss_end_local = hours_of 10\<rparr>,
     bi_status = BI_AVAILABILITY_FOUND, bi_expires_at = 1000, bi_version = 4, bi_booking_id = None\<rparr>"

definition rezone :: intent_update where
  "rezone = \<lparr>iu_service_id = None, iu_address_id = None, iu_timezone_id = Some (Some ''UTC''), iu_requested_date = None,
     iu_selected_slot = None, iu_clear_selected_slot = False\<rparr>"

text \<open>The same time zone sent again is enough to lose the slot.\<close>
lemma intent_slot_lost_witness:
  "\<exists>i' s'. update_booking_intent (\<lambda>_. Some \<lparr>tz_before = 0, tz_transitions = []\<rparr>) (\<lambda>n. int n) 401 7 rezone 4
      (empty_db\<lparr>booking_intents := [ready_intent]\<rparr>) = (Inr i', s')
    \<and> bi_status i' = BI_AVAILABILITY_FOUND \<and> bi_selected_slot i' = None
    \<and> submit_booking_intent (\<lambda>_. Some \<lparr>tz_before = 0, tz_transitions = []\<rparr>) id bc_email (\<lambda>n. 10 + int n) undefined
        401 7 no_contact (bi_version i') ''key'' s'
      \<in> {(Inl (ValueError ''AssertionError''), s'), (Inl (ValueError ''SlotSelection''), s')}"
proof -
  have "live_intent (\<lambda>n. int n) 401 7 (empty_db\<lparr>booking_intents := [ready_intent]\<rparr>)
    = (Inr ready_intent, empty_db\<lparr>booking_intents := [ready_intent]\<rparr>)"
    by (simp add: live_intent_def owned_intent_def ready_intent_def)
  from intent_slot_lost [OF this _ rezone_def, where clk' = "\<lambda>n. 10 + int n" and key = "''key''"
      and tzdb = "\<lambda>_. Some \<lparr>tz_before = 0, tz_transitions = []\<rparr>" and sha = id and h = bc_email
      and contact = no_contact and d = undefined]
  show ?thesis by (simp add: ready_intent_def)
qed

end
