(* ===== verification/Passwords.thy ===== *)
theory Passwords
  imports Tokens Database
begin

text \<open>
  Passwords and access tokens (\<^verbatim>\<open>auth/security.py\<close>).  The algorithms come from libraries and are the
  fields of \<open>crypto\<close>: \<open>hash_password\<close> (Argon2id of \<^verbatim>\<open>pwdlib\<close>, with the salt it draws),
  \<open>verify_and_update\<close> (\<open>None\<close> when it raises one of the errors the code catches), \<open>pbkdf2\<close>,
  \<open>sha256_hex\<close> and the encoding and decoding of JSON web tokens.
\<close>

datatype jwt_result = JwtClaims json_object | JwtMissingClaim | JwtInvalid

record crypto =
  sha256_hex :: "string \<Rightarrow> string"
  hash_password :: "string \<Rightarrow> string"
  verify_and_update :: "string \<Rightarrow> string \<Rightarrow> (bool \<times> string option) option"
  pbkdf2 :: "string \<Rightarrow> nat list \<Rightarrow> int \<Rightarrow> nat list"
  jwt_secret :: string
  jwt_encode :: "string \<Rightarrow> json_object \<Rightarrow> string"
  jwt_decode_strict :: "string \<Rightarrow> string \<Rightarrow> jwt_result"
  jwt_decode_legacy :: "string \<Rightarrow> string \<Rightarrow> jwt_result"

section \<open>Passwords\<close>

definition LEGACY_PBKDF2_MAX_ITERATIONS :: int where "LEGACY_PBKDF2_MAX_ITERATIONS = 1000000"
definition TOKEN_TTL_SECONDS :: int where "TOKEN_TTL_SECONDS = 3600"
definition REFRESH_TOKEN_TTL_SECONDS :: int where "REFRESH_TOKEN_TTL_SECONDS = 30 * 24 * 3600"
definition LOCAL_JWT_ISSUER :: string where "LOCAL_JWT_ISSUER = ''breero-api''"
definition LOCAL_JWT_AUDIENCE :: string where "LOCAL_JWT_AUDIENCE = ''breero-api''"

text \<open>\<^verbatim>\<open>encoded.split("$", 3)\<close> into exactly four parts.\<close>

definition legacy_parts :: "string \<Rightarrow> (string \<times> string \<times> string \<times> string) option" where
  "legacy_parts encoded =
     (case partition_at (CHR ''$'') encoded of
        (algorithm, found1, r1) \<Rightarrow> (case partition_at (CHR ''$'') r1 of
          (iterations, found2, r2) \<Rightarrow> (case partition_at (CHR ''$'') r2 of
            (salt, found3, expected) \<Rightarrow>
              if found1 \<and> found2 \<and> found3 then Some (algorithm, iterations, salt, expected) else None)))"

definition verify_legacy_pbkdf2 :: "crypto \<Rightarrow> string \<Rightarrow> string \<Rightarrow> bool" where
  "verify_legacy_pbkdf2 k password encoded =
     (case legacy_parts encoded of
        None \<Rightarrow> False
      | Some (algorithm, iterations_text, salt_text, expected_text) \<Rightarrow>
          (case (py_int iterations_text, from_hex salt_text, from_hex expected_text) of
             (Some iterations, Some salt, Some expected) \<Rightarrow>
               if algorithm \<noteq> ''pbkdf2_sha256''
                  \<or> \<not> (1 \<le> iterations \<and> iterations \<le> LEGACY_PBKDF2_MAX_ITERATIONS)
                  \<or> salt = [] \<or> length expected \<noteq> 32
               then False
               else pbkdf2 k password salt iterations = expected
           | _ \<Rightarrow> False))"

definition verify_password_and_update :: "crypto \<Rightarrow> string \<Rightarrow> string \<Rightarrow> bool \<times> string option" where
  "verify_password_and_update k password encoded =
     (if take 14 encoded = ''pbkdf2_sha256$''
      then (if verify_legacy_pbkdf2 k password encoded then (True, Some (hash_password k password))
            else (False, None))
      else case verify_and_update k password encoded of Some r \<Rightarrow> r | None \<Rightarrow> (False, None))"

definition verify_password :: "crypto \<Rightarrow> string \<Rightarrow> string \<Rightarrow> bool" where
  "verify_password k password encoded = fst (verify_password_and_update k password encoded)"

section \<open>Access tokens\<close>

definition user_role_value :: "user_role \<Rightarrow> string" where
  "user_role_value r = (case r of UR_customer \<Rightarrow> ''customer'' | UR_vendor_admin \<Rightarrow> ''vendor_admin''
     | UR_technician \<Rightarrow> ''technician'' | UR_operations \<Rightarrow> ''operations'' | UR_finance \<Rightarrow> ''finance''
     | UR_admin \<Rightarrow> ''admin'')"

definition require_secret :: "crypto \<Rightarrow> string result" where
  "require_secret k = (if jwt_secret k = [] then Inl (RuntimeError ''JWT_SECRET must be configured'') else Inr (jwt_secret k))"

definition access_claims :: "uuid \<Rightarrow> user_role \<Rightarrow> int \<Rightarrow> datetime \<Rightarrow> uuid \<Rightarrow> json_object" where
  "access_claims user_id role credential_version now jti =
     (let t = now div seconds 1 in
      [(''sub'', JStr (str_uuid user_id)), (''role'', JStr (user_role_value role)), (''cv'', JInt credential_version),
       (''iat'', JInt t), (''nbf'', JInt t), (''exp'', JInt (t + TOKEN_TTL_SECONDS)),
       (''iss'', JStr LOCAL_JWT_ISSUER), (''aud'', JStr LOCAL_JWT_AUDIENCE), (''jti'', JStr (str_uuid jti))])"

definition create_access_token ::
  "crypto \<Rightarrow> uuid \<Rightarrow> user_role \<Rightarrow> int \<Rightarrow> datetime \<Rightarrow> uuid \<Rightarrow> string result"
where
  "create_access_token k user_id role credential_version now jti =
     bindE (require_secret k) (\<lambda>secret.
     Inr (jwt_encode k secret (access_claims user_id role credential_version now jti)))"

definition invalid_token :: api_error where "invalid_token = HTTPException 401 ''Invalid token''"

definition STRICT_LOCAL_CLAIMS :: "string list" where
  "STRICT_LOCAL_CLAIMS = [''iss'', ''aud'', ''nbf'', ''jti'']"

definition claim_int :: "json_object \<Rightarrow> string \<Rightarrow> int result" where
  "claim_int claims n = (case map_of claims n of
       Some (JInt i) \<Rightarrow> Inr i
     | Some (JBool b) \<Rightarrow> Inr (if b then 1 else 0)
     | Some (JStr t) \<Rightarrow> of_option invalid_token (py_int t)
     | _ \<Rightarrow> Inl invalid_token)"

text \<open>
  The deadline is the start of the process plus an hour.  Every error of \<^verbatim>\<open>_decode_legacy_local_token\<close>
  and \<^verbatim>\<open>_decode_local_access_token\<close> but the missing secret becomes the 401 of \<^verbatim>\<open>decode_access_token\<close>.
\<close>

definition decode_legacy_local_token :: "crypto \<Rightarrow> int \<Rightarrow> string \<Rightarrow> json_object result" where
  "decode_legacy_local_token k deadline token =
     bindE (require_secret k) (\<lambda>secret.
     case jwt_decode_legacy k secret token of
       JwtClaims claims \<Rightarrow>
         bindE (ensure (\<not> list_ex (\<lambda>n. map_of claims n \<noteq> None) STRICT_LOCAL_CLAIMS)
           invalid_token) (\<lambda>_.
         bindE (claim_int claims ''iat'') (\<lambda>issued_at.
         bindE (claim_int claims ''exp'') (\<lambda>expires_at.
         bindE (ensure (\<not> (issued_at > deadline \<or> expires_at \<le> issued_at
             \<or> expires_at - issued_at > TOKEN_TTL_SECONDS \<or> expires_at > deadline + TOKEN_TTL_SECONDS))
           invalid_token) (\<lambda>_.
         Inr claims))))
     | _ \<Rightarrow> Inl invalid_token)"

definition decode_local_access_token :: "crypto \<Rightarrow> int \<Rightarrow> string \<Rightarrow> json_object result" where
  "decode_local_access_token k deadline token =
     bindE (require_secret k) (\<lambda>secret.
     bindE (case jwt_decode_strict k secret token of
              JwtClaims claims \<Rightarrow> Inr claims
            | JwtMissingClaim \<Rightarrow> decode_legacy_local_token k deadline token
            | JwtInvalid \<Rightarrow> Inl invalid_token) (\<lambda>claims.
     case map_of claims ''jti'' of
       None \<Rightarrow> Inr claims
     | Some JNull \<Rightarrow> Inr claims
     | Some (JStr t) \<Rightarrow> if strip t = [] then Inl invalid_token else Inr claims
     | Some _ \<Rightarrow> Inl invalid_token))"

text \<open>A legacy hash is accepted only for the password it was derived from, by at least one round.\<close>

lemma verify_legacy_sound:
  assumes "verify_legacy_pbkdf2 k password encoded"
  obtains i st et iterations salt where "legacy_parts encoded = Some (''pbkdf2_sha256'', i, st, et)"
    and "py_int i = Some iterations" and "from_hex st = Some salt"
    and "from_hex et = Some (pbkdf2 k password salt iterations)"
    and "1 \<le> iterations" and "iterations \<le> LEGACY_PBKDF2_MAX_ITERATIONS" and "salt \<noteq> []"
proof -
  from assms obtain a i st et where parts: "legacy_parts encoded = Some (a, i, st, et)"
    by (auto simp: verify_legacy_pbkdf2_def split: option.splits)
  from assms parts obtain iterations salt expected where
    "py_int i = Some iterations" "from_hex st = Some salt" "from_hex et = Some expected"
    by (auto simp: verify_legacy_pbkdf2_def split: option.splits)
  with assms parts that show ?thesis by (auto simp: verify_legacy_pbkdf2_def split: if_splits)
qed

lemma verify_rehashes:
  assumes "verify_password_and_update k password encoded = (ok, new)" and "take 14 encoded = ''pbkdf2_sha256$''"
  shows "new = (if ok then Some (hash_password k password) else None)"
  using assms by (auto simp: verify_password_and_update_def split: if_splits)

text \<open>A token the service issues decodes to its own claims, if the library reads what it wrote.\<close>

lemma issued_token_decodes:
  assumes "create_access_token k u r cv now jti = Inr token"
    and "\<And>claims. jwt_decode_strict k (jwt_secret k) (jwt_encode k (jwt_secret k) claims) = JwtClaims claims"
  shows "decode_local_access_token k deadline token = Inr (access_claims u r cv now jti)"
proof -
  have "strip (str_uuid jti) \<noteq> []"
  proof -
    have "\<forall>c \<in> set (str_uuid jti). \<not> is_space c"
      using str_uuid_chars [of jti] hex_char_not_space by (auto simp: is_space_def)
    then have "strip (str_uuid jti) = str_uuid jti" by (rule strip_id)
    moreover have "str_uuid jti \<noteq> []" by (simp add: str_uuid_def Let_def)
    ultimately show ?thesis by simp
  qed
  moreover from assms(1) have "jwt_secret k \<noteq> []"
    and "token = jwt_encode k (jwt_secret k) (access_claims u r cv now jti)"
    by (auto simp: create_access_token_def require_secret_def split: if_splits elim!: bindE_InrE)
  ultimately show ?thesis
    using assms(2) by (simp add: decode_local_access_token_def require_secret_def access_claims_def Let_def)
qed

end
