(* ===== verification/Accounts.thy ===== *)
theory Accounts
  imports Passwords Bookings
begin

text \<open>
  Accounts and their sessions (\<^verbatim>\<open>auth/service.py\<close>, \<^verbatim>\<open>auth/repository.py\<close>): registration, login, the
  rotation of refresh tokens, passwords, and the verification of addresses and telephone numbers.

  The store is the shared one together with the token tables that only this service uses.
\<close>

record account_token = row +
  at_user_id :: uuid
  at_token_hash :: string
  at_expires_at :: datetime
  at_used_at :: "datetime option"

record accounts =
  base :: db
  reset_tokens :: "account_token list"
  email_tokens :: "account_token list"
  phone_tokens :: "account_token list"

abbreviation with_base :: "(db \<Rightarrow> db) \<Rightarrow> accounts \<Rightarrow> accounts" where
  "with_base f s \<equiv> s\<lparr>base := f (base s)\<rparr>"

record session_draw =
  sd_id :: uuid
  sd_family_id :: uuid
  sd_raw :: string
  sd_jti :: uuid

record token_draw =
  td_id :: uuid
  td_raw :: string
  td_event_id :: uuid

record user_read =
  ur_id :: uuid
  ur_email :: string
  ur_full_name :: string
  ur_role :: user_role
  ur_is_active :: bool
  ur_email_verified :: bool

record token_response =
  tr_access_token :: string
  tr_expires_in :: int
  tr_refresh_token :: string
  tr_refresh_expires_in :: int
  tr_user :: user_read

definition read_user :: "user \<Rightarrow> user_read" where
  "read_user u = \<lparr>ur_id = pk u, ur_email = us_email u, ur_full_name = us_full_name u, ur_role = us_role u,
     ur_is_active = us_is_active u, ur_email_verified = us_email_verified u\<rparr>"

section \<open>The repository\<close>

definition user_by_email :: "db \<Rightarrow> string \<Rightarrow> user option" where
  "user_by_email s email = find (\<lambda>u. us_email u = lower email) (users s)"

abbreviation get_user :: "db \<Rightarrow> uuid \<Rightarrow> user option" where
  "get_user s i \<equiv> lookup_row pk i (users s)"

abbreviation modify_user :: "uuid \<Rightarrow> (user \<Rightarrow> user) \<Rightarrow> db \<Rightarrow> db" where
  "modify_user i f s \<equiv> s\<lparr>users := update_row pk i f (users s)\<rparr>"

definition session_by_hash :: "db \<Rightarrow> string \<Rightarrow> auth_session option" where
  "session_by_hash s h = find (\<lambda>x. ss_token_hash x = h) (auth_sessions s)"

definition token_by_hash :: "account_token list \<Rightarrow> string \<Rightarrow> account_token option" where
  "token_by_hash ts h = find (\<lambda>t. at_token_hash t = h) ts"

definition use_token :: "account_token \<Rightarrow> datetime \<Rightarrow> account_token list \<Rightarrow> account_token list" where
  "use_token t now ts = update_row pk (pk t) (\<lambda>x. x\<lparr>at_used_at := Some now\<rparr>) ts"

section \<open>The steps the commands share\<close>

text \<open>\<^verbatim>\<open>_tokens\<close>: a new session, in the family of the one it replaces or in one of its own.\<close>

definition issue_session ::
  "crypto \<Rightarrow> datetime \<Rightarrow> (nat \<Rightarrow> datetime) \<Rightarrow> session_draw \<Rightarrow> user \<Rightarrow> string option \<Rightarrow> string option
   \<Rightarrow> uuid option \<Rightarrow> db \<Rightarrow> (token_response \<times> db) result"
where
  "issue_session k begun clk d u agent ip family s =
     bindE (ensure (sha256_hex k (sd_raw d) \<notin> set (map ss_token_hash (auth_sessions s)))
       (IntegrityError ''auth_sessions_token_hash'')) (\<lambda>_.
     bindE (create_access_token k (pk u) (us_role u) (us_credential_version u) (clk 1) (sd_jti d)) (\<lambda>access.
     Inr (\<lparr>tr_access_token = access, tr_expires_in = TOKEN_TTL_SECONDS, tr_refresh_token = sd_raw d,
           tr_refresh_expires_in = REFRESH_TOKEN_TTL_SECONDS, tr_user = read_user u\<rparr>,
          s\<lparr>auth_sessions := auth_sessions s @
             [\<lparr>pk = sd_id d, created_at = begun, ss_user_id = pk u, ss_token_hash = sha256_hex k (sd_raw d),
               ss_family_id = (case family of None \<Rightarrow> sd_family_id d | Some f \<Rightarrow> f),
               ss_user_agent = agent, ss_ip_address = ip,
               ss_expires_at = clk 0 + seconds REFRESH_TOKEN_TTL_SECONDS, ss_rotated_at = None,
               ss_revoked_at = None\<rparr>]\<rparr>)))"

definition user_event :: "token_draw \<Rightarrow> user \<Rightarrow> string \<Rightarrow> json_object \<Rightarrow> datetime \<Rightarrow> integration_event" where
  "user_event d u event_type payload now =
     new_event (td_event_id d) ''user'' (pk u) event_type None
       ([(''user_id'', JStr (str_uuid (pk u))), (''email'', JStr (us_email u))] @ payload) now"

definition account_audit :: "user \<Rightarrow> string \<Rightarrow> json_object \<Rightarrow> datetime \<Rightarrow> audit_log" where
  "account_audit u action metadata now =
     \<lparr>al_actor_id = Some (pk u), al_actor_type = ''user'', al_action = action, al_resource_type = ''user'',
      al_resource_id = pk u, al_metadata_json = metadata, al_created_at = now\<rparr>"

definition new_token :: "crypto \<Rightarrow> datetime \<Rightarrow> token_draw \<Rightarrow> uuid \<Rightarrow> datetime \<Rightarrow> account_token list
   \<Rightarrow> account_token list result"
where
  "new_token k begun d user_id expires ts =
     bindE (ensure (sha256_hex k (td_raw d) \<notin> set (map at_token_hash ts)) (IntegrityError ''token_hash'')) (\<lambda>_.
     Inr (ts @ [\<lparr>pk = td_id d, created_at = begun, at_user_id = user_id,
                 at_token_hash = sha256_hex k (td_raw d), at_expires_at = expires, at_used_at = None\<rparr>]))"

definition issue_verification ::
  "crypto \<Rightarrow> datetime \<Rightarrow> (nat \<Rightarrow> datetime) \<Rightarrow> token_draw \<Rightarrow> user \<Rightarrow> accounts \<Rightarrow> accounts result"
where
  "issue_verification k begun clk d u s =
     bindE (new_token k begun d (pk u) (clk 0 + hours_of 24) (email_tokens s)) (\<lambda>ts.
     Inr (with_base (add_event (user_event d u ''email_verification_requested'' [(''token'', JStr (td_raw d))] (clk 1)))
           (s\<lparr>email_tokens := ts\<rparr>)))"

definition issue_phone_verification ::
  "crypto \<Rightarrow> datetime \<Rightarrow> (nat \<Rightarrow> datetime) \<Rightarrow> token_draw \<Rightarrow> user \<Rightarrow> accounts \<Rightarrow> accounts result"
where
  "issue_phone_verification k begun clk d u s =
     (if us_phone u = None \<or> us_phone u = Some [] then Inr s
      else bindE (new_token k begun d (pk u) (clk 0 + minutes 15) (phone_tokens s)) (\<lambda>ts.
           Inr (with_base (add_event (user_event d u ''phone_verification_requested'' [(''token'', JStr (td_raw d))] (clk 1)))
                 (s\<lparr>phone_tokens := ts\<rparr>))))"

text \<open>
  \<^verbatim>\<open>_link_customer\<close>: the oldest customer of this address without an account, or a new one.  A customer
  belongs to at most one account and an account to at most one customer (\<^verbatim>\<open>customers.user_id\<close> is
  unique).  The addresses of the customer's bookings become the customer's.
\<close>

definition link_customer :: "datetime \<Rightarrow> uuid \<Rightarrow> user \<Rightarrow> db \<Rightarrow> db result" where
  "link_customer begun new_id u s =
     bindE (case sort_key created_at
              (filter (\<lambda>c. cu_email c = us_email u \<and> cu_user_id c = None) (customers s)) of
              c # _ \<Rightarrow> Inr (pk c, update_row pk (pk c) (\<lambda>x. x\<lparr>cu_user_id := Some (pk u)\<rparr>) (customers s))
            | [] \<Rightarrow>
                bindE (name_parts (us_full_name u)) (\<lambda>(first_name, last_name).
                Inr (new_id, customers s @ [\<lparr>pk = new_id, created_at = begun, cu_first_name = first_name,
                      cu_last_name = last_name, cu_email = us_email u, cu_phone = [], cu_user_id = Some (pk u),
                      cu_preferred_language = ''en-US'', cu_default_address_id = None\<rparr>])))
       (\<lambda>(customer_id, cs).
     bindE (ensure (\<not> list_ex (\<lambda>c. cu_user_id c = Some (pk u)) (customers s))
       (IntegrityError ''customers_user_id_key'')) (\<lambda>_.
     Inr (s\<lparr>customers := cs, addresses := update_where
              (\<lambda>a. ad_customer_id a = None
                 \<and> list_ex (\<lambda>b. bk_customer_id b = customer_id \<and> bk_address_id b = pk a) (bookings s))
              (\<lambda>a. a\<lparr>ad_customer_id := Some customer_id\<rparr>) (addresses s)\<rparr>)))"

definition revoke_sessions :: "(auth_session \<Rightarrow> bool) \<Rightarrow> datetime \<Rightarrow> db \<Rightarrow> db" where
  "revoke_sessions P now s = s\<lparr>auth_sessions := update_where (\<lambda>x. P x \<and> ss_revoked_at x = None)
     (\<lambda>x. x\<lparr>ss_revoked_at := Some now\<rparr>) (auth_sessions s)\<rparr>"

text \<open>\<^verbatim>\<open>_set_password\<close>; \<open>begun\<close> is the reading its caller passes.\<close>

definition set_password ::
  "crypto \<Rightarrow> (nat \<Rightarrow> datetime) \<Rightarrow> token_draw \<Rightarrow> user \<Rightarrow> string \<Rightarrow> datetime \<Rightarrow> string \<Rightarrow> db \<Rightarrow> db"
where
  "set_password k clk d u password now action s =
     add_audit (account_audit u action [(''sessions_revoked'', JBool True)] (clk 1))
       (add_event (user_event d u ''password_changed'' [(''reason'', JStr action)] (clk 0))
         (revoke_sessions (\<lambda>x. ss_user_id x = pk u) now
           (modify_user (pk u) (\<lambda>x. x\<lparr>us_password_hash := hash_password k password,
               us_credential_version := us_credential_version x + 1\<rparr>) s)))"

section \<open>Registration\<close>

record register_request =
  rr_email :: string
  rr_password :: string
  rr_full_name :: string
  rr_phone :: "string option"

record register_draws =
  rg_user_id :: uuid
  rg_customer_id :: uuid
  rg_email :: token_draw
  rg_phone :: token_draw
  rg_session :: session_draw

definition registered_user :: "crypto \<Rightarrow> datetime \<Rightarrow> register_draws \<Rightarrow> register_request \<Rightarrow> user" where
  "registered_user k begun d r =
     \<lparr>pk = rg_user_id d, created_at = begun, us_email = lower (rr_email r), us_phone = rr_phone r,
      us_password_hash = hash_password k (rr_password r), us_full_name = strip (rr_full_name r),
      us_role = UR_customer, us_is_active = True, us_status = ''ACTIVE'', us_email_verified = False,
      us_email_verified_at = None, us_phone_verified_at = None, us_last_login_at = None,
      us_credential_version = 1, us_password_set_required = False, us_keycloak_subject = None,
      us_keycloak_issuer = None, us_keycloak_username = None, us_keycloak_linked_at = None\<rparr>"

definition register_body ::
  "crypto \<Rightarrow> (nat \<Rightarrow> datetime) \<Rightarrow> register_draws \<Rightarrow> register_request \<Rightarrow> string option \<Rightarrow> string option
   \<Rightarrow> accounts \<Rightarrow> (token_response \<times> accounts) result"
where
  "register_body k clk d r agent ip s =
     (let u = registered_user k (clk 0) d r in
      bindE (link_customer (clk 0) (rg_customer_id d) u ((base s)\<lparr>users := users (base s) @ [u]\<rparr>)) (\<lambda>b1.
      bindE (issue_verification k (clk 0) (\<lambda>n. clk (n + 2)) (rg_email d) u
        (s\<lparr>base := add_audit (account_audit u ''client.created'' [] (clk 1)) b1\<rparr>)) (\<lambda>s2.
      bindE (issue_phone_verification k (clk 0) (\<lambda>n. clk (n + 4)) (rg_phone d) u s2) (\<lambda>s3.
      bindE (issue_session k (clk 0) (\<lambda>n. clk (n + 6)) (rg_session d) u agent ip None (base s3)) (\<lambda>(response, b4).
      Inr (response, s3\<lparr>base := b4\<rparr>))))))"

definition register ::
  "crypto \<Rightarrow> (nat \<Rightarrow> datetime) \<Rightarrow> register_draws \<Rightarrow> register_request \<Rightarrow> string option \<Rightarrow> string option
   \<Rightarrow> accounts \<Rightarrow> (accounts, token_response) outcome"
where
  "register k clk d r agent ip s =
     (case user_by_email (base s) (lower (rr_email r)) of
        Some _ \<Rightarrow> (Inl (HTTPException 409 ''Email already registered''), s)
      | None \<Rightarrow>
          (case register_body k clk d r agent ip s of
             Inl (IntegrityError _) \<Rightarrow> (Inl (HTTPException 409 ''Email already registered''), s)
           | Inl e \<Rightarrow> (Inl e, s)
           | Inr (response, s') \<Rightarrow> (Inr response, s')))"

section \<open>Registration of a provider\<close>

record provider_register_request =
  pr_email :: string
  pr_password :: string
  pr_contact_name :: string
  pr_phone :: string
  pr_legal_name :: string
  pr_display_name :: string
  pr_provider_type :: string
  pr_business_address :: string
  pr_city :: string
  pr_state :: string
  pr_postal_code :: string
  pr_timezone_id :: string
  pr_service_slugs :: "string list"
  pr_service_postal_codes :: "string list"

record provider_draws =
  pv_user_id :: uuid
  pv_vendor_id :: uuid
  pv_worker_id :: uuid
  pv_coverage_id :: "nat \<Rightarrow> uuid"
  pv_service_id :: "nat \<Rightarrow> uuid"
  pv_area_id :: "nat \<Rightarrow> uuid"
  pv_email :: token_draw
  pv_phone :: token_draw
  pv_session :: session_draw

text \<open>The checks before anything is written: the services that were chosen and the ZIP codes.\<close>

definition check_provider ::
  "(string \<Rightarrow> zone option) \<Rightarrow> provider_register_request \<Rightarrow> db \<Rightarrow> (service list \<times> string list) result"
where
  "check_provider tzdb r s =
     bindE (ensure (List.member US_STATES_AND_DC (upper (strip (pr_state r))))
       (HTTPException 422 ''A valid U.S. state or DC is required'')) (\<lambda>_.
     bindE (timezone tzdb (pr_timezone_id r)) (\<lambda>_.
     let postal_codes = sorted_set (map (takeWhile (\<lambda>c. c \<noteq> CHR ''-'')) (pr_service_postal_codes r));
         chosen = filter (\<lambda>v. List.member (pr_service_slugs r) (sv_slug v) \<and> sv_is_active v) (services s)
     in bindE (ensure (list_all (\<lambda>p. length p = 5 \<and> py_isdigit p) postal_codes)
          (HTTPException 422 ''Service ZIP codes must contain five digits'')) (\<lambda>_.
        bindE (ensure (length chosen = length (remdups (pr_service_slugs r)))
          (HTTPException 422 ''Provider services must use active BREERO catalog entries'')) (\<lambda>_.
        bindE (ensure (user_by_email s (lower (strip (pr_email r))) = None)
          (HTTPException 409 ''Account already registered'')) (\<lambda>_.
        Inr (chosen, postal_codes))))))"

definition provider_user :: "crypto \<Rightarrow> datetime \<Rightarrow> provider_draws \<Rightarrow> provider_register_request \<Rightarrow> user" where
  "provider_user k begun d r =
     \<lparr>pk = pv_user_id d, created_at = begun, us_email = lower (strip (pr_email r)), us_phone = Some (pr_phone r),
      us_password_hash = hash_password k (pr_password r), us_full_name = strip (pr_contact_name r),
      us_role = UR_vendor_admin, us_is_active = True, us_status = ''ACTIVE'', us_email_verified = False,
      us_email_verified_at = None, us_phone_verified_at = None, us_last_login_at = None,
      us_credential_version = 1, us_password_set_required = False, us_keycloak_subject = None,
      us_keycloak_issuer = None, us_keycloak_username = None, us_keycloak_linked_at = None\<rparr>"

definition registered_vendor ::
  "datetime \<Rightarrow> provider_draws \<Rightarrow> provider_register_request \<Rightarrow> service list \<Rightarrow> vendor"
where
  "registered_vendor begun d r chosen =
     \<lparr>pk = pv_vendor_id d, created_at = begun, vn_legal_name = strip (pr_legal_name r),
      vn_display_name = strip (pr_display_name r), vn_email = lower (strip (pr_email r)), vn_phone = pr_phone r,
      vn_provider_type = pr_provider_type r, vn_business_address = Some (strip (pr_business_address r)),
      vn_city = Some (strip (pr_city r)), vn_state = Some (upper (strip (pr_state r))),
      vn_postal_code = Some (pr_postal_code r), vn_onboarding_status = ''PENDING'',
      vn_compliance_status = ''PENDING'', vn_timezone_id = Some (pr_timezone_id r),
      vn_owner_user_id = Some (pv_user_id d), vn_status = V_PENDING, vn_service_radius_meters = 40000,
      vn_home_location = None, vn_capabilities = sorted_set (map sv_slug chosen),
      vn_payout_profile_ref = None, vn_odoo_partner_id = None\<rparr>"

definition registered_worker ::
  "datetime \<Rightarrow> provider_draws \<Rightarrow> provider_register_request \<Rightarrow> service list \<Rightarrow> string \<Rightarrow> string \<Rightarrow> worker"
where
  "registered_worker begun d r chosen first_name last_name =
     \<lparr>pk = pv_worker_id d, created_at = begun, wk_vendor_id = pv_vendor_id d, wk_user_id = Some (pv_user_id d),
      wk_first_name = first_name, wk_last_name = last_name, wk_email = lower (strip (pr_email r)), wk_phone = pr_phone r,
      wk_status = WK_INVITED, wk_skills = sorted_set (map sv_slug chosen), wk_current_location = None,
      wk_location_updated_at = None, wk_available = False, wk_default_timezone_id = Some (pr_timezone_id r),
      wk_maximum_jobs_per_day = 6, wk_maximum_minutes_per_day = 600, wk_sunday_emergency_enabled = False\<rparr>"

text \<open>What a new provider offers: all of it inactive until an operator approves it.\<close>

definition registered_coverage ::
  "datetime \<Rightarrow> provider_draws \<Rightarrow> service list \<Rightarrow> string list \<Rightarrow> provider_service_coverage list"
where
  "registered_coverage begun d chosen postal_codes =
     map2 (\<lambda>n (v, p). \<lparr>pk = pv_coverage_id d n, created_at = begun, psc_worker_id = pv_worker_id d,
         psc_service_id = pk v, psc_postal_code = p, psc_active = False\<rparr>)
       [0..<length chosen * length postal_codes] (List.product chosen postal_codes)"

definition registered_services :: "datetime \<Rightarrow> provider_draws \<Rightarrow> service list \<Rightarrow> provider_service list" where
  "registered_services begun d chosen =
     map2 (\<lambda>n v. \<lparr>pk = pv_service_id d n, created_at = begun, ps_provider_id = pv_vendor_id d,
         ps_service_id = pk v, ps_active = False, ps_approval_status = ''PENDING''\<rparr>)
       [0..<length chosen] chosen"

definition registered_areas ::
  "datetime \<Rightarrow> provider_draws \<Rightarrow> string \<Rightarrow> string list \<Rightarrow> provider_service_area list"
where
  "registered_areas begun d state postal_codes =
     map2 (\<lambda>n p. \<lparr>pk = pv_area_id d n, created_at = begun, psa_provider_id = pv_vendor_id d,
         psa_professional_id = Some (pv_worker_id d), psa_area_type = ''ZIP'', psa_service_zone_id = None,
         psa_postal_code = Some p, psa_city = None, psa_county = None, psa_state = Some state,
         psa_center = None, psa_radius_meters = None, psa_active = False, psa_approval_status = ''PENDING''\<rparr>)
       [0..<length postal_codes] postal_codes"

definition provider_tables ::
  "datetime \<Rightarrow> datetime \<Rightarrow> provider_draws \<Rightarrow> provider_register_request \<Rightarrow> service list \<Rightarrow> string list
   \<Rightarrow> string \<Rightarrow> string \<Rightarrow> user \<Rightarrow> vendor \<Rightarrow> db \<Rightarrow> db"
where
  "provider_tables begun now d r chosen postal_codes first_name last_name u v b =
     b\<lparr>users := users b @ [u], vendors := vendors b @ [v],
       workers := workers b @ [registered_worker begun d r chosen first_name last_name],
       coverages := coverages b @ registered_coverage begun d chosen postal_codes,
       provider_services := provider_services b @ registered_services begun d chosen,
       provider_service_areas := provider_service_areas b
         @ registered_areas begun d (upper (strip (pr_state r))) postal_codes,
       audit_logs := audit_logs b @ [\<lparr>al_actor_id = Some (pk u), al_actor_type = ''user'',
         al_action = ''provider.registered'', al_resource_type = ''vendor'', al_resource_id = pk v,
         al_metadata_json = [(''status'', JStr ''PENDING''), (''service_count'', JInt (int (length chosen)))],
         al_created_at = now\<rparr>]\<rparr>"

definition register_provider_body ::
  "crypto \<Rightarrow> (nat \<Rightarrow> datetime) \<Rightarrow> provider_draws \<Rightarrow> provider_register_request \<Rightarrow> service list
   \<Rightarrow> string list \<Rightarrow> string option \<Rightarrow> string option \<Rightarrow> accounts \<Rightarrow> ((token_response \<times> vendor) \<times> accounts) result"
where
  "register_provider_body k clk d r chosen postal_codes agent ip s =
     (let u = provider_user k (clk 0) d r; v = registered_vendor (clk 0) d r chosen; b = base s in
      bindE (ensure (vn_email v \<notin> set (map vn_email (vendors b))) (IntegrityError ''vendors_email_key'')) (\<lambda>_.
      bindE (name_parts (strip (pr_contact_name r))) (\<lambda>(first_name, last_name).
      let b1 = provider_tables (clk 0) (clk 1) d r chosen postal_codes first_name last_name u v b
      in bindE (issue_verification k (clk 0) (\<lambda>n. clk (n + 2)) (pv_email d) u (s\<lparr>base := b1\<rparr>)) (\<lambda>s2.
         bindE (issue_phone_verification k (clk 0) (\<lambda>n. clk (n + 4)) (pv_phone d) u s2) (\<lambda>s3.
         bindE (issue_session k (clk 0) (\<lambda>n. clk (n + 6)) (pv_session d) u agent ip None (base s3)) (\<lambda>(response, b4).
         Inr ((response, v), s3\<lparr>base := b4\<rparr>)))))))"

definition register_provider ::
  "(string \<Rightarrow> zone option) \<Rightarrow> crypto \<Rightarrow> (nat \<Rightarrow> datetime) \<Rightarrow> provider_draws \<Rightarrow> provider_register_request
   \<Rightarrow> string option \<Rightarrow> string option \<Rightarrow> accounts \<Rightarrow> (accounts, token_response \<times> vendor) outcome"
where
  "register_provider tzdb k clk d r agent ip s =
     (case check_provider tzdb r (base s) of
        Inl e \<Rightarrow> (Inl e, s)
      | Inr (chosen, postal_codes) \<Rightarrow>
          (case register_provider_body k clk d r chosen postal_codes agent ip s of
             Inl (IntegrityError _) \<Rightarrow> (Inl (HTTPException 409 ''Account or provider already registered''), s)
           | Inl e \<Rightarrow> (Inl e, s)
           | Inr (res, s') \<Rightarrow> (Inr res, s')))"

section \<open>Sessions\<close>

definition invalid_credentials :: api_error where
  "invalid_credentials = HTTPException 401 ''Invalid credentials''"

text \<open>The first part checks the password; \<open>new\<close> is a replacement for its hash.\<close>

definition check_login :: "crypto \<Rightarrow> string \<Rightarrow> string \<Rightarrow> db \<Rightarrow> (user \<times> string option) result" where
  "check_login k email password s =
     bindE (of_option invalid_credentials (user_by_email s (lower email))) (\<lambda>u.
     case verify_password_and_update k password (us_password_hash u) of
       (valid, new) \<Rightarrow>
         if \<not> valid \<or> \<not> us_is_active u then Inl invalid_credentials else Inr (u, new))"

definition login ::
  "crypto \<Rightarrow> (nat \<Rightarrow> datetime) \<Rightarrow> session_draw \<Rightarrow> string \<Rightarrow> string \<Rightarrow> string option \<Rightarrow> string option
   \<Rightarrow> accounts \<Rightarrow> (accounts, token_response) outcome"
where
  "login k clk d email password agent ip s =
     (case bindE (check_login k email password (base s)) (\<lambda>(u, new).
          bindE (issue_session k (clk 0) (\<lambda>n. clk (n + 1)) d u agent ip None (base s)) (\<lambda>(response, b).
          Inr (response, add_audit (account_audit u ''auth.login''
                [(''user_agent_present'', JBool (given agent)), (''ip_present'', JBool (given ip)),
                 (''password_rehashed'', JBool (new \<noteq> None))] (clk 4))
              (modify_user (pk u) (\<lambda>x. x\<lparr>us_password_hash := (case new of None \<Rightarrow> us_password_hash x | Some h \<Rightarrow> h),
                  us_last_login_at := Some (clk 3)\<rparr>) b)))) of
        Inl e \<Rightarrow> (Inl e, s)
      | Inr (response, b) \<Rightarrow> (Inr response, s\<lparr>base := b\<rparr>))"

definition application_session ::
  "crypto \<Rightarrow> (nat \<Rightarrow> datetime) \<Rightarrow> session_draw \<Rightarrow> user \<Rightarrow> string option \<Rightarrow> string option
   \<Rightarrow> accounts \<Rightarrow> (accounts, token_response) outcome"
where
  "application_session k clk d u agent ip s =
     (case issue_session k (clk 0) (\<lambda>n. clk (n + 1)) d u agent ip None (base s) of
        Inl e \<Rightarrow> (Inl e, s)
      | Inr (response, b) \<Rightarrow>
          (Inr response, s\<lparr>base := modify_user (pk u) (\<lambda>x. x\<lparr>us_last_login_at := Some (clk 3)\<rparr>) b\<rparr>))"

definition rotate_session :: "auth_session \<Rightarrow> datetime \<Rightarrow> db \<Rightarrow> db" where
  "rotate_session old now s =
     s\<lparr>auth_sessions := update_row pk (pk old) (\<lambda>x. x\<lparr>ss_rotated_at := Some now\<rparr>) (auth_sessions s)\<rparr>"

text \<open>\<^verbatim>\<open>a or b\<close> of optional texts.\<close>

definition or_text :: "string option \<Rightarrow> string option \<Rightarrow> string option" where
  "or_text a b = (if given a then a else b)"

definition refresh ::
  "crypto \<Rightarrow> (nat \<Rightarrow> datetime) \<Rightarrow> session_draw \<Rightarrow> string \<Rightarrow> string option \<Rightarrow> string option
   \<Rightarrow> accounts \<Rightarrow> (accounts, token_response) outcome"
where
  "refresh k clk d raw_token agent ip s =
     (case session_by_hash (base s) (sha256_hex k raw_token) of
        None \<Rightarrow> (Inl (HTTPException 401 ''Invalid refresh token''), s)
      | Some old \<Rightarrow>
          if ss_revoked_at old \<noteq> None \<or> ss_rotated_at old \<noteq> None
          then (Inl (HTTPException 401 ''Refresh token reuse detected''),
                with_base (revoke_sessions (\<lambda>x. ss_family_id x = ss_family_id old) (clk 0)) s)
          else if ss_expires_at old \<le> clk 0
          then (Inl (HTTPException 401 ''Refresh token expired''),
                with_base (revoke_sessions (\<lambda>x. pk x = pk old) (clk 0)) s)
          else
            (case get_user (base s) (ss_user_id old) of
               None \<Rightarrow> (Inl (HTTPException 401 ''Invalid refresh token''), s)
             | Some u \<Rightarrow>
                 if \<not> us_is_active u then (Inl (HTTPException 401 ''Invalid refresh token''), s)
                 else
                   (case issue_session k (clk 0) (\<lambda>n. clk (n + 1)) d u (or_text agent (ss_user_agent old))
                           (or_text ip (ss_ip_address old)) (Some (ss_family_id old))
                           (rotate_session old (clk 0) (base s)) of
                      Inl e \<Rightarrow> (Inl e, s)
                    | Inr (response, b) \<Rightarrow> (Inr response, s\<lparr>base := b\<rparr>))))"

definition logout :: "crypto \<Rightarrow> datetime \<Rightarrow> string \<Rightarrow> accounts \<Rightarrow> accounts" where
  "logout k now raw_token s =
     (case session_by_hash (base s) (sha256_hex k raw_token) of
        None \<Rightarrow> s
      | Some x \<Rightarrow> if ss_revoked_at x \<noteq> None then s
          else with_base (revoke_sessions (\<lambda>y. pk y = pk x) now) s)"

definition logout_all :: "datetime \<Rightarrow> user \<Rightarrow> accounts \<Rightarrow> accounts" where
  "logout_all now u s = with_base (revoke_sessions (\<lambda>x. ss_user_id x = pk u) now) s"

section \<open>Passwords\<close>

definition forgot_password ::
  "crypto \<Rightarrow> (nat \<Rightarrow> datetime) \<Rightarrow> token_draw \<Rightarrow> string \<Rightarrow> accounts \<Rightarrow> (accounts, unit) outcome"
where
  "forgot_password k clk d email s =
     (case user_by_email (base s) (lower email) of
        None \<Rightarrow> (Inr (), s)
      | Some u \<Rightarrow>
          if \<not> us_is_active u then (Inr (), s)
          else (case new_token k (clk 0) d (pk u) (clk 1 + hours_of 1) (reset_tokens s) of
                  Inl e \<Rightarrow> (Inl e, s)
                | Inr ts \<Rightarrow>
                    (Inr (), with_base (add_event (user_event d u ''password_reset_requested''
                        [(''token'', JStr (td_raw d))] (clk 2))) (s\<lparr>reset_tokens := ts\<rparr>))))"

definition valid_token :: "datetime \<Rightarrow> api_error \<Rightarrow> account_token option \<Rightarrow> account_token result" where
  "valid_token now e t =
     bindE (of_option e t) (\<lambda>x.
     bindE (ensure (at_used_at x = None \<and> now < at_expires_at x) e) (\<lambda>_. Inr x))"

definition reset_password ::
  "crypto \<Rightarrow> (nat \<Rightarrow> datetime) \<Rightarrow> token_draw \<Rightarrow> string \<Rightarrow> string \<Rightarrow> accounts \<Rightarrow> (accounts, unit) outcome"
where
  "reset_password k clk d raw password s =
     (let e = HTTPException 400 ''Invalid or expired reset token'' in
      case bindE (valid_token (clk 0) e (token_by_hash (reset_tokens s) (sha256_hex k raw))) (\<lambda>t.
           bindE (of_option e (get_user (base s) (at_user_id t))) (\<lambda>u. Inr (t, u))) of
        Inl x \<Rightarrow> (Inl x, s)
      | Inr (t, u) \<Rightarrow>
          (Inr (), with_base (set_password k (\<lambda>n. clk (n + 1)) d u password (clk 0) ''auth.password.reset'')
             (s\<lparr>reset_tokens := use_token t (clk 0) (reset_tokens s)\<rparr>)))"

definition change_password ::
  "crypto \<Rightarrow> (nat \<Rightarrow> datetime) \<Rightarrow> token_draw \<Rightarrow> user \<Rightarrow> string \<Rightarrow> string \<Rightarrow> accounts \<Rightarrow> (accounts, unit) outcome"
where
  "change_password k clk d u current password s =
     (if \<not> verify_password k current (us_password_hash u)
      then (Inl (HTTPException 400 ''Current password is incorrect''), s)
      else (Inr (), with_base (set_password k (\<lambda>n. clk (n + 1)) d u password (clk 0) ''auth.password.change'') s))"

definition set_initial_password ::
  "crypto \<Rightarrow> (nat \<Rightarrow> datetime) \<Rightarrow> token_draw \<Rightarrow> user \<Rightarrow> string \<Rightarrow> accounts \<Rightarrow> (accounts, unit) outcome"
where
  "set_initial_password k clk d u password s =
     (if \<not> us_password_set_required u
      then (Inl (HTTPException 409 ''Account password is already set''), s)
      else (Inr (), with_base (\<lambda>b. set_password k (\<lambda>n. clk (n + 1)) d u password (clk 0) ''auth.password.set''
             (modify_user (pk u) (\<lambda>x. x\<lparr>us_password_set_required := False\<rparr>) b)) s))"

section \<open>Verification\<close>

definition verify_email ::
  "crypto \<Rightarrow> datetime \<Rightarrow> uuid \<Rightarrow> string \<Rightarrow> accounts \<Rightarrow> (accounts, unit) outcome"
where
  "verify_email k now new_id raw s =
     (let e = HTTPException 400 ''Invalid or expired verification token'' in
      case bindE (valid_token now e (token_by_hash (email_tokens s) (sha256_hex k raw))) (\<lambda>t.
           bindE (of_option e (get_user (base s) (at_user_id t))) (\<lambda>u.
           bindE (link_customer now new_id u (modify_user (pk u)
               (\<lambda>x. x\<lparr>us_email_verified := True, us_email_verified_at := Some now\<rparr>) (base s))) (\<lambda>b.
           Inr (s\<lparr>base := b, email_tokens := use_token t now (email_tokens s)\<rparr>)))) of
        Inl x \<Rightarrow> (Inl x, s)
      | Inr s' \<Rightarrow> (Inr (), s'))"

definition resend_verification ::
  "crypto \<Rightarrow> (nat \<Rightarrow> datetime) \<Rightarrow> token_draw \<Rightarrow> user \<Rightarrow> accounts \<Rightarrow> (accounts, unit) outcome"
where
  "resend_verification k clk d u s =
     (if us_email_verified u then (Inr (), s)
      else case issue_verification k (clk 0) (\<lambda>n. clk (n + 1)) d u s of
             Inl e \<Rightarrow> (Inl e, s)
           | Inr s' \<Rightarrow> (Inr (), s'))"

definition verify_phone ::
  "crypto \<Rightarrow> datetime \<Rightarrow> user \<Rightarrow> string \<Rightarrow> accounts \<Rightarrow> (accounts, unit) outcome"
where
  "verify_phone k now u raw s =
     (let e = HTTPException 400 ''Invalid or expired phone verification token'' in
      case bindE (of_option e (token_by_hash (phone_tokens s) (sha256_hex k raw))) (\<lambda>t.
           bindE (ensure (at_user_id t = pk u) e) (\<lambda>_. valid_token now e (Some t))) of
        Inl x \<Rightarrow> (Inl x, s)
      | Inr t \<Rightarrow>
          (Inr (), s\<lparr>base := add_audit (account_audit u ''phone.verified'' [] now)
               (modify_user (pk u) (\<lambda>x. x\<lparr>us_phone_verified_at := Some now\<rparr>) (base s)),
             phone_tokens := use_token t now (phone_tokens s)\<rparr>))"

section \<open>The account an access token stands for\<close>

text \<open>\<^verbatim>\<open>current_user\<close> for a token of the service itself; \<^verbatim>\<open>cv\<close> is 1 in a token that has none.\<close>

definition inactive_account :: api_error where
  "inactive_account = HTTPException 401 ''Invalid or inactive account''"

definition claims_version_is :: "json_object \<Rightarrow> int \<Rightarrow> bool" where
  "claims_version_is claims v = (case map_of claims ''cv'' of
       None \<Rightarrow> v = 1 | Some (JInt i) \<Rightarrow> v = i | Some (JBool b) \<Rightarrow> v = (if b then 1 else 0) | Some _ \<Rightarrow> False)"

definition account_of_claims :: "json_object \<Rightarrow> db \<Rightarrow> user result" where
  "account_of_claims claims s =
     bindE (of_option invalid_token (case map_of claims ''sub'' of Some (JStr t) \<Rightarrow> parse_uuid t | _ \<Rightarrow> None)) (\<lambda>i.
     bindE (of_option inactive_account (get_user s i)) (\<lambda>u.
     bindE (ensure (us_is_active u \<and> claims_version_is claims (us_credential_version u)) inactive_account) (\<lambda>_.
     Inr u)))"

section \<open>How sessions change\<close>

text \<open>A session row keeps its identity and is never revived.\<close>

definition aged :: "auth_session \<Rightarrow> auth_session \<Rightarrow> bool" where
  "aged x y \<longleftrightarrow> pk y = pk x \<and> ss_token_hash y = ss_token_hash x \<and> ss_family_id y = ss_family_id x
     \<and> ss_user_id y = ss_user_id x
     \<and> (ss_rotated_at x \<noteq> None \<longrightarrow> ss_rotated_at y \<noteq> None)
     \<and> (ss_revoked_at x \<noteq> None \<longrightarrow> ss_revoked_at y \<noteq> None)"

definition grown :: "auth_session list \<Rightarrow> auth_session list \<Rightarrow> bool" where
  "grown xs ys \<longleftrightarrow> (\<exists>ys' zs. ys = ys' @ zs \<and> list_all2 aged xs ys')"

lemma aged_refl [simp]: "aged x x"
  by (simp add: aged_def)

lemma aged_trans: "aged x y \<Longrightarrow> aged y z \<Longrightarrow> aged x z"
  by (auto simp: aged_def)

lemma grown_refl [simp]: "grown xs xs"
  unfolding grown_def by (intro exI [of _ xs] exI [of _ "[]"]) (simp add: list_all2_refl)

lemma grown_append [intro]: "grown xs ys \<Longrightarrow> grown xs (ys @ zs)"
  unfolding grown_def by fastforce

lemma grown_trans: "grown xs ys \<Longrightarrow> grown ys zs \<Longrightarrow> grown xs zs"
  unfolding grown_def
proof (elim exE conjE)
  fix ys' ys2 zs' zs2
  assume "ys = ys' @ ys2" "list_all2 aged xs ys'" "zs = zs' @ zs2" "list_all2 aged ys zs'"
  then obtain us vs where "zs' = us @ vs" "list_all2 aged ys' us"
    by (auto simp: list_all2_append1)
  with \<open>list_all2 aged xs ys'\<close> \<open>zs = zs' @ zs2\<close> show "\<exists>ys' zsa. zs = ys' @ zsa \<and> list_all2 aged xs ys'"
    using list_all2_trans [of aged aged aged xs ys' us] aged_trans by (intro exI [of _ us] exI [of _ "vs @ zs2"]) auto
qed

lemma grown_update_where:
  "(\<And>x. P x \<Longrightarrow> aged x (f x)) \<Longrightarrow> grown xs (update_where P f xs)"
  unfolding grown_def update_where_def
  by (intro exI [of _ "map (\<lambda>r. if P r then f r else r) xs"] exI [of _ "[]"])
    (simp add: list_all2_conv_all_nth)

lemma grown_find:
  assumes "grown xs ys" and "find (\<lambda>x. ss_token_hash x = h) xs = Some x"
  shows "\<exists>y. find (\<lambda>x. ss_token_hash x = h) ys = Some y \<and> aged x y"
proof -
  have "list_all2 aged xs ys' \<Longrightarrow> find (\<lambda>x. ss_token_hash x = h) xs = Some x \<Longrightarrow>
    \<exists>y. find (\<lambda>x. ss_token_hash x = h) (ys' @ zs) = Some y \<and> aged x y" for ys' zs
    by (induction rule: list_all2_induct) (auto simp: aged_def split: if_splits)
  with assms show ?thesis by (auto simp: grown_def)
qed

lemma grown_mem: "grown xs ys \<Longrightarrow> x \<in> set xs \<Longrightarrow> \<exists>y \<in> set ys. aged x y"
  by (auto simp: grown_def list_all2_conv_all_nth in_set_conv_nth [of x])

lemma grown_revoke [simp]: "grown (auth_sessions s) (auth_sessions (revoke_sessions P now s))"
  by (auto simp: revoke_sessions_def intro!: grown_update_where) (auto simp: aged_def)

lemma grown_rotate: "grown (auth_sessions s) (auth_sessions (rotate_session old now s))"
  by (auto simp: rotate_session_def update_row_def intro!: grown_update_where) (auto simp: aged_def)

lemma issue_session_InrD:
  assumes "issue_session k begun clk d u agent ip family s = Inr (response, s')"
  shows "\<exists>x. s' = s\<lparr>auth_sessions := auth_sessions s @ [x]\<rparr> \<and> ss_user_id x = pk u
    \<and> ss_token_hash x = sha256_hex k (tr_refresh_token response)
    \<and> ss_family_id x = (case family of None \<Rightarrow> sd_family_id d | Some f \<Rightarrow> f)
    \<and> ss_token_hash x \<notin> ss_token_hash ` set (auth_sessions s)
    \<and> tr_refresh_token response = sd_raw d"
  using assms by (auto simp: issue_session_def elim!: bindE_InrE)

lemma issue_verification_InrD:
  assumes "issue_verification k begun clk d u s = Inr s'"
  shows "users (base s') = users (base s) \<and> auth_sessions (base s') = auth_sessions (base s)
    \<and> customers (base s') = customers (base s)"
  using assms by (auto simp: issue_verification_def elim!: bindE_InrE)

lemma issue_phone_verification_InrD:
  assumes "issue_phone_verification k begun clk d u s = Inr s'"
  shows "users (base s') = users (base s) \<and> auth_sessions (base s') = auth_sessions (base s)
    \<and> customers (base s') = customers (base s)"
  using assms by (auto simp: issue_phone_verification_def elim!: bindE_InrE split: if_splits)

lemma distinct_map_eq: "distinct (map f xs) \<Longrightarrow> x \<in> set xs \<Longrightarrow> y \<in> set xs \<Longrightarrow> f x = f y \<Longrightarrow> x = y"
  by (auto simp: distinct_map inj_on_def)

lemma link_customer_InrD:
  assumes "link_customer begun i u s = Inr s'" and "distinct (map pk (customers s))"
    and "i \<notin> pk ` set (customers s)"
  shows "users s' = users s \<and> auth_sessions s' = auth_sessions s
    \<and> Some (pk u) \<notin> cu_user_id ` set (customers s)
    \<and> Some (pk u) \<in> cu_user_id ` set (customers s')
    \<and> (\<forall>v. Some v \<in> cu_user_id ` set (customers s) \<longrightarrow> Some v \<in> cu_user_id ` set (customers s'))
    \<and> distinct (map pk (customers s'))"
proof -
  let ?free = "filter (\<lambda>c. cu_email c = us_email u \<and> cu_user_id c = None) (customers s)"
  show ?thesis
  proof (cases "sort_key created_at ?free")
    case Nil
    with assms show ?thesis
      by (auto simp: link_customer_def list_ex_iff elim!: bindE_InrE)
  next
    case (Cons c cs)
    then have "c \<in> set (sort_key created_at ?free)" by simp
    then have c: "c \<in> set (customers s)" "cu_user_id c = None" by auto
    from assms Cons have s': "customers s' = update_row pk (pk c) (\<lambda>x. x\<lparr>cu_user_id := Some (pk u)\<rparr>) (customers s)"
      "users s' = users s" "auth_sessions s' = auth_sessions s"
      and none: "Some (pk u) \<notin> cu_user_id ` set (customers s)"
      by (auto simp: link_customer_def list_ex_iff elim!: bindE_InrE)
    have "c\<lparr>cu_user_id := Some (pk u)\<rparr> \<in> set (customers s')"
      using c(1) by (auto simp: s'(1) set_update_row image_iff intro!: bexI [of _ c])
    then have "Some (pk u) \<in> cu_user_id ` set (customers s')"
      by (rule image_eqI [rotated]) simp
    moreover have "Some v \<in> cu_user_id ` set (customers s')" if v: "Some v \<in> cu_user_id ` set (customers s)" for v
    proof -
      from v obtain x where x: "x \<in> set (customers s)" "cu_user_id x = Some v" by force
      then have "pk x \<noteq> pk c" using c distinct_map_eq [OF assms(2) x(1) c(1)] by auto
      with x show ?thesis by (force simp: s'(1) set_update_row)
    qed
    moreover have "map pk (customers s') = map pk (customers s)"
      by (simp add: s'(1) map_key_update_row)
    ultimately show ?thesis using s' none assms(2) by simp
  qed
qed

definition is_live :: "auth_session \<Rightarrow> bool" where
  "is_live x \<longleftrightarrow> ss_rotated_at x = None \<and> ss_revoked_at x = None"

text \<open>A family belongs to one user and has at most one session that can still be refreshed.\<close>

definition families_ok :: "auth_session list \<Rightarrow> bool" where
  "families_ok xs \<longleftrightarrow> (\<forall>f. count_where (\<lambda>x. ss_family_id x = f \<and> is_live x) xs \<le> 1)
     \<and> (\<forall>x \<in> set xs. \<forall>y \<in> set xs. ss_family_id x = ss_family_id y \<longrightarrow> ss_user_id x = ss_user_id y)"

lemma families_okI:
  assumes "\<And>f. count_where (\<lambda>x. ss_family_id x = f \<and> is_live x) xs \<le> 1"
    and "\<And>x y. x \<in> set xs \<Longrightarrow> y \<in> set xs \<Longrightarrow> ss_family_id x = ss_family_id y \<Longrightarrow> ss_user_id x = ss_user_id y"
  shows "families_ok xs"
  using assms unfolding families_ok_def by blast

lemma families_ok_count: "families_ok xs \<Longrightarrow> count_where (\<lambda>x. ss_family_id x = f \<and> is_live x) xs \<le> 1"
  by (simp add: families_ok_def)

lemma families_ok_user:
  "families_ok xs \<Longrightarrow> x \<in> set xs \<Longrightarrow> y \<in> set xs \<Longrightarrow> ss_family_id x = ss_family_id y \<Longrightarrow> ss_user_id x = ss_user_id y"
  unfolding families_ok_def by blast

lemma families_ok_update:
  assumes ok: "families_ok xs" and aged: "\<And>x. P x \<Longrightarrow> aged x (f x)"
  shows "families_ok (update_where P f xs)"
proof (rule families_okI)
  fix g
  have "count_where (\<lambda>x. ss_family_id x = g \<and> is_live x) (update_where P f xs)
      \<le> count_where (\<lambda>x. ss_family_id x = g \<and> is_live x) xs"
  proof (rule count_update_where_le)
    fix r
    assume "P r" and "ss_family_id (f r) = g \<and> is_live (f r)"
    then show "ss_family_id r = g \<and> is_live r"
      using aged [of r] by (auto simp: aged_def is_live_def)
  qed
  with families_ok_count [OF ok, of g]
  show "count_where (\<lambda>x. ss_family_id x = g \<and> is_live x) (update_where P f xs) \<le> 1" by linarith
next
  fix x y
  assume mem: "x \<in> set (update_where P f xs)" "y \<in> set (update_where P f xs)" "ss_family_id x = ss_family_id y"
  have origin: "\<exists>w \<in> set xs. aged w z" if "z \<in> set (update_where P f xs)" for z
  proof -
    from that obtain w where "w \<in> set xs" "z = (if P w then f w else w)" by (auto simp: set_update_where)
    moreover from this have "aged w z" using aged [of w] by auto
    ultimately show ?thesis by blast
  qed
  from origin [OF mem(1)] obtain v where v: "v \<in> set xs" "aged v x" by blast
  from origin [OF mem(2)] obtain w where w: "w \<in> set xs" "aged w y" by blast
  from families_ok_user [OF ok v(1) w(1)] mem(3) v(2) w(2) show "ss_user_id x = ss_user_id y"
    by (simp add: aged_def)
qed

lemma families_ok_append:
  assumes ok: "families_ok xs" and fresh: "ss_family_id x \<notin> ss_family_id ` set xs"
  shows "families_ok (xs @ [x])"
proof (rule families_okI)
  have other: "ss_family_id y \<noteq> ss_family_id x" if "y \<in> set xs" for y
    using fresh that by (metis imageI)
  then have none: "count_where (\<lambda>y. ss_family_id y = ss_family_id x \<and> is_live y) xs = 0"
    by (auto simp: count_where_0_iff)
  show "count_where (\<lambda>y. ss_family_id y = f \<and> is_live y) (xs @ [x]) \<le> 1" for f
    using families_ok_count [OF ok, of f] none by (cases "f = ss_family_id x") simp_all
  show "ss_user_id y = ss_user_id z"
    if "y \<in> set (xs @ [x])" "z \<in> set (xs @ [x])" "ss_family_id y = ss_family_id z" for y z
    using that other [of y] other [of z] families_ok_user [OF ok, of y z] by auto
qed

lemma count_where_unique:
  "count_where P xs \<le> 1 \<Longrightarrow> x \<in> set xs \<Longrightarrow> y \<in> set xs \<Longrightarrow> P x \<Longrightarrow> P y \<Longrightarrow> x = y"
  by (induction xs) (auto simp: count_where_0_iff split: if_splits)

lemma families_ok_rotate:
  assumes ok: "families_ok xs" and old: "old \<in> set xs" "is_live old"
    and x: "ss_family_id x = ss_family_id old" "ss_user_id x = ss_user_id old"
  shows "families_ok (update_row pk (pk old) (\<lambda>y. y\<lparr>ss_rotated_at := Some now\<rparr>) xs @ [x])"
proof (rule families_okI)
  let ?f = "\<lambda>y. y\<lparr>ss_rotated_at := Some now\<rparr>" and ?P = "\<lambda>y. ss_family_id y = ss_family_id old \<and> is_live y"
  let ?ys = "update_row pk (pk old) ?f xs"
  have ys: "families_ok ?ys"
    unfolding update_row_def by (rule families_ok_update [OF ok]) (simp add: aged_def)
  have unique: "y = old" if "y \<in> set xs" "?P y" for y
    using count_where_unique [OF families_ok_count [OF ok, of "ss_family_id old"]] old that by simp
  have dead: "\<not> ?P (if pk y = pk old then ?f y else y)" if "y \<in> set xs" for y
  proof (cases "pk y = pk old")
    case False
    with that unique [of y] show ?thesis by auto
  qed (simp add: is_live_def)
  then have none: "count_where ?P ?ys = 0"
    unfolding count_where_0_iff set_update_row by blast
  show "count_where (\<lambda>y. ss_family_id y = f \<and> is_live y) (?ys @ [x]) \<le> 1" for f
    using families_ok_count [OF ys, of f] none x(1) by (cases "f = ss_family_id old") simp_all
  have user: "ss_user_id y = ss_user_id x" if y: "y \<in> set ?ys" "ss_family_id y = ss_family_id x" for y
  proof -
    from y(1) obtain w where "w \<in> set xs" "y = (if pk w = pk old then ?f w else w)"
      by (auto simp: set_update_row)
    then have "w \<in> set xs" "ss_family_id w = ss_family_id y" "ss_user_id w = ss_user_id y" by auto
    with families_ok_user [OF ok, of w old] old(1) x y(2) show ?thesis by simp
  qed
  show "ss_user_id y = ss_user_id z"
    if "y \<in> set (?ys @ [x])" "z \<in> set (?ys @ [x])" "ss_family_id y = ss_family_id z" for y z
  proof -
    from that(1,2) have "y = x \<or> y \<in> set ?ys" "z = x \<or> z \<in> set ?ys" by auto
    then show ?thesis using that(3) user families_ok_user [OF ys] by metis
  qed
qed

end
