(* ===== verification/Account_Sessions.thy ===== *)
theory Account_Sessions
  imports Accounts
begin

text \<open>
  The commands of the account service as a step relation, what every one of them keeps, and the
  properties of refresh tokens, passwords and the verification of addresses.
\<close>

section \<open>Steps\<close>

definition linked :: "accounts \<Rightarrow> uuid set" where
  "linked s = {v. Some v \<in> cu_user_id ` set (customers (base s))}"

abbreviation families :: "accounts \<Rightarrow> uuid set" where
  "families s \<equiv> ss_family_id ` set (auth_sessions (base s))"

abbreviation customer_ids :: "accounts \<Rightarrow> uuid set" where
  "customer_ids s \<equiv> pk ` set (customers (base s))"

definition account_inv :: "accounts \<Rightarrow> bool" where
  "account_inv s \<longleftrightarrow> families_ok (auth_sessions (base s)) \<and> distinct (map pk (customers (base s)))"

text \<open>
  A drawn family or customer id is new.  The commands that act for a signed-in user \<open>u\<close> have read its
  row.  The last rule stands for the commands of other services, none of which touches a user or a
  session or takes a customer away from its account.
\<close>

inductive account_step :: "accounts \<Rightarrow> accounts \<Rightarrow> bool" where
  as_register: "register k clk d r agent ip s = (res, s') \<Longrightarrow> sd_family_id (rg_session d) \<notin> families s \<Longrightarrow>
    rg_customer_id d \<notin> customer_ids s \<Longrightarrow> account_step s s'"
| as_provider: "register_provider tzdb k clk pd pr agent ip s = (pres, s') \<Longrightarrow>
    sd_family_id (pv_session pd) \<notin> families s \<Longrightarrow> account_step s s'"
| as_login: "login k clk sd email password agent ip s = (res, s') \<Longrightarrow> sd_family_id sd \<notin> families s \<Longrightarrow>
    account_step s s'"
| as_session: "application_session k clk sd u agent ip s = (res, s') \<Longrightarrow> sd_family_id sd \<notin> families s \<Longrightarrow>
    get_user (base s) (pk u) = Some u \<Longrightarrow> account_step s s'"
| as_refresh: "refresh k clk sd raw agent ip s = (res, s') \<Longrightarrow> account_step s s'"
| as_logout: "account_step s (logout k now raw s)"
| as_logout_all: "account_step s (logout_all now u s)"
| as_forgot: "forgot_password k clk td email s = (ures, s') \<Longrightarrow> account_step s s'"
| as_reset: "reset_password k clk td raw password s = (ures, s') \<Longrightarrow> account_step s s'"
| as_change: "change_password k clk td u current password s = (ures, s') \<Longrightarrow>
    get_user (base s) (pk u) = Some u \<Longrightarrow> account_step s s'"
| as_initial: "set_initial_password k clk td u password s = (ures, s') \<Longrightarrow>
    get_user (base s) (pk u) = Some u \<Longrightarrow> account_step s s'"
| as_verify: "verify_email k now i raw s = (ures, s') \<Longrightarrow> i \<notin> customer_ids s \<Longrightarrow> account_step s s'"
| as_resend: "resend_verification k clk td u s = (ures, s') \<Longrightarrow> account_step s s'"
| as_phone: "verify_phone k now u raw s = (ures, s') \<Longrightarrow> account_step s s'"
| as_other: "users (base s') = users (base s) \<Longrightarrow> auth_sessions (base s') = auth_sessions (base s) \<Longrightarrow>
    linked s \<subseteq> linked s' \<Longrightarrow> distinct (map pk (customers (base s'))) \<Longrightarrow> account_step s s'"

section \<open>What every step keeps\<close>

definition kept :: "accounts \<Rightarrow> accounts \<Rightarrow> bool" where
  "kept s s' \<longleftrightarrow> grown (auth_sessions (base s)) (auth_sessions (base s')) \<and> linked s \<subseteq> linked s'
     \<and> (\<forall>i u. get_user (base s) i = Some u \<longrightarrow> (\<exists>u'. get_user (base s') i = Some u'
          \<and> us_credential_version u \<le> us_credential_version u'
          \<and> (us_email_verified u' \<longrightarrow> us_email_verified u \<or> i \<notin> linked s)))"

lemma update_row_map: "update_row key k f xs = map (\<lambda>x. if key x = k then f x else x) xs"
  by (simp add: update_row_def update_where_def)

lemma keptI:
  assumes "grown (auth_sessions (base s)) (auth_sessions (base s'))" and "linked s \<subseteq> linked s'"
    and us: "users (base s') = map f (users (base s)) @ us"
    and f: "\<And>x. pk (f x) = pk x \<and> us_credential_version x \<le> us_credential_version (f x)
      \<and> (us_email_verified (f x) \<longrightarrow> us_email_verified x \<or> pk x \<notin> linked s)"
  shows "kept s s'"
proof -
  have "get_user (base s') i = Some (f u)" if "get_user (base s) i = Some u" for i u
  proof -
    have "lookup_row pk i (map f xs @ us) = Some (f u)" if "lookup_row pk i xs = Some u" for xs
      using that f by (induction xs) (auto simp: lookup_row_def split: if_splits)
    with that us show ?thesis by simp
  qed
  moreover have "pk u = i" if "get_user (base s) i = Some u" for i u using that by (rule lookup_row_key)
  ultimately show ?thesis using assms(1,2) f unfolding kept_def by metis
qed

lemma kept_refl [simp]: "kept s s"
  by (rule keptI [where f = "\<lambda>x. x" and us = "[]"]) simp_all

lemma kept_trans: "kept s s' \<Longrightarrow> kept s' s'' \<Longrightarrow> kept s s''"
  unfolding kept_def by (meson grown_trans order_trans subsetD)

text \<open>The usual case: no customer changes and no address becomes verified.\<close>

lemma keptI_users:
  assumes "grown (auth_sessions (base s)) (auth_sessions (base s'))" and "customers (base s') = customers (base s)"
    and "users (base s') = map f (users (base s)) @ us"
    and "\<And>x. pk (f x) = pk x \<and> us_credential_version x \<le> us_credential_version (f x)
      \<and> us_email_verified (f x) = us_email_verified x"
  shows "kept s s'"
  by (rule keptI [OF assms(1) _ assms(3)]) (simp_all add: assms(2,4) linked_def)

definition step_ok :: "accounts \<Rightarrow> accounts \<Rightarrow> bool" where
  "step_ok s s' \<longleftrightarrow> kept s s' \<and> (account_inv s \<longrightarrow> account_inv s')"

lemma step_ok_refl [simp]: "step_ok s s"
  by (simp add: step_ok_def)

text \<open>A command that adds a session in a family of its own, and one that only ages sessions.\<close>

lemma step_ok_new_session:
  assumes "auth_sessions (base s') = auth_sessions (base s) @ [x]" and "ss_family_id x \<notin> families s"
    and "customers (base s') = customers (base s)" and "users (base s') = map f (users (base s)) @ us"
    and "\<And>x. pk (f x) = pk x \<and> us_credential_version x \<le> us_credential_version (f x)
      \<and> us_email_verified (f x) = us_email_verified x"
  shows "step_ok s s'"
proof -
  have "kept s s'" by (rule keptI_users [OF _ assms(3-5)]) (auto simp: assms(1))
  moreover have "account_inv s'" if "account_inv s"
    using that assms(2,3) by (simp add: account_inv_def assms(1) families_ok_append)
  ultimately show ?thesis by (simp add: step_ok_def)
qed

lemma step_ok_aged:
  assumes "auth_sessions (base s') = update_where P g (auth_sessions (base s))" and "\<And>x. P x \<Longrightarrow> aged x (g x)"
    and "customers (base s') = customers (base s)" and "users (base s') = map f (users (base s))"
    and "\<And>x. pk (f x) = pk x \<and> us_credential_version x \<le> us_credential_version (f x)
      \<and> us_email_verified (f x) = us_email_verified x"
  shows "step_ok s s'"
proof -
  have "kept s s'"
    by (rule keptI_users [OF _ assms(3) _ assms(5), where us = "[]"]) (simp_all add: assms(1,2,4) grown_update_where)
  moreover have "account_inv s'" if "account_inv s"
    using that assms(2,3) by (simp add: account_inv_def assms(1) families_ok_update)
  ultimately show ?thesis by (simp add: step_ok_def)
qed

lemma step_ok_same_sessions:
  assumes "auth_sessions (base s') = auth_sessions (base s)"
    and "customers (base s') = customers (base s)" and "users (base s') = map f (users (base s))"
    and "\<And>x. pk (f x) = pk x \<and> us_credential_version x \<le> us_credential_version (f x)
      \<and> us_email_verified (f x) = us_email_verified x"
  shows "step_ok s s'"
  by (rule step_ok_aged [where P = "\<lambda>_. False" and g = "\<lambda>x. x", OF _ _ assms(2-4)])
    (simp_all add: assms(1) update_where_def)

lemma sessions_revoked:
  "auth_sessions (revoke_sessions P now b)
     = update_where (\<lambda>x. P x \<and> ss_revoked_at x = None) (\<lambda>x. x\<lparr>ss_revoked_at := Some now\<rparr>) (auth_sessions b)"
  "users (revoke_sessions P now b) = users b" "customers (revoke_sessions P now b) = customers b"
  by (simp_all add: revoke_sessions_def)

lemma step_ok_revoke: "step_ok s (with_base (revoke_sessions P now) s)"
  by (rule step_ok_aged [where P = "\<lambda>x. P x \<and> ss_revoked_at x = None"
        and g = "\<lambda>x. x\<lparr>ss_revoked_at := Some now\<rparr>" and f = "\<lambda>x. x"])
    (simp_all add: sessions_revoked aged_def)

lemma set_password_tables:
  "auth_sessions (set_password k clk d u password now action b)
     = auth_sessions (revoke_sessions (\<lambda>x. ss_user_id x = pk u) now b)"
  "customers (set_password k clk d u password now action b) = customers b"
  "users (set_password k clk d u password now action b)
     = map (\<lambda>x. if pk x = pk u then x\<lparr>us_password_hash := hash_password k password,
         us_credential_version := us_credential_version x + 1\<rparr> else x) (users b)"
  by (simp_all add: set_password_def revoke_sessions_def update_row_map)

section \<open>Every command\<close>

lemma step_ok_password:
  assumes "base s' = set_password k clk d u password now action b"
    and "auth_sessions b = auth_sessions (base s)" and "customers b = customers (base s)"
    and "users b = map f (users (base s))"
    and "\<And>x. pk (f x) = pk x \<and> us_credential_version (f x) = us_credential_version x
      \<and> us_email_verified (f x) = us_email_verified x"
  shows "step_ok s s'"
  by (rule step_ok_aged [where P = "\<lambda>x. ss_user_id x = pk u \<and> ss_revoked_at x = None"
        and g = "\<lambda>x. x\<lparr>ss_revoked_at := Some now\<rparr>" and f = "\<lambda>x. if pk (f x) = pk u then (f x)\<lparr>us_password_hash := hash_password k password,
         us_credential_version := us_credential_version (f x) + 1\<rparr> else f x"])
    (simp_all add: assms set_password_tables sessions_revoked aged_def)

lemma registered_link:
  assumes "link_customer begun i u (b\<lparr>users := us\<rparr>) = Inr b'" and "distinct (map pk (customers b))"
    and "i \<notin> pk ` set (customers b)"
  shows "users b' = us" "auth_sessions b' = auth_sessions b"
    "{v. Some v \<in> cu_user_id ` set (customers b)} \<subseteq> {v. Some v \<in> cu_user_id ` set (customers b')}"
    "Some (pk u) \<in> cu_user_id ` set (customers b')" "distinct (map pk (customers b'))"
    "Some (pk u) \<notin> cu_user_id ` set (customers b)"
  using link_customer_InrD [OF assms(1)] assms(2,3) by auto

lemma register_done:
  assumes "register k clk d r agent ip s = (res, s')" and "distinct (map pk (customers (base s)))"
    and "rg_customer_id d \<notin> customer_ids s"
  shows "isl res \<and> s' = s \<or> (\<exists>x. \<not> isl res \<and> auth_sessions (base s') = auth_sessions (base s) @ [x]
      \<and> ss_family_id x = sd_family_id (rg_session d)
      \<and> users (base s') = users (base s) @ [registered_user k (clk 0) d r]
      \<and> linked s \<subseteq> linked s' \<and> rg_user_id d \<in> linked s' \<and> distinct (map pk (customers (base s'))))"
proof (cases "register_body k clk d r agent ip s")
  case (Inl e)
  with assms(1) show ?thesis
    by (auto simp: register_def split: option.splits api_error.splits)
next
  case (Inr out)
  then obtain b1 s2 s3 response b4 where
    b1: "link_customer (clk 0) (rg_customer_id d) (registered_user k (clk 0) d r)
      ((base s)\<lparr>users := users (base s) @ [registered_user k (clk 0) d r]\<rparr>) = Inr b1"
    and s2: "issue_verification k (clk 0) (\<lambda>n. clk (n + 2)) (rg_email d) (registered_user k (clk 0) d r)
      (s\<lparr>base := add_audit (account_audit (registered_user k (clk 0) d r) ''client.created'' [] (clk 1)) b1\<rparr>) = Inr s2"
    and s3: "issue_phone_verification k (clk 0) (\<lambda>n. clk (n + 4)) (rg_phone d) (registered_user k (clk 0) d r) s2 = Inr s3"
    and b4: "issue_session k (clk 0) (\<lambda>n. clk (n + 6)) (rg_session d) (registered_user k (clk 0) d r) agent ip None
      (base s3) = Inr (response, b4)"
    and out: "out = (response, s3\<lparr>base := b4\<rparr>)"
    by (auto simp: register_body_def Let_def elim!: bindE_InrE)
  note link = registered_link [OF b1 assms(2,3)] and s2 = issue_verification_InrD [OF s2]
    and s3 = issue_phone_verification_InrD [OF s3]
  from issue_session_InrD [OF b4] obtain x where x: "b4 = (base s3)\<lparr>auth_sessions := auth_sessions (base s3) @ [x]\<rparr>"
    "ss_family_id x = sd_family_id (rg_session d)" by auto
  have pk: "pk (registered_user k (clk 0) d r) = rg_user_id d" by (simp add: registered_user_def)
  show ?thesis
  proof (cases "user_by_email (base s) (lower (rr_email r))")
    case None
    with assms(1) Inr out have "s' = s3\<lparr>base := b4\<rparr>" "\<not> isl res" by (auto simp: register_def)
    with x s2 s3 link pk show ?thesis by (auto simp: linked_def)
  qed (use assms(1) in \<open>auto simp: register_def\<close>)
qed

lemma register_ok:
  assumes "register k clk d r agent ip s = (res, s')" and "rg_customer_id d \<notin> customer_ids s"
    and "sd_family_id (rg_session d) \<notin> families s" and "account_inv s"
  shows "step_ok s s'"
proof -
  have "distinct (map pk (customers (base s)))" using assms(4) by (simp add: account_inv_def)
  from register_done [OF assms(1) this assms(2)] show ?thesis
proof (elim disjE exE conjE)
  fix x
  assume x: "auth_sessions (base s') = auth_sessions (base s) @ [x]" "ss_family_id x = sd_family_id (rg_session d)"
    "users (base s') = users (base s) @ [registered_user k (clk 0) d r]" "linked s \<subseteq> linked s'"
    "distinct (map pk (customers (base s')))"
  have "kept s s'"
    by (rule keptI [OF _ x(4), where f = "\<lambda>x. x" and us = "[registered_user k (clk 0) d r]"])
      (auto simp: x(1,3))
  moreover have "account_inv s'"
    using assms(3,4) x(2,5) by (simp add: account_inv_def x(1) families_ok_append)
  ultimately show ?thesis by (simp add: step_ok_def)
qed simp
qed

lemma register_provider_done:
  assumes "register_provider tzdb k clk d r agent ip s = (res, s')"
  shows "s' = s \<or> (\<exists>x. auth_sessions (base s') = auth_sessions (base s) @ [x]
      \<and> ss_family_id x = sd_family_id (pv_session d) \<and> customers (base s') = customers (base s)
      \<and> users (base s') = users (base s) @ [provider_user k (clk 0) d r])"
proof (cases "check_provider tzdb r (base s)")
  case (Inr c)
  obtain chosen postal_codes where c: "c = (chosen, postal_codes)" by (cases c)
  show ?thesis
  proof (cases "register_provider_body k clk d r chosen postal_codes agent ip s")
    case (Inr out)
    then obtain first_name last_name s2 s3 response b4 where
      s2: "issue_verification k (clk 0) (\<lambda>n. clk (n + 2)) (pv_email d) (provider_user k (clk 0) d r)
        (s\<lparr>base := provider_tables (clk 0) (clk 1) d r chosen postal_codes first_name last_name
           (provider_user k (clk 0) d r) (registered_vendor (clk 0) d r chosen) (base s)\<rparr>) = Inr s2"
      and s3: "issue_phone_verification k (clk 0) (\<lambda>n. clk (n + 4)) (pv_phone d) (provider_user k (clk 0) d r) s2 = Inr s3"
      and b4: "issue_session k (clk 0) (\<lambda>n. clk (n + 6)) (pv_session d) (provider_user k (clk 0) d r) agent ip None
        (base s3) = Inr (response, b4)"
      and out: "out = ((response, registered_vendor (clk 0) d r chosen), s3\<lparr>base := b4\<rparr>)"
      by (auto simp: register_provider_body_def Let_def elim!: bindE_InrE)
    from issue_session_InrD [OF b4] obtain x where
      "b4 = (base s3)\<lparr>auth_sessions := auth_sessions (base s3) @ [x]\<rparr>"
      "ss_family_id x = sd_family_id (pv_session d)" by auto
    with assms \<open>check_provider tzdb r (base s) = Inr c\<close> c Inr out
      issue_verification_InrD [OF s2] issue_phone_verification_InrD [OF s3]
    show ?thesis by (auto simp: register_provider_def provider_tables_def)
  qed (use assms Inr c in \<open>auto simp: register_provider_def split: api_error.splits\<close>)
qed (use assms in \<open>auto simp: register_provider_def\<close>)

lemma register_provider_ok:
  assumes "register_provider tzdb k clk d r agent ip s = (res, s')" and "sd_family_id (pv_session d) \<notin> families s"
  shows "step_ok s s'"
  using register_provider_done [OF assms(1)]
proof (elim disjE exE conjE)
  fix x
  assume "auth_sessions (base s') = auth_sessions (base s) @ [x]" "ss_family_id x = sd_family_id (pv_session d)"
    "customers (base s') = customers (base s)" "users (base s') = users (base s) @ [provider_user k (clk 0) d r]"
  then show ?thesis
    using assms(2)
    by (intro step_ok_new_session [where x = x and f = "\<lambda>x. x" and us = "[provider_user k (clk 0) d r]"]) simp_all
qed simp

lemma login_ok:
  assumes "login k clk d email password agent ip s = (res, s')" and "sd_family_id d \<notin> families s"
  shows "step_ok s s'"
proof (cases "check_login k email password (base s)")
  case (Inr c)
  obtain u new where c: "c = (u, new)" by (cases c)
  show ?thesis
  proof (cases "issue_session k (clk 0) (\<lambda>n. clk (n + 1)) d u agent ip None (base s)")
    case (Inr out)
    obtain response b where out: "out = (response, b)" by (cases out)
    from issue_session_InrD [OF Inr [unfolded out]] obtain x where
      x: "b = (base s)\<lparr>auth_sessions := auth_sessions (base s) @ [x]\<rparr>" "ss_family_id x = sd_family_id d" by auto
    with assms(1) \<open>check_login k email password (base s) = Inr c\<close> c Inr out have
      "auth_sessions (base s') = auth_sessions (base s) @ [x]" "customers (base s') = customers (base s)"
      "users (base s') = map (\<lambda>y. if pk y = pk u then y\<lparr>us_password_hash := (case new of None \<Rightarrow> us_password_hash y | Some h \<Rightarrow> h),
                  us_last_login_at := Some (clk 3)\<rparr> else y) (users (base s)) @ []"
      by (auto simp: login_def update_row_map)
    note tables = this
    show ?thesis by (rule step_ok_new_session [OF tables(1) _ tables(2,3)]) (use assms(2) x(2) in simp_all)
  qed (use assms(1) Inr c in \<open>simp add: login_def\<close>)
qed (use assms(1) in \<open>simp add: login_def\<close>)

lemma application_session_ok:
  assumes "application_session k clk d u agent ip s = (res, s')" and "sd_family_id d \<notin> families s"
  shows "step_ok s s'"
proof (cases "issue_session k (clk 0) (\<lambda>n. clk (n + 1)) d u agent ip None (base s)")
  case (Inr out)
  obtain response b where out: "out = (response, b)" by (cases out)
  from issue_session_InrD [OF Inr [unfolded out]] obtain x where
    x: "b = (base s)\<lparr>auth_sessions := auth_sessions (base s) @ [x]\<rparr>" "ss_family_id x = sd_family_id d" by auto
  with assms(1) Inr out have
    "auth_sessions (base s') = auth_sessions (base s) @ [x]" "customers (base s') = customers (base s)"
    "users (base s') = map (\<lambda>y. if pk y = pk u then y\<lparr>us_last_login_at := Some (clk 3)\<rparr> else y) (users (base s)) @ []"
    by (auto simp: application_session_def update_row_map)
  note tables = this
  show ?thesis by (rule step_ok_new_session [OF tables(1) _ tables(2,3)]) (use assms(2) x(2) in simp_all)
qed (use assms(1) in \<open>simp add: application_session_def\<close>)

text \<open>The ways \<^verbatim>\<open>refresh\<close> can end.\<close>

lemma refresh_cases [consumes 1]:
  assumes "refresh k clk d raw agent ip s = (res, s')"
  obtains (refused) e where "res = Inl e" "s' = s"
    "session_by_hash (base s) (sha256_hex k raw) = None
      \<or> (\<exists>x. session_by_hash (base s) (sha256_hex k raw) = Some x \<and> is_live x)"
  | (reused) old where "session_by_hash (base s) (sha256_hex k raw) = Some old" "\<not> is_live old"
      "res = Inl (HTTPException 401 ''Refresh token reuse detected'')"
      "s' = with_base (revoke_sessions (\<lambda>x. ss_family_id x = ss_family_id old) (clk 0)) s"
  | (expired) old where "session_by_hash (base s) (sha256_hex k raw) = Some old" "is_live old"
      "res = Inl (HTTPException 401 ''Refresh token expired'')"
      "s' = with_base (revoke_sessions (\<lambda>x. pk x = pk old) (clk 0)) s"
  | (rotated) old u response b where "session_by_hash (base s) (sha256_hex k raw) = Some old" "is_live old"
      "clk 0 < ss_expires_at old" "get_user (base s) (ss_user_id old) = Some u" "us_is_active u" "res = Inr response"
      "issue_session k (clk 0) (\<lambda>n. clk (n + 1)) d u (or_text agent (ss_user_agent old))
         (or_text ip (ss_ip_address old)) (Some (ss_family_id old)) (rotate_session old (clk 0) (base s))
       = Inr (response, b)" "s' = s\<lparr>base := b\<rparr>"
proof (cases "session_by_hash (base s) (sha256_hex k raw)")
  case None
  with assms show ?thesis by (intro refused) (auto simp: refresh_def)
next
  case (Some old)
  show ?thesis
  proof (cases "is_live old")
    case False
    with Some assms show ?thesis by (intro reused [of old]) (auto simp: refresh_def is_live_def)
  next
    case True
    then have live: "ss_revoked_at old = None" "ss_rotated_at old = None" by (simp_all add: is_live_def)
    show ?thesis
    proof (cases "ss_expires_at old \<le> clk 0")
      case True
      with Some live assms \<open>is_live old\<close> show ?thesis by (intro expired [of old]) (auto simp: refresh_def)
    next
      case unexpired: False
      let ?issue = "\<lambda>u. issue_session k (clk 0) (\<lambda>n. clk (n + 1)) d u (or_text agent (ss_user_agent old))
         (or_text ip (ss_ip_address old)) (Some (ss_family_id old)) (rotate_session old (clk 0) (base s))"
      show ?thesis
      proof (cases "\<exists>u response b. get_user (base s) (ss_user_id old) = Some u \<and> us_is_active u
          \<and> ?issue u = Inr (response, b)")
        case True
        then obtain u response b where u: "get_user (base s) (ss_user_id old) = Some u" "us_is_active u"
          "?issue u = Inr (response, b)" by blast
        with Some live unexpired assms have "res = Inr response" "s' = s\<lparr>base := b\<rparr>"
          by (auto simp: refresh_def)
        with Some \<open>is_live old\<close> unexpired u show ?thesis by (intro rotated [of old u response b]) simp_all
      next
        case False
        with Some live unexpired assms have "isl res \<and> s' = s"
          by (auto simp: refresh_def split: option.splits if_splits sum.splits)
        then obtain e where "res = Inl e" "s' = s" by (cases res) auto
        with Some \<open>is_live old\<close> show ?thesis by (intro refused) auto
      qed
    qed
  qed
qed

lemma refresh_ok:
  assumes "refresh k clk d raw agent ip s = (res, s')"
  shows "step_ok s s'"
  using assms
proof (cases rule: refresh_cases)
  case (rotated old u response b)
  from issue_session_InrD [OF rotated(7)] obtain x where
    x: "b = (rotate_session old (clk 0) (base s))\<lparr>auth_sessions := auth_sessions (rotate_session old (clk 0) (base s)) @ [x]\<rparr>"
      "ss_family_id x = ss_family_id old" "ss_user_id x = pk u" by auto
  have old: "old \<in> set (auth_sessions (base s))" "pk u = ss_user_id old"
    using find_SomeD [OF rotated(1) [unfolded session_by_hash_def]] lookup_row_key [OF rotated(4)] by simp_all
  have tables: "auth_sessions (base s') = update_row pk (pk old) (\<lambda>y. y\<lparr>ss_rotated_at := Some (clk 0)\<rparr>)
      (auth_sessions (base s)) @ [x]"
    "users (base s') = users (base s)" "customers (base s') = customers (base s)"
    by (simp_all add: rotated(8) x(1) rotate_session_def)
  have "kept s s'"
    by (rule keptI_users [where f = "\<lambda>x. x" and us = "[]"])
      (use grown_rotate [of "base s" old "clk 0"] in \<open>auto simp: tables rotate_session_def\<close>)
  moreover have "account_inv s'" if "account_inv s"
    using that families_ok_rotate [OF _ old(1) rotated(2) x(2)] x(3) old(2)
    by (simp add: account_inv_def tables)
  ultimately show ?thesis by (simp add: step_ok_def)
qed (simp_all add: step_ok_revoke)

lemma verify_email_done:
  assumes "verify_email k now i raw s = (res, s')"
  shows "isl res \<and> s' = s \<or> (\<exists>t u b. token_by_hash (email_tokens s) (sha256_hex k raw) = Some t
      \<and> get_user (base s) (at_user_id t) = Some u
      \<and> link_customer now i u (modify_user (pk u)
            (\<lambda>x. x\<lparr>us_email_verified := True, us_email_verified_at := Some now\<rparr>) (base s)) = Inr b
      \<and> base s' = b)"
  using assms
  by (auto simp: verify_email_def valid_token_def Let_def split: sum.splits elim!: bindE_InrE)

lemma verify_email_ok:
  assumes "verify_email k now i raw s = (res, s')" and "i \<notin> customer_ids s" and "account_inv s"
  shows "step_ok s s'"
  using verify_email_done [OF assms(1)]
proof (elim disjE exE conjE)
  fix t u b
  assume u: "get_user (base s) (at_user_id t) = Some u" and b: "base s' = b"
    and link: "link_customer now i u (modify_user (pk u)
      (\<lambda>x. x\<lparr>us_email_verified := True, us_email_verified_at := Some now\<rparr>) (base s)) = Inr b"
  have distinct: "distinct (map pk (customers (base s)))" using assms(3) by (simp add: account_inv_def)
  note new = registered_link [OF link distinct assms(2)]
  have "pk u \<notin> linked s" using new(6) by (simp add: linked_def)
  then have "kept s s'"
    by (intro keptI [where f = "\<lambda>x. if pk x = pk u then x\<lparr>us_email_verified := True,
          us_email_verified_at := Some now\<rparr> else x" and us = "[]"])
      (use new(3) in \<open>auto simp: b new(1,2) update_row_map linked_def\<close>)
  moreover have "account_inv s'" using assms(3) by (simp add: account_inv_def b new(2,5))
  ultimately show ?thesis by (simp add: step_ok_def)
qed simp

lemma reset_password_done:
  assumes "reset_password k clk d raw password s = (res, s')"
  shows "isl res \<and> s' = s \<or> (\<exists>t u. token_by_hash (reset_tokens s) (sha256_hex k raw) = Some t \<and> at_used_at t = None
      \<and> clk 0 < at_expires_at t \<and> get_user (base s) (at_user_id t) = Some u
      \<and> base s' = set_password k (\<lambda>n. clk (n + 1)) d u password (clk 0) ''auth.password.reset'' (base s))"
  using assms
  by (auto simp: reset_password_def valid_token_def Let_def split: sum.splits elim!: bindE_InrE)

lemma reset_password_ok:
  assumes "reset_password k clk d raw password s = (res, s')"
  shows "step_ok s s'"
  using reset_password_done [OF assms]
proof (elim disjE exE conjE)
  fix t u
  assume "base s' = set_password k (\<lambda>n. clk (n + 1)) d u password (clk 0) ''auth.password.reset'' (base s)"
  then show ?thesis by (rule step_ok_password [where f = "\<lambda>x. x"]) simp_all
qed simp

lemma change_password_ok: "change_password k clk d u current password s = (res, s') \<Longrightarrow> step_ok s s'"
  by (auto simp: change_password_def split: if_splits intro!: step_ok_password [where f = "\<lambda>x. x"])

lemma set_initial_password_ok: "set_initial_password k clk d u password s = (res, s') \<Longrightarrow> step_ok s s'"
  by (auto simp: set_initial_password_def update_row_map split: if_splits
      intro!: step_ok_password [where f = "\<lambda>x. if pk x = pk u then x\<lparr>us_password_set_required := False\<rparr> else x"])

lemma forgot_password_ok: "forgot_password k clk d email s = (res, s') \<Longrightarrow> step_ok s s'"
  by (auto simp: forgot_password_def split: option.splits if_splits sum.splits
      intro!: step_ok_same_sessions [where f = "\<lambda>x. x"])

lemma resend_verification_ok: "resend_verification k clk d u s = (res, s') \<Longrightarrow> step_ok s s'"
  by (auto simp: resend_verification_def split: if_splits sum.splits dest!: issue_verification_InrD
      intro!: step_ok_same_sessions [where f = "\<lambda>x. x"])

lemma verify_phone_ok:
  assumes "verify_phone k now u raw s = (res, s')"
  shows "step_ok s s'"
proof -
  have "s' = s \<or> auth_sessions (base s') = auth_sessions (base s) \<and> customers (base s') = customers (base s)
    \<and> users (base s') = map (\<lambda>x. if pk x = pk u then x\<lparr>us_phone_verified_at := Some now\<rparr> else x) (users (base s))"
    using assms by (auto simp: verify_phone_def Let_def update_row_map split: sum.splits)
  then show ?thesis
  proof (elim disjE conjE)
    assume "auth_sessions (base s') = auth_sessions (base s)" "customers (base s') = customers (base s)"
      "users (base s') = map (\<lambda>x. if pk x = pk u then x\<lparr>us_phone_verified_at := Some now\<rparr> else x) (users (base s))"
    then show ?thesis by (rule step_ok_same_sessions) simp
  qed simp
qed

lemma other_ok:
  assumes "users (base s') = users (base s)" and "auth_sessions (base s') = auth_sessions (base s)"
    and "linked s \<subseteq> linked s'" and "distinct (map pk (customers (base s')))"
  shows "step_ok s s'"
proof -
  have "kept s s'" by (rule keptI [OF _ assms(3), where f = "\<lambda>x. x" and us = "[]"]) (simp_all add: assms(1,2))
  with assms(2,4) show ?thesis by (simp add: step_ok_def account_inv_def)
qed

lemmas command_oks = register_ok register_provider_ok login_ok application_session_ok refresh_ok reset_password_ok
  change_password_ok set_initial_password_ok forgot_password_ok resend_verification_ok verify_phone_ok
  verify_email_ok other_ok

lemma account_step_ok:
  assumes "account_step s s'" and "account_inv s"
  shows "step_ok s s'"
  using assms
proof (induction rule: account_step.induct)
  case (as_logout s k now raw)
  then show ?case by (simp add: logout_def step_ok_revoke split: option.split)
next
  case (as_logout_all s now u)
  then show ?case by (simp add: logout_all_def step_ok_revoke)
qed (rule command_oks; assumption)+

lemma account_steps_ok:
  assumes "account_step\<^sup>*\<^sup>* s s'" and "account_inv s"
  shows "kept s s' \<and> account_inv s'"
  using assms
proof (induction rule: rtranclp_induct)
  case (step y z)
  then have "step_ok y z" using account_step_ok by blast
  with step show ?case using kept_trans by (auto simp: step_ok_def)
qed simp

lemma empty_inv: "auth_sessions (base s) = [] \<Longrightarrow> distinct (map pk (customers (base s))) \<Longrightarrow> account_inv s"
  by (simp add: account_inv_def families_ok_def)

section \<open>Refresh tokens\<close>

lemma dead_token_reused:
  assumes "session_by_hash (base s) (sha256_hex k raw) = Some x" and "\<not> is_live x"
  shows "\<exists>s'. refresh k clk d raw agent ip s = (Inl (HTTPException 401 ''Refresh token reuse detected''), s')
    \<and> (\<forall>y \<in> set (auth_sessions (base s')). ss_family_id y = ss_family_id x \<longrightarrow> ss_revoked_at y \<noteq> None)"
  using assms
  by (auto simp: refresh_def is_live_def sessions_revoked set_update_where split: if_splits)

lemma find_rotated:
  assumes "find (\<lambda>x. ss_token_hash x = h) (auth_sessions s) = Some old"
  shows "find (\<lambda>x. ss_token_hash x = h) (auth_sessions (rotate_session old now s))
    = Some (old\<lparr>ss_rotated_at := Some now\<rparr>)"
proof -
  let ?f = "\<lambda>y. y\<lparr>ss_rotated_at := Some now\<rparr>"
  have "find (\<lambda>x. ss_token_hash x = h) (map (\<lambda>y. if pk y = pk old then ?f y else y) (auth_sessions s))
    = map_option (\<lambda>y. if pk y = pk old then ?f y else y) (find (\<lambda>x. ss_token_hash x = h) (auth_sessions s))"
    by (rule find_map_key) simp
  with assms show ?thesis by (simp add: rotate_session_def update_row_map)
qed


section \<open>Passwords\<close>

text \<open>The three commands that set the password of \<open>u\<close>.\<close>

inductive sets_password :: "user \<Rightarrow> accounts \<Rightarrow> accounts \<Rightarrow> bool" where
  "reset_password k clk td raw password s = (Inr (), s') \<Longrightarrow>
     token_by_hash (reset_tokens s) (sha256_hex k raw) = Some t \<Longrightarrow> get_user (base s) (at_user_id t) = Some u \<Longrightarrow>
     sets_password u s s'"
| "change_password k clk td u current password s = (Inr (), s') \<Longrightarrow> get_user (base s) (pk u) = Some u \<Longrightarrow>
     sets_password u s s'"
| "set_initial_password k clk td u password s = (Inr (), s') \<Longrightarrow> get_user (base s) (pk u) = Some u \<Longrightarrow>
     sets_password u s s'"

lemma sets_password_step: "sets_password u s s' \<Longrightarrow> account_step s s'"
  by (induction rule: sets_password.induct) (blast intro: as_reset as_change as_initial)+

lemma sets_password_effect:
  assumes "sets_password u s s'"
  shows "get_user (base s) (pk u) = Some u"
    and "\<exists>k clk d p now action f. base s' = set_password k clk d u p now action (modify_user (pk u) f (base s))
      \<and> (\<forall>x. pk (f x) = pk x \<and> us_credential_version (f x) = us_credential_version x)"
proof -
  have id: "modify_user i (\<lambda>x. x) b = b" for i and b :: db
    by (simp add: update_row_map)
  from assms have "get_user (base s) (pk u) = Some u \<and> (\<exists>k clk d p now action f.
      base s' = set_password k clk d u p now action (modify_user (pk u) f (base s))
      \<and> (\<forall>x. pk (f x) = pk x \<and> us_credential_version (f x) = us_credential_version x))"
  proof cases
    case (1 k clk td raw password t)
    from reset_password_done [OF 1(1)] 1(2,3) have
      "base s' = set_password k (\<lambda>n. clk (n + 1)) td u password (clk 0) ''auth.password.reset'' (modify_user (pk u) (\<lambda>x. x) (base s))"
      unfolding id by auto
    moreover have "pk u = at_user_id t" using 1(3) by (rule lookup_row_key)
    ultimately show ?thesis using 1(3) by (intro conjI exI) (auto intro: exI [of _ "\<lambda>x. x"])
  next
    case (2 k clk td current password)
    then have "base s' = set_password k (\<lambda>n. clk (n + 1)) td u password (clk 0) ''auth.password.change''
        (modify_user (pk u) (\<lambda>x. x) (base s))"
      unfolding id by (auto simp: change_password_def split: if_splits)
    with 2(2) show ?thesis by (intro conjI exI) auto
  next
    case (3 k clk td password)
    then have "base s' = set_password k (\<lambda>n. clk (n + 1)) td u password (clk 0) ''auth.password.set''
        (modify_user (pk u) (\<lambda>x. x\<lparr>us_password_set_required := False\<rparr>) (base s))"
      by (auto simp: set_initial_password_def split: if_splits)
    with 3(2) show ?thesis by (intro conjI exI) auto
  qed
  then show "get_user (base s) (pk u) = Some u"
    and "\<exists>k clk d p now action f. base s' = set_password k clk d u p now action (modify_user (pk u) f (base s))
      \<and> (\<forall>x. pk (f x) = pk x \<and> us_credential_version (f x) = us_credential_version x)" by blast+
qed

lemma sets_password_version:
  assumes "sets_password u s s'"
  shows "\<exists>u'. get_user (base s') (pk u) = Some u' \<and> us_credential_version u' = us_credential_version u + 1"
proof -
  from sets_password_effect [OF assms] obtain k clk d p now action f where u: "get_user (base s) (pk u) = Some u"
    and b: "base s' = set_password k clk d u p now action (modify_user (pk u) f (base s))"
    and f: "\<And>x. pk (f x) = pk x \<and> us_credential_version (f x) = us_credential_version x" by blast
  let ?g = "\<lambda>x. x\<lparr>us_password_hash := hash_password k p, us_credential_version := us_credential_version x + 1\<rparr>"
  have "users (base s') = update_row pk (pk u) ?g (update_row pk (pk u) f (users (base s)))"
    by (simp add: b set_password_def revoke_sessions_def)
  then have "get_user (base s') (pk u) = Some (?g (f u))"
    using u f by (simp add: lookup_update_row)
  then show ?thesis using f by simp
qed

lemma sets_password_revokes:
  assumes "sets_password u s s'" and "x \<in> set (auth_sessions (base s'))" and "ss_user_id x = pk u"
  shows "ss_revoked_at x \<noteq> None"
proof -
  from sets_password_effect [OF assms(1)] obtain k clk d p now action f where
    "base s' = set_password k clk d u p now action (modify_user (pk u) f (base s))" by blast
  with assms(2,3) show ?thesis
    by (auto simp: set_password_tables sessions_revoked set_update_where)
qed


section \<open>Verification of the address\<close>


section \<open>A sample account\<close>

definition sample_crypto :: crypto where
  "sample_crypto = \<lparr>sha256_hex = (\<lambda>t. t), hash_password = (\<lambda>t. CHR ''#'' # t),
     verify_and_update = (\<lambda>p h. Some (h = CHR ''#'' # p, None)), pbkdf2 = (\<lambda>_ _ _. []), jwt_secret = ''k'',
     jwt_encode = (\<lambda>_ _. ''jwt''), jwt_decode_strict = (\<lambda>_ _. JwtInvalid), jwt_decode_legacy = (\<lambda>_ _. JwtInvalid)\<rparr>"

definition no_accounts :: accounts where
  "no_accounts = \<lparr>base = empty_db, reset_tokens = [], email_tokens = [], phone_tokens = []\<rparr>"

definition first_session :: session_draw where
  "first_session = \<lparr>sd_id = 3, sd_family_id = 4, sd_raw = ''raw-1'', sd_jti = 5\<rparr>"

definition second_session :: session_draw where
  "second_session = \<lparr>sd_id = 6, sd_family_id = 7, sd_raw = ''raw-2'', sd_jti = 8\<rparr>"

definition a_token :: token_draw where
  "a_token = \<lparr>td_id = 9, td_raw = ''mail'', td_event_id = 10\<rparr>"

definition ann_draws :: register_draws where
  "ann_draws = \<lparr>rg_user_id = 1, rg_customer_id = 2, rg_email = a_token, rg_phone = a_token, rg_session = first_session\<rparr>"

definition ann_request :: register_request where
  "ann_request = \<lparr>rr_email = ''Ann@Example.com'', rr_password = ''long password'', rr_full_name = ''Ann Lee'', rr_phone = None\<rparr>"

definition ann :: "token_response result \<times> accounts" where
  "ann = register sample_crypto (\<lambda>n. int n) ann_draws ann_request None None no_accounts"

definition ann_refreshed :: "token_response result \<times> accounts" where
  "ann_refreshed = refresh sample_crypto (\<lambda>n. 100 + int n) second_session ''raw-1'' None None (snd ann)"

lemma ann_isl: "\<not> isl (fst ann)" "\<not> isl (fst ann_refreshed)"
  by code_simp+

lemma no_accounts_inv: "account_inv no_accounts"
  by (simp add: empty_inv no_accounts_def empty_db_def)

lemma ann_eq:
  obtains response where "register sample_crypto (\<lambda>n. int n) ann_draws ann_request None None no_accounts = (Inr response, snd ann)"
  using ann_isl(1) unfolding ann_def by (cases "fst (register sample_crypto (\<lambda>n. int n) ann_draws ann_request None None no_accounts)")
    (auto simp: prod_eq_iff)

lemma fresh_draws: "rg_customer_id ann_draws \<notin> customer_ids no_accounts"
  "sd_family_id (rg_session ann_draws) \<notin> families no_accounts" "rg_user_id ann_draws \<notin> pk ` set (users (base no_accounts))"
  by (simp_all add: no_accounts_def empty_db_def)

lemma ann_inv: "account_inv (snd ann)"
proof -
  obtain response where "register sample_crypto (\<lambda>n. int n) ann_draws ann_request None None no_accounts = (Inr response, snd ann)"
    by (rule ann_eq)
  from register_ok [OF this fresh_draws(1,2) no_accounts_inv] no_accounts_inv show ?thesis by (simp add: step_ok_def)
qed


definition ann_row :: user where
  "ann_row = registered_user sample_crypto 0 ann_draws ann_request"

definition ann_changed :: "unit result \<times> accounts" where
  "ann_changed = change_password sample_crypto (\<lambda>n. 300 + int n) a_token ann_row ''long password'' ''other password'' (snd ann)"



end
