(* ===== verification/Access.thy ===== *)
theory Access
  imports Accounts Public_Booking
begin

text \<open>
  Who may do what (\<^verbatim>\<open>auth/access_service.py\<close>, \<^verbatim>\<open>auth/dependencies.py\<close>, \<^verbatim>\<open>auth/provisioning_service.py\<close>,
  \<^verbatim>\<open>auth/keycloak.py\<close>, \<^verbatim>\<open>api/v1/access.py\<close>): access profiles per brand, the permissions they give, the
  guards of the routes, internal accounts, and the identities of Keycloak.
\<close>

section \<open>Roles, departments and scopes\<close>

datatype access_role = AR_customer | AR_vendor_admin | AR_technician | AR_operations | AR_ops_manager
  | AR_support | AR_finance | AR_quality | AR_trust_safety | AR_sales | AR_marketing | AR_admin | AR_superadmin

datatype department = DP_customer | DP_provider | DP_field_service | DP_dispatch | DP_customer_support
  | DP_vendor_success | DP_finance | DP_quality | DP_trust_safety | DP_sales | DP_marketing | DP_administration

datatype tenant_scope = TS_global | TS_brand | TS_vendor

fun access_role_value :: "access_role \<Rightarrow> string" where
  "access_role_value AR_customer = ''customer''"
| "access_role_value AR_vendor_admin = ''vendor_admin''"
| "access_role_value AR_technician = ''technician''"
| "access_role_value AR_operations = ''operations''"
| "access_role_value AR_ops_manager = ''ops_manager''"
| "access_role_value AR_support = ''support''"
| "access_role_value AR_finance = ''finance''"
| "access_role_value AR_quality = ''quality''"
| "access_role_value AR_trust_safety = ''trust_safety''"
| "access_role_value AR_sales = ''sales''"
| "access_role_value AR_marketing = ''marketing''"
| "access_role_value AR_admin = ''admin''"
| "access_role_value AR_superadmin = ''superadmin''"

fun department_value :: "department \<Rightarrow> string" where
  "department_value DP_customer = ''customer''"
| "department_value DP_provider = ''provider''"
| "department_value DP_field_service = ''field_service''"
| "department_value DP_dispatch = ''dispatch''"
| "department_value DP_customer_support = ''customer_support''"
| "department_value DP_vendor_success = ''vendor_success''"
| "department_value DP_finance = ''finance''"
| "department_value DP_quality = ''quality''"
| "department_value DP_trust_safety = ''trust_safety''"
| "department_value DP_sales = ''sales''"
| "department_value DP_marketing = ''marketing''"
| "department_value DP_administration = ''administration''"

fun tenant_scope_value :: "tenant_scope \<Rightarrow> string" where
  "tenant_scope_value TS_global = ''global''"
| "tenant_scope_value TS_brand = ''brand''"
| "tenant_scope_value TS_vendor = ''vendor''"

definition access_roles :: "access_role list" where
  "access_roles = [AR_customer, AR_vendor_admin, AR_technician, AR_operations, AR_ops_manager, AR_support,
     AR_finance, AR_quality, AR_trust_safety, AR_sales, AR_marketing, AR_admin, AR_superadmin]"

definition departments :: "department list" where
  "departments = [DP_customer, DP_provider, DP_field_service, DP_dispatch, DP_customer_support, DP_vendor_success,
     DP_finance, DP_quality, DP_trust_safety, DP_sales, DP_marketing, DP_administration]"

definition tenant_scopes :: "tenant_scope list" where
  "tenant_scopes = [TS_global, TS_brand, TS_vendor]"

text \<open>\<^verbatim>\<open>AccessRole(text)\<close> and its like raise \<^verbatim>\<open>ValueError\<close> at any other text.\<close>

definition access_role_of :: "string \<Rightarrow> access_role result" where
  "access_role_of t = of_option (ValueError t) (find (\<lambda>r. access_role_value r = t) access_roles)"

definition department_of :: "string \<Rightarrow> department result" where
  "department_of t = of_option (ValueError t) (find (\<lambda>r. department_value r = t) departments)"

definition tenant_scope_of :: "string \<Rightarrow> tenant_scope result" where
  "tenant_scope_of t = of_option (ValueError t) (find (\<lambda>r. tenant_scope_value r = t) tenant_scopes)"

lemma access_role_of_value [simp]: "access_role_of (access_role_value r) = Inr r"
  by (cases r) (simp_all add: access_role_of_def access_roles_def)

lemma department_of_value [simp]: "department_of (department_value d) = Inr d"
  by (cases d) (simp_all add: department_of_def departments_def)

lemma tenant_scope_of_value [simp]: "tenant_scope_of (tenant_scope_value c) = Inr c"
  by (cases c) (simp_all add: tenant_scope_of_def tenant_scopes_def)

section \<open>The store\<close>

record access_profile = row +
  ap_user_id :: uuid
  ap_brand_key :: string

record access_assignment = row +
  aa_user_id :: uuid
  aa_brand_key :: string
  aa_role_key :: string
  aa_department :: string
  aa_tenant_scope :: string
  aa_vendor_id :: "uuid option"
  aa_active :: bool
  aa_is_primary :: bool

record role_permission =
  rp_role_key :: string
  rp_permission :: string
  rp_allow :: bool

record user_permission =
  up_user_id :: uuid
  up_brand_key :: string
  up_permission :: string
  up_allow :: bool

record identity_link = row +
  il_user_id :: uuid
  il_brand_key :: string
  il_issuer :: string
  il_subject :: string
  il_email :: string

record invitation_token = account_token +
  it_created_by :: uuid

record access_store =
  acc :: accounts
  profiles :: "access_profile list"
  access_assignments :: "access_assignment list"
  role_permissions :: "role_permission list"
  user_permissions :: "user_permission list"
  identities :: "identity_link list"
  invitations :: "invitation_token list"

abbreviation store :: "access_store \<Rightarrow> db" where "store s \<equiv> base (acc s)"

section \<open>AccessService\<close>

definition BRAND_KEY :: string where "BRAND_KEY = ''breero''"
definition NO_ACCESS_DASHBOARD :: string where "NO_ACCESS_DASHBOARD = ''/access-denied''"

fun DEFAULT_ACCESS :: "user_role \<Rightarrow> access_role \<times> department \<times> tenant_scope" where
  "DEFAULT_ACCESS UR_customer = (AR_customer, DP_customer, TS_brand)"
| "DEFAULT_ACCESS UR_vendor_admin = (AR_vendor_admin, DP_provider, TS_brand)"
| "DEFAULT_ACCESS UR_technician = (AR_technician, DP_field_service, TS_brand)"
| "DEFAULT_ACCESS UR_operations = (AR_operations, DP_dispatch, TS_brand)"
| "DEFAULT_ACCESS UR_finance = (AR_finance, DP_finance, TS_brand)"
| "DEFAULT_ACCESS UR_admin = (AR_admin, DP_administration, TS_global)"

fun DASHBOARD_BY_ROLE :: "access_role \<Rightarrow> string" where
  "DASHBOARD_BY_ROLE AR_customer = ''/account''"
| "DASHBOARD_BY_ROLE AR_vendor_admin = ''/provider''"
| "DASHBOARD_BY_ROLE AR_technician = ''/worker''"
| "DASHBOARD_BY_ROLE AR_operations = ''/ops''"
| "DASHBOARD_BY_ROLE AR_ops_manager = ''/ops''"
| "DASHBOARD_BY_ROLE AR_support = ''/support''"
| "DASHBOARD_BY_ROLE AR_finance = ''/finance''"
| "DASHBOARD_BY_ROLE AR_quality = ''/quality''"
| "DASHBOARD_BY_ROLE AR_trust_safety = ''/trust-safety''"
| "DASHBOARD_BY_ROLE AR_sales = ''/sales''"
| "DASHBOARD_BY_ROLE AR_marketing = ''/marketing''"
| "DASHBOARD_BY_ROLE AR_admin = ''/admin''"
| "DASHBOARD_BY_ROLE AR_superadmin = ''/admin''"

fun DEFAULT_PERMISSIONS :: "access_role \<Rightarrow> string list" where
  "DEFAULT_PERMISSIONS AR_customer = [''customer.profile.read'', ''customer.profile.write'',
     ''customer.request.create'', ''customer.booking.read'', ''customer.quote.read'', ''customer.quote.decide'',
     ''customer.notifications.read'']"
| "DEFAULT_PERMISSIONS AR_vendor_admin = [''provider.profile.read'', ''provider.profile.write'',
     ''provider.credentials.read'', ''provider.worker.manage'', ''provider.availability.manage'',
     ''provider.jobs.read'', ''provider.quotes.manage'']"
| "DEFAULT_PERMISSIONS AR_technician = [''worker.profile.read'', ''worker.schedule.read'',
     ''worker.availability.manage'', ''worker.jobs.read'', ''worker.jobs.update'']"
| "DEFAULT_PERMISSIONS AR_operations = [''ops.dispatch.read'', ''ops.dispatch.manage'', ''ops.bookings.read'',
     ''ops.bookings.manage'', ''ops.providers.read'', ''ops.customers.read'']"
| "DEFAULT_PERMISSIONS AR_ops_manager = [''ops.dispatch.read'', ''ops.dispatch.manage'', ''ops.bookings.read'',
     ''ops.bookings.manage'', ''ops.providers.read'', ''ops.providers.manage'', ''ops.customers.read'',
     ''ops.audit.read'']"
| "DEFAULT_PERMISSIONS AR_support = [''support.customers.read'', ''support.requests.read'',
     ''support.requests.manage'', ''support.bookings.read'', ''support.communications.read'']"
| "DEFAULT_PERMISSIONS AR_finance = [''finance.ledger.read'', ''finance.payments.read'', ''finance.refunds.read'',
     ''finance.payouts.read'', ''finance.reconciliation.read'']"
| "DEFAULT_PERMISSIONS AR_quality = [''quality.jobs.read'', ''quality.reviews.read'', ''quality.reviews.manage'',
     ''quality.providers.read'']"
| "DEFAULT_PERMISSIONS AR_trust_safety = [''trust.providers.read'', ''trust.credentials.manage'',
     ''trust.reviews.manage'', ''trust.audit.read'']"
| "DEFAULT_PERMISSIONS AR_sales = [''sales.leads.read'', ''sales.leads.manage'', ''sales.providers.read'']"
| "DEFAULT_PERMISSIONS AR_marketing = [''marketing.campaigns.read'', ''marketing.consents.read'',
     ''marketing.suppressions.read'']"
| "DEFAULT_PERMISSIONS AR_admin = [''admin.access.manage'', ''admin.audit.read'', ''admin.capabilities.read'',
     ''admin.integrations.read'']"
| "DEFAULT_PERMISSIONS AR_superadmin = [''*'']"

record assignment_read =
  ar_role :: access_role
  ar_department :: department
  ar_tenant_scope :: tenant_scope
  ar_vendor_id :: "uuid option"
  ar_is_primary :: bool

record portal_context =
  pc_user :: user_read
  pc_brand_key :: string
  pc_dashboard_path :: string
  pc_roles :: "access_role list"
  pc_departments :: "department list"
  pc_permissions :: "string list"
  pc_assignments :: "assignment_read list"
  pc_identity_mode :: string

text \<open>\<^verbatim>\<open>list(dict.fromkeys(xs))\<close> keeps the first of equal values.\<close>

definition first_occurrences :: "'a list \<Rightarrow> 'a list" where
  "first_occurrences xs = rev (remdups (rev xs))"

definition active_assignments :: "access_store \<Rightarrow> uuid \<Rightarrow> string \<Rightarrow> access_assignment list" where
  "active_assignments s user_id brand =
     sort_key (\<lambda>a. if aa_is_primary a then 0 else 1 :: nat)
       (sort_key created_at
         (filter (\<lambda>a. aa_user_id a = user_id \<and> aa_brand_key a = brand \<and> aa_active a) (access_assignments s)))"

fun read_assignments :: "access_assignment list \<Rightarrow> assignment_read list result" where
  "read_assignments [] = Inr []"
| "read_assignments (a # as) =
     bindE (access_role_of (aa_role_key a)) (\<lambda>r.
     bindE (department_of (aa_department a)) (\<lambda>d.
     bindE (tenant_scope_of (aa_tenant_scope a)) (\<lambda>c.
     bindE (read_assignments as) (\<lambda>rest.
     Inr (\<lparr>ar_role = r, ar_department = d, ar_tenant_scope = c, ar_vendor_id = aa_vendor_id a,
           ar_is_primary = aa_is_primary a\<rparr> # rest)))))"

definition assignment_reads :: "user \<Rightarrow> access_assignment list \<Rightarrow> assignment_read list result" where
  "assignment_reads u as =
     (if as = [] then
        (case DEFAULT_ACCESS (us_role u) of (r, d, c) \<Rightarrow>
           Inr [\<lparr>ar_role = r, ar_department = d, ar_tenant_scope = c, ar_vendor_id = None, ar_is_primary = True\<rparr>])
      else read_assignments as)"

text \<open>A list of permissions stands for their set; grants add to it and refusals remove from it, in order.\<close>

definition apply_grant :: "bool \<times> string \<Rightarrow> string list \<Rightarrow> string list" where
  "apply_grant g ps = (if fst g then (if snd g \<in> set ps then ps else ps @ [snd g]) else filter (\<lambda>p. p \<noteq> snd g) ps)"

definition permissions_of :: "access_store \<Rightarrow> uuid \<Rightarrow> string \<Rightarrow> access_role list \<Rightarrow> string list" where
  "permissions_of s user_id brand roles =
     List.fold apply_grant
       (map (\<lambda>r. (rp_allow r, rp_permission r))
          (filter (\<lambda>r. rp_role_key r \<in> set (map access_role_value roles)) (role_permissions s))
        @ map (\<lambda>p. (up_allow p, up_permission p))
          (filter (\<lambda>p. up_user_id p = user_id \<and> up_brand_key p = brand) (user_permissions s)))
       (concat (map DEFAULT_PERMISSIONS roles))"

definition context_of :: "bool \<Rightarrow> access_store \<Rightarrow> user \<Rightarrow> string \<Rightarrow> portal_context result" where
  "context_of keycloak s u brand =
     (let mode = (if keycloak then ''keycloak'' else ''local'');
          rows = active_assignments s (pk u) brand in
      if list_ex (\<lambda>p. ap_user_id p = pk u \<and> ap_brand_key p = brand) (profiles s) \<and> rows = []
      then Inr \<lparr>pc_user = read_user u, pc_brand_key = brand, pc_dashboard_path = NO_ACCESS_DASHBOARD, pc_roles = [],
              pc_departments = [], pc_permissions = [], pc_assignments = [], pc_identity_mode = mode\<rparr>
      else bindE (assignment_reads u rows) (\<lambda>as.
        let roles = first_occurrences (map ar_role as) in
        Inr \<lparr>pc_user = read_user u, pc_brand_key = brand, pc_dashboard_path = DASHBOARD_BY_ROLE (ar_role (hd as)),
          pc_roles = roles, pc_departments = first_occurrences (map ar_department as),
          pc_permissions = sorted_set (permissions_of s (pk u) brand roles), pc_assignments = as,
          pc_identity_mode = mode\<rparr>))"

record assignment_input =
  ai_role :: access_role
  ai_department :: department
  ai_tenant_scope :: tenant_scope
  ai_vendor_id :: "uuid option"
  ai_is_primary :: bool

text \<open>The validators of the request model.\<close>

definition vendor_scope_ok :: "assignment_input \<Rightarrow> bool" where
  "vendor_scope_ok i \<longleftrightarrow> (ai_tenant_scope i = TS_vendor \<longleftrightarrow> ai_vendor_id i \<noteq> None)"

definition profile_update_ok :: "assignment_input list \<Rightarrow> bool" where
  "profile_update_ok inputs \<longleftrightarrow> list_all vendor_scope_ok inputs \<and> count_where ai_is_primary inputs \<le> 1
     \<and> distinct (map (\<lambda>i. (ai_role i, ai_department i)) inputs) \<and> length inputs \<le> 32"

definition assignment_row :: "uuid \<Rightarrow> datetime \<Rightarrow> uuid \<Rightarrow> string \<Rightarrow> assignment_input \<Rightarrow> access_assignment" where
  "assignment_row i now user_id brand a =
     \<lparr>pk = i, created_at = now, aa_user_id = user_id, aa_brand_key = brand,
      aa_role_key = access_role_value (ai_role a), aa_department = department_value (ai_department a),
      aa_tenant_scope = tenant_scope_value (ai_tenant_scope a), aa_vendor_id = ai_vendor_id a,
      aa_active = True, aa_is_primary = ai_is_primary a\<rparr>"

definition replace_assignments ::
  "bool \<Rightarrow> datetime \<Rightarrow> uuid \<Rightarrow> (nat \<Rightarrow> uuid) \<Rightarrow> uuid \<Rightarrow> string \<Rightarrow> assignment_input list \<Rightarrow> access_store
   \<Rightarrow> (access_store, portal_context) outcome"
where
  "replace_assignments keycloak now profile_id new_id user_id brand inputs s =
     (case get_user (store s) user_id of
        None \<Rightarrow> (Inl (HTTPException 404 ''User not found''), s)
      | Some u \<Rightarrow>
          if \<not> list_all (\<lambda>i. case ai_vendor_id i of None \<Rightarrow> True | Some v \<Rightarrow> get_vendor (store s) v \<noteq> None) inputs
          then (Inl (IntegrityError ''access_assignments_vendor_id_fkey''), s)
          else
            let s' = s\<lparr>profiles := (if list_ex (\<lambda>p. ap_user_id p = user_id \<and> ap_brand_key p = brand) (profiles s)
                    then profiles s
                    else profiles s @ [\<lparr>pk = profile_id, created_at = now, ap_user_id = user_id, ap_brand_key = brand\<rparr>]),
                  access_assignments :=
                    filter (\<lambda>a. \<not> (aa_user_id a = user_id \<and> aa_brand_key a = brand)) (access_assignments s)
                    @ map2 (\<lambda>n i. assignment_row (new_id n) now user_id brand i) [0..<length inputs] inputs\<rparr>
            in (context_of keycloak s' u brand, s'))"

section \<open>Guards of the routes\<close>

fun EFFECTIVE_ROLES_BY_LEGACY_ROLE :: "user_role \<Rightarrow> access_role list" where
  "EFFECTIVE_ROLES_BY_LEGACY_ROLE UR_customer = [AR_customer]"
| "EFFECTIVE_ROLES_BY_LEGACY_ROLE UR_vendor_admin = [AR_vendor_admin]"
| "EFFECTIVE_ROLES_BY_LEGACY_ROLE UR_technician = [AR_technician]"
| "EFFECTIVE_ROLES_BY_LEGACY_ROLE UR_operations = [AR_operations, AR_ops_manager]"
| "EFFECTIVE_ROLES_BY_LEGACY_ROLE UR_finance = [AR_finance]"
| "EFFECTIVE_ROLES_BY_LEGACY_ROLE UR_admin = [AR_admin, AR_superadmin]"

definition forbidden :: api_error where "forbidden = HTTPException 403 ''Insufficient permissions''"

definition require_roles :: "bool \<Rightarrow> user_role list \<Rightarrow> access_store \<Rightarrow> user \<Rightarrow> user result" where
  "require_roles keycloak allowed s u =
     bindE (context_of keycloak s u BRAND_KEY) (\<lambda>c.
     bindE (ensure (list_ex (\<lambda>r. r \<in> set (concat (map EFFECTIVE_ROLES_BY_LEGACY_ROLE allowed))) (pc_roles c))
       forbidden) (\<lambda>_. Inr u))"

definition require_permissions :: "bool \<Rightarrow> string list \<Rightarrow> access_store \<Rightarrow> user \<Rightarrow> user result" where
  "require_permissions keycloak required s u =
     bindE (context_of keycloak s u BRAND_KEY) (\<lambda>c.
     bindE (ensure (''*'' \<in> set (pc_permissions c) \<or> list_all (\<lambda>p. strip p \<in> set (pc_permissions c))
         (filter (\<lambda>p. strip p \<noteq> []) required)) forbidden) (\<lambda>_. Inr u))"

section \<open>Changing a profile\<close>

definition replace_user_access ::
  "bool \<Rightarrow> datetime \<Rightarrow> uuid \<Rightarrow> (nat \<Rightarrow> uuid) \<Rightarrow> user \<Rightarrow> uuid \<Rightarrow> string \<Rightarrow> assignment_input list \<Rightarrow> access_store
   \<Rightarrow> (access_store, portal_context) outcome"
where
  "replace_user_access keycloak now profile_id new_id actor user_id brand inputs s =
     (case bindE (require_permissions keycloak [''admin.access.manage''] s actor) (\<lambda>_.
           bindE (ensure (profile_update_ok inputs) (ValueError ''AccessProfileUpdate'')) (\<lambda>_.
           if list_ex (\<lambda>i. ai_role i = AR_superadmin) inputs
           then bindE (context_of keycloak s actor brand) (\<lambda>c.
                ensure (''*'' \<in> set (pc_permissions c))
                  (HTTPException 403 ''Only superadmin can grant the superadmin role''))
           else Inr ())) of
        Inl e \<Rightarrow> (Inl e, s)
      | Inr _ \<Rightarrow> replace_assignments keycloak now profile_id new_id user_id brand inputs s)"

section \<open>Internal accounts\<close>

datatype internal_role = BREERO_SUPPORT | BREERO_DISPATCH | BREERO_ADMIN

fun ROLE_BINDINGS :: "internal_role \<Rightarrow> user_role \<times> access_role \<times> department \<times> tenant_scope" where
  "ROLE_BINDINGS BREERO_SUPPORT = (UR_finance, AR_support, DP_customer_support, TS_brand)"
| "ROLE_BINDINGS BREERO_DISPATCH = (UR_operations, AR_operations, DP_dispatch, TS_brand)"
| "ROLE_BINDINGS BREERO_ADMIN = (UR_admin, AR_admin, DP_administration, TS_global)"

fun internal_role_value :: "internal_role \<Rightarrow> string" where
  "internal_role_value BREERO_SUPPORT = ''BREERO_SUPPORT''"
| "internal_role_value BREERO_DISPATCH = ''BREERO_DISPATCH''"
| "internal_role_value BREERO_ADMIN = ''BREERO_ADMIN''"

record provision_request =
  pq_email :: string
  pq_full_name :: string
  pq_role :: internal_role
  pq_brand_key :: string

record provision_draws =
  pn_user_id :: uuid
  pn_profile_id :: uuid
  pn_assignment_id :: uuid
  pn_raw :: string
  pn_invitation :: token_draw

record provision_response =
  pp_user :: user_read
  pp_access :: portal_context
  pp_credential_mode :: string
  pp_invitation_state :: string

definition provisioned_user :: "bool \<Rightarrow> crypto \<Rightarrow> datetime \<Rightarrow> provision_draws \<Rightarrow> provision_request \<Rightarrow> user" where
  "provisioned_user keycloak k begun d r =
     \<lparr>pk = pn_user_id d, created_at = begun, us_email = lower (strip (pq_email r)), us_phone = None,
      us_password_hash = hash_password k (pn_raw d), us_full_name = strip (pq_full_name r),
      us_role = fst (ROLE_BINDINGS (pq_role r)), us_is_active = True, us_status = ''ACTIVE'',
      us_email_verified = keycloak, us_email_verified_at = None, us_phone_verified_at = None,
      us_last_login_at = None, us_credential_version = 1, us_password_set_required = False,
      us_keycloak_subject = None, us_keycloak_issuer = None, us_keycloak_username = None,
      us_keycloak_linked_at = None\<rparr>"

text \<open>
  Without Keycloak the account gets an invitation, whose event waits for its configuration unless mail
  can be delivered.
\<close>

definition add_invitation ::
  "crypto \<Rightarrow> bool \<Rightarrow> (nat \<Rightarrow> datetime) \<Rightarrow> uuid \<Rightarrow> provision_draws \<Rightarrow> provision_request \<Rightarrow> user
   \<Rightarrow> access_store \<Rightarrow> access_store result"
where
  "add_invitation k deliverable clk actor_id d r u s =
     (let t = pn_invitation d; key = ''internal-user-invitation:'' @ str_uuid (pk u);
          e = new_event (td_event_id t) ''user'' (pk u) ''internal_user_invitation_requested'' (Some key)
                [(''user_id'', JStr (str_uuid (pk u))), (''email'', JStr (us_email u)),
                 (''role'', JStr (internal_role_value (pq_role r))), (''token'', JStr (td_raw t))] (clk 2)
      in bindE (ensure (sha256_hex k (td_raw t) \<notin> set (map at_token_hash (invitations s))
              \<and> Some key \<notin> set (map ev_idempotency_key (events (store s)))) (IntegrityError ''invitation'')) (\<lambda>_.
         Inr (s\<lparr>invitations := invitations s @ [\<lparr>pk = td_id t, created_at = clk 0, at_user_id = pk u,
                 at_token_hash = sha256_hex k (td_raw t), at_expires_at = clk 1 + hours_of 24, at_used_at = None,
                 it_created_by = actor_id\<rparr>],
               acc := with_base (add_event (e\<lparr>ev_status := (if deliverable then E_PENDING
                 else E_PENDING_CONFIGURATION)\<rparr>)) (acc s)\<rparr>)))"

definition binding_input :: "internal_role \<Rightarrow> assignment_input" where
  "binding_input r = (case ROLE_BINDINGS r of (_, role, dept, scope) \<Rightarrow>
     \<lparr>ai_role = role, ai_department = dept, ai_tenant_scope = scope, ai_vendor_id = None, ai_is_primary = True\<rparr>)"

definition provision_body ::
  "bool \<Rightarrow> bool \<Rightarrow> crypto \<Rightarrow> (nat \<Rightarrow> datetime) \<Rightarrow> provision_draws \<Rightarrow> uuid \<Rightarrow> provision_request \<Rightarrow> access_store
   \<Rightarrow> (user \<times> access_store) result"
where
  "provision_body keycloak deliverable k clk d actor_id r s =
     (let u = provisioned_user keycloak k (clk 0) d r;
          s1 = s\<lparr>acc := with_base (\<lambda>b. b\<lparr>users := users b @ [u]\<rparr>) (acc s),
            profiles := profiles s @ [\<lparr>pk = pn_profile_id d, created_at = clk 0, ap_user_id = pk u,
              ap_brand_key = pq_brand_key r\<rparr>],
            access_assignments := access_assignments s
              @ [assignment_row (pn_assignment_id d) (clk 0) (pk u) (pq_brand_key r) (binding_input (pq_role r))]\<rparr>
      in bindE (if keycloak then Inr s1 else add_invitation k deliverable clk actor_id d r u s1) (\<lambda>s2.
         Inr (u, s2\<lparr>acc := with_base (add_audit \<lparr>al_actor_id = Some actor_id, al_actor_type = ''admin'',
             al_action = ''admin.user.provision'', al_resource_type = ''user'', al_resource_id = pk u,
             al_metadata_json = [(''role'', JStr (internal_role_value (pq_role r))),
               (''brand_key'', JStr (pq_brand_key r)),
               (''identity_mode'', JStr (if keycloak then ''keycloak'' else ''invitation''))],
             al_created_at = clk 3\<rparr>) (acc s2)\<rparr>)))"

definition provision ::
  "bool \<Rightarrow> bool \<Rightarrow> crypto \<Rightarrow> (nat \<Rightarrow> datetime) \<Rightarrow> provision_draws \<Rightarrow> user \<Rightarrow> provision_request \<Rightarrow> access_store
   \<Rightarrow> (access_store, provision_response) outcome"
where
  "provision keycloak deliverable k clk d actor r s =
     (case require_permissions keycloak [''admin.access.manage''] s actor of
        Inl e \<Rightarrow> (Inl e, s)
      | Inr _ \<Rightarrow>
          if user_by_email (store s) (lower (strip (pq_email r))) \<noteq> None
          then (Inl (HTTPException 409 ''Email already registered''), s)
          else (case provision_body keycloak deliverable k clk d (pk actor) r s of
                  Inl (IntegrityError _) \<Rightarrow> (Inl (HTTPException 409 ''Email already registered''), s)
                | Inl e \<Rightarrow> (Inl e, s)
                | Inr (u, s') \<Rightarrow>
                    (bindE (context_of keycloak s' u (pq_brand_key r)) (\<lambda>c.
                     Inr \<lparr>pp_user = read_user u, pp_access = c,
                       pp_credential_mode = (if keycloak then ''keycloak'' else ''invitation''),
                       pp_invitation_state = (if keycloak then ''not_required''
                         else if deliverable then ''pending_delivery'' else ''pending_configuration'')\<rparr>), s')))"

section \<open>Identities of Keycloak\<close>

text \<open>
  Claims of a token that Keycloak issued.  Identity providers send texts for \<^verbatim>\<open>iss\<close>, \<^verbatim>\<open>sub\<close>,
  \<^verbatim>\<open>email\<close>, \<^verbatim>\<open>name\<close> and \<^verbatim>\<open>preferred_username\<close>; anything else reads as missing here.
\<close>

definition claim_text :: "json_object \<Rightarrow> string \<Rightarrow> string" where
  "claim_text claims n = (case map_of claims n of Some (JStr t) \<Rightarrow> t | _ \<Rightarrow> [])"

definition json_strings :: "json option \<Rightarrow> string list" where
  "json_strings j = (case j of Some (JList xs) \<Rightarrow> concat (map (\<lambda>x. case x of JStr t \<Rightarrow> [t] | _ \<Rightarrow> []) xs) | _ \<Rightarrow> [])"

definition json_member :: "json option \<Rightarrow> string \<Rightarrow> json option" where
  "json_member j n = (case j of Some (JObj m) \<Rightarrow> map_of m n | _ \<Rightarrow> None)"

fun required_role :: "user_role \<Rightarrow> string" where
  "required_role UR_customer = ''breero_customer''"
| "required_role UR_vendor_admin = ''breero_provider''"
| "required_role UR_technician = ''breero_worker''"
| "required_role UR_operations = ''breero_dispatcher''"
| "required_role UR_finance = ''breero_support''"
| "required_role UR_admin = ''breero_admin''"

definition identity_by_subject :: "access_store \<Rightarrow> string \<Rightarrow> string \<Rightarrow> identity_link option" where
  "identity_by_subject s issuer subject =
     find (\<lambda>l. il_brand_key l = BRAND_KEY \<and> il_issuer l = issuer \<and> il_subject l = subject) (identities s)"

definition identity_by_user_issuer :: "access_store \<Rightarrow> string \<Rightarrow> uuid \<Rightarrow> identity_link option" where
  "identity_by_user_issuer s issuer user_id =
     find (\<lambda>l. il_brand_key l = BRAND_KEY \<and> il_issuer l = issuer \<and> il_user_id l = user_id) (identities s)"

text \<open>
  \<^verbatim>\<open>_keycloak_user\<close>.  The link of a new identity is committed before the role is checked; with handlers
  in sequence its two unique keys were just checked, so the flush cannot fail.
\<close>

definition keycloak_user ::
  "datetime \<Rightarrow> uuid \<Rightarrow> json_object \<Rightarrow> access_store \<Rightarrow> (access_store, user) outcome"
where
  "keycloak_user now new_id claims s =
     (let email = lower (strip (claim_text claims ''email''));
          subject = strip (claim_text claims ''sub'');
          issuer = rstrip_slash (claim_text claims ''iss'');
          checked = (\<lambda>u. bindE (ensure (required_role (us_role u)
              \<in> set (json_strings (json_member (map_of claims ''realm_access'') ''roles'')))
            (HTTPException 403 ''Account role is not authorized'')) (\<lambda>_. Inr u)) in
      if email = [] \<or> subject = [] \<or> issuer = [] \<or> \<not> truthy (map_of claims ''email_verified'')
      then (Inl (HTTPException 401 ''Verified account required''), s)
      else case identity_by_subject s issuer subject of
        Some l \<Rightarrow>
          (bindE (of_option (HTTPException 401 ''Invalid or inactive account'') (get_user (store s) (il_user_id l)))
             checked, s)
      | None \<Rightarrow>
          (case user_by_email (store s) email of
             None \<Rightarrow> (Inl (HTTPException 403 ''Account is not provisioned''), s)
           | Some u \<Rightarrow>
               if identity_by_user_issuer s issuer (pk u) \<noteq> None
               then (Inl (HTTPException 403 ''Identity does not match provisioned account''), s)
               else (checked u, s\<lparr>identities := identities s @ [\<lparr>pk = new_id, created_at = now, il_user_id = pk u,
                       il_brand_key = BRAND_KEY, il_issuer = issuer, il_subject = subject, il_email = email\<rparr>]\<rparr>)))"

text \<open>\<^verbatim>\<open>current_user\<close>, from the claims of the token on.\<close>

definition current_user ::
  "settings \<Rightarrow> datetime \<Rightarrow> uuid \<Rightarrow> json_object \<Rightarrow> access_store \<Rightarrow> (access_store, user) outcome"
where
  "current_user cfg now new_id claims s =
     (let issuer = rstrip_slash (claim_text claims ''iss'') in
      if keycloak_enabled cfg \<and> issuer \<noteq> [] \<and> issuer = rstrip_slash (keycloak_issuer cfg)
      then (case keycloak_user now new_id claims s of
              (Inl e, s') \<Rightarrow> (Inl e, s')
            | (Inr u, s') \<Rightarrow> if us_is_active u then (Inr u, s') else (Inl inactive_account, s'))
      else (account_of_claims claims (store s), s))"

section \<open>The login by Keycloak\<close>

definition ROLE_MAP :: "(string \<times> user_role) list" where
  "ROLE_MAP = [(''breero_admin'', UR_admin), (''breero_dispatch'', UR_operations), (''breero_support'', UR_finance),
     (''breero_provider_admin'', UR_vendor_admin), (''breero_provider'', UR_technician),
     (''breero_client'', UR_customer)]"

definition safe_return :: "string \<Rightarrow> string \<Rightarrow> string \<Rightarrow> string \<Rightarrow> string" where
  "safe_return web provider admin return_to =
     (if return_to = ''/provider'' then rstrip_slash provider
      else if return_to = ''/admin'' then rstrip_slash admin
      else rstrip_slash web @ ''/account'')"

definition roles_from_claims :: "string \<Rightarrow> string \<Rightarrow> json_object \<Rightarrow> string list" where
  "roles_from_claims audience client_id claims =
     json_strings (json_member (map_of claims ''realm_access'') ''roles'')
     @ concat (map (\<lambda>c. json_strings (json_member (json_member (map_of claims ''resource_access'') c) ''roles''))
         [audience, client_id])"

text \<open>
  \<^verbatim>\<open>link_identity\<close>.  A user that does not exist yet gets a coroutine as its password hash, which the flush
  refuses.  The claims of an identity token contain \<^verbatim>\<open>iss\<close> and \<^verbatim>\<open>sub\<close>.
\<close>

definition linked_user :: "datetime \<Rightarrow> user_role \<Rightarrow> json_object \<Rightarrow> user \<Rightarrow> user" where
  "linked_user now mapped claims u =
     (let email = lower (strip (claim_text claims ''email''));
          verified = (map_of claims ''email_verified'' = Some (JBool True));
          name = claim_text claims ''preferred_username'';
          first_of = (\<lambda>x. case x of None \<Rightarrow> Some now | Some y \<Rightarrow> Some y)
      in u\<lparr>us_keycloak_subject := Some (claim_text claims ''sub''), us_keycloak_issuer := Some (claim_text claims ''iss''),
           us_keycloak_username := (if name = [] then None else Some name),
           us_keycloak_linked_at := first_of (us_keycloak_linked_at u), us_role := mapped, us_is_active := True,
           us_email := (if email = [] then us_email u else email),
           us_email_verified := (verified \<or> us_email_verified u),
           us_email_verified_at := (if verified then first_of (us_email_verified_at u) else us_email_verified_at u)\<rparr>)"

definition link_identity ::
  "string \<Rightarrow> string \<Rightarrow> datetime \<Rightarrow> json_object \<Rightarrow> db \<Rightarrow> (user \<times> db) result"
where
  "link_identity audience client_id now claims s =
     (let issuer = claim_text claims ''iss''; subject = claim_text claims ''sub'';
          email = lower (strip (claim_text claims ''email''));
          verified = (map_of claims ''email_verified'' = Some (JBool True));
          by_subject = find (\<lambda>u. us_keycloak_issuer u = Some issuer \<and> us_keycloak_subject u = Some subject) (users s);
          candidate = (if by_subject = None \<and> email \<noteq> [] \<and> verified
             then (case user_by_email s email of
                     Some c \<Rightarrow> if given (us_keycloak_subject c) then None else Some c
                   | None \<Rightarrow> None)
             else by_subject) in
      bindE (of_option (HTTPException 403 ''A Breero role is required'')
          (map_option snd (find (\<lambda>x. fst x \<in> set (roles_from_claims audience client_id claims)) ROLE_MAP))) (\<lambda>mapped.
      bindE (case candidate of
               None \<Rightarrow> if email = [] \<or> \<not> verified then Inl (HTTPException 403 ''A verified email is required'')
                       else Inl (DataError ''users.password_hash'')
             | Some u \<Rightarrow> if given (us_keycloak_subject u) \<and> us_keycloak_subject u \<noteq> Some subject
                         then Inl (HTTPException 409 ''Identity is already linked'') else Inr u) (\<lambda>u.
      let u' = linked_user now mapped claims u in
      bindE (ensure (\<not> list_ex (\<lambda>x. pk x \<noteq> pk u \<and> (us_email x = us_email u' \<or> us_keycloak_subject x = Some subject)) (users s))
        (IntegrityError ''users'')) (\<lambda>_.
      Inr (u', s\<lparr>users := update_row pk (pk u) (\<lambda>_. u') (users s)\<rparr>)))))"

section \<open>Well-formed profiles\<close>

definition assignment_ok :: "access_assignment \<Rightarrow> bool" where
  "assignment_ok a \<longleftrightarrow> (\<exists>r d c. aa_role_key a = access_role_value r \<and> aa_department a = department_value d
     \<and> aa_tenant_scope a = tenant_scope_value c \<and> (c = TS_vendor \<longleftrightarrow> aa_vendor_id a \<noteq> None))"

definition superadmin_free :: "access_store \<Rightarrow> bool" where
  "superadmin_free s \<longleftrightarrow> (\<forall>a \<in> set (access_assignments s). aa_role_key a \<noteq> ''superadmin'')
     \<and> (\<forall>r \<in> set (role_permissions s). rp_allow r \<longrightarrow> rp_permission r \<noteq> ''*'')
     \<and> (\<forall>p \<in> set (user_permissions s). up_allow p \<longrightarrow> up_permission p \<noteq> ''*'')"

text \<open>The last rule stands for every change of the shared tables and the account tables.\<close>

inductive access_step :: "access_store \<Rightarrow> access_store \<Rightarrow> bool" where
  xs_replace: "replace_user_access keycloak now profile_id new_id actor user_id brand inputs s = (res, s') \<Longrightarrow>
     access_step s s'"
| xs_provision: "provision keycloak deliverable k clk d actor r s = (pres, s') \<Longrightarrow> access_step s s'"
| xs_current: "current_user cfg now new_id claims s = (ures, s') \<Longrightarrow> access_step s s'"
| xs_other: "access_step s (s\<lparr>acc := a\<rparr>)"

lemma set_first_occurrences [simp]: "set (first_occurrences xs) = set xs"
  by (simp add: first_occurrences_def)

lemma first_occurrences_hd: "xs \<noteq> [] \<Longrightarrow> hd (first_occurrences xs) = hd xs"
proof -
  have "ys @ [y] \<noteq> [] \<Longrightarrow> last (remdups (ys @ [y])) = y" for y and ys :: "'a list"
    by (induction ys) (auto simp: last_ConsR)
  then show "xs \<noteq> [] \<Longrightarrow> hd (first_occurrences xs) = hd xs"
    by (cases xs) (simp_all add: first_occurrences_def hd_rev)
qed

lemma first_occurrences_Nil [simp]: "first_occurrences xs = [] \<longleftrightarrow> xs = []"
  by (metis empty_set set_empty set_first_occurrences)

lemma map2_mem: "a \<in> set (map2 f ns xs) \<Longrightarrow> \<exists>n b. b \<in> set xs \<and> a = f n b"
  by (auto dest: set_zip_rightD)

lemma replace_assignments_tables:
  assumes "replace_assignments keycloak now profile_id new_id user_id brand inputs s = (res, s')"
  shows "\<forall>a \<in> set (access_assignments s'). a \<in> set (access_assignments s)
      \<or> (\<exists>i b. b \<in> set inputs \<and> a = assignment_row i now user_id brand b)"
    and "role_permissions s' = role_permissions s" and "user_permissions s' = user_permissions s"
proof -
  define new where "new = map2 (\<lambda>n i. assignment_row (new_id n) now user_id brand i) [0..<length inputs] inputs"
  from assms have cases: "s' = s \<or> (access_assignments s'
      = filter (\<lambda>a. \<not> (aa_user_id a = user_id \<and> aa_brand_key a = brand)) (access_assignments s) @ new
      \<and> role_permissions s' = role_permissions s \<and> user_permissions s' = user_permissions s)"
    by (auto simp: replace_assignments_def new_def Let_def split: option.splits if_splits)
  moreover have "\<exists>i b. b \<in> set inputs \<and> a = assignment_row i now user_id brand b" if "a \<in> set new" for a
    using map2_mem [OF that [unfolded new_def]] by blast
  ultimately have "\<exists>i b. b \<in> set inputs \<and> a = assignment_row i now user_id brand b"
    if "a \<in> set (access_assignments s')" "a \<notin> set (access_assignments s)" for a
    using that by fastforce
  then show "\<forall>a \<in> set (access_assignments s'). a \<in> set (access_assignments s)
      \<or> (\<exists>i b. b \<in> set inputs \<and> a = assignment_row i now user_id brand b)"
    by blast
  show "role_permissions s' = role_permissions s" "user_permissions s' = user_permissions s"
    using cases by auto
qed

lemma add_invitation_tables:
  "add_invitation k deliverable clk actor_id d r u s = Inr s' \<Longrightarrow> access_assignments s' = access_assignments s
    \<and> role_permissions s' = role_permissions s \<and> user_permissions s' = user_permissions s"
  by (auto simp: add_invitation_def Let_def elim!: bindE_InrE)

lemma provision_body_tables:
  assumes "provision_body keycloak deliverable k clk d actor_id r s = Inr (u, s')"
  shows "access_assignments s' = access_assignments s @ [assignment_row (pn_assignment_id d) (clk 0) (pn_user_id d)
      (pq_brand_key r) (binding_input (pq_role r))]
    \<and> role_permissions s' = role_permissions s \<and> user_permissions s' = user_permissions s"
  using assms
  by (cases keycloak) (auto simp: provision_body_def Let_def provisioned_user_def elim!: bindE_InrE dest!: add_invitation_tables)

lemma provision_tables:
  assumes "provision keycloak deliverable k clk d actor r s = (res, s')"
  shows "s' = s \<or> (access_assignments s' = access_assignments s @ [assignment_row (pn_assignment_id d) (clk 0)
      (pn_user_id d) (pq_brand_key r) (binding_input (pq_role r))]
    \<and> role_permissions s' = role_permissions s \<and> user_permissions s' = user_permissions s)"
proof (cases "provision_body keycloak deliverable k clk d (pk actor) r s")
  case (Inl e)
  with assms show ?thesis
    by (auto simp: provision_def split: sum.splits if_splits api_error.splits)
next
  case (Inr out)
  obtain u s1 where out: "out = (u, s1)" by (cases out)
  from assms Inr out have "s' = s \<or> s' = s1"
    by (auto simp: provision_def split: sum.splits if_splits)
  with provision_body_tables [OF Inr [unfolded out]] show ?thesis by blast
qed

lemma keycloak_user_tables:
  "keycloak_user now new_id claims s = (res, s') \<Longrightarrow> access_assignments s' = access_assignments s
    \<and> role_permissions s' = role_permissions s \<and> user_permissions s' = user_permissions s"
  by (auto simp: keycloak_user_def Let_def split: if_splits option.splits)

lemma current_user_tables:
  assumes "current_user cfg now new_id claims s = (res, s')"
  shows "access_assignments s' = access_assignments s \<and> role_permissions s' = role_permissions s
    \<and> user_permissions s' = user_permissions s"
proof (cases "keycloak_user now new_id claims s")
  case (Pair r s1)
  from keycloak_user_tables [OF this] assms Pair show ?thesis
    by (auto simp: current_user_def Let_def split: if_splits sum.splits)
qed

section \<open>The superadmin role is granted by superadmins\<close>

lemma apply_grants_mem:
  "p \<in> set (List.fold apply_grant gs ps) \<Longrightarrow> p \<in> set ps \<or> (True, p) \<in> set gs"
proof (induction gs arbitrary: ps)
  case (Cons g gs)
  then have "p \<in> set (apply_grant g ps) \<or> (True, p) \<in> set gs" by simp
  then show ?case by (cases g) (auto simp: apply_grant_def split: if_splits)
qed simp

lemma wildcard_default: "''*'' \<in> set (DEFAULT_PERMISSIONS r) \<longleftrightarrow> r = AR_superadmin"
  by (cases r) simp_all

lemma read_assignments_mem:
  assumes "read_assignments as = Inr rs" and "x \<in> set rs"
  shows "\<exists>a \<in> set as. access_role_of (aa_role_key a) = Inr (ar_role x)
    \<and> tenant_scope_of (aa_tenant_scope a) = Inr (ar_tenant_scope x) \<and> ar_vendor_id x = aa_vendor_id a"
  using assms
  by (induction as arbitrary: rs) (auto elim!: bindE_InrE)

lemma access_role_of_superadmin: "access_role_of t = Inr AR_superadmin \<Longrightarrow> t = ''superadmin''"
  by (auto simp: access_role_of_def dest!: find_SomeD)

lemma context_no_wildcard:
  assumes "superadmin_free s" and "context_of keycloak s u brand = Inr c"
  shows "''*'' \<notin> set (pc_permissions c) \<and> AR_superadmin \<notin> set (pc_roles c)"
proof (cases "pc_roles c = [] \<and> pc_permissions c = []")
  case True
  then show ?thesis by simp
next
  case False
  let ?rows = "active_assignments s (pk u) brand"
  from assms(2) False obtain as where as: "assignment_reads u ?rows = Inr as"
    and roles: "pc_roles c = first_occurrences (map ar_role as)"
    and perms: "set (pc_permissions c) = set (permissions_of s (pk u) brand (pc_roles c))"
    by (auto simp: context_of_def Let_def split: if_splits elim!: bindE_InrE)
  have none: "AR_superadmin \<notin> set (pc_roles c)"
  proof
    assume "AR_superadmin \<in> set (pc_roles c)"
    then obtain x where x: "x \<in> set as" "ar_role x = AR_superadmin" by (auto simp: roles)
    show False
    proof (cases "?rows = []")
      case True
      with as x show False by (cases "us_role u") (auto simp: assignment_reads_def)
    next
      case False
      with as have "read_assignments ?rows = Inr as" by (simp add: assignment_reads_def)
      from read_assignments_mem [OF this x(1)] x(2) obtain a where "a \<in> set ?rows"
        "access_role_of (aa_role_key a) = Inr AR_superadmin" by auto
      then have "a \<in> set (access_assignments s)" "aa_role_key a = ''superadmin''"
        by (auto simp: active_assignments_def dest: access_role_of_superadmin)
      with assms(1) show False by (auto simp: superadmin_free_def)
    qed
  qed
  have "''*'' \<notin> set (permissions_of s (pk u) brand (pc_roles c))"
  proof
    assume "''*'' \<in> set (permissions_of s (pk u) brand (pc_roles c))"
    then have "(\<exists>r \<in> set (pc_roles c). ''*'' \<in> set (DEFAULT_PERMISSIONS r))
      \<or> (\<exists>r \<in> set (role_permissions s). rp_allow r \<and> rp_permission r = ''*'')
      \<or> (\<exists>p \<in> set (user_permissions s). up_allow p \<and> up_permission p = ''*'')"
      unfolding permissions_of_def by (drule_tac apply_grants_mem) auto
    with none assms(1) show False by (auto simp: wildcard_default superadmin_free_def)
  qed
  with none perms show ?thesis by simp
qed

lemma access_role_value_superadmin: "access_role_value r = ''superadmin'' \<longleftrightarrow> r = AR_superadmin"
  by (cases r) simp_all

lemma superadmin_free_step:
  assumes "access_step s s'" and "superadmin_free s"
  shows "superadmin_free s'"
  using assms
proof (induction rule: access_step.induct)
  case (xs_replace keycloak now profile_id new_id actor user_id brand inputs s res s')
  show ?case
  proof (cases "list_ex (\<lambda>i. ai_role i = AR_superadmin) inputs")
    case True
    with xs_replace context_no_wildcard [OF xs_replace(2), of keycloak actor brand] have "s' = s"
      by (auto simp: replace_user_access_def split: sum.splits elim!: bindE_InrE)
    with xs_replace show ?thesis by simp
  next
    case False
    from xs_replace(1) have "s' = s \<or> replace_assignments keycloak now profile_id new_id user_id brand inputs s = (res, s')"
      by (auto simp: replace_user_access_def split: sum.splits)
    then show ?thesis
    proof
      assume "replace_assignments keycloak now profile_id new_id user_id brand inputs s = (res, s')"
      note tables = replace_assignments_tables [OF this]
      have "aa_role_key a \<noteq> ''superadmin''" if "a \<in> set (access_assignments s')" for a
      proof -
        from tables(1) that consider "a \<in> set (access_assignments s)"
          | i b where "b \<in> set inputs" "a = assignment_row i now user_id brand b" by blast
        then show ?thesis
        proof cases
          case 1
          with xs_replace(2) show ?thesis by (simp add: superadmin_free_def)
        next
          case 2
          with False show ?thesis
            by (auto simp: assignment_row_def list_ex_iff access_role_value_superadmin)
        qed
      qed
      with xs_replace(2) show ?thesis by (simp add: superadmin_free_def tables(2,3))
    qed (use xs_replace in simp)
  qed
next
  case (xs_provision keycloak deliverable k clk d actor r s pres s')
  from provision_tables [OF xs_provision(1)] xs_provision(2) show ?case
    by (cases "pq_role r") (auto simp: superadmin_free_def assignment_row_def binding_input_def)
next
  case (xs_current cfg now new_id claims s ures s')
  from current_user_tables [OF xs_current(1)] xs_current(2) show ?case by (simp add: superadmin_free_def)
qed (simp add: superadmin_free_def)


section \<open>Every stored profile can be read\<close>

definition assignments_ok :: "access_store \<Rightarrow> bool" where
  "assignments_ok s \<longleftrightarrow> (\<forall>a \<in> set (access_assignments s). assignment_ok a)"

lemma assignment_row_ok: "vendor_scope_ok a \<Longrightarrow> assignment_ok (assignment_row i now user_id brand a)"
  unfolding assignment_ok_def assignment_row_def vendor_scope_ok_def
  by (rule exI [of _ "ai_role a"], rule exI [of _ "ai_department a"], rule exI [of _ "ai_tenant_scope a"]) simp

lemma assignments_ok_step:
  assumes "access_step s s'" and "assignments_ok s"
  shows "assignments_ok s'"
  using assms
proof (induction rule: access_step.induct)
  case (xs_replace keycloak now profile_id new_id actor user_id brand inputs s res s')
  from xs_replace(1) have "s' = s \<or> (list_all vendor_scope_ok inputs
      \<and> replace_assignments keycloak now profile_id new_id user_id brand inputs s = (res, s'))"
    by (auto simp: replace_user_access_def profile_update_ok_def split: sum.splits elim!: bindE_InrE)
  then show ?case
  proof (elim disjE conjE)
    assume ok: "list_all vendor_scope_ok inputs"
      and "replace_assignments keycloak now profile_id new_id user_id brand inputs s = (res, s')"
    from replace_assignments_tables(1) [OF this(2)] xs_replace(2) show ?thesis
      unfolding assignments_ok_def using ok assignment_row_ok unfolding list_all_iff by blast
  qed (use xs_replace in simp)
next
  case (xs_provision keycloak deliverable k clk d actor r s pres s')
  from provision_tables [OF xs_provision(1)] xs_provision(2) show ?case
    by (cases "pq_role r") (auto simp: assignments_ok_def vendor_scope_ok_def binding_input_def intro!: assignment_row_ok)
next
  case (xs_current cfg now new_id claims s ures s')
  from current_user_tables [OF xs_current(1)] xs_current(2) show ?case by (simp add: assignments_ok_def)
qed (simp add: assignments_ok_def)

lemma read_assignments_total:
  "\<forall>a \<in> set as. assignment_ok a \<Longrightarrow> \<exists>rs. read_assignments as = Inr rs \<and> length rs = length as
    \<and> (\<forall>x \<in> set rs. ar_tenant_scope x = TS_vendor \<longleftrightarrow> ar_vendor_id x \<noteq> None)"
proof (induction as)
  case (Cons a as)
  then obtain rs where rs: "read_assignments as = Inr rs" "length rs = length as"
    "\<forall>x \<in> set rs. ar_tenant_scope x = TS_vendor \<longleftrightarrow> ar_vendor_id x \<noteq> None" by auto
  from Cons.prems obtain r d c where "aa_role_key a = access_role_value r" "aa_department a = department_value d"
    "aa_tenant_scope a = tenant_scope_value c" "c = TS_vendor \<longleftrightarrow> aa_vendor_id a \<noteq> None"
    by (auto simp: assignment_ok_def)
  with rs show ?case by simp
qed simp


section \<open>The role names of Keycloak\<close>

text \<open>
  The login maps a role name of Keycloak to a local role, and the guard of every request asks for a name
  by the local role.  The two tables agree on administrators and support only.
\<close>

lemma role_names_disagree:
  assumes "(name, role) \<in> set ROLE_MAP"
  shows "required_role role = name \<longleftrightarrow> name = ''breero_admin'' \<or> name = ''breero_support''"
proof -
  have "list_all (\<lambda>x. (required_role (snd x) = fst x) = (fst x = ''breero_admin'' \<or> fst x = ''breero_support'')) ROLE_MAP"
    by code_simp
  with assms show ?thesis by (auto simp: list_all_iff)
qed

lemma keycloak_role_refused:
  assumes "(name, us_role u) \<in> set ROLE_MAP" and "name \<noteq> ''breero_admin''" and "name \<noteq> ''breero_support''"
    and "json_strings (json_member (map_of claims ''realm_access'') ''roles'') = [name]"
    and "identity_by_subject s (rstrip_slash (claim_text claims ''iss'')) (strip (claim_text claims ''sub'')) = Some l"
    and "get_user (store s) (il_user_id l) = Some u"
  shows "isl (fst (keycloak_user now new_id claims s))"
  using role_names_disagree [OF assms(1)] assms(2-6)
  by (simp add: keycloak_user_def Let_def of_option_def ensure_def)

section \<open>A sample profile\<close>

definition sample_admin :: user where
  "sample_admin = \<lparr>pk = 1, created_at = 0, us_email = ''root@example.com'', us_phone = None, us_password_hash = [],
     us_full_name = ''Root'', us_role = UR_admin, us_is_active = True, us_status = ''ACTIVE'', us_email_verified = True,
     us_email_verified_at = None, us_phone_verified_at = None, us_last_login_at = None, us_credential_version = 1,
     us_password_set_required = False, us_keycloak_subject = None, us_keycloak_issuer = None,
     us_keycloak_username = None, us_keycloak_linked_at = None\<rparr>"

definition admin_store :: access_store where
  "admin_store = \<lparr>acc = \<lparr>base = empty_db\<lparr>users := [sample_admin]\<rparr>, reset_tokens = [], email_tokens = [], phone_tokens = []\<rparr>,
     profiles = [], access_assignments = [], role_permissions = [], user_permissions = [], identities = [], invitations = []\<rparr>"

definition quality_input :: assignment_input where
  "quality_input = \<lparr>ai_role = AR_quality, ai_department = DP_quality, ai_tenant_scope = TS_brand, ai_vendor_id = None,
     ai_is_primary = True\<rparr>"

definition granted :: "portal_context result \<times> access_store" where
  "granted = replace_user_access False 5 2 (\<lambda>n. 3 + n) sample_admin 1 BRAND_KEY [quality_input] admin_store"

lemma granted_step: "access_step\<^sup>*\<^sup>* admin_store (snd granted)"
proof -
  have "access_step admin_store (snd granted)"
    by (rule xs_replace [where res = "fst granted"]) (simp add: granted_def)
  then show ?thesis by (rule r_into_rtranclp)
qed



end
