(* ===== verification/Provider_Catalog.thy ===== *)
theory Provider_Catalog
  imports Access Booking_Intents
begin

text \<open>
  What a provider offers (\<^verbatim>\<open>provider_catalog/\<close>, \<^verbatim>\<open>api/v1/provider_catalog.py\<close>): the services of an
  organisation and the skills of its professionals, selected from the catalogue under optimistic
  versions and copied into the application of the organisation.

  The store is that of \<open>Access\<close> with the tables that only providers use.
\<close>

section \<open>The store\<close>

record skill_definition = row +
  sk_key :: string
  sk_name :: string
  sk_category :: string
  sk_description :: "string option"
  sk_provider_approval_required :: bool
  sk_active :: bool
  sk_version :: int

record service_skill_requirement = row +
  sr_service_id :: uuid
  sr_skill_id :: uuid
  sr_required :: bool

record provider_catalog_skill = row +
  pck_vendor_id :: uuid
  pck_worker_id :: uuid
  pck_skill_id :: uuid
  pck_status :: approval_status
  pck_active :: bool
  pck_version :: int
  pck_reviewed_by :: "uuid option"
  pck_reviewed_at :: "datetime option"
  pck_rejection_reason :: "string option"

datatype application_status =
    PA_DRAFT | PA_PENDING | PA_INFORMATION_REQUESTED | PA_APPROVED | PA_REJECTED

text \<open>
  The JSON columns that a provider writes can hold the JSON value \<^verbatim>\<open>null\<close>, here \<open>None\<close>; the two that
  the catalogue writes are lists of texts.
\<close>

record provider_application = row +
  pa_vendor_id :: uuid
  pa_status :: application_status
  pa_identity :: "json_object option"
  pa_business :: "json_object option"
  pa_contact_details :: "json_object option"
  pa_services :: "string list"
  pa_skills :: "string list"
  pa_service_areas :: "json_object list option"
  pa_postal_codes :: "string list option"
  pa_availability :: "json_object option"
  pa_capacity :: "json_object option"
  pa_licenses :: "json_object list option"
  pa_insurance :: "json_object list option"
  pa_compliance_documents :: "uuid list option"
  pa_version :: int
  pa_submitted_at :: "datetime option"
  pa_decided_at :: "datetime option"
  pa_reviewed_by :: "uuid option"
  pa_decision_reason :: "string option"
  pa_requested_information :: "string option"

record provider_store =
  portal :: access_store
  applications :: "provider_application list"
  catalog_skills :: "provider_catalog_skill list"
  skill_definitions :: "skill_definition list"
  skill_requirements :: "service_skill_requirement list"

interpretation application_table:
  keyed_table "applications :: provider_store \<Rightarrow> provider_application list" "\<lambda>rs s. s\<lparr>applications := rs\<rparr>" pk
  by unfold_locales simp_all

interpretation catalog_skill_table:
  keyed_table "catalog_skills :: provider_store \<Rightarrow> provider_catalog_skill list" "\<lambda>rs s. s\<lparr>catalog_skills := rs\<rparr>" pk
  by unfold_locales simp_all

abbreviation tables :: "provider_store \<Rightarrow> db" where
  "tables s \<equiv> store (portal s)"

abbreviation with_tables :: "(db \<Rightarrow> db) \<Rightarrow> provider_store \<Rightarrow> provider_store" where
  "with_tables f s \<equiv> s\<lparr>portal := (portal s)\<lparr>acc := with_base f (acc (portal s))\<rparr>\<rparr>"

abbreviation put_application :: "provider_application \<Rightarrow> provider_store \<Rightarrow> provider_store" where
  "put_application a s \<equiv> s\<lparr>applications := update_row pk (pk a) (\<lambda>_. a) (applications s)\<rparr>"

section \<open>The repository\<close>

text \<open>The assignment that names a vendor decides; without one, the ownership of a vendor.\<close>

definition vendor_for_user :: "provider_store \<Rightarrow> user \<Rightarrow> vendor option" where
  "vendor_for_user s u =
     (case filter (\<lambda>a. aa_tenant_scope a = tenant_scope_value TS_vendor \<and> aa_vendor_id a \<noteq> None)
             (active_assignments (portal s) (pk u) BRAND_KEY) of
        a # _ \<Rightarrow> find (\<lambda>v. Some (pk v) = aa_vendor_id a) (vendors (tables s))
      | [] \<Rightarrow> find (\<lambda>v. vn_owner_user_id v = Some (pk u)) (vendors (tables s)))"

definition primary_worker :: "provider_store \<Rightarrow> uuid \<Rightarrow> uuid \<Rightarrow> worker option" where
  "primary_worker s vendor_id user_id =
     (case sort_key created_at (sort_key pk
             (filter (\<lambda>w. wk_vendor_id w = vendor_id \<and> wk_user_id w = Some user_id) (workers (tables s)))) of
        [] \<Rightarrow> None | w # _ \<Rightarrow> Some w)"

definition vendor_worker :: "provider_store \<Rightarrow> uuid \<Rightarrow> uuid \<Rightarrow> worker option" where
  "vendor_worker s vendor_id worker_id =
     find (\<lambda>w. pk w = worker_id \<and> wk_vendor_id w = vendor_id) (workers (tables s))"

definition active_catalog_service :: "provider_store \<Rightarrow> uuid \<Rightarrow> service option" where
  "active_catalog_service s service_id = find (\<lambda>v. pk v = service_id \<and> sv_is_active v) (services (tables s))"

definition active_skill :: "provider_store \<Rightarrow> uuid \<Rightarrow> skill_definition option" where
  "active_skill s skill_id = find (\<lambda>k. pk k = skill_id \<and> sk_active k) (skill_definitions s)"

definition owned_service :: "provider_store \<Rightarrow> uuid \<Rightarrow> uuid \<Rightarrow> provider_catalog_service option" where
  "owned_service s vendor_id i = find (\<lambda>p. pk p = i \<and> pcs_vendor_id p = vendor_id) (catalog_services (tables s))"

definition service_selection :: "provider_store \<Rightarrow> uuid \<Rightarrow> uuid \<Rightarrow> provider_catalog_service option" where
  "service_selection s vendor_id service_id =
     find (\<lambda>p. pcs_vendor_id p = vendor_id \<and> pcs_service_id p = service_id) (catalog_services (tables s))"

definition list_provider_services :: "provider_store \<Rightarrow> uuid \<Rightarrow> bool \<Rightarrow> provider_catalog_service list" where
  "list_provider_services s vendor_id include_inactive =
     sort_key pcs_display_order (sort_key created_at (sort_key pk
       (filter (\<lambda>p. pcs_vendor_id p = vendor_id \<and> (include_inactive \<or> pcs_active p)) (catalog_services (tables s)))))"

text \<open>The database orders texts by its collation, which is the position \<open>collate\<close> of a text.\<close>

definition required_skills ::
  "(string \<Rightarrow> int) \<Rightarrow> provider_store \<Rightarrow> uuid \<Rightarrow> (service_skill_requirement \<times> skill_definition) list"
where
  "required_skills collate s service_id =
     sort_key (\<lambda>(_, k). collate (sk_category k)) (sort_key (\<lambda>(_, k). collate (sk_name k))
       (concat (map (\<lambda>r. map (Pair r) (filter (\<lambda>k. pk k = sr_skill_id r \<and> sk_active k) (skill_definitions s)))
         (filter (\<lambda>r. sr_service_id r = service_id) (skill_requirements s)))))"

definition owned_skill :: "provider_store \<Rightarrow> uuid \<Rightarrow> uuid \<Rightarrow> provider_catalog_skill option" where
  "owned_skill s vendor_id i = find (\<lambda>p. pk p = i \<and> pck_vendor_id p = vendor_id) (catalog_skills s)"

definition skill_selection :: "provider_store \<Rightarrow> uuid \<Rightarrow> uuid \<Rightarrow> provider_catalog_skill option" where
  "skill_selection s worker_id skill_id =
     find (\<lambda>p. pck_worker_id p = worker_id \<and> pck_skill_id p = skill_id) (catalog_skills s)"

definition list_provider_skills ::
  "provider_store \<Rightarrow> uuid \<Rightarrow> uuid option \<Rightarrow> bool \<Rightarrow> provider_catalog_skill list"
where
  "list_provider_skills s vendor_id worker_id include_inactive =
     sort_key pck_worker_id (sort_key created_at (sort_key pk
       (filter (\<lambda>p. pck_vendor_id p = vendor_id \<and> (worker_id = None \<or> worker_id = Some (pck_worker_id p))
          \<and> (include_inactive \<or> pck_active p)) (catalog_skills s))))"

definition application_of :: "provider_store \<Rightarrow> uuid \<Rightarrow> provider_application option" where
  "application_of s vendor_id = find (\<lambda>a. pa_vendor_id a = vendor_id) (applications s)"

section \<open>What is read back\<close>

record catalog_skill_read =
  cs_read_id :: uuid
  cs_read_key :: string
  cs_read_name :: string
  cs_read_category :: string
  cs_read_description :: "string option"
  cs_read_provider_approval_required :: bool

record required_skill_read = catalog_skill_read +
  rs_read_required :: bool

record provider_service_read =
  psr_id :: uuid
  psr_vendor_id :: uuid
  psr_service_id :: uuid
  psr_service_slug :: string
  psr_service_name :: string
  psr_service_category :: string
  psr_status :: approval_status
  psr_active :: bool
  psr_display_order :: int
  psr_provider_approval_required :: bool
  psr_required_skills :: "required_skill_read list"
  psr_version :: int

record provider_skill_read =
  pkr_id :: uuid
  pkr_vendor_id :: uuid
  pkr_worker_id :: uuid
  pkr_skill :: catalog_skill_read
  pkr_status :: approval_status
  pkr_active :: bool
  pkr_version :: int

definition read_required_skill :: "service_skill_requirement \<Rightarrow> skill_definition \<Rightarrow> required_skill_read" where
  "read_required_skill r k =
     \<lparr>cs_read_id = pk k, cs_read_key = sk_key k, cs_read_name = sk_name k, cs_read_category = sk_category k,
      cs_read_description = sk_description k,
      cs_read_provider_approval_required = sk_provider_approval_required k, rs_read_required = sr_required r\<rparr>"

definition service_read ::
  "(string \<Rightarrow> int) \<Rightarrow> provider_store \<Rightarrow> provider_catalog_service \<Rightarrow> provider_service_read result"
where
  "service_read collate s p =
     bindE (of_option (DomainError ''SERVICE_NOT_FOUND'' 404) (get_service (tables s) (pcs_service_id p))) (\<lambda>v.
     Inr \<lparr>psr_id = pk p, psr_vendor_id = pcs_vendor_id p, psr_service_id = pk v, psr_service_slug = sv_slug v,
       psr_service_name = sv_name v, psr_service_category = sv_category v, psr_status = pcs_status p,
       psr_active = pcs_active p, psr_display_order = pcs_display_order p,
       psr_provider_approval_required = sv_provider_approval_required v,
       psr_required_skills = map (\<lambda>(r, k). read_required_skill r k) (required_skills collate s (pk v)),
       psr_version = pcs_version p\<rparr>)"

definition skill_read :: "provider_store \<Rightarrow> provider_catalog_skill \<Rightarrow> provider_skill_read result" where
  "skill_read s p =
     bindE (of_option (DomainError ''SKILL_NOT_FOUND'' 404) (lookup_row pk (pck_skill_id p) (skill_definitions s))) (\<lambda>k.
     Inr \<lparr>pkr_id = pk p, pkr_vendor_id = pck_vendor_id p, pkr_worker_id = pck_worker_id p,
       pkr_skill = \<lparr>cs_read_id = pk k, cs_read_key = sk_key k, cs_read_name = sk_name k,
         cs_read_category = sk_category k, cs_read_description = sk_description k,
         cs_read_provider_approval_required = sk_provider_approval_required k\<rparr>,
       pkr_status = pck_status p, pkr_active = pck_active p, pkr_version = pck_version p\<rparr>)"

fun read_all :: "('a \<Rightarrow> 'b result) \<Rightarrow> 'a list \<Rightarrow> 'b list result" where
  "read_all f [] = Inr []"
| "read_all f (x # xs) = bindE (f x) (\<lambda>y. bindE (read_all f xs) (\<lambda>ys. Inr (y # ys)))"

section \<open>The steps the commands share\<close>

definition owned_vendor :: "provider_store \<Rightarrow> user \<Rightarrow> bool \<Rightarrow> vendor result" where
  "owned_vendor s u write =
     bindE (of_option (DomainError ''PROVIDER_SCOPE_REQUIRED'' 403) (vendor_for_user s u)) (\<lambda>v.
     bindE (ensure (\<not> (write \<and> (vn_status v = V_SUSPENDED \<or> vn_status v = V_REJECTED)))
       (DomainError ''PROVIDER_NOT_EDITABLE'' 409)) (\<lambda>_.
     bindE (ensure (\<not> (write \<and> map_option pa_status (application_of s (pk v)) = Some PA_PENDING))
       (DomainError ''PROVIDER_APPLICATION_UNDER_REVIEW'' 409)) (\<lambda>_.
     Inr v)))"

definition selected_worker :: "provider_store \<Rightarrow> vendor \<Rightarrow> user \<Rightarrow> uuid option \<Rightarrow> worker result" where
  "selected_worker s v u worker_id =
     of_option (DomainError ''WORKER_NOT_FOUND'' 404)
       (case worker_id of Some w \<Rightarrow> vendor_worker s (pk v) w | None \<Rightarrow> primary_worker s (pk v) (pk u))"

definition selection_status :: "vendor \<Rightarrow> bool \<Rightarrow> approval_status" where
  "selection_status v approval_required =
     (if vn_status v = V_ACTIVE \<and> \<not> approval_required then AP_APPROVED else AP_PENDING)"

definition require_resource_version :: "int \<Rightarrow> int \<Rightarrow> unit result" where
  "require_resource_version current expected = ensure (current = expected) (DomainError ''VERSION_CONFLICT'' 409)"

definition synced_application :: "provider_store \<Rightarrow> provider_application \<Rightarrow> provider_application" where
  "synced_application s a =
     a\<lparr>pa_services := map (\<lambda>p. str_uuid (pcs_service_id p)) (list_provider_services s (pa_vendor_id a) False),
       pa_skills := map (\<lambda>p. str_uuid (pck_skill_id p)) (list_provider_skills s (pa_vendor_id a) None False),
       pa_version := pa_version a + 1\<rparr>"

definition sync_application :: "uuid \<Rightarrow> provider_store \<Rightarrow> provider_store" where
  "sync_application vendor_id s =
     (case application_of s vendor_id of None \<Rightarrow> s | Some a \<Rightarrow> put_application (synced_application s a) s)"

definition legacy_skills :: "provider_store \<Rightarrow> worker \<Rightarrow> string list" where
  "legacy_skills s w = first_occurrences (concat (map (\<lambda>p.
       case lookup_row pk (pck_skill_id p) (skill_definitions s) of None \<Rightarrow> [] | Some k \<Rightarrow> [sk_key k])
     (list_provider_skills s (wk_vendor_id w) (Some (pk w)) False)))"

definition sync_legacy_worker_skills :: "worker \<Rightarrow> provider_store \<Rightarrow> provider_store" where
  "sync_legacy_worker_skills w s =
     with_tables (\<lambda>b. b\<lparr>workers := update_row pk (pk w) (\<lambda>x. x\<lparr>wk_skills := legacy_skills s w\<rparr>) (workers b)\<rparr>) s"

text \<open>\<^verbatim>\<open>action.rsplit(".", 1)\<close>, and the verb in the past tense.\<close>

definition past_tense :: "string \<Rightarrow> string" where
  "past_tense verb =
     (if verb = ''select'' then ''selected'' else if verb = ''update'' then ''updated''
      else if verb = ''remove'' then ''removed'' else verb @ ''d'')"

definition change_event_type :: "string \<Rightarrow> string" where
  "change_event_type action =
     (let verb = rev (takeWhile (\<lambda>c. c \<noteq> CHR ''.'') (rev action));
          prefix = rev (tl (dropWhile (\<lambda>c. c \<noteq> CHR ''.'') (rev action)))
      in map (\<lambda>c. if c = CHR ''.'' then CHR ''_'' else c) prefix @ ''_'' @ past_tense verb)"

definition change_key :: "string \<Rightarrow> uuid \<Rightarrow> int \<Rightarrow> string \<Rightarrow> string" where
  "change_key aggregate_type i version action =
     aggregate_type @ '':'' @ str_uuid i @ '':'' @ str_int version @ '':'' @ action"

text \<open>The audit row and the event of a change; the key of an event is unique.\<close>

definition record_change ::
  "uuid \<Rightarrow> datetime \<Rightarrow> user \<Rightarrow> string \<Rightarrow> string \<Rightarrow> uuid \<Rightarrow> int \<Rightarrow> json_object \<Rightarrow> db \<Rightarrow> db result"
where
  "record_change event_id now u action aggregate_type i version metadata b =
     bindE (ensure (Some (change_key aggregate_type i version action) \<notin> set (map ev_idempotency_key (events b)))
       (IntegrityError ''integration_events_idempotency_key'')) (\<lambda>_.
     Inr (add_event ((new_event event_id aggregate_type i (change_event_type action)
             (Some (change_key aggregate_type i version action))
             ([(''aggregate_id'', JStr (str_uuid i)), (''actor_user_id'', JStr (str_uuid (pk u)))] @ metadata) now)
             \<lparr>ev_aggregate_version := version\<rparr>)
          (add_audit \<lparr>al_actor_id = Some (pk u), al_actor_type = ''provider'', al_action = action,
             al_resource_type = aggregate_type, al_resource_id = i, al_metadata_json = metadata,
             al_created_at = now\<rparr> b)))"

fun approval_status_value :: "approval_status \<Rightarrow> string" where
  "approval_status_value AP_PENDING = ''PENDING''"
| "approval_status_value AP_APPROVED = ''APPROVED''"
| "approval_status_value AP_REJECTED = ''REJECTED''"

definition optional_text :: "string option \<Rightarrow> json" where
  "optional_text t = (case t of None \<Rightarrow> JNull | Some x \<Rightarrow> JStr x)"

text \<open>Runs the part of a command that may fail; only what succeeds is committed.\<close>

definition committed :: "'s \<Rightarrow> ('a \<times> 's) result \<Rightarrow> ('s, 'a) outcome" where
  "committed s m = (case m of Inl e \<Rightarrow> (Inl e, s) | Inr (x, s') \<Rightarrow> (Inr x, s'))"

lemma committed_cases:
  assumes "committed s m = (res, s')"
  obtains (failed) e where "m = Inl e" and "res = Inl e" and "s' = s"
  | (stored) x where "m = Inr (x, s')" and "res = Inr x"
  using assms by (auto simp: committed_def split: sum.splits prod.splits)

lemma committed_Inl [simp]: "committed s (Inl e) = (Inl e, s)"
  and committed_Inr [simp]: "committed s (Inr (x, s')) = (Inr x, s')"
  by (simp_all add: committed_def)

section \<open>Services\<close>

definition list_services ::
  "(string \<Rightarrow> int) \<Rightarrow> provider_store \<Rightarrow> user \<Rightarrow> bool \<Rightarrow> (provider_service_read list \<times> nat) result"
where
  "list_services collate s u include_inactive =
     bindE (owned_vendor s u False) (\<lambda>v.
     let rows = list_provider_services s (pk v) include_inactive
     in bindE (read_all (service_read collate s) rows) (\<lambda>items. Inr (items, length rows)))"

text \<open>A selection that is made again; one that was refused goes through approval anew.\<close>

definition reselected_service :: "vendor \<Rightarrow> bool \<Rightarrow> provider_catalog_service \<Rightarrow> provider_catalog_service" where
  "reselected_service v approval_required p =
     (if pcs_status p = AP_REJECTED
      then p\<lparr>pcs_active := True, pcs_status := selection_status v approval_required, pcs_rejection_reason := None,
             pcs_reviewed_by := None, pcs_reviewed_at := None\<rparr>
      else p\<lparr>pcs_active := True\<rparr>)"

definition put_service :: "provider_catalog_service \<Rightarrow> provider_store \<Rightarrow> provider_store" where
  "put_service p = with_tables (\<lambda>b. b\<lparr>catalog_services := update_row pk (pk p) (\<lambda>_. p) (catalog_services b)\<rparr>)"

definition insert_service :: "provider_catalog_service \<Rightarrow> provider_store \<Rightarrow> provider_store" where
  "insert_service p = with_tables (\<lambda>b. b\<lparr>catalog_services := catalog_services b @ [p]\<rparr>)"

definition service_change ::
  "uuid \<Rightarrow> datetime \<Rightarrow> user \<Rightarrow> string \<Rightarrow> uuid \<Rightarrow> provider_catalog_service \<Rightarrow> json_object \<Rightarrow> provider_store
   \<Rightarrow> provider_store result"
where
  "service_change event_id now u action vendor_id p metadata s =
     (let s1 = sync_application vendor_id s in
      bindE (record_change event_id now u action ''provider_service'' (pk p) (pcs_version p)
        ([(''vendor_id'', JStr (str_uuid vendor_id)), (''service_id'', JStr (str_uuid (pcs_service_id p)))] @ metadata)
        (tables s1)) (\<lambda>b.
      Inr (with_tables (\<lambda>_. b) s1)))"

definition add_service_body ::
  "(nat \<Rightarrow> datetime) \<Rightarrow> uuid \<Rightarrow> uuid \<Rightarrow> user \<Rightarrow> uuid \<Rightarrow> int \<Rightarrow> string option \<Rightarrow> provider_store
   \<Rightarrow> (provider_catalog_service \<times> provider_store) result"
where
  "add_service_body clk new_id event_id u service_id display_order correlation_id s =
     bindE (owned_vendor s u True) (\<lambda>v.
     bindE (of_option (DomainError ''SERVICE_NOT_FOUND'' 404) (active_catalog_service s service_id)) (\<lambda>c.
     let existing = service_selection s (pk v) (pk c) in
     bindE (ensure (\<not> (case existing of None \<Rightarrow> False | Some p \<Rightarrow> pcs_active p))
       (DomainError ''PROVIDER_SERVICE_CONFLICT'' 409)) (\<lambda>_.
     let (p, s1) = (case existing of
           Some p \<Rightarrow>
             let q = (reselected_service v (sv_provider_approval_required c) p)
                   \<lparr>pcs_display_order := display_order, pcs_version := pcs_version p + 1\<rparr>
             in (q, put_service q s)
         | None \<Rightarrow>
             let q = \<lparr>pk = new_id, created_at = clk 0, pcs_vendor_id = pk v, pcs_service_id = pk c,
                   pcs_status = selection_status v (sv_provider_approval_required c), pcs_active = True,
                   pcs_display_order = display_order, pcs_version = 1, pcs_reviewed_by = None,
                   pcs_reviewed_at = None, pcs_rejection_reason = None\<rparr>
             in (q, insert_service q s))
     in bindE (service_change event_id (clk 1) u ''provider.service.select'' (pk v) p
          [(''status'', JStr (approval_status_value (pcs_status p))), (''correlation_id'', optional_text correlation_id)]
          s1) (\<lambda>s2.
        Inr (p, s2)))))"

definition add_service ::
  "(string \<Rightarrow> int) \<Rightarrow> (nat \<Rightarrow> datetime) \<Rightarrow> uuid \<Rightarrow> uuid \<Rightarrow> user \<Rightarrow> uuid \<Rightarrow> int \<Rightarrow> string option
   \<Rightarrow> provider_store \<Rightarrow> (provider_store, provider_service_read) outcome"
where
  "add_service collate clk new_id event_id u service_id display_order correlation_id s =
     (case committed s (add_service_body clk new_id event_id u service_id display_order correlation_id s) of
        (Inl e, s') \<Rightarrow> (Inl e, s')
      | (Inr p, s') \<Rightarrow> (service_read collate s' p, s'))"

text \<open>Withdrawing a selection works also when BREERO has deactivated the service; selecting it does not.\<close>

definition update_service_body ::
  "datetime \<Rightarrow> uuid \<Rightarrow> uuid \<Rightarrow> user \<Rightarrow> bool option \<Rightarrow> int option \<Rightarrow> int \<Rightarrow> string option \<Rightarrow> provider_store
   \<Rightarrow> (provider_catalog_service \<times> provider_store) result"
where
  "update_service_body now event_id i u active display_order expected_version correlation_id s =
     bindE (owned_vendor s u True) (\<lambda>v.
     bindE (of_option (DomainError ''PROVIDER_SERVICE_NOT_FOUND'' 404) (owned_service s (pk v) i)) (\<lambda>p.
     bindE (require_resource_version (pcs_version p) expected_version) (\<lambda>_.
     bindE (case active of
              Some True \<Rightarrow>
                bindE (of_option (DomainError ''SERVICE_NOT_FOUND'' 404) (active_catalog_service s (pcs_service_id p))) (\<lambda>c.
                Inr (reselected_service v (sv_provider_approval_required c) p))
            | Some False \<Rightarrow> Inr (p\<lparr>pcs_active := False\<rparr>)
            | None \<Rightarrow> Inr p) (\<lambda>p1.
     let q = p1\<lparr>pcs_display_order := (case display_order of None \<Rightarrow> pcs_display_order p1 | Some n \<Rightarrow> n),
           pcs_version := pcs_version p1 + 1\<rparr>
     in bindE (service_change event_id now u ''provider.service.update'' (pk v) q
          [(''active'', JBool (pcs_active q)), (''status'', JStr (approval_status_value (pcs_status q))),
           (''correlation_id'', optional_text correlation_id)] (put_service q s)) (\<lambda>s2.
        Inr (q, s2))))))"

definition update_provider_service ::
  "(string \<Rightarrow> int) \<Rightarrow> datetime \<Rightarrow> uuid \<Rightarrow> uuid \<Rightarrow> user \<Rightarrow> bool option \<Rightarrow> int option \<Rightarrow> int \<Rightarrow> string option
   \<Rightarrow> provider_store \<Rightarrow> (provider_store, provider_service_read) outcome"
where
  "update_provider_service collate now event_id i u active display_order expected_version correlation_id s =
     (case committed s (update_service_body now event_id i u active display_order expected_version correlation_id s) of
        (Inl e, s') \<Rightarrow> (Inl e, s')
      | (Inr p, s') \<Rightarrow> (service_read collate s' p, s'))"

definition remove_service ::
  "datetime \<Rightarrow> uuid \<Rightarrow> uuid \<Rightarrow> user \<Rightarrow> int \<Rightarrow> string option \<Rightarrow> provider_store \<Rightarrow> (provider_store, unit) outcome"
where
  "remove_service now event_id i u expected_version correlation_id s =
     committed s (
       bindE (owned_vendor s u True) (\<lambda>v.
       bindE (of_option (DomainError ''PROVIDER_SERVICE_NOT_FOUND'' 404) (owned_service s (pk v) i)) (\<lambda>p.
       bindE (require_resource_version (pcs_version p) expected_version) (\<lambda>_.
       if pcs_active p
       then let q = p\<lparr>pcs_active := False, pcs_version := pcs_version p + 1\<rparr>
            in bindE (service_change event_id now u ''provider.service.remove'' (pk v) q
                 [(''correlation_id'', optional_text correlation_id)] (put_service q s)) (\<lambda>s2.
               Inr ((), s2))
       else Inr ((), s)))))"

section \<open>Skills\<close>

definition list_skills ::
  "provider_store \<Rightarrow> user \<Rightarrow> uuid option \<Rightarrow> bool \<Rightarrow> (provider_skill_read list \<times> nat) result"
where
  "list_skills s u worker_id include_inactive =
     bindE (owned_vendor s u False) (\<lambda>v.
     bindE (ensure (case worker_id of None \<Rightarrow> True | Some w \<Rightarrow> vendor_worker s (pk v) w \<noteq> None)
       (DomainError ''WORKER_NOT_FOUND'' 404)) (\<lambda>_.
     let rows = list_provider_skills s (pk v) worker_id include_inactive
     in bindE (read_all (skill_read s) rows) (\<lambda>items. Inr (items, length rows))))"

definition reselected_skill :: "vendor \<Rightarrow> bool \<Rightarrow> provider_catalog_skill \<Rightarrow> provider_catalog_skill" where
  "reselected_skill v approval_required p =
     (if pck_status p = AP_REJECTED
      then p\<lparr>pck_active := True, pck_status := selection_status v approval_required, pck_rejection_reason := None,
             pck_reviewed_by := None, pck_reviewed_at := None\<rparr>
      else p\<lparr>pck_active := True\<rparr>)"

definition put_skill :: "provider_catalog_skill \<Rightarrow> provider_store \<Rightarrow> provider_store" where
  "put_skill p s = s\<lparr>catalog_skills := update_row pk (pk p) (\<lambda>_. p) (catalog_skills s)\<rparr>"

definition insert_skill :: "provider_catalog_skill \<Rightarrow> provider_store \<Rightarrow> provider_store" where
  "insert_skill p s = s\<lparr>catalog_skills := catalog_skills s @ [p]\<rparr>"

definition skill_change ::
  "uuid \<Rightarrow> datetime \<Rightarrow> user \<Rightarrow> string \<Rightarrow> uuid \<Rightarrow> worker option \<Rightarrow> provider_catalog_skill \<Rightarrow> json_object
   \<Rightarrow> provider_store \<Rightarrow> provider_store result"
where
  "skill_change event_id now u action vendor_id w p metadata s =
     (let s1 = sync_application vendor_id s;
          s2 = (case w of None \<Rightarrow> s1 | Some x \<Rightarrow> sync_legacy_worker_skills x s1) in
      bindE (record_change event_id now u action ''provider_skill'' (pk p) (pck_version p)
        ([(''vendor_id'', JStr (str_uuid vendor_id)), (''worker_id'', JStr (str_uuid (pck_worker_id p))),
          (''skill_id'', JStr (str_uuid (pck_skill_id p)))] @ metadata) (tables s2)) (\<lambda>b.
      Inr (with_tables (\<lambda>_. b) s2)))"

text \<open>A skill of a worker belongs to the vendor the worker had when the skill was first selected.\<close>

definition add_skill_body ::
  "(nat \<Rightarrow> datetime) \<Rightarrow> uuid \<Rightarrow> uuid \<Rightarrow> user \<Rightarrow> uuid \<Rightarrow> uuid option \<Rightarrow> string option \<Rightarrow> provider_store
   \<Rightarrow> (provider_catalog_skill \<times> provider_store) result"
where
  "add_skill_body clk new_id event_id u skill_id worker_id correlation_id s =
     bindE (owned_vendor s u True) (\<lambda>v.
     bindE (selected_worker s v u worker_id) (\<lambda>w.
     bindE (of_option (DomainError ''SKILL_NOT_FOUND'' 404) (active_skill s skill_id)) (\<lambda>k.
     let existing = skill_selection s (pk w) (pk k) in
     bindE (ensure (\<not> (case existing of None \<Rightarrow> False | Some p \<Rightarrow> pck_active p))
       (DomainError ''PROVIDER_SKILL_CONFLICT'' 409)) (\<lambda>_.
     let (p, s1) = (case existing of
           Some p \<Rightarrow>
             let q = (reselected_skill v (sk_provider_approval_required k) p)\<lparr>pck_version := pck_version p + 1\<rparr>
             in (q, put_skill q s)
         | None \<Rightarrow>
             let q = \<lparr>pk = new_id, created_at = clk 0, pck_vendor_id = pk v, pck_worker_id = pk w,
                   pck_skill_id = pk k, pck_status = selection_status v (sk_provider_approval_required k),
                   pck_active = True, pck_version = 1, pck_reviewed_by = None, pck_reviewed_at = None,
                   pck_rejection_reason = None\<rparr>
             in (q, insert_skill q s))
     in bindE (skill_change event_id (clk 1) u ''provider.skill.select'' (pk v) (Some w) p
          [(''status'', JStr (approval_status_value (pck_status p))), (''correlation_id'', optional_text correlation_id)]
          s1) (\<lambda>s2.
        Inr (p, s2))))))"

definition add_skill ::
  "(nat \<Rightarrow> datetime) \<Rightarrow> uuid \<Rightarrow> uuid \<Rightarrow> user \<Rightarrow> uuid \<Rightarrow> uuid option \<Rightarrow> string option \<Rightarrow> provider_store
   \<Rightarrow> (provider_store, provider_skill_read) outcome"
where
  "add_skill clk new_id event_id u skill_id worker_id correlation_id s =
     (case committed s (add_skill_body clk new_id event_id u skill_id worker_id correlation_id s) of
        (Inl e, s') \<Rightarrow> (Inl e, s')
      | (Inr p, s') \<Rightarrow> (skill_read s' p, s'))"

definition remove_skill ::
  "datetime \<Rightarrow> uuid \<Rightarrow> uuid \<Rightarrow> user \<Rightarrow> int \<Rightarrow> string option \<Rightarrow> provider_store \<Rightarrow> (provider_store, unit) outcome"
where
  "remove_skill now event_id i u expected_version correlation_id s =
     committed s (
       bindE (owned_vendor s u True) (\<lambda>v.
       bindE (of_option (DomainError ''PROVIDER_SKILL_NOT_FOUND'' 404) (owned_skill s (pk v) i)) (\<lambda>p.
       bindE (require_resource_version (pck_version p) expected_version) (\<lambda>_.
       if pck_active p
       then let q = p\<lparr>pck_active := False, pck_version := pck_version p + 1\<rparr>
            in bindE (skill_change event_id now u ''provider.skill.remove'' (pk v)
                   (vendor_worker s (pk v) (pck_worker_id p)) q
                 [(''correlation_id'', optional_text correlation_id)] (put_skill q s)) (\<lambda>s2.
               Inr ((), s2))
       else Inr ((), s)))))"

section \<open>The version of the If-Match header\<close>

definition catalog_version :: "string option \<Rightarrow> int result" where
  "catalog_version v =
     bindE (of_option (DomainError ''PRECONDITION_REQUIRED'' 428) v) (\<lambda>t.
     let token = strip t;
         token' = (if take 2 token = ''W/'' then strip (drop 2 token) else token);
         digits = strip_char (CHR 0x22) token'
     in bindE (ensure (digits \<noteq> [] \<and> list_all is_digit digits \<and> hd digits \<noteq> CHR ''0'')
          (DomainError ''INVALID_IF_MATCH'' 400)) (\<lambda>_.
        if length digits > 4300 then Inl (ValueError digits) else of_option (ValueError digits) (py_int digits)))"

end
