(* ===== verification/Onboarding.thy ===== *)
theory Onboarding
  imports Provider_Catalog
begin

text \<open>
  The application of a provider (\<^verbatim>\<open>workforce/onboarding_service.py\<close>): registration of an organisation
  with a draft, its editing and submission, and the review by an administrator.
\<close>

section \<open>Registration\<close>

record organisation_request =
  or_email :: string
  or_password :: string
  or_full_name :: string
  or_legal_name :: string
  or_display_name :: string
  or_phone :: string

record organisation_draws =
  og_user_id :: uuid
  og_vendor_id :: uuid
  og_worker_id :: uuid
  og_profile_id :: uuid
  og_assignment_id :: uuid
  og_application_id :: uuid
  og_email :: token_draw
  og_session :: session_draw

definition organisation_user :: "crypto \<Rightarrow> datetime \<Rightarrow> organisation_draws \<Rightarrow> organisation_request \<Rightarrow> user" where
  "organisation_user k begun d r =
     \<lparr>pk = og_user_id d, created_at = begun, us_email = lower (strip (or_email r)), us_phone = None,
      us_password_hash = hash_password k (or_password r), us_full_name = strip (or_full_name r),
      us_role = UR_vendor_admin, us_is_active = True, us_status = ''ACTIVE'', us_email_verified = False,
      us_email_verified_at = None, us_phone_verified_at = None, us_last_login_at = None,
      us_credential_version = 1, us_password_set_required = False, us_keycloak_subject = None,
      us_keycloak_issuer = None, us_keycloak_username = None, us_keycloak_linked_at = None\<rparr>"

definition organisation_vendor :: "datetime \<Rightarrow> organisation_draws \<Rightarrow> organisation_request \<Rightarrow> vendor" where
  "organisation_vendor begun d r =
     \<lparr>pk = og_vendor_id d, created_at = begun, vn_legal_name = strip (or_legal_name r),
      vn_display_name = strip (or_display_name r), vn_email = lower (strip (or_email r)), vn_phone = strip (or_phone r),
      vn_provider_type = ''COMPANY'', vn_business_address = None, vn_city = None, vn_state = None,
      vn_postal_code = None, vn_onboarding_status = ''PENDING'', vn_compliance_status = ''PENDING'',
      vn_timezone_id = None, vn_owner_user_id = Some (og_user_id d), vn_status = V_PENDING,
      vn_service_radius_meters = 40000, vn_home_location = None, vn_capabilities = [],
      vn_payout_profile_ref = None, vn_odoo_partner_id = None\<rparr>"

definition organisation_worker ::
  "datetime \<Rightarrow> organisation_draws \<Rightarrow> organisation_request \<Rightarrow> string \<Rightarrow> string \<Rightarrow> worker"
where
  "organisation_worker begun d r first_name last_name =
     \<lparr>pk = og_worker_id d, created_at = begun, wk_vendor_id = og_vendor_id d, wk_user_id = Some (og_user_id d),
      wk_first_name = first_name, wk_last_name = last_name, wk_email = lower (strip (or_email r)),
      wk_phone = strip (or_phone r), wk_status = WK_INVITED, wk_skills = [], wk_current_location = None,
      wk_location_updated_at = None, wk_available = False, wk_default_timezone_id = None,
      wk_maximum_jobs_per_day = 6, wk_maximum_minutes_per_day = 600, wk_sunday_emergency_enabled = False\<rparr>"

definition draft_application :: "datetime \<Rightarrow> organisation_draws \<Rightarrow> organisation_request \<Rightarrow> provider_application" where
  "draft_application begun d r =
     \<lparr>pk = og_application_id d, created_at = begun, pa_vendor_id = og_vendor_id d, pa_status = PA_DRAFT,
      pa_identity = Some [(''full_name'', JStr (strip (or_full_name r)))],
      pa_business = Some [(''legal_name'', JStr (strip (or_legal_name r))),
        (''display_name'', JStr (strip (or_display_name r)))],
      pa_contact_details = Some [(''email'', JStr (lower (strip (or_email r)))), (''phone'', JStr (strip (or_phone r)))],
      pa_services = [], pa_skills = [], pa_service_areas = Some [], pa_postal_codes = Some [],
      pa_availability = Some [], pa_capacity = Some [], pa_licenses = Some [], pa_insurance = Some [],
      pa_compliance_documents = Some [], pa_version = 1, pa_submitted_at = None, pa_decided_at = None,
      pa_reviewed_by = None, pa_decision_reason = None, pa_requested_information = None\<rparr>"

definition organisation_access :: "datetime \<Rightarrow> organisation_draws \<Rightarrow> access_assignment" where
  "organisation_access begun d = assignment_row (og_assignment_id d) begun (og_user_id d) BRAND_KEY
     \<lparr>ai_role = AR_vendor_admin, ai_department = DP_provider, ai_tenant_scope = TS_vendor,
      ai_vendor_id = Some (og_vendor_id d), ai_is_primary = True\<rparr>"

text \<open>The invitation to verify the address waits for its configuration unless mail can be delivered.\<close>

definition organisation_event ::
  "bool \<Rightarrow> datetime \<Rightarrow> organisation_draws \<Rightarrow> organisation_request \<Rightarrow> integration_event"
where
  "organisation_event deliverable now d r =
     (new_event (td_event_id (og_email d)) ''user'' (og_user_id d) ''email_verification_requested''
        (Some (''provider-email-verification:'' @ str_uuid (og_user_id d)))
        [(''user_id'', JStr (str_uuid (og_user_id d))), (''email'', JStr (lower (strip (or_email r)))),
         (''token'', JStr (td_raw (og_email d)))] now)
     \<lparr>ev_status := (if deliverable then E_PENDING else E_PENDING_CONFIGURATION)\<rparr>"

definition register_organisation_body ::
  "bool \<Rightarrow> crypto \<Rightarrow> (nat \<Rightarrow> datetime) \<Rightarrow> organisation_draws \<Rightarrow> organisation_request \<Rightarrow> string option
   \<Rightarrow> string option \<Rightarrow> provider_store
   \<Rightarrow> ((token_response \<times> vendor \<times> provider_application) \<times> provider_store) result"
where
  "register_organisation_body deliverable k clk d r agent ip s =
     (let u = organisation_user k (clk 0) d r; v = organisation_vendor (clk 0) d r; a = draft_application (clk 0) d r;
          b = tables s; p = portal s; e = organisation_event deliverable (clk 2) d r in
      bindE (ensure (vn_email v \<notin> set (map vn_email (vendors b))) (IntegrityError ''vendors_email_key'')) (\<lambda>_.
      bindE (name_parts (strip (or_full_name r))) (\<lambda>(first_name, last_name).
      bindE (new_token k (clk 0) (og_email d) (pk u) (clk 1 + hours_of 24) (email_tokens (acc p))) (\<lambda>ts.
      bindE (ensure (ev_idempotency_key e \<notin> set (map ev_idempotency_key (events b)))
        (IntegrityError ''integration_events_idempotency_key'')) (\<lambda>_.
      bindE (issue_session k (clk 0) (\<lambda>n. clk (n + 3)) (og_session d) u agent ip None
        (b\<lparr>users := users b @ [u], vendors := vendors b @ [v],
           workers := workers b @ [organisation_worker (clk 0) d r first_name last_name],
           events := events b @ [e]\<rparr>)) (\<lambda>(response, b1).
      Inr ((response, v, a),
        s\<lparr>applications := applications s @ [a],
          portal := p\<lparr>acc := (acc p)\<lparr>email_tokens := ts,
              base := add_audit \<lparr>al_actor_id = Some (pk u), al_actor_type = ''self'', al_action = ''provider.register'',
                al_resource_type = ''vendor'', al_resource_id = pk v,
                al_metadata_json = [(''application_status'', JStr ''DRAFT'')], al_created_at = clk 5\<rparr> b1\<rparr>,
            profiles := profiles p @ [\<lparr>pk = og_profile_id d, created_at = clk 0, ap_user_id = pk u,
              ap_brand_key = BRAND_KEY\<rparr>],
            access_assignments := access_assignments p @ [organisation_access (clk 0) d]\<rparr>\<rparr>)))))))"

definition register_organisation ::
  "bool \<Rightarrow> crypto \<Rightarrow> (nat \<Rightarrow> datetime) \<Rightarrow> organisation_draws \<Rightarrow> organisation_request \<Rightarrow> string option
   \<Rightarrow> string option \<Rightarrow> provider_store
   \<Rightarrow> (provider_store, token_response \<times> vendor \<times> provider_application) outcome"
where
  "register_organisation deliverable k clk d r agent ip s =
     (if user_by_email (tables s) (lower (strip (or_email r))) \<noteq> None
      then (Inl (HTTPException 409 ''Email already registered''), s)
      else case register_organisation_body deliverable k clk d r agent ip s of
             Inl (IntegrityError _) \<Rightarrow> (Inl (HTTPException 409 ''Provider account already exists''), s)
           | Inl e \<Rightarrow> (Inl e, s)
           | Inr (res, s') \<Rightarrow> (Inr res, s'))"

section \<open>The provider's own application\<close>

definition owner_vendor :: "provider_store \<Rightarrow> user \<Rightarrow> vendor result" where
  "owner_vendor s u = of_option (HTTPException 403 ''Account does not administer a provider organization'')
     (find (\<lambda>v. vn_owner_user_id v = Some (pk u)) (vendors (tables s)))"

definition application_for_vendor :: "provider_store \<Rightarrow> uuid \<Rightarrow> provider_application result" where
  "application_for_vendor s vendor_id =
     of_option (HTTPException 404 ''Provider application not found'') (application_of s vendor_id)"

text \<open>The response model admits no \<^verbatim>\<open>null\<close> in the columns of the application.\<close>

definition read_application :: "provider_application \<Rightarrow> provider_application result" where
  "read_application a =
     bindE (ensure (list_all (\<lambda>x. x \<noteq> None) [pa_identity a, pa_business a, pa_contact_details a, pa_availability a,
           pa_capacity a] \<and> list_all (\<lambda>x. x \<noteq> None) [pa_service_areas a, pa_licenses a, pa_insurance a]
         \<and> pa_postal_codes a \<noteq> None \<and> pa_compliance_documents a \<noteq> None)
       (ValueError ''ProviderApplicationRead'')) (\<lambda>_. Inr a)"

definition provider_audit :: "user \<Rightarrow> string \<Rightarrow> string \<Rightarrow> uuid \<Rightarrow> json_object \<Rightarrow> datetime \<Rightarrow> audit_log" where
  "provider_audit u action resource_type i metadata now =
     \<lparr>al_actor_id = Some (pk u), al_actor_type = ''user'', al_action = action, al_resource_type = resource_type,
      al_resource_id = i, al_metadata_json = metadata, al_created_at = now\<rparr>"

text \<open>A field of a request that was left out is \<open>None\<close>, one that was sent as \<^verbatim>\<open>null\<close> is \<open>Some None\<close>.\<close>

definition or_old :: "'a option \<Rightarrow> 'a \<Rightarrow> 'a" where
  "or_old x old = (case x of None \<Rightarrow> old | Some y \<Rightarrow> y)"

record profile_update =
  pu_legal_name :: "string option option"
  pu_display_name :: "string option option"
  pu_phone :: "string option option"
  pu_service_radius_meters :: "int option option"

text \<open>The columns of a vendor admit no \<^verbatim>\<open>NULL\<close>.\<close>

definition not_null :: "'a option option \<Rightarrow> 'a \<Rightarrow> 'a result" where
  "not_null x old = of_option (IntegrityError ''vendors_not_null'') (or_old x (Some old))"

definition update_profile ::
  "datetime \<Rightarrow> user \<Rightarrow> profile_update \<Rightarrow> provider_store \<Rightarrow> (provider_store, vendor) outcome"
where
  "update_profile now u c s =
     committed s (
       bindE (owner_vendor s u) (\<lambda>v.
       bindE (not_null (pu_legal_name c) (vn_legal_name v)) (\<lambda>legal.
       bindE (not_null (pu_display_name c) (vn_display_name v)) (\<lambda>display.
       bindE (not_null (pu_phone c) (vn_phone v)) (\<lambda>phone.
       bindE (not_null (pu_service_radius_meters c) (vn_service_radius_meters v)) (\<lambda>radius.
       let v' = v\<lparr>vn_legal_name := legal, vn_display_name := display, vn_phone := phone, vn_service_radius_meters := radius\<rparr>
       in Inr (v', with_tables (\<lambda>b. add_audit (provider_audit u ''provider.profile.update'' ''vendor'' (pk v) [] now)
            (b\<lparr>vendors := update_row pk (pk v) (\<lambda>_. v') (vendors b)\<rparr>)) s)))))))"

definition onboarding :: "provider_store \<Rightarrow> user \<Rightarrow> provider_application result" where
  "onboarding s u = bindE (owner_vendor s u) (\<lambda>v. bindE (application_for_vendor s (pk v)) read_application)"

section \<open>Editing\<close>

record onboarding_update =
  on_identity :: "json_object option option"
  on_business :: "json_object option option"
  on_contact_details :: "json_object option option"
  on_services :: "uuid list option option"
  on_skills :: "string list option option"
  on_service_areas :: "json_object list option option"
  on_postal_codes :: "string list option option"
  on_availability :: "json_object option option"
  on_capacity :: "json_object option option"
  on_licenses :: "json_object list option option"
  on_insurance :: "json_object list option option"
  on_compliance_documents :: "uuid list option option"

definition zip_or_plus4 :: "string \<Rightarrow> bool" where
  "zip_or_plus4 code \<longleftrightarrow> (length code = 5 \<or> length code = 10) \<and> py_isdigit (take 5 code)
     \<and> (length code = 10 \<longrightarrow> code ! 5 = CHR ''-'' \<and> py_isdigit (drop 6 code))"

definition normalize_postal_codes :: "string list option option \<Rightarrow> string list option option result" where
  "normalize_postal_codes codes =
     (case codes of
        Some (Some cs) \<Rightarrow>
          bindE (ensure (list_all zip_or_plus4 (map strip cs)) (ValueError ''postal_codes require ZIP or ZIP+4 values'')) (\<lambda>_.
          Inr (Some (Some (first_occurrences (map strip cs)))))
      | _ \<Rightarrow> Inr codes)"

definition editable :: "provider_application \<Rightarrow> bool" where
  "editable a \<longleftrightarrow> pa_status a = PA_DRAFT \<or> pa_status a = PA_INFORMATION_REQUESTED"

definition edited_application ::
  "onboarding_update \<Rightarrow> string list option option \<Rightarrow> provider_application \<Rightarrow> provider_application"
where
  "edited_application c codes a =
     a\<lparr>pa_identity := or_old (on_identity c) (pa_identity a), pa_business := or_old (on_business c) (pa_business a),
       pa_contact_details := or_old (on_contact_details c) (pa_contact_details a),
       pa_service_areas := or_old (on_service_areas c) (pa_service_areas a),
       pa_postal_codes := or_old codes (pa_postal_codes a),
       pa_availability := or_old (on_availability c) (pa_availability a),
       pa_capacity := or_old (on_capacity c) (pa_capacity a), pa_licenses := or_old (on_licenses c) (pa_licenses a),
       pa_insurance := or_old (on_insurance c) (pa_insurance a),
       pa_compliance_documents := or_old (on_compliance_documents c) (pa_compliance_documents a),
       pa_version := pa_version a + 1\<rparr>"

definition edit_application ::
  "user \<Rightarrow> onboarding_update \<Rightarrow> provider_store \<Rightarrow> provider_application result"
where
  "edit_application u c s =
     bindE (normalize_postal_codes (on_postal_codes c)) (\<lambda>codes.
     bindE (owner_vendor s u) (\<lambda>v.
     bindE (application_for_vendor s (pk v)) (\<lambda>a.
     bindE (ensure (editable a) (HTTPException 409 ''Submitted applications cannot be edited'')) (\<lambda>_.
     bindE (ensure (on_services c = None \<and> on_skills c = None)
       (HTTPException 422 ''Use the provider services and skills APIs for catalog selections'')) (\<lambda>_.
     Inr (edited_application c codes a))))))"

text \<open>The change is committed before the response is validated.\<close>

definition update_onboarding ::
  "datetime \<Rightarrow> user \<Rightarrow> onboarding_update \<Rightarrow> provider_store \<Rightarrow> (provider_store, provider_application) outcome"
where
  "update_onboarding now u c s =
     (case edit_application u c s of
        Inl e \<Rightarrow> (Inl e, s)
      | Inr a \<Rightarrow> (read_application a,
          with_tables (add_audit (provider_audit u ''provider.onboarding.update'' ''provider_application'' (pk a)
              [(''version'', JInt (pa_version a))] now)) (put_application a s)))"

section \<open>Submission\<close>

definition filled :: "'a list option \<Rightarrow> bool" where
  "filled x \<longleftrightarrow> x \<noteq> None \<and> x \<noteq> Some []"

definition missing_submission_fields :: "provider_application \<Rightarrow> string list" where
  "missing_submission_fields a = map fst (filter (\<lambda>(_, given). \<not> given)
     [(''identity'', filled (pa_identity a)), (''business'', filled (pa_business a)),
      (''contact_details'', filled (pa_contact_details a)), (''services'', pa_services a \<noteq> []),
      (''skills'', pa_skills a \<noteq> []), (''service_areas'', filled (pa_service_areas a)),
      (''postal_codes'', filled (pa_postal_codes a)), (''availability'', filled (pa_availability a)),
      (''capacity'', filled (pa_capacity a)), (''licenses'', filled (pa_licenses a)),
      (''insurance'', filled (pa_insurance a)), (''compliance_documents'', filled (pa_compliance_documents a))])"

definition sync_catalog_selections :: "provider_store \<Rightarrow> provider_application \<Rightarrow> provider_application" where
  "sync_catalog_selections s a =
     a\<lparr>pa_services := map (\<lambda>p. str_uuid (pcs_service_id p))
         (filter (\<lambda>p. pcs_vendor_id p = pa_vendor_id a \<and> pcs_active p) (catalog_services (tables s))),
       pa_skills := map (\<lambda>p. str_uuid (pck_skill_id p))
         (filter (\<lambda>p. pck_vendor_id p = pa_vendor_id a \<and> pck_active p) (catalog_skills s))\<rparr>"

definition application_event ::
  "uuid \<Rightarrow> datetime \<Rightarrow> provider_application \<Rightarrow> string \<Rightarrow> json_object \<Rightarrow> integration_event"
where
  "application_event event_id now a event_type payload =
     (new_event event_id ''provider_application'' (pk a) event_type
        (Some (event_type @ '':'' @ str_uuid (pk a) @ '':'' @ str_int (pa_version a)))
        ([(''application_id'', JStr (str_uuid (pk a)))] @ payload) now)\<lparr>ev_aggregate_version := pa_version a\<rparr>"

definition add_unique_event :: "integration_event \<Rightarrow> db \<Rightarrow> db result" where
  "add_unique_event e b =
     bindE (ensure (ev_idempotency_key e \<notin> set (map ev_idempotency_key (events b)))
       (IntegrityError ''integration_events_idempotency_key'')) (\<lambda>_. Inr (add_event e b))"

definition submitted_application :: "datetime \<Rightarrow> provider_application \<Rightarrow> provider_application" where
  "submitted_application now a =
     a\<lparr>pa_status := PA_PENDING, pa_submitted_at := Some now, pa_decided_at := None, pa_reviewed_by := None,
       pa_decision_reason := None, pa_requested_information := None, pa_version := pa_version a + 1\<rparr>"

text \<open>The detail of the refusal is an object with the code and the names; here the names follow the code.\<close>

definition check_submission :: "user \<Rightarrow> provider_store \<Rightarrow> (vendor \<times> provider_application) result" where
  "check_submission u s =
     bindE (owner_vendor s u) (\<lambda>v.
     bindE (application_for_vendor s (pk v)) (\<lambda>a.
     bindE (ensure (editable a) (HTTPException 409 ''Application cannot be submitted in its current state'')) (\<lambda>_.
     let a1 = sync_catalog_selections s a in
     bindE (ensure (missing_submission_fields a1 = [])
       (HTTPException 422 (''ONBOARDING_INCOMPLETE:'' @ join_comma (missing_submission_fields a1)))) (\<lambda>_.
     Inr (v, a1)))))"

definition submit ::
  "(nat \<Rightarrow> datetime) \<Rightarrow> uuid \<Rightarrow> user \<Rightarrow> provider_store \<Rightarrow> (provider_store, provider_application) outcome"
where
  "submit clk event_id u s =
     (case bindE (check_submission u s) (\<lambda>(v, a1).
        let a = submitted_application (clk 0) a1 in
        bindE (add_unique_event (application_event event_id (clk 2) a ''provider_application_submitted''
            [(''vendor_id'', JStr (str_uuid (pk v)))])
          (add_audit (provider_audit u ''provider.onboarding.submit'' ''provider_application'' (pk a)
             [(''status'', JStr ''PENDING'')] (clk 1)) (tables s))) (\<lambda>b.
        Inr (a, with_tables (\<lambda>_. b) (put_application a s)))) of
        Inl e \<Rightarrow> (Inl e, s)
      | Inr (a, s') \<Rightarrow> (read_application a, s'))"

section \<open>Review\<close>

definition list_applications ::
  "provider_store \<Rightarrow> application_status option \<Rightarrow> nat \<Rightarrow> nat \<Rightarrow> (provider_application list \<times> nat) result"
where
  "list_applications s status limit offset =
     (let rows = filter (\<lambda>a. status = None \<or> status = Some (pa_status a)) (applications s)
      in bindE (read_all read_application (take limit (drop offset (sort_key (\<lambda>a. - created_at a) rows)))) (\<lambda>items.
         Inr (items, length rows)))"

definition application :: "provider_store \<Rightarrow> uuid \<Rightarrow> provider_application result" where
  "application s i = bindE (of_option (HTTPException 404 ''Provider application not found'')
     (lookup_row pk i (applications s))) read_application"

datatype review = Approve | Reject | Request_Information

fun review_status :: "review \<Rightarrow> application_status" where
  "review_status Approve = PA_APPROVED"
| "review_status Reject = PA_REJECTED"
| "review_status Request_Information = PA_INFORMATION_REQUESTED"

fun review_status_value :: "review \<Rightarrow> string" where
  "review_status_value Approve = ''APPROVED''"
| "review_status_value Reject = ''REJECTED''"
| "review_status_value Request_Information = ''INFORMATION_REQUESTED''"

fun review_action :: "review \<Rightarrow> string" where
  "review_action Approve = ''provider.onboarding.approve''"
| "review_action Reject = ''provider.onboarding.reject''"
| "review_action Request_Information = ''provider.onboarding.request_information''"

definition decided_application ::
  "review \<Rightarrow> uuid \<Rightarrow> datetime \<Rightarrow> string \<Rightarrow> provider_application \<Rightarrow> provider_application"
where
  "decided_application d actor_id now reason a =
     a\<lparr>pa_status := review_status d, pa_reviewed_by := Some actor_id, pa_decided_at := Some now,
       pa_version := pa_version a + 1,
       pa_requested_information := (if d = Request_Information then Some reason else None),
       pa_decision_reason := (if d = Request_Information then None else Some reason)\<rparr>"

definition approved_service :: "uuid \<Rightarrow> datetime \<Rightarrow> provider_catalog_service \<Rightarrow> provider_catalog_service" where
  "approved_service actor_id now p =
     p\<lparr>pcs_status := AP_APPROVED, pcs_reviewed_by := Some actor_id, pcs_reviewed_at := Some now,
       pcs_rejection_reason := None, pcs_version := pcs_version p + 1\<rparr>"

definition approved_skill :: "uuid \<Rightarrow> datetime \<Rightarrow> provider_catalog_skill \<Rightarrow> provider_catalog_skill" where
  "approved_skill actor_id now p =
     p\<lparr>pck_status := AP_APPROVED, pck_reviewed_by := Some actor_id, pck_reviewed_at := Some now,
       pck_rejection_reason := None, pck_version := pck_version p + 1\<rparr>"

fun decision_effect :: "review \<Rightarrow> uuid \<Rightarrow> datetime \<Rightarrow> uuid \<Rightarrow> provider_store \<Rightarrow> provider_store" where
  "decision_effect Request_Information actor_id now v s =
     with_tables (\<lambda>b. b\<lparr>vendors := update_row pk v (\<lambda>x. x\<lparr>vn_status := V_PENDING\<rparr>) (vendors b)\<rparr>) s"
| "decision_effect Approve actor_id now v s =
     (with_tables (\<lambda>b. b\<lparr>vendors := update_row pk v (\<lambda>x. x\<lparr>vn_status := V_ACTIVE\<rparr>) (vendors b),
         workers := update_where (\<lambda>w. wk_vendor_id w = v)
           (\<lambda>w. w\<lparr>wk_status := WK_ACTIVE, wk_available := True\<rparr>) (workers b),
         catalog_services := update_where (\<lambda>p. pcs_vendor_id p = v \<and> pcs_active p \<and> pcs_status p = AP_PENDING)
           (approved_service actor_id now) (catalog_services b)\<rparr>) s)
     \<lparr>catalog_skills := update_where (\<lambda>p. pck_vendor_id p = v \<and> pck_active p \<and> pck_status p = AP_PENDING)
         (approved_skill actor_id now) (catalog_skills s)\<rparr>"
| "decision_effect Reject actor_id now v s =
     with_tables (\<lambda>b. b\<lparr>vendors := update_row pk v (\<lambda>x. x\<lparr>vn_status := V_REJECTED\<rparr>) (vendors b),
         workers := update_where (\<lambda>w. wk_vendor_id w = v)
           (\<lambda>w. w\<lparr>wk_status := WK_INACTIVE, wk_available := False\<rparr>) (workers b)\<rparr>) s"

definition check_decision :: "uuid \<Rightarrow> provider_store \<Rightarrow> (vendor \<times> provider_application) result" where
  "check_decision i s =
     bindE (of_option (HTTPException 404 ''Provider application not found'') (lookup_row pk i (applications s))) (\<lambda>a.
     bindE (ensure (pa_status a = PA_PENDING) (HTTPException 409 ''Only pending applications can be reviewed'')) (\<lambda>_.
     bindE (of_option (HTTPException 404 ''Provider organization not found'') (get_vendor (tables s) (pa_vendor_id a))) (\<lambda>v.
     Inr (v, a))))"

definition decide ::
  "(nat \<Rightarrow> datetime) \<Rightarrow> uuid \<Rightarrow> uuid \<Rightarrow> user \<Rightarrow> review \<Rightarrow> string \<Rightarrow> provider_store
   \<Rightarrow> (provider_store, provider_application) outcome"
where
  "decide clk event_id i actor d reason s =
     (case bindE (check_decision i s) (\<lambda>(v, a0).
        let a = decided_application d (pk actor) (clk 0) reason a0;
            s1 = decision_effect d (pk actor) (clk 0) (pk v) (put_application a s) in
        bindE (add_unique_event (application_event event_id (clk 2) a ''provider_application_decided''
            [(''vendor_id'', JStr (str_uuid (pk v))), (''status'', JStr (review_status_value d)), (''reason'', JStr reason)])
          (add_audit (provider_audit actor (review_action d) ''provider_application'' (pk a)
             [(''status'', JStr (review_status_value d)), (''reason'', JStr reason)] (clk 1)) (tables s1))) (\<lambda>b.
        Inr (a, with_tables (\<lambda>_. b) s1))) of
        Inl e \<Rightarrow> (Inl e, s)
      | Inr (a, s') \<Rightarrow> (read_application a, s'))"

end
