(* ===== verification/Workforce.thy ===== *)
theory Workforce
  imports Onboarding
begin

text \<open>
  Vendors, their workers and what operators record of them (\<^verbatim>\<open>workforce/service.py\<close>,
  \<^verbatim>\<open>api/v1/vendors.py\<close>, \<^verbatim>\<open>api/v1/operations/\<close>).
\<close>

section \<open>Vendors and workers\<close>

record vendor_create =
  vc_legal_name :: string
  vc_display_name :: string
  vc_email :: string
  vc_phone :: string
  vc_owner_user_id :: "uuid option"
  vc_capabilities :: "string list"
  vc_service_radius_meters :: int
  vc_latitude :: "rat option"
  vc_longitude :: "rat option"

text \<open>A point exists if both coordinates are given; it is longitude, then latitude.\<close>

definition point_of :: "rat option \<Rightarrow> rat option \<Rightarrow> point option" where
  "point_of latitude longitude =
     (case (latitude, longitude) of (Some lat, Some lng) \<Rightarrow> Some (lng, lat) | _ \<Rightarrow> None)"

definition created_vendor :: "datetime \<Rightarrow> uuid \<Rightarrow> vendor_create \<Rightarrow> vendor" where
  "created_vendor now new_id c =
     \<lparr>pk = new_id, created_at = now, vn_legal_name = vc_legal_name c, vn_display_name = vc_display_name c,
      vn_email = vc_email c, vn_phone = vc_phone c, vn_provider_type = ''COMPANY'', vn_business_address = None,
      vn_city = None, vn_state = None, vn_postal_code = None, vn_onboarding_status = ''PENDING'',
      vn_compliance_status = ''PENDING'', vn_timezone_id = None, vn_owner_user_id = vc_owner_user_id c,
      vn_status = V_PENDING, vn_service_radius_meters = vc_service_radius_meters c,
      vn_home_location = point_of (vc_latitude c) (vc_longitude c), vn_capabilities = vc_capabilities c,
      vn_payout_profile_ref = None, vn_odoo_partner_id = None\<rparr>"

definition create_vendor :: "datetime \<Rightarrow> uuid \<Rightarrow> vendor_create \<Rightarrow> db \<Rightarrow> (db, vendor) outcome" where
  "create_vendor now new_id c s =
     committed s (
       bindE (ensure ((vc_latitude c = None) = (vc_longitude c = None))
         (ValueError ''latitude and longitude must be supplied together'')) (\<lambda>_.
       bindE (ensure (vc_email c \<notin> set (map vn_email (vendors s))
           \<and> (vc_owner_user_id c = None \<or> vc_owner_user_id c \<notin> set (map vn_owner_user_id (vendors s))))
         (HTTPException 409 ''Vendor email already exists'')) (\<lambda>_.
       let v = created_vendor now new_id c in Inr (v, s\<lparr>vendors := vendors s @ [v]\<rparr>))))"

record worker_create =
  wc_first_name :: string
  wc_last_name :: string
  wc_email :: string
  wc_phone :: string
  wc_skills :: "string list"
  wc_user_id :: "uuid option"

text \<open>A worker who was only invited is available, as the column's default says.\<close>

definition created_worker :: "datetime \<Rightarrow> uuid \<Rightarrow> uuid \<Rightarrow> worker_create \<Rightarrow> worker" where
  "created_worker now new_id vendor_id c =
     \<lparr>pk = new_id, created_at = now, wk_vendor_id = vendor_id, wk_user_id = wc_user_id c,
      wk_first_name = wc_first_name c, wk_last_name = wc_last_name c, wk_email = wc_email c,
      wk_phone = wc_phone c, wk_status = WK_INVITED, wk_skills = wc_skills c, wk_current_location = None,
      wk_location_updated_at = None, wk_available = True, wk_default_timezone_id = None,
      wk_maximum_jobs_per_day = 6, wk_maximum_minutes_per_day = 600, wk_sunday_emergency_enabled = False\<rparr>"

definition authorize_vendor :: "user \<Rightarrow> uuid \<Rightarrow> db \<Rightarrow> unit result" where
  "authorize_vendor u vendor_id s =
     (if us_role u = UR_admin \<or> us_role u = UR_operations then Inr ()
      else ensure (case get_vendor s vendor_id of None \<Rightarrow> False | Some v \<Rightarrow> vn_owner_user_id v = Some (pk u))
        (HTTPException 403 ''Account does not administer this vendor''))"

definition add_worker :: "datetime \<Rightarrow> uuid \<Rightarrow> uuid \<Rightarrow> worker_create \<Rightarrow> db \<Rightarrow> (db, worker) outcome" where
  "add_worker now new_id vendor_id c s =
     committed s (
       bindE (of_option (HTTPException 404 ''Vendor not found'') (get_vendor s vendor_id)) (\<lambda>_.
       bindE (ensure ((vendor_id, wc_email c) \<notin> set (map (\<lambda>w. (wk_vendor_id w, wk_email w)) (workers s))
           \<and> (wc_user_id c = None \<or> wc_user_id c \<notin> set (map wk_user_id (workers s))))
         (HTTPException 409 ''Worker already exists'')) (\<lambda>_.
       let w = created_worker now new_id vendor_id c in Inr (w, s\<lparr>workers := workers s @ [w]\<rparr>))))"

definition create_worker :: "datetime \<Rightarrow> uuid \<Rightarrow> user \<Rightarrow> uuid \<Rightarrow> worker_create \<Rightarrow> db \<Rightarrow> (db, worker) outcome" where
  "create_worker now new_id u vendor_id c s =
     (case authorize_vendor u vendor_id s of Inl e \<Rightarrow> (Inl e, s) | Inr _ \<Rightarrow> add_worker now new_id vendor_id c s)"

definition list_vendors :: "(string \<Rightarrow> int) \<Rightarrow> db \<Rightarrow> vendor_status option \<Rightarrow> nat \<Rightarrow> vendor list" where
  "list_vendors collate s status limit =
     take (min limit 200) (sort_key (\<lambda>v. collate (vn_display_name v))
       (filter (\<lambda>v. status = None \<or> status = Some (vn_status v)) (vendors s)))"

definition list_workers :: "(string \<Rightarrow> int) \<Rightarrow> user \<Rightarrow> uuid \<Rightarrow> db \<Rightarrow> worker list result" where
  "list_workers collate u vendor_id s =
     bindE (authorize_vendor u vendor_id s) (\<lambda>_.
     Inr (sort_key (\<lambda>w. collate (wk_last_name w)) (filter (\<lambda>w. wk_vendor_id w = vendor_id) (workers s))))"

record worker_location_event = row +
  wl_worker_id :: uuid
  wl_location :: point
  wl_accuracy_meters :: "int option"

definition record_location ::
  "(nat \<Rightarrow> datetime) \<Rightarrow> uuid \<Rightarrow> uuid \<Rightarrow> point \<Rightarrow> int option \<Rightarrow> uuid \<Rightarrow> db \<times> worker_location_event list
   \<Rightarrow> (db \<times> worker_location_event list, worker) outcome"
where
  "record_location clk new_id worker_id p accuracy authenticated_worker_id s =
     committed s (
       bindE (ensure (worker_id = authenticated_worker_id)
         (HTTPException 403 ''Workers may only update their own location'')) (\<lambda>_.
       bindE (of_option (HTTPException 404 ''Active worker not found'')
         (case get_worker (fst s) worker_id of None \<Rightarrow> None
          | Some w \<Rightarrow> if wk_status w = WK_ACTIVE then Some w else None)) (\<lambda>w.
       let w' = w\<lparr>wk_current_location := Some p, wk_location_updated_at := Some (clk 1)\<rparr>
       in Inr (w', ((fst s)\<lparr>workers := update_row pk (pk w) (\<lambda>_. w') (workers (fst s))\<rparr>,
            snd s @ [\<lparr>pk = new_id, created_at = clk 0, wl_worker_id = pk w, wl_location = p,
              wl_accuracy_meters = accuracy\<rparr>])))))"

section \<open>Commands of the operators\<close>

definition set_vendor_status :: "uuid \<Rightarrow> vendor_status \<Rightarrow> db \<Rightarrow> (db, vendor) outcome" where
  "set_vendor_status vendor_id status s =
     committed s (bindE (of_option (HTTPException 404 ''Vendor not found'') (get_vendor s vendor_id)) (\<lambda>v.
       let v' = v\<lparr>vn_status := status\<rparr> in Inr (v', s\<lparr>vendors := update_row pk (pk v) (\<lambda>_. v') (vendors s)\<rparr>)))"

record coverage_write =
  cw_service_ids :: "uuid list"
  cw_postal_codes :: "string list"
  cw_weekdays :: "int list"
  cw_start_time :: time_of_day
  cw_end_time :: time_of_day
  cw_capacity :: int

definition coverage_write_ok :: "coverage_write \<Rightarrow> bool" where
  "coverage_write_ok c \<longleftrightarrow> cw_start_time c = hours_of 7 \<and> cw_end_time c = hours_of 19 \<and> cw_capacity c = 1
     \<and> list_all (\<lambda>d. 0 \<le> d \<and> d \<le> 6) (cw_weekdays c)
     \<and> list_all (\<lambda>p. py_isdigit p \<and> length p = 5) (cw_postal_codes c)"

definition new_coverage ::
  "datetime \<Rightarrow> (nat \<Rightarrow> uuid) \<Rightarrow> uuid \<Rightarrow> coverage_write \<Rightarrow> provider_service_coverage list"
where
  "new_coverage now new_id worker_id c =
     (let chosen = List.product (cw_service_ids c) (sorted_set (cw_postal_codes c))
      in map2 (\<lambda>n (v, p). \<lparr>pk = new_id n, created_at = now, psc_worker_id = worker_id, psc_service_id = v,
             psc_postal_code = p, psc_active = True\<rparr>) [0..<length chosen] chosen)"

definition new_hours :: "datetime \<Rightarrow> (nat \<Rightarrow> uuid) \<Rightarrow> uuid \<Rightarrow> coverage_write \<Rightarrow> provider_working_hours list" where
  "new_hours now new_id worker_id c =
     (let chosen = sort (remdups (cw_weekdays c))
      in map2 (\<lambda>n d. \<lparr>pk = new_id n, created_at = now, pwh_worker_id = worker_id, pwh_weekday = d,
             pwh_start_time = cw_start_time c, pwh_end_time = cw_end_time c, pwh_capacity = cw_capacity c\<rparr>)
           [0..<length chosen] chosen)"

text \<open>A service that is listed twice violates the unique key of the coverage.\<close>

definition replace_booking_coverage ::
  "datetime \<Rightarrow> (nat \<Rightarrow> uuid) \<Rightarrow> (nat \<Rightarrow> uuid) \<Rightarrow> uuid \<Rightarrow> coverage_write \<Rightarrow> db \<Rightarrow> (db, unit) outcome"
where
  "replace_booking_coverage now new_id hour_id worker_id c s =
     committed s (
       bindE (ensure (coverage_write_ok c) (ValueError ''BookingCoverageWrite'')) (\<lambda>_.
       bindE (of_option (HTTPException 404 ''Worker not found'') (get_worker s worker_id)) (\<lambda>_.
       bindE (ensure (list_all (\<lambda>i. list_ex (\<lambda>v. pk v = i \<and> sv_is_active v) (services s)) (cw_service_ids c))
         (HTTPException 422 ''Coverage contains an unavailable service'')) (\<lambda>_.
       bindE (ensure (cw_postal_codes c = [] \<or> distinct (cw_service_ids c))
         (IntegrityError ''provider_service_coverage'')) (\<lambda>_.
       Inr ((), s\<lparr>coverages := filter (\<lambda>x. psc_worker_id x \<noteq> worker_id) (coverages s) @ new_coverage now new_id worker_id c,
            working_hours := filter (\<lambda>x. pwh_worker_id x \<noteq> worker_id) (working_hours s)
              @ new_hours now hour_id worker_id c\<rparr>))))))"

fun credential_type_value :: "credential_type \<Rightarrow> string" where
  "credential_type_value LICENSE = ''LICENSE''"
| "credential_type_value INSURANCE = ''INSURANCE''"

record credential_write =
  cr_credential_type :: credential_type
  cr_jurisdiction :: string
  cr_reference_last4 :: "string option"
  cr_expires_on :: date
  cr_verified :: bool

definition written_credential ::
  "datetime \<Rightarrow> user \<Rightarrow> credential_write \<Rightarrow> provider_credential \<Rightarrow> provider_credential"
where
  "written_credential now u c x =
     x\<lparr>pc_reference_last4 := cr_reference_last4 c, pc_expires_on := cr_expires_on c, pc_verified := cr_verified c,
       pc_verified_at := (if cr_verified c then Some now else None),
       pc_verified_by := (if cr_verified c then Some (pk u) else None)\<rparr>"

text \<open>The text of a date in the audit row is kept as its day.\<close>

definition upsert_provider_credential ::
  "(nat \<Rightarrow> datetime) \<Rightarrow> uuid \<Rightarrow> user \<Rightarrow> uuid \<Rightarrow> string \<Rightarrow> string \<Rightarrow> credential_write \<Rightarrow> db
   \<Rightarrow> (db, provider_credential) outcome"
where
  "upsert_provider_credential clk new_id u vendor_id credential_type jurisdiction c s =
     committed s (
       bindE (ensure (credential_type_value (cr_credential_type c) = upper credential_type
           \<and> upper (cr_jurisdiction c) = upper jurisdiction)
         (HTTPException 422 ''Credential path and payload must match'')) (\<lambda>_.
       bindE (of_option (HTTPException 404 ''Vendor not found'') (get_vendor s vendor_id)) (\<lambda>_.
       let a = \<lparr>al_actor_id = Some (pk u), al_actor_type = ''user'', al_action = ''provider_credential.update'',
             al_resource_type = ''vendor'', al_resource_id = vendor_id,
             al_metadata_json = [(''credential_type'', JStr (credential_type_value (cr_credential_type c))),
               (''jurisdiction'', JStr (upper jurisdiction)), (''verified'', JBool (cr_verified c)),
               (''expires_on'', JInt (cr_expires_on c))],
             al_created_at = clk (if cr_verified c then 2 else 1)\<rparr>
       in Inr (case find (\<lambda>x. pc_vendor_id x = vendor_id \<and> pc_credential_type x = cr_credential_type c
                \<and> pc_jurisdiction x = upper jurisdiction) (credentials s) of
              None \<Rightarrow>
                let x = written_credential (clk 1) u c \<lparr>pk = new_id, created_at = clk 0, pc_vendor_id = vendor_id,
                      pc_credential_type = cr_credential_type c, pc_jurisdiction = upper jurisdiction,
                      pc_reference_last4 = None, pc_verified = False, pc_verified_at = None,
                      pc_expires_on = cr_expires_on c, pc_verified_by = None\<rparr>
                in (x, add_audit a (s\<lparr>credentials := credentials s @ [x]\<rparr>))
            | Some old \<Rightarrow>
                let x = written_credential (clk 1) u c old
                in (x, add_audit a (s\<lparr>credentials := update_row pk (pk old) (\<lambda>_. x) (credentials s)\<rparr>))))))"

end
