(* ===== verification/Provider_Portal.thy ===== *)
theory Provider_Portal
  imports Workforce
begin

text \<open>
  What a provider administers by itself (\<^verbatim>\<open>workforce/provider_service.py\<close>): the areas it serves, the
  availability and the absences of its professionals, its capacity and its calendar.
\<close>

section \<open>The account\<close>

definition provider_forbidden :: api_error where "provider_forbidden = DomainError ''FORBIDDEN'' 403"

definition worker_of_user :: "db \<Rightarrow> user \<Rightarrow> worker option" where
  "worker_of_user s u = find (\<lambda>w. wk_user_id w = Some (pk u)) (workers s)"

definition provider_context :: "db \<Rightarrow> user \<Rightarrow> (vendor \<times> worker option) result" where
  "provider_context s u =
     bindE (of_option provider_forbidden
       (if us_role u = UR_vendor_admin then find (\<lambda>v. vn_owner_user_id v = Some (pk u)) (vendors s)
        else if us_role u = UR_technician
        then Option.bind (worker_of_user s u) (\<lambda>w. get_vendor s (wk_vendor_id w))
        else None)) (\<lambda>v.
     Inr (v, if us_role u = UR_vendor_admin \<or> us_role u = UR_technician then worker_of_user s u else None))"

definition check_owned_worker :: "db \<Rightarrow> uuid \<Rightarrow> uuid \<Rightarrow> worker result" where
  "check_owned_worker s worker_id vendor_id =
     of_option provider_forbidden (find (\<lambda>w. pk w = worker_id \<and> wk_vendor_id w = vendor_id) (workers s))"

definition check_professional :: "db \<Rightarrow> uuid option \<Rightarrow> uuid \<Rightarrow> unit result" where
  "check_professional s chosen vendor_id =
     (case chosen of None \<Rightarrow> Inr ()
      | Some w \<Rightarrow> bindE (check_owned_worker s w vendor_id) (\<lambda>_. Inr ()))"

definition portal_audit :: "user \<Rightarrow> string \<Rightarrow> string \<Rightarrow> uuid \<Rightarrow> json_object \<Rightarrow> datetime \<Rightarrow> audit_log" where
  "portal_audit u action resource_type i metadata now =
     \<lparr>al_actor_id = Some (pk u), al_actor_type = ''user'', al_action = action, al_resource_type = resource_type,
      al_resource_id = i, al_metadata_json = metadata, al_created_at = now\<rparr>"

section \<open>Jobs\<close>

definition provider_jobs :: "db \<Rightarrow> user \<Rightarrow> job list result" where
  "provider_jobs s u =
     bindE (provider_context s u) (\<lambda>(v, w).
     let own = filter (\<lambda>j. jb_vendor_id j = Some (pk v)) (jobs s) in
     if us_role u = UR_technician
     then bindE (of_option provider_forbidden w) (\<lambda>x.
          Inr (sort_key jb_scheduled_start (filter (\<lambda>j. jb_worker_id j = Some (pk x)) own)))
     else Inr (sort_key jb_scheduled_start own))"

definition provider_job :: "db \<Rightarrow> user \<Rightarrow> uuid \<Rightarrow> job result" where
  "provider_job s u i =
     bindE (provider_jobs s u) (\<lambda>js. of_option provider_forbidden (find (\<lambda>j. pk j = i) js))"

section \<open>Services\<close>

definition portal_services :: "db \<Rightarrow> user \<Rightarrow> provider_service list result" where
  "portal_services s u =
     bindE (provider_context s u) (\<lambda>(v, _). Inr (filter (\<lambda>p. ps_provider_id p = pk v) (provider_services s)))"

definition request_service :: "(nat \<Rightarrow> datetime) \<Rightarrow> uuid \<Rightarrow> user \<Rightarrow> uuid \<Rightarrow> db \<Rightarrow> (db, provider_service) outcome" where
  "request_service clk new_id u service_id s =
     committed s (
       bindE (provider_context s u) (\<lambda>(v, _).
       bindE (of_option (DomainError ''SERVICE_NOT_FOUND'' 404) (get_service s service_id)) (\<lambda>_.
       bindE (ensure (\<not> list_ex (\<lambda>p. ps_provider_id p = pk v \<and> ps_service_id p = service_id) (provider_services s))
         (DomainError ''SERVICE_ALREADY_SELECTED'' 409)) (\<lambda>_.
       let p = \<lparr>pk = new_id, created_at = clk 0, ps_provider_id = pk v, ps_service_id = service_id, ps_active = False,
             ps_approval_status = ''PENDING''\<rparr>
       in Inr (p, add_audit (portal_audit u ''provider.service.requested'' ''provider_service'' new_id [] (clk 1))
            (s\<lparr>provider_services := provider_services s @ [p]\<rparr>))))))"

definition own_service :: "db \<Rightarrow> user \<Rightarrow> uuid \<Rightarrow> provider_service result" where
  "own_service s u i =
     bindE (provider_context s u) (\<lambda>(v, _).
     of_option provider_forbidden (find (\<lambda>p. pk p = i \<and> ps_provider_id p = pk v) (provider_services s)))"

definition put_portal_service :: "provider_service \<Rightarrow> audit_log \<Rightarrow> db \<Rightarrow> db" where
  "put_portal_service p a s =
     add_audit a (s\<lparr>provider_services := update_row pk (pk p) (\<lambda>_. p) (provider_services s)\<rparr>)"

definition withdraw_service :: "datetime \<Rightarrow> user \<Rightarrow> uuid \<Rightarrow> db \<Rightarrow> (db, unit) outcome" where
  "withdraw_service now u i s =
     committed s (bindE (own_service s u i) (\<lambda>p.
       Inr ((), put_portal_service (p\<lparr>ps_active := False, ps_approval_status := ''REMOVAL_PENDING''\<rparr>)
         (portal_audit u ''provider.service.removal_requested'' ''provider_service'' (pk p) [] now) s)))"

definition change_service :: "datetime \<Rightarrow> user \<Rightarrow> uuid \<Rightarrow> bool \<Rightarrow> db \<Rightarrow> (db, provider_service) outcome" where
  "change_service now u i requested_active s =
     committed s (bindE (own_service s u i) (\<lambda>p.
       let q = (if requested_active then p\<lparr>ps_active := False, ps_approval_status := ''PENDING''\<rparr>
                else p\<lparr>ps_approval_status := ''REMOVAL_PENDING''\<rparr>)
       in Inr (q, put_portal_service q
            (portal_audit u ''provider.service.change_requested'' ''provider_service'' (pk p) [] now) s)))"

section \<open>Areas\<close>

record area_write =
  aw_area_type :: string
  aw_professional_id :: "uuid option"
  aw_service_zone_id :: "uuid option"
  aw_postal_code :: "string option"
  aw_city :: "string option"
  aw_county :: "string option"
  aw_state :: "string option"
  aw_latitude :: "rat option"
  aw_longitude :: "rat option"
  aw_radius_meters :: "int option"

definition AREA_TYPES :: "string list" where
  "AREA_TYPES = [''ZIP'', ''ZIP_GROUP'', ''CITY'', ''COUNTY'', ''RADIUS'', ''SERVICE_ZONE'']"

text \<open>The dimension an area of each kind requires; \<^verbatim>\<open>radius_meters\<close> is positive.\<close>

definition area_write_ok :: "area_write \<Rightarrow> bool" where
  "area_write_ok c \<longleftrightarrow> aw_area_type c \<in> set AREA_TYPES
     \<and> (if aw_area_type c = ''ZIP'' \<or> aw_area_type c = ''ZIP_GROUP'' then given (aw_postal_code c)
        else if aw_area_type c = ''CITY'' then given (aw_city c) \<and> given (aw_state c)
        else if aw_area_type c = ''COUNTY'' then given (aw_county c) \<and> given (aw_state c)
        else if aw_area_type c = ''SERVICE_ZONE'' then aw_service_zone_id c \<noteq> None
        else aw_radius_meters c \<noteq> None \<and> aw_latitude c \<noteq> None \<and> aw_longitude c \<noteq> None)"

definition portal_areas :: "db \<Rightarrow> user \<Rightarrow> provider_service_area list result" where
  "portal_areas s u =
     bindE (provider_context s u) (\<lambda>(v, _).
     Inr (filter (\<lambda>a. psa_provider_id a = pk v) (provider_service_areas s)))"

text \<open>The columns a request sets; an area is inactive until it is approved.\<close>

definition written_area :: "area_write \<Rightarrow> string option \<Rightarrow> provider_service_area \<Rightarrow> provider_service_area" where
  "written_area c state a =
     a\<lparr>psa_professional_id := aw_professional_id c, psa_area_type := aw_area_type c,
       psa_service_zone_id := aw_service_zone_id c, psa_postal_code := aw_postal_code c, psa_city := aw_city c,
       psa_county := aw_county c, psa_state := state, psa_center := point_of (aw_latitude c) (aw_longitude c),
       psa_radius_meters := aw_radius_meters c, psa_active := False, psa_approval_status := ''PENDING''\<rparr>"

definition zone_exists :: "db \<Rightarrow> uuid option \<Rightarrow> bool" where
  "zone_exists s i = (case i of None \<Rightarrow> True | Some z \<Rightarrow> lookup_row pk z (service_zones s) \<noteq> None)"

definition add_area ::
  "(nat \<Rightarrow> datetime) \<Rightarrow> uuid \<Rightarrow> user \<Rightarrow> area_write \<Rightarrow> db \<Rightarrow> (db, provider_service_area) outcome"
where
  "add_area clk new_id u c s =
     committed s (
       bindE (ensure (area_write_ok c) (ValueError ''ProviderServiceAreaWrite'')) (\<lambda>_.
       bindE (provider_context s u) (\<lambda>(v, _).
       bindE (check_professional s (aw_professional_id c) (pk v)) (\<lambda>_.
       bindE (ensure (zone_exists s (aw_service_zone_id c)) (IntegrityError ''service_zones'')) (\<lambda>_.
       let a = written_area c (if given (aw_state c) then map_option upper (aw_state c) else None)
             \<lparr>pk = new_id, created_at = clk 0, psa_provider_id = pk v, psa_professional_id = None, psa_area_type = [],
              psa_service_zone_id = None, psa_postal_code = None, psa_city = None, psa_county = None,
              psa_state = None, psa_center = None, psa_radius_meters = None, psa_active = False,
              psa_approval_status = ''PENDING''\<rparr>
       in Inr (a, add_audit (portal_audit u ''provider.service_area.requested'' ''provider_service_area'' new_id [] (clk 1))
            (s\<lparr>provider_service_areas := provider_service_areas s @ [a]\<rparr>)))))))"

definition own_area :: "db \<Rightarrow> user \<Rightarrow> uuid \<Rightarrow> provider_service_area result" where
  "own_area s u i =
     bindE (provider_context s u) (\<lambda>(v, _).
     of_option provider_forbidden (find (\<lambda>a. pk a = i \<and> psa_provider_id a = pk v) (provider_service_areas s)))"

definition put_area :: "provider_service_area \<Rightarrow> audit_log \<Rightarrow> db \<Rightarrow> db" where
  "put_area a x s =
     add_audit x (s\<lparr>provider_service_areas := update_row pk (pk a) (\<lambda>_. a) (provider_service_areas s)\<rparr>)"

text \<open>Unlike a new area, a changed one keeps the state as it was written.\<close>

definition update_area :: "datetime \<Rightarrow> user \<Rightarrow> uuid \<Rightarrow> area_write \<Rightarrow> db \<Rightarrow> (db, provider_service_area) outcome" where
  "update_area now u i c s =
     committed s (
       bindE (ensure (area_write_ok c) (ValueError ''ProviderServiceAreaWrite'')) (\<lambda>_.
       bindE (own_area s u i) (\<lambda>a.
       bindE (check_professional s (aw_professional_id c) (psa_provider_id a)) (\<lambda>_.
       bindE (ensure (zone_exists s (aw_service_zone_id c)) (IntegrityError ''service_zones'')) (\<lambda>_.
       let a' = written_area c (aw_state c) a
       in Inr (a', put_area a' (portal_audit u ''provider.service_area.changed'' ''provider_service_area'' (pk a) [] now) s))))))"

definition remove_area :: "datetime \<Rightarrow> user \<Rightarrow> uuid \<Rightarrow> db \<Rightarrow> (db, unit) outcome" where
  "remove_area now u i s =
     committed s (bindE (own_area s u i) (\<lambda>a.
       Inr ((), put_area (a\<lparr>psa_active := False, psa_approval_status := ''REMOVAL_PENDING''\<rparr>)
         (portal_audit u ''provider.service_area.removal_requested'' ''provider_service_area'' (pk a) [] now) s)))"

section \<open>Availability\<close>

record rule_write =
  rw_professional_id :: uuid
  rw_day_of_week :: int
  rw_start_local_time :: time_of_day
  rw_end_local_time :: time_of_day
  rw_available :: bool
  rw_emergency_only :: bool
  rw_timezone_id :: string

definition rule_write_ok :: "rule_write \<Rightarrow> bool" where
  "rule_write_ok r \<longleftrightarrow> 0 \<le> rw_day_of_week r \<and> rw_day_of_week r \<le> 6
     \<and> \<not> (rw_start_local_time r < hours_of 7 \<or> rw_end_local_time r > hours_of 19)
     \<and> \<not> rw_end_local_time r \<le> rw_start_local_time r
     \<and> \<not> (rw_day_of_week r = 6 \<and> \<not> rw_emergency_only r)"

definition vendor_professional :: "db \<Rightarrow> uuid \<Rightarrow> uuid \<Rightarrow> bool" where
  "vendor_professional s vendor_id worker_id \<longleftrightarrow> list_ex (\<lambda>w. pk w = worker_id \<and> wk_vendor_id w = vendor_id) (workers s)"

definition availability :: "db \<Rightarrow> user \<Rightarrow> provider_availability_rule list result" where
  "availability s u =
     bindE (provider_context s u) (\<lambda>(v, _).
     Inr (sort_key par_day_of_week (sort_key par_start_local_time
       (filter (\<lambda>r. vendor_professional s (pk v) (par_provider_professional_id r)) (availability_rules s)))))"

definition new_rules :: "datetime \<Rightarrow> (nat \<Rightarrow> uuid) \<Rightarrow> rule_write list \<Rightarrow> provider_availability_rule list" where
  "new_rules now new_id rules =
     map2 (\<lambda>n r. \<lparr>pk = new_id n, created_at = now, par_provider_professional_id = rw_professional_id r,
         par_day_of_week = rw_day_of_week r, par_start_local_time = rw_start_local_time r,
         par_end_local_time = rw_end_local_time r, par_available = rw_available r,
         par_emergency_only = rw_emergency_only r, par_timezone_id = rw_timezone_id r\<rparr>) [0..<length rules] rules"

definition rule_key :: "rule_write \<Rightarrow> uuid \<times> int \<times> time_of_day \<times> time_of_day" where
  "rule_key r = (rw_professional_id r, rw_day_of_week r, rw_start_local_time r, rw_end_local_time r)"

fun check_timezones :: "(string \<Rightarrow> zone option) \<Rightarrow> rule_write list \<Rightarrow> unit result" where
  "check_timezones tzdb [] = Inr ()"
| "check_timezones tzdb (r # rs) = bindE (timezone tzdb (rw_timezone_id r)) (\<lambda>_. check_timezones tzdb rs)"

text \<open>The rules of all professionals are replaced; a rule that is sent twice violates the unique key.\<close>

definition replace_availability ::
  "(string \<Rightarrow> zone option) \<Rightarrow> (nat \<Rightarrow> datetime) \<Rightarrow> (nat \<Rightarrow> uuid) \<Rightarrow> user \<Rightarrow> rule_write list \<Rightarrow> db
   \<Rightarrow> (db, provider_availability_rule list) outcome"
where
  "replace_availability tzdb clk new_id u rules s =
     committed s (
       bindE (ensure (list_all rule_write_ok rules) (ValueError ''AvailabilityRuleWrite'')) (\<lambda>_.
       bindE (provider_context s u) (\<lambda>(v, _).
       bindE (ensure (list_all (\<lambda>r. vendor_professional s (pk v) (rw_professional_id r)) rules) provider_forbidden) (\<lambda>_.
       bindE (check_timezones tzdb rules) (\<lambda>_.
       bindE (ensure (distinct (map rule_key rules)) (IntegrityError ''provider_availability_rules'')) (\<lambda>_.
       let records = new_rules (clk 0) new_id rules
       in Inr (records, add_audit (portal_audit u ''provider.availability.replaced'' ''vendor'' (pk v)
              [(''rule_count'', JInt (int (length records)))] (clk 1))
            (s\<lparr>availability_rules := filter (\<lambda>r. \<not> vendor_professional s (pk v) (par_provider_professional_id r))
                (availability_rules s) @ records\<rparr>))))))))"

section \<open>Absences\<close>

record exception_write =
  ew_professional_id :: uuid
  ew_start_at :: datetime
  ew_end_at :: datetime
  ew_timezone_id :: string
  ew_reason :: availability_exception_reason

definition absences :: "db \<Rightarrow> user \<Rightarrow> provider_availability_exception list result" where
  "absences s u =
     bindE (provider_context s u) (\<lambda>(v, _).
     Inr (sort_key pae_start_at
       (filter (\<lambda>e. vendor_professional s (pk v) (pae_provider_professional_id e)) (availability_exceptions s))))"

definition add_exception ::
  "(string \<Rightarrow> zone option) \<Rightarrow> (nat \<Rightarrow> datetime) \<Rightarrow> uuid \<Rightarrow> user \<Rightarrow> exception_write \<Rightarrow> db
   \<Rightarrow> (db, provider_availability_exception) outcome"
where
  "add_exception tzdb clk new_id u c s =
     committed s (
       bindE (ensure (\<not> ew_end_at c \<le> ew_start_at c) (ValueError ''AvailabilityExceptionWrite'')) (\<lambda>_.
       bindE (provider_context s u) (\<lambda>(v, _).
       bindE (check_owned_worker s (ew_professional_id c) (pk v)) (\<lambda>_.
       bindE (timezone tzdb (ew_timezone_id c)) (\<lambda>_.
       let e = \<lparr>pk = new_id, created_at = clk 0, pae_provider_professional_id = ew_professional_id c,
             pae_start_at = ew_start_at c, pae_end_at = ew_end_at c, pae_timezone_id = ew_timezone_id c,
             pae_reason = ew_reason c, pae_status = ''ACTIVE'', pae_created_by = pk u\<rparr>
       in Inr (e, add_audit (portal_audit u ''provider.availability_exception.created'' ''availability_exception'' new_id []
              (clk 1))
            (s\<lparr>availability_exceptions := availability_exceptions s @ [e]\<rparr>)))))))"

definition own_exception :: "db \<Rightarrow> user \<Rightarrow> uuid \<Rightarrow> provider_availability_exception result" where
  "own_exception s u i =
     bindE (provider_context s u) (\<lambda>(v, _).
     of_option provider_forbidden
       (find (\<lambda>e. pk e = i \<and> vendor_professional s (pk v) (pae_provider_professional_id e)) (availability_exceptions s)))"

definition put_exception :: "provider_availability_exception \<Rightarrow> audit_log \<Rightarrow> db \<Rightarrow> db" where
  "put_exception e a s =
     add_audit a (s\<lparr>availability_exceptions := update_row pk (pk e) (\<lambda>_. e) (availability_exceptions s)\<rparr>)"

record exception_patch =
  ep_start_at :: "datetime option"
  ep_end_at :: "datetime option"
  ep_timezone_id :: "string option"
  ep_reason :: "availability_exception_reason option"

definition update_exception ::
  "(string \<Rightarrow> zone option) \<Rightarrow> datetime \<Rightarrow> user \<Rightarrow> uuid \<Rightarrow> exception_patch \<Rightarrow> db
   \<Rightarrow> (db, provider_availability_exception) outcome"
where
  "update_exception tzdb now u i c s =
     committed s (
       bindE (ensure (\<not> (case (ep_start_at c, ep_end_at c) of (Some x, Some y) \<Rightarrow> y \<le> x | _ \<Rightarrow> False))
         (ValueError ''AvailabilityExceptionPatch'')) (\<lambda>_.
       bindE (own_exception s u i) (\<lambda>e.
       let start_at = or_old (ep_start_at c) (pae_start_at e); end_at = or_old (ep_end_at c) (pae_end_at e) in
       bindE (ensure (\<not> end_at \<le> start_at) (DomainError ''INVALID_AVAILABILITY_EXCEPTION'' 422)) (\<lambda>_.
       bindE (case ep_timezone_id c of None \<Rightarrow> Inr ()
              | Some tz \<Rightarrow> bindE (timezone tzdb tz) (\<lambda>_. Inr ())) (\<lambda>_.
       let e' = e\<lparr>pae_timezone_id := or_old (ep_timezone_id c) (pae_timezone_id e), pae_start_at := start_at,
             pae_end_at := end_at, pae_reason := or_old (ep_reason c) (pae_reason e)\<rparr>
       in Inr (e', put_exception e' (portal_audit u ''provider.availability_exception.changed'' ''availability_exception''
            (pk e) [] now) s))))))"

definition remove_exception :: "datetime \<Rightarrow> user \<Rightarrow> uuid \<Rightarrow> db \<Rightarrow> (db, unit) outcome" where
  "remove_exception now u i s =
     committed s (bindE (own_exception s u i) (\<lambda>e.
       Inr ((), put_exception (e\<lparr>pae_status := ''CANCELLED''\<rparr>)
         (portal_audit u ''provider.availability_exception.cancelled'' ''availability_exception'' (pk e) [] now) s)))"

section \<open>Capacity\<close>

record capacity_write =
  kw_professional_id :: "uuid option"
  kw_max_jobs_daily :: int
  kw_max_minutes_daily :: int
  kw_max_concurrent_jobs :: int
  kw_emergency_reserved_jobs :: int
  kw_emergency_reserved_minutes :: int
  kw_effective_from :: date
  kw_effective_until :: "date option"

definition capacity_write_ok :: "capacity_write \<Rightarrow> bool" where
  "capacity_write_ok c \<longleftrightarrow> 1 \<le> kw_max_jobs_daily c \<and> kw_max_jobs_daily c \<le> 30
     \<and> 30 \<le> kw_max_minutes_daily c \<and> kw_max_minutes_daily c \<le> 720
     \<and> 1 \<le> kw_max_concurrent_jobs c \<and> kw_max_concurrent_jobs c \<le> 5
     \<and> 0 \<le> kw_emergency_reserved_jobs c \<and> kw_emergency_reserved_jobs c \<le> 10
     \<and> 0 \<le> kw_emergency_reserved_minutes c \<and> kw_emergency_reserved_minutes c \<le> 720
     \<and> \<not> kw_emergency_reserved_jobs c \<ge> kw_max_jobs_daily c
     \<and> \<not> kw_emergency_reserved_minutes c \<ge> kw_max_minutes_daily c
     \<and> \<not> (case kw_effective_until c of None \<Rightarrow> False | Some d \<Rightarrow> d < kw_effective_from c)"

definition provider_capacity :: "db \<Rightarrow> user \<Rightarrow> provider_capacity_rule list result" where
  "provider_capacity s u =
     bindE (provider_context s u) (\<lambda>(v, _). Inr (filter (\<lambda>r. pcr_provider_id r = pk v) (capacity_rules s)))"

definition set_capacity ::
  "(nat \<Rightarrow> datetime) \<Rightarrow> uuid \<Rightarrow> user \<Rightarrow> capacity_write \<Rightarrow> db \<Rightarrow> (db, provider_capacity_rule) outcome"
where
  "set_capacity clk new_id u c s =
     committed s (
       bindE (ensure (capacity_write_ok c) (ValueError ''CapacityRuleWrite'')) (\<lambda>_.
       bindE (provider_context s u) (\<lambda>(v, _).
       bindE (check_professional s (kw_professional_id c) (pk v)) (\<lambda>_.
       let r = \<lparr>pk = new_id, created_at = clk 0, pcr_provider_id = pk v, pcr_professional_id = kw_professional_id c,
             pcr_max_jobs_daily = kw_max_jobs_daily c, pcr_max_minutes_daily = kw_max_minutes_daily c,
             pcr_max_concurrent_jobs = kw_max_concurrent_jobs c,
             pcr_emergency_reserved_jobs = kw_emergency_reserved_jobs c,
             pcr_emergency_reserved_minutes = kw_emergency_reserved_minutes c,
             pcr_effective_from = kw_effective_from c, pcr_effective_until = kw_effective_until c\<rparr>
       in Inr (r, add_audit (portal_audit u ''provider.capacity.changed'' ''provider_capacity_rule'' new_id [] (clk 1))
            (s\<lparr>capacity_rules := capacity_rules s @ [r]\<rparr>))))))"

record capacity_day =
  cd_date :: date
  cd_total_minutes :: int
  cd_reserved_minutes :: int
  cd_booking_minutes :: int
  cd_buffer_minutes :: int
  cd_remaining_minutes :: int
  cd_job_count :: int
  cd_max_job_count :: int

definition in_effect :: "date \<Rightarrow> date \<Rightarrow> provider_capacity_rule \<Rightarrow> bool" where
  "in_effect from_day to_day r \<longleftrightarrow> pcr_effective_from r \<le> to_day
     \<and> (case pcr_effective_until r of None \<Rightarrow> True | Some d \<Rightarrow> from_day \<le> d)"

text \<open>The three queries; the last day is not part of the calendar.\<close>

definition calendar_rules :: "db \<Rightarrow> uuid \<Rightarrow> date \<Rightarrow> date \<Rightarrow> provider_capacity_rule list" where
  "calendar_rules s vendor_id start end_day =
     sort_key (\<lambda>r. - pcr_effective_from r)
       (filter (\<lambda>r. pcr_provider_id r = vendor_id \<and> in_effect start (end_day - 1) r) (capacity_rules s))"

definition calendar_jobs :: "db \<Rightarrow> uuid \<Rightarrow> date \<Rightarrow> date \<Rightarrow> job list" where
  "calendar_jobs s vendor_id start end_day =
     filter (\<lambda>j. jb_vendor_id j = Some vendor_id \<and> days start \<le> jb_scheduled_start j
        \<and> jb_scheduled_start j < days end_day \<and> jb_status j \<noteq> J_CANCELLED) (jobs s)"

definition calendar_holds :: "db \<Rightarrow> uuid \<Rightarrow> datetime \<Rightarrow> uuid list \<Rightarrow> date \<Rightarrow> date \<Rightarrow> capacity_hold list" where
  "calendar_holds s vendor_id now professionals start end_day =
     filter (\<lambda>h. ch_provider_candidate_id h = vendor_id \<and> ch_professional_candidate_id h \<in> set professionals
        \<and> days start \<le> ch_slot_start_utc h \<and> ch_slot_start_utc h < days end_day \<and> ch_status h = H_HELD
        \<and> ch_expires_at h > now) (holds s)"

definition job_minutes :: "job \<Rightarrow> int" where
  "job_minutes j = max ((jb_scheduled_end j - jb_scheduled_start j) div minutes 1) 0"

definition capacity_day_of ::
  "provider_capacity_rule list \<Rightarrow> job list \<Rightarrow> capacity_hold list \<Rightarrow> date \<Rightarrow> capacity_day"
where
  "capacity_day_of rules js hs day =
     (let active = filter (in_effect day day) rules;
          total = sum_list (map pcr_max_minutes_daily active);
          day_jobs = filter (\<lambda>j. date_of (jb_scheduled_start j) = day) js;
          day_holds = filter (\<lambda>h. date_of (ch_slot_start_utc h) = day) hs;
          booked = sum_list (map job_minutes day_jobs);
          held = sum_list (map ch_capacity_minutes day_holds)
      in \<lparr>cd_date = day, cd_total_minutes = total, cd_reserved_minutes = booked + held, cd_booking_minutes = booked,
          cd_buffer_minutes = held, cd_remaining_minutes = max (total - (booked + held)) 0,
          cd_job_count = int (length day_jobs) + int (length day_holds),
          cd_max_job_count = sum_list (map pcr_max_jobs_daily active)\<rparr>)"

definition capacity_calendar :: "datetime \<Rightarrow> user \<Rightarrow> date \<Rightarrow> int \<Rightarrow> db \<Rightarrow> capacity_day list result" where
  "capacity_calendar now u start n s =
     bindE (ensure (\<not> (n < 1 \<or> n > 31)) (DomainError ''INVALID_DATE_RANGE'' 422)) (\<lambda>_.
     bindE (provider_context s u) (\<lambda>(v, _).
     let end_day = start + n; rules = calendar_rules s (pk v) start end_day;
         professionals = concat (map (\<lambda>r. case pcr_professional_id r of None \<Rightarrow> [] | Some w \<Rightarrow> [w]) rules);
         js = calendar_jobs s (pk v) start end_day; hs = calendar_holds s (pk v) now professionals start end_day
     in Inr (map (\<lambda>k. capacity_day_of rules js hs (start + int k)) [0..<nat n])))"

end
