(* ===== verification/Providers.thy ===== *)
theory Providers
  imports Provider_Portal
begin

text \<open>
  The commands on providers in any order: what an application under review lists, what a decision
  does, and which providers the matcher can ever offer.
\<close>

section \<open>The commands as steps\<close>

text \<open>Commands of the portal and of operators, which change only the shared tables.\<close>

inductive portal_step :: "db \<Rightarrow> db \<Rightarrow> bool" where
  po_request: "request_service clk i u service_id b = (r1, b') \<Longrightarrow> portal_step b b'"
| po_withdraw: "withdraw_service now u i b = (r2, b') \<Longrightarrow> portal_step b b'"
| po_change: "change_service now u i active b = (r3, b') \<Longrightarrow> portal_step b b'"
| po_add_area: "add_area clk i u aw b = (r4, b') \<Longrightarrow> portal_step b b'"
| po_update_area: "update_area now u i aw b = (r5, b') \<Longrightarrow> portal_step b b'"
| po_remove_area: "remove_area now u i b = (r6, b') \<Longrightarrow> portal_step b b'"
| po_availability: "replace_availability tzdb clk ids u rules b = (r7, b') \<Longrightarrow> portal_step b b'"
| po_add_exception: "add_exception tzdb clk i u ew b = (r8, b') \<Longrightarrow> portal_step b b'"
| po_update_exception: "update_exception tzdb now u i ep b = (r9, b') \<Longrightarrow> portal_step b b'"
| po_remove_exception: "remove_exception now u i b = (r10, b') \<Longrightarrow> portal_step b b'"
| po_capacity: "set_capacity clk i u kw b = (r11, b') \<Longrightarrow> portal_step b b'"
| po_vendor: "create_vendor now i vc b = (r12, b') \<Longrightarrow> portal_step b b'"
| po_worker: "create_worker now i u vendor wc b = (r13, b') \<Longrightarrow> i \<notin> pk ` set (workers b) \<Longrightarrow> portal_step b b'"
| po_location: "record_location clk i w p accuracy auth (b, ls) = (r14, (b', ls')) \<Longrightarrow> portal_step b b'"
| po_status: "set_vendor_status vendor st b = (r15, b') \<Longrightarrow> portal_step b b'"
| po_coverage: "replace_booking_coverage now ids hids w cw b = (r16, b') \<Longrightarrow> portal_step b b'"
| po_credential: "upsert_provider_credential clk i u vendor ct j cr b = (r17, b') \<Longrightarrow> portal_step b b'"

text \<open>
  The tables of the provider commands; every other command of the program leaves them alone.
\<close>

definition same_providers :: "db \<Rightarrow> db \<Rightarrow> bool" where
  "same_providers b b' \<longleftrightarrow> vendors b' = vendors b \<and> workers b' = workers b \<and> provider_services b' = provider_services b
     \<and> provider_service_areas b' = provider_service_areas b \<and> catalog_services b' = catalog_services b"

text \<open>The primary keys and the vendor id that a command draws are new.\<close>

inductive provider_step :: "provider_store \<Rightarrow> provider_store \<Rightarrow> bool" where
  ps_organisation: "register_organisation deliverable k clk d r agent ip s = (res, s') \<Longrightarrow>
     og_application_id d \<notin> pk ` set (applications s) \<Longrightarrow> og_vendor_id d \<notin> pa_vendor_id ` set (applications s) \<Longrightarrow>
     og_worker_id d \<notin> pk ` set (workers (tables s)) \<Longrightarrow>
     provider_step s s'"
| ps_profile: "update_profile now u pu s = (res, s') \<Longrightarrow> provider_step s s'"
| ps_edit: "update_onboarding now u c s = (res, s') \<Longrightarrow> provider_step s s'"
| ps_submit: "submit clk event_id u s = (res, s') \<Longrightarrow> provider_step s s'"
| ps_decide: "decide clk event_id i actor d reason s = (res, s') \<Longrightarrow> provider_step s s'"
| ps_add_service: "add_service collate clk new_id event_id u service_id order cid s = (res, s') \<Longrightarrow>
     new_id \<notin> pk ` set (catalog_services (tables s)) \<Longrightarrow> provider_step s s'"
| ps_update_service: "update_provider_service collate now event_id i u active order version cid s = (res, s') \<Longrightarrow> provider_step s s'"
| ps_remove_service: "remove_service now event_id i u version cid s = (res, s') \<Longrightarrow> provider_step s s'"
| ps_add_skill: "add_skill clk new_id event_id u skill_id worker cid s = (res, s') \<Longrightarrow>
     new_id \<notin> pk ` set (catalog_skills s) \<Longrightarrow> provider_step s s'"
| ps_remove_skill: "remove_skill now event_id i u version cid s = (res, s') \<Longrightarrow> provider_step s s'"
| ps_portal: "portal_step (tables s) b \<Longrightarrow> provider_step s (with_tables (\<lambda>_. b) s)"
| ps_provider: "register_provider tzdb k clk d r agent ip (acc (portal s)) = (res, a) \<Longrightarrow>
     pv_worker_id d \<notin> pk ` set (workers (tables s)) \<Longrightarrow>
     provider_step s (s\<lparr>portal := (portal s)\<lparr>acc := a\<rparr>\<rparr>)"
| ps_other: "same_providers (tables s) (store p) \<Longrightarrow> provider_step s (s\<lparr>portal := p\<rparr>)"

section \<open>What can be offered\<close>

definition unapproved :: "db \<Rightarrow> bool" where
  "unapproved b \<longleftrightarrow> (\<forall>p \<in> set (provider_services b). ps_approval_status p \<noteq> ''APPROVED'')"

lemma unapprovedI [intro]: "(\<And>p. p \<in> set (provider_services b) \<Longrightarrow> ps_approval_status p \<noteq> ''APPROVED'') \<Longrightarrow> unapproved b"
  by (simp add: unapproved_def)

lemma unapproved_same: "provider_services b' = provider_services b \<Longrightarrow> unapproved b \<Longrightarrow> unapproved b'"
  by (simp add: unapproved_def)

lemma unapproved_put:
  "unapproved b \<Longrightarrow> ps_approval_status p \<noteq> ''APPROVED'' \<Longrightarrow> unapproved (put_portal_service p a b)"
  by (auto simp: unapproved_def put_portal_service_def dest: update_row_mem)

lemmas portal_defs =
  request_service_def withdraw_service_def change_service_def add_area_def update_area_def remove_area_def
  put_area_def put_portal_service_def replace_availability_def add_exception_def update_exception_def
  remove_exception_def put_exception_def set_capacity_def create_vendor_def create_worker_def add_worker_def
  record_location_def set_vendor_status_def replace_booking_coverage_def upsert_provider_credential_def

lemma portal_step_catalog: "portal_step b b' \<Longrightarrow> catalog_services b' = catalog_services b"
  by (induction rule: portal_step.induct)
    (auto simp: portal_defs Let_def split: option.splits sum.splits prod.splits if_splits elim!: committed_cases bindE_InrE)

lemma portal_step_unapproved: "portal_step b b' \<Longrightarrow> unapproved b \<Longrightarrow> unapproved b'"
  by (induction rule: portal_step.induct)
    (auto simp: portal_defs unapproved_def Let_def split: option.splits sum.splits prod.splits if_splits
       elim!: committed_cases bindE_InrE dest!: update_row_mem)

text \<open>Workers are added under new keys and stay with their vendor.\<close>

definition workers_grown :: "db \<Rightarrow> db \<Rightarrow> bool" where
  "workers_grown b b' \<longleftrightarrow> (distinct (map pk (workers b)) \<longrightarrow>
     distinct (map pk (workers b')) \<and> pk ` set (workers b) \<subseteq> pk ` set (workers b')
     \<and> (\<forall>w' \<in> set (workers b'). pk w' \<in> pk ` set (workers b)
          \<longrightarrow> (\<exists>w \<in> set (workers b). pk w = pk w' \<and> wk_vendor_id w = wk_vendor_id w')))"

lemma workers_grown_same: "workers b' = workers b \<Longrightarrow> workers_grown b b'"
  by (auto simp: workers_grown_def)

lemma workers_grown_append: "workers b' = workers b @ [w] \<Longrightarrow> pk w \<notin> pk ` set (workers b) \<Longrightarrow> workers_grown b b'"
  by (auto simp: workers_grown_def)

lemma workers_grown_map:
  assumes "workers b' = map f (workers b)"
    and "\<And>w. w \<in> set (workers b) \<Longrightarrow> distinct (map pk (workers b)) \<Longrightarrow>
      pk (f w) = pk w \<and> wk_vendor_id (f w) = wk_vendor_id w"
  shows "workers_grown b b'"
proof (cases "distinct (map pk (workers b))")
  case True
  with assms(2) have keys: "map pk (workers b') = map pk (workers b)" unfolding assms(1) by simp
  show ?thesis unfolding workers_grown_def set_map [symmetric] keys using assms by auto
qed (simp add: workers_grown_def)

lemma workers_grown_update_where:
  "workers b' = update_where P f (workers b) \<Longrightarrow> (\<And>w. pk (f w) = pk w) \<Longrightarrow> (\<And>w. wk_vendor_id (f w) = wk_vendor_id w)
   \<Longrightarrow> workers_grown b b'"
  unfolding update_where_def by (erule workers_grown_map) auto

lemma workers_grown_put:
  assumes "workers b' = update_row pk (pk w) (\<lambda>_. w') (workers b)" and "w \<in> set (workers b)" and "pk w' = pk w"
    and "wk_vendor_id w' = wk_vendor_id w"
  shows "workers_grown b b'"
proof (rule workers_grown_map [where f = "\<lambda>x. if pk x = pk w then w' else x"])
  show "workers b' = map (\<lambda>x. if pk x = pk w then w' else x) (workers b)"
    by (simp add: assms(1) update_row_def update_where_def)
  show "pk (if pk x = pk w then w' else x) = pk x
      \<and> wk_vendor_id (if pk x = pk w then w' else x) = wk_vendor_id x"
    if "x \<in> set (workers b)" and "distinct (map pk (workers b))" for x
    using that assms(2-4) by (auto simp: distinct_map dest: inj_onD)
qed

lemma created_worker_pk: "pk (created_worker now i v c) = i"
  by (simp add: created_worker_def)

lemma portal_step_workers: "portal_step b b' \<Longrightarrow> workers_grown b b'"
proof (induction rule: portal_step.induct)
  case (po_worker now i u vendor wc b r b')
  then show ?case
    by (auto simp: create_worker_def add_worker_def created_worker_pk Let_def split: sum.splits
        elim!: committed_cases bindE_InrE intro: workers_grown_same workers_grown_append)
next
  case (po_location clk i w p accuracy auth b ls r b' ls')
  from po_location(1) [unfolded record_location_def] show ?case
  proof (cases rule: committed_cases)
    case failed
    then show ?thesis by (simp add: workers_grown_same)
  next
    case (stored x)
    then obtain r where "get_worker b w = Some r"
      and "b' = b\<lparr>workers := update_row pk (pk r)
             (\<lambda>_. r\<lparr>wk_current_location := Some p, wk_location_updated_at := Some (clk 1)\<rparr>) (workers b)\<rparr>"
      by (auto simp: Let_def split: option.splits if_splits elim!: bindE_InrE)
    then show ?thesis
      by (intro workers_grown_put [where w = r and w' = "r\<lparr>wk_current_location := Some p, wk_location_updated_at := Some (clk 1)\<rparr>"])
        (auto dest: lookup_row_mem)
  qed
qed (auto simp: portal_defs Let_def split: option.splits sum.splits prod.splits if_splits
       elim!: committed_cases bindE_InrE intro!: workers_grown_same)

section \<open>The rows that the catalogue commands write\<close>

definition catalog_ok :: "provider_store \<Rightarrow> bool" where
  "catalog_ok s \<longleftrightarrow> distinct (map pk (catalog_services (tables s))) \<and> distinct (map pk (catalog_skills s))
     \<and> distinct (map pk (workers (tables s)))
     \<and> (\<forall>p \<in> set (catalog_services (tables s)). pcs_status p \<noteq> AP_REJECTED)
     \<and> (\<forall>p \<in> set (catalog_skills s). pck_status p \<noteq> AP_REJECTED \<and> pck_worker_id p \<in> pk ` set (workers (tables s))
          \<and> (\<forall>w \<in> set (workers (tables s)). pk w = pck_worker_id p \<longrightarrow> wk_vendor_id w = pck_vendor_id p))"

definition selected_services :: "provider_store \<Rightarrow> uuid \<Rightarrow> string list" where
  "selected_services s v = map (\<lambda>p. str_uuid (pcs_service_id p))
     (filter (\<lambda>p. pcs_vendor_id p = v \<and> pcs_active p) (catalog_services (tables s)))"

definition selected_skills :: "provider_store \<Rightarrow> uuid \<Rightarrow> string list" where
  "selected_skills s v = map (\<lambda>p. str_uuid (pck_skill_id p))
     (filter (\<lambda>p. pck_vendor_id p = v \<and> pck_active p) (catalog_skills s))"

text \<open>The rows of one vendor are written, those of the others stay.\<close>

definition rows_written :: "uuid \<Rightarrow> provider_store \<Rightarrow> provider_store \<Rightarrow> bool" where
  "rows_written v s s1 \<longleftrightarrow> catalog_ok s1 \<and> applications s1 = applications s
     \<and> (\<forall>v'. v' \<noteq> v \<longrightarrow> selected_services s1 v' = selected_services s v' \<and> selected_skills s1 v' = selected_skills s v')
     \<and> provider_services (tables s1) = provider_services (tables s)"

lemma put_service_written:
  assumes ok: "catalog_ok s" and p: "p \<in> set (catalog_services (tables s))" "pcs_vendor_id p = v"
    and q: "pk q = pk p" "pcs_vendor_id q = v" "pcs_status q \<noteq> AP_REJECTED"
  shows "rows_written v s (put_service q s)"
proof -
  have "filter (\<lambda>r. pcs_vendor_id r = v' \<and> pcs_active r) (update_row pk (pk q) (\<lambda>_. q) (catalog_services (tables s)))
      = filter (\<lambda>r. pcs_vendor_id r = v' \<and> pcs_active r) (catalog_services (tables s))" if "v' \<noteq> v" for v'
  proof (rule filter_update_row_other)
    fix r assume "r \<in> set (catalog_services (tables s))" and "pk r = pk q"
    with ok p q have "r = p" unfolding catalog_ok_def by (metis unique_row)
    with p that show "\<not> (pcs_vendor_id r = v' \<and> pcs_active r)" by simp
  qed (use that q in simp)
  with ok q show ?thesis
    unfolding rows_written_def put_service_def selected_services_def selected_skills_def
    by (auto simp: catalog_ok_def map_key_put dest!: update_row_mem)
qed

lemma insert_service_written:
  assumes ok: "catalog_ok s" and q: "pk q \<notin> pk ` set (catalog_services (tables s))" "pcs_vendor_id q = v"
    "pcs_status q \<noteq> AP_REJECTED"
  shows "rows_written v s (insert_service q s)"
  using assms unfolding rows_written_def insert_service_def selected_services_def selected_skills_def
  by (auto simp: catalog_ok_def)

lemma put_skill_written:
  assumes ok: "catalog_ok s" and p: "p \<in> set (catalog_skills s)" "pck_vendor_id p = v"
    and q: "pk q = pk p" "pck_vendor_id q = v" "pck_status q \<noteq> AP_REJECTED" "pck_worker_id q = pck_worker_id p"
  shows "rows_written v s (put_skill q s)"
proof -
  have "filter (\<lambda>r. pck_vendor_id r = v' \<and> pck_active r) (update_row pk (pk q) (\<lambda>_. q) (catalog_skills s))
      = filter (\<lambda>r. pck_vendor_id r = v' \<and> pck_active r) (catalog_skills s)" if "v' \<noteq> v" for v'
  proof (rule filter_update_row_other)
    fix r assume "r \<in> set (catalog_skills s)" and "pk r = pk q"
    with ok p q have "r = p" unfolding catalog_ok_def by (metis unique_row)
    with p that show "\<not> (pck_vendor_id r = v' \<and> pck_active r)" by simp
  qed (use that q in simp)
  moreover have "catalog_ok (put_skill q s)"
    unfolding catalog_ok_def put_skill_def
  proof (simp add: map_key_put, intro conjI ballI)
    fix x assume "x \<in> set (update_row pk (pk q) (\<lambda>_. q) (catalog_skills s))"
    then have "x = q \<or> x \<in> set (catalog_skills s)" by (rule update_row_mem)
    then show "pck_status x \<noteq> AP_REJECTED" and "pck_worker_id x \<in> pk ` set (workers (tables s))"
      and "\<And>w. w \<in> set (workers (tables s)) \<Longrightarrow> pk w = pck_worker_id x \<longrightarrow> wk_vendor_id w = pck_vendor_id x"
      using ok p q unfolding catalog_ok_def by metis+
  qed (use ok in \<open>simp_all add: catalog_ok_def\<close>)
  ultimately show ?thesis
    unfolding rows_written_def put_skill_def selected_services_def selected_skills_def by simp
qed

lemma insert_skill_written:
  assumes ok: "catalog_ok s" and q: "pk q \<notin> pk ` set (catalog_skills s)" "pck_status q \<noteq> AP_REJECTED"
    and w: "w \<in> set (workers (tables s))" "pck_worker_id q = pk w" "pck_vendor_id q = wk_vendor_id w"
  shows "rows_written (wk_vendor_id w) s (insert_skill q s)"
proof -
  have "\<forall>x \<in> set (workers (tables s)). pk x = pck_worker_id q \<longrightarrow> wk_vendor_id x = pck_vendor_id q"
    using ok w unfolding catalog_ok_def by (metis unique_row)
  moreover have "pck_worker_id q \<in> pk ` set (workers (tables s))" using w by simp
  ultimately have "catalog_ok (insert_skill q s)"
    using ok q unfolding catalog_ok_def insert_skill_def by simp
  with w(3) show ?thesis
    unfolding rows_written_def insert_skill_def selected_services_def selected_skills_def by simp
qed

section \<open>What the catalogue commands commit\<close>

definition editable_vendor :: "provider_store \<Rightarrow> uuid \<Rightarrow> bool" where
  "editable_vendor s v \<longleftrightarrow> map_option pa_status (application_of s v) \<noteq> Some PA_PENDING"

definition rows_kept :: "db \<Rightarrow> db \<Rightarrow> bool" where
  "rows_kept b b' \<longleftrightarrow> catalog_services b' = catalog_services b \<and> provider_services b' = provider_services b
     \<and> workers_grown b b'"

definition catalog_committed :: "provider_store \<Rightarrow> provider_store \<Rightarrow> bool" where
  "catalog_committed s s' \<longleftrightarrow> s' = s \<or> (\<exists>v s1 b. editable_vendor s v \<and> rows_written v s s1
     \<and> rows_kept (tables s1) b \<and> s' = with_tables (\<lambda>_. b) (sync_application v s1))"

lemma catalog_committed_same [simp]: "catalog_committed s s"
  by (simp add: catalog_committed_def)

lemma sync_application_simps [simp]:
  "portal (sync_application v s) = portal s" "catalog_skills (sync_application v s) = catalog_skills s"
  by (simp_all add: sync_application_def split: option.splits)

lemma record_change_kept: "record_change event_id now u action ty i n m b = Inr b' \<Longrightarrow> rows_kept b b'"
  by (auto simp: record_change_def rows_kept_def intro: workers_grown_same elim!: bindE_InrE)

lemma workers_grownD:
  assumes "workers_grown b b'" and "distinct (map pk (workers b))"
  shows "distinct (map pk (workers b'))" and "pk ` set (workers b) \<subseteq> pk ` set (workers b')"
    and "\<And>w. w \<in> set (workers b') \<Longrightarrow> pk w \<in> pk ` set (workers b)
           \<Longrightarrow> \<exists>x \<in> set (workers b). pk x = pk w \<and> wk_vendor_id x = wk_vendor_id w"
  using assms unfolding workers_grown_def by simp_all

lemma workers_grown_trans:
  assumes ab: "workers_grown a b" and bc: "workers_grown b c"
  shows "workers_grown a c"
  unfolding workers_grown_def
proof (rule impI)
  assume d: "distinct (map pk (workers a))"
  note b = workers_grownD [OF ab d]
  note c = workers_grownD [OF bc b(1)]
  have "\<exists>y \<in> set (workers a). pk y = pk w \<and> wk_vendor_id y = wk_vendor_id w"
    if w: "w \<in> set (workers c)" "pk w \<in> pk ` set (workers a)" for w
  proof -
    from w b(2) c(3) obtain x where x: "x \<in> set (workers b)" "pk x = pk w" "wk_vendor_id x = wk_vendor_id w"
      by (metis subsetD)
    with b(3) [of x] w(2) show ?thesis by simp
  qed
  with b(2) c(1,2) show "distinct (map pk (workers c)) \<and> pk ` set (workers a) \<subseteq> pk ` set (workers c)
     \<and> (\<forall>w \<in> set (workers c). pk w \<in> pk ` set (workers a)
          \<longrightarrow> (\<exists>y \<in> set (workers a). pk y = pk w \<and> wk_vendor_id y = wk_vendor_id w))"
    by (simp add: subset_trans)
qed

lemma rows_kept_workers:
  assumes "rows_kept (b\<lparr>workers := ws\<rparr>) b'" and "workers_grown b (b\<lparr>workers := ws\<rparr>)"
  shows "rows_kept b b'"
  using assms(1) workers_grown_trans [OF assms(2)] unfolding rows_kept_def by simp

lemma owned_vendor_write: "owned_vendor s u True = Inr v \<Longrightarrow> editable_vendor s (pk v)"
  by (auto simp: owned_vendor_def editable_vendor_def elim!: bindE_InrE)

lemma service_change_committed:
  assumes "service_change event_id now u action (pk v) q m s1 = Inr s'"
    and "owned_vendor s u True = Inr v" and "rows_written (pk v) s s1"
  shows "catalog_committed s s'"
proof -
  from assms(1) obtain b where "record_change event_id now u action ''provider_service'' (pk q) (pcs_version q)
      ([(''vendor_id'', JStr (str_uuid (pk v))), (''service_id'', JStr (str_uuid (pcs_service_id q)))] @ m) (tables s1) = Inr b"
    and "s' = with_tables (\<lambda>_. b) (sync_application (pk v) s1)"
    by (auto simp: service_change_def Let_def elim!: bindE_InrE)
  with assms show ?thesis
    unfolding catalog_committed_def using owned_vendor_write record_change_kept by blast
qed

lemma with_tables_collapse: "with_tables (\<lambda>_. b) (with_tables f s) = with_tables (\<lambda>_. b) s"
  by simp

lemma skill_change_committed:
  assumes "skill_change event_id now u action (pk v) w q m s1 = Inr s'"
    and "owned_vendor s u True = Inr v" and "rows_written (pk v) s s1"
  shows "catalog_committed s s'"
proof -
  define s2 where "s2 = (case w of None \<Rightarrow> sync_application (pk v) s1
     | Some x \<Rightarrow> sync_legacy_worker_skills x (sync_application (pk v) s1))"
  from assms(1) obtain b where b: "record_change event_id now u action ''provider_skill'' (pk q) (pck_version q)
      ([(''vendor_id'', JStr (str_uuid (pk v))), (''worker_id'', JStr (str_uuid (pck_worker_id q))),
        (''skill_id'', JStr (str_uuid (pck_skill_id q)))] @ m) (tables s2) = Inr b"
    and s': "s' = with_tables (\<lambda>_. b) s2"
    by (auto simp: skill_change_def Let_def s2_def elim!: bindE_InrE)
  have "with_tables (\<lambda>_. b) s2 = with_tables (\<lambda>_. b) (sync_application (pk v) s1)"
    by (simp add: s2_def sync_legacy_worker_skills_def split: option.splits)
  moreover have "rows_kept (tables s1) b"
  proof (cases w)
    case None
    then show ?thesis using record_change_kept [OF b] by (simp add: s2_def)
  next
    case (Some x)
    let ?ws = "update_row pk (pk x) (\<lambda>y. y\<lparr>wk_skills := legacy_skills (sync_application (pk v) s1) x\<rparr>) (workers (tables s1))"
    have "rows_kept ((tables s1)\<lparr>workers := ?ws\<rparr>) b"
      using record_change_kept [OF b] Some by (simp add: s2_def sync_legacy_worker_skills_def)
    moreover have "workers_grown (tables s1) ((tables s1)\<lparr>workers := ?ws\<rparr>)"
      by (rule workers_grown_update_where [where P = "\<lambda>r. pk r = pk x"
            and f = "\<lambda>y. y\<lparr>wk_skills := legacy_skills (sync_application (pk v) s1) x\<rparr>"])
        (simp_all add: update_row_def)
    ultimately show ?thesis by (rule rows_kept_workers)
  qed
  ultimately show ?thesis
    unfolding catalog_committed_def s' using owned_vendor_write [OF assms(2)] assms(3) by metis
qed

lemma selection_status_neq [simp]: "selection_status v r \<noteq> AP_REJECTED"
  by (simp add: selection_status_def)

lemma reselected_service_simps [simp]:
  "pk (reselected_service v r p) = pk p" "pcs_vendor_id (reselected_service v r p) = pcs_vendor_id p"
  "pcs_status (reselected_service v r p) \<noteq> AP_REJECTED"
  by (auto simp: reselected_service_def)

lemma reselected_skill_simps [simp]:
  "pk (reselected_skill v r p) = pk p" "pck_vendor_id (reselected_skill v r p) = pck_vendor_id p"
  "pck_worker_id (reselected_skill v r p) = pck_worker_id p" "pck_status (reselected_skill v r p) \<noteq> AP_REJECTED"
  by (auto simp: reselected_skill_def)

lemma service_selectionD: "service_selection s v i = Some p \<Longrightarrow> p \<in> set (catalog_services (tables s)) \<and> pcs_vendor_id p = v"
  unfolding service_selection_def by (auto dest: find_SomeD)

lemma owned_serviceD: "owned_service s v i = Some p \<Longrightarrow> p \<in> set (catalog_services (tables s)) \<and> pcs_vendor_id p = v"
  unfolding owned_service_def by (auto dest: find_SomeD)

lemma owned_skillD: "owned_skill s v i = Some p \<Longrightarrow> p \<in> set (catalog_skills s) \<and> pck_vendor_id p = v"
  unfolding owned_skill_def by (auto dest: find_SomeD)

lemma skill_selectionD: "skill_selection s w i = Some p \<Longrightarrow> p \<in> set (catalog_skills s) \<and> pck_worker_id p = w"
  unfolding skill_selection_def by (auto dest: find_SomeD)

lemma catalog_ok_service: "catalog_ok s \<Longrightarrow> p \<in> set (catalog_services (tables s)) \<Longrightarrow> pcs_status p \<noteq> AP_REJECTED"
  by (simp add: catalog_ok_def)

lemma catalog_ok_skill: "catalog_ok s \<Longrightarrow> p \<in> set (catalog_skills s) \<Longrightarrow> pck_status p \<noteq> AP_REJECTED"
  by (simp add: catalog_ok_def)

lemma catalog_ok_vendor:
  "catalog_ok s \<Longrightarrow> p \<in> set (catalog_skills s) \<Longrightarrow> w \<in> set (workers (tables s)) \<Longrightarrow> pk w = pck_worker_id p
   \<Longrightarrow> pck_vendor_id p = wk_vendor_id w"
  by (simp add: catalog_ok_def)

lemma add_service_committed:
  assumes "add_service collate clk new_id event_id u service_id n cid s = (res, s')"
    and ok: "catalog_ok s" and new: "new_id \<notin> pk ` set (catalog_services (tables s))"
  shows "catalog_committed s s'"
proof (cases "add_service_body clk new_id event_id u service_id n cid s")
  case (Inl e)
  with assms(1) show ?thesis by (simp add: add_service_def committed_def)
next
  case (Inr r)
  obtain q0 s0 where r: "r = (q0, s0)" by (cases r)
  with assms(1) Inr have s': "s' = s0" by (simp add: add_service_def committed_def)
  from Inr [unfolded r add_service_body_def] obtain v c where v: "owned_vendor s u True = Inr v"
    and c: "active_catalog_service s service_id = Some c"
    by (auto elim!: bindE_InrE)
  show ?thesis
  proof (cases "service_selection s (pk v) (pk c)")
    case None
    with Inr [unfolded r add_service_body_def] v c obtain m q where
      m: "service_change event_id (clk 1) u ''provider.service.select'' (pk v) q m (insert_service q s) = Inr s0"
      and "pk q = new_id" "pcs_vendor_id q = pk v" "pcs_status q \<noteq> AP_REJECTED"
      by (auto simp: Let_def elim!: bindE_InrE)
    with ok new have "rows_written (pk v) s (insert_service q s)" by (intro insert_service_written) auto
    with m v show ?thesis unfolding s' by (intro service_change_committed)
  next
    case (Some p)
    with Inr [unfolded r add_service_body_def] v c obtain m q where
      m: "service_change event_id (clk 1) u ''provider.service.select'' (pk v) q m (put_service q s) = Inr s0"
      and "pk q = pk p" "pcs_vendor_id q = pcs_vendor_id p" "pcs_status q \<noteq> AP_REJECTED"
      by (auto simp: Let_def elim!: bindE_InrE)
    with ok service_selectionD [OF Some] have "rows_written (pk v) s (put_service q s)"
      by (intro put_service_written [of _ p]) auto
    with m v show ?thesis unfolding s' by (intro service_change_committed)
  qed
qed

lemma update_provider_service_committed:
  assumes "update_provider_service collate now event_id i u active n version cid s = (res, s')" and ok: "catalog_ok s"
  shows "catalog_committed s s'"
proof (cases "update_service_body now event_id i u active n version cid s")
  case (Inl e)
  with assms show ?thesis by (simp add: update_provider_service_def committed_def)
next
  case (Inr r)
  obtain q0 s0 where r: "r = (q0, s0)" by (cases r)
  with assms Inr have s': "s' = s0" by (simp add: update_provider_service_def committed_def)
  from Inr [unfolded r update_service_body_def] obtain v p where v: "owned_vendor s u True = Inr v"
    and p: "owned_service s (pk v) i = Some p"
    by (auto elim!: bindE_InrE)
  note p' = owned_serviceD [OF p]
  have fine: "pcs_status p \<noteq> AP_REJECTED" using catalog_ok_service ok p' by blast
  from Inr [unfolded r update_service_body_def] v p obtain p1 where
    p1: "pk p1 = pk p" "pcs_vendor_id p1 = pcs_vendor_id p" "pcs_status p1 \<noteq> AP_REJECTED"
    and m: "\<exists>m. service_change event_id now u ''provider.service.update'' (pk v)
       (p1\<lparr>pcs_display_order := (case n of None \<Rightarrow> pcs_display_order p1 | Some n \<Rightarrow> n), pcs_version := pcs_version p1 + 1\<rparr>) m
       (put_service (p1\<lparr>pcs_display_order := (case n of None \<Rightarrow> pcs_display_order p1 | Some n \<Rightarrow> n), pcs_version := pcs_version p1 + 1\<rparr>) s) = Inr s0"
    using fine by (fastforce simp: Let_def elim!: bindE_InrE split: option.splits bool.splits)
  define q where "q = p1\<lparr>pcs_display_order := (case n of None \<Rightarrow> pcs_display_order p1 | Some n \<Rightarrow> n), pcs_version := pcs_version p1 + 1\<rparr>"
  from ok p' p1 have "rows_written (pk v) s (put_service q s)"
    by (intro put_service_written [of _ p]) (auto simp: q_def)
  with m v show ?thesis unfolding s' q_def by (auto intro: service_change_committed)
qed

lemma remove_service_committed:
  assumes "remove_service now event_id i u version cid s = (res, s')" and ok: "catalog_ok s"
  shows "catalog_committed s s'"
  using assms(1) unfolding remove_service_def
proof (cases rule: committed_cases)
  case failed
  then show ?thesis by simp
next
  case (stored x)
  then obtain v p where v: "owned_vendor s u True = Inr v" and p: "owned_service s (pk v) i = Some p"
    by (auto elim!: bindE_InrE)
  define q where "q = p\<lparr>pcs_active := False, pcs_version := pcs_version p + 1\<rparr>"
  from stored v p have out: "s' = s \<or> (\<exists>m. service_change event_id now u ''provider.service.remove'' (pk v) q m (put_service q s) = Inr s')"
    by (auto simp: Let_def q_def elim!: bindE_InrE split: if_splits)
  have "rows_written (pk v) s (put_service q s)"
    using ok owned_serviceD [OF p] catalog_ok_service [OF ok] by (intro put_service_written [of _ p]) (auto simp: q_def)
  with out v show ?thesis by (auto intro: service_change_committed)
qed

lemma remove_skill_committed:
  assumes "remove_skill now event_id i u version cid s = (res, s')" and ok: "catalog_ok s"
  shows "catalog_committed s s'"
  using assms(1) unfolding remove_skill_def
proof (cases rule: committed_cases)
  case failed
  then show ?thesis by simp
next
  case (stored x)
  then obtain v p where v: "owned_vendor s u True = Inr v" and p: "owned_skill s (pk v) i = Some p"
    by (auto elim!: bindE_InrE)
  define q where "q = p\<lparr>pck_active := False, pck_version := pck_version p + 1\<rparr>"
  from stored v p have out: "s' = s \<or> (\<exists>w m. skill_change event_id now u ''provider.skill.remove'' (pk v) w q m (put_skill q s) = Inr s')"
    by (auto simp: Let_def q_def elim!: bindE_InrE split: if_splits)
  have "rows_written (pk v) s (put_skill q s)"
    using ok owned_skillD [OF p] catalog_ok_skill [OF ok] by (intro put_skill_written [of _ p]) (auto simp: q_def)
  with out v show ?thesis by (auto intro: skill_change_committed)
qed

lemma selected_workerD: "selected_worker s v u i = Inr w \<Longrightarrow> w \<in> set (workers (tables s)) \<and> wk_vendor_id w = pk v"
  unfolding selected_worker_def primary_worker_def vendor_worker_def
  by (auto split: option.splits list.splits dest: find_SomeD)
    (metis (mono_tags, lifting) list.set_intros(1) mem_Collect_eq set_filter set_sort)+

lemma add_skill_committed:
  assumes "add_skill clk new_id event_id u skill_id worker cid s = (res, s')"
    and ok: "catalog_ok s" and new: "new_id \<notin> pk ` set (catalog_skills s)"
  shows "catalog_committed s s'"
proof (cases "add_skill_body clk new_id event_id u skill_id worker cid s")
  case (Inl e)
  with assms(1) show ?thesis by (simp add: add_skill_def committed_def)
next
  case (Inr r)
  obtain q0 s0 where r: "r = (q0, s0)" by (cases r)
  with assms(1) Inr have s': "s' = s0" by (simp add: add_skill_def committed_def)
  from Inr [unfolded r add_skill_body_def] obtain v w k where v: "owned_vendor s u True = Inr v"
    and w: "selected_worker s v u worker = Inr w" and k: "active_skill s skill_id = Some k"
    by (auto elim!: bindE_InrE)
  note w' = selected_workerD [OF w]
  show ?thesis
  proof (cases "skill_selection s (pk w) (pk k)")
    case None
    with Inr [unfolded r add_skill_body_def] v w k obtain m q where
      m: "skill_change event_id (clk 1) u ''provider.skill.select'' (pk v) (Some w) q m (insert_skill q s) = Inr s0"
      and "pk q = new_id" "pck_vendor_id q = pk v" "pck_status q \<noteq> AP_REJECTED" "pck_worker_id q = pk w"
      by (auto simp: Let_def elim!: bindE_InrE)
    with ok new w' have "rows_written (wk_vendor_id w) s (insert_skill q s)" by (intro insert_skill_written) auto
    with m v w' show ?thesis unfolding s' by (intro skill_change_committed) auto
  next
    case (Some p)
    with Inr [unfolded r add_skill_body_def] v w k obtain m q where
      m: "skill_change event_id (clk 1) u ''provider.skill.select'' (pk v) (Some w) q m (put_skill q s) = Inr s0"
      and q: "pk q = pk p" "pck_vendor_id q = pck_vendor_id p" "pck_status q \<noteq> AP_REJECTED" "pck_worker_id q = pck_worker_id p"
      by (auto simp: Let_def elim!: bindE_InrE)
    from skill_selectionD [OF Some] w' catalog_ok_vendor [OF ok] have "pck_vendor_id p = pk v" by metis
    with ok q skill_selectionD [OF Some] have "rows_written (pk v) s (put_skill q s)"
      by (intro put_skill_written [of _ p]) auto
    with m v show ?thesis unfolding s' by (intro skill_change_committed)
  qed
qed

section \<open>What is under review\<close>

definition listed :: "provider_store \<Rightarrow> provider_application \<Rightarrow> bool" where
  "listed s a \<longleftrightarrow> pa_services a = selected_services s (pa_vendor_id a) \<and> pa_skills a = selected_skills s (pa_vendor_id a)
     \<and> missing_submission_fields a = []"

definition review_ok :: "provider_store \<Rightarrow> bool" where
  "review_ok s \<longleftrightarrow> catalog_ok s \<and> distinct (map pk (applications s)) \<and> distinct (map pa_vendor_id (applications s))
     \<and> (\<forall>a \<in> set (applications s). pa_status a = PA_PENDING \<longrightarrow> listed s a)"

lemma review_okD:
  assumes "review_ok s"
  shows "catalog_ok s" "distinct (map pk (applications s))" "distinct (map pa_vendor_id (applications s))"
    "\<And>a. a \<in> set (applications s) \<Longrightarrow> pa_status a = PA_PENDING \<Longrightarrow> listed s a"
  using assms unfolding review_ok_def by simp_all

lemma listed_cong:
  "selected_services s' (pa_vendor_id a) = selected_services s (pa_vendor_id a)
   \<Longrightarrow> selected_skills s' (pa_vendor_id a) = selected_skills s (pa_vendor_id a) \<Longrightarrow> listed s' a = listed s a"
  by (simp add: listed_def)

lemma catalog_ok_grown:
  assumes ok: "catalog_ok s" and grown: "workers_grown (tables s) (tables s')"
    and c: "catalog_services (tables s') = catalog_services (tables s)" and k: "catalog_skills s' = catalog_skills s"
  shows "catalog_ok s'"
proof -
  have "distinct (map pk (workers (tables s)))" using ok by (simp add: catalog_ok_def)
  note w = workers_grownD [OF grown this]
  have "pck_worker_id p \<in> pk ` set (workers (tables s'))
      \<and> (\<forall>x \<in> set (workers (tables s')). pk x = pck_worker_id p \<longrightarrow> wk_vendor_id x = pck_vendor_id p)"
    if p: "p \<in> set (catalog_skills s)" for p
  proof -
    have key: "pck_worker_id p \<in> pk ` set (workers (tables s))" using ok p by (simp add: catalog_ok_def)
    moreover have "wk_vendor_id x = pck_vendor_id p" if x: "x \<in> set (workers (tables s'))" "pk x = pck_worker_id p" for x
    proof -
      from w(3) [of x] x key obtain y where "y \<in> set (workers (tables s))" "pk y = pk x" "wk_vendor_id y = wk_vendor_id x"
        by auto
      then show ?thesis using catalog_ok_vendor [OF ok p, of y] x by simp
    qed
    ultimately show ?thesis using w(2) by blast
  qed
  with ok w(1) show ?thesis unfolding catalog_ok_def c k by simp
qed

lemma catalog_ok_kept:
  "catalog_ok s \<Longrightarrow> rows_kept (tables s) (tables s') \<Longrightarrow> catalog_skills s' = catalog_skills s \<Longrightarrow> catalog_ok s'"
  by (rule catalog_ok_grown) (simp_all add: rows_kept_def)

lemma selected_kept:
  "catalog_services (tables s') = catalog_services (tables s) \<Longrightarrow> selected_services s' v = selected_services s v"
  "catalog_skills s' = catalog_skills s \<Longrightarrow> selected_skills s' v = selected_skills s v"
  by (simp_all add: selected_services_def selected_skills_def)

lemma review_ok_grown:
  assumes ok: "review_ok s" and grown: "workers_grown (tables s) (tables s')"
    and same: "catalog_services (tables s') = catalog_services (tables s)" "catalog_skills s' = catalog_skills s"
      "applications s' = applications s"
  shows "review_ok s'"
proof -
  have "listed s' a = listed s a" for a using same by (intro listed_cong selected_kept)
  with review_okD [OF ok] same(3) catalog_ok_grown [OF _ grown same(1,2)] show ?thesis unfolding review_ok_def by simp
qed

text \<open>One application was written; it keeps its key and its vendor.\<close>

lemma review_ok_written:
  assumes ok: "review_ok s" and a: "a \<in> set (applications s)"
    and a': "pk a' = pk a" "pa_vendor_id a' = pa_vendor_id a" "pa_status a' = PA_PENDING \<longrightarrow> listed s' a'"
    and s': "catalog_ok s'" "applications s' = update_row pk (pk a) (\<lambda>_. a') (applications s)"
    and others: "\<And>v. v \<noteq> pa_vendor_id a \<Longrightarrow> selected_services s' v = selected_services s v \<and> selected_skills s' v = selected_skills s v"
  shows "review_ok s'"
proof -
  note r = review_okD [OF ok]
  have vendors: "map pa_vendor_id (applications s') = map pa_vendor_id (applications s)"
    unfolding s'(2) update_row_def update_where_def map_map using unique_row [OF r(2) a] a'(2)
    by (intro map_cong) auto
  have keys: "map pk (applications s') = map pk (applications s)"
    unfolding s'(2) using a'(1) by (simp add: map_key_put)
  have "listed s' x" if x: "x \<in> set (applications s')" "pa_status x = PA_PENDING" for x
  proof (cases "x = a'")
    case True
    with a'(3) x(2) show ?thesis by simp
  next
    case False
    with x have "x \<in> set (applications s)" "pk x \<noteq> pk a"
      unfolding s'(2) set_update_row by (auto split: if_splits)
    moreover from this have "pa_vendor_id x \<noteq> pa_vendor_id a"
      using unique_row [OF r(3) a] by blast
    ultimately show ?thesis using r(4) x(2) others listed_cong by metis
  qed
  with r s'(1) show ?thesis unfolding review_ok_def vendors keys by blast
qed

lemma application_ofD: "application_of s v = Some a \<Longrightarrow> a \<in> set (applications s) \<and> pa_vendor_id a = v"
  unfolding application_of_def by (auto dest: find_SomeD)

lemma application_of_None: "application_of s v = None \<Longrightarrow> a \<in> set (applications s) \<Longrightarrow> pa_vendor_id a \<noteq> v"
  unfolding application_of_def by (auto simp: find_None_iff)

lemma catalog_committed_ok:
  assumes "catalog_committed s s'" and ok: "review_ok s"
  shows "review_ok s'"
proof (cases "s' = s")
  case True
  with ok show ?thesis by simp
next
  case False
  with assms(1) obtain v s1 b where v: "editable_vendor s v" and w: "rows_written v s s1"
    and b: "rows_kept (tables s1) b" and s': "s' = with_tables (\<lambda>_. b) (sync_application v s1)"
    unfolding catalog_committed_def by blast
  have w1: "catalog_ok s1" "applications s1 = applications s"
    and w2: "\<And>v'. v' \<noteq> v \<Longrightarrow> selected_services s1 v' = selected_services s v' \<and> selected_skills s1 v' = selected_skills s v'"
    using w by (simp_all add: rows_written_def)
  have cat: "catalog_ok s'" using catalog_ok_kept [OF w1(1), of s'] b unfolding s' by simp
  have sel: "selected_services s' v' = selected_services s1 v'" "selected_skills s' v' = selected_skills s1 v'" for v'
    unfolding s' using b by (auto intro!: selected_kept simp: rows_kept_def)
  show ?thesis
  proof (cases "application_of s v")
    case None
    then have none: "application_of s1 v = None" by (simp add: application_of_def w1)
    then have "applications s' = applications s" by (simp add: s' sync_application_def w1)
    moreover have "listed s' a = listed s a" if "a \<in> set (applications s)" for a
      using application_of_None [OF None that] sel w2 by (intro listed_cong) simp_all
    ultimately show ?thesis using review_okD [OF ok] cat unfolding review_ok_def by simp
  next
    case (Some a)
    then have "application_of s1 v = Some a" by (simp add: application_of_def w1)
    then have apps: "applications s' = update_row pk (pk a) (\<lambda>_. synced_application s1 a) (applications s)"
      by (simp add: s' sync_application_def synced_application_def w1)
    have "pa_status a \<noteq> PA_PENDING" using v Some by (simp add: editable_vendor_def)
    with application_ofD [OF Some] show ?thesis
      by (intro review_ok_written [OF ok _ _ _ _ cat apps]) (simp_all add: synced_application_def sel w2)
  qed
qed

text \<open>Every command preserves this.\<close>

lemma update_profile_kept: "update_profile now u pu s = (res, s') \<Longrightarrow>
   rows_kept (tables s) (tables s') \<and> catalog_skills s' = catalog_skills s \<and> applications s' = applications s"
  unfolding update_profile_def
  by (auto simp: Let_def rows_kept_def intro!: workers_grown_same elim!: committed_cases bindE_InrE)

lemma edit_application_InrD:
  assumes "edit_application u c s = Inr a'"
  obtains codes a where "a \<in> set (applications s)" and "editable a" and "a' = edited_application c codes a"
proof -
  from assms obtain codes v a where "application_of s v = Some a" and "editable a" and "a' = edited_application c codes a"
    unfolding edit_application_def application_for_vendor_def by (auto elim!: bindE_InrE)
  with application_ofD that show thesis by blast
qed

lemma update_onboarding_ok:
  assumes "update_onboarding now u c s = (res, s')" and ok: "review_ok s"
  shows "review_ok s'"
proof (cases "edit_application u c s")
  case (Inl e)
  with assms show ?thesis by (simp add: update_onboarding_def)
next
  case (Inr a')
  then obtain codes a where a: "a \<in> set (applications s)" "editable a" "a' = edited_application c codes a"
    by (rule edit_application_InrD)
  from assms(1) Inr have s': "applications s' = update_row pk (pk a) (\<lambda>_. a') (applications s)"
      "catalog_skills s' = catalog_skills s" "rows_kept (tables s) (tables s')"
    by (auto simp: update_onboarding_def a(3) edited_application_def rows_kept_def workers_grown_same)
  have "catalog_ok s'" using catalog_ok_kept [OF review_okD(1) [OF ok] s'(3,2)] .
  moreover have "selected_services s' v = selected_services s v" "selected_skills s' v = selected_skills s v" for v
    using s'(2,3) by (simp_all add: rows_kept_def selected_services_def selected_skills_def)
  moreover have "pk a' = pk a" "pa_vendor_id a' = pa_vendor_id a" "pa_status a' \<noteq> PA_PENDING"
    using a(2,3) by (auto simp: edited_application_def editable_def)
  ultimately show ?thesis by (intro review_ok_written [OF ok a(1) _ _ _ _ s'(1)]) simp_all
qed

lemma check_submission_InrD:
  assumes "check_submission u s = Inr (v, a1)"
  obtains a where "a \<in> set (applications s)" and "a1 = sync_catalog_selections s a" and "missing_submission_fields a1 = []"
proof -
  from assms obtain a where "application_of s (pk v) = Some a" and "a1 = sync_catalog_selections s a"
    and "missing_submission_fields a1 = []"
    unfolding check_submission_def application_for_vendor_def by (auto simp: Let_def elim!: bindE_InrE)
  with application_ofD that show thesis by blast
qed

lemma submission_cases:
  assumes "submit clk event_id u s = (res, s')"
  obtains (refused) "s' = s"
  | (pending) a b where "a \<in> set (applications s)"
      and "missing_submission_fields (sync_catalog_selections s a) = []" and "rows_kept (tables s) b"
      and "s' = with_tables (\<lambda>_. b) (put_application (submitted_application (clk 0) (sync_catalog_selections s a)) s)"
proof (cases "check_submission u s")
  case (Inl e)
  with assms refused show thesis by (simp add: submit_def)
next
  case (Inr r)
  obtain v a1 where r: "r = (v, a1)" by (cases r)
  from Inr [unfolded r] obtain a where a: "a \<in> set (applications s)" "a1 = sync_catalog_selections s a"
      "missing_submission_fields a1 = []" by (rule check_submission_InrD)
  let ?a = "submitted_application (clk 0) a1"
  let ?added = "add_unique_event (application_event event_id (clk 2) ?a ''provider_application_submitted''
            [(''vendor_id'', JStr (str_uuid (pk v)))])
          (add_audit (provider_audit u ''provider.onboarding.submit'' ''provider_application'' (pk ?a)
             [(''status'', JStr ''PENDING'')] (clk 1)) (tables s))"
  show thesis
  proof (cases ?added)
    case (Inl e)
    with assms \<open>check_submission u s = Inr r\<close> r refused show thesis by (simp add: submit_def Let_def)
  next
    case (Inr b)
    with assms \<open>check_submission u s = Inr r\<close> r have s': "s' = with_tables (\<lambda>_. b) (put_application ?a s)"
      by (simp add: submit_def Let_def)
    have "rows_kept (tables s) b"
      using Inr by (auto simp: add_unique_event_def rows_kept_def intro: workers_grown_same elim!: bindE_InrE)
    with a s' pending show thesis by blast
  qed
qed

lemma missing_submitted: "missing_submission_fields (submitted_application now a) = missing_submission_fields a"
  by (simp add: missing_submission_fields_def submitted_application_def)

lemma submit_ok:
  assumes "submit clk event_id u s = (res, s')" and ok: "review_ok s"
  shows "review_ok s'"
  using assms(1)
proof (cases rule: submission_cases)
  case refused
  with ok show ?thesis by simp
next
  case (pending a b)
  let ?a = "submitted_application (clk 0) (sync_catalog_selections s a)"
  have keys: "pk ?a = pk a" "pa_vendor_id ?a = pa_vendor_id a"
    by (simp_all add: submitted_application_def sync_catalog_selections_def)
  have apps: "applications s' = update_row pk (pk a) (\<lambda>_. ?a) (applications s)"
    using pending(4) keys by simp
  have sel: "selected_services s' v = selected_services s v" "selected_skills s' v = selected_skills s v" for v
    using pending(3,4) by (simp_all add: rows_kept_def selected_services_def selected_skills_def)
  have "catalog_ok s'" using catalog_ok_kept [OF review_okD(1) [OF ok], of s'] pending(3,4) by simp
  moreover have "listed s' ?a"
    unfolding listed_def missing_submitted sel using pending(2)
    by (simp add: submitted_application_def sync_catalog_selections_def selected_services_def selected_skills_def)
  ultimately show ?thesis
    using keys sel by (intro review_ok_written [OF ok pending(1) _ _ _ _ apps]) auto
qed

lemma check_decision_InrD:
  assumes "check_decision i s = Inr (v, a)"
  shows "a \<in> set (applications s)" and "pk a = i" and "pa_status a = PA_PENDING" and "pk v = pa_vendor_id a"
  using assms by (auto simp: check_decision_def elim!: bindE_InrE dest: lookup_row_SomeD)

lemma decide_cases:
  assumes "decide clk event_id i actor d reason s = (res, s')"
  obtains (refused) e where "s' = s" and "res = Inl e"
  | (decided) a b where "a \<in> set (applications s)" and "pk a = i" and "pa_status a = PA_PENDING"
      and "rows_kept (tables (decision_effect d (pk actor) (clk 0) (pa_vendor_id a)
             (put_application (decided_application d (pk actor) (clk 0) reason a) s))) b"
      and "s' = with_tables (\<lambda>_. b) (decision_effect d (pk actor) (clk 0) (pa_vendor_id a)
             (put_application (decided_application d (pk actor) (clk 0) reason a) s))"
      and "res = read_application (decided_application d (pk actor) (clk 0) reason a)"
proof (cases "check_decision i s")
  case (Inl e)
  with assms have "s' = s" and "res = Inl e" by (simp_all add: decide_def)
  then show thesis by (rule refused)
next
  case (Inr r)
  obtain v a where r: "r = (v, a)" by (cases r)
  note chk = check_decision_InrD [OF Inr [unfolded r]]
  define a' where "a' = decided_application d (pk actor) (clk 0) reason a"
  define s1 where "s1 = decision_effect d (pk actor) (clk 0) (pk v) (put_application a' s)"
  define added where "added = add_unique_event (application_event event_id (clk 2) a' ''provider_application_decided''
            [(''vendor_id'', JStr (str_uuid (pk v))), (''status'', JStr (review_status_value d)), (''reason'', JStr reason)])
          (add_audit (provider_audit actor (review_action d) ''provider_application'' (pk a')
             [(''status'', JStr (review_status_value d)), (''reason'', JStr reason)] (clk 1)) (tables s1))"
  note out = assms [unfolded decide_def Inr r bindE_simps prod.case Let_def, folded a'_def, folded s1_def, folded added_def]
  show thesis
  proof (cases added)
    case (Inl e)
    with out have "s' = s" and "res = Inl e" by simp_all
    then show thesis by (rule refused)
  next
    case (Inr b)
    with out have s': "s' = with_tables (\<lambda>_. b) s1" and res: "res = read_application a'" by simp_all
    have "rows_kept (tables s1) b"
      using Inr unfolding added_def by (auto simp: add_unique_event_def rows_kept_def intro: workers_grown_same elim!: bindE_InrE)
    with chk s' res decided show thesis unfolding s1_def a'_def by metis
  qed
qed

lemma update_where_keys:
  "(\<And>r. key (f r) = key r) \<Longrightarrow> map key (update_where P f rows) = map key rows"
  unfolding update_where_def by simp

lemma filter_update_where_map:
  assumes "\<And>r. Q (f r) = Q r" and "\<And>r. g (f r) = g r"
  shows "map g (filter Q (update_where P f rows)) = map g (filter Q rows)"
  by (induction rows) (simp_all add: update_where_def assms)

lemma decision_effect_selected:
  "selected_services (decision_effect d actor now v s) w = selected_services s w"
  "selected_skills (decision_effect d actor now v s) w = selected_skills s w"
  by (cases d; simp add: selected_services_def selected_skills_def approved_service_def approved_skill_def
        filter_update_where_map)+

lemma decision_effect_applications [simp]: "applications (decision_effect d actor now v s) = applications s"
  by (cases d) simp_all

lemma in_update_where: "x \<in> set (update_where P f rows) \<Longrightarrow> (\<exists>y \<in> set rows. x = f y \<and> P y) \<or> x \<in> set rows"
  by (auto simp: set_update_where split: if_splits)

lemma decision_effect_workers: "workers_grown (tables s) (tables (decision_effect d actor now v s))"
proof (cases d)
  case Approve
  then show ?thesis
    by (intro workers_grown_update_where [where P = "\<lambda>w. wk_vendor_id w = v"
          and f = "\<lambda>w. w\<lparr>wk_status := WK_ACTIVE, wk_available := True\<rparr>"]) simp_all
next
  case Reject
  then show ?thesis
    by (intro workers_grown_update_where [where P = "\<lambda>w. wk_vendor_id w = v"
          and f = "\<lambda>w. w\<lparr>wk_status := WK_INACTIVE, wk_available := False\<rparr>"]) simp_all
qed (simp add: workers_grown_same)

lemma decision_effect_ok:
  assumes "catalog_ok s"
  shows "catalog_ok (decision_effect d actor now v s)"
proof (cases d)
  case Approve
  define t where "t = s\<lparr>portal := portal (decision_effect d actor now v s)\<rparr>"
  define base where "base = s\<lparr>portal := (portal s)\<lparr>acc := with_base (\<lambda>b. b\<lparr>workers := workers (tables t)\<rparr>) (acc (portal s))\<rparr>\<rparr>"
  have "rows_kept (tables s) (tables base)"
    using decision_effect_workers [of s d actor now v] by (simp add: rows_kept_def base_def t_def workers_grown_def)
  from catalog_ok_kept [OF assms this] have ok: "catalog_ok base" by (simp add: base_def)
  have keys: "map pk (catalog_services (tables (decision_effect d actor now v s))) = map pk (catalog_services (tables s))"
    "map pk (catalog_skills (decision_effect d actor now v s)) = map pk (catalog_skills s)"
    using Approve by (simp_all add: update_where_keys approved_service_def approved_skill_def)
  have svc: "\<forall>p \<in> set (catalog_services (tables (decision_effect d actor now v s))). pcs_status p \<noteq> AP_REJECTED"
    using assms Approve by (auto simp: catalog_ok_def approved_service_def dest!: in_update_where)
  have skl: "\<exists>p \<in> set (catalog_skills s). pck_worker_id q = pck_worker_id p \<and> pck_vendor_id q = pck_vendor_id p"
    "pck_status q \<noteq> AP_REJECTED"
    if q: "q \<in> set (catalog_skills (decision_effect d actor now v s))" for q
    using q assms Approve by (auto simp: catalog_ok_def approved_skill_def dest!: in_update_where)
  have ws: "workers (tables (decision_effect d actor now v s)) = workers (tables base)"
    by (simp add: base_def t_def)
  have "pck_worker_id q \<in> pk ` set (workers (tables base))
      \<and> (\<forall>w \<in> set (workers (tables base)). pk w = pck_worker_id q \<longrightarrow> wk_vendor_id w = pck_vendor_id q)"
    if q: "q \<in> set (catalog_skills (decision_effect d actor now v s))" for q
  proof -
    from skl(1) [OF q] obtain p where "p \<in> set (catalog_skills base)" "pck_worker_id q = pck_worker_id p"
      "pck_vendor_id q = pck_vendor_id p" by (auto simp: base_def)
    with ok show ?thesis by (simp add: catalog_ok_def)
  qed
  moreover have "distinct (map pk (workers (tables base)))" using ok by (simp add: catalog_ok_def)
  ultimately show ?thesis
    unfolding catalog_ok_def keys ws using assms svc skl(2) by (simp add: catalog_ok_def)
next
  case Reject
  with assms show ?thesis using decision_effect_workers [of s d actor now v]
    by (intro catalog_ok_kept [OF assms]) (simp_all add: rows_kept_def)
next
  case Request_Information
  with assms show ?thesis using decision_effect_workers [of s d actor now v]
    by (intro catalog_ok_kept [OF assms]) (simp_all add: rows_kept_def)
qed

lemma put_application_catalog_ok: "catalog_ok (put_application a s) = catalog_ok s"
  by (simp add: catalog_ok_def)

lemma decide_ok:
  assumes "decide clk event_id i actor d reason s = (res, s')" and ok: "review_ok s"
  shows "review_ok s'"
  using assms(1)
proof (cases rule: decide_cases)
  case refused
  with ok show ?thesis by simp
next
  case (decided a b)
  define a' where "a' = decided_application d (pk actor) (clk 0) reason a"
  define s1 where "s1 = decision_effect d (pk actor) (clk 0) (pa_vendor_id a) (put_application a' s)"
  note b = decided(4) [folded a'_def, folded s1_def] and s' = decided(5) [folded a'_def, folded s1_def]
  have keys: "pk a' = pk a" "pa_vendor_id a' = pa_vendor_id a" "pa_status a' \<noteq> PA_PENDING"
    by (cases d; simp add: a'_def decided_application_def)+
  have apps: "applications s' = update_row pk (pk a) (\<lambda>_. a') (applications s)"
    unfolding s' using keys by (simp add: s1_def)
  have "catalog_ok s1" unfolding s1_def using review_okD(1) [OF ok] by (intro decision_effect_ok) (simp add: put_application_catalog_ok)
  then have "catalog_ok s'" using catalog_ok_kept [of s1 s'] b s' by simp
  moreover have "selected_services s' w = selected_services s w" "selected_skills s' w = selected_skills s w" for w
  proof -
    have "selected_services s' w = selected_services s1 w" "selected_skills s' w = selected_skills s1 w"
      using b s' by (simp_all add: rows_kept_def selected_services_def selected_skills_def)
    then show "selected_services s' w = selected_services s w" "selected_skills s' w = selected_skills s w"
      unfolding s1_def decision_effect_selected by (simp_all add: selected_services_def selected_skills_def)
  qed
  ultimately show ?thesis using keys by (intro review_ok_written [OF ok decided(1) _ _ _ _ apps]) simp_all
qed

lemma register_provider_body_kept:
  assumes "register_provider_body k clk d r chosen codes agent ip a = Inr (res, a')"
    and new: "pv_worker_id d \<notin> pk ` set (workers (base a))"
  shows "catalog_services (base a') = catalog_services (base a)" and "workers_grown (base a) (base a')"
    and "unapproved (base a) \<Longrightarrow> unapproved (base a')"
proof -
  from assms(1) obtain b1 f l u v where b1: "b1 = provider_tables (clk 0) (clk 1) d r chosen codes f l u v (base a)"
    and tabs: "catalog_services (base a') = catalog_services b1" "workers (base a') = workers b1"
      "provider_services (base a') = provider_services b1"
    unfolding register_provider_body_def
    by (auto simp: Let_def issue_verification_def issue_phone_verification_def split: if_splits
        elim!: bindE_InrE dest!: issue_session_InrD)
  show "catalog_services (base a') = catalog_services (base a)" by (simp add: tabs b1 provider_tables_def)
  show "workers_grown (base a) (base a')"
    by (rule workers_grown_append [where w = "registered_worker (clk 0) d r chosen f l"])
      (simp_all add: tabs b1 provider_tables_def registered_worker_def new)
  show "unapproved (base a')" if "unapproved (base a)"
    using that by (auto simp: unapproved_def tabs b1 provider_tables_def registered_services_def)
qed

lemma register_provider_kept:
  assumes "register_provider tzdb k clk d r agent ip a = (res, a')"
    and new: "pv_worker_id d \<notin> pk ` set (workers (base a))"
  shows "catalog_services (base a') = catalog_services (base a) \<and> workers_grown (base a) (base a')
    \<and> (unapproved (base a) \<longrightarrow> unapproved (base a'))"
proof (cases "a' = a")
  case True
  then show ?thesis by (simp add: workers_grown_same)
next
  case False
  with assms(1) obtain chosen codes x where "register_provider_body k clk d r chosen codes agent ip a = Inr (x, a')"
    unfolding register_provider_def by (auto split: sum.splits prod.splits api_error.splits)
  from register_provider_body_kept [OF this new] show ?thesis by blast
qed

lemma register_organisation_cases:
  assumes "register_organisation deliverable k clk d r agent ip s = (res, s')"
  obtains (refused) "s' = s"
  | (registered) w where "pk w = og_worker_id d" and "workers (tables s') = workers (tables s) @ [w]"
      and "catalog_services (tables s') = catalog_services (tables s)" and "provider_services (tables s') = provider_services (tables s)"
      and "catalog_skills s' = catalog_skills s" and "applications s' = applications s @ [draft_application (clk 0) d r]"
proof (cases "s' = s")
  case True
  then show thesis by (rule refused)
next
  case False
  with assms obtain x where "register_organisation_body deliverable k clk d r agent ip s = Inr (x, s')"
    unfolding register_organisation_def by (auto split: if_splits sum.splits prod.splits api_error.splits)
  then obtain f l where "workers (tables s') = workers (tables s) @ [organisation_worker (clk 0) d r f l]"
    and "catalog_services (tables s') = catalog_services (tables s)" and "provider_services (tables s') = provider_services (tables s)"
    and "catalog_skills s' = catalog_skills s" and "applications s' = applications s @ [draft_application (clk 0) d r]"
    unfolding register_organisation_body_def
    by (auto simp: Let_def elim!: bindE_InrE dest!: issue_session_InrD)
  then show thesis by (intro registered) (simp_all add: organisation_worker_def)
qed

lemma draft_application_simps [simp]:
  "pk (draft_application now d r) = og_application_id d" "pa_vendor_id (draft_application now d r) = og_vendor_id d"
  "pa_status (draft_application now d r) = PA_DRAFT"
  by (simp_all add: draft_application_def)

lemma register_organisation_ok:
  assumes "register_organisation deliverable k clk d r agent ip s = (res, s')" and ok: "review_ok s"
    and new: "og_application_id d \<notin> pk ` set (applications s)" "og_vendor_id d \<notin> pa_vendor_id ` set (applications s)"
      "og_worker_id d \<notin> pk ` set (workers (tables s))"
  shows "review_ok s'"
  using assms(1)
proof (cases rule: register_organisation_cases)
  case refused
  with ok show ?thesis by simp
next
  case (registered w)
  have grown: "workers_grown (tables s) (tables s')" using registered(1,2) new(3) by (intro workers_grown_append [of _ _ w]) simp_all
  have "catalog_ok s'" using catalog_ok_grown [OF review_okD(1) [OF ok] grown] registered by simp
  moreover have "listed s' a = listed s a" for a using registered by (intro listed_cong selected_kept)
  ultimately show ?thesis using review_okD [OF ok] new registered(6) unfolding review_ok_def by auto
qed

section \<open>Reachable stores\<close>

inductive provider_reachable :: "provider_store \<Rightarrow> bool" where
  pr_start: "applications s = [] \<Longrightarrow> catalog_skills s = [] \<Longrightarrow> catalog_services (tables s) = [] \<Longrightarrow>
     provider_services (tables s) = [] \<Longrightarrow> workers (tables s) = [] \<Longrightarrow> provider_reachable s"
| pr_step: "provider_reachable s \<Longrightarrow> provider_step s s' \<Longrightarrow> provider_reachable s'"

lemma catalog_committed_unapproved: "catalog_committed s s' \<Longrightarrow> unapproved (tables s) \<Longrightarrow> unapproved (tables s')"
  unfolding catalog_committed_def rows_written_def rows_kept_def unapproved_def by auto

lemma decision_effect_services [simp]:
  "provider_services (tables (decision_effect d actor now v s)) = provider_services (tables s)"
  by (cases d) simp_all

lemma provider_step_ok:
  assumes "provider_step s s'" and "review_ok s" and "unapproved (tables s)"
  shows "review_ok s' \<and> unapproved (tables s')"
  using assms
proof (induction rule: provider_step.induct)
  case (ps_organisation deliverable k clk d r agent ip s res s')
  from ps_organisation(1) have "unapproved (tables s')"
  proof (cases rule: register_organisation_cases)
    case refused
    with ps_organisation show ?thesis by simp
  next
    case (registered w)
    with ps_organisation(6) show ?thesis by (simp add: unapproved_def)
  qed
  with register_organisation_ok [OF ps_organisation(1,5,2,3,4)] show ?case by simp
next
  case (ps_profile now u pu s res s')
  from update_profile_kept [OF ps_profile(1)] have "rows_kept (tables s) (tables s')" "catalog_skills s' = catalog_skills s"
    "applications s' = applications s" by simp_all
  with ps_profile(2,3) show ?case by (auto simp: rows_kept_def unapproved_def intro: review_ok_grown)
next
  case (ps_edit now u c s res s')
  have "provider_services (tables s') = provider_services (tables s)"
    using ps_edit(1) by (auto simp: update_onboarding_def split: sum.splits)
  with update_onboarding_ok [OF ps_edit(1,2)] ps_edit(3) show ?case by (simp add: unapproved_def)
next
  case (ps_submit clk event_id u s res s')
  from ps_submit(1) have "unapproved (tables s')"
  proof (cases rule: submission_cases)
    case (pending a b)
    with ps_submit(3) show ?thesis by (simp add: rows_kept_def unapproved_def)
  qed (use ps_submit in simp)
  with submit_ok [OF ps_submit(1,2)] show ?case by simp
next
  case (ps_decide clk event_id i actor d reason s res s')
  from ps_decide(1) have "unapproved (tables s')"
  proof (cases rule: decide_cases)
    case (decided a b)
    with ps_decide(3) show ?thesis by (simp add: rows_kept_def unapproved_def)
  qed (use ps_decide in simp)
  with decide_ok [OF ps_decide(1,2)] show ?case by simp
next
  case (ps_add_service collate clk new_id event_id u service_id order cid s res s')
  then have "catalog_committed s s'" using add_service_committed review_okD(1) by blast
  with ps_add_service show ?case using catalog_committed_ok catalog_committed_unapproved by blast
next
  case (ps_update_service collate now event_id i u active order version cid s res s')
  then have "catalog_committed s s'" using update_provider_service_committed review_okD(1) by blast
  with ps_update_service show ?case using catalog_committed_ok catalog_committed_unapproved by blast
next
  case (ps_remove_service now event_id i u version cid s res s')
  then have "catalog_committed s s'" using remove_service_committed review_okD(1) by blast
  with ps_remove_service show ?case using catalog_committed_ok catalog_committed_unapproved by blast
next
  case (ps_add_skill clk new_id event_id u skill_id worker cid s res s')
  then have "catalog_committed s s'" using add_skill_committed review_okD(1) by blast
  with ps_add_skill show ?case using catalog_committed_ok catalog_committed_unapproved by blast
next
  case (ps_remove_skill now event_id i u version cid s res s')
  then have "catalog_committed s s'" using remove_skill_committed review_okD(1) by blast
  with ps_remove_skill show ?case using catalog_committed_ok catalog_committed_unapproved by blast
next
  case (ps_portal s b)
  have "review_ok (with_tables (\<lambda>_. b) s)"
    using portal_step_catalog [OF ps_portal(1)] portal_step_workers [OF ps_portal(1)]
    by (intro review_ok_grown [OF ps_portal(2)]) simp_all
  with portal_step_unapproved [OF ps_portal(1,3)] show ?case by simp
next
  case (ps_provider tzdb k clk d r agent ip s res a)
  note kept = register_provider_kept [OF ps_provider(1,2)]
  have "review_ok (s\<lparr>portal := (portal s)\<lparr>acc := a\<rparr>\<rparr>)"
    using kept by (intro review_ok_grown [OF ps_provider(3)]) simp_all
  with kept ps_provider(4) show ?case by simp
next
  case (ps_other s p)
  have "review_ok (s\<lparr>portal := p\<rparr>)"
    using ps_other(1) by (intro review_ok_grown [OF ps_other(2)]) (simp_all add: same_providers_def workers_grown_same)
  with ps_other show ?case by (simp add: same_providers_def unapproved_def)
qed

lemma provider_reachable_ok: "provider_reachable s \<Longrightarrow> review_ok s \<and> unapproved (tables s)"
proof (induction rule: provider_reachable.induct)
  case (pr_start s)
  then show ?case by (simp add: review_ok_def catalog_ok_def unapproved_def)
next
  case (pr_step s s')
  then show ?case using provider_step_ok by blast
qed

end
