(* ===== verification/Provider_Review.thy ===== *)
theory Provider_Review
  imports Providers Account_Sessions
begin

text \<open>
  What holds of providers in every reachable store: which of them the matcher can offer, what an
  application under review lists, and what an approval does.
\<close>

section \<open>A sample provider under review\<close>

definition acme_draws :: organisation_draws where
  "acme_draws = \<lparr>og_user_id = 1, og_vendor_id = 2, og_worker_id = 3, og_profile_id = 4, og_assignment_id = 5,
     og_application_id = 6, og_email = a_token, og_session = first_session\<rparr>"

definition acme_request :: organisation_request where
  "acme_request = \<lparr>or_email = ''ann@acme.com'', or_password = ''long password'', or_full_name = ''Ann Lee'',
     or_legal_name = ''Acme LLC'', or_display_name = ''Acme'', or_phone = ''5185550100''\<rparr>"

definition acme_owner :: user where
  "acme_owner = organisation_user sample_crypto 0 acme_draws acme_request"

definition pipe_skill :: skill_definition where
  "pipe_skill = \<lparr>pk = 11, created_at = 0, sk_key = ''pipes'', sk_name = ''Pipes'', sk_category = ''plumbing'',
     sk_description = None, sk_provider_approval_required = True, sk_active = True, sk_version = 1\<rparr>"

definition no_providers :: provider_store where
  "no_providers = \<lparr>portal = \<lparr>acc = \<lparr>base = empty_db\<lparr>services := [sample_service]\<rparr>, reset_tokens = [], email_tokens = [],
       phone_tokens = []\<rparr>, profiles = [], access_assignments = [], role_permissions = [], user_permissions = [],
       identities = [], invitations = []\<rparr>,
     applications = [], catalog_skills = [], skill_definitions = [pipe_skill], skill_requirements = []\<rparr>"

definition acme_details :: onboarding_update where
  "acme_details = \<lparr>on_identity = None, on_business = None, on_contact_details = None, on_services = None, on_skills = None,
     on_service_areas = Some (Some [[(''city'', JStr ''Albany'')]]), on_postal_codes = Some (Some [''12207'']),
     on_availability = Some (Some [(''mon'', JStr ''9-17'')]), on_capacity = Some (Some [(''jobs'', JInt 3)]),
     on_licenses = Some (Some [[(''number'', JStr ''L1'')]]), on_insurance = Some (Some [[(''policy'', JStr ''P1'')]]),
     on_compliance_documents = Some (Some [90])\<rparr>"

definition acme1 :: provider_store where
  "acme1 = snd (register_organisation True sample_crypto int acme_draws acme_request None None no_providers)"

definition acme2 :: provider_store where
  "acme2 = snd (add_service (\<lambda>_. 0) int 20 21 acme_owner 10 0 None acme1)"

definition acme3 :: provider_store where
  "acme3 = snd (add_skill int 22 23 acme_owner 11 None None acme2)"

definition acme4 :: provider_store where
  "acme4 = snd (update_onboarding 50 acme_owner acme_details acme3)"

definition acme5 :: provider_store where
  "acme5 = snd (submit int 24 acme_owner acme4)"

lemma acme1_rows:
  "vendors (tables acme1) = [organisation_vendor 0 acme_draws acme_request]" (is ?A)
  "workers (tables acme1) = [organisation_worker 0 acme_draws acme_request ''Ann'' ''Lee'']" (is ?B)
  "services (tables acme1) = [sample_service]" (is ?C) "skill_definitions acme1 = [pipe_skill]" (is ?D)
  "catalog_services (tables acme1) = []" (is ?E) "catalog_skills acme1 = []" (is ?F)
  "applications acme1 = [draft_application 0 acme_draws acme_request]" (is ?G)
  "access_assignments (portal acme1) = [organisation_access 0 acme_draws]" (is ?H)
  "ev_idempotency_key ` set (events (tables acme1)) = {Some (''provider-email-verification:'' @ str_uuid 1)}" (is ?I)
proof -
  have name: "name_parts (strip (or_full_name acme_request)) = Inr (''Ann'', ''Lee'')" by code_simp
  have free: "user_by_email (tables no_providers) m = None" for m
    by (simp add: user_by_email_def no_providers_def empty_db_def)
  have "\<exists>x s. register_organisation_body True sample_crypto int acme_draws acme_request None None no_providers = Inr (x, s)
    \<and> vendors (tables s) = [organisation_vendor 0 acme_draws acme_request]
    \<and> workers (tables s) = [organisation_worker 0 acme_draws acme_request ''Ann'' ''Lee'']
    \<and> services (tables s) = [sample_service] \<and> skill_definitions s = [pipe_skill]
    \<and> catalog_services (tables s) = [] \<and> catalog_skills s = []
    \<and> applications s = [draft_application 0 acme_draws acme_request]
    \<and> access_assignments (portal s) = [organisation_access 0 acme_draws]
    \<and> ev_idempotency_key ` set (events (tables s)) = {Some (''provider-email-verification:'' @ str_uuid 1)}"
    by (simp add: register_organisation_body_def name Let_def no_providers_def empty_db_def new_token_def
        issue_session_def organisation_event_def new_event_def acme_draws_def a_token_def ensure_def
        create_access_token_def require_secret_def sample_crypto_def)
  then have "vendors (tables acme1) = [organisation_vendor 0 acme_draws acme_request]
    \<and> workers (tables acme1) = [organisation_worker 0 acme_draws acme_request ''Ann'' ''Lee'']
    \<and> services (tables acme1) = [sample_service] \<and> skill_definitions acme1 = [pipe_skill]
    \<and> catalog_services (tables acme1) = [] \<and> catalog_skills acme1 = []
    \<and> applications acme1 = [draft_application 0 acme_draws acme_request]
    \<and> access_assignments (portal acme1) = [organisation_access 0 acme_draws]
    \<and> ev_idempotency_key ` set (events (tables acme1)) = {Some (''provider-email-verification:'' @ str_uuid 1)}"
    unfolding acme1_def register_organisation_def by (auto simp: free)
  then show ?A ?B ?C ?D ?E ?F ?G ?H ?I by simp_all
qed

text \<open>The rows that the next commands read.\<close>

definition acme_rows :: "provider_store \<Rightarrow> provider_application \<Rightarrow> bool" where
  "acme_rows s a \<longleftrightarrow> vendors (tables s) = [organisation_vendor 0 acme_draws acme_request]
     \<and> services (tables s) = [sample_service] \<and> skill_definitions s = [pipe_skill]
     \<and> access_assignments (portal s) = [organisation_access 0 acme_draws] \<and> applications s = [a]
     \<and> pk a = 6 \<and> pa_vendor_id a = 2"

abbreviation acme :: vendor where "acme \<equiv> organisation_vendor 0 acme_draws acme_request"

lemma acme_draws_simps [simp]:
  "og_user_id acme_draws = 1" "og_vendor_id acme_draws = 2" "og_worker_id acme_draws = 3"
  "og_assignment_id acme_draws = 5" "og_application_id acme_draws = 6"
  by (simp_all add: acme_draws_def)

lemma acme_simps [simp]:
  "pk acme = 2" "vn_status acme = V_PENDING" "vn_owner_user_id acme = Some 1" "pk acme_owner = 1"
  by (simp_all add: organisation_vendor_def acme_owner_def organisation_user_def)

lemma acme_vendor:
  assumes "acme_rows s a"
  shows "owner_vendor s acme_owner = Inr acme" and "application_of s 2 = Some a"
    and "pa_status a \<noteq> PA_PENDING \<Longrightarrow> owned_vendor s acme_owner True = Inr acme"
proof -
  from assms show app: "application_of s 2 = Some a" by (simp add: acme_rows_def application_of_def)
  from assms show "owner_vendor s acme_owner = Inr acme" by (simp add: acme_rows_def owner_vendor_def)
  have "vendor_for_user s acme_owner = Some acme"
    using assms by (simp add: acme_rows_def vendor_for_user_def active_assignments_def organisation_access_def assignment_row_def)
  with app show "owned_vendor s acme_owner True = Inr acme" if "pa_status a \<noteq> PA_PENDING"
    using that by (simp add: owned_vendor_def ensure_def of_option_def)
qed

lemma acme1_ok: "acme_rows acme1 (draft_application 0 acme_draws acme_request)"
  using acme1_rows by (simp add: acme_rows_def)

abbreviation acme_draft :: provider_application where
  "acme_draft \<equiv> draft_application 0 acme_draws acme_request"

abbreviation mail_key :: "string option" where
  "mail_key \<equiv> Some (''provider-email-verification:'' @ str_uuid 1)"

abbreviation service_key :: "string option" where
  "service_key \<equiv> Some (''provider_service'' @ '':'' @ str_uuid 20 @ '':'' @ str_int 1 @ '':'' @ ''provider.service.select'')"

abbreviation skill_key :: "string option" where
  "skill_key \<equiv> Some (''provider_skill'' @ '':'' @ str_uuid 22 @ '':'' @ str_int 1 @ '':'' @ ''provider.skill.select'')"

definition service_selected :: "provider_store \<Rightarrow> bool" where
  "service_selected s \<longleftrightarrow> (\<exists>q. catalog_services (tables s) = [q] \<and> pcs_vendor_id q = 2 \<and> pcs_active q \<and> pcs_service_id q = 10)"

definition skill_selected :: "provider_store \<Rightarrow> bool" where
  "skill_selected s \<longleftrightarrow> (\<exists>q. catalog_skills s = [q] \<and> pck_vendor_id q = 2 \<and> pck_active q \<and> pck_skill_id q = 11)"

lemma acme2_rows:
  "service_selected acme2 \<and> acme_rows acme2 (acme_draft\<lparr>pa_services := [str_uuid 10], pa_version := 2\<rparr>)
    \<and> catalog_skills acme2 = [] \<and> workers (tables acme2) = [organisation_worker 0 acme_draws acme_request ''Ann'' ''Lee'']
    \<and> ev_idempotency_key ` set (events (tables acme2)) = {mail_key, service_key}"
proof -
  note v = acme_vendor [OF acme1_ok]
  have "active_catalog_service acme1 10 = Some sample_service"
    by (simp add: active_catalog_service_def acme1_rows sample_service_def)
  moreover have "service_selection acme1 2 10 = None" by (simp add: service_selection_def acme1_rows)
  moreover have "pk sample_service = 10" by (simp add: sample_service_def)
  ultimately have "\<exists>q s. add_service_body int 20 21 acme_owner 10 0 None acme1 = Inr (q, s)
    \<and> service_selected s \<and> acme_rows s (acme_draft\<lparr>pa_services := [str_uuid 10], pa_version := 2\<rparr>)
    \<and> catalog_skills s = [] \<and> workers (tables s) = [organisation_worker 0 acme_draws acme_request ''Ann'' ''Lee'']
    \<and> ev_idempotency_key ` set (events (tables s)) = {mail_key, service_key}"
    using v acme1_ok
    by (simp add: add_service_body_def Let_def insert_service_def service_change_def record_change_def new_event_def
        sync_application_def synced_application_def list_provider_services_def list_provider_skills_def acme1_rows acme_rows_def
        application_of_def ensure_def of_option_def change_key_def update_row_def update_where_def draft_application_def
        insert_commute service_selected_def)
  then obtain q s where "add_service_body int 20 21 acme_owner 10 0 None acme1 = Inr (q, s)"
    and rows: "service_selected s \<and> acme_rows s (acme_draft\<lparr>pa_services := [str_uuid 10], pa_version := 2\<rparr>)
    \<and> catalog_skills s = [] \<and> workers (tables s) = [organisation_worker 0 acme_draws acme_request ''Ann'' ''Lee'']
    \<and> ev_idempotency_key ` set (events (tables s)) = {mail_key, service_key}" by blast
  then have "acme2 = s" by (simp add: acme2_def add_service_def)
  with rows show ?thesis by simp
qed

lemma acme3_rows:
  "service_selected acme3 \<and> skill_selected acme3
    \<and> acme_rows acme3 (acme_draft\<lparr>pa_services := [str_uuid 10], pa_skills := [str_uuid 11], pa_version := 3\<rparr>)
    \<and> ev_idempotency_key ` set (events (tables acme3)) = {mail_key, service_key, skill_key}"
proof -
  define w where "w = organisation_worker 0 acme_draws acme_request ''Ann'' ''Lee''"
  have w: "pk w = 3" "wk_vendor_id w = 2" "wk_user_id w = Some 1" by (simp_all add: w_def organisation_worker_def)
  note rows = acme2_rows [folded w_def]
  have ok: "acme_rows acme2 (acme_draft\<lparr>pa_services := [str_uuid 10], pa_version := 2\<rparr>)" using rows by blast
  note v = acme_vendor [OF ok]
  have k: "active_skill acme2 11 = Some pipe_skill" "pk pipe_skill = 11"
    using ok by (simp_all add: acme_rows_def active_skill_def pipe_skill_def)
  have sw: "selected_worker acme2 acme acme_owner None = Inr w"
    using rows w by (simp add: selected_worker_def primary_worker_def of_option_def)
  have none: "skill_selection acme2 3 11 = None" using rows by (simp add: skill_selection_def)
  obtain q where q: "catalog_services (tables acme2) = [q]" "pcs_vendor_id q = 2" "pcs_active q" "pcs_service_id q = 10"
    using rows by (auto simp: service_selected_def)
  have "\<exists>q s. add_skill_body int 22 23 acme_owner 11 None None acme2 = Inr (q, s)
    \<and> service_selected s \<and> skill_selected s
    \<and> acme_rows s (acme_draft\<lparr>pa_services := [str_uuid 10], pa_skills := [str_uuid 11], pa_version := 3\<rparr>)
    \<and> ev_idempotency_key ` set (events (tables s)) = {mail_key, service_key, skill_key}"
    using v ok k sw none rows w q
    by (simp add: add_skill_body_def Let_def insert_skill_def skill_change_def record_change_def new_event_def
        sync_application_def synced_application_def list_provider_services_def list_provider_skills_def acme_rows_def
        application_of_def ensure_def of_option_def change_key_def update_row_def update_where_def draft_application_def
        insert_commute service_selected_def skill_selected_def sync_legacy_worker_skills_def)
  then obtain q s where "add_skill_body int 22 23 acme_owner 11 None None acme2 = Inr (q, s)"
    and rows: "service_selected s \<and> skill_selected s
    \<and> acme_rows s (acme_draft\<lparr>pa_services := [str_uuid 10], pa_skills := [str_uuid 11], pa_version := 3\<rparr>)
    \<and> ev_idempotency_key ` set (events (tables s)) = {mail_key, service_key, skill_key}" by blast
  then have "acme3 = s" by (simp add: acme3_def add_skill_def)
  with rows show ?thesis by simp
qed

definition acme_application :: provider_application where
  "acme_application = acme_draft\<lparr>pa_services := [str_uuid 10], pa_skills := [str_uuid 11], pa_version := 4,
     pa_service_areas := Some [[(''city'', JStr ''Albany'')]], pa_postal_codes := Some [''12207''],
     pa_availability := Some [(''mon'', JStr ''9-17'')], pa_capacity := Some [(''jobs'', JInt 3)],
     pa_licenses := Some [[(''number'', JStr ''L1'')]], pa_insurance := Some [[(''policy'', JStr ''P1'')]],
     pa_compliance_documents := Some [90]\<rparr>"

lemma acme4_rows:
  "service_selected acme4 \<and> skill_selected acme4 \<and> acme_rows acme4 acme_application
    \<and> ev_idempotency_key ` set (events (tables acme4)) = {mail_key, service_key, skill_key}"
proof -
  note rows = acme3_rows
  have ok: "acme_rows acme3 (acme_draft\<lparr>pa_services := [str_uuid 10], pa_skills := [str_uuid 11], pa_version := 3\<rparr>)"
    using rows by blast
  note v = acme_vendor [OF ok]
  have codes: "normalize_postal_codes (Some (Some [''12207''])) = Inr (Some (Some [''12207'']))" by code_simp
  have "edit_application acme_owner acme_details acme3 = Inr acme_application"
    using v codes
    by (simp add: edit_application_def acme_details_def application_for_vendor_def editable_def ensure_def of_option_def
        edited_application_def or_old_def acme_application_def draft_application_def)
  with rows ok show ?thesis
    by (simp add: acme4_def update_onboarding_def acme_rows_def update_row_def update_where_def acme_application_def
        service_selected_def skill_selected_def)
qed

lemma acme5_rows:
  "service_selected acme5 \<and> skill_selected acme5 \<and> acme_rows acme5 (submitted_application 0 acme_application)
    \<and> ev_idempotency_key ` set (events (tables acme5)) = {mail_key, service_key, skill_key,
       Some (''provider_application_submitted:'' @ str_uuid 6 @ '':'' @ str_int 5)}"
proof -
  note rows = acme4_rows
  have ok: "acme_rows acme4 acme_application" using rows by blast
  note v = acme_vendor [OF ok]
  have sync: "sync_catalog_selections acme4 acme_application = acme_application"
    using rows by (auto simp: sync_catalog_selections_def service_selected_def skill_selected_def acme_application_def)
  have fields: "missing_submission_fields acme_application = []"
    by (simp add: missing_submission_fields_def acme_application_def filled_def draft_application_def)
  have "check_submission acme_owner acme4 = Inr (acme, acme_application)"
    using v sync fields
    by (simp add: check_submission_def application_for_vendor_def editable_def ensure_def of_option_def)
      (simp add: acme_application_def)
  with rows ok show ?thesis
    by (simp add: acme5_def submit_def Let_def add_unique_event_def ensure_def application_event_def new_event_def
        acme_rows_def update_row_def update_where_def submitted_application_def service_selected_def skill_selected_def)
      (simp add: acme_application_def insert_commute)
qed

lemma acme5_reachable: "provider_reachable acme5"
proof -
  have "provider_reachable no_providers" by (rule pr_start) (simp_all add: no_providers_def empty_db_def)
  moreover have "provider_step no_providers acme1"
    unfolding acme1_def by (rule ps_organisation [OF prod.collapse [symmetric]]) (simp_all add: no_providers_def empty_db_def)
  ultimately have acme1: "provider_reachable acme1" by (rule pr_step)
  have "provider_step acme1 acme2"
    unfolding acme2_def by (rule ps_add_service [OF prod.collapse [symmetric]]) (simp add: acme1_rows)
  with acme1 have acme2: "provider_reachable acme2" by (rule pr_step)
  have "provider_step acme2 acme3"
    unfolding acme3_def by (rule ps_add_skill [OF prod.collapse [symmetric]]) (simp add: acme2_rows)
  with acme2 have acme3: "provider_reachable acme3" by (rule pr_step)
  have "provider_step acme3 acme4" unfolding acme4_def by (rule ps_edit [OF prod.collapse [symmetric]])
  with acme3 have acme4: "provider_reachable acme4" by (rule pr_step)
  have "provider_step acme4 acme5" unfolding acme5_def by (rule ps_submit [OF prod.collapse [symmetric]])
  with acme4 show ?thesis by (rule pr_step)
qed

section \<open>Properties\<close>

text \<open>
  C33: While an application is under review it lists exactly the active services and skills of its
  provider, in the order of the tables, and misses none of the required fields: every command that would
  change a selection is refused during the review, and so is every edit.
\<close>

theorem under_review:
  assumes "provider_reachable s" and "a \<in> set (applications s)" and "pa_status a = PA_PENDING"
  shows "pa_services a = selected_services s (pa_vendor_id a) \<and> pa_skills a = selected_skills s (pa_vendor_id a)
    \<and> missing_submission_fields a = []"
  using review_okD(4) provider_reachable_ok assms unfolding listed_def by blast

theorem under_review_witness:
  "selected_services acme5 2 = [str_uuid 10] \<and> selected_skills acme5 2 = [str_uuid 11]"
proof -
  let ?a = "submitted_application 0 acme_application"
  have "?a \<in> set (applications acme5)" using acme5_rows by (simp add: acme_rows_def)
  from under_review [OF acme5_reachable this] show ?thesis
    by (simp add: submitted_application_def acme_application_def)
qed

text \<open>
  C38: No provider that came in through the application's commands is ever offered for a visit: in every
  reachable store the matcher returns no candidate, because no command approves a row of
  \<^verbatim>\<open>provider_services\<close>; the approval of an application approves only the selections of the catalogue.
\<close>

theorem never_offered:
  assumes "provider_reachable s"
    and "candidates tzdb st_distance now (tables s) sv ad a b emergency professional = Inr cs"
  shows "cs = []"
proof (rule ccontr)
  assume "cs \<noteq> []"
  then obtain c where "c \<in> set cs" by (cases cs) auto
  with matcher.sound [OF assms(2)] obtain w v where "eligible (tables s) sv ad w v" unfolding suitable_def by blast
  with provider_reachable_ok [OF assms(1)] show False unfolding eligible_def unapproved_def by blast
qed

text \<open>After the approval of the sample application its vendor is active, and still nobody is offered.\<close>

definition acme6 :: provider_store where
  "acme6 = snd (decide int 25 6 sample_admin Approve ''complete'' acme5)"

lemma acme6_reachable: "provider_reachable acme6"
  unfolding acme6_def by (rule pr_step [OF acme5_reachable ps_decide [OF prod.collapse [symmetric]]])

theorem never_offered_witness:
  "candidates sample_tzdb no_distance sample_now (tables acme6) sample_service sample_address sample_start sample_end False None
     = Inr []"
proof -
  have "timezone sample_tzdb (ad_timezone_name sample_address) \<noteq> Inl e" for e by code_simp
  then obtain cs where cs: "candidates sample_tzdb no_distance sample_now (tables acme6) sample_service sample_address sample_start
      sample_end False None = Inr cs"
    by (cases "timezone sample_tzdb (ad_timezone_name sample_address)") (auto simp: candidates_def)
  with never_offered [OF acme6_reachable cs] show ?thesis by simp
qed

lemma approved_services:
  assumes "catalog_ok s" and "p \<in> set (catalog_services (tables (decision_effect Approve actor now v s)))"
    and "pcs_vendor_id p = v" and "pcs_active p"
  shows "pcs_status p = AP_APPROVED"
proof -
  from assms(2) obtain r where r: "r \<in> set (catalog_services (tables s))"
    and p: "p = (if pcs_vendor_id r = v \<and> pcs_active r \<and> pcs_status r = AP_PENDING then approved_service actor now r else r)"
    by (auto simp: set_update_where)
  have "pcs_status r \<noteq> AP_REJECTED" using assms(1) r by (rule catalog_ok_service)
  with p assms(3,4) show ?thesis by (cases "pcs_status r") (auto simp: approved_service_def split: if_splits)
qed

lemma approved_skills:
  assumes "catalog_ok s" and "p \<in> set (catalog_skills (decision_effect Approve actor now v s))"
    and "pck_vendor_id p = v" and "pck_active p"
  shows "pck_status p = AP_APPROVED"
proof -
  from assms(2) obtain r where r: "r \<in> set (catalog_skills s)"
    and p: "p = (if pck_vendor_id r = v \<and> pck_active r \<and> pck_status r = AP_PENDING then approved_skill actor now r else r)"
    by (auto simp: set_update_where)
  have "pck_status r \<noteq> AP_REJECTED" using assms(1) r by (rule catalog_ok_skill)
  with p assms(3,4) show ?thesis by (cases "pck_status r") (auto simp: approved_skill_def split: if_splits)
qed

lemma read_application_Inr: "read_application a = Inr a' \<Longrightarrow> a' = a"
  by (auto simp: read_application_def elim!: bindE_InrE)

text \<open>
  C17: An approval makes the application approved and approves every active selection of its provider, and
  these are exactly the services and skills that the approved application lists: nothing is approved that
  was not in front of the reviewer.
\<close>

theorem approved_as_reviewed:
  assumes "provider_reachable s" and "decide clk event_id i actor Approve reason s = (Inr a, s')"
  shows "pa_status a = PA_APPROVED
    \<and> pa_services a = selected_services s' (pa_vendor_id a) \<and> pa_skills a = selected_skills s' (pa_vendor_id a)
    \<and> (\<forall>p \<in> set (catalog_services (tables s')). pcs_vendor_id p = pa_vendor_id a \<and> pcs_active p \<longrightarrow> pcs_status p = AP_APPROVED)
    \<and> (\<forall>p \<in> set (catalog_skills s'). pck_vendor_id p = pa_vendor_id a \<and> pck_active p \<longrightarrow> pck_status p = AP_APPROVED)"
  using assms(2)
proof (cases rule: decide_cases)
  case refused
  then show ?thesis by simp
next
  case (decided a0 b)
  define s1 where "s1 = put_application (decided_application Approve (pk actor) (clk 0) reason a0) s"
  define s2 where "s2 = decision_effect Approve (pk actor) (clk 0) (pa_vendor_id a0) s1"
  note b = decided(4) [folded s1_def, folded s2_def] and s' = decided(5) [folded s1_def, folded s2_def]
  have a: "a = decided_application Approve (pk actor) (clk 0) reason a0"
    using decided(6) read_application_Inr by metis
  have rows: "catalog_services (tables s') = catalog_services (tables s2)" "catalog_skills s' = catalog_skills s2"
    using b s' by (simp_all add: rows_kept_def)
  have ok: "catalog_ok s1"
    using provider_reachable_ok [OF assms(1)] review_okD(1) unfolding s1_def by (simp add: put_application_catalog_ok)
  have sel: "selected_services s' v = selected_services s v" "selected_skills s' v = selected_skills s v" for v
  proof -
    have "selected_services s' v = selected_services s2 v" "selected_skills s' v = selected_skills s2 v"
      using rows by (simp_all add: selected_services_def selected_skills_def)
    then show "selected_services s' v = selected_services s v" "selected_skills s' v = selected_skills s v"
      unfolding s2_def decision_effect_selected by (simp_all add: s1_def selected_services_def selected_skills_def)
  qed
  have "listed s a0" using review_okD(4) provider_reachable_ok [OF assms(1)] decided(1,3) by blast
  then have "pa_services a = selected_services s' (pa_vendor_id a) \<and> pa_skills a = selected_skills s' (pa_vendor_id a)"
    unfolding sel by (simp add: listed_def a decided_application_def)
  moreover have "pa_status a = PA_APPROVED" "pa_vendor_id a = pa_vendor_id a0" by (simp_all add: a decided_application_def)
  ultimately show ?thesis
    unfolding rows s2_def using approved_services [OF ok] approved_skills [OF ok] by simp
qed

lemma acme_approved: "\<exists>a. decide int 25 6 sample_admin Approve ''complete'' acme5 = (Inr a, acme6) \<and> pa_vendor_id a = 2
   \<and> pa_services a = [str_uuid 10]"
proof -
  note rows = acme5_rows
  define a where "a = submitted_application 0 acme_application"
  define d where "d = decided_application Approve (pk sample_admin) 0 ''complete'' a"
  have ok: "acme_rows acme5 a" using rows by (simp add: a_def)
  have status: "pa_status a = PA_PENDING" by (simp add: a_def submitted_application_def)
  have "check_decision 6 acme5 = Inr (acme, a)"
    using ok status by (simp add: check_decision_def acme_rows_def lookup_row_def of_option_def ensure_def)
  moreover have "read_application d = Inr d"
    by (simp add: d_def a_def read_application_def decided_application_def submitted_application_def acme_application_def
        draft_application_def ensure_def)
  moreover have "pk d = 6" "pa_version d = 6" "pa_vendor_id d = 2" "pa_services d = [str_uuid 10]"
    using ok by (simp_all add: d_def a_def decided_application_def submitted_application_def acme_application_def acme_rows_def)
  ultimately have "decide int 25 6 sample_admin Approve ''complete'' acme5 = (Inr d, acme6) \<and> pa_vendor_id d = 2
      \<and> pa_services d = [str_uuid 10]"
    using rows unfolding acme6_def
    by (simp add: decide_def Let_def add_unique_event_def ensure_def application_event_def new_event_def flip: d_def)
  then show ?thesis by blast
qed

theorem approved_as_reviewed_witness:
  "selected_services acme6 2 = [str_uuid 10] \<and> service_selected acme5"
proof -
  from acme_approved obtain a where a: "decide int 25 6 sample_admin Approve ''complete'' acme5 = (Inr a, acme6)"
    "pa_vendor_id a = 2" "pa_services a = [str_uuid 10]" by blast
  from approved_as_reviewed [OF acme5_reachable a(1)] a(2,3) acme5_rows show ?thesis by simp
qed

end
