(* ===== verification/Geography.thy ===== *)
theory Geography
  imports Onboarding
begin

text \<open>
  The service zones of the company and the ZIP codes they serve (\<^verbatim>\<open>geography/repository.py\<close>,
  \<^verbatim>\<open>admin_zone_service.py\<close>, \<^verbatim>\<open>admin_postal_service.py\<close>, \<^verbatim>\<open>public_service.py\<close>).  A zone is a row
  of \<^verbatim>\<open>service_areas\<close>; its array of ZIP codes, which the booking code reads, is derived from the
  normalised rows of this component.

  The PostGIS functions are the parameters \<open>st_covers\<close>, \<open>st_dwithin\<close> and \<open>st_geometry\<close>, and the
  collation of the database is the position \<open>collate\<close> of a text.
\<close>

section \<open>The store\<close>

record area_postal_code = row +
  apc_service_area_id :: uuid
  apc_postal_code :: string
  apc_city :: "string option"
  apc_state_code :: "string option"
  apc_active :: bool
  apc_regular_service_enabled :: bool
  apc_emergency_service_enabled :: bool
  apc_priority :: int
  apc_version :: int

datatype postal_import_status = PI_PENDING | PI_COMPLETED | PI_FAILED

record postal_code_import = row +
  pim_service_area_id :: uuid
  pim_requested_by :: uuid
  pim_idempotency_key :: string
  pim_request_hash :: string
  pim_status :: postal_import_status
  pim_total_rows :: int
  pim_imported_rows :: int
  pim_rejected_rows :: int
  pim_errors :: "json_object list"
  pim_completed_at :: "datetime option"

record geography =
  gdb :: db
  postal_rows :: "area_postal_code list"
  postal_imports :: "postal_code_import list"

interpretation postal_row_table:
  keyed_table "postal_rows :: geography \<Rightarrow> area_postal_code list" "\<lambda>rs s. s\<lparr>postal_rows := rs\<rparr>" pk
  by unfold_locales simp_all

abbreviation with_gdb :: "(db \<Rightarrow> db) \<Rightarrow> geography \<Rightarrow> geography" where
  "with_gdb f s \<equiv> s\<lparr>gdb := f (gdb s)\<rparr>"

abbreviation modify_area :: "uuid \<Rightarrow> (service_area \<Rightarrow> service_area) \<Rightarrow> geography \<Rightarrow> geography" where
  "modify_area i f s \<equiv> with_gdb (\<lambda>b. b\<lparr>service_areas := update_row pk i f (service_areas b)\<rparr>) s"

section \<open>Normalisation\<close>

definition zip_format :: "string \<Rightarrow> bool" where
  "zip_format t \<longleftrightarrow> length t = 5 \<and> list_all is_digit t
     \<or> length t = 10 \<and> list_all is_digit (take 5 t) \<and> t ! 5 = CHR ''-'' \<and> list_all is_digit (drop 6 t)"

definition normalize_postal_code :: "string \<Rightarrow> string result" where
  "normalize_postal_code value =
     (let t = strip value;
          n = (if length t = 9 \<and> py_isdigit t then take 5 t @ ''-'' @ drop 5 t else t)
      in if zip_format n then Inr n else Inl (ValueError ''postal code must use ZIP or ZIP+4 format''))"

definition zip_base :: "string \<Rightarrow> string" where
  "zip_base t = takeWhile (\<lambda>c. c \<noteq> CHR ''-'') t"

definition base_postal_code :: "string \<Rightarrow> string result" where
  "base_postal_code value = bindE (normalize_postal_code value) (\<lambda>n. Inr (zip_base n))"

definition normalize_state_code :: "string option \<Rightarrow> string option result" where
  "normalize_state_code value =
     (case value of None \<Rightarrow> Inr None
      | Some v \<Rightarrow> let t = upper (strip v) in
          if (length t = 2 \<or> length t = 3) \<and> list_all is_ascii_upper t then Inr (Some t)
          else Inl (ValueError ''state code must contain two or three letters''))"

section \<open>The repository\<close>

definition get_area :: "geography \<Rightarrow> uuid \<Rightarrow> service_area option" where
  "get_area s i = lookup_row pk i (service_areas (gdb s))"

definition active_legal_entity :: "geography \<Rightarrow> uuid \<Rightarrow> legal_entity option" where
  "active_legal_entity s i = find (\<lambda>e. pk e = i \<and> le_active e) (legal_entities (gdb s))"

text \<open>The codes that match a code: itself, and its first five digits.\<close>

definition zip_candidates :: "string \<Rightarrow> string list result" where
  "zip_candidates value = bindE (normalize_postal_code value) (\<lambda>n.
     bindE (base_postal_code n) (\<lambda>b. Inr (first_occurrences [n, b])))"

definition zone_order :: "(string \<Rightarrow> int) \<Rightarrow> service_area list \<Rightarrow> service_area list" where
  "zone_order collate zs =
     sort_key (\<lambda>a. - sa_priority a) (sort_key (\<lambda>a. collate (sa_name a)) (sort_key pk zs))"

record zone_filter =
  zf_active :: "bool option"
  zf_country_code :: "string option"
  zf_state_code :: "string option"
  zf_city :: "string option"
  zf_postal_code :: "string option"

definition matches_filter :: "geography \<Rightarrow> zone_filter \<Rightarrow> string list \<Rightarrow> service_area \<Rightarrow> bool" where
  "matches_filter s f codes a \<longleftrightarrow>
     (zf_active f = None \<or> zf_active f = Some (sa_active a))
     \<and> (given (zf_country_code f) \<longrightarrow> sa_country_code a = zf_country_code f)
     \<and> (given (zf_state_code f) \<longrightarrow> sa_state_code a = zf_state_code f)
     \<and> (given (zf_city f) \<longrightarrow> map_option lower (sa_city a) = map_option lower (zf_city f))
     \<and> (given (zf_postal_code f) \<longrightarrow>
          list_ex (\<lambda>r. apc_service_area_id r = pk a \<and> apc_postal_code r \<in> set codes) (postal_rows s))"

definition list_zone_rows ::
  "(string \<Rightarrow> int) \<Rightarrow> geography \<Rightarrow> zone_filter \<Rightarrow> nat \<Rightarrow> nat \<Rightarrow> (service_area list \<times> nat) result"
where
  "list_zone_rows collate s f page page_size =
     bindE (case zf_postal_code f of
              Some p \<Rightarrow> if p = [] then Inr [] else zip_candidates p
            | None \<Rightarrow> Inr []) (\<lambda>codes.
     let rows = filter (matches_filter s f codes) (service_areas (gdb s))
     in Inr (take page_size (drop ((page - 1) * page_size) (zone_order collate rows)), length rows))"

text \<open>How a zone can cover a point: by a ZIP code, a boundary, a radius, or a whole city or state.\<close>

definition covers_place ::
  "(geometry \<Rightarrow> point \<Rightarrow> bool) \<Rightarrow> (point \<Rightarrow> point \<Rightarrow> int \<Rightarrow> bool) \<Rightarrow> geography \<Rightarrow> point \<Rightarrow> string list \<Rightarrow> service_area \<Rightarrow> bool"
where
  "covers_place st_covers st_dwithin s p codes a \<longleftrightarrow>
     list_ex (\<lambda>r. apc_service_area_id r = pk a \<and> apc_active r \<and> apc_regular_service_enabled r
        \<and> apc_postal_code r \<in> set codes) (postal_rows s)
     \<or> (case sa_boundary a of None \<Rightarrow> False | Some g \<Rightarrow> st_covers g p)
     \<or> (case (sa_center a, sa_radius_meters a) of (Some c, Some m) \<Rightarrow> st_dwithin c p m | _ \<Rightarrow> False)
     \<or> \<not> list_ex (\<lambda>r. apc_service_area_id r = pk a) (postal_rows s)
        \<and> sa_boundary a = None \<and> (sa_center a = None \<or> sa_radius_meters a = None)
        \<and> (sa_city a \<noteq> None \<or> sa_state_code a \<noteq> None)"

record place =
  pl_point :: point
  pl_country_code :: string
  pl_state :: "string option"
  pl_city :: "string option"

definition zone_matches ::
  "(geometry \<Rightarrow> point \<Rightarrow> bool) \<Rightarrow> (point \<Rightarrow> point \<Rightarrow> int \<Rightarrow> bool) \<Rightarrow> geography \<Rightarrow> place \<Rightarrow> string list \<Rightarrow> uuid option
   \<Rightarrow> service_area \<Rightarrow> bool"
where
  "zone_matches st_covers st_dwithin s p codes service_id a \<longleftrightarrow>
     sa_active a
     \<and> (sa_country_code a = None \<or> sa_country_code a = Some (pl_country_code p))
     \<and> (sa_state_code a = None \<or> sa_state_code a = pl_state p)
     \<and> covers_place st_covers st_dwithin s (pl_point p) codes a
     \<and> (sa_city a = None \<or> given (pl_city p) \<and> map_option lower (sa_city a) = map_option lower (pl_city p))
     \<and> (case service_id of None \<Rightarrow> True
        | Some v \<Rightarrow> list_ex (\<lambda>x. szo_service_area_id x = pk a \<and> szo_service_id x = v \<and> szo_active x
             \<and> szo_regular_service_enabled x) (zone_offerings (gdb s)))"

definition match_zone ::
  "(string \<Rightarrow> int) \<Rightarrow> (geometry \<Rightarrow> point \<Rightarrow> bool) \<Rightarrow> (point \<Rightarrow> point \<Rightarrow> int \<Rightarrow> bool) \<Rightarrow> geography \<Rightarrow> place \<Rightarrow> string
   \<Rightarrow> uuid option \<Rightarrow> (service_area \<times> legal_entity) option result"
where
  "match_zone collate st_covers st_dwithin s p postal_code service_id =
     bindE (zip_candidates postal_code) (\<lambda>codes.
     Inr (case zone_order collate (filter (\<lambda>a. zone_matches st_covers st_dwithin s p codes service_id a
              \<and> active_legal_entity s (sa_legal_entity_id a) \<noteq> None) (service_areas (gdb s))) of
            [] \<Rightarrow> None
          | a # _ \<Rightarrow> map_option (Pair a) (active_legal_entity s (sa_legal_entity_id a))))"

definition offerings_of :: "geography \<Rightarrow> uuid \<Rightarrow> bool \<Rightarrow> service_zone_offering list" where
  "offerings_of s i include_inactive = sort_key szo_service_id
     (filter (\<lambda>x. szo_service_area_id x = i \<and> (include_inactive \<or> szo_active x)) (zone_offerings (gdb s)))"

text \<open>Offerings that are no longer requested stay as inactive rows.\<close>

definition replaced_offering :: "uuid \<Rightarrow> uuid list \<Rightarrow> bool \<Rightarrow> bool \<Rightarrow> service_zone_offering \<Rightarrow> service_zone_offering" where
  "replaced_offering i service_ids regular emergency x =
     (if szo_service_area_id x \<noteq> i then x
      else if szo_service_id x \<in> set service_ids
      then x\<lparr>szo_active := True, szo_regular_service_enabled := regular, szo_emergency_service_enabled := emergency\<rparr>
      else x\<lparr>szo_active := False\<rparr>)"

definition replace_offerings ::
  "datetime \<Rightarrow> (nat \<Rightarrow> uuid) \<Rightarrow> uuid \<Rightarrow> uuid list \<Rightarrow> bool \<Rightarrow> bool \<Rightarrow> geography \<Rightarrow> geography"
where
  "replace_offerings now new_id i service_ids regular emergency s =
     (let old = zone_offerings (gdb s);
          fresh = filter (\<lambda>v. \<not> list_ex (\<lambda>x. szo_service_area_id x = i \<and> szo_service_id x = v) old) (remdups service_ids)
      in with_gdb (\<lambda>b. b\<lparr>zone_offerings := map (replaced_offering i service_ids regular emergency) old
           @ map2 (\<lambda>n v. \<lparr>pk = new_id n, created_at = now, szo_service_area_id = i, szo_service_id = v,
               szo_active = True, szo_regular_service_enabled = regular, szo_emergency_service_enabled = emergency\<rparr>)
             [0..<length fresh] fresh\<rparr>) s)"

definition postal_by_zone_and_code :: "geography \<Rightarrow> uuid \<Rightarrow> string \<Rightarrow> area_postal_code option" where
  "postal_by_zone_and_code s i code =
     find (\<lambda>r. apc_service_area_id r = i \<and> apc_postal_code r = code) (postal_rows s)"

definition zone_postal_codes :: "(string \<Rightarrow> int) \<Rightarrow> geography \<Rightarrow> uuid \<Rightarrow> bool \<Rightarrow> area_postal_code list" where
  "zone_postal_codes collate s i active_only =
     sort_key (\<lambda>r. - apc_priority r) (sort_key (\<lambda>r. collate (apc_postal_code r))
       (filter (\<lambda>r. apc_service_area_id r = i \<and> (active_only \<longrightarrow> apc_active r)) (postal_rows s)))"

text \<open>
  The array that the booking code reads: the active rows of regular service.  The format of the stored
  codes is a constraint of the table, so taking the base of one cannot fail.
\<close>

definition legacy_codes :: "(string \<Rightarrow> int) \<Rightarrow> geography \<Rightarrow> uuid \<Rightarrow> string list" where
  "legacy_codes collate s i = first_occurrences (map (\<lambda>r. zip_base (apc_postal_code r))
     (filter apc_regular_service_enabled (zone_postal_codes collate s i True)))"

definition sync_legacy_postal_codes :: "(string \<Rightarrow> int) \<Rightarrow> uuid \<Rightarrow> geography \<Rightarrow> geography" where
  "sync_legacy_postal_codes collate i s =
     modify_area i (\<lambda>a. a\<lparr>sa_postal_codes := legacy_codes collate s i\<rparr>) s"

end
