(* ===== verification/Zone_Administration.thy ===== *)
theory Zone_Administration
  imports Geography Workforce
begin

text \<open>
  The administrator's commands on service zones and their ZIP codes (\<^verbatim>\<open>geography/admin_zone_service.py\<close>,
  \<^verbatim>\<open>geography/admin_postal_service.py\<close>, the request models of \<^verbatim>\<open>geography/schemas.py\<close>) and the public
  queries of \<^verbatim>\<open>geography/public_service.py\<close>.

  Latitudes, longitudes and radii are rationals.  \<open>st_geometry\<close> reads a GeoJSON object: whether the
  geometry is valid, whether it is empty, and the geometry; \<open>None\<close> is an error of the database.
\<close>

section \<open>Requests for zones\<close>

record zone_create =
  zc_legal_entity_id :: uuid
  zc_name :: string
  zc_country_code :: string
  zc_state_code :: "string option"
  zc_city :: "string option"
  zc_postal_codes :: "string list"
  zc_service_ids :: "uuid list"
  zc_center_latitude :: "rat option"
  zc_center_longitude :: "rat option"
  zc_radius_miles :: "rat option"
  zc_boundary_geojson :: "json_object option"
  zc_priority :: int
  zc_regular_service_enabled :: bool
  zc_emergency_enabled :: bool
  zc_active :: bool

definition normalize_zips :: "string list \<Rightarrow> string list result" where
  "normalize_zips codes = bindE (read_all normalize_postal_code codes) (\<lambda>ns. Inr (first_occurrences ns))"

definition coverage_shape :: "zone_create \<Rightarrow> unit result" where
  "coverage_shape c =
     bindE (ensure ((zc_center_latitude c = None) = (zc_center_longitude c = None))
       (ValueError ''center latitude and longitude must be supplied together'')) (\<lambda>_.
     bindE (ensure (\<not> (zc_radius_miles c \<noteq> None \<and> zc_center_latitude c = None))
       (ValueError ''radius_miles requires a center point'')) (\<lambda>_.
     bindE (ensure (\<not> (zc_center_latitude c \<noteq> None \<and> zc_radius_miles c = None))
       (ValueError ''center coverage requires radius_miles'')) (\<lambda>_.
     ensure (zc_postal_codes c \<noteq> [] \<or> given (zc_city c) \<or> given (zc_state_code c)
         \<or> filled (zc_boundary_geojson c) \<or> zc_center_latitude c \<noteq> None)
       (ValueError ''service zone requires a geographic coverage selector''))))"

definition validated_zone_create :: "zone_create \<Rightarrow> zone_create result" where
  "validated_zone_create c =
     bindE (normalize_state_code (zc_state_code c)) (\<lambda>state.
     bindE (normalize_zips (zc_postal_codes c)) (\<lambda>codes.
     let c' = c\<lparr>zc_state_code := state, zc_postal_codes := codes, zc_service_ids := first_occurrences (zc_service_ids c)\<rparr>
     in bindE (coverage_shape c') (\<lambda>_. Inr c')))"

text \<open>A field of a change that was left out is \<open>None\<close>, one sent as \<^verbatim>\<open>null\<close> is \<open>Some None\<close>.\<close>

record zone_update =
  zu_name :: "string option option"
  zu_country_code :: "string option option"
  zu_state_code :: "string option option"
  zu_city :: "string option option"
  zu_postal_codes :: "string list option option"
  zu_service_ids :: "uuid list option option"
  zu_center_latitude :: "rat option option"
  zu_center_longitude :: "rat option option"
  zu_clear_center :: "bool option"
  zu_radius_miles :: "rat option option"
  zu_clear_radius :: "bool option"
  zu_boundary_geojson :: "json_object option option"
  zu_clear_boundary :: "bool option"
  zu_priority :: "int option option"
  zu_regular_service_enabled :: "bool option option"
  zu_emergency_enabled :: "bool option option"
  zu_active :: "bool option option"

definition zone_fields_set :: "zone_update \<Rightarrow> string list" where
  "zone_fields_set c = map fst (filter snd
     [(''active'', zu_active c \<noteq> None), (''boundary_geojson'', zu_boundary_geojson c \<noteq> None),
      (''center_latitude'', zu_center_latitude c \<noteq> None), (''center_longitude'', zu_center_longitude c \<noteq> None),
      (''city'', zu_city c \<noteq> None), (''clear_boundary'', zu_clear_boundary c \<noteq> None),
      (''clear_center'', zu_clear_center c \<noteq> None), (''clear_radius'', zu_clear_radius c \<noteq> None),
      (''country_code'', zu_country_code c \<noteq> None), (''emergency_enabled'', zu_emergency_enabled c \<noteq> None),
      (''name'', zu_name c \<noteq> None), (''postal_codes'', zu_postal_codes c \<noteq> None),
      (''priority'', zu_priority c \<noteq> None), (''radius_miles'', zu_radius_miles c \<noteq> None),
      (''regular_service_enabled'', zu_regular_service_enabled c \<noteq> None), (''service_ids'', zu_service_ids c \<noteq> None),
      (''state_code'', zu_state_code c \<noteq> None)])"

definition validate_patch :: "zone_update \<Rightarrow> unit result" where
  "validate_patch c =
     (let lat = zu_center_latitude c; lng = zu_center_longitude c in
      bindE (ensure (zone_fields_set c \<noteq> []) (ValueError ''at least one service-zone field is required'')) (\<lambda>_.
      bindE (ensure ((lat = None) = (lng = None))
        (ValueError ''center latitude and longitude must be supplied together'')) (\<lambda>_.
      bindE (ensure (lat = None \<or> lat \<noteq> Some None \<and> lng \<noteq> Some None)
        (ValueError ''center latitude and longitude cannot be null'')) (\<lambda>_.
      bindE (ensure (\<not> (zu_clear_center c = Some True \<and> (lat \<noteq> None \<or> lng \<noteq> None)))
        (ValueError ''clear_center cannot be combined with center coordinates'')) (\<lambda>_.
      bindE (ensure (\<not> (zu_clear_center c = Some True \<and> zu_radius_miles c \<noteq> None))
        (ValueError ''clear_center cannot be combined with radius_miles'')) (\<lambda>_.
      bindE (ensure (\<not> (zu_clear_radius c = Some True \<and> zu_radius_miles c \<noteq> None))
        (ValueError ''clear_radius cannot be combined with radius_miles'')) (\<lambda>_.
      ensure (\<not> (zu_clear_boundary c = Some True \<and> zu_boundary_geojson c \<noteq> None))
        (ValueError ''clear_boundary cannot be combined with boundary_geojson''))))))))"

definition validated_zone_update :: "zone_update \<Rightarrow> zone_update result" where
  "validated_zone_update c =
     bindE (case zu_state_code c of None \<Rightarrow> Inr None
            | Some v \<Rightarrow> bindE (normalize_state_code v) (\<lambda>t. Inr (Some t))) (\<lambda>state.
     bindE (case zu_postal_codes c of
              Some (Some codes) \<Rightarrow> bindE (normalize_zips codes) (\<lambda>ns. Inr (Some (Some ns)))
            | _ \<Rightarrow> Inr (zu_postal_codes c)) (\<lambda>codes.
     let c' = c\<lparr>zu_state_code := state, zu_postal_codes := codes,
           zu_service_ids := map_option (map_option first_occurrences) (zu_service_ids c)\<rparr>
     in bindE (validate_patch c') (\<lambda>_. Inr c')))"

section \<open>The steps the commands share\<close>

definition zone_audit :: "user \<Rightarrow> string \<Rightarrow> string \<Rightarrow> uuid \<Rightarrow> json_object \<Rightarrow> datetime \<Rightarrow> audit_log" where
  "zone_audit actor action resource_type i metadata now =
     \<lparr>al_actor_id = Some (pk actor), al_actor_type = ''admin'', al_action = action, al_resource_type = resource_type,
      al_resource_id = i, al_metadata_json = metadata, al_created_at = now\<rparr>"

definition meters_of :: "rat option \<Rightarrow> int option" where
  "meters_of miles = map_option (\<lambda>m. max 1 (round_half_even (m * (1609344 / 1000)))) miles"

definition validated_boundary ::
  "(json_object \<Rightarrow> (bool \<times> bool \<times> geometry) option) \<Rightarrow> json_object option \<Rightarrow> geometry option result"
where
  "validated_boundary st_geometry geojson =
     (case geojson of None \<Rightarrow> Inr None
      | Some g \<Rightarrow>
          if map_of g ''type'' \<notin> {Some (JStr ''Polygon''), Some (JStr ''MultiPolygon'')}
          then Inl (DomainError ''SERVICE_ZONE_BOUNDARY_INVALID'' 422)
          else case st_geometry g of
            None \<Rightarrow> Inl (DomainError ''SERVICE_ZONE_BOUNDARY_INVALID'' 422)
          | Some (valid, is_empty, shape) \<Rightarrow>
              if \<not> valid \<or> is_empty then Inl (DomainError ''SERVICE_ZONE_BOUNDARY_INVALID'' 422) else Inr (Some shape))"

definition validate_services :: "geography \<Rightarrow> uuid list \<Rightarrow> unit result" where
  "validate_services s service_ids =
     ensure (list_all (\<lambda>i. list_ex (\<lambda>v. pk v = i \<and> sv_is_active v) (services (gdb s))) service_ids)
       (DomainError ''SERVICE_NOT_FOUND'' 422)"

definition regular_enabled :: "(string \<Rightarrow> int) \<Rightarrow> geography \<Rightarrow> uuid \<Rightarrow> bool" where
  "regular_enabled collate s i =
     (if offerings_of s i False \<noteq> [] then list_ex szo_regular_service_enabled (offerings_of s i False)
      else if zone_postal_codes collate s i True \<noteq> []
      then list_ex apc_regular_service_enabled (zone_postal_codes collate s i True)
      else True)"

definition ensure_coverage_selector :: "(string \<Rightarrow> int) \<Rightarrow> geography \<Rightarrow> service_area \<Rightarrow> unit result" where
  "ensure_coverage_selector collate s a =
     ensure (zone_postal_codes collate s (pk a) True \<noteq> [] \<or> given (sa_city a) \<or> given (sa_state_code a)
         \<or> sa_boundary a \<noteq> None \<or> (sa_center a \<noteq> None \<and> sa_radius_meters a \<noteq> None))
       (DomainError ''SERVICE_ZONE_COVERAGE_REQUIRED'' 422)"

text \<open>A row of a zone; its city, state and priority are those of the zone.\<close>

definition area_row :: "datetime \<Rightarrow> uuid \<Rightarrow> service_area \<Rightarrow> bool \<Rightarrow> string \<Rightarrow> area_postal_code" where
  "area_row now i a regular code =
     \<lparr>pk = i, created_at = now, apc_service_area_id = pk a, apc_postal_code = code, apc_city = sa_city a,
      apc_state_code = sa_state_code a, apc_active = True, apc_regular_service_enabled = regular,
      apc_emergency_service_enabled = sa_emergency_enabled a, apc_priority = sa_priority a, apc_version = 1\<rparr>"

definition replaced_row :: "service_area \<Rightarrow> string list \<Rightarrow> bool \<Rightarrow> area_postal_code \<Rightarrow> area_postal_code" where
  "replaced_row a codes regular r =
     (if apc_service_area_id r \<noteq> pk a then r
      else if apc_postal_code r \<in> set codes
      then r\<lparr>apc_active := True, apc_city := sa_city a, apc_state_code := sa_state_code a,
             apc_regular_service_enabled := regular, apc_emergency_service_enabled := sa_emergency_enabled a,
             apc_priority := sa_priority a, apc_version := apc_version r + 1\<rparr>
      else r\<lparr>apc_active := False, apc_version := apc_version r + 1\<rparr>)"

definition replace_zone_postal_codes ::
  "datetime \<Rightarrow> (nat \<Rightarrow> uuid) \<Rightarrow> service_area \<Rightarrow> string list \<Rightarrow> bool \<Rightarrow> geography \<Rightarrow> geography"
where
  "replace_zone_postal_codes now new_id a codes regular s =
     (let fresh = filter (\<lambda>c. postal_by_zone_and_code s (pk a) c = None) (remdups codes) in
      s\<lparr>postal_rows := map (replaced_row a codes regular) (postal_rows s)
          @ map2 (\<lambda>n c. area_row now (new_id n) a regular c) [0..<length fresh] fresh\<rparr>)"

section \<open>Reading a zone\<close>

record zone_read =
  zr_zone :: service_area
  zr_postal_codes :: "string list"
  zr_service_ids :: "uuid list"
  zr_center :: "(rat \<times> rat) option"
  zr_radius_miles :: "rat option"
  zr_boundary_configured :: bool
  zr_regular_service_enabled :: bool

text \<open>The coordinates are read back as latitude and longitude, the radius in miles to three places.\<close>

definition zone_view :: "(string \<Rightarrow> int) \<Rightarrow> geography \<Rightarrow> service_area \<Rightarrow> zone_read" where
  "zone_view collate s a =
     (let os = offerings_of s (pk a) False in
      \<lparr>zr_zone = a, zr_postal_codes = map apc_postal_code (zone_postal_codes collate s (pk a) True),
       zr_service_ids = map szo_service_id os,
       zr_center = map_option (\<lambda>(lng, lat). (lat, lng)) (sa_center a),
       zr_radius_miles = map_option (\<lambda>m. of_int (round_half_even (of_int (m * 1000) / (1609344 / 1000))) / 1000)
         (sa_radius_meters a),
       zr_boundary_configured = (sa_boundary a \<noteq> None),
       zr_regular_service_enabled = (if os \<noteq> [] then list_ex szo_regular_service_enabled os else True)\<rparr>)"

definition get_zone :: "(string \<Rightarrow> int) \<Rightarrow> geography \<Rightarrow> uuid \<Rightarrow> zone_read result" where
  "get_zone collate s i =
     bindE (of_option (DomainError ''SERVICE_ZONE_NOT_FOUND'' 404) (get_area s i)) (\<lambda>a. Inr (zone_view collate s a))"

definition list_zones ::
  "(string \<Rightarrow> int) \<Rightarrow> geography \<Rightarrow> zone_filter \<Rightarrow> nat \<Rightarrow> nat \<Rightarrow> (zone_read list \<times> nat) result"
where
  "list_zones collate s f page page_size =
     bindE (list_zone_rows collate s f page page_size) (\<lambda>(rows, total). Inr (map (zone_view collate s) rows, total))"

definition coverage ::
  "(string \<Rightarrow> int) \<Rightarrow> geography \<Rightarrow> uuid \<Rightarrow> (zone_read \<times> area_postal_code list \<times> uuid list) result"
where
  "coverage collate s i =
     bindE (get_zone collate s i) (\<lambda>z.
     Inr (z, zone_postal_codes collate s i False, map szo_service_id (offerings_of s i False)))"

section \<open>Changing zones\<close>

definition created_zone :: "datetime \<Rightarrow> uuid \<Rightarrow> zone_create \<Rightarrow> geometry option \<Rightarrow> service_area" where
  "created_zone now i c shape =
     \<lparr>pk = i, created_at = now, sa_legal_entity_id = zc_legal_entity_id c, sa_name = strip (zc_name c),
      sa_country_code = Some (zc_country_code c), sa_state_code = zc_state_code c,
      sa_city = (if given (zc_city c) then map_option strip (zc_city c) else None), sa_postal_codes = [],
      sa_center = point_of (zc_center_latitude c) (zc_center_longitude c),
      sa_radius_meters = meters_of (zc_radius_miles c), sa_boundary = shape, sa_active = zc_active c,
      sa_priority = zc_priority c, sa_emergency_enabled = zc_emergency_enabled c, sa_version = 1\<rparr>"

definition create_zone_body ::
  "(string \<Rightarrow> int) \<Rightarrow> (json_object \<Rightarrow> (bool \<times> bool \<times> geometry) option) \<Rightarrow> (nat \<Rightarrow> datetime) \<Rightarrow> uuid \<Rightarrow> (nat \<Rightarrow> uuid)
   \<Rightarrow> (nat \<Rightarrow> uuid) \<Rightarrow> user \<Rightarrow> zone_create \<Rightarrow> string option \<Rightarrow> geography \<Rightarrow> (uuid \<times> geography) result"
where
  "create_zone_body collate st_geometry clk i offering_ids row_ids actor c correlation_id s =
     bindE (of_option (DomainError ''LEGAL_ENTITY_NOT_FOUND'' 404) (active_legal_entity s (zc_legal_entity_id c))) (\<lambda>_.
     bindE (validate_services s (zc_service_ids c)) (\<lambda>_.
     bindE (validated_boundary st_geometry (zc_boundary_geojson c)) (\<lambda>shape.
     let a = created_zone (clk 0) i c shape;
         s1 = with_gdb (\<lambda>b. b\<lparr>service_areas := service_areas b @ [a]\<rparr>) s;
         s2 = replace_offerings (clk 0) offering_ids i (zc_service_ids c) (zc_regular_service_enabled c)
                (zc_emergency_enabled c) s1;
         s3 = s2\<lparr>postal_rows := postal_rows s2 @ map2 (\<lambda>n code. area_row (clk 0) (row_ids n) a (zc_regular_service_enabled c) code)
                [0..<length (zc_postal_codes c)] (zc_postal_codes c)\<rparr>;
         s4 = sync_legacy_postal_codes collate i s3
     in Inr (i, with_gdb (add_audit (zone_audit actor ''service_zone.create'' ''service_area'' i
          [(''service_ids'', JList (map (\<lambda>x. JStr (str_uuid x)) (zc_service_ids c))),
           (''postal_code_count'', JInt (int (length (zc_postal_codes c)))), (''priority'', JInt (zc_priority c)),
           (''correlation_id'', optional_text correlation_id)] (clk 1))) s4))))"

definition create_zone ::
  "(string \<Rightarrow> int) \<Rightarrow> (json_object \<Rightarrow> (bool \<times> bool \<times> geometry) option) \<Rightarrow> (nat \<Rightarrow> datetime) \<Rightarrow> uuid \<Rightarrow> (nat \<Rightarrow> uuid)
   \<Rightarrow> (nat \<Rightarrow> uuid) \<Rightarrow> user \<Rightarrow> zone_create \<Rightarrow> string option \<Rightarrow> geography \<Rightarrow> (geography, zone_read) outcome"
where
  "create_zone collate st_geometry clk i offering_ids row_ids actor c correlation_id s =
     (case committed s (create_zone_body collate st_geometry clk i offering_ids row_ids actor c correlation_id s) of
        (Inl e, s') \<Rightarrow> (Inl e, s')
      | (Inr i, s') \<Rightarrow> (get_zone collate s' i, s'))"

text \<open>
  The new values of the zone.  A column that admits no \<^verbatim>\<open>NULL\<close> fails at the next flush, which is
  outside the handling of integrity errors, but after the check of the centre.
\<close>

definition required_value :: "string \<Rightarrow> 'a option option \<Rightarrow> 'a \<Rightarrow> 'a result" where
  "required_value tbl x old = of_option (IntegrityError tbl) (or_old x (Some old))"

definition changed_center :: "zone_update \<Rightarrow> service_area \<Rightarrow> point option" where
  "changed_center c a =
     (if zu_clear_center c = Some True then None
      else case (zu_center_latitude c, zu_center_longitude c) of
        (Some lat, Some lng) \<Rightarrow> point_of lat lng
      | _ \<Rightarrow> sa_center a)"

definition changed_radius :: "zone_update \<Rightarrow> service_area \<Rightarrow> int option result" where
  "changed_radius c a =
     (if zu_clear_radius c = Some True then Inr None
      else case zu_radius_miles c of
        Some miles \<Rightarrow>
          if miles \<noteq> None \<and> changed_center c a = None then Inl (DomainError ''SERVICE_ZONE_CENTER_REQUIRED'' 422)
          else Inr (meters_of miles)
      | None \<Rightarrow> Inr (if zu_clear_center c = Some True then None else sa_radius_meters a))"

definition changed_zone :: "zone_update \<Rightarrow> geometry option \<Rightarrow> service_area \<Rightarrow> service_area result" where
  "changed_zone c shape a =
     bindE (changed_radius c a) (\<lambda>radius.
     bindE (required_value ''service_areas'' (zu_name c) (sa_name a)) (\<lambda>nm.
     bindE (required_value ''service_areas'' (zu_priority c) (sa_priority a)) (\<lambda>priority.
     bindE (required_value ''service_areas'' (zu_emergency_enabled c) (sa_emergency_enabled a)) (\<lambda>emergency.
     bindE (required_value ''service_areas'' (zu_active c) (sa_active a)) (\<lambda>active.
     Inr (a\<lparr>sa_name := nm, sa_country_code := or_old (zu_country_code c) (sa_country_code a),
       sa_state_code := or_old (zu_state_code c) (sa_state_code a),
       sa_city := (case zu_city c of None \<Rightarrow> sa_city a | Some city \<Rightarrow> map_option strip city),
       sa_priority := priority, sa_emergency_enabled := emergency, sa_active := active,
       sa_center := changed_center c a, sa_radius_meters := radius,
       sa_boundary := (if zu_clear_boundary c = Some True then None
          else if zu_boundary_geojson c \<noteq> None then shape else sa_boundary a)\<rparr>))))))"

definition sent :: "'a option option \<Rightarrow> bool" where
  "sent x \<longleftrightarrow> (case x of Some (Some _) \<Rightarrow> True | _ \<Rightarrow> False)"

definition changed_offerings ::
  "datetime \<Rightarrow> (nat \<Rightarrow> uuid) \<Rightarrow> zone_update \<Rightarrow> bool \<Rightarrow> service_area \<Rightarrow> geography \<Rightarrow> geography result"
where
  "changed_offerings now new_id c regular a s =
     (case zu_service_ids c of
        Some (Some ids) \<Rightarrow>
          bindE (validate_services s ids) (\<lambda>_.
          Inr (replace_offerings now new_id (pk a) ids regular (sa_emergency_enabled a) s))
      | _ \<Rightarrow> Inr (with_gdb (\<lambda>b. b\<lparr>zone_offerings := update_where (\<lambda>x. szo_service_area_id x = pk a)
            (\<lambda>x. x\<lparr>szo_regular_service_enabled := (if sent (zu_regular_service_enabled c) then regular
                     else szo_regular_service_enabled x),
                   szo_emergency_service_enabled := (if sent (zu_emergency_enabled c) then sa_emergency_enabled a
                     else szo_emergency_service_enabled x)\<rparr>) (zone_offerings b)\<rparr>) s))"

definition changed_rows ::
  "datetime \<Rightarrow> (nat \<Rightarrow> uuid) \<Rightarrow> zone_update \<Rightarrow> bool \<Rightarrow> service_area \<Rightarrow> geography \<Rightarrow> geography"
where
  "changed_rows now new_id c regular a s =
     (case zu_postal_codes c of
        Some (Some codes) \<Rightarrow> replace_zone_postal_codes now new_id a codes regular s
      | _ \<Rightarrow>
          if sent (zu_regular_service_enabled c) \<or> sent (zu_emergency_enabled c) \<or> sent (zu_priority c)
          then s\<lparr>postal_rows := update_where (\<lambda>r. apc_service_area_id r = pk a)
            (\<lambda>r. r\<lparr>apc_regular_service_enabled := (if sent (zu_regular_service_enabled c) then regular
                     else apc_regular_service_enabled r),
                   apc_emergency_service_enabled := (if sent (zu_emergency_enabled c) then sa_emergency_enabled a
                     else apc_emergency_service_enabled r),
                   apc_priority := (if sent (zu_priority c) then sa_priority a else apc_priority r),
                   apc_version := apc_version r + 1\<rparr>) (postal_rows s)\<rparr>
          else s)"

definition update_zone_body ::
  "(string \<Rightarrow> int) \<Rightarrow> (json_object \<Rightarrow> (bool \<times> bool \<times> geometry) option) \<Rightarrow> (nat \<Rightarrow> datetime) \<Rightarrow> (nat \<Rightarrow> uuid)
   \<Rightarrow> (nat \<Rightarrow> uuid) \<Rightarrow> uuid \<Rightarrow> user \<Rightarrow> zone_update \<Rightarrow> int \<Rightarrow> string option \<Rightarrow> geography \<Rightarrow> (uuid \<times> geography) result"
where
  "update_zone_body collate st_geometry clk offering_ids row_ids i actor c expected_version correlation_id s =
     bindE (of_option (DomainError ''SERVICE_ZONE_NOT_FOUND'' 404) (get_area s i)) (\<lambda>a0.
     bindE (require_resource_version (sa_version a0) expected_version) (\<lambda>_.
     bindE (validated_boundary st_geometry (case zu_boundary_geojson c of Some g \<Rightarrow> g | None \<Rightarrow> None)) (\<lambda>shape.
     let regular = (case zu_regular_service_enabled c of Some (Some r) \<Rightarrow> r | _ \<Rightarrow> regular_enabled collate s i) in
     bindE (changed_zone c shape a0) (\<lambda>a.
     bindE (changed_offerings (clk 0) offering_ids c regular a s) (\<lambda>s1.
     let s2 = changed_rows (clk 0) row_ids c regular a s1 in
     bindE (ensure_coverage_selector collate s2 a) (\<lambda>_.
     let v = sa_version a + 1;
         s3 = sync_legacy_postal_codes collate i (modify_area i (\<lambda>_. a\<lparr>sa_version := v\<rparr>) s2)
     in Inr (i, with_gdb (add_audit (zone_audit actor ''service_zone.update'' ''service_area'' i
          [(''version'', JInt v), (''fields'', JList (map JStr (zone_fields_set c))),
           (''correlation_id'', optional_text correlation_id)] (clk 1))) s3)))))))"

definition update_zone ::
  "(string \<Rightarrow> int) \<Rightarrow> (json_object \<Rightarrow> (bool \<times> bool \<times> geometry) option) \<Rightarrow> (nat \<Rightarrow> datetime) \<Rightarrow> (nat \<Rightarrow> uuid)
   \<Rightarrow> (nat \<Rightarrow> uuid) \<Rightarrow> uuid \<Rightarrow> user \<Rightarrow> zone_update \<Rightarrow> int \<Rightarrow> string option \<Rightarrow> geography \<Rightarrow> (geography, zone_read) outcome"
where
  "update_zone collate st_geometry clk offering_ids row_ids i actor c expected_version correlation_id s =
     (case committed s (update_zone_body collate st_geometry clk offering_ids row_ids i actor c expected_version
             correlation_id s) of
        (Inl e, s') \<Rightarrow> (Inl e, s')
      | (Inr i, s') \<Rightarrow> (get_zone collate s' i, s'))"

definition deactivate_zone ::
  "datetime \<Rightarrow> uuid \<Rightarrow> user \<Rightarrow> int \<Rightarrow> string option \<Rightarrow> geography \<Rightarrow> (geography, unit) outcome"
where
  "deactivate_zone now i actor expected_version correlation_id s =
     committed s (
       bindE (of_option (DomainError ''SERVICE_ZONE_NOT_FOUND'' 404) (get_area s i)) (\<lambda>a.
       bindE (require_resource_version (sa_version a) expected_version) (\<lambda>_.
       let v = sa_version a + 1
       in Inr ((), with_gdb (add_audit (zone_audit actor ''service_zone.deactivate'' ''service_area'' i
            [(''version'', JInt v), (''correlation_id'', optional_text correlation_id)] now))
            (modify_area i (\<lambda>x. x\<lparr>sa_active := False, sa_version := v\<rparr>) s)))))"

section \<open>Postal codes\<close>

record postal_create =
  pcr_area_id :: uuid
  pcr_postal_code :: string
  pcr_city :: "string option"
  pcr_state_code :: "string option"
  pcr_active :: bool
  pcr_regular_service_enabled :: bool
  pcr_emergency_service_enabled :: bool
  pcr_priority :: int

definition validated_postal_create :: "postal_create \<Rightarrow> postal_create result" where
  "validated_postal_create c =
     bindE (normalize_postal_code (pcr_postal_code c)) (\<lambda>code.
     bindE (normalize_state_code (pcr_state_code c)) (\<lambda>state.
     Inr (c\<lparr>pcr_postal_code := code, pcr_state_code := state\<rparr>)))"

record postal_filter =
  pfl_service_area_id :: "uuid option"
  pfl_postal_code :: "string option"
  pfl_state_code :: "string option"
  pfl_active :: "bool option"

definition list_postal_codes ::
  "(string \<Rightarrow> int) \<Rightarrow> geography \<Rightarrow> postal_filter \<Rightarrow> nat \<Rightarrow> nat \<Rightarrow> (area_postal_code list \<times> nat) result"
where
  "list_postal_codes collate s f page page_size =
     bindE (if given (pfl_postal_code f)
            then bindE (normalize_postal_code (the (pfl_postal_code f))) (\<lambda>n. Inr (Some n)) else Inr None) (\<lambda>code.
     let rows = filter (\<lambda>r. (pfl_service_area_id f = None \<or> pfl_service_area_id f = Some (apc_service_area_id r))
           \<and> (code = None \<or> code = Some (apc_postal_code r))
           \<and> (given (pfl_state_code f) \<longrightarrow> apc_state_code r = pfl_state_code f)
           \<and> (pfl_active f = None \<or> pfl_active f = Some (apc_active r))) (postal_rows s)
     in Inr (take page_size (drop ((page - 1) * page_size)
          (sort_key (\<lambda>r. - apc_priority r) (sort_key (\<lambda>r. collate (apc_postal_code r)) (sort_key pk rows)))), length rows))"

definition created_row :: "datetime \<Rightarrow> uuid \<Rightarrow> service_area \<Rightarrow> postal_create \<Rightarrow> area_postal_code" where
  "created_row now i a c =
     \<lparr>pk = i, created_at = now, apc_service_area_id = pk a, apc_postal_code = pcr_postal_code c,
      apc_city = (if given (pcr_city c) then pcr_city c else sa_city a),
      apc_state_code = (if given (pcr_state_code c) then pcr_state_code c else sa_state_code a),
      apc_active = pcr_active c, apc_regular_service_enabled = pcr_regular_service_enabled c,
      apc_emergency_service_enabled = pcr_emergency_service_enabled c, apc_priority = pcr_priority c, apc_version = 1\<rparr>"

definition next_zone_version :: "uuid \<Rightarrow> geography \<Rightarrow> geography" where
  "next_zone_version i = modify_area i (\<lambda>a. a\<lparr>sa_version := sa_version a + 1\<rparr>)"

definition create_postal_code ::
  "(string \<Rightarrow> int) \<Rightarrow> (nat \<Rightarrow> datetime) \<Rightarrow> uuid \<Rightarrow> user \<Rightarrow> postal_create \<Rightarrow> string option \<Rightarrow> geography
   \<Rightarrow> (geography, area_postal_code) outcome"
where
  "create_postal_code collate clk i actor c correlation_id s =
     committed s (
       bindE (of_option (DomainError ''SERVICE_ZONE_NOT_FOUND'' 404) (get_area s (pcr_area_id c))) (\<lambda>a.
       bindE (ensure (postal_by_zone_and_code s (pk a) (pcr_postal_code c) = None)
         (DomainError ''POSTAL_CODE_CONFLICT'' 409)) (\<lambda>_.
       let r = created_row (clk 0) i a c;
           s1 = sync_legacy_postal_codes collate (pk a) (next_zone_version (pk a) (s\<lparr>postal_rows := postal_rows s @ [r]\<rparr>))
       in Inr (r, with_gdb (add_audit (zone_audit actor ''postal_code.create'' ''service_zone_postal_code'' i
            [(''service_area_id'', JStr (str_uuid (pk a))), (''postal_code'', JStr (apc_postal_code r)),
             (''correlation_id'', optional_text correlation_id)] (clk 1))) s1))))"

record postal_update =
  pup_city :: "string option option"
  pup_state_code :: "string option option"
  pup_active :: "bool option option"
  pup_regular_service_enabled :: "bool option option"
  pup_emergency_service_enabled :: "bool option option"
  pup_priority :: "int option option"

definition validated_postal_update :: "postal_update \<Rightarrow> postal_update result" where
  "validated_postal_update c =
     bindE (case pup_state_code c of None \<Rightarrow> Inr None
            | Some v \<Rightarrow> bindE (normalize_state_code v) (\<lambda>t. Inr (Some t))) (\<lambda>state.
     bindE (ensure (pup_city c \<noteq> None \<or> state \<noteq> None \<or> pup_active c \<noteq> None \<or> pup_regular_service_enabled c \<noteq> None
         \<or> pup_emergency_service_enabled c \<noteq> None \<or> pup_priority c \<noteq> None)
       (ValueError ''at least one postal-code field is required'')) (\<lambda>_.
     Inr (c\<lparr>pup_state_code := state\<rparr>)))"

definition changed_row :: "postal_update \<Rightarrow> area_postal_code \<Rightarrow> area_postal_code result" where
  "changed_row c r =
     bindE (required_value ''service_area_postal_codes'' (pup_active c) (apc_active r)) (\<lambda>active.
     bindE (required_value ''service_area_postal_codes'' (pup_regular_service_enabled c) (apc_regular_service_enabled r)) (\<lambda>regular.
     bindE (required_value ''service_area_postal_codes'' (pup_emergency_service_enabled c)
       (apc_emergency_service_enabled r)) (\<lambda>emergency.
     bindE (required_value ''service_area_postal_codes'' (pup_priority c) (apc_priority r)) (\<lambda>priority.
     Inr (r\<lparr>apc_city := or_old (pup_city c) (apc_city r), apc_state_code := or_old (pup_state_code c) (apc_state_code r),
       apc_active := active, apc_regular_service_enabled := regular, apc_emergency_service_enabled := emergency,
       apc_priority := priority, apc_version := apc_version r + 1\<rparr>)))))"

abbreviation put_row :: "area_postal_code \<Rightarrow> geography \<Rightarrow> geography" where
  "put_row r s \<equiv> s\<lparr>postal_rows := update_row pk (pk r) (\<lambda>_. r) (postal_rows s)\<rparr>"

definition update_postal_code ::
  "(string \<Rightarrow> int) \<Rightarrow> datetime \<Rightarrow> uuid \<Rightarrow> user \<Rightarrow> postal_update \<Rightarrow> int \<Rightarrow> string option \<Rightarrow> geography
   \<Rightarrow> (geography, area_postal_code) outcome"
where
  "update_postal_code collate now i actor c expected_version correlation_id s =
     committed s (
       bindE (of_option (DomainError ''POSTAL_CODE_NOT_FOUND'' 404) (lookup_row pk i (postal_rows s))) (\<lambda>r0.
       bindE (require_resource_version (apc_version r0) expected_version) (\<lambda>_.
       bindE (changed_row c r0) (\<lambda>r.
       let v = apc_service_area_id r;
           s1 = sync_legacy_postal_codes collate v (next_zone_version v (put_row r s))
       in Inr (r, with_gdb (add_audit (zone_audit actor ''postal_code.update'' ''service_zone_postal_code'' (pk r)
            [(''service_area_id'', JStr (str_uuid v)), (''postal_code'', JStr (apc_postal_code r)),
             (''version'', JInt (apc_version r)), (''correlation_id'', optional_text correlation_id)] now)) s1)))))"

definition deactivate_postal_code ::
  "(string \<Rightarrow> int) \<Rightarrow> datetime \<Rightarrow> uuid \<Rightarrow> user \<Rightarrow> int \<Rightarrow> string option \<Rightarrow> geography \<Rightarrow> (geography, unit) outcome"
where
  "deactivate_postal_code collate now i actor expected_version correlation_id s =
     committed s (
       bindE (of_option (DomainError ''POSTAL_CODE_NOT_FOUND'' 404) (lookup_row pk i (postal_rows s))) (\<lambda>r0.
       bindE (require_resource_version (apc_version r0) expected_version) (\<lambda>_.
       let r = r0\<lparr>apc_active := False, apc_version := apc_version r0 + 1\<rparr>; v = apc_service_area_id r;
           s1 = sync_legacy_postal_codes collate v (next_zone_version v (put_row r s))
       in Inr ((), with_gdb (add_audit (zone_audit actor ''postal_code.deactivate'' ''service_zone_postal_code'' (pk r)
            [(''service_area_id'', JStr (str_uuid v)), (''postal_code'', JStr (apc_postal_code r)),
             (''correlation_id'', optional_text correlation_id)] now)) s1))))"

section \<open>Imports\<close>

record import_row =
  ir_postal_code :: string
  ir_city :: "string option"
  ir_state_code :: "string option"
  ir_active :: bool
  ir_regular_service_enabled :: bool
  ir_emergency_service_enabled :: bool
  ir_priority :: int

record import_request =
  iq_service_area_id :: uuid
  iq_rows :: "import_row list"

definition validated_import_row :: "import_row \<Rightarrow> import_row result" where
  "validated_import_row x =
     bindE (normalize_postal_code (ir_postal_code x)) (\<lambda>code.
     bindE (normalize_state_code (ir_state_code x)) (\<lambda>state.
     Inr (x\<lparr>ir_postal_code := code, ir_state_code := state\<rparr>)))"

definition validated_import :: "import_request \<Rightarrow> import_request result" where
  "validated_import c =
     bindE (read_all validated_import_row (iq_rows c)) (\<lambda>rows.
     bindE (ensure (distinct (map ir_postal_code rows)) (ValueError ''postal-code import contains duplicate rows'')) (\<lambda>_.
     Inr (c\<lparr>iq_rows := rows\<rparr>)))"

definition imported_over :: "import_row \<Rightarrow> area_postal_code \<Rightarrow> area_postal_code" where
  "imported_over x r =
     r\<lparr>apc_city := ir_city x, apc_state_code := ir_state_code x, apc_active := ir_active x,
       apc_regular_service_enabled := ir_regular_service_enabled x,
       apc_emergency_service_enabled := ir_emergency_service_enabled x, apc_priority := ir_priority x,
       apc_version := apc_version r + 1\<rparr>"

definition imported_row :: "datetime \<Rightarrow> uuid \<Rightarrow> uuid \<Rightarrow> import_row \<Rightarrow> area_postal_code" where
  "imported_row now i area x =
     \<lparr>pk = i, created_at = now, apc_service_area_id = area, apc_postal_code = ir_postal_code x, apc_city = ir_city x,
      apc_state_code = ir_state_code x, apc_active = ir_active x,
      apc_regular_service_enabled = ir_regular_service_enabled x,
      apc_emergency_service_enabled = ir_emergency_service_enabled x, apc_priority = ir_priority x, apc_version = 1\<rparr>"

text \<open>The loop over the rows of an import; \<open>existing\<close> are the rows of the zone that the import names.\<close>

fun import_rows ::
  "datetime \<Rightarrow> (nat \<Rightarrow> uuid) \<Rightarrow> uuid \<Rightarrow> area_postal_code list \<Rightarrow> import_row list \<Rightarrow> area_postal_code list
   \<Rightarrow> area_postal_code list"
where
  "import_rows now ids area existing [] rows = rows"
| "import_rows now ids area existing (x # xs) rows =
     import_rows now (\<lambda>n. ids (Suc n)) area existing xs
       (case find (\<lambda>r. apc_postal_code r = ir_postal_code x) existing of
          Some r \<Rightarrow> update_row pk (pk r) (imported_over x) rows
        | None \<Rightarrow> rows @ [imported_row now (ids 0) area x])"

definition import_by_key :: "geography \<Rightarrow> string \<Rightarrow> postal_code_import option" where
  "import_by_key s key = find (\<lambda>p. pim_idempotency_key p = key) (postal_imports s)"

definition import_record ::
  "(nat \<Rightarrow> datetime) \<Rightarrow> uuid \<Rightarrow> user \<Rightarrow> import_request \<Rightarrow> string \<Rightarrow> string \<Rightarrow> postal_code_import"
where
  "import_record clk i actor c key h =
     \<lparr>pk = i, created_at = clk 0, pim_service_area_id = iq_service_area_id c, pim_requested_by = pk actor,
      pim_idempotency_key = key, pim_request_hash = h, pim_status = PI_COMPLETED,
      pim_total_rows = int (length (iq_rows c)), pim_imported_rows = int (length (iq_rows c)), pim_rejected_rows = 0,
      pim_errors = [], pim_completed_at = Some (clk 1)\<rparr>"

text \<open>
  \<open>request_hash\<close> is the SHA-256 of the request as canonical JSON.  One import of a key runs at a time,
  under an advisory lock.
\<close>

definition import_postal_codes ::
  "(string \<Rightarrow> int) \<Rightarrow> (import_request \<Rightarrow> string) \<Rightarrow> (nat \<Rightarrow> datetime) \<Rightarrow> uuid \<Rightarrow> (nat \<Rightarrow> uuid) \<Rightarrow> user \<Rightarrow> import_request
   \<Rightarrow> string \<Rightarrow> string option \<Rightarrow> geography \<Rightarrow> (geography, postal_code_import) outcome"
where
  "import_postal_codes collate request_hash clk i row_ids actor c key correlation_id s =
     (case import_by_key s key of
        Some p \<Rightarrow>
          if pim_request_hash p \<noteq> request_hash c then (Inl (DomainError ''IDEMPOTENCY_CONFLICT'' 409), s) else (Inr p, s)
      | None \<Rightarrow> committed s (
          bindE (of_option (DomainError ''SERVICE_ZONE_NOT_FOUND'' 404) (get_area s (iq_service_area_id c))) (\<lambda>a.
          let p = import_record clk i actor c key (request_hash c);
              existing = filter (\<lambda>r. apc_service_area_id r = pk a
                \<and> apc_postal_code r \<in> ir_postal_code ` set (iq_rows c)) (postal_rows s);
              s1 = s\<lparr>postal_imports := postal_imports s @ [p],
                    postal_rows := import_rows (clk 0) row_ids (pk a) existing (iq_rows c) (postal_rows s)\<rparr>;
              s2 = sync_legacy_postal_codes collate (pk a) (next_zone_version (pk a) s1)
          in Inr (p, with_gdb (add_audit (zone_audit actor ''postal_code.import'' ''postal_code_import'' i
               [(''service_area_id'', JStr (str_uuid (pk a))), (''total_rows'', JInt (pim_total_rows p)),
                (''imported_rows'', JInt (pim_imported_rows p)),
                (''correlation_id'', optional_text correlation_id)] (clk 2))) s2))))"

definition get_postal_import :: "geography \<Rightarrow> uuid \<Rightarrow> postal_code_import result" where
  "get_postal_import s i = of_option (DomainError ''POSTAL_IMPORT_NOT_FOUND'' 404) (lookup_row pk i (postal_imports s))"

section \<open>The public queries\<close>

record address_request =
  aq_address_line_1 :: string
  aq_address_line_2 :: "string option"
  aq_city :: string
  aq_state :: string
  aq_postal_code :: string
  aq_country :: string

record resolved_address = geocoded_address +
  gr_line2 :: "string option"
  gr_county :: "string option"
  gr_provider_reference :: "string option"
  gr_confidence :: "rat option"

definition address_text :: "address_request \<Rightarrow> string" where
  "address_text c = join_comma (filter (\<lambda>t. t \<noteq> []) (map strip
     [aq_address_line_1 c, case aq_address_line_2 c of None \<Rightarrow> [] | Some t \<Rightarrow> t, aq_city c, aq_state c,
      aq_postal_code c, aq_country c]))"

definition complete_evidence :: "resolved_address \<Rightarrow> bool" where
  "complete_evidence g \<longleftrightarrow> ga_country_code g = ''US'' \<and> ga_line1 g \<noteq> [] \<and> ga_city g \<noteq> [] \<and> given (ga_state_code g)
     \<and> ga_postal_code g \<noteq> [] \<and> given (ga_timezone_name g)"

definition validate_input_match :: "address_request \<Rightarrow> resolved_address \<Rightarrow> unit result" where
  "validate_input_match c g =
     bindE (base_postal_code (ga_postal_code g)) (\<lambda>resolved.
     bindE (base_postal_code (aq_postal_code c)) (\<lambda>asked.
     ensure (lower (strip (ga_city g)) = lower (strip (aq_city c))
         \<and> map_option (\<lambda>t. upper (strip t)) (ga_state_code g) = Some (aq_state c) \<and> resolved = asked)
       (DomainError ''ADDRESS_INPUT_MISMATCH'' 422)))"

definition iana_timezone :: "(string \<Rightarrow> zone option) \<Rightarrow> string \<Rightarrow> string result" where
  "iana_timezone tzdb value =
     bindE (ensure (tzdb (strip value) \<noteq> None) (DomainError ''TIMEZONE_INVALID'' 422)) (\<lambda>_. Inr (strip value))"

record zone_summary =
  zs_id :: uuid
  zs_name :: string
  zs_emergency_enabled :: bool

definition zone_summary_of :: "service_area \<Rightarrow> zone_summary" where
  "zone_summary_of a = \<lparr>zs_id = pk a, zs_name = sa_name a, zs_emergency_enabled = sa_emergency_enabled a\<rparr>"

record address_result =
  vr_address :: address
  vr_coordinates :: "rat \<times> rat"
  vr_covered :: bool
  vr_service_zone :: "zone_summary option"

definition place_of :: "resolved_address \<Rightarrow> place" where
  "place_of g = \<lparr>pl_point = (ga_longitude g, ga_latitude g), pl_country_code = ga_country_code g,
     pl_state = ga_state_code g, pl_city = Some (ga_city g)\<rparr>"

definition validated_row ::
  "datetime \<Rightarrow> uuid \<Rightarrow> address_request \<Rightarrow> resolved_address \<Rightarrow> string \<Rightarrow> service_area option \<Rightarrow> address"
where
  "validated_row now i c g tz z =
     \<lparr>pk = i, created_at = now, ad_formatted_address = ga_formatted_address g, ad_label = ''Home'',
      ad_line1 = ga_line1 g, ad_line2 = (if given (gr_line2 g) then gr_line2 g else aq_address_line_2 c),
      ad_city = ga_city g, ad_county = gr_county g, ad_state_code = ga_state_code g,
      ad_postal_code = ga_postal_code g, ad_postal_code_plus4 = ga_postal_code_plus4 g,
      ad_country_code = ga_country_code g, ad_location = (ga_longitude g, ga_latitude g),
      ad_service_area_id = map_option pk z, ad_geocoding_provider = ga_provider g, ad_timezone_name = tz,
      ad_timezone_source = ''geocoding'', ad_address_validation_status = ''VALIDATED'', ad_validation_status = ''VALID'',
      ad_provider_reference = gr_provider_reference g,
      ad_validation_confidence = map_option (\<lambda>x. of_int (round_half_even (x * 10000)) / 10000) (gr_confidence g),
      ad_service_zone_id = None, ad_customer_id = None, ad_is_default = False\<rparr>"

definition validate_service_address ::
  "(string \<Rightarrow> int) \<Rightarrow> (geometry \<Rightarrow> point \<Rightarrow> bool) \<Rightarrow> (point \<Rightarrow> point \<Rightarrow> int \<Rightarrow> bool) \<Rightarrow> (string \<Rightarrow> zone option)
   \<Rightarrow> (string \<Rightarrow> resolved_address result) \<Rightarrow> (nat \<Rightarrow> datetime) \<Rightarrow> uuid \<Rightarrow> address_request \<Rightarrow> string option \<Rightarrow> geography
   \<Rightarrow> (geography, address_result) outcome"
where
  "validate_service_address collate st_covers st_dwithin tzdb geocode clk i c correlation_id s =
     committed s (
       bindE (geocode (address_text c)) (\<lambda>g.
       bindE (ensure (complete_evidence g) (DomainError ''ADDRESS_VALIDATION_INCOMPLETE'' 422)) (\<lambda>_.
       bindE (validate_input_match c g) (\<lambda>_.
       bindE (iana_timezone tzdb (the (ga_timezone_name g))) (\<lambda>tz.
       bindE (match_zone collate st_covers st_dwithin s (place_of g) (ga_postal_code g) None) (\<lambda>found.
       let z = map_option fst found; a = validated_row (clk 0) i c g tz z
       in Inr (\<lparr>vr_address = a, vr_coordinates = (ga_latitude g, ga_longitude g), vr_covered = (z \<noteq> None),
                vr_service_zone = map_option zone_summary_of z\<rparr>,
            with_gdb (\<lambda>b. add_audit \<lparr>al_actor_id = None, al_actor_type = ''anonymous_session'',
                al_action = ''address.validate'', al_resource_type = ''address'', al_resource_id = i,
                al_metadata_json = [(''country_code'', JStr (ad_country_code a)), (''state_code'', optional_text (ad_state_code a)),
                  (''postal_code'', JStr (ad_postal_code a)),
                  (''service_area_id'', optional_text (map_option (\<lambda>x. str_uuid (pk x)) z)),
                  (''provider'', JStr (ad_geocoding_provider a)), (''correlation_id'', optional_text correlation_id)],
                al_created_at = clk 1\<rparr> (b\<lparr>addresses := addresses b @ [a]\<rparr>)) s)))))))"

definition check_service_area ::
  "(string \<Rightarrow> int) \<Rightarrow> (geometry \<Rightarrow> point \<Rightarrow> bool) \<Rightarrow> (point \<Rightarrow> point \<Rightarrow> int \<Rightarrow> bool) \<Rightarrow> geography \<Rightarrow> place \<Rightarrow> string
   \<Rightarrow> uuid \<Rightarrow> (bool \<times> zone_summary option) result"
where
  "check_service_area collate st_covers st_dwithin s p postal_code service_id =
     bindE (ensure (list_ex (\<lambda>v. pk v = service_id \<and> sv_is_active v) (services (gdb s)))
       (DomainError ''SERVICE_NOT_FOUND'' 404)) (\<lambda>_.
     bindE (match_zone collate st_covers st_dwithin s p postal_code (Some service_id)) (\<lambda>found.
     Inr (found \<noteq> None, map_option (\<lambda>(a, _). zone_summary_of a) found)))"

text \<open>The name must also look like one of the IANA database, an area and a location; \<^verbatim>\<open>EST\<close> does not.\<close>

fun split_slash :: "string \<Rightarrow> string list" where
  "split_slash [] = [[]]"
| "split_slash (c # cs) = (case split_slash cs of [] \<Rightarrow> [[c]] | p # ps \<Rightarrow> if c = CHR ''/'' then [] # p # ps else (c # p) # ps)"

definition iana_name :: "string \<Rightarrow> bool" where
  "iana_name t \<longleftrightarrow> t = ''UTC''
     \<or> (case split_slash t of
          area # locations \<Rightarrow> locations \<noteq> []
            \<and> area \<noteq> [] \<and> list_all (\<lambda>c. is_ascii_upper c \<or> is_ascii_lower c \<or> c \<in> set ''_+-'') area
            \<and> list_all (\<lambda>l. l \<noteq> [] \<and> list_all (\<lambda>c. is_ascii_upper c \<or> is_ascii_lower c \<or> is_digit c
                  \<or> c \<in> set ''_+.-'') l) locations
        | [] \<Rightarrow> False)"

definition resolve_timezone :: "(string \<Rightarrow> zone option) \<Rightarrow> (rat \<Rightarrow> rat \<Rightarrow> string result) \<Rightarrow> rat \<Rightarrow> rat \<Rightarrow> string result" where
  "resolve_timezone tzdb timezone_at latitude longitude =
     bindE (timezone_at latitude longitude) (\<lambda>t.
     bindE (iana_timezone tzdb t) (\<lambda>tz.
     bindE (ensure (iana_name tz) (ValueError ''timezone must be an IANA timezone identifier'')) (\<lambda>_. Inr tz)))"

end
