(* ===== verification/Zones.thy ===== *)
theory Zones
  imports Zone_Administration
begin

text \<open>
  What the array of ZIP codes of a zone holds, whatever the administrator's commands and their order: the
  booking code reads that array, the commands write the normalised rows.
\<close>

section \<open>The array and the rows\<close>

definition rows_of :: "geography \<Rightarrow> uuid \<Rightarrow> area_postal_code list" where
  "rows_of s i = filter (\<lambda>r. apc_service_area_id r = i) (postal_rows s)"

lemma zone_postal_codes_rows:
  "zone_postal_codes collate s i active = sort_key (\<lambda>r. - apc_priority r) (sort_key (\<lambda>r. collate (apc_postal_code r))
     (filter (\<lambda>r. active \<longrightarrow> apc_active r) (rows_of s i)))"
  by (simp add: zone_postal_codes_def rows_of_def conj_commute)

lemma legacy_codes_cong: "rows_of s' i = rows_of s i \<Longrightarrow> legacy_codes collate s' i = legacy_codes collate s i"
  by (simp add: legacy_codes_def zone_postal_codes_rows)

lemma set_legacy_codes:
  "set (legacy_codes collate s i) = {zip_base (apc_postal_code r) | r. r \<in> set (postal_rows s)
     \<and> apc_service_area_id r = i \<and> apc_active r \<and> apc_regular_service_enabled r}"
  by (auto simp: legacy_codes_def zone_postal_codes_def)

lemma distinct_legacy_codes: "distinct (legacy_codes collate s i)"
  by (simp add: legacy_codes_def first_occurrences_def)

text \<open>Every zone carries the codes of its rows; a row belongs to a zone.\<close>

definition zones_synced :: "(string \<Rightarrow> int) \<Rightarrow> geography \<Rightarrow> bool" where
  "zones_synced collate s \<longleftrightarrow> distinct (map pk (service_areas (gdb s))) \<and> distinct (map pk (postal_rows s))
     \<and> apc_service_area_id ` set (postal_rows s) \<subseteq> pk ` set (service_areas (gdb s))
     \<and> (\<forall>a \<in> set (service_areas (gdb s)). sa_postal_codes a = legacy_codes collate s (pk a))"

lemma zones_syncedD:
  assumes "zones_synced collate s"
  shows "distinct (map pk (service_areas (gdb s)))" "distinct (map pk (postal_rows s))"
    "\<And>r. r \<in> set (postal_rows s) \<Longrightarrow> apc_service_area_id r \<in> pk ` set (service_areas (gdb s))"
    "\<And>a. a \<in> set (service_areas (gdb s)) \<Longrightarrow> sa_postal_codes a = legacy_codes collate s (pk a)"
  using assms unfolding zones_synced_def by blast+

lemma zones_synced_same:
  assumes "zones_synced collate s" and rows: "postal_rows s' = postal_rows s"
    and keys: "map pk (service_areas (gdb s')) = map pk (service_areas (gdb s))"
    and codes: "map sa_postal_codes (service_areas (gdb s')) = map sa_postal_codes (service_areas (gdb s))"
  shows "zones_synced collate s'"
proof -
  have legacy: "legacy_codes collate s' i = legacy_codes collate s i" for i
    using rows by (intro legacy_codes_cong) (simp add: rows_of_def)
  have "list_all2 (\<lambda>a b. pk a = pk b \<and> sa_postal_codes a = sa_postal_codes b)
      (service_areas (gdb s')) (service_areas (gdb s))"
    using keys codes by (simp add: list_all2_conv_all_nth list_eq_iff_nth_eq)
  then have "\<exists>a \<in> set (service_areas (gdb s)). pk b = pk a \<and> sa_postal_codes b = sa_postal_codes a"
    if "b \<in> set (service_areas (gdb s'))" for b
    using that by (auto simp: list_all2_conv_all_nth in_set_conv_nth intro!: bexI [OF _ nth_mem])
  then have "sa_postal_codes b = legacy_codes collate s' (pk b)" if "b \<in> set (service_areas (gdb s'))" for b
    using that zones_syncedD(4) [OF assms(1)] legacy by metis
  moreover have "pk ` set (service_areas (gdb s')) = pk ` set (service_areas (gdb s))"
    using keys by (metis set_map)
  ultimately show ?thesis using zones_syncedD(1-3) [OF assms(1)] unfolding zones_synced_def rows keys by auto
qed

text \<open>A command that wrote the rows of one zone, and then brought its array up to date.\<close>

lemma zones_synced_sync:
  assumes ok: "zones_synced collate s"
    and others: "\<And>j. j \<noteq> i \<Longrightarrow> rows_of s1 j = rows_of s j"
    and areas: "distinct (map pk (service_areas (gdb s1)))"
      "\<And>a'. a' \<in> set (service_areas (gdb s1)) \<Longrightarrow> pk a' \<noteq> i \<Longrightarrow> a' \<in> set (service_areas (gdb s))"
    and rows: "distinct (map pk (postal_rows s1))"
      "\<And>r. r \<in> set (postal_rows s1) \<Longrightarrow> apc_service_area_id r \<in> pk ` set (service_areas (gdb s1))"
  shows "zones_synced collate (sync_legacy_postal_codes collate i s1)"
proof -
  let ?s = "sync_legacy_postal_codes collate i s1"
  have keys: "map pk (service_areas (gdb ?s)) = map pk (service_areas (gdb s1))"
    by (simp add: sync_legacy_postal_codes_def map_key_update_row)
  have prows: "postal_rows ?s = postal_rows s1" by (simp add: sync_legacy_postal_codes_def)
  have legacy: "legacy_codes collate ?s j = legacy_codes collate s1 j" for j
    using prows by (intro legacy_codes_cong) (simp add: rows_of_def)
  have "sa_postal_codes b = legacy_codes collate ?s (pk b)" if "b \<in> set (service_areas (gdb ?s))" for b
  proof -
    from that obtain a where a: "a \<in> set (service_areas (gdb s1))"
      and b: "b = (if pk a = i then a\<lparr>sa_postal_codes := legacy_codes collate s1 i\<rparr> else a)"
      by (auto simp: sync_legacy_postal_codes_def set_update_row)
    show ?thesis
    proof (cases "pk a = i")
      case True
      with b legacy show ?thesis by simp
    next
      case False
      with a areas(2) have "a \<in> set (service_areas (gdb s))" by blast
      then have "sa_postal_codes a = legacy_codes collate s (pk a)" by (rule zones_syncedD(4) [OF ok])
      also have "\<dots> = legacy_codes collate s1 (pk a)" using others [OF False] by (intro legacy_codes_cong) simp
      finally show ?thesis using False b legacy by simp
    qed
  qed
  moreover have "pk ` set (service_areas (gdb ?s)) = pk ` set (service_areas (gdb s1))"
    using keys by (metis set_map)
  ultimately show ?thesis using areas(1) rows unfolding zones_synced_def prows keys by auto
qed

lemma zones_synced_audit: "zones_synced collate (with_gdb (add_audit a) s) = zones_synced collate s"
  by (simp add: zones_synced_def legacy_codes_def zone_postal_codes_def)

section \<open>The commands as steps\<close>

definition new_keys :: "(nat \<Rightarrow> uuid) \<Rightarrow> geography \<Rightarrow> bool" where
  "new_keys ids s \<longleftrightarrow> inj ids \<and> range ids \<inter> pk ` set (postal_rows s) = {}"

inductive zone_step :: "(string \<Rightarrow> int) \<Rightarrow> geography \<Rightarrow> geography \<Rightarrow> bool" for collate where
  zs_create: "create_zone collate st_geometry clk i offering_ids row_ids actor c cid s = (r1, s') \<Longrightarrow>
     i \<notin> pk ` set (service_areas (gdb s)) \<Longrightarrow> new_keys row_ids s \<Longrightarrow> zone_step collate s s'"
| zs_update: "update_zone collate st_geometry clk offering_ids row_ids i actor u version cid s = (r2, s') \<Longrightarrow>
     new_keys row_ids s \<Longrightarrow> zone_step collate s s'"
| zs_deactivate: "deactivate_zone now i actor version cid s = (r3, s') \<Longrightarrow> zone_step collate s s'"
| zs_add_code: "create_postal_code collate clk i actor p cid s = (r4, s') \<Longrightarrow> i \<notin> pk ` set (postal_rows s) \<Longrightarrow>
     zone_step collate s s'"
| zs_change_code: "update_postal_code collate now i actor pu version cid s = (r5, s') \<Longrightarrow> zone_step collate s s'"
| zs_remove_code: "deactivate_postal_code collate now i actor version cid s = (r6, s') \<Longrightarrow> zone_step collate s s'"
| zs_import: "import_postal_codes collate request_hash clk i row_ids actor q key cid s = (r7, s') \<Longrightarrow>
     new_keys row_ids s \<Longrightarrow> zone_step collate s s'"
| zs_validate: "validate_service_address collate st_covers st_dwithin tzdb geocode clk i a cid s = (r8, s') \<Longrightarrow>
     zone_step collate s s'"
| zs_other: "service_areas b = service_areas (gdb s) \<Longrightarrow> zone_step collate s (s\<lparr>gdb := b\<rparr>)"

lemma modify_area_keys: "(\<And>a. pk (f a) = pk a) \<Longrightarrow>
   map pk (service_areas (gdb (modify_area i f s))) = map pk (service_areas (gdb s))"
  by (simp add: map_key_update_row)

lemma rows_of_put:
  assumes "distinct (map pk (postal_rows s))" and "r0 \<in> set (postal_rows s)" and "pk r = pk r0"
    and "apc_service_area_id r = apc_service_area_id r0" and "j \<noteq> apc_service_area_id r"
  shows "rows_of (put_row r s) j = rows_of s j"
proof -
  have "\<not> apc_service_area_id x = j" if "x \<in> set (postal_rows s)" "pk x = pk r" for x
  proof -
    from assms(1-3) that have "x = r0" by (auto simp: distinct_map dest: inj_onD)
    with assms(4,5) show ?thesis by simp
  qed
  then show ?thesis unfolding rows_of_def using assms(5) by (simp add: filter_update_row_other)
qed

text \<open>One row of a zone is rewritten.\<close>

lemma put_row_synced:
  assumes ok: "zones_synced collate s" and r0: "lookup_row pk i (postal_rows s) = Some r0"
    and r: "pk r = pk r0" "apc_service_area_id r = apc_service_area_id r0"
  shows "zones_synced collate (sync_legacy_postal_codes collate (apc_service_area_id r)
     (next_zone_version (apc_service_area_id r) (put_row r s)))"
proof -
  note s = zones_syncedD [OF ok]
  have mem: "r0 \<in> set (postal_rows s)" using r0 by (rule lookup_row_mem)
  let ?s1 = "next_zone_version (apc_service_area_id r) (put_row r s)"
  have keys: "map pk (service_areas (gdb ?s1)) = map pk (service_areas (gdb s))"
    by (simp add: next_zone_version_def map_key_update_row)
  then have key_set: "pk ` set (service_areas (gdb ?s1)) = pk ` set (service_areas (gdb s))" by (metis set_map)
  show ?thesis
  proof (rule zones_synced_sync [OF ok])
    show "rows_of ?s1 j = rows_of s j" if "j \<noteq> apc_service_area_id r" for j
      using rows_of_put [OF s(2) mem r that] by (simp add: rows_of_def next_zone_version_def)
    show "distinct (map pk (service_areas (gdb ?s1)))" using s(1) keys by simp
    show "a' \<in> set (service_areas (gdb s))" if "a' \<in> set (service_areas (gdb ?s1))" "pk a' \<noteq> apc_service_area_id r" for a'
      using that by (auto simp: next_zone_version_def set_update_row split: if_splits)
    show "distinct (map pk (postal_rows ?s1))" using s(2) by (simp add: next_zone_version_def map_key_put)
    show "apc_service_area_id x \<in> pk ` set (service_areas (gdb ?s1))" if "x \<in> set (postal_rows ?s1)" for x
    proof -
      from that have "x = r \<or> x \<in> set (postal_rows s)" by (auto simp: next_zone_version_def dest: update_row_mem)
      with s(3) mem r(2) key_set show ?thesis by auto
    qed
  qed
qed

section \<open>The commands keep the arrays\<close>

lemma key_set: "map pk xs = map pk ys \<Longrightarrow> pk ` set xs = pk ` set ys"
  by (metis set_map)

lemma create_postal_code_synced:
  assumes "create_postal_code collate clk i actor p cid s = (res, s')" and ok: "zones_synced collate s"
    and new: "i \<notin> pk ` set (postal_rows s)"
  shows "zones_synced collate s'"
  using assms(1) unfolding create_postal_code_def
proof (cases rule: committed_cases)
  case failed
  with ok show ?thesis by simp
next
  case (stored x)
  then obtain a b where a: "get_area s (pcr_area_id p) = Some a"
    and s': "s' = with_gdb (add_audit b) (sync_legacy_postal_codes collate (pk a)
       (next_zone_version (pk a) (s\<lparr>postal_rows := postal_rows s @ [created_row (clk 0) i a p]\<rparr>)))"
    by (auto simp: Let_def elim!: bindE_InrE)
  let ?s1 = "next_zone_version (pk a) (s\<lparr>postal_rows := postal_rows s @ [created_row (clk 0) i a p]\<rparr>)"
  have row: "apc_service_area_id (created_row (clk 0) i a p) = pk a" "pk (created_row (clk 0) i a p) = i"
    by (simp_all add: created_row_def)
  have keys: "map pk (service_areas (gdb ?s1)) = map pk (service_areas (gdb s))"
    by (simp add: next_zone_version_def map_key_update_row)
  have "a \<in> set (service_areas (gdb s))" using a unfolding get_area_def by (rule lookup_row_mem)
  then have "zones_synced collate (sync_legacy_postal_codes collate (pk a) ?s1)"
    using zones_syncedD [OF ok] keys new row key_set [OF keys]
    by (intro zones_synced_sync [OF ok])
      (auto simp: rows_of_def next_zone_version_def set_update_row split: if_splits)
  then show ?thesis unfolding s' zones_synced_audit .
qed

lemma changed_row_keys: "changed_row c r0 = Inr r \<Longrightarrow> pk r = pk r0 \<and> apc_service_area_id r = apc_service_area_id r0"
  by (auto simp: changed_row_def elim!: bindE_InrE)

lemma update_postal_code_synced:
  assumes "update_postal_code collate now i actor c version cid s = (res, s')" and ok: "zones_synced collate s"
  shows "zones_synced collate s'"
  using assms(1) unfolding update_postal_code_def
proof (cases rule: committed_cases)
  case failed
  with ok show ?thesis by simp
next
  case (stored x)
  then obtain r0 r b where r0: "lookup_row pk i (postal_rows s) = Some r0" and r: "changed_row c r0 = Inr r"
    and s': "s' = with_gdb (add_audit b) (sync_legacy_postal_codes collate (apc_service_area_id r)
       (next_zone_version (apc_service_area_id r) (put_row r s)))"
    by (auto simp: Let_def elim!: bindE_InrE)
  from put_row_synced [OF ok r0] changed_row_keys [OF r] show ?thesis
    unfolding s' zones_synced_audit by blast
qed

lemma deactivate_postal_code_synced:
  assumes "deactivate_postal_code collate now i actor version cid s = (res, s')" and ok: "zones_synced collate s"
  shows "zones_synced collate s'"
  using assms(1) unfolding deactivate_postal_code_def
proof (cases rule: committed_cases)
  case failed
  with ok show ?thesis by simp
next
  case (stored x)
  then obtain r0 b where r0: "lookup_row pk i (postal_rows s) = Some r0"
    and s': "s' = with_gdb (add_audit b) (sync_legacy_postal_codes collate (apc_service_area_id r0)
       (next_zone_version (apc_service_area_id r0) (put_row (r0\<lparr>apc_active := False, apc_version := apc_version r0 + 1\<rparr>) s)))"
    by (auto simp: Let_def elim!: bindE_InrE)
  from put_row_synced [OF ok r0, of "r0\<lparr>apc_active := False, apc_version := apc_version r0 + 1\<rparr>"]
  show ?thesis unfolding s' zones_synced_audit by simp
qed

lemma deactivate_zone_synced:
  assumes "deactivate_zone now i actor version cid s = (res, s')" and ok: "zones_synced collate s"
  shows "zones_synced collate s'"
  using assms(1) unfolding deactivate_zone_def
proof (cases rule: committed_cases)
  case failed
  with ok show ?thesis by simp
next
  case (stored x)
  then obtain b v where s': "s' = with_gdb (add_audit b) (modify_area i (\<lambda>x. x\<lparr>sa_active := False, sa_version := v\<rparr>) s)"
    by (auto simp: Let_def elim!: bindE_InrE)
  have "zones_synced collate (modify_area i (\<lambda>x. x\<lparr>sa_active := False, sa_version := v\<rparr>) s)"
    by (rule zones_synced_same [OF ok]) (simp_all add: update_row_def update_where_def)
  then show ?thesis unfolding s' zones_synced_audit .
qed

text \<open>An import writes rows of its zone only, under new keys.\<close>

lemma import_rows_others:
  assumes "\<And>r x. r \<in> set existing \<Longrightarrow> x \<in> set rows \<Longrightarrow> pk x = pk r \<Longrightarrow> apc_service_area_id x = area" and "j \<noteq> area"
    and "range ids \<inter> pk ` set existing = {}"
  shows "filter (\<lambda>r. apc_service_area_id r = j) (import_rows now ids area existing xs rows)
       = filter (\<lambda>r. apc_service_area_id r = j) rows"
  using assms
proof (induction xs arbitrary: ids rows)
  case Nil
  show ?case by simp
next
  case (Cons x xs)
  have ids: "range (\<lambda>n. ids (Suc n)) \<inter> pk ` set existing = {}" using Cons.prems(3) by blast
  show ?case
  proof (cases "find (\<lambda>r. apc_postal_code r = ir_postal_code x) existing")
    case None
    let ?rows = "rows @ [imported_row now (ids 0) area x]"
    have "filter (\<lambda>r. apc_service_area_id r = j) (import_rows now (\<lambda>n. ids (Suc n)) area existing xs ?rows)
        = filter (\<lambda>r. apc_service_area_id r = j) ?rows"
      using Cons.prems(1,2) ids by (intro Cons.IH) (auto simp: imported_row_def)
    with None Cons.prems(2) show ?thesis by (simp add: imported_row_def)
  next
    case (Some r)
    then have r: "r \<in> set existing" by (auto dest: find_SomeD)
    let ?rows = "update_row pk (pk r) (imported_over x) rows"
    have "filter (\<lambda>r. apc_service_area_id r = j) (import_rows now (\<lambda>n. ids (Suc n)) area existing xs ?rows)
        = filter (\<lambda>r. apc_service_area_id r = j) ?rows"
    proof (rule Cons.IH)
      fix r' y assume "r' \<in> set existing" "y \<in> set ?rows" "pk y = pk r'"
      then show "apc_service_area_id y = area"
        using Cons.prems(1) by (auto simp: set_update_row imported_over_def split: if_splits)
    qed (use Cons.prems(2) ids in auto)
    also have "filter (\<lambda>r. apc_service_area_id r = j) ?rows = filter (\<lambda>r. apc_service_area_id r = j) rows"
    proof -
      have "apc_service_area_id y \<noteq> j" if "y \<in> set rows" "pk y = pk r" for y
        using Cons.prems(1) [OF r that] Cons.prems(2) by simp
      then show ?thesis
        by (induction rows) (auto simp: update_row_def update_where_def imported_over_def)
    qed
    finally show ?thesis using Some by simp
  qed
qed

lemma import_rows_keys:
  assumes "distinct (map pk rows)" and "inj ids" and "range ids \<inter> pk ` set rows = {}"
  shows "distinct (map pk (import_rows now ids area existing xs rows))"
  using assms
proof (induction xs arbitrary: ids rows)
  case Nil
  then show ?case by simp
next
  case (Cons x xs)
  have ids: "inj (\<lambda>n. ids (Suc n))" "range (\<lambda>n. ids (Suc n)) \<inter> insert (ids 0) (pk ` set rows) = {}"
  proof -
    have "ids n \<noteq> pk y" if "y \<in> set rows" for n y
      using Cons.prems(3) that by (metis IntI empty_iff image_eqI rangeI)
    then show "inj (\<lambda>n. ids (Suc n))" "range (\<lambda>n. ids (Suc n)) \<inter> insert (ids 0) (pk ` set rows) = {}"
      using Cons.prems(2) by (auto simp: inj_def)
  qed
  show ?case
  proof (cases "find (\<lambda>r. apc_postal_code r = ir_postal_code x) existing")
    case None
    have "distinct (map pk (import_rows now (\<lambda>n. ids (Suc n)) area existing xs (rows @ [imported_row now (ids 0) area x])))"
      using Cons.prems ids by (intro Cons.IH) (auto simp: imported_row_def)
    with None show ?thesis by simp
  next
    case (Some r)
    have keys: "map pk (update_row pk (pk r) (imported_over x) rows) = map pk rows"
      by (rule map_key_update_row) (simp add: imported_over_def)
    have "distinct (map pk (import_rows now (\<lambda>n. ids (Suc n)) area existing xs (update_row pk (pk r) (imported_over x) rows)))"
      using Cons.prems(1) ids key_set [OF keys] by (intro Cons.IH) (simp_all add: keys)
    with Some show ?thesis by simp
  qed
qed

lemma import_rows_areas:
  "apc_service_area_id ` set (import_rows now ids area existing xs rows) \<subseteq> insert area (apc_service_area_id ` set rows)"
proof (induction xs arbitrary: ids rows)
  case (Cons x xs)
  show ?case
  proof (cases "find (\<lambda>r. apc_postal_code r = ir_postal_code x) existing")
    case None
    with Cons.IH [of "\<lambda>n. ids (Suc n)" "rows @ [imported_row now (ids 0) area x]"] show ?thesis
      by (simp add: imported_row_def)
  next
    case (Some r)
    have "map apc_service_area_id (update_row pk (pk r) (imported_over x) rows) = map apc_service_area_id rows"
      by (simp add: update_row_def update_where_def imported_over_def)
    then have "apc_service_area_id ` set (update_row pk (pk r) (imported_over x) rows) = apc_service_area_id ` set rows"
      by (metis set_map)
    with Cons.IH [of "\<lambda>n. ids (Suc n)" "update_row pk (pk r) (imported_over x) rows"] Some show ?thesis by simp
  qed
qed auto

lemma import_synced:
  assumes "import_postal_codes collate request_hash clk i row_ids actor q key cid s = (res, s')"
    and ok: "zones_synced collate s" and new: "new_keys row_ids s"
  shows "zones_synced collate s'"
proof (cases "import_by_key s key")
  case (Some p)
  with assms(1) ok show ?thesis by (auto simp: import_postal_codes_def split: if_splits)
next
  case None
  from assms(1) [unfolded import_postal_codes_def None option.case] show ?thesis
  proof (cases rule: committed_cases)
    case failed
    with ok show ?thesis by simp
  next
    case (stored x)
    define existing where "existing a = filter (\<lambda>r. apc_service_area_id r = pk a
         \<and> apc_postal_code r \<in> ir_postal_code ` set (iq_rows q)) (postal_rows s)" for a :: service_area
    define imported where "imported a = s\<lparr>postal_imports := postal_imports s @ [import_record clk i actor q key (request_hash q)],
         postal_rows := import_rows (clk 0) row_ids (pk a) (existing a) (iq_rows q) (postal_rows s)\<rparr>" for a :: service_area
    from stored(1) obtain a b where a: "get_area s (iq_service_area_id q) = Some a"
      and s': "s' = with_gdb (add_audit b) (sync_legacy_postal_codes collate (pk a) (next_zone_version (pk a) (imported a)))"
      by (auto simp: Let_def imported_def existing_def elim!: bindE_InrE)
    let ?s1 = "next_zone_version (pk a) (imported a)"
    note z = zones_syncedD [OF ok]
    have rows: "postal_rows ?s1 = import_rows (clk 0) row_ids (pk a) (existing a) (iq_rows q) (postal_rows s)"
      by (simp add: next_zone_version_def imported_def)
    have keys: "map pk (service_areas (gdb ?s1)) = map pk (service_areas (gdb s))"
      by (simp add: next_zone_version_def imported_def map_key_update_row)
    have mem: "a \<in> set (service_areas (gdb s))" using a unfolding get_area_def by (rule lookup_row_mem)
    have "zones_synced collate (sync_legacy_postal_codes collate (pk a) ?s1)"
    proof (rule zones_synced_sync [OF ok])
      show "rows_of ?s1 j = rows_of s j" if "j \<noteq> pk a" for j
        unfolding rows_of_def rows
      proof (rule import_rows_others [OF _ that])
        show "apc_service_area_id x = pk a" if "r \<in> set (existing a)" "x \<in> set (postal_rows s)" "pk x = pk r" for r x
        proof -
          from that(1) have "r \<in> set (postal_rows s)" "apc_service_area_id r = pk a" by (auto simp: existing_def)
          with that(2,3) z(2) show ?thesis by (auto simp: distinct_map dest: inj_onD)
        qed
        show "range row_ids \<inter> pk ` set (existing a) = {}" using new by (auto simp: new_keys_def existing_def)
      qed
      show "distinct (map pk (service_areas (gdb ?s1)))" using z(1) keys by simp
      show "a' \<in> set (service_areas (gdb s))" if "a' \<in> set (service_areas (gdb ?s1))" "pk a' \<noteq> pk a" for a'
        using that by (auto simp: next_zone_version_def imported_def set_update_row split: if_splits)
      show "distinct (map pk (postal_rows ?s1))"
        unfolding rows using z(2) new by (intro import_rows_keys) (auto simp: new_keys_def)
      show "apc_service_area_id r \<in> pk ` set (service_areas (gdb ?s1))" if "r \<in> set (postal_rows ?s1)" for r
      proof -
        from that import_rows_areas have "apc_service_area_id r \<in> insert (pk a) (apc_service_area_id ` set (postal_rows s))"
          unfolding rows by blast
        with z(3) mem key_set [OF keys] show ?thesis by auto
      qed
    qed
    then show ?thesis unfolding s' zones_synced_audit .
  qed
qed

lemma replace_offerings_frame:
  "postal_rows (replace_offerings now ids i vs reg em s) = postal_rows s"
  "service_areas (gdb (replace_offerings now ids i vs reg em s)) = service_areas (gdb s)"
  by (simp_all add: replace_offerings_def Let_def)

text \<open>Rows that are appended for a list of codes.\<close>

definition fresh_rows :: "datetime \<Rightarrow> (nat \<Rightarrow> uuid) \<Rightarrow> service_area \<Rightarrow> bool \<Rightarrow> string list \<Rightarrow> area_postal_code list" where
  "fresh_rows now ids a regular codes = map2 (\<lambda>n c. area_row now (ids n) a regular c) [0..<length codes] codes"

lemma fresh_rows_area: "r \<in> set (fresh_rows now ids a regular codes) \<Longrightarrow> apc_service_area_id r = pk a"
  by (auto simp: fresh_rows_def area_row_def)

lemma fresh_rows_keys: "map pk (fresh_rows now ids a regular codes) = map ids [0..<length codes]"
  by (rule nth_equalityI) (simp_all add: fresh_rows_def area_row_def)

lemma fresh_rows_others: "j \<noteq> pk a \<Longrightarrow> filter (\<lambda>r. apc_service_area_id r = j) (fresh_rows now ids a regular codes) = []"
  by (auto simp: filter_empty_conv dest: fresh_rows_area)

lemma distinct_fresh_rows:
  assumes "distinct (map pk rows)" and "inj ids" and "range ids \<inter> pk ` set rows = {}"
  shows "distinct (map pk (rows @ fresh_rows now ids a regular codes))"
proof -
  have "distinct (map ids [0..<length codes])"
    using assms(2) by (simp add: distinct_map inj_on_def inj_def)
  moreover have "pk ` set rows \<inter> ids ` {0..<length codes} = {}" using assms(3) by blast
  moreover have "set (map pk (fresh_rows now ids a regular codes)) = ids ` {0..<length codes}"
    unfolding fresh_rows_keys by simp
  ultimately show ?thesis
    using assms(1) unfolding map_append distinct_append by (simp only: fresh_rows_keys set_map simp_thms)
qed

lemma create_zone_synced:
  assumes "create_zone collate st_geometry clk i offering_ids row_ids actor c cid s = (res, s')"
    and ok: "zones_synced collate s" and new: "i \<notin> pk ` set (service_areas (gdb s))" "new_keys row_ids s"
  shows "zones_synced collate s'"
proof (cases "create_zone_body collate st_geometry clk i offering_ids row_ids actor c cid s")
  case (Inl e)
  with assms(1) ok show ?thesis by (simp add: create_zone_def committed_def)
next
  case (Inr x)
  obtain k s0 where x: "x = (k, s0)" by (cases x)
  with assms(1) Inr have s': "s' = s0" by (simp add: create_zone_def committed_def)
  define placed where "placed shape = (let a = created_zone (clk 0) i c shape;
      s2 = replace_offerings (clk 0) offering_ids i (zc_service_ids c) (zc_regular_service_enabled c)
                (zc_emergency_enabled c) (with_gdb (\<lambda>b. b\<lparr>service_areas := service_areas b @ [a]\<rparr>) s)
     in s2\<lparr>postal_rows := postal_rows s2 @ fresh_rows (clk 0) row_ids a (zc_regular_service_enabled c) (zc_postal_codes c)\<rparr>)"
    for shape
  from Inr [unfolded x create_zone_body_def] obtain shape b where
    s0: "s0 = with_gdb (add_audit b) (sync_legacy_postal_codes collate i (placed shape))"
    by (auto simp: Let_def placed_def fresh_rows_def elim!: bindE_InrE)
  define a where "a = created_zone (clk 0) i c shape"
  have key: "pk a = i" by (simp add: a_def created_zone_def)
  have rows: "postal_rows (placed shape) = postal_rows s
      @ fresh_rows (clk 0) row_ids a (zc_regular_service_enabled c) (zc_postal_codes c)"
    and areas: "service_areas (gdb (placed shape)) = service_areas (gdb s) @ [a]"
    by (simp_all add: placed_def Let_def replace_offerings_frame a_def)
  note z = zones_syncedD [OF ok]
  have "zones_synced collate (sync_legacy_postal_codes collate i (placed shape))"
  proof (rule zones_synced_sync [OF ok])
    show "rows_of (placed shape) j = rows_of s j" if "j \<noteq> i" for j
      unfolding rows_of_def rows using that key by (simp add: fresh_rows_others)
    show "distinct (map pk (service_areas (gdb (placed shape))))" unfolding areas using z(1) new(1) key by simp
    show "a' \<in> set (service_areas (gdb s))" if "a' \<in> set (service_areas (gdb (placed shape)))" "pk a' \<noteq> i" for a'
      using that key unfolding areas by auto
    show "distinct (map pk (postal_rows (placed shape)))"
      unfolding rows using z(2) new(2) by (intro distinct_fresh_rows) (simp_all add: new_keys_def)
    show "apc_service_area_id r \<in> pk ` set (service_areas (gdb (placed shape)))" if "r \<in> set (postal_rows (placed shape))" for r
      using that z(3) fresh_rows_area unfolding rows areas by fastforce
  qed
  then show ?thesis unfolding s' s0 zones_synced_audit .
qed

lemma changed_offerings_frame: "changed_offerings now ids c regular a s = Inr s1 \<Longrightarrow>
   postal_rows s1 = postal_rows s \<and> service_areas (gdb s1) = service_areas (gdb s)"
  by (auto simp: changed_offerings_def replace_offerings_frame split: option.splits elim!: bindE_InrE)

lemma changed_zone_key: "changed_zone c shape a0 = Inr a \<Longrightarrow> pk a = pk a0"
  by (auto simp: changed_zone_def elim!: bindE_InrE)

text \<open>The rows after a change: those of the zone keep their keys, and new ones follow.\<close>

lemma changed_rows_cases:
  obtains f codes where "\<And>r. pk (f r) = pk r" and "\<And>r. apc_service_area_id (f r) = apc_service_area_id r"
    and "\<And>r. apc_service_area_id r \<noteq> pk a \<Longrightarrow> f r = r"
    and "changed_rows now ids c regular a s = s\<lparr>postal_rows := map f (postal_rows s) @ fresh_rows now ids a regular codes\<rparr>"
proof (cases "\<exists>codes. zu_postal_codes c = Some (Some codes)")
  case True
  then obtain codes where codes: "zu_postal_codes c = Some (Some codes)" by blast
  show thesis
    by (rule that [of "replaced_row a codes regular" "filter (\<lambda>c. postal_by_zone_and_code s (pk a) c = None) (remdups codes)"])
      (simp_all add: changed_rows_def codes replace_zone_postal_codes_def fresh_rows_def Let_def replaced_row_def)
next
  case False
  define f where "f r = (if (sent (zu_regular_service_enabled c) \<or> sent (zu_emergency_enabled c) \<or> sent (zu_priority c))
        \<and> apc_service_area_id r = pk a
     then r\<lparr>apc_regular_service_enabled := (if sent (zu_regular_service_enabled c) then regular
                     else apc_regular_service_enabled r),
                   apc_emergency_service_enabled := (if sent (zu_emergency_enabled c) then sa_emergency_enabled a
                     else apc_emergency_service_enabled r),
                   apc_priority := (if sent (zu_priority c) then sa_priority a else apc_priority r),
                   apc_version := apc_version r + 1\<rparr> else r)" for r :: area_postal_code
  show thesis
  proof (rule that [of f "[]"])
    show "changed_rows now ids c regular a s = s\<lparr>postal_rows := map f (postal_rows s) @ fresh_rows now ids a regular []\<rparr>"
    proof (cases "sent (zu_regular_service_enabled c) \<or> sent (zu_emergency_enabled c) \<or> sent (zu_priority c)")
      case True
      with False show ?thesis
        by (auto simp: changed_rows_def f_def fresh_rows_def update_where_def split: option.splits)
    next
      case none: False
      then have "f = id" by (auto simp: f_def)
      with False none show ?thesis by (auto simp: changed_rows_def fresh_rows_def split: option.splits)
    qed
  qed (simp_all add: f_def)
qed

lemma update_zone_synced:
  assumes "update_zone collate st_geometry clk offering_ids row_ids i actor c version cid s = (res, s')"
    and ok: "zones_synced collate s" and new: "new_keys row_ids s"
  shows "zones_synced collate s'"
proof (cases "update_zone_body collate st_geometry clk offering_ids row_ids i actor c version cid s")
  case (Inl e)
  with assms(1) ok show ?thesis by (simp add: update_zone_def committed_def)
next
  case (Inr x)
  obtain k s0 where x: "x = (k, s0)" by (cases x)
  with assms(1) Inr have s': "s' = s0" by (simp add: update_zone_def committed_def)
  define changed where "changed reg a v s1 = modify_area i (\<lambda>_. a\<lparr>sa_version := v\<rparr>) (changed_rows (clk 0) row_ids c reg a s1)"
    for reg a v s1
  from Inr [unfolded x update_zone_body_def] obtain a0 shape reg a s1 b where a0: "get_area s i = Some a0"
    and a: "changed_zone c shape a0 = Inr a" and s1: "changed_offerings (clk 0) offering_ids c reg a s = Inr s1"
    and s0: "s0 = with_gdb (add_audit b) (sync_legacy_postal_codes collate i (changed reg a (sa_version a + 1) s1))"
    by (auto simp: Let_def changed_def elim!: bindE_InrE)
  have key: "pk a = i" using a0 changed_zone_key [OF a] by (auto simp: get_area_def dest: lookup_row_key)
  obtain f codes where f: "\<And>r. pk (f r) = pk r" "\<And>r. apc_service_area_id (f r) = apc_service_area_id r"
      "\<And>r. apc_service_area_id r \<noteq> pk a \<Longrightarrow> f r = r"
    and rows1: "changed_rows (clk 0) row_ids c reg a s1
      = s1\<lparr>postal_rows := map f (postal_rows s1) @ fresh_rows (clk 0) row_ids a reg codes\<rparr>"
    by (rule changed_rows_cases [of a "clk 0" row_ids c reg s1]) blast
  let ?s = "changed reg a (sa_version a + 1) s1"
  have rows: "postal_rows ?s = map f (postal_rows s) @ fresh_rows (clk 0) row_ids a reg codes"
    and areas: "service_areas (gdb ?s) = update_row pk i (\<lambda>_. a\<lparr>sa_version := sa_version a + 1\<rparr>) (service_areas (gdb s))"
    using changed_offerings_frame [OF s1] by (simp_all add: changed_def rows1)
  have keys: "map pk (service_areas (gdb ?s)) = map pk (service_areas (gdb s))"
    unfolding areas using key by (simp add: map_key_put)
  note z = zones_syncedD [OF ok]
  have mem: "i \<in> pk ` set (service_areas (gdb s))" using a0 by (auto simp: get_area_def dest: lookup_row_SomeD)
  have "zones_synced collate (sync_legacy_postal_codes collate i ?s)"
  proof (rule zones_synced_sync [OF ok])
    show "rows_of ?s j = rows_of s j" if "j \<noteq> i" for j
    proof -
      have "filter (\<lambda>r. apc_service_area_id r = j) (map f rs) = filter (\<lambda>r. apc_service_area_id r = j) rs" for rs
        using that key f(2,3) by (induction rs) auto
      then show ?thesis unfolding rows_of_def rows using that key by (simp add: fresh_rows_others)
    qed
    show "distinct (map pk (service_areas (gdb ?s)))" using z(1) keys by simp
    show "a' \<in> set (service_areas (gdb s))" if "a' \<in> set (service_areas (gdb ?s))" "pk a' \<noteq> i" for a'
      using that key unfolding areas by (auto simp: set_update_row split: if_splits)
    have same: "map pk (map f (postal_rows s)) = map pk (postal_rows s)" using f(1) by simp
    show "distinct (map pk (postal_rows ?s))"
      unfolding rows using z(2) new key_set [OF same] by (intro distinct_fresh_rows) (simp_all add: new_keys_def f(1) comp_def)
    show "apc_service_area_id r \<in> pk ` set (service_areas (gdb ?s))" if "r \<in> set (postal_rows ?s)" for r
      using that z(3) f(2) fresh_rows_area mem key unfolding rows key_set [OF keys] by fastforce
  qed
  then show ?thesis unfolding s' s0 zones_synced_audit .
qed

lemma validate_synced:
  assumes "validate_service_address collate st_covers st_dwithin tzdb geocode clk i c cid s = (res, s')"
    and ok: "zones_synced collate s"
  shows "zones_synced collate s'"
  using assms(1) unfolding validate_service_address_def
proof (cases rule: committed_cases)
  case failed
  with ok show ?thesis by simp
next
  case (stored x)
  then have "postal_rows s' = postal_rows s \<and> service_areas (gdb s') = service_areas (gdb s)"
    by (auto simp: Let_def elim!: bindE_InrE)
  then show ?thesis by (intro zones_synced_same [OF ok]) simp_all
qed

lemma zone_step_synced: "zone_step collate s s' \<Longrightarrow> zones_synced collate s \<Longrightarrow> zones_synced collate s'"
proof (induction rule: zone_step.induct)
  case (zs_other b s)
  show ?case by (rule zones_synced_same [OF zs_other(2)]) (simp_all add: zs_other(1))
qed (blast intro: create_zone_synced update_zone_synced deactivate_zone_synced create_postal_code_synced
    update_postal_code_synced deactivate_postal_code_synced import_synced validate_synced)+

text \<open>From a company without zones.\<close>

inductive zones_reachable :: "(string \<Rightarrow> int) \<Rightarrow> geography \<Rightarrow> bool" for collate where
  zr_start: "service_areas (gdb s) = [] \<Longrightarrow> postal_rows s = [] \<Longrightarrow> zones_reachable collate s"
| zr_step: "zones_reachable collate s \<Longrightarrow> zone_step collate s s' \<Longrightarrow> zones_reachable collate s'"

lemma zones_reachable_synced: "zones_reachable collate s \<Longrightarrow> zones_synced collate s"
proof (induction rule: zones_reachable.induct)
  case (zr_start s)
  then show ?case by (simp add: zones_synced_def)
next
  case (zr_step s s')
  then show ?case by (blast intro: zone_step_synced)
qed

section \<open>Properties\<close>


definition empty_geography :: geography where
  "empty_geography = \<lparr>gdb = empty_db\<lparr>legal_entities := [\<lparr>pk = 7, created_at = 0, le_code = ''BREERO'',
      le_name = ''Breero'', le_currency = ''USD'', le_active = True\<rparr>]\<rparr>, postal_rows = [],
     postal_imports = []\<rparr>"

definition albany_request :: zone_create where
  "albany_request = \<lparr>zc_legal_entity_id = 7, zc_name = ''Albany'', zc_country_code = ''US'', zc_state_code = Some ''NY'',
     zc_city = None, zc_postal_codes = [''12207-0001'', ''12207''], zc_service_ids = [], zc_center_latitude = None,
     zc_center_longitude = None, zc_radius_miles = None, zc_boundary_geojson = None, zc_priority = 100,
     zc_regular_service_enabled = True, zc_emergency_enabled = False, zc_active = True\<rparr>"

definition emergency_code :: postal_create where
  "emergency_code = \<lparr>pcr_area_id = 8, pcr_postal_code = ''12208'', pcr_city = None, pcr_state_code = None, pcr_active = True,
     pcr_regular_service_enabled = False, pcr_emergency_service_enabled = True, pcr_priority = 100\<rparr>"

definition albany_created :: geography where
  "albany_created = snd (create_zone (\<lambda>_. 0) (\<lambda>_. None) int 8 (\<lambda>n. 20 + n) (\<lambda>n. 30 + n) sample_admin albany_request None
     empty_geography)"

definition albany :: geography where
  "albany = snd (create_postal_code (\<lambda>_. 0) int 9 sample_admin emergency_code None albany_created)"

text \<open>The evaluation leaves the audit rows alone.\<close>

lemmas zone_evaluation = albany_created_def albany_def create_zone_def create_zone_body_def create_postal_code_def
  get_zone_def get_area_def active_legal_entity_def validate_services_def validated_boundary_def
  replace_offerings_def sync_legacy_postal_codes_def legacy_codes_def zone_postal_codes_def area_row_def
  created_zone_def created_row_def next_zone_version_def postal_by_zone_and_code_def first_occurrences_def zip_base_def
  albany_request_def emergency_code_def empty_geography_def empty_db_def given_def lookup_row_def update_row_def
  update_where_def committed_def point_of_def of_option_def ensure_def

lemma albany_created_rows:
  "map (\<lambda>a. (pk a, sa_postal_codes a)) (service_areas (gdb albany_created)) = [(8, [''12207''])]"
  "map pk (postal_rows albany_created) = [30, 31]"
  by (simp_all add: zone_evaluation Let_def)

lemma albany_rows:
  "map (\<lambda>a. (pk a, sa_postal_codes a)) (service_areas (gdb albany)) = [(8, [''12207''])]"
  by (simp add: zone_evaluation Let_def)

lemma albany_reachable: "zones_reachable (\<lambda>_. 0) albany"
proof -
  have start: "zones_reachable (\<lambda>_. 0) empty_geography"
    by (rule zr_start) (simp_all add: empty_geography_def empty_db_def)
  have "zone_step (\<lambda>_. 0) empty_geography albany_created"
    unfolding albany_created_def
    by (rule zs_create [OF prod.collapse [symmetric]]) (auto simp: empty_geography_def empty_db_def new_keys_def inj_def)
  then have created: "zones_reachable (\<lambda>_. 0) albany_created" by (rule zr_step [OF start])
  have "pk ` set (postal_rows albany_created) = set [30, 31]" using albany_created_rows(2) by (metis set_map)
  then have "zone_step (\<lambda>_. 0) albany_created albany"
    unfolding albany_def by (intro zs_add_code [OF prod.collapse [symmetric]]) simp
  then show ?thesis by (rule zr_step [OF created])
qed


end
