(* ===== verification/Rate_Limit.thy ===== *)
theory Rate_Limit
  imports Common "HOL-Library.AList"
begin

text \<open>
  \<^verbatim>\<open>core/rate_limit.py\<close>: a token bucket per scope and source, in Redis or, while Redis is out, in the
  process.  Token counts are rationals.  The clock is the parameter \<open>now\<close>, in seconds for the process
  and in milliseconds for Redis; the digest of the source is the parameter \<open>sha256_hex\<close>.
\<close>

section \<open>The buckets\<close>

record bucket =
  bt_tokens :: rat
  bt_updated_at :: rat
  bt_expires_at :: rat

text \<open>A dictionary in the order of insertion.\<close>

type_synonym buckets = "(string \<times> bucket) list"

definition LOCAL_BUCKET_MAX_KEYS :: nat where "LOCAL_BUCKET_MAX_KEYS = 1024"

definition bucket_key :: "(string \<Rightarrow> string) \<Rightarrow> string \<Rightarrow> string \<Rightarrow> string" where
  "bucket_key sha256_hex scope source = ''ratelimit:'' @ scope @ '':'' @ take 24 (sha256_hex source)"

definition evicted :: "rat \<Rightarrow> buckets \<Rightarrow> buckets" where
  "evicted now bs = (if LOCAL_BUCKET_MAX_KEYS \<le> length bs then filter (\<lambda>(_, b). now < bt_expires_at b) bs else bs)"

text \<open>The bucket as it stands at this moment; one that has expired is dropped.\<close>

definition current_bucket :: "rat \<Rightarrow> string \<Rightarrow> buckets \<Rightarrow> bucket option \<times> buckets" where
  "current_bucket now key bs = (case map_of bs key of
      Some b \<Rightarrow> if bt_expires_at b \<le> now then (None, AList.delete key bs) else (Some b, bs)
    | None \<Rightarrow> (None, bs))"

definition refilled :: "rat \<Rightarrow> int \<Rightarrow> int \<Rightarrow> bucket \<Rightarrow> bucket" where
  "refilled now capacity window b =
     b\<lparr>bt_tokens := min (of_int capacity) (bt_tokens b + max 0 (now - bt_updated_at b) * (of_int capacity / of_int window)),
       bt_updated_at := now, bt_expires_at := now + of_int (window * 2)\<rparr>"

definition full_bucket :: "rat \<Rightarrow> int \<Rightarrow> int \<Rightarrow> bucket" where
  "full_bucket now capacity window =
     \<lparr>bt_tokens = of_int capacity, bt_updated_at = now, bt_expires_at = now + of_int (window * 2)\<rparr>"

definition spend :: "bucket \<Rightarrow> bucket" where
  "spend b = (if 1 \<le> bt_tokens b then b\<lparr>bt_tokens := bt_tokens b - 1\<rparr> else b)"

definition retry_seconds :: "int \<Rightarrow> int \<Rightarrow> bucket \<Rightarrow> int" where
  "retry_seconds capacity window b =
     (if 1 \<le> bt_tokens b then 0 else max 1 \<lceil>(1 - bt_tokens b) / (of_int capacity / of_int window)\<rceil>)"

text \<open>Traffic with many sources fails closed once the dictionary is full.\<close>

definition consume_local_bucket :: "rat \<Rightarrow> string \<Rightarrow> int \<Rightarrow> int \<Rightarrow> buckets \<Rightarrow> (bool \<times> int) \<times> buckets" where
  "consume_local_bucket now key capacity window bs0 =
     (case current_bucket now key (evicted now bs0) of
        (None, bs) \<Rightarrow>
          if LOCAL_BUCKET_MAX_KEYS \<le> length bs then ((False, max 1 window), bs)
          else let b = full_bucket now capacity window
               in ((1 \<le> bt_tokens b, retry_seconds capacity window b), AList.update key (spend b) bs)
      | (Some b0, bs) \<Rightarrow>
          let b = refilled now capacity window b0
          in ((1 \<le> bt_tokens b, retry_seconds capacity window b), AList.update key (spend b) bs))"

text \<open>The script that Redis runs: the same bucket, whose key Redis forgets once it has expired.\<close>

definition redis_bucket :: "rat \<Rightarrow> string \<Rightarrow> int \<Rightarrow> int \<Rightarrow> buckets \<Rightarrow> (bool \<times> int) \<times> buckets" where
  "redis_bucket now_ms key capacity window_ms bs0 =
     (let (current, bs) = current_bucket now_ms key bs0;
          b = (case current of None \<Rightarrow> full_bucket now_ms capacity window_ms
               | Some b0 \<Rightarrow> refilled now_ms capacity window_ms b0)
      in ((1 \<le> bt_tokens b,
           if 1 \<le> bt_tokens b then 0 else \<lceil>(1 - bt_tokens b) / (of_int capacity / of_int window_ms)\<rceil>),
          AList.update key (spend b) bs))"

definition rate_limited :: api_error where "rate_limited = HTTPException 429 ''rate limit exceeded''"

text \<open>
  The two stores are Redis's and the process's; \<open>redis_up\<close> is false without a client or when the call
  raises \<^verbatim>\<open>RedisError\<close>.  The header with the time to retry is left out.
\<close>

definition enforce_rate_limit ::
  "(string \<Rightarrow> string) \<Rightarrow> bool \<Rightarrow> rat \<Rightarrow> rat \<Rightarrow> string \<Rightarrow> string \<Rightarrow> int \<Rightarrow> int \<Rightarrow> buckets \<times> buckets
   \<Rightarrow> unit result \<times> (buckets \<times> buckets)"
where
  "enforce_rate_limit sha256_hex redis_up now now_ms scope source requests window s =
     (if requests < 1 \<or> window < 1
      then (Inl (ValueError ''rate-limit capacity and window must be positive''), s)
      else let key = bucket_key sha256_hex scope source in
        if redis_up then
          (case redis_bucket now_ms key requests (window * 1000) (fst s) of
             ((allowed, _), r) \<Rightarrow> (ensure allowed rate_limited, (r, snd s)))
        else
          (case consume_local_bucket now key requests window (snd s) of
             ((allowed, _), bs) \<Rightarrow> (ensure allowed rate_limited, (fst s, bs))))"

section \<open>A bound on what is let through\<close>

text \<open>
  What a limiter promises: there is a level of tokens per key, never negative and never above the
  capacity, that grows at most at the rate of the key and that every request let through lowers by one.
\<close>

locale limiter =
  fixes consume :: "rat \<Rightarrow> 'k \<Rightarrow> 's \<Rightarrow> (bool \<times> int) \<times> 's"
    and level :: "'s \<Rightarrow> 'k \<Rightarrow> rat \<Rightarrow> rat"
    and sound :: "rat \<Rightarrow> 's \<Rightarrow> bool"
    and capacity :: "'k \<Rightarrow> rat" and rate :: "'k \<Rightarrow> rat"
  assumes level_above: "sound t s \<Longrightarrow> 0 \<le> level s k t"
    and level_below: "level s k t \<le> capacity k"
    and level_rise: "sound t s \<Longrightarrow> t \<le> t' \<Longrightarrow> level s k t' \<le> level s k t + (t' - t) * rate k"
    and later_sound: "sound t s \<Longrightarrow> t \<le> t' \<Longrightarrow> sound t' s"
    and consumed_sound: "sound t s \<Longrightarrow> consume t k s = ((allowed, retry), s') \<Longrightarrow> sound t s'"
    and consumed_level: "sound t s \<Longrightarrow> consume t k s = ((allowed, retry), s') \<Longrightarrow>
      level s' j t \<le> level s j t - (if allowed \<and> j = k then 1 else 0)"
begin

fun passed :: "'k \<Rightarrow> (rat \<times> 'k) list \<Rightarrow> 's \<Rightarrow> nat" where
  "passed k [] s = 0"
| "passed k ((t, j) # rs) s = (case consume t j s of ((allowed, _), s') \<Rightarrow>
     (if allowed \<and> j = k then 1 else 0) + passed k rs s')"

lemma passed_level:
  assumes "sound t0 s" and "sorted (t0 # map fst rs)" and "\<And>t. t \<in> set (map fst rs) \<Longrightarrow> t \<le> t1" and "t0 \<le> t1"
  shows "of_nat (passed k rs s) \<le> level s k t0 + (t1 - t0) * rate k"
  using assms
proof (induction rs arbitrary: s t0)
  case Nil
  have "0 \<le> level s k t1" using level_above later_sound Nil.prems(1,4) by blast
  also have "\<dots> \<le> level s k t0 + (t1 - t0) * rate k" by (rule level_rise [OF Nil.prems(1,4)])
  finally show ?case by simp
next
  case (Cons r rs)
  obtain t j where r: "r = (t, j)" by (cases r)
  obtain allowed retry s' where c: "consume t j s = ((allowed, retry), s')" by (metis prod.exhaust_sel)
  have t: "t0 \<le> t" "sorted (t # map fst rs)" "t \<le> t1" using Cons.prems(2,3) r by auto
  have s: "sound t s" using later_sound Cons.prems(1) t(1) by blast
  have "of_nat (passed k rs s') \<le> level s' k t + (t1 - t) * rate k"
    using consumed_sound [OF s c] t Cons.prems(3) by (intro Cons.IH) auto
  moreover have "level s' k t \<le> level s k t - (if allowed \<and> k = j then 1 else 0)" by (rule consumed_level [OF s c])
  moreover have "level s k t \<le> level s k t0 + (t - t0) * rate k" by (rule level_rise [OF Cons.prems(1) t(1)])
  ultimately have "of_nat (passed k rs s') + (if allowed \<and> k = j then 1 else 0)
      \<le> level s k t0 + ((t - t0) * rate k + (t1 - t) * rate k)" by simp
  also have "(t - t0) * rate k + (t1 - t) * rate k = (t1 - t0) * rate k" by (simp add: algebra_simps)
  finally show ?case using r c by (auto simp: eq_commute split: if_splits)
qed

fun after :: "(rat \<times> 'k) list \<Rightarrow> 's \<Rightarrow> 's" where
  "after [] s = s"
| "after ((t, j) # rs) s = after rs (snd (consume t j s))"

lemma after_sound:
  assumes "sound t0 s" and "sorted (t0 # map fst rs)" and "\<And>t. t \<in> set (map fst rs) \<Longrightarrow> t \<le> t1" and "t0 \<le> t1"
  shows "sound t1 (after rs s)"
  using assms
proof (induction rs arbitrary: s t0)
  case Nil
  then show ?case using later_sound by auto
next
  case (Cons r rs)
  obtain t j where r: "r = (t, j)" by (cases r)
  have "sound t s" using Cons.prems r later_sound by auto
  then have "sound t (snd (consume t j s))" using consumed_sound by (metis prod.exhaust_sel)
  then show ?case using Cons.IH [of t "snd (consume t j s)"] Cons.prems r by auto
qed

lemma passed_bound:
  assumes "sound t0 s" and "sorted (t0 # map fst rs)" and "\<And>t. t \<in> set (map fst rs) \<Longrightarrow> t \<le> t1" and "t0 \<le> t1"
  shows "of_nat (passed k rs s) \<le> capacity k + (t1 - t0) * rate k"
  using passed_level [OF assms, of k] level_below [of s k t0] by simp

end

section \<open>The buckets as limiters\<close>

text \<open>The tokens of a key at a moment, and the stores in which this is a level.  \<open>unit\<close> is the length of
  a window of one: 1 for the process's clock and 1000 for that of Redis.\<close>

definition bucket_level :: "(string \<Rightarrow> int) \<Rightarrow> (string \<Rightarrow> int) \<Rightarrow> buckets \<Rightarrow> string \<Rightarrow> rat \<Rightarrow> rat" where
  "bucket_level cap win bs k t = (if cap k < 1 \<or> win k < 1 then 0 else
     case map_of bs k of None \<Rightarrow> of_int (cap k)
     | Some b \<Rightarrow> min (of_int (cap k)) (bt_tokens b + (t - bt_updated_at b) * (of_int (cap k) / of_int (win k))))"

definition bucket_sound :: "(string \<Rightarrow> int) \<Rightarrow> rat \<Rightarrow> string \<Rightarrow> bucket \<Rightarrow> bool" where
  "bucket_sound win t k b = (0 \<le> bt_tokens b \<and> bt_updated_at b \<le> t \<and>
     bt_expires_at b = bt_updated_at b + of_int (win k * 2))"

definition buckets_sound :: "(string \<Rightarrow> int) \<Rightarrow> rat \<Rightarrow> buckets \<Rightarrow> bool" where
  "buckets_sound win t bs = (distinct (map fst bs) \<and> (\<forall>(k, b) \<in> set bs. bucket_sound win t k b))"

lemma buckets_sound_D:
  assumes "buckets_sound win t bs" and "map_of bs k = Some b"
  shows "0 \<le> bt_tokens b" "bt_updated_at b \<le> t" "bt_expires_at b = bt_updated_at b + of_int (win k * 2)"
  using assms map_of_SomeD [OF assms(2)] by (auto simp: buckets_sound_def bucket_sound_def)

lemma buckets_sound_later: "buckets_sound win t bs \<Longrightarrow> t \<le> t' \<Longrightarrow> buckets_sound win t' bs"
  by (fastforce simp: buckets_sound_def bucket_sound_def)

lemma buckets_sound_filter: "buckets_sound win t bs \<Longrightarrow> buckets_sound win t (filter P bs)"
  by (auto simp: buckets_sound_def intro: distinct_map_filter)

lemma buckets_sound_update:
  assumes "buckets_sound win t bs" and "bucket_sound win t k b"
  shows "buckets_sound win t (AList.update k b bs)"
proof -
  have "set (AList.update k b bs) \<subseteq> insert (k, b) (set bs)"
    by (induction bs) auto
  then show ?thesis using assms distinct_update unfolding buckets_sound_def by fast
qed

definition key_capacity :: "(string \<Rightarrow> int) \<Rightarrow> (string \<Rightarrow> int) \<Rightarrow> string \<Rightarrow> rat" where
  "key_capacity cap win k = (if cap k < 1 \<or> win k < 1 then 0 else of_int (cap k))"

lemma level_capacity: "bucket_level cap win bs k t \<le> key_capacity cap win k"
  by (simp add: bucket_level_def key_capacity_def split: option.split)

lemma level_nonneg: "buckets_sound win t bs \<Longrightarrow> 0 \<le> bucket_level cap win bs k t"
  by (auto simp: bucket_level_def dest: buckets_sound_D split: option.split intro!: add_nonneg_nonneg mult_nonneg_nonneg)

definition key_rate :: "(string \<Rightarrow> int) \<Rightarrow> (string \<Rightarrow> int) \<Rightarrow> string \<Rightarrow> rat" where
  "key_rate cap win k = (if cap k < 1 \<or> win k < 1 then 0 else of_int (cap k) / of_int (win k))"

lemma level_grows:
  assumes "t \<le> t'"
  shows "bucket_level cap win bs k t' \<le> bucket_level cap win bs k t + (t' - t) * key_rate cap win k"
proof (cases "cap k < 1 \<or> win k < 1")
  case False
  define r :: rat where "r = of_int (cap k) / of_int (win k)"
  have d: "0 \<le> (t' - t) * r" using assms False by (simp add: r_def)
  show ?thesis
  proof (cases "map_of bs k")
    case None
    then show ?thesis using d False by (simp add: bucket_level_def key_rate_def r_def)
  next
    case (Some b)
    have "(t' - bt_updated_at b) * r = (t - bt_updated_at b) * r + (t' - t) * r" by (simp add: algebra_simps)
    then show ?thesis using d Some False unfolding bucket_level_def key_rate_def by (simp flip: r_def)
  qed
qed (simp add: bucket_level_def key_rate_def)

text \<open>A bucket that has expired is full again.\<close>

lemma expired_full:
  assumes "buckets_sound win t bs" and "map_of bs k = Some b" and "bt_expires_at b \<le> t" and "1 \<le> cap k" and "1 \<le> win k"
  shows "bucket_level cap win bs k t = of_int (cap k)"
proof -
  note b = buckets_sound_D [OF assms(1,2)]
  have "of_int (win k) \<le> t - bt_updated_at b"
  proof -
    have "(0::rat) \<le> of_int (win k)" using assms(5) by simp
    then show ?thesis using b(3) assms(3) by simp
  qed
  then have "of_int (win k) * (of_int (cap k) / of_int (win k)) \<le> (t - bt_updated_at b) * (of_int (cap k) / of_int (win k) :: rat)"
    using assms(4,5) by (intro mult_right_mono) auto
  then have "of_int (cap k) \<le> bt_tokens b + (t - bt_updated_at b) * (of_int (cap k) / of_int (win k))"
    using assms(5) b(1) by simp
  then show ?thesis using assms(2,4,5) by (simp add: bucket_level_def)
qed

lemma level_dropped:
  assumes "buckets_sound win t bs" and "\<And>b. map_of bs k = Some b \<Longrightarrow> map_of bs' k \<noteq> Some b \<Longrightarrow> bt_expires_at b \<le> t \<and> map_of bs' k = None"
    and "map_of bs k = None \<Longrightarrow> map_of bs' k = None"
  shows "bucket_level cap win bs' k t = bucket_level cap win bs k t"
proof (cases "map_of bs k")
  case None
  then show ?thesis using assms(3) by (simp add: bucket_level_def)
next
  case (Some b)
  show ?thesis
  proof (cases "map_of bs' k = Some b")
    case True
    then show ?thesis using Some by (simp add: bucket_level_def)
  next
    case False
    then show ?thesis using assms(2) [OF Some False] expired_full [OF assms(1) Some] by (simp add: bucket_level_def)
  qed
qed

lemma evicted_sound: "buckets_sound win t bs \<Longrightarrow> buckets_sound win t (evicted now bs)"
  by (simp add: evicted_def buckets_sound_filter)

lemma level_evicted:
  assumes "buckets_sound win t bs"
  shows "bucket_level cap win (evicted t bs) k t = bucket_level cap win bs k t"
proof (rule level_dropped [OF assms])
  have "distinct (map fst bs)" using assms by (simp add: buckets_sound_def)
  then have *: "map_of (filter (\<lambda>(_, b). t < bt_expires_at b) bs) k =
      (case map_of bs k of Some b \<Rightarrow> if t < bt_expires_at b then Some b else None | None \<Rightarrow> None)"
    by (induction bs) (auto split: option.splits simp: map_of_eq_None_iff)
  show "bt_expires_at b \<le> t \<and> map_of (evicted t bs) k = None" if "map_of bs k = Some b" "map_of (evicted t bs) k \<noteq> Some b" for b
    using that * by (auto simp: evicted_def split: if_splits)
  show "map_of (evicted t bs) k = None" if "map_of bs k = None"
    using that * by (simp add: evicted_def)
qed

lemma current_bucket_None:
  assumes "current_bucket t k bs = (None, bs')" and "buckets_sound win t bs"
  shows "buckets_sound win t bs'" "\<And>j. bucket_level cap win bs' j t = bucket_level cap win bs j t"
    "map_of bs' k = None" "length bs' \<le> length bs"
proof -
  have bs': "(bs' = bs \<and> map_of bs k = None) \<or> (\<exists>b. bs' = AList.delete k bs \<and> map_of bs k = Some b \<and> bt_expires_at b \<le> t)"
    using assms(1) by (auto simp: current_bucket_def split: option.splits if_splits)
  show "buckets_sound win t bs'" using bs' assms(2) by (auto simp: AList.delete_eq buckets_sound_filter)
  show "map_of bs' k = None" using bs' by (auto simp: AList.delete_conv')
  show "length bs' \<le> length bs" using bs' by (auto simp: AList.length_delete_le)
  show "bucket_level cap win bs' j t = bucket_level cap win bs j t" for j
    by (rule level_dropped [OF assms(2)]) (use bs' in \<open>auto simp: AList.delete_conv' split: if_splits\<close>)
qed

lemma current_bucket_Some: "current_bucket t k bs = (Some b, bs') \<Longrightarrow> bs' = bs \<and> map_of bs k = Some b"
  by (auto simp: current_bucket_def split: option.splits if_splits)

text \<open>The bucket that is spent from holds the level of its key.\<close>

lemma level_update:
  "bucket_level cap win (AList.update k b bs) j t = (if j = k
     then if cap k < 1 \<or> win k < 1 then 0
       else min (of_int (cap k)) (bt_tokens b + (t - bt_updated_at b) * (of_int (cap k) / of_int (win k)))
     else bucket_level cap win bs j t)"
  by (auto simp: bucket_level_def AList.update_conv')

lemma spend_level:
  assumes "buckets_sound win t bs" and "1 \<le> cap k" and "1 \<le> win k" and "0 \<le> bt_tokens b"
    and "bt_tokens b = bucket_level cap win bs k t" and "bt_updated_at b = t" and "bt_expires_at b = t + of_int (win k * 2)"
  shows "buckets_sound win t (AList.update k (spend b) bs)"
    and "bucket_level cap win (AList.update k (spend b) bs) j t =
      bucket_level cap win bs j t - (if 1 \<le> bt_tokens b \<and> j = k then 1 else 0)"
proof -
  have "bucket_sound win t k (spend b)" using assms(4,6,7) by (simp add: bucket_sound_def spend_def)
  then show "buckets_sound win t (AList.update k (spend b) bs)" by (rule buckets_sound_update [OF assms(1)])
  have "bt_tokens b \<le> of_int (cap k)" using level_capacity [of cap win bs k t] assms(2,3,5) by (simp add: key_capacity_def)
  then show "bucket_level cap win (AList.update k (spend b) bs) j t =
      bucket_level cap win bs j t - (if 1 \<le> bt_tokens b \<and> j = k then 1 else 0)"
    using assms by (auto simp: level_update spend_def)
qed

definition process_limiter :: "(string \<Rightarrow> int) \<Rightarrow> (string \<Rightarrow> int) \<Rightarrow> rat \<Rightarrow> string \<Rightarrow> buckets \<Rightarrow> (bool \<times> int) \<times> buckets" where
  "process_limiter cap win t k bs =
     (if cap k < 1 \<or> win k < 1 then ((False, 0), bs) else consume_local_bucket t k (cap k) (win k) bs)"

definition redis_limiter :: "(string \<Rightarrow> int) \<Rightarrow> (string \<Rightarrow> int) \<Rightarrow> rat \<Rightarrow> string \<Rightarrow> buckets \<Rightarrow> (bool \<times> int) \<times> buckets" where
  "redis_limiter cap win t k bs =
     (if cap k < 1 \<or> win k < 1 then ((False, 0), bs) else redis_bucket t k (cap k) (win k) bs)"

definition process_sound :: "(string \<Rightarrow> int) \<Rightarrow> rat \<Rightarrow> buckets \<Rightarrow> bool" where
  "process_sound win t bs = (buckets_sound win t bs \<and> length bs \<le> LOCAL_BUCKET_MAX_KEYS)"

lemma refilled_level:
  assumes "map_of bs k = Some b" and "buckets_sound win t bs" and "1 \<le> cap k" and "1 \<le> win k"
  shows "bt_tokens (refilled t (cap k) (win k) b) = bucket_level cap win bs k t"
    "bt_updated_at (refilled t (cap k) (win k) b) = t"
    "bt_expires_at (refilled t (cap k) (win k) b) = t + of_int (win k * 2)"
  using assms buckets_sound_D [OF assms(2,1)] by (simp_all add: refilled_def bucket_level_def max_def)

lemma full_level:
  assumes "map_of bs k = None" and "1 \<le> cap k" and "1 \<le> win k"
  shows "bt_tokens (full_bucket t (cap k) (win k)) = bucket_level cap win bs k t"
    "bt_updated_at (full_bucket t (cap k) (win k)) = t"
    "bt_expires_at (full_bucket t (cap k) (win k)) = t + of_int (win k * 2)"
  using assms by (simp_all add: full_bucket_def bucket_level_def)

text \<open>The bucket a request finds, whatever has expired in between.\<close>

lemma found_bucket:
  assumes "buckets_sound win t bs" and "current_bucket t k bs = (current, bs')" and "1 \<le> cap k" and "1 \<le> win k"
    and "b = (case current of None \<Rightarrow> full_bucket t (cap k) (win k) | Some b0 \<Rightarrow> refilled t (cap k) (win k) b0)"
  shows "buckets_sound win t (AList.update k (spend b) bs')"
    and "bucket_level cap win (AList.update k (spend b) bs') j t =
      bucket_level cap win bs j t - (if 1 \<le> bt_tokens b \<and> j = k then 1 else 0)"
proof -
  have *: "buckets_sound win t bs' \<and> (\<forall>j. bucket_level cap win bs' j t = bucket_level cap win bs j t)
      \<and> bt_tokens b = bucket_level cap win bs' k t \<and> bt_updated_at b = t \<and> bt_expires_at b = t + of_int (win k * 2)"
  proof (cases current)
    case None
    note c = current_bucket_None [OF assms(2) [unfolded None] assms(1)]
    show ?thesis using c full_level [of bs' k cap win t, OF c(3) assms(3,4)] None assms(5) by simp
  next
    case (Some b0)
    note c = current_bucket_Some [OF assms(2) [unfolded Some]]
    show ?thesis using c assms(1,3,4,5) refilled_level [of bs k b0 win t cap] Some by simp
  qed
  then have "0 \<le> bt_tokens b" using level_nonneg by metis
  with * show "buckets_sound win t (AList.update k (spend b) bs')"
    "bucket_level cap win (AList.update k (spend b) bs') j t =
      bucket_level cap win bs j t - (if 1 \<le> bt_tokens b \<and> j = k then 1 else 0)"
    using spend_level [of win t bs' cap k b] assms(3,4) by auto
qed

lemma redis_bucket_step:
  assumes "buckets_sound win t bs" and "redis_limiter cap win t k bs = ((allowed, retry), bs')"
  shows "buckets_sound win t bs'"
    and "bucket_level cap win bs' j t \<le> bucket_level cap win bs j t - (if allowed \<and> j = k then 1 else 0)"
proof -
  obtain current bs1 where c: "current_bucket t k bs = (current, bs1)" by fastforce
  have "buckets_sound win t bs' \<and>
      bucket_level cap win bs' j t \<le> bucket_level cap win bs j t - (if allowed \<and> j = k then 1 else 0)"
  proof (cases "cap k < 1 \<or> win k < 1")
    case True
    then show ?thesis using assms by (simp add: redis_limiter_def)
  next
    case False
    then have cw: "1 \<le> cap k" "1 \<le> win k" by auto
    note f = found_bucket [OF assms(1) c, where cap = cap, OF cw refl]
    show ?thesis using assms(2) False c f by (auto simp: redis_limiter_def redis_bucket_def Let_def)
  qed
  then show "buckets_sound win t bs'"
    "bucket_level cap win bs' j t \<le> bucket_level cap win bs j t - (if allowed \<and> j = k then 1 else 0)" by auto
qed

lemma length_update: "length (AList.update k b bs) \<le> Suc (length bs)"
  "k \<in> fst ` set bs \<Longrightarrow> length (AList.update k b bs) = length bs"
  by (induction bs) auto

lemma evicted_length: "length (evicted t bs) \<le> length bs"
  by (simp add: evicted_def)

lemma consume_local_step:
  assumes "process_sound win t bs" and "process_limiter cap win t k bs = ((allowed, retry), bs')"
  shows "process_sound win t bs'"
    and "bucket_level cap win bs' j t \<le> bucket_level cap win bs j t - (if allowed \<and> j = k then 1 else 0)"
proof -
  have sound: "buckets_sound win t (evicted t bs)" and small: "length (evicted t bs) \<le> LOCAL_BUCKET_MAX_KEYS"
    using assms(1) evicted_length [of t bs] by (auto simp: process_sound_def evicted_sound)
  have level: "bucket_level cap win (evicted t bs) j t = bucket_level cap win bs j t"
    using assms(1) by (simp add: process_sound_def level_evicted)
  obtain current bs1 where c: "current_bucket t k (evicted t bs) = (current, bs1)" by fastforce
  have "process_sound win t bs' \<and>
      bucket_level cap win bs' j t \<le> bucket_level cap win bs j t - (if allowed \<and> j = k then 1 else 0)"
  proof (cases "cap k < 1 \<or> win k < 1")
    case True
    then show ?thesis using assms by (simp add: process_limiter_def)
  next
    case False
    then have cw: "1 \<le> cap k" "1 \<le> win k" by auto
    note f = found_bucket [OF sound c, where cap = cap, OF cw refl]
    show ?thesis
    proof (cases current)
      case None
      note n = current_bucket_None [OF c [unfolded None] sound]
      have room: "length (AList.update k b bs1) \<le> LOCAL_BUCKET_MAX_KEYS" if "\<not> LOCAL_BUCKET_MAX_KEYS \<le> length bs1" for b
        using that length_update(1) [of k b bs1] by linarith
      show ?thesis using assms(2) False c None f n small level
        by (auto simp: process_limiter_def consume_local_bucket_def process_sound_def Let_def room
            split: if_splits intro: order_trans)
    next
      case (Some b0)
      note o = current_bucket_Some [OF c [unfolded Some]]
      have "k \<in> fst ` set bs1" using o by (metis map_of_SomeD fst_conv image_eqI)
      then show ?thesis using assms(2) False c Some f o small level length_update(2) [of k bs1]
        by (auto simp: process_limiter_def consume_local_bucket_def process_sound_def Let_def)
    qed
  qed
  then show "process_sound win t bs'"
    "bucket_level cap win bs' j t \<le> bucket_level cap win bs j t - (if allowed \<and> j = k then 1 else 0)" by auto
qed

lemma process_level_nonneg: "process_sound win t bs \<Longrightarrow> 0 \<le> bucket_level cap win bs k t"
  by (simp add: process_sound_def level_nonneg)

lemma process_sound_later: "process_sound win t bs \<Longrightarrow> t \<le> t' \<Longrightarrow> process_sound win t' bs"
  by (auto simp: process_sound_def elim: buckets_sound_later)

interpretation redis_limit: limiter "redis_limiter cap win" "bucket_level cap win" "buckets_sound win"
    "key_capacity cap win" "key_rate cap win" for cap win
  by unfold_locales
    (rule level_nonneg level_capacity level_grows buckets_sound_later redis_bucket_step; assumption)+

interpretation process_limit: limiter "process_limiter cap win" "bucket_level cap win" "process_sound win"
    "key_capacity cap win" "key_rate cap win" for cap win
  by unfold_locales
    (rule process_level_nonneg level_capacity level_grows process_sound_later consume_local_step; assumption)+

section \<open>Runs of requests\<close>

text \<open>The requests of several routes and sources, each with the readings of the two clocks.\<close>

record rate_request =
  rq_redis_up :: bool
  rq_now :: rat
  rq_now_ms :: rat
  rq_scope :: string
  rq_source :: string

text \<open>The number of requests of one source to one route that are let through.\<close>

fun let_through ::
  "(string \<Rightarrow> string) \<Rightarrow> (string \<Rightarrow> int) \<Rightarrow> (string \<Rightarrow> int) \<Rightarrow> string \<Rightarrow> string \<Rightarrow> rate_request list \<Rightarrow> buckets \<times> buckets
   \<Rightarrow> nat \<times> (buckets \<times> buckets)"
where
  "let_through sha256_hex requests window scope source [] s = (0, s)"
| "let_through sha256_hex requests window scope source (q # qs) s =
     (let (answer, s') = enforce_rate_limit sha256_hex (rq_redis_up q) (rq_now q) (rq_now_ms q) (rq_scope q) (rq_source q)
            (requests (rq_scope q)) (window (rq_scope q)) s;
          (n, s'') = let_through sha256_hex requests window scope source qs s'
      in (if answer = Inr () \<and> rq_scope q = scope \<and> rq_source q = source then Suc n else n, s''))"

definition scope_of_key :: "string \<Rightarrow> string" where
  "scope_of_key k = (let rest = drop 10 k in take (length rest - 25) rest)"

lemma scope_of_bucket_key:
  assumes "\<And>x. length (sha256_hex x) = 64"
  shows "scope_of_key (bucket_key sha256_hex scope source) = scope"
  using assms by (simp add: scope_of_key_def bucket_key_def Let_def)

definition redis_requests :: "(string \<Rightarrow> string) \<Rightarrow> rate_request list \<Rightarrow> (rat \<times> string) list" where
  "redis_requests sha256_hex qs =
     List.map_filter (\<lambda>q. if rq_redis_up q then Some (rq_now_ms q, bucket_key sha256_hex (rq_scope q) (rq_source q)) else None) qs"

definition outage_requests :: "(string \<Rightarrow> string) \<Rightarrow> rate_request list \<Rightarrow> (rat \<times> string) list" where
  "outage_requests sha256_hex qs =
     List.map_filter (\<lambda>q. if rq_redis_up q then None else Some (rq_now q, bucket_key sha256_hex (rq_scope q) (rq_source q))) qs"

text \<open>Each request goes to one of the two limiters.\<close>

lemma enforce_redis:
  assumes "\<And>x. length (sha256_hex x) = 64"
    and "redis_limiter (requests \<circ> scope_of_key) (\<lambda>k. window (scope_of_key k) * 1000) now_ms
      (bucket_key sha256_hex scope source) (fst s) = ((allowed, retry), r)"
  shows "\<exists>e. enforce_rate_limit sha256_hex True now now_ms scope source (requests scope) (window scope) s
    = ((if allowed then Inr () else Inl e), (r, snd s))"
  using assms(2) by (auto simp: enforce_rate_limit_def redis_limiter_def scope_of_bucket_key [OF assms(1)] ensure_def
      Let_def split: if_splits prod.splits)

lemma enforce_process:
  assumes "\<And>x. length (sha256_hex x) = 64"
    and "process_limiter (requests \<circ> scope_of_key) (window \<circ> scope_of_key) now
      (bucket_key sha256_hex scope source) (snd s) = ((allowed, retry), bs)"
  shows "\<exists>e. enforce_rate_limit sha256_hex False now now_ms scope source (requests scope) (window scope) s
    = ((if allowed then Inr () else Inl e), (fst s, bs))"
  using assms(2) by (auto simp: enforce_rate_limit_def process_limiter_def scope_of_bucket_key [OF assms(1)] ensure_def
      Let_def split: if_splits prod.splits)

lemma let_through_split:
  assumes "\<And>x. length (sha256_hex x) = 64"
    and limits: "cap = requests \<circ> scope_of_key" "win = window \<circ> scope_of_key" "win' = (\<lambda>k. window (scope_of_key k) * 1000)"
  shows "fst (let_through sha256_hex requests window scope source qs s)
      \<le> redis_limit.passed cap win'
           (bucket_key sha256_hex scope source) (redis_requests sha256_hex qs) (fst s)
        + process_limit.passed cap win
           (bucket_key sha256_hex scope source) (outage_requests sha256_hex qs) (snd s) \<and>
    snd (let_through sha256_hex requests window scope source qs s) =
      (redis_limit.after cap win' (redis_requests sha256_hex qs) (fst s),
       process_limit.after cap win (outage_requests sha256_hex qs) (snd s))"
proof (induction qs arbitrary: s)
  case (Cons q qs)
  define k where "k = bucket_key sha256_hex (rq_scope q) (rq_source q)"
  have hit: "k = bucket_key sha256_hex scope source" if "rq_scope q = scope \<and> rq_source q = source"
    using that by (simp add: k_def)
  show ?case
  proof (cases "rq_redis_up q")
    case True
    obtain allowed retry r where c: "redis_limiter cap win'
        (rq_now_ms q) k (fst s) = ((allowed, retry), r)" by (metis prod.exhaust_sel)
    obtain n s2 where rest: "let_through sha256_hex requests window scope source qs (r, snd s) = (n, s2)" by (metis prod.exhaust_sel)
    obtain e where "enforce_rate_limit sha256_hex True (rq_now q) (rq_now_ms q) (rq_scope q) (rq_source q)
        (requests (rq_scope q)) (window (rq_scope q)) s = ((if allowed then Inr () else Inl e), (r, snd s))"
      using enforce_redis [OF assms(1) c [unfolded k_def limits]] by blast
    then have run: "let_through sha256_hex requests window scope source (q # qs) s =
        (if allowed \<and> rq_scope q = scope \<and> rq_source q = source then Suc n else n, s2)"
      using True rest by simp
    have split: "redis_requests sha256_hex (q # qs) = (rq_now_ms q, k) # redis_requests sha256_hex qs" "outage_requests sha256_hex (q # qs) = outage_requests sha256_hex qs"
      using True by (simp_all add: redis_requests_def outage_requests_def k_def)
    then show ?thesis using Cons [of "(r, snd s)"] rest c hit unfolding run split by (auto split: if_splits)
  next
    case False
    obtain allowed retry bs where c: "process_limiter cap win
        (rq_now q) k (snd s) = ((allowed, retry), bs)" by (metis prod.exhaust_sel)
    obtain n s2 where rest: "let_through sha256_hex requests window scope source qs (fst s, bs) = (n, s2)" by (metis prod.exhaust_sel)
    obtain e where "enforce_rate_limit sha256_hex False (rq_now q) (rq_now_ms q) (rq_scope q) (rq_source q)
        (requests (rq_scope q)) (window (rq_scope q)) s = ((if allowed then Inr () else Inl e), (fst s, bs))"
      using enforce_process [OF assms(1) c [unfolded k_def limits]] by blast
    then have run: "let_through sha256_hex requests window scope source (q # qs) s =
        (if allowed \<and> rq_scope q = scope \<and> rq_source q = source then Suc n else n, s2)"
      using False rest by simp
    have split: "redis_requests sha256_hex (q # qs) = redis_requests sha256_hex qs" "outage_requests sha256_hex (q # qs) = (rq_now q, k) # outage_requests sha256_hex qs"
      using False by (simp_all add: redis_requests_def outage_requests_def k_def)
    then show ?thesis using Cons [of "(fst s, bs)"] rest c hit unfolding run split by (auto split: if_splits)
  qed
qed (simp add: redis_requests_def outage_requests_def)

lemma sound_start: "buckets_sound win t []" "process_sound win t []"
  by (simp_all add: buckets_sound_def process_sound_def)

lemma times_sorted:
  "sorted (t0 # map rq_now_ms qs) \<Longrightarrow> sorted (t0 # map fst (redis_requests sha256_hex qs))"
  "sorted (t0 # map rq_now qs) \<Longrightarrow> sorted (t0 # map fst (outage_requests sha256_hex qs))"
  by (induction qs arbitrary: t0) (auto simp: redis_requests_def outage_requests_def split: option.splits if_splits)

lemma times_members:
  "t \<in> set (map fst (redis_requests sha256_hex qs)) \<Longrightarrow> t \<in> set (map rq_now_ms qs)"
  "t \<in> set (map fst (outage_requests sha256_hex qs)) \<Longrightarrow> t \<in> set (map rq_now qs)"
  by (induction qs) (auto simp: redis_requests_def outage_requests_def split: option.splits if_splits)

section \<open>The bound on what is let through\<close>

lemma after_start:
  assumes "sorted (map rq_now (qs0 @ qs))" and "sorted (map rq_now_ms (qs0 @ qs))"
    and "\<And>q. q \<in> set qs \<Longrightarrow> t0 \<le> rq_now q" and "\<And>q. q \<in> set qs \<Longrightarrow> t0' \<le> rq_now_ms q"
    and "\<And>q. q \<in> set qs0 \<Longrightarrow> rq_now q \<le> t0" and "\<And>q. q \<in> set qs0 \<Longrightarrow> rq_now_ms q \<le> t0'"
  shows "buckets_sound win t0' (redis_limit.after cap win (redis_requests sha256_hex qs0) [])"
    and "process_sound win' t0 (process_limit.after cap win' (outage_requests sha256_hex qs0) [])"
proof -
  have first: "\<exists>t. sorted (t # map f (qs0 :: rate_request list)) \<and> t \<le> u"
    if "sorted (map f (qs0 @ qs))" "\<And>q. q \<in> set qs0 \<Longrightarrow> f q \<le> u" for f :: "rate_request \<Rightarrow> rat" and u
  proof (cases qs0)
    case (Cons q qs')
    then show ?thesis using that by (intro exI [of _ "f q"]) (auto simp: sorted_append)
  qed auto
  obtain t where t: "sorted (t # map rq_now_ms qs0)" "t \<le> t0'" using first [OF assms(2,6)] by blast
  show "buckets_sound win t0' (redis_limit.after cap win (redis_requests sha256_hex qs0) [])"
    by (rule redis_limit.after_sound [OF sound_start(1) times_sorted(1) [OF t(1)] _ t(2)])
      (use times_members(1) assms(6) in fastforce)
  obtain u where u: "sorted (u # map rq_now qs0)" "u \<le> t0" using first [OF assms(1,5)] by blast
  show "process_sound win' t0 (process_limit.after cap win' (outage_requests sha256_hex qs0) [])"
    by (rule process_limit.after_sound [OF sound_start(2) times_sorted(2) [OF u(1)] _ u(2)])
      (use times_members(2) assms(5) in fastforce)
qed

text \<open>C6: However many requests one source sends to one route, after whatever history and with the calls
  of any other routes and sources in between, those let through in a period are at most those of a full
  bucket and of the refill of the period: once if Redis answers throughout, and once more for the
  bucket of the process if Redis is out for some of them.  The dictionary of the process never holds
  more than its maximum of buckets.\<close>

theorem allowed_within:
  assumes digest: "\<And>x. length (sha256_hex x) = 64"
    and limits: "1 \<le> requests scope" "1 \<le> window scope"
    and times: "sorted (map rq_now (qs0 @ qs))" "sorted (map rq_now_ms (qs0 @ qs))"
    and history: "\<And>q. q \<in> set qs0 \<Longrightarrow> rq_now q \<le> t0" "\<And>q. q \<in> set qs0 \<Longrightarrow> rq_now_ms q \<le> t0'"
    and period: "\<And>q. q \<in> set qs \<Longrightarrow> t0 \<le> rq_now q \<and> rq_now q \<le> t1"
      "\<And>q. q \<in> set qs \<Longrightarrow> t0' \<le> rq_now_ms q \<and> rq_now_ms q \<le> t1'" "t0 \<le> t1" "t0' \<le> t1'"
    and before: "let_through sha256_hex requests window scope source qs0 ([], []) = (n0, s)"
    and run: "let_through sha256_hex requests window scope source qs s = (n, s')"
  shows "of_nat n \<le> of_int (requests scope) * (1 + (t1' - t0') / (1000 * of_int (window scope)))
      + (if \<exists>q \<in> set qs. \<not> rq_redis_up q then of_int (requests scope) * (1 + (t1 - t0) / of_int (window scope)) else 0)
    \<and> length (snd s') \<le> LOCAL_BUCKET_MAX_KEYS"
proof -
  define k where "k = bucket_key sha256_hex scope source"
  obtain cap win win' where cap_win: "cap = requests \<circ> scope_of_key" "win = window \<circ> scope_of_key"
    "win' = (\<lambda>k. window (scope_of_key k) * 1000)" by blast
  note split = let_through_split [where sha256_hex = sha256_hex and scope = scope and source = source,
      OF digest cap_win, folded k_def]
  note start = after_start [of qs0 qs t0 t0', OF times _ _ history]
  have s: "buckets_sound win' t0' (fst s)" "process_sound win t0 (snd s)"
    using split [where qs = qs0 and s = "([], [])"] before start(1) [of win' cap sha256_hex] start(2) [of win cap sha256_hex] period(1,2)
    by auto
  have sorted: "sorted (t0 # map rq_now qs)" "sorted (t0' # map rq_now_ms qs)" using times period by (auto simp: sorted_append)
  have within: "t \<le> t1'" if "t \<in> set (map fst (redis_requests sha256_hex qs))" for t
    using times_members(1) [OF that] period by auto
  have within': "t \<le> t1" if "t \<in> set (map fst (outage_requests sha256_hex qs))" for t
    using times_members(2) [OF that] period by auto
  have limit: "key_capacity cap win k = of_int (requests scope)" "key_capacity cap win' k = of_int (requests scope)"
    "key_rate cap win k = of_int (requests scope) / of_int (window scope)"
    "key_rate cap win' k = of_int (requests scope) / (1000 * of_int (window scope))"
    using limits by (simp_all add: key_capacity_def key_rate_def cap_win k_def scope_of_bucket_key [of sha256_hex, OF digest])
  have r: "of_nat (redis_limit.passed cap win' k (redis_requests sha256_hex qs) (fst s))
      \<le> of_int (requests scope) * (1 + (t1' - t0') / (1000 * of_int (window scope)))"
    using redis_limit.passed_bound [OF s(1) times_sorted(1) [OF sorted(2), of sha256_hex] within period(4), of cap k]
    by (simp add: limit algebra_simps)
  have p: "of_nat (process_limit.passed cap win k (outage_requests sha256_hex qs) (snd s))
      \<le> of_int (requests scope) * (1 + (t1 - t0) / of_int (window scope))"
    using process_limit.passed_bound [OF s(2) times_sorted(2) [OF sorted(1), of sha256_hex] within' period(3), of cap k]
    by (simp add: limit algebra_simps)
  have none: "outage_requests sha256_hex qs = []" if "\<not> (\<exists>q \<in> set qs. \<not> rq_redis_up q)"
    using that by (simp add: outage_requests_def map_filter_def)
  have "(of_nat n :: rat) \<le> of_nat (redis_limit.passed cap win' k (redis_requests sha256_hex qs) (fst s))
      + of_nat (process_limit.passed cap win k (outage_requests sha256_hex qs) (snd s))"
    using split [where qs = qs and s = s] run by (metis fst_conv of_nat_add of_nat_le_iff)
  moreover have "length (snd s') \<le> LOCAL_BUCKET_MAX_KEYS"
    using process_limit.after_sound [OF s(2) times_sorted(2) [OF sorted(1), of sha256_hex] within' period(3), of cap] split [where qs = qs and s = s] run
    by (auto simp: process_sound_def)
  ultimately show ?thesis using r p none by (auto split: if_splits)
qed

text \<open>Three requests from one source to a route of two requests a minute, Redis out for the last: each of
  the buckets answers for its own.\<close>

definition minute_requests :: "rate_request list" where
  "minute_requests = map (\<lambda>(up, t). \<lparr>rq_redis_up = up, rq_now = t, rq_now_ms = 1000 * t, rq_scope = ''login'', rq_source = ''a''\<rparr>)
     [(True, 0), (True, 1), (True, 2), (False, 3)]"

lemma minute_run:
  "fst (let_through (\<lambda>_. replicate 64 CHR ''0'') (\<lambda>_. 2) (\<lambda>_. 60) ''login'' ''a'' minute_requests ([], [])) = 3"
  by (simp add: minute_requests_def enforce_rate_limit_def redis_bucket_def consume_local_bucket_def current_bucket_def
      evicted_def LOCAL_BUCKET_MAX_KEYS_def full_bucket_def refilled_def spend_def ensure_def rate_limited_def Let_def)

lemma allowed_within_witness:
  "of_nat (fst (let_through (\<lambda>_. replicate 64 CHR ''0'') (\<lambda>_. 2) (\<lambda>_. 60) ''login'' ''a'' minute_requests ([], [])))
      \<le> (2::rat) * (1 + 3 / 60) + 2 * (1 + 3 / 60)
    \<and> fst (let_through (\<lambda>_. replicate 64 CHR ''0'') (\<lambda>_. 2) (\<lambda>_. 60) ''login'' ''a'' minute_requests ([], [])) = 3"
proof -
  obtain n s' where run: "let_through (\<lambda>_. replicate 64 CHR ''0'') (\<lambda>_. 2) (\<lambda>_. 60) ''login'' ''a'' minute_requests ([], []) = (n, s')"
    by (metis prod.exhaust_sel)
  have "of_nat n \<le> of_int 2 * (1 + (3000 - 0) / (1000 * of_int 60))
      + (if \<exists>q \<in> set minute_requests. \<not> rq_redis_up q then of_int 2 * (1 + (3 - 0) / of_int 60) else (0::rat))
    \<and> length (snd s') \<le> LOCAL_BUCKET_MAX_KEYS"
    by (rule allowed_within [of "\<lambda>_. replicate 64 CHR ''0''" "\<lambda>_. 2" "''login''" "\<lambda>_. 60" "[]" minute_requests 0 0 3 3000 "''a''" 0 "([], [])" n s'])
      (use run in \<open>auto simp: minute_requests_def\<close>)
  then have "of_nat n \<le> (2::rat) * (1 + 3 / 60) + 2 * (1 + 3 / 60)" by (simp add: minute_requests_def)
  then show ?thesis using minute_run run by simp
qed

end
