(* ===== verification/Compliance.thy ===== *)
theory Compliance
  imports Provider_Catalog "HOL-Library.Sublist"
begin

text \<open>
  Consent, suppressions and privacy requests (\<^verbatim>\<open>domains/compliance/service.py\<close>,
  \<^verbatim>\<open>domains/compliance/schemas.py\<close>, \<^verbatim>\<open>domains/compliance/models.py\<close>, \<^verbatim>\<open>api/v1/compliance.py\<close>), and what they
  do to the set of suppressed destinations.

  \<open>sha\<close> is the digest; the clock, the fresh identifier and the fresh receipt token are
  arguments.  Rows of suppressions and consent events are known by their columns, not by an identifier.
\<close>

section \<open>Strings\<close>

definition digest :: "(string \<Rightarrow> string) \<Rightarrow> string \<Rightarrow> string" where
  "digest sha value = sha (lower (strip value))"

fun split_words :: "string \<Rightarrow> string \<Rightarrow> string list" where
  "split_words w [] = (if w = [] then [] else [w])"
| "split_words w (c # s) =
     (if is_space c then (if w = [] then split_words [] s else w # split_words [] s) else split_words (w @ [c]) s)"

fun join_words :: "string list \<Rightarrow> string" where
  "join_words [] = []"
| "join_words [w] = w"
| "join_words (w # ws) = w @ '' '' @ join_words ws"

fun occurs_in :: "string \<Rightarrow> string \<Rightarrow> bool" where
  "occurs_in p [] = (p = [])"
| "occurs_in p (c # s) = (prefix p (c # s) \<or> occurs_in p s)"

definition normalized_message :: "string \<Rightarrow> string" where
  "normalized_message message =
     join_words (split_words [] (map (\<lambda>c. if c = CHR ''-'' then CHR '' '' else c) (upper message)))"

definition is_revocation :: "string \<Rightarrow> bool" where
  "is_revocation message = (let normalized = normalized_message message in
     List.member [''STOP'', ''QUIT'', ''END'', ''REVOKE'', ''OPT OUT'', ''CANCEL'', ''UNSUBSCRIBE''] normalized
     \<or> list_ex (\<lambda>phrase. occurs_in phrase normalized) [''STOP TEXTING'', ''DO NOT TEXT'', ''REMOVE ME'', ''NO MORE MESSAGES''])"

section \<open>Rows\<close>

datatype privacy_request_state = PR_RECEIVED | PR_VERIFYING | PR_IN_PROGRESS | PR_COMPLETED | PR_DENIED | PR_APPEALED

definition privacy_request_status_value :: "privacy_request_state \<Rightarrow> string" where
  "privacy_request_status_value st = (case st of
      PR_RECEIVED \<Rightarrow> ''RECEIVED'' | PR_VERIFYING \<Rightarrow> ''VERIFYING'' | PR_IN_PROGRESS \<Rightarrow> ''IN_PROGRESS''
    | PR_COMPLETED \<Rightarrow> ''COMPLETED'' | PR_DENIED \<Rightarrow> ''DENIED'' | PR_APPEALED \<Rightarrow> ''APPEALED'')"

record privacy_request_row = row +
  pr_request_type :: string
  pr_normalized_email :: string
  pr_status :: privacy_request_state
  pr_verification_state :: string
  pr_receipt_token_hash :: string
  pr_jurisdiction :: "string option"
  pr_due_at :: datetime
  pr_completed_at :: "datetime option"
  pr_source_ip_hash :: string
  pr_user_agent :: "string option"
  pr_history :: "json list"

record consent_event =
  ce_destination_hash :: string
  ce_customer_id :: "uuid option"
  ce_purpose :: string
  ce_granted :: bool
  ce_occurred_at :: datetime
  ce_source_ip_hash :: string
  ce_user_agent :: "string option"
  ce_source_url :: string
  ce_disclosure_text :: string
  ce_policy_versions :: "(string \<times> string) list"
  ce_evidence :: json_object

record suppression =
  su_destination_hash :: string
  su_channel :: string
  su_purpose :: string
  su_reason :: string
  su_active :: bool
  su_source :: string

record compliance_store =
  cs_privacy_requests :: "privacy_request_row list"
  cs_consent_events :: "consent_event list"
  cs_suppressions :: "suppression list"
  cs_audit_logs :: "audit_log list"

definition no_compliance :: compliance_store where
  "no_compliance = \<lparr>cs_privacy_requests = [], cs_consent_events = [], cs_suppressions = [], cs_audit_logs = []\<rparr>"

type_synonym su_key = "string \<times> string \<times> string"

definition su_key_of :: "suppression \<Rightarrow> su_key" where
  "su_key_of u = (su_destination_hash u, su_channel u, su_purpose u)"

section \<open>ComplianceService\<close>

definition suppress :: "su_key \<Rightarrow> string \<Rightarrow> string \<Rightarrow> compliance_store \<Rightarrow> compliance_store" where
  "suppress k reason source s =
     (case lookup_row su_key_of k (cs_suppressions s) of
        Some _ \<Rightarrow> s\<lparr>cs_suppressions := update_row su_key_of k
          (\<lambda>u. u\<lparr>su_active := True, su_reason := reason, su_source := source\<rparr>) (cs_suppressions s)\<rparr>
      | None \<Rightarrow> s\<lparr>cs_suppressions := cs_suppressions s @
          [\<lparr>su_destination_hash = fst k, su_channel = fst (snd k), su_purpose = snd (snd k), su_reason = reason,
            su_active = True, su_source = source\<rparr>]\<rparr>)"

definition reactivate :: "su_key \<Rightarrow> compliance_store \<Rightarrow> compliance_store" where
  "reactivate k s =
     (case find (\<lambda>u. su_key_of u = k \<and> su_active u) (cs_suppressions s) of
        None \<Rightarrow> s
      | Some _ \<Rightarrow> s\<lparr>cs_suppressions := update_row su_key_of k (\<lambda>u. u\<lparr>su_active := False\<rparr>) (cs_suppressions s)\<rparr>)"

text \<open>The column of a text holds at most so many characters.\<close>

definition fits :: "nat \<Rightarrow> string option \<Rightarrow> bool" where
  "fits n x = (case x of None \<Rightarrow> True | Some v \<Rightarrow> length v \<le> n)"

record privacy_create =
  pvc_request_type :: string
  pvc_email :: string
  pvc_jurisdiction :: "string option"
  pvc_gpc :: bool

definition PRIVACY_TYPES :: "string list" where
  "PRIVACY_TYPES = [''access'', ''correction'', ''deletion'', ''portability'', ''opt_out_sale_sharing'', ''opt_out_targeted_ads'',
     ''appeal'']"

definition checked_privacy :: "privacy_create \<Rightarrow> unit result" where
  "checked_privacy d =
     bindE (ensure (List.member PRIVACY_TYPES (pvc_request_type d)) (ValueError ''requestType'')) (\<lambda>_.
     ensure (case pvc_jurisdiction d of None \<Rightarrow> True | Some j \<Rightarrow> length j = 2 \<and> list_all is_ascii_upper j)
       (ValueError ''jurisdiction''))"

definition opts_out :: "privacy_create \<Rightarrow> bool" where
  "opts_out d = (pvc_request_type d = ''opt_out_sale_sharing'' \<or> pvc_request_type d = ''opt_out_targeted_ads'' \<or> pvc_gpc d)"

definition OPT_OUT_PURPOSES :: "string list" where
  "OPT_OUT_PURPOSES = [''SALE_SHARING'', ''TARGETED_ADVERTISING'', ''NONESSENTIAL_TRACKING'']"

definition new_privacy_request ::
  "(string \<Rightarrow> string) \<Rightarrow> datetime \<Rightarrow> uuid \<Rightarrow> string \<Rightarrow> privacy_create \<Rightarrow> string \<Rightarrow> string option \<Rightarrow> privacy_request_row"
where
  "new_privacy_request sha now i token d source_ip user_agent =
     \<lparr>pk = i, created_at = now, pr_request_type = pvc_request_type d, pr_normalized_email = lower (pvc_email d),
      pr_status = PR_RECEIVED, pr_verification_state = ''PENDING'', pr_receipt_token_hash = digest sha token,
      pr_jurisdiction = pvc_jurisdiction d, pr_due_at = now + days 45, pr_completed_at = None,
      pr_source_ip_hash = digest sha source_ip, pr_user_agent = user_agent,
      pr_history = [JObj [(''at'', JTime now), (''action'', JStr ''received''), (''gpc'', JBool (pvc_gpc d))]]\<rparr>"

definition privacy_request ::
  "(string \<Rightarrow> string) \<Rightarrow> datetime \<Rightarrow> uuid \<Rightarrow> string \<Rightarrow> privacy_create \<Rightarrow> string \<Rightarrow> string option \<Rightarrow> compliance_store
   \<Rightarrow> (compliance_store, privacy_request_row \<times> string) outcome"
where
  "privacy_request sha now i token d source_ip user_agent s =
     committed s (
       bindE (checked_privacy d) (\<lambda>_.
       bindE (ensure (fits 500 user_agent) (DataError ''privacy_requests.user_agent'')) (\<lambda>_.
       let item = new_privacy_request sha now i token d source_ip user_agent;
           s1 = s\<lparr>cs_privacy_requests := cs_privacy_requests s @ [item]\<rparr>;
           s2 = (if opts_out d
                 then List.fold (\<lambda>purpose. suppress (digest sha (pvc_email d), ''ALL'', purpose) ''PRIVACY_OPT_OUT''
                          (if pvc_gpc d then ''GPC'' else ''PRIVACY_REQUEST'')) OPT_OUT_PURPOSES s1
                 else s1)
       in Inr ((item, token), s2\<lparr>cs_audit_logs := cs_audit_logs s2 @
            [\<lparr>al_actor_id = None, al_actor_type = ''consumer'', al_action = ''privacy_request.received'',
              al_resource_type = ''privacy_request'', al_resource_id = i,
              al_metadata_json = [(''request_type'', JStr (pvc_request_type d)), (''gpc'', JBool (pvc_gpc d))],
              al_created_at = now\<rparr>]\<rparr>))))"

record preferences_create =
  pf_destination :: string
  pf_transactional_email :: bool
  pf_transactional_sms :: bool
  pf_marketing_email :: bool
  pf_marketing_sms :: bool
  pf_source_url :: string
  pf_disclosure_text :: string
  pf_policy_versions :: "(string \<times> string) list"

definition is_email :: "string \<Rightarrow> bool" where "is_email destination = List.member destination CHR ''@''"

definition checked_preferences :: "preferences_create \<Rightarrow> unit result" where
  "checked_preferences d =
     bindE (ensure (5 \<le> length (pf_destination d) \<and> length (pf_destination d) \<le> 320) (ValueError ''destination'')) (\<lambda>_.
     bindE (ensure (10 \<le> length (pf_disclosure_text d) \<and> length (pf_disclosure_text d) \<le> 4000)
       (ValueError ''disclosure_text'')) (\<lambda>_.
     bindE (ensure (\<not> (is_email (pf_destination d) \<and> pf_transactional_sms d)) (ValueError ''SMS requires a phone number'')) (\<lambda>_.
     ensure (\<not> (\<not> is_email (pf_destination d) \<and> pf_transactional_email d))
       (ValueError ''email requires an email address''))))"

definition preference_values :: "preferences_create \<Rightarrow> (string \<times> bool) list" where
  "preference_values d =
     [(''TRANSACTIONAL_EMAIL'', pf_transactional_email d), (''TRANSACTIONAL_SMS'', pf_transactional_sms d),
      (''MARKETING_EMAIL'', pf_marketing_email d), (''MARKETING_SMS'', pf_marketing_sms d)]"

definition applicable_values :: "preferences_create \<Rightarrow> (string \<times> bool) list" where
  "applicable_values d =
     filter (\<lambda>(purpose, _). occurs_in ''EMAIL'' purpose = is_email (pf_destination d)) (preference_values d)"

definition purpose_channel :: "string \<Rightarrow> string" where
  "purpose_channel purpose = (if occurs_in ''EMAIL'' purpose then ''EMAIL'' else ''SMS'')"

definition record_choice ::
  "(string \<Rightarrow> string) \<Rightarrow> datetime \<Rightarrow> preferences_create \<Rightarrow> string \<Rightarrow> string option \<Rightarrow> string \<times> bool
   \<Rightarrow> compliance_store \<Rightarrow> compliance_store"
where
  "record_choice sha now d source_ip user_agent choice s =
     (let (purpose, granted) = choice;
          hashed = digest sha (pf_destination d);
          k = (hashed, purpose_channel purpose, purpose);
          s' = s\<lparr>cs_consent_events := cs_consent_events s @
            [\<lparr>ce_destination_hash = hashed, ce_customer_id = None, ce_purpose = purpose, ce_granted = granted,
              ce_occurred_at = now, ce_source_ip_hash = digest sha source_ip, ce_user_agent = user_agent,
              ce_source_url = pf_source_url d, ce_disclosure_text = pf_disclosure_text d,
              ce_policy_versions = pf_policy_versions d,
              ce_evidence = [(''checkbox_state'', JBool granted), (''brand'', JStr ''BREERO'')]\<rparr>]\<rparr>
      in if granted then reactivate k s' else suppress k ''PREFERENCE_WITHDRAWN'' ''PREFERENCE_CENTER'' s')"

definition preferences ::
  "(string \<Rightarrow> string) \<Rightarrow> datetime \<Rightarrow> preferences_create \<Rightarrow> string \<Rightarrow> string option \<Rightarrow> compliance_store
   \<Rightarrow> (compliance_store, bool) outcome"
where
  "preferences sha now d source_ip user_agent s =
     committed s (
       bindE (checked_preferences d) (\<lambda>_.
       bindE (ensure (fits 500 user_agent \<and> length (pf_source_url d) \<le> 500) (DataError ''consent_events'')) (\<lambda>_.
       Inr (\<not> list_all snd (applicable_values d),
            List.fold (record_choice sha now d source_ip user_agent) (applicable_values d) s))))"

section \<open>The routes\<close>

definition sms_revocation ::
  "(string \<Rightarrow> string) \<Rightarrow> string \<Rightarrow> string \<Rightarrow> compliance_store \<Rightarrow> (compliance_store, unit) outcome"
where
  "sms_revocation sha phone message s =
     committed s (
       bindE (ensure (7 \<le> length phone \<and> length phone \<le> 40) (ValueError ''phone'')) (\<lambda>_.
       bindE (ensure (1 \<le> length message \<and> length message \<le> 500) (ValueError ''message'')) (\<lambda>_.
       bindE (ensure (is_revocation message) (HTTPException 422 ''Message is not a recognized revocation'')) (\<lambda>_.
       Inr ((), suppress (digest sha phone, ''SMS'', ''MARKETING_SMS'') ''RECIPIENT_REVOCATION'' ''SMS_INBOUND'' s)))))"

definition removeprefix :: "string \<Rightarrow> string \<Rightarrow> string" where
  "removeprefix p s = (if prefix p s then drop (length p) s else s)"

text \<open>The view is the row of the request; the route leaves out its hashes.\<close>

definition privacy_request_status ::
  "(string \<Rightarrow> string) \<Rightarrow> uuid \<Rightarrow> string \<Rightarrow> compliance_store \<Rightarrow> privacy_request_row result"
where
  "privacy_request_status sha request_id authorization s =
     bindE (ensure (prefix ''Bearer '' authorization) (HTTPException 401 ''Receipt token required'')) (\<lambda>_.
     bindE (of_option (HTTPException 403 ''Invalid receipt token'') (lookup_row pk request_id (cs_privacy_requests s))) (\<lambda>item.
     bindE (ensure (pr_receipt_token_hash item = digest sha (removeprefix ''Bearer '' authorization))
       (HTTPException 403 ''Invalid receipt token'')) (\<lambda>_.
     Inr item)))"

section \<open>The set of suppressed destinations\<close>

text \<open>What the service promises: the set of the suppressed triples of destination, channel and purpose.\<close>

definition suppressed :: "compliance_store \<Rightarrow> su_key set" where
  "suppressed s = {k. \<exists>u \<in> set (cs_suppressions s). su_key_of u = k \<and> su_active u}"

definition keys_unique :: "compliance_store \<Rightarrow> bool" where
  "keys_unique s = distinct (map su_key_of (cs_suppressions s))"

lemma suppressed_cong: "cs_suppressions s = cs_suppressions s' \<Longrightarrow> suppressed s = suppressed s'"
  by (simp add: suppressed_def)

lemma keys_after_update: "(\<And>u. su_key_of (f u) = su_key_of u) \<Longrightarrow> map su_key_of (update_row su_key_of k f us) = map su_key_of us"
  by (simp add: map_key_update_row)

lemma suppress_keys: "keys_unique s \<Longrightarrow> keys_unique (suppress k reason source s)"
  by (auto simp: suppress_def keys_unique_def keys_after_update su_key_of_def lookup_row_None split: option.split)

lemma reactivate_keys: "keys_unique s \<Longrightarrow> keys_unique (reactivate k s)"
  by (auto simp: reactivate_def keys_unique_def keys_after_update su_key_of_def split: option.split)

lemma su_key_of_update [simp]: "su_key_of (u\<lparr>su_active := a, su_reason := r, su_source := o'\<rparr>) = su_key_of u"
  "su_key_of (u\<lparr>su_active := a\<rparr>) = su_key_of u"
  by (simp_all add: su_key_of_def)

lemma active_update:
  assumes "\<And>u. su_key_of (f u) = su_key_of u"
  shows "(\<exists>u \<in> set (update_row su_key_of k f us). su_key_of u = j \<and> su_active u) \<longleftrightarrow>
    (\<exists>u \<in> set us. su_key_of u = j \<and> su_active (if j = k then f u else u))"
  using assms by (induction us) (auto simp: update_row_def update_where_def)

lemma suppressed_suppress: "suppressed (suppress k reason source s) = insert k (suppressed s)"
proof (cases "lookup_row su_key_of k (cs_suppressions s)")
  case None
  then show ?thesis by (auto simp: suppress_def suppressed_def su_key_of_def)
next
  case (Some u)
  then have "u \<in> set (cs_suppressions s)" "su_key_of u = k" by (auto dest: lookup_row_mem lookup_row_key)
  then show ?thesis using Some by (auto simp: suppress_def suppressed_def active_update)
qed

lemma suppressed_reactivate: "suppressed (reactivate k s) = suppressed s - {k}"
  by (auto simp: reactivate_def suppressed_def active_update find_None_iff split: option.split)

section \<open>Commands\<close>

datatype compliance_command =
    Ask_privacy datetime uuid string privacy_create string "string option"
  | Set_preferences datetime preferences_create string "string option"
  | Text_message string string

definition compliance_step :: "(string \<Rightarrow> string) \<Rightarrow> compliance_command \<Rightarrow> compliance_store \<Rightarrow> (compliance_store, unit) outcome" where
  "compliance_step sha c s = (case c of
      Ask_privacy now i token d ip agent \<Rightarrow>
        (let (res, s') = privacy_request sha now i token d ip agent s in (map_sum id (\<lambda>_. ()) res, s'))
    | Set_preferences now d ip agent \<Rightarrow>
        (let (res, s') = preferences sha now d ip agent s in (map_sum id (\<lambda>_. ()) res, s'))
    | Text_message phone message \<Rightarrow> sms_revocation sha phone message s)"

text \<open>The specification: what an accepted command adds to the set and takes from it.\<close>

definition suppresses :: "(string \<Rightarrow> string) \<Rightarrow> compliance_command \<Rightarrow> su_key set" where
  "suppresses sha c = (case c of
      Ask_privacy _ _ _ d _ _ \<Rightarrow>
        if opts_out d then (\<lambda>p. (digest sha (pvc_email d), ''ALL'', p)) ` set OPT_OUT_PURPOSES else {}
    | Set_preferences _ d _ _ \<Rightarrow>
        {(digest sha (pf_destination d), purpose_channel p, p) | p. (p, False) \<in> set (applicable_values d)}
    | Text_message phone _ \<Rightarrow> {(digest sha phone, ''SMS'', ''MARKETING_SMS'')})"

definition allows_again :: "(string \<Rightarrow> string) \<Rightarrow> compliance_command \<Rightarrow> su_key set" where
  "allows_again sha c = (case c of
      Set_preferences _ d _ _ \<Rightarrow>
        {(digest sha (pf_destination d), purpose_channel p, p) | p. (p, True) \<in> set (applicable_values d)}
    | _ \<Rightarrow> {})"

lemma suppressed_fold:
  "suppressed (List.fold (\<lambda>p. suppress (f p) reason source) ps s) = f ` set ps \<union> suppressed s"
  by (induction ps arbitrary: s) (auto simp: suppressed_suppress)

lemma keys_fold: "keys_unique s \<Longrightarrow> keys_unique (List.fold (\<lambda>p. suppress (f p) reason source) ps s)"
  by (induction ps arbitrary: s) (auto simp: suppress_keys)

lemma suppressed_choice:
  "suppressed (record_choice sha now d ip agent (p, g) s) =
     (if g then suppressed s - {(digest sha (pf_destination d), purpose_channel p, p)}
      else insert (digest sha (pf_destination d), purpose_channel p, p) (suppressed s))"
  by (auto simp: record_choice_def Let_def suppressed_suppress suppressed_reactivate) (auto simp: suppressed_def)

lemma keys_choice: "keys_unique s \<Longrightarrow> keys_unique (record_choice sha now d ip agent choice s)"
  unfolding record_choice_def Let_def
  by (auto split: prod.split intro!: suppress_keys reactivate_keys) (auto simp: keys_unique_def)

lemma keys_choices: "keys_unique s \<Longrightarrow> keys_unique (List.fold (record_choice sha now d ip agent) cs s)"
  by (induction cs arbitrary: s) (auto simp: keys_choice)

lemma suppressed_choices:
  assumes "distinct (map fst cs)"
  shows "suppressed (List.fold (record_choice sha now d ip agent) cs s) =
    (suppressed s - {(digest sha (pf_destination d), purpose_channel p, p) | p. (p, True) \<in> set cs})
      \<union> {(digest sha (pf_destination d), purpose_channel p, p) | p. (p, False) \<in> set cs}"
  using assms
proof (induction cs arbitrary: s)
  case (Cons c cs)
  obtain p g where c: "c = (p, g)" by (cases c)
  then have "(p, x) \<notin> set cs" for x using Cons.prems by force
  then show ?case using Cons c by (auto simp: suppressed_choice)
qed simp

lemma distinct_values: "distinct (map fst (applicable_values d))"
proof -
  have "distinct (map fst (preference_values d))" by (simp add: preference_values_def)
  then show ?thesis unfolding applicable_values_def by (rule distinct_map_filter)
qed

definition accepts :: "compliance_command \<Rightarrow> bool" where
  "accepts c = (case c of
      Ask_privacy _ _ _ d _ agent \<Rightarrow> checked_privacy d = Inr () \<and> fits 500 agent
    | Set_preferences _ d _ agent \<Rightarrow> checked_preferences d = Inr () \<and> fits 500 agent \<and> length (pf_source_url d) \<le> 500
    | Text_message phone message \<Rightarrow> length phone \<in> {7..40} \<and> length message \<in> {1..500} \<and> is_revocation message)"

definition specified_step :: "(string \<Rightarrow> string) \<Rightarrow> compliance_command \<Rightarrow> su_key set \<Rightarrow> su_key set" where
  "specified_step sha c k = (if accepts c then (k - allows_again sha c) \<union> suppresses sha c else k)"

fun compliance_run :: "(string \<Rightarrow> string) \<Rightarrow> compliance_command list \<Rightarrow> compliance_store \<Rightarrow> compliance_store" where
  "compliance_run sha [] s = s"
| "compliance_run sha (c # cs) s = compliance_run sha cs (snd (compliance_step sha c s))"

lemma privacy_step:
  "suppressed (snd (privacy_request sha now i token d ip agent s)) =
      specified_step sha (Ask_privacy now i token d ip agent) (suppressed s)"
  "keys_unique s \<Longrightarrow> keys_unique (snd (privacy_request sha now i token d ip agent s))"
proof -
  let ?s1 = "s\<lparr>cs_privacy_requests := cs_privacy_requests s @ [new_privacy_request sha now i token d ip agent]\<rparr>"
  have 1: "suppressed ?s1 = suppressed s" "keys_unique ?s1 = keys_unique s"
    by (simp_all add: suppressed_def keys_unique_def)
  have 2: "suppressed (s'\<lparr>cs_audit_logs := l\<rparr>) = suppressed s'" "keys_unique (s'\<lparr>cs_audit_logs := l\<rparr>) = keys_unique s'" for s' l
    by (simp_all add: suppressed_def keys_unique_def)
  show "suppressed (snd (privacy_request sha now i token d ip agent s)) =
      specified_step sha (Ask_privacy now i token d ip agent) (suppressed s)"
    by (cases "checked_privacy d") (auto simp: privacy_request_def specified_step_def accepts_def suppresses_def
        allows_again_def ensure_def Let_def 1 2 suppressed_fold)
  show "keys_unique (snd (privacy_request sha now i token d ip agent s))" if "keys_unique s"
    using that by (cases "checked_privacy d") (auto simp: privacy_request_def ensure_def Let_def 1 2 keys_fold)
qed

lemma preferences_step:
  "suppressed (snd (preferences sha now d ip agent s)) = specified_step sha (Set_preferences now d ip agent) (suppressed s)"
  "keys_unique s \<Longrightarrow> keys_unique (snd (preferences sha now d ip agent s))"
  by (cases "checked_preferences d"; simp add: preferences_def specified_step_def accepts_def suppresses_def allows_again_def
      ensure_def suppressed_choices [OF distinct_values] keys_choices)+

lemma text_step:
  "suppressed (snd (sms_revocation sha phone message s)) = specified_step sha (Text_message phone message) (suppressed s)"
  "keys_unique s \<Longrightarrow> keys_unique (snd (sms_revocation sha phone message s))"
  by (auto simp: sms_revocation_def specified_step_def accepts_def suppresses_def allows_again_def ensure_def
      suppressed_suppress suppress_keys)

lemma step_suppressed:
  "suppressed (snd (compliance_step sha c s)) = specified_step sha c (suppressed s)"
  "keys_unique s \<Longrightarrow> keys_unique (snd (compliance_step sha c s))"
  by (cases c; simp add: compliance_step_def privacy_step preferences_step text_step split: prod.split;
      metis privacy_step preferences_step snd_conv)+

lemma run_suppressed:
  "suppressed (compliance_run sha cs s) = List.fold (specified_step sha) cs (suppressed s)"
  "keys_unique s \<Longrightarrow> keys_unique (compliance_run sha cs s)"
  by (induction cs arbitrary: s) (simp_all add: step_suppressed)

lemma start_suppressed: "suppressed no_compliance = {}" "keys_unique no_compliance"
  by (simp_all add: suppressed_def keys_unique_def no_compliance_def)


text \<open>A text that says stop holds until the preferences of that number allow marketing again.\<close>

lemma specified_keeps: "k \<in> ks \<Longrightarrow> accepts c \<and> k \<in> allows_again sha c \<longrightarrow> k \<in> suppresses sha c \<Longrightarrow> k \<in> specified_step sha c ks"
  by (auto simp: specified_step_def)

lemma specified_run_keeps:
  assumes "k \<in> ks" and "\<And>c. c \<in> set cs \<Longrightarrow> accepts c \<Longrightarrow> k \<notin> allows_again sha c"
  shows "k \<in> List.fold (specified_step sha) cs ks"
  using assms
proof (induction cs arbitrary: ks)
  case (Cons c cs)
  then have "k \<in> specified_step sha c ks" by (intro specified_keeps) auto
  then show ?case using Cons by simp
qed simp

lemma revocation_stands:
  assumes "accepts (Text_message phone message)"
    and "\<And>c. c \<in> set cs \<Longrightarrow> accepts c \<Longrightarrow> (digest sha phone, ''SMS'', ''MARKETING_SMS'') \<notin> allows_again sha c"
  shows "(digest sha phone, ''SMS'', ''MARKETING_SMS'') \<in> suppressed (compliance_run sha (Text_message phone message # cs) s)"
proof -
  have "(digest sha phone, ''SMS'', ''MARKETING_SMS'') \<in> specified_step sha (Text_message phone message) (suppressed s)"
    using assms(1) by (simp add: specified_step_def suppresses_def)
  from specified_run_keeps [OF this assms(2)] show ?thesis by (simp add: run_suppressed(1) step_suppressed(1))
qed

lemma stop_normalized: "normalized_message ''Opt-out'' = ''OPT OUT''" "normalized_message ''Thanks'' = ''THANKS''"
  by code_simp+

lemma stop_accepted:
  "accepts (Text_message ''+15555550100'' ''Opt-out'')" "\<not> accepts (Text_message ''+15555550100'' ''Thanks'')"
  by (simp_all add: accepts_def is_revocation_def stop_normalized Let_def)

text \<open>The answer to preferences says whether a purpose of the destination is suppressed from now on.\<close>

lemma preferences_answer:
  assumes "preferences sha now d ip agent s = (Inr active, s')"
  shows "active \<longleftrightarrow> (\<exists>p g. (p, g) \<in> set (applicable_values d) \<and> (digest sha (pf_destination d), purpose_channel p, p) \<in> suppressed s')"
proof -
  have a: "active \<longleftrightarrow> (\<exists>p. (p, False) \<in> set (applicable_values d))"
    and "accepts (Set_preferences now d ip agent)"
    using assms by (cases "checked_preferences d"; force simp: preferences_def accepts_def ensure_def list_all_iff split: if_splits)+
  then have "suppressed s' = specified_step sha (Set_preferences now d ip agent) (suppressed s)"
    using preferences_step(1) [of sha now d ip agent s] assms by simp
  then show ?thesis using a \<open>accepts _\<close>
    by (auto simp: specified_step_def suppresses_def allows_again_def) (metis (full_types))
qed

text \<open>The receipt of a privacy request opens it, and nothing else does.\<close>

lemma receipt_opens:
  assumes "privacy_request sha now i token d ip agent s = (Inr (item, token'), s')"
    and "i \<notin> pk ` set (cs_privacy_requests s)"
  shows "token' = token \<and> privacy_request_status sha i (''Bearer '' @ t) s' =
    (if digest sha t = digest sha token then Inr item else Inl (HTTPException 403 ''Invalid receipt token''))"
proof -
  have r: "cs_privacy_requests (List.fold (\<lambda>p. suppress (f p) reason source) ps x) = cs_privacy_requests x" for f reason source ps x
    by (induction ps arbitrary: x) (auto simp: suppress_def split: option.split)
  have "token' = token" "item = new_privacy_request sha now i token d ip agent" "cs_privacy_requests s' = cs_privacy_requests s @ [item]"
    using assms(1) by (cases "checked_privacy d"; auto simp: privacy_request_def ensure_def Let_def r split: if_splits)+
  moreover have "lookup_row pk i (cs_privacy_requests s) = None"
    using assms(2) by (simp add: lookup_row_None)
  ultimately have "token' = token" "lookup_row pk i (cs_privacy_requests s') = Some item"
    "pr_receipt_token_hash item = digest sha token"
    by (simp_all add: lookup_row_append new_privacy_request_def) (simp add: lookup_row_def)
  then show ?thesis by (simp add: privacy_request_status_def removeprefix_def ensure_def of_option_def)
qed

end
