(* ===== verification/Public_Forms.thy ===== *)
theory Public_Forms
  imports Provider_Catalog Postal "HOL-Library.AList"
begin

text \<open>
  The public request forms: their models (\<^verbatim>\<open>domains/public_submissions/schemas.py\<close>, \<^verbatim>\<open>models.py\<close>), the
  canonical texts of consent (\<^verbatim>\<open>consent.py\<close>), their acceptance (\<^verbatim>\<open>service.py\<close>, \<^verbatim>\<open>api/v1/public_forms.py\<close>)
  and the queue of the dispatcher (\<^verbatim>\<open>api/v1/operations/dispatcher.py\<close>).

  E-mail addresses, web addresses and dates are the texts that their validators return.  \<open>payload_hash\<close> is
  the digest of the canonical JSON text of a payload, \<open>sha\<close> that of a text.  \<open>JUuid\<close> in a payload stands
  for the text of an identifier.
\<close>

section \<open>consent.py\<close>

definition DEFAULT_CONSENT_POLICY_VERSION :: string where
  "DEFAULT_CONSENT_POLICY_VERSION = ''2026-08-13-request-only''"

definition CONSENT_FLAGS :: "(string \<times> string) list" where
  "CONSENT_FLAGS =
     [(''transactional_contact_allowed'', ''transactional_contact''),
      (''transactional_email_consent'', ''transactional_email''),
      (''transactional_sms_consent'', ''transactional_sms''),
      (''marketing_email_consent'', ''marketing_email''),
      (''marketing_sms_consent'', ''marketing_sms'')]"

definition CONSENT_DISCLOSURES_BY_POLICY :: "(string \<times> (string \<times> string) list) list" where
  "CONSENT_DISCLOSURES_BY_POLICY =
     [(DEFAULT_CONSENT_POLICY_VERSION,
       [(''transactional_contact'',
         ''I agree that BREERO may contact me about this request. '' @
         ''I understand this is not a confirmed appointment.''),
        (''transactional_email'', ''I agree to receive appointment and service-status email from BREERO.''),
        (''transactional_sms'',
         ''I agree to receive recurring automated appointment and service-status text '' @
         ''messages from BREERO at the number provided. Message frequency varies. '' @
         ''Message and data rates may apply. Reply STOP to opt out or HELP for help. '' @
         ''Consent is not a condition of purchase.''),
        (''marketing_email'', ''I separately agree to marketing email. Marketing email is currently disabled.''),
        (''marketing_sms'',
         ''I agree to receive recurring automated promotional and marketing text '' @
         ''messages from BREERO at the number provided. Message frequency varies. '' @
         ''Message and data rates may apply. Reply STOP to opt out or HELP for help. '' @
         ''Consent is not a condition of purchase. Marketing SMS is currently disabled.'')])]"

definition canonical_disclosures :: "(string \<Rightarrow> bool) \<Rightarrow> string \<Rightarrow> (string \<times> string) list result" where
  "canonical_disclosures consent_flags policy_version =
     (case map_of CONSENT_DISCLOSURES_BY_POLICY policy_version of
        None \<Rightarrow> Inl (ValueError (''Unsupported consent policy version: '' @ policy_version))
      | Some policy \<Rightarrow> Inr (map (\<lambda>(_, disclosure_key). (disclosure_key, the (map_of policy disclosure_key)))
          (filter (\<lambda>(flag, _). consent_flags flag) CONSENT_FLAGS)))"

section \<open>schemas.py\<close>

record tracking =
  tk_source_url :: string
  tk_utm_source :: "string option"
  tk_utm_medium :: "string option"
  tk_utm_campaign :: "string option"
  tk_utm_content :: "string option"
  tk_utm_term :: "string option"
  tk_language :: "string option"
  tk_customer_timezone :: "string option"
  tk_transactional_contact_allowed :: bool
  tk_transactional_email_consent :: bool
  tk_transactional_sms_consent :: bool
  tk_marketing_email_consent :: bool
  tk_marketing_sms_consent :: bool
  tk_consent_disclosures :: "(string \<times> string) list"
  tk_marketing_consent :: bool
  tk_sms_consent :: bool
  tk_email_consent :: bool
  tk_consent_timestamp :: "string option"
  tk_consent_source :: "string option"
  tk_policy_version :: "string option"
  tk_company :: string

text \<open>The first check that fails names its field.\<close>

fun field_checks :: "(string \<times> bool) list \<Rightarrow> unit result" where
  "field_checks [] = Inr ()"
| "field_checks ((field, ok) # cs) = (if ok then field_checks cs else Inl (ValueError field))"

definition text_of :: "nat \<Rightarrow> nat \<Rightarrow> string \<Rightarrow> bool" where
  "text_of low high t = (low \<le> length t \<and> length t \<le> high)"

definition text_within :: "nat \<Rightarrow> nat \<Rightarrow> string option \<Rightarrow> bool" where
  "text_within low high t = (case t of None \<Rightarrow> True | Some v \<Rightarrow> text_of low high v)"

definition bounded_consent_disclosures :: "(string \<times> string) list \<Rightarrow> unit result" where
  "bounded_consent_disclosures ds =
     bindE (ensure (length ds \<le> 10) (ValueError ''At most 10 consent disclosures may be supplied'')) (\<lambda>_.
     case find (\<lambda>(key, disclosure). \<not> text_of 1 80 key \<or> strip disclosure = [] \<or> 2000 < length disclosure) ds of
       None \<Rightarrow> Inr ()
     | Some (key, _) \<Rightarrow> Inl (ValueError (if text_of 1 80 key then ''Consent disclosure text must contain 1 to 2000 characters''
         else ''Consent disclosure keys must contain 1 to 80 characters'')))"

definition any_consent :: "tracking \<Rightarrow> bool" where
  "any_consent t = (tk_transactional_contact_allowed t \<or> tk_transactional_email_consent t \<or> tk_transactional_sms_consent t
     \<or> tk_marketing_email_consent t \<or> tk_marketing_sms_consent t)"

definition require_versioned_consent_evidence :: "tracking \<Rightarrow> unit result" where
  "require_versioned_consent_evidence t =
     bindE (ensure (\<not> (tk_marketing_consent t \<or> tk_sms_consent t \<or> tk_email_consent t))
       (ValueError ''Legacy aggregate consent flags are not accepted; use the channel-specific flags'')) (\<lambda>_.
     if \<not> any_consent t then Inr ()
     else case tk_policy_version t of
         None \<Rightarrow> Inl (ValueError ''A policy version is required for consent'')
       | Some v \<Rightarrow>
           if v = [] then Inl (ValueError ''A policy version is required for consent'')
           else ensure (map_of CONSENT_DISCLOSURES_BY_POLICY v \<noteq> None)
             (ValueError ''The supplied consent policy version is not supported''))"

definition tracking_checks :: "tracking \<Rightarrow> (string \<times> bool) list" where
  "tracking_checks t =
     [(''utm_source'', text_within 0 120 (tk_utm_source t)), (''utm_medium'', text_within 0 120 (tk_utm_medium t)),
      (''utm_campaign'', text_within 0 120 (tk_utm_campaign t)), (''utm_content'', text_within 0 120 (tk_utm_content t)),
      (''utm_term'', text_within 0 120 (tk_utm_term t)), (''language'', text_within 0 16 (tk_language t)),
      (''customer_timezone'', text_within 0 64 (tk_customer_timezone t)),
      (''consent_timestamp'', text_within 0 40 (tk_consent_timestamp t)),
      (''consent_source'', text_within 0 120 (tk_consent_source t)),
      (''policy_version'', text_within 0 40 (tk_policy_version t)), (''company'', text_of 0 0 (tk_company t))]"

definition checked_form :: "tracking \<Rightarrow> (string \<times> bool) list \<Rightarrow> unit result" where
  "checked_form t own =
     bindE (field_checks (tracking_checks t @ own)) (\<lambda>_.
     bindE (bounded_consent_disclosures (tk_consent_disclosures t)) (\<lambda>_.
     require_versioned_consent_evidence t))"

record service_request_form =
  sf_name :: string
  sf_email :: string
  sf_phone :: string
  sf_service_id :: "uuid option"
  sf_service_slug :: "string option"
  sf_service_description :: string
  sf_address_line1 :: string
  sf_city :: string
  sf_state :: string
  sf_postal_code :: string
  sf_requested_date :: "string option"
  sf_requested_timing :: "string option"
  sf_contact_preference :: string

record contact_form =
  cf_name :: string
  cf_email :: string
  cf_phone :: "string option"
  cf_category :: string
  cf_subject :: string
  cf_message :: string

record provider_interest_form =
  if_business_name :: string
  if_contact_name :: string
  if_email :: string
  if_phone :: string
  if_business_website :: "string option"
  if_service_categories :: "string list"
  if_city :: string
  if_state :: string
  if_postal_code :: string
  if_license_details :: "string option"
  if_notes :: "string option"

text \<open>\<^verbatim>\<open>SERVICE_SLUG_PATTERN\<close>: words of lower-case letters and digits, joined by single dashes.\<close>

fun slug_words :: "bool \<Rightarrow> string \<Rightarrow> bool" where
  "slug_words started [] = started"
| "slug_words started (c # s) =
     (if is_ascii_lower c \<or> is_digit c then slug_words True s else c = CHR ''-'' \<and> started \<and> slug_words False s)"

definition is_service_slug :: "string \<Rightarrow> bool" where "is_service_slug s = slug_words False s"

definition service_request_checks :: "service_request_form \<Rightarrow> (string \<times> bool) list" where
  "service_request_checks d =
     [(''name'', text_of 2 160 (sf_name d)), (''phone'', text_of 7 40 (sf_phone d)),
      (''service_slug'', case sf_service_slug d of None \<Rightarrow> True | Some v \<Rightarrow> is_service_slug v),
      (''service_description'', text_of 5 4000 (sf_service_description d)),
      (''address_line1'', text_of 3 240 (sf_address_line1 d)), (''city'', text_of 2 120 (sf_city d)),
      (''state'', List.member US_STATES_AND_DC (sf_state d)),
      (''postal_code'', zip_fullmatch (sf_postal_code d) \<noteq> None),
      (''requested_timing'', text_within 0 200 (sf_requested_timing d)),
      (''contact_preference'', List.member [''email'', ''phone'', ''text''] (sf_contact_preference d))]"

definition CONTACT_CATEGORIES :: "string list" where
  "CONTACT_CATEGORIES = [''booking_help'', ''service_issue'', ''billing'', ''general'', ''business'', ''privacy_request'',
     ''provider_question'']"

definition contact_checks :: "contact_form \<Rightarrow> (string \<times> bool) list" where
  "contact_checks d =
     [(''name'', text_of 2 160 (cf_name d)), (''phone'', text_within 7 40 (cf_phone d)),
      (''category'', List.member CONTACT_CATEGORIES (cf_category d)), (''subject'', text_of 3 200 (cf_subject d)),
      (''message'', text_of 10 5000 (cf_message d))]"

definition normalized_categories :: "provider_interest_form \<Rightarrow> string list" where
  "normalized_categories d = map (\<lambda>c. lower (strip c)) (if_service_categories d)"

definition provider_interest_checks :: "provider_interest_form \<Rightarrow> (string \<times> bool) list" where
  "provider_interest_checks d =
     [(''business_name'', text_of 2 200 (if_business_name d)), (''contact_name'', text_of 2 160 (if_contact_name d)),
      (''phone'', text_of 7 40 (if_phone d)),
      (''service_categories'', 1 \<le> length (if_service_categories d) \<and> length (if_service_categories d) \<le> 20
         \<and> list_all is_service_slug (normalized_categories d) \<and> distinct (normalized_categories d)),
      (''city'', text_of 2 120 (if_city d)), (''state'', List.member US_STATES_AND_DC (if_state d)),
      (''postal_code'', zip_fullmatch (if_postal_code d) \<noteq> None),
      (''license_details'', text_within 0 1000 (if_license_details d)), (''notes'', text_within 0 3000 (if_notes d))]"

datatype public_form =
    Service_request tracking service_request_form
  | Contact tracking contact_form
  | Provider_interest tracking provider_interest_form

definition form_tracking :: "public_form \<Rightarrow> tracking" where
  "form_tracking f = (case f of Service_request t _ \<Rightarrow> t | Contact t _ \<Rightarrow> t | Provider_interest t _ \<Rightarrow> t)"

text \<open>The form that the request model returns: the categories in their normal form.\<close>

definition validated_form :: "public_form \<Rightarrow> public_form result" where
  "validated_form f = (case f of
      Service_request t d \<Rightarrow> bindE (checked_form t (service_request_checks d)) (\<lambda>_. Inr f)
    | Contact t d \<Rightarrow> bindE (checked_form t (contact_checks d)) (\<lambda>_. Inr f)
    | Provider_interest t d \<Rightarrow> bindE (checked_form t (provider_interest_checks d)) (\<lambda>_.
        Inr (Provider_interest t (d\<lparr>if_service_categories := normalized_categories d\<rparr>))))"

section \<open>The payload of a form\<close>

definition json_text :: "string option \<Rightarrow> json" where
  "json_text t = (case t of None \<Rightarrow> JNull | Some v \<Rightarrow> JStr v)"

definition json_texts :: "(string \<times> string) list \<Rightarrow> json" where
  "json_texts ts = JObj (map (\<lambda>(k, v). (k, JStr v)) ts)"

definition tracking_dump :: "tracking \<Rightarrow> json_object" where
  "tracking_dump t =
     [(''source_url'', JStr (tk_source_url t)), (''utm_source'', json_text (tk_utm_source t)),
      (''utm_medium'', json_text (tk_utm_medium t)), (''utm_campaign'', json_text (tk_utm_campaign t)),
      (''utm_content'', json_text (tk_utm_content t)), (''utm_term'', json_text (tk_utm_term t)),
      (''language'', json_text (tk_language t)), (''customer_timezone'', json_text (tk_customer_timezone t)),
      (''transactional_contact_allowed'', JBool (tk_transactional_contact_allowed t)),
      (''transactional_email_consent'', JBool (tk_transactional_email_consent t)),
      (''transactional_sms_consent'', JBool (tk_transactional_sms_consent t)),
      (''marketing_email_consent'', JBool (tk_marketing_email_consent t)),
      (''marketing_sms_consent'', JBool (tk_marketing_sms_consent t)),
      (''consent_disclosures'', json_texts (tk_consent_disclosures t)),
      (''marketing_consent'', JBool (tk_marketing_consent t)), (''sms_consent'', JBool (tk_sms_consent t)),
      (''email_consent'', JBool (tk_email_consent t)), (''consent_timestamp'', json_text (tk_consent_timestamp t)),
      (''consent_source'', json_text (tk_consent_source t)), (''policy_version'', json_text (tk_policy_version t))]"

definition own_dump :: "public_form \<Rightarrow> json_object" where
  "own_dump f = (case f of
      Service_request _ d \<Rightarrow>
        [(''name'', JStr (sf_name d)), (''email'', JStr (sf_email d)), (''phone'', JStr (sf_phone d)),
         (''service_id'', json_uuid (sf_service_id d)), (''service_slug'', json_text (sf_service_slug d)),
         (''service_description'', JStr (sf_service_description d)), (''address_line1'', JStr (sf_address_line1 d)),
         (''city'', JStr (sf_city d)), (''state'', JStr (sf_state d)), (''postal_code'', JStr (sf_postal_code d)),
         (''requested_date'', json_text (sf_requested_date d)), (''requested_timing'', json_text (sf_requested_timing d)),
         (''contact_preference'', JStr (sf_contact_preference d))]
    | Contact _ d \<Rightarrow>
        [(''name'', JStr (cf_name d)), (''email'', JStr (cf_email d)), (''phone'', json_text (cf_phone d)),
         (''category'', JStr (cf_category d)), (''subject'', JStr (cf_subject d)), (''message'', JStr (cf_message d))]
    | Provider_interest _ d \<Rightarrow>
        [(''business_name'', JStr (if_business_name d)), (''contact_name'', JStr (if_contact_name d)),
         (''email'', JStr (if_email d)), (''phone'', JStr (if_phone d)),
         (''business_website'', json_text (if_business_website d)),
         (''service_categories'', JList (map JStr (if_service_categories d))), (''city'', JStr (if_city d)),
         (''state'', JStr (if_state d)), (''postal_code'', JStr (if_postal_code d)),
         (''license_details'', json_text (if_license_details d)), (''notes'', json_text (if_notes d))])"

definition client_payload :: "public_form \<Rightarrow> json_object" where
  "client_payload f = tracking_dump (form_tracking f) @ own_dump f"

section \<open>models.py\<close>

definition submission_type_value :: "submission_type \<Rightarrow> string" where
  "submission_type_value ty = (case ty of
      SERVICE_REQUEST \<Rightarrow> ''SERVICE_REQUEST'' | CONTACT \<Rightarrow> ''CONTACT'' | PROVIDER_INTEREST \<Rightarrow> ''PROVIDER_INTEREST'')"

definition form_type :: "public_form \<Rightarrow> submission_type" where
  "form_type f = (case f of Service_request _ _ \<Rightarrow> SERVICE_REQUEST | Contact _ _ \<Rightarrow> CONTACT | Provider_interest _ _ \<Rightarrow> PROVIDER_INTEREST)"

section \<open>PublicSubmissionService\<close>

text \<open>A dictionary keeps the place of a key that is written again.\<close>

abbreviation put :: "string \<Rightarrow> json \<Rightarrow> json_object \<Rightarrow> json_object" where
  "put k v payload \<equiv> AList.update k v payload"

definition put_all :: "json_object \<Rightarrow> json_object \<Rightarrow> json_object" where
  "put_all kvs payload = List.fold (\<lambda>(k, v). put k v) kvs payload"

definition existing_submission :: "submission_type \<Rightarrow> string \<Rightarrow> public_submission list \<Rightarrow> public_submission option" where
  "existing_submission ty key subs = find (\<lambda>p. sub_submission_type p = ty \<and> sub_idempotency_key p = key) subs"

definition replay_or_conflict :: "public_submission \<Rightarrow> string \<Rightarrow> (uuid \<times> downstream_status) result" where
  "replay_or_conflict p request_hash =
     bindE (ensure (sub_request_hash p = request_hash) (DomainError ''IDEMPOTENCY_CONFLICT'' 409)) (\<lambda>_.
     Inr (pk p, sub_downstream_status p))"

definition service_request_fields :: "settings \<Rightarrow> service \<Rightarrow> json_object" where
  "service_request_fields cfg v =
     [(''service_id'', JUuid (pk v)), (''service_slug'', JStr (sv_slug v)),
      (''request_status'', JStr ''REQUESTED''), (''manual_dispatch_state'', JStr ''PENDING_MANUAL_DISPATCH''),
      (''geoapify_verification_state'',
         JStr (if \<not> geocoding_enabled cfg then ''PENDING_MANUAL_VALIDATION'' else ''PENDING_PROVIDER_VERIFICATION'')),
      (''address_timezone'', JNull), (''address_timezone_state'', JStr ''PENDING_MANUAL_CALCULATION''),
      (''contact_attempts'', JList []), (''required_follow_up'', JBool True), (''payment_required'', JBool False),
      (''quote_required'', JBool True), (''provider_assigned'', JBool False),
      (''appointment_confirmed'', JBool False)]"

definition validate_service_request ::
  "settings \<Rightarrow> service list \<Rightarrow> service_request_form \<Rightarrow> json_object \<Rightarrow> json_object result"
where
  "validate_service_request cfg svs d payload =
     bindE (of_option (DomainError ''SERVICE_NOT_FOUND'' 422)
       (find (\<lambda>v. sv_is_active v \<and> (case sf_service_id d of Some i \<Rightarrow> pk v = i | None \<Rightarrow> Some (sv_slug v) = sf_service_slug d)) svs))
     (\<lambda>v. Inr (put_all (service_request_fields cfg v) payload))"

definition validate_provider_interest :: "service list \<Rightarrow> provider_interest_form \<Rightarrow> unit result" where
  "validate_provider_interest svs d =
     ensure (list_all (\<lambda>c. list_ex (\<lambda>v. sv_slug v = c \<and> sv_is_active v) svs) (if_service_categories d))
       (DomainError ''SERVICE_NOT_FOUND'' 422)"

definition consent_flag :: "tracking \<Rightarrow> string \<Rightarrow> bool" where
  "consent_flag t flag = (map_of (tracking_dump t) flag = Some (JBool True))"

text \<open>The payload with the evidence of consent, before the service is looked up.\<close>

definition stamped_payload :: "datetime \<Rightarrow> public_form \<Rightarrow> string \<Rightarrow> (string \<times> string) list \<Rightarrow> json_object" where
  "stamped_payload now f policy_version ds =
     put ''consent_recorded_by'' (JStr ''breero_api'') (put ''consent_disclosures'' (json_texts ds) (put_all
       [(''client_consent_timestamp'', json_text (tk_consent_timestamp (form_tracking f))),
        (''client_consent_source'', json_text (tk_consent_source (form_tracking f))),
        (''client_consent_disclosures'', json_texts (tk_consent_disclosures (form_tracking f))),
        (''consent_timestamp'', JTime now), (''consent_source'', JStr ''breero_public_api''),
        (''policy_version'', JStr policy_version)] (client_payload f)))"

definition accepted_payload :: "settings \<Rightarrow> service list \<Rightarrow> datetime \<Rightarrow> public_form \<Rightarrow> json_object result" where
  "accepted_payload cfg svs now f =
     (let policy_version = (case tk_policy_version (form_tracking f) of None \<Rightarrow> ''None'' | Some v \<Rightarrow> v) in
      bindE (canonical_disclosures (consent_flag (form_tracking f)) policy_version) (\<lambda>ds.
      let payload = stamped_payload now f policy_version ds in
      case f of
        Service_request _ d \<Rightarrow> validate_service_request cfg svs d payload
      | Contact _ _ \<Rightarrow> Inr payload
      | Provider_interest _ d \<Rightarrow> bindE (validate_provider_interest svs d) (\<lambda>_. Inr payload)))"

definition form_email :: "public_form \<Rightarrow> string" where
  "form_email f = (case f of Service_request _ d \<Rightarrow> sf_email d | Contact _ d \<Rightarrow> cf_email d | Provider_interest _ d \<Rightarrow> if_email d)"

definition form_phone :: "public_form \<Rightarrow> string" where
  "form_phone f = (case f of Service_request _ d \<Rightarrow> sf_phone d | Contact _ d \<Rightarrow> (case cf_phone d of None \<Rightarrow> [] | Some p \<Rightarrow> p)
     | Provider_interest _ d \<Rightarrow> if_phone d)"

definition normalized_phone :: "public_form \<Rightarrow> string option" where
  "normalized_phone f = (let p = filter (\<lambda>c. is_digit c \<or> c = CHR ''+'') (form_phone f) in if p = [] then None else Some p)"

definition event_type_of :: "submission_type \<Rightarrow> string" where
  "event_type_of ty = (case ty of
      SERVICE_REQUEST \<Rightarrow> ''breero.service_request.created'' | CONTACT \<Rightarrow> ''breero.contact_request.created''
    | PROVIDER_INTEREST \<Rightarrow> ''breero.provider_interest.created'')"

definition new_submission ::
  "settings \<Rightarrow> (json_object \<Rightarrow> string) \<Rightarrow> (string \<Rightarrow> string) \<Rightarrow> datetime \<Rightarrow> uuid \<Rightarrow> public_form \<Rightarrow> string \<Rightarrow> string
   \<Rightarrow> json_object \<Rightarrow> public_submission"
where
  "new_submission cfg payload_hash sha now i f key source_ip payload =
     \<lparr>pk = i, created_at = now, sub_submission_type = form_type f, sub_idempotency_key = key,
      sub_request_hash = payload_hash (client_payload f), sub_normalized_email = lower (strip (form_email f)),
      sub_normalized_phone = normalized_phone f, sub_payload = payload,
      sub_downstream_status = (if middleware_enabled cfg then DS_PENDING else DS_PENDING_CONFIGURATION),
      sub_source_ip_hash = sha source_ip\<rparr>"

definition submission_event :: "settings \<Rightarrow> datetime \<Rightarrow> uuid \<Rightarrow> public_submission \<Rightarrow> integration_event" where
  "submission_event cfg now event_id p =
     (new_event event_id ''public_submission'' (pk p) (event_type_of (sub_submission_type p))
        (Some (lower (submission_type_value (sub_submission_type p)) @ '':'' @ str_uuid (pk p) @ '':1''))
        [(''submission_id'', JUuid (pk p)), (''route'', JStr (submission_type_value (sub_submission_type p))),
         (''payload'', JObj (sub_payload p))] now)
     \<lparr>ev_status := (if middleware_enabled cfg then E_PENDING else E_PENDING_CONFIGURATION)\<rparr>"

text \<open>
  The first query sees the first \<open>seen\<close> rows; those after it are committed by requests that run at the
  same time, and the unique constraint on type and key refuses a second row of either.
\<close>

definition accept_submission ::
  "settings \<Rightarrow> (json_object \<Rightarrow> string) \<Rightarrow> (string \<Rightarrow> string) \<Rightarrow> datetime \<Rightarrow> uuid \<times> uuid \<Rightarrow> nat \<Rightarrow> public_form \<Rightarrow> string
   \<Rightarrow> string \<Rightarrow> db \<Rightarrow> (db, uuid \<times> downstream_status) outcome"
where
  "accept_submission cfg payload_hash sha now ids seen f key source_ip s =
     committed s (
       bindE (ensure (tk_company (form_tracking f) = []) (DomainError ''SUBMISSION_REJECTED'' 400)) (\<lambda>_.
       bindE (ensure (tk_transactional_contact_allowed (form_tracking f)) (DomainError ''CONTACT_PERMISSION_REQUIRED'' 422)) (\<lambda>_.
       let request_hash = payload_hash (client_payload f) in
       case existing_submission (form_type f) key (take seen (submissions s)) of
         Some p \<Rightarrow> bindE (replay_or_conflict p request_hash) (\<lambda>answer. Inr (answer, s))
       | None \<Rightarrow>
           bindE (accepted_payload cfg (services s) now f) (\<lambda>payload.
           let p = new_submission cfg payload_hash sha now (fst ids) f key source_ip payload in
           case existing_submission (form_type f) key (submissions s) of
             Some raced \<Rightarrow> bindE (replay_or_conflict raced request_hash) (\<lambda>answer. Inr (answer, s))
           | None \<Rightarrow> Inr ((pk p, sub_downstream_status p),
               s\<lparr>submissions := submissions s @ [p], events := events s @ [submission_event cfg now (snd ids) p]\<rparr>)))))"

section \<open>api/v1/public\_forms.py\<close>

definition validate_channel_contract :: "public_form \<Rightarrow> unit result" where
  "validate_channel_contract f =
     (let t = form_tracking f in
      bindE (ensure (\<not> ((tk_transactional_sms_consent t \<or> tk_marketing_sms_consent t) \<and> form_phone f = []))
        (DomainError ''PHONE_REQUIRED_FOR_SMS_CONSENT'' 422)) (\<lambda>_.
      ensure (\<not> ((case f of Service_request _ d \<Rightarrow> sf_contact_preference d = ''text'' | _ \<Rightarrow> False)
          \<and> \<not> tk_transactional_sms_consent t)) (DomainError ''SMS_CONSENT_REQUIRED'' 422)))"

definition submit_form ::
  "settings \<Rightarrow> (json_object \<Rightarrow> string) \<Rightarrow> (string \<Rightarrow> string) \<Rightarrow> datetime \<Rightarrow> uuid \<times> uuid \<Rightarrow> nat \<Rightarrow> public_form \<Rightarrow> string option
   \<Rightarrow> string \<Rightarrow> db \<Rightarrow> (db, uuid \<times> downstream_status) outcome"
where
  "submit_form cfg payload_hash sha now ids seen f0 key source_ip s =
     (case bindE (validated_form f0) (\<lambda>f.
        bindE (validate_channel_contract f) (\<lambda>_.
        case key of
          None \<Rightarrow> Inl (DomainError ''IDEMPOTENCY_KEY_REQUIRED'' 400)
        | Some k \<Rightarrow> bindE (ensure (k \<noteq> [] \<and> length k \<le> 255) (DomainError ''IDEMPOTENCY_KEY_REQUIRED'' 400)) (\<lambda>_. Inr (f, k)))) of
        Inl e \<Rightarrow> (Inl e, s)
      | Inr (f, k) \<Rightarrow> accept_submission cfg payload_hash sha now ids seen f k source_ip s)"

section \<open>The queue of the dispatcher\<close>

record queue_update =
  qu_manual_dispatch_state :: "string option"
  qu_address_verification_state :: "string option"
  qu_address_timezone :: "string option"
  qu_contact_outcome :: "string option"
  qu_required_follow_up :: "bool option"
  qu_note :: "string option"

definition queue_update_checks :: "queue_update \<Rightarrow> (string \<times> bool) list" where
  "queue_update_checks u =
     [(''manual_dispatch_state'', case qu_manual_dispatch_state u of None \<Rightarrow> True | Some v \<Rightarrow>
         List.member [''PENDING_MANUAL_DISPATCH'', ''CUSTOMER_CONTACT_PENDING'', ''CUSTOMER_CONTACTED'',
           ''ADDRESS_VALIDATION_PENDING'', ''PROVIDER_MATCH_PENDING'', ''QUOTE_COORDINATION_PENDING'', ''CANCELLED'', ''CLOSED''] v),
      (''address_verification_state'', case qu_address_verification_state u of None \<Rightarrow> True | Some v \<Rightarrow>
         List.member [''PENDING_MANUAL_VALIDATION'', ''MANUALLY_VERIFIED'', ''REJECTED''] v),
      (''address_timezone'', text_within 0 64 (qu_address_timezone u)),
      (''contact_outcome'', case qu_contact_outcome u of None \<Rightarrow> True | Some v \<Rightarrow>
         List.member [''NO_ANSWER'', ''VOICEMAIL'', ''CUSTOMER_REACHED'', ''FOLLOW_UP_REQUESTED'', ''CANCELLED''] v),
      (''note'', text_within 0 1000 (qu_note u))]"

definition queue_changes :: "queue_update \<Rightarrow> json_object" where
  "queue_changes u = List.map_filter id
     [map_option (\<lambda>v. (''manual_dispatch_state'', JStr v)) (qu_manual_dispatch_state u),
      map_option (\<lambda>v. (''address_verification_state'', JStr v)) (qu_address_verification_state u),
      map_option (\<lambda>v. (''address_timezone'', JStr v)) (qu_address_timezone u),
      map_option (\<lambda>v. (''contact_outcome'', JStr v)) (qu_contact_outcome u),
      map_option (\<lambda>v. (''required_follow_up'', JBool v)) (qu_required_follow_up u),
      map_option (\<lambda>v. (''note'', JStr v)) (qu_note u)]"

definition contact_attempts :: "json_object \<Rightarrow> json list" where
  "contact_attempts payload = (case map_of payload ''contact_attempts'' of Some (JList attempts) \<Rightarrow> attempts | _ \<Rightarrow> [])"

definition updated_payload :: "datetime \<Rightarrow> uuid \<Rightarrow> queue_update \<Rightarrow> json_object \<Rightarrow> json_object" where
  "updated_payload now user u payload0 =
     (let changes = map_of (queue_changes u);
          set_from = (\<lambda>field target payload. case changes field of None \<Rightarrow> payload | Some v \<Rightarrow> put target v payload);
          p1 = set_from ''manual_dispatch_state'' ''manual_dispatch_state'' payload0;
          p2 = set_from ''address_verification_state'' ''geoapify_verification_state'' p1;
          p3 = set_from ''address_timezone'' ''address_timezone'' p2;
          p4 = set_from ''required_follow_up'' ''required_follow_up'' p3
      in case changes ''contact_outcome'' of
           None \<Rightarrow> p4
         | Some outcome \<Rightarrow> put ''contact_attempts'' (JList (contact_attempts p4 @
             [JObj [(''outcome'', outcome), (''note'', json_text (qu_note u)), (''actor_id'', JUuid user),
                    (''created_at'', JTime now)]])) p4)"

definition update_dispatcher_queue_item ::
  "datetime \<Rightarrow> uuid \<Rightarrow> uuid \<Rightarrow> queue_update \<Rightarrow> db \<Rightarrow> (db, unit) outcome"
where
  "update_dispatcher_queue_item now user request_id u s =
     committed s (
       bindE (field_checks (queue_update_checks u)) (\<lambda>_.
       bindE (of_option (HTTPException 404 ''Service request not found'') (lookup_row pk request_id (submissions s))) (\<lambda>p.
       Inr ((), s\<lparr>submissions := update_row pk request_id
                   (\<lambda>p. p\<lparr>sub_payload := updated_payload now user u (sub_payload p)\<rparr>) (submissions s),
                 audit_logs := audit_logs s @
                   [\<lparr>al_actor_id = Some user, al_actor_type = ''user'', al_action = ''manual_dispatch.update'',
                     al_resource_type = ''public_submission'', al_resource_id = pk p,
                     al_metadata_json = filter (\<lambda>(k, _). k \<noteq> ''note'') (queue_changes u), al_created_at = now\<rparr>]\<rparr>))))"

record queue_item =
  qi_request_id :: uuid
  qi_submission_type :: string
  qi_created_at :: datetime
  qi_request_age_seconds :: int
  qi_required_follow_up :: bool
  qi_customer_timezone :: json
  qi_address_verification_state :: json
  qi_manual_dispatch_state :: json
  qi_provider_assigned :: bool
  qi_contact_attempts :: "json list"
  qi_downstream_status :: downstream_status
  qi_payload :: json_object
  qi_audit_history :: "audit_log list"

definition json_at :: "json_object \<Rightarrow> string \<Rightarrow> json" where
  "json_at payload k = (case map_of payload k of None \<Rightarrow> JNull | Some v \<Rightarrow> v)"

definition required_follow_up :: "submission_type \<Rightarrow> json_object \<Rightarrow> bool" where
  "required_follow_up ty payload = (case json_at payload ''required_follow_up'' of
      JBool b \<Rightarrow> b
    | _ \<Rightarrow> ty \<noteq> SERVICE_REQUEST \<or> json_at payload ''manual_dispatch_state'' = JStr ''PENDING_MANUAL_DISPATCH''
        \<or> json_at payload ''provider_assigned'' \<noteq> JBool True)"

definition dispatcher_queue :: "datetime \<Rightarrow> db \<Rightarrow> queue_item list" where
  "dispatcher_queue now s = map (\<lambda>p. let payload = sub_payload p in
      \<lparr>qi_request_id = pk p, qi_submission_type = submission_type_value (sub_submission_type p), qi_created_at = created_at p,
       qi_request_age_seconds = max 0 ((now - created_at p) div 1000000),
       qi_required_follow_up = required_follow_up (sub_submission_type p) payload,
       qi_customer_timezone = json_at payload ''customer_timezone'',
       qi_address_verification_state = json_at payload ''geoapify_verification_state'',
       qi_manual_dispatch_state = json_at payload ''manual_dispatch_state'',
       qi_provider_assigned = (json_at payload ''provider_assigned'' = JBool True),
       qi_contact_attempts = contact_attempts payload, qi_downstream_status = sub_downstream_status p, qi_payload = payload,
       qi_audit_history = sort_key al_created_at
         (filter (\<lambda>a. al_resource_type a = ''public_submission'' \<and> al_resource_id a = pk p) (audit_logs s))\<rparr>)
    (take 500 (sort_key created_at (submissions s)))"

end
