(* ===== verification/Form_Intake.thy ===== *)
theory Form_Intake
  imports Public_Forms Outbox
begin

text \<open>
  What holds of the stored forms however submissions, the dispatcher and the delivery of events
  interleave: the evidence of consent stays the server's own, and a key is used once.
\<close>

section \<open>The evidence of consent\<close>

text \<open>A payload keeps the canonical text of exactly the consents given, under a policy the server knows.\<close>

definition evidence_kept :: "json_object \<Rightarrow> bool" where
  "evidence_kept payload \<longleftrightarrow>
     json_at payload ''policy_version'' = JStr DEFAULT_CONSENT_POLICY_VERSION \<and>
     json_at payload ''consent_source'' = JStr ''breero_public_api'' \<and>
     json_at payload ''consent_recorded_by'' = JStr ''breero_api'' \<and>
     json_at payload ''transactional_contact_allowed'' = JBool True \<and>
     map_sum id json_texts (canonical_disclosures (\<lambda>flag. json_at payload flag = JBool True) DEFAULT_CONSENT_POLICY_VERSION)
       = Inr (json_at payload ''consent_disclosures'')"

definition evidence_fields :: "string list" where
  "evidence_fields = [''policy_version'', ''consent_source'', ''consent_recorded_by'', ''consent_disclosures''] @ map fst CONSENT_FLAGS"

lemma json_at_put: "json_at (put k v payload) j = (if j = k then v else json_at payload j)"
  by (simp add: json_at_def AList.update_conv')

lemma json_at_put_all: "json_at (put_all kvs payload) j = (case map_of (rev kvs) j of Some v \<Rightarrow> v | None \<Rightarrow> json_at payload j)"
  unfolding put_all_def
  by (induction kvs arbitrary: payload) (auto simp: json_at_put map_add_def split: option.split)

lemma json_at_append: "json_at (xs @ ys) j = (if j \<in> fst ` set xs then json_at xs j else json_at ys j)"
  by (induction xs) (auto simp: json_at_def)

lemma canonical_cong:
  assumes "\<And>flag. flag \<in> set (map fst CONSENT_FLAGS) \<Longrightarrow> f flag = g flag"
  shows "canonical_disclosures f v = canonical_disclosures g v"
proof -
  have "filter (\<lambda>(flag, _). f flag) CONSENT_FLAGS = filter (\<lambda>(flag, _). g flag) CONSENT_FLAGS"
    using assms by (intro filter_cong) force+
  then show ?thesis by (simp add: canonical_disclosures_def split: option.split)
qed

lemma evidence_kept_cong:
  assumes "evidence_kept payload" and "\<And>k. k \<in> set evidence_fields \<Longrightarrow> json_at payload' k = json_at payload k"
  shows "evidence_kept payload'"
proof -
  have "canonical_disclosures (\<lambda>flag. json_at payload' flag = JBool True) v
      = canonical_disclosures (\<lambda>flag. json_at payload flag = JBool True) v" for v
    by (rule canonical_cong) (simp add: assms(2) evidence_fields_def)
  moreover have "''transactional_contact_allowed'' \<in> set evidence_fields" by (simp add: evidence_fields_def CONSENT_FLAGS_def)
  ultimately show ?thesis using assms by (simp add: evidence_kept_def evidence_fields_def)
qed

text \<open>The dispatcher never touches it.\<close>

lemma json_at_set_from: "j \<noteq> target \<Longrightarrow> json_at (case x of None \<Rightarrow> payload | Some v \<Rightarrow> put target v payload) j = json_at payload j"
  by (simp add: json_at_put split: option.split)

lemma updated_payload_other:
  assumes "k \<noteq> ''manual_dispatch_state''" "k \<noteq> ''geoapify_verification_state''" "k \<noteq> ''address_timezone''"
    "k \<noteq> ''required_follow_up''" "k \<noteq> ''contact_attempts''"
  shows "json_at (updated_payload now user u payload) k = json_at payload k"
proof -
  have last: "json_at (case x of None \<Rightarrow> p | Some v \<Rightarrow> put ''contact_attempts'' (f v) p) k = json_at p k" for x p and f :: "json \<Rightarrow> json"
    using assms(5) by (simp add: json_at_put split: option.split)
  show ?thesis unfolding updated_payload_def Let_def
    by (simp only: last json_at_set_from [OF assms(1)] json_at_set_from [OF assms(2)] json_at_set_from [OF assms(3)]
        json_at_set_from [OF assms(4)])
qed

lemma evidence_field_list:
  "evidence_fields = [''policy_version'', ''consent_source'', ''consent_recorded_by'', ''consent_disclosures'',
     ''transactional_contact_allowed'', ''transactional_email_consent'', ''transactional_sms_consent'',
     ''marketing_email_consent'', ''marketing_sms_consent'']"
  by (simp add: evidence_fields_def CONSENT_FLAGS_def)

lemma evidence_untouched:
  "list_all (\<lambda>k. k \<noteq> ''manual_dispatch_state'' \<and> k \<noteq> ''geoapify_verification_state'' \<and> k \<noteq> ''address_timezone''
     \<and> k \<noteq> ''required_follow_up'' \<and> k \<noteq> ''contact_attempts'') evidence_fields"
  unfolding evidence_field_list by simp

lemma updated_payload_keeps: "k \<in> set evidence_fields \<Longrightarrow> json_at (updated_payload now user u payload) k = json_at payload k"
  using evidence_untouched by (intro updated_payload_other) (auto simp: list_all_iff)

lemma supported_policy:
  assumes "require_versioned_consent_evidence t = Inr ()" and "tk_transactional_contact_allowed t"
  shows "tk_policy_version t = Some DEFAULT_CONSENT_POLICY_VERSION"
  using assms by (auto simp: require_versioned_consent_evidence_def any_consent_def ensure_def
      CONSENT_DISCLOSURES_BY_POLICY_def bindE_def split: if_splits option.splits)

lemma dump_flags:
  "list_all (\<lambda>flag. map_of (tracking_dump t) flag \<noteq> None) (map fst CONSENT_FLAGS)"
  by (simp add: CONSENT_FLAGS_def tracking_dump_def)

lemma flag_in_dump: "flag \<in> set (map fst CONSENT_FLAGS) \<Longrightarrow>
  flag \<in> fst ` set (tracking_dump t) \<and> (json_at (tracking_dump t) flag = JBool True \<longleftrightarrow> consent_flag t flag)"
  using dump_flags [of t] by (auto simp: list_all_iff json_at_def consent_flag_def map_of_eq_None_iff split: option.splits)

lemma stamped_flag:
  assumes "flag \<in> set (map fst CONSENT_FLAGS)"
  shows "json_at (stamped_payload now f v ds) flag = json_at (tracking_dump (form_tracking f)) flag"
proof -
  have "list_all (\<lambda>flag. flag \<noteq> ''consent_recorded_by'' \<and> flag \<noteq> ''consent_disclosures'' \<and> flag \<noteq> ''client_consent_timestamp''
      \<and> flag \<noteq> ''client_consent_source'' \<and> flag \<noteq> ''client_consent_disclosures'' \<and> flag \<noteq> ''consent_timestamp''
      \<and> flag \<noteq> ''consent_source'' \<and> flag \<noteq> ''policy_version'') (map fst CONSENT_FLAGS)"
    by (simp add: CONSENT_FLAGS_def)
  then have "json_at (stamped_payload now f v ds) flag = json_at (client_payload f) flag"
    unfolding list_all_iff by (drule_tac bspec [OF _ assms]) (simp add: stamped_payload_def json_at_put json_at_put_all)
  then show ?thesis using flag_in_dump [OF assms] by (simp add: client_payload_def json_at_append)
qed

lemma stamped_evidence:
  assumes "canonical_disclosures (consent_flag (form_tracking f)) DEFAULT_CONSENT_POLICY_VERSION = Inr ds"
    and "tk_transactional_contact_allowed (form_tracking f)"
  shows "evidence_kept (stamped_payload now f DEFAULT_CONSENT_POLICY_VERSION ds)"
proof -
  let ?p = "stamped_payload now f DEFAULT_CONSENT_POLICY_VERSION ds"
  have "canonical_disclosures (\<lambda>flag. json_at ?p flag = JBool True) DEFAULT_CONSENT_POLICY_VERSION = Inr ds"
    unfolding assms(1) [symmetric] by (rule canonical_cong) (simp add: stamped_flag flag_in_dump)
  moreover have "''transactional_contact_allowed'' \<in> set (map fst CONSENT_FLAGS)" by (simp add: CONSENT_FLAGS_def)
  then have "json_at ?p ''transactional_contact_allowed'' = JBool True"
    using assms(2) by (simp add: stamped_flag) (simp add: json_at_def tracking_dump_def)
  ultimately show ?thesis
    unfolding evidence_kept_def by (simp add: stamped_payload_def json_at_put json_at_put_all)
qed

lemma service_evidence:
  assumes "validate_service_request cfg svs d payload = Inr payload'" and "evidence_kept payload"
  shows "evidence_kept payload'"
proof -
  obtain v where p: "payload' = put_all (service_request_fields cfg v) payload"
    using assms(1) unfolding validate_service_request_def by (auto elim: bindE_InrE)
  have "list_all (\<lambda>k. k \<noteq> ''service_id'' \<and> k \<noteq> ''service_slug'' \<and> k \<noteq> ''request_status'' \<and> k \<noteq> ''manual_dispatch_state''
      \<and> k \<noteq> ''geoapify_verification_state'' \<and> k \<noteq> ''address_timezone'' \<and> k \<noteq> ''address_timezone_state''
      \<and> k \<noteq> ''contact_attempts'' \<and> k \<noteq> ''required_follow_up'' \<and> k \<noteq> ''payment_required'' \<and> k \<noteq> ''quote_required''
      \<and> k \<noteq> ''provider_assigned'' \<and> k \<noteq> ''appointment_confirmed'') evidence_fields"
    unfolding evidence_field_list by simp
  then show ?thesis unfolding p
    by (intro evidence_kept_cong [OF assms(2)]) (simp add: list_all_iff json_at_put_all service_request_fields_def)
qed

lemma accepted_evidence:
  assumes "accepted_payload cfg svs now f = Inr payload" and "tk_transactional_contact_allowed (form_tracking f)"
    and "require_versioned_consent_evidence (form_tracking f) = Inr ()"
  shows "evidence_kept payload"
proof -
  have v: "tk_policy_version (form_tracking f) = Some DEFAULT_CONSENT_POLICY_VERSION"
    by (rule supported_policy [OF assms(3,2)])
  obtain ds where ds: "canonical_disclosures (consent_flag (form_tracking f)) DEFAULT_CONSENT_POLICY_VERSION = Inr ds"
    by (simp add: canonical_disclosures_def CONSENT_DISCLOSURES_BY_POLICY_def)
  have "(case f of
        Service_request _ d \<Rightarrow> validate_service_request cfg svs d (stamped_payload now f DEFAULT_CONSENT_POLICY_VERSION ds)
      | Contact _ _ \<Rightarrow> Inr (stamped_payload now f DEFAULT_CONSENT_POLICY_VERSION ds)
      | Provider_interest _ d \<Rightarrow> bindE (validate_provider_interest svs d)
          (\<lambda>_. Inr (stamped_payload now f DEFAULT_CONSENT_POLICY_VERSION ds))) = Inr payload"
    using assms(1) unfolding accepted_payload_def Let_def v option.case ds bindE_simps .
  then show ?thesis using stamped_evidence [OF ds assms(2)] service_evidence
    by (cases f) (auto elim: bindE_InrE)
qed

section \<open>Reachable stores\<close>

definition form_events :: "db \<Rightarrow> integration_event list" where
  "form_events s = filter (\<lambda>e. ev_aggregate_type e = ''public_submission'') (events s)"

definition form_key :: "public_submission \<Rightarrow> submission_type \<times> string" where
  "form_key p = (sub_submission_type p, sub_idempotency_key p)"

definition forms_ok :: "db \<Rightarrow> bool" where
  "forms_ok s \<longleftrightarrow>
     distinct (map form_key (submissions s)) \<and> distinct (map pk (submissions s)) \<and>
     map ev_aggregate_id (form_events s) = map pk (submissions s) \<and>
     (\<forall>p \<in> set (submissions s). evidence_kept (sub_payload p))"

text \<open>What the publisher and all other services leave alone: everything but the status of delivery.\<close>

definition same_forms :: "db \<Rightarrow> db \<Rightarrow> bool" where
  "same_forms s s' \<longleftrightarrow>
     map (\<lambda>p. p\<lparr>sub_downstream_status := DS_PENDING\<rparr>) (submissions s') = map (\<lambda>p. p\<lparr>sub_downstream_status := DS_PENDING\<rparr>) (submissions s) \<and>
     map ev_aggregate_id (form_events s') = map ev_aggregate_id (form_events s)"

inductive form_step :: "settings \<Rightarrow> (json_object \<Rightarrow> string) \<Rightarrow> (string \<Rightarrow> string) \<Rightarrow> db \<Rightarrow> db \<Rightarrow> bool"
  for cfg payload_hash sha where
  submitted: "fst ids \<notin> pk ` set (submissions s) \<Longrightarrow>
    submit_form cfg payload_hash sha now ids seen f key source_ip s = (res, s') \<Longrightarrow> form_step cfg payload_hash sha s s'"
| queue_updated: "update_dispatcher_queue_item now user request_id u s = (res', s') \<Longrightarrow> form_step cfg payload_hash sha s s'"
| elsewhere: "same_forms s s' \<Longrightarrow> form_step cfg payload_hash sha s s'"

text \<open>What a submission does: it answers from a row, or adds one with its event.\<close>

lemma submit_form_cases:
  assumes "submit_form cfg payload_hash sha now ids seen f0 key source_ip s = (res, s')"
  obtains (failed) e where "res = Inl e" "s' = s"
  | (replayed) f k p where "validated_form f0 = Inr f" "key = Some k" "p \<in> set (submissions s)"
      "form_key p = (form_type f, k)" "sub_request_hash p = payload_hash (client_payload f)"
      "res = Inr (pk p, sub_downstream_status p)" "s' = s"
  | (added) f k payload where "validated_form f0 = Inr f" "key = Some k" "(form_type f, k) \<notin> form_key ` set (submissions s)"
      "tk_transactional_contact_allowed (form_tracking f)" "accepted_payload cfg (services s) now f = Inr payload"
      "res = Inr (fst ids, if middleware_enabled cfg then DS_PENDING else DS_PENDING_CONFIGURATION)"
      "s' = s\<lparr>submissions := submissions s @ [new_submission cfg payload_hash sha now (fst ids) f k source_ip payload],
        events := events s @ [submission_event cfg now (snd ids)
          (new_submission cfg payload_hash sha now (fst ids) f k source_ip payload)]\<rparr>"
proof (cases res)
  case (Inl e)
  then have "s' = s" using assms
    by (auto simp: submit_form_def accept_submission_def split: sum.splits dest!: committed_cases)
  then show thesis using failed Inl by blast
next
  case (Inr answer)
  obtain f k where f: "validated_form f0 = Inr f" "key = Some k"
    and a: "accept_submission cfg payload_hash sha now ids seen f k source_ip s = (Inr answer, s')"
    using assms Inr unfolding submit_form_def
    by (fastforce split: sum.splits option.splits elim!: bindE_InrE)
  have existing: "p \<in> set subs \<and> form_key p = (form_type f, k)" if "existing_submission (form_type f) k subs = Some p" for subs p
    using that by (auto simp: existing_submission_def form_key_def dest: find_SomeD)
  show thesis
  proof (cases "existing_submission (form_type f) k (take seen (submissions s))")
    case (Some p)
    then have "sub_request_hash p = payload_hash (client_payload f)" "answer = (pk p, sub_downstream_status p)" "s' = s"
      using a by (auto simp: accept_submission_def replay_or_conflict_def Let_def committed_def ensure_def bindE_def
          split: if_splits)
    then show thesis using replayed [OF f, of p] existing [OF Some] Inr in_set_takeD by metis
  next
    case None
    obtain payload where p: "tk_transactional_contact_allowed (form_tracking f)" "accepted_payload cfg (services s) now f = Inr payload"
      using a None by (auto simp: accept_submission_def Let_def committed_def ensure_def bindE_def split: if_splits sum.splits)
    show thesis
    proof (cases "existing_submission (form_type f) k (submissions s)")
      case (Some p')
      then have "sub_request_hash p' = payload_hash (client_payload f)" "answer = (pk p', sub_downstream_status p')" "s' = s"
        using a None p by (auto simp: accept_submission_def replay_or_conflict_def Let_def committed_def ensure_def bindE_def
            split: if_splits)
      then show thesis using replayed [OF f, of p'] existing [OF Some] Inr by metis
    next
      case new: None
      then have "(form_type f, k) \<notin> form_key ` set (submissions s)"
        by (auto simp: existing_submission_def form_key_def find_None_iff)
      moreover have "answer = (fst ids, if middleware_enabled cfg then DS_PENDING else DS_PENDING_CONFIGURATION)"
        "s' = s\<lparr>submissions := submissions s @ [new_submission cfg payload_hash sha now (fst ids) f k source_ip payload],
          events := events s @ [submission_event cfg now (snd ids)
            (new_submission cfg payload_hash sha now (fst ids) f k source_ip payload)]\<rparr>"
        using a None new p by (auto simp: accept_submission_def Let_def committed_def ensure_def bindE_def new_submission_def
            split: if_splits)
      ultimately show thesis using added f p Inr by metis
    qed
  qed
qed

lemma validated_versioned: "validated_form f0 = Inr f \<Longrightarrow> require_versioned_consent_evidence (form_tracking f) = Inr ()"
  by (cases f0) (auto simp: validated_form_def form_tracking_def checked_form_def elim!: bindE_InrE)

lemma start_forms_ok: "submissions s = [] \<Longrightarrow> form_events s = [] \<Longrightarrow> forms_ok s"
  by (simp add: forms_ok_def)

lemma forms_ok_added:
  assumes "forms_ok s" and "form_key p \<notin> form_key ` set (submissions s)" and "pk p \<notin> pk ` set (submissions s)"
    and "evidence_kept (sub_payload p)"
  shows "forms_ok (s\<lparr>submissions := submissions s @ [p], events := events s @ [submission_event cfg now i p]\<rparr>)"
  using assms by (auto simp: forms_ok_def form_events_def submission_event_def new_event_def)

lemma same_forms_rows:
  assumes "same_forms s s'"
  shows "map (\<lambda>p. (form_key p, pk p, sub_payload p, sub_request_hash p)) (submissions s')
    = map (\<lambda>p. (form_key p, pk p, sub_payload p, sub_request_hash p)) (submissions s)"
proof -
  have "map ((\<lambda>p. (form_key p, pk p, sub_payload p, sub_request_hash p)) \<circ> (\<lambda>p. p\<lparr>sub_downstream_status := DS_PENDING\<rparr>)) (submissions s')
      = map ((\<lambda>p. (form_key p, pk p, sub_payload p, sub_request_hash p)) \<circ> (\<lambda>p. p\<lparr>sub_downstream_status := DS_PENDING\<rparr>)) (submissions s)"
    using assms unfolding same_forms_def by (metis list.map_comp)
  then show ?thesis by (simp add: comp_def form_key_def)
qed

lemma forms_ok_rows:
  assumes "map (\<lambda>p. (form_key p, pk p, sub_payload p, sub_request_hash p)) (submissions s')
      = map (\<lambda>p. (form_key p, pk p, sub_payload p, sub_request_hash p)) (submissions s)"
    and "map ev_aggregate_id (form_events s') = map ev_aggregate_id (form_events s)" and "forms_ok s"
  shows "forms_ok s'"
proof -
  note m = arg_cong [OF assms(1), of "map g" for g, unfolded list.map_comp]
  have "map form_key (submissions s') = map form_key (submissions s)" "map pk (submissions s') = map pk (submissions s)"
    "map sub_payload (submissions s') = map sub_payload (submissions s)"
    using m [of fst] m [of "fst \<circ> snd"] m [of "fst \<circ> snd \<circ> snd"] by (simp_all add: comp_def)
  moreover have "(\<forall>p \<in> set ps. evidence_kept (sub_payload p)) = list_all evidence_kept (map sub_payload ps)" for ps :: "public_submission list"
    by (simp add: list_all_iff)
  ultimately show ?thesis using assms(2,3) unfolding forms_ok_def by metis
qed

lemma queue_update_rows:
  assumes "update_dispatcher_queue_item now user request_id u s = (res, s')"
  obtains "s' = s" | "submissions s' = update_row pk request_id
      (\<lambda>p. p\<lparr>sub_payload := updated_payload now user u (sub_payload p)\<rparr>) (submissions s)" "events s' = events s"
  using assms by (auto simp: update_dispatcher_queue_item_def dest!: committed_cases elim!: bindE_InrE)

lemma forms_ok_step:
  assumes "form_step cfg payload_hash sha s s'" and "forms_ok s"
  shows "forms_ok s'"
  using assms(1)
proof cases
  case (submitted ids now seen f key source_ip res)
  from submitted(2) show ?thesis
  proof (cases rule: submit_form_cases)
    case (added f' k payload)
    have "evidence_kept payload" using added validated_versioned accepted_evidence by blast
    then show ?thesis using added assms(2) submitted(1)
      by (auto intro!: forms_ok_added simp: new_submission_def form_key_def)
  qed (use assms(2) in auto)
next
  case (queue_updated now user request_id u res')
  from queue_updated(1) show ?thesis
  proof (cases rule: queue_update_rows)
    case 2
    have "evidence_kept (updated_payload now user u payload)" if "evidence_kept payload" for payload
      by (rule evidence_kept_cong [OF that updated_payload_keeps])
    moreover have "map form_key (submissions s') = map form_key (submissions s)" "map pk (submissions s') = map pk (submissions s)"
      unfolding 2(1) by (auto intro!: map_key_update_row simp: form_key_def)
    ultimately show ?thesis using 2 assms(2) unfolding forms_ok_def form_events_def
      by (auto simp: set_update_row)
  qed (use assms(2) in auto)
next
  case elsewhere
  then show ?thesis using forms_ok_rows [OF same_forms_rows] assms(2) by (simp add: same_forms_def)
qed

lemma forms_ok_steps: "(form_step cfg payload_hash sha)\<^sup>*\<^sup>* s s' \<Longrightarrow> forms_ok s \<Longrightarrow> forms_ok s'"
  by (induction rule: rtranclp_induct) (auto intro: forms_ok_step)

section \<open>A key is used once\<close>

definition has_form :: "submission_type \<times> string \<Rightarrow> uuid \<Rightarrow> string \<Rightarrow> db \<Rightarrow> bool" where
  "has_form k i h s \<longleftrightarrow> (k, i, h) \<in> (\<lambda>p. (form_key p, pk p, sub_request_hash p)) ` set (submissions s)"

lemma has_form_cong:
  assumes "map (\<lambda>p. (form_key p, pk p, sub_request_hash p)) (submissions s') = map (\<lambda>p. (form_key p, pk p, sub_request_hash p)) (submissions s)"
  shows "has_form k i h s' = has_form k i h s"
  unfolding has_form_def set_map [symmetric] assms ..

lemma has_form_step:
  assumes "form_step cfg payload_hash sha s s'" and "has_form k i h s"
  shows "has_form k i h s'"
  using assms(1)
proof cases
  case (submitted ids now seen f key source_ip res)
  from submitted(2) assms(2) show ?thesis by (cases rule: submit_form_cases) (auto simp: has_form_def)
next
  case (queue_updated now user request_id u res')
  from queue_updated(1) show ?thesis
  proof (cases rule: queue_update_rows)
    case 2
    have "map (\<lambda>p. (form_key p, pk p, sub_request_hash p)) (submissions s') = map (\<lambda>p. (form_key p, pk p, sub_request_hash p)) (submissions s)"
      unfolding 2(1) by (rule map_key_update_row) (simp add: form_key_def)
    then show ?thesis using assms(2) has_form_cong by blast
  qed (use assms(2) in auto)
next
  case elsewhere
  from arg_cong [OF same_forms_rows [OF this], of "map (\<lambda>(k, i, p, h). (k, i, h))"]
  have "map (\<lambda>p. (form_key p, pk p, sub_request_hash p)) (submissions s') = map (\<lambda>p. (form_key p, pk p, sub_request_hash p)) (submissions s)"
    by (simp add: comp_def)
  then show ?thesis using assms(2) has_form_cong by blast
qed

lemma has_form_steps: "(form_step cfg payload_hash sha)\<^sup>*\<^sup>* s s' \<Longrightarrow> has_form k i h s \<Longrightarrow> has_form k i h s'"
  by (induction rule: rtranclp_induct) (auto intro: has_form_step)

lemma submitted_has_form:
  assumes "submit_form cfg payload_hash sha now ids seen f0 (Some k) source_ip s = (Inr (i, st), s')" and "validated_form f0 = Inr f"
  shows "has_form (form_type f, k) i (payload_hash (client_payload f)) s'"
  using assms(1)
proof (cases rule: submit_form_cases)
  case (replayed f' k' p)
  then have "f' = f" "k' = k" "i = pk p" using assms(2) by simp_all
  then show ?thesis using replayed(3,4,5,7) unfolding has_form_def by (intro image_eqI [of _ _ p]) simp_all
next
  case (added f' k' payload)
  then show ?thesis using assms(2) by (auto simp: has_form_def new_submission_def form_key_def)
qed auto

lemma has_form_unique:
  assumes "forms_ok s" and "has_form k i h s" and "p \<in> set (submissions s)" and "form_key p = k"
  shows "pk p = i \<and> sub_request_hash p = h"
proof -
  obtain q where "q \<in> set (submissions s)" "form_key q = k" "pk q = i" "sub_request_hash q = h"
    using assms(2) unfolding has_form_def by auto
  then show ?thesis using unique_row [of form_key "submissions s" q p] assms by (auto simp: forms_ok_def)
qed

lemma repeated_form:
  assumes "forms_ok s" and "has_form (form_type f, k) i h s" and "validated_form f0 = Inr f"
    and "submit_form cfg payload_hash sha now ids seen f0 (Some k) source_ip s = (res, s')"
  shows "s' = s \<and> (case res of Inl _ \<Rightarrow> True | Inr (j, _) \<Rightarrow> j = i \<and> payload_hash (client_payload f) = h)"
  using assms(4)
proof (cases rule: submit_form_cases)
  case (replayed f' k' p)
  then show ?thesis using has_form_unique [OF assms(1,2), of p] assms(3) by auto
next
  case (added f' k' payload)
  then show ?thesis using assms(2,3) unfolding has_form_def by force
qed auto

text \<open>The first answer, once the first query sees the row.\<close>

lemma replayed_form:
  assumes "forms_ok s" and "has_form (form_type f, k) i (payload_hash (client_payload f)) s" and "validated_form f0 = Inr f"
    and "validate_channel_contract f = Inr ()" and "tk_company (form_tracking f) = []"
    and "tk_transactional_contact_allowed (form_tracking f)" and "k \<noteq> []" and "length k \<le> 255"
    and "length (submissions s) \<le> seen"
  shows "\<exists>st. submit_form cfg payload_hash sha now ids seen f0 (Some k) source_ip s = (Inr (i, st), s)"
proof -
  obtain p where p: "existing_submission (form_type f) k (submissions s) = Some p"
    using assms(2) by (cases "existing_submission (form_type f) k (submissions s)")
      (auto simp: existing_submission_def find_None_iff has_form_def form_key_def)
  then have "p \<in> set (submissions s)" "form_key p = (form_type f, k)"
    by (auto simp: existing_submission_def form_key_def dest: find_SomeD)
  then have "pk p = i \<and> sub_request_hash p = payload_hash (client_payload f)"
    by (rule has_form_unique [OF assms(1,2)])
  then show ?thesis using assms(3-9) p
    by (simp add: submit_form_def accept_submission_def replay_or_conflict_def Let_def ensure_def)
qed

lemma submitted_checks:
  assumes "submit_form cfg payload_hash sha now ids seen f0 (Some k) source_ip s = (Inr answer, s')" and "validated_form f0 = Inr f"
  shows "validate_channel_contract f = Inr ()" "tk_company (form_tracking f) = []"
    "tk_transactional_contact_allowed (form_tracking f)" "k \<noteq> []" "length k \<le> 255"
  using assms by (cases "validate_channel_contract f"; auto simp: submit_form_def accept_submission_def committed_def ensure_def
      bindE_def split: if_splits)+

section \<open>The publisher leaves the forms alone\<close>

lemma same_forms_delivery: "same_forms s (s\<lparr>submissions := update_where P (\<lambda>p. p\<lparr>sub_downstream_status := st\<rparr>) (submissions s)\<rparr>)"
  by (simp add: same_forms_def form_events_def update_where_def comp_def)

lemma same_forms_trans: "same_forms s t \<Longrightarrow> same_forms t u \<Longrightarrow> same_forms s u"
  by (simp add: same_forms_def)

lemma same_forms_sync: "same_forms s (sync_public_submission_status es st s)"
  using same_forms_delivery by (auto simp: sync_public_submission_status_def Let_def) (simp add: same_forms_def)

lemma same_forms_events:
  assumes "\<And>e. ev_aggregate_id (f e) = ev_aggregate_id e \<and> ev_aggregate_type (f e) = ev_aggregate_type e"
  shows "same_forms s (s\<lparr>events := update_where P f (events s)\<rparr>)"
proof -
  have "map ev_aggregate_id (filter (\<lambda>e. ev_aggregate_type e = ''public_submission'') (update_where P f es))
      = map ev_aggregate_id (filter (\<lambda>e. ev_aggregate_type e = ''public_submission'') es)" for es
    using assms by (induction es) (auto simp: update_where_def)
  then show ?thesis by (simp add: same_forms_def form_events_def)
qed

lemma same_forms_activate: "activate_pending_configuration p t now s = (n, s') \<Longrightarrow> same_forms s s'"
  by (auto simp: activate_pending_configuration_def Let_def activated_event_def
      intro: same_forms_trans [OF same_forms_events same_forms_sync])

lemma same_forms_park: "park_unconfigured p t now s = (n, s') \<Longrightarrow> same_forms s s'"
  by (auto simp: park_unconfigured_def Let_def parked_event_def
      intro: same_forms_trans [OF same_forms_events same_forms_sync])

lemma same_forms_deliver: "deliver_outbox_event send push e s = (res, s') \<Longrightarrow> same_forms s s'"
  using same_forms_delivery by (auto simp: deliver_outbox_event_def update_row_def split: if_splits sum.splits)
    (simp_all add: same_forms_def)

section \<open>A form\<close>

definition sample_tracking :: tracking where
  "sample_tracking = \<lparr>tk_source_url = ''https://breero.com/contact'', tk_utm_source = None, tk_utm_medium = None, tk_utm_campaign = None,
     tk_utm_content = None, tk_utm_term = None, tk_language = Some ''en'', tk_customer_timezone = None,
     tk_transactional_contact_allowed = True, tk_transactional_email_consent = True, tk_transactional_sms_consent = False,
     tk_marketing_email_consent = False, tk_marketing_sms_consent = False, tk_consent_disclosures = [],
     tk_marketing_consent = False, tk_sms_consent = False, tk_email_consent = False, tk_consent_timestamp = None,
     tk_consent_source = None, tk_policy_version = Some DEFAULT_CONSENT_POLICY_VERSION, tk_company = []\<rparr>"

definition sample_contact :: public_form where
  "sample_contact = Contact sample_tracking \<lparr>cf_name = ''Ada'', cf_email = ''ada@example.com'', cf_phone = None,
     cf_category = ''general'', cf_subject = ''Hours'', cf_message = ''When are you open?''\<rparr>"

lemma sample_validated: "validated_form sample_contact = Inr sample_contact"
  by (simp add: sample_contact_def sample_tracking_def validated_form_def checked_form_def tracking_checks_def contact_checks_def
      CONTACT_CATEGORIES_def text_within_def text_of_def bounded_consent_disclosures_def require_versioned_consent_evidence_def
      any_consent_def CONSENT_DISCLOSURES_BY_POLICY_def ensure_def DEFAULT_CONSENT_POLICY_VERSION_def)

definition sample_form_store :: "settings \<Rightarrow> db" where
  "sample_form_store cfg = snd (submit_form cfg (\<lambda>_. ''h'') id 0 (1, 2) 0 sample_contact (Some ''key'') ''ip'' empty_db)"

lemma sample_form_accepted:
  "\<exists>st. submit_form cfg (\<lambda>_. ''h'') id 0 (1, 2) 0 sample_contact (Some ''key'') ''ip'' empty_db = (Inr (1, st), sample_form_store cfg)"
  "map pk (submissions (sample_form_store cfg)) = [1]"
proof -
  have "validate_channel_contract sample_contact = Inr ()" "tk_company (form_tracking sample_contact) = []"
    "tk_transactional_contact_allowed (form_tracking sample_contact)"
    "\<exists>payload. accepted_payload cfg [] 0 sample_contact = Inr payload"
    by (simp_all add: sample_contact_def sample_tracking_def validate_channel_contract_def form_tracking_def ensure_def
        form_phone_def accepted_payload_def canonical_disclosures_def CONSENT_DISCLOSURES_BY_POLICY_def Let_def)
  then show "\<exists>st. submit_form cfg (\<lambda>_. ''h'') id 0 (1, 2) 0 sample_contact (Some ''key'') ''ip'' empty_db = (Inr (1, st), sample_form_store cfg)"
    "map pk (submissions (sample_form_store cfg)) = [1]"
    by (auto simp: sample_form_store_def submit_form_def sample_validated accept_submission_def existing_submission_def
        empty_db_def ensure_def Let_def new_submission_def)
qed

lemma sample_form_step: "(form_step cfg (\<lambda>_. ''h'') id)\<^sup>*\<^sup>* empty_db (sample_form_store cfg)"
  using sample_form_accepted(1) [of cfg]
  by (auto intro!: r_into_rtranclp [of "form_step cfg (\<lambda>_. ''h'') id"] form_step.submitted [where ids = "(1, 2)"] simp: empty_db_def)

section \<open>Properties\<close>





end
