(* ===== verification/Spec2Isabelle.thy ===== *)
theory Spec2Isabelle
  imports
    Booking_Lifecycle Capacity Timezones Postal Matching Holds Bookings Public_Booking Scheduling
    Dispatch Jobs Finance Outbox Stripe Payments Leads Payment_Ledger
    Booking_Intents Tokens Passwords Accounts Account_Sessions Access
    Provider_Catalog Onboarding Workforce Provider_Review Zones
    Rate_Limit Compliance Form_Intake
begin

text \<open>
  A verification library for the Breero back end (\<^verbatim>\<open>src/apps/api/app\<close>), the FastAPI service behind a
  home-services marketplace.

  \<^bold>\<open>The program.\<close>  A visitor gives an address, which is geocoded and matched to a service area;
  searches the hours at which a provider could come; reserves one for thirty minutes (a capacity
  hold); and turns the hold into a booking.  An operator confirms the booking for a worker, which makes
  a job.  The worker moves the job through its lifecycle, may ask for additional work that the
  customer approves, and completes it; the completion credits the vendor with an earning, and earnings
  are paid in batches.  The customer pays through Stripe, for a booking, a quote or, as a vendor, for a
  lead.  Commands leave integration events in an outbox.  Each command runs in one
  database transaction: it commits at the end or, on an error, leaves the tables as they were.

  \<^bold>\<open>The model.\<close>  \<^verbatim>\<open>Database.db\<close> is the store, a list of rows per table.  A command is a function from
  its arguments and the store to a result and the store after its last commit; an exception is a value
  \<open>Inl e\<close> (\<open>DomainError code status\<close>, \<open>HTTPException status detail\<close>, \<open>IntegrityError name\<close> for
  a violated constraint).  A human-readable message is kept only where nothing else tells two errors
  apart, and \<^verbatim>\<open>updated_at\<close> columns are left out.

  Code outside the repository is a parameter: the zone database \<open>tzdb\<close>, the PostGIS functions
  \<open>st_distance\<close> and \<open>st_covers\<close>, the geocoder \<open>geocode\<close>, the digest \<open>sha256\<close> or \<open>hash_token\<close>,
  password hashing and Keycloak's answer, the payout gateway.  So are the successive readings of the
  clock (\<open>now\<close>, or \<open>clk i\<close> for the i-th) and the ids and tokens drawn (\<open>new_id\<close>).

  \<^bold>\<open>The theories\<close>, in the order of the code:
  \<^item> \<^verbatim>\<open>Prelude\<close>: tables, Python strings, time, rounding and results; the locale \<open>keyed_table\<close> for the
    tables of a store.  \<^verbatim>\<open>Common\<close>: \<^verbatim>\<open>domains/common\<close>, with the generic state machine as the locale
    \<open>lifecycle\<close> that the lifecycles of bookings, jobs, quotes and outbox events interpret.  \<^verbatim>\<open>Booking_Models\<close>, \<^verbatim>\<open>Operations_Models\<close>,
    \<^verbatim>\<open>Database\<close>: the ORM models as records and the store.  \<^verbatim>\<open>Identifiers\<close>: the text of a UUID.
    \<^verbatim>\<open>Samples\<close>: one provider, service and address on which the witnesses evaluate.
  \<^item> \<^verbatim>\<open>Booking_Lifecycle\<close> (\<^verbatim>\<open>booking/lifecycle.py\<close>): the way to COMPLETED leads through CONFIRMED.
  \<^item> \<^verbatim>\<open>Capacity\<close> (\<^verbatim>\<open>booking/capacity.py\<close>): the decision, its invariant under a sequence of
    holds, and the emergency reserve: C4.
  \<^item> \<^verbatim>\<open>Timezones\<close> (\<^verbatim>\<open>booking/timezones.py\<close>): C7.  \<^verbatim>\<open>Postal\<close> (\<^verbatim>\<open>postal.py\<close>,
    \<^verbatim>\<open>zones.py\<close>): C9.
  \<^item> \<^verbatim>\<open>Matching\<close> (\<^verbatim>\<open>booking/matching.py\<close>): who can be sent, and in which order: C11.  The
    booking services rely on it through the locale \<open>candidate_source\<close>.
  \<^item> \<^verbatim>\<open>Holds\<close> (\<^verbatim>\<open>booking/hold_service.py\<close>): the hold table as a step relation with its
    invariant: C13 and C16.
  \<^item> \<^verbatim>\<open>Finance\<close> (\<^verbatim>\<open>finance/\<close>, \<^verbatim>\<open>integrations/payouts.py\<close>): the ledger as a step relation
    with its invariant, and the payout gateway as a locale interpreted on both gateways: C18.
  \<^item> \<^verbatim>\<open>Jobs\<close> (\<^verbatim>\<open>jobs/service.py\<close>, \<^verbatim>\<open>api/v1/jobs/transitions.py\<close>): C22 to C24.
  \<^item> \<^verbatim>\<open>Bookings\<close> (\<^verbatim>\<open>booking/service.py\<close>, \<^verbatim>\<open>booking/repository.py\<close>): C1.
  \<^item> \<^verbatim>\<open>Public_Booking\<close> (\<^verbatim>\<open>booking/public_service.py\<close>, \<^verbatim>\<open>api/v1/customer/bookings.py\<close>):
    C27 to C29, the loop of the search with its termination: C10, and the request of a visitor without
    an account: C15.
  \<^item> \<^verbatim>\<open>Scheduling\<close> (\<^verbatim>\<open>booking/scheduling.py\<close>): the operator's confirmation: C31.
  \<^item> \<^verbatim>\<open>Dispatch\<close> (\<^verbatim>\<open>dispatch/\<close>): matching a job to offers, the vendors' answers, manual
    assignment and the operator's assignment of a booking.  The step relation \<open>dispatch_step\<close>
    interleaves them with the confirmation, cancellation and job commands, and C34 is its invariant;
    C35 is the acceptance of an offer.
  \<^item> \<^verbatim>\<open>Outbox\<close> (\<^verbatim>\<open>common/outbox_service.py\<close>, \<^verbatim>\<open>workers/tasks.py\<close>): the publisher of the
    integration events, as a refinement of an at-least-once queue and with its progress: C39, C40.

  \<^item> \<^verbatim>\<open>Stripe\<close> (\<^verbatim>\<open>integrations/stripe.py\<close>), \<^verbatim>\<open>Payments\<close> (\<^verbatim>\<open>payments/\<close>), \<^verbatim>\<open>Leads\<close>
    (\<^verbatim>\<open>professional_leads/\<close>): intents, capture, webhooks, refunds, and the sale of leads.
    \<^verbatim>\<open>Payment_Ledger\<close> has the step relation \<open>payment_step\<close> over all of them and their properties:
    C2, C3, C5, C8 and C12.
  \<^item> \<^verbatim>\<open>Booking_Intents\<close> (\<^verbatim>\<open>booking_intents/\<close>, \<^verbatim>\<open>api/v1/booking_intents.py\<close>): the draft of a
    booking under optimistic versions, as a step relation: C21.
  \<^item> \<^verbatim>\<open>Tokens\<close>, \<^verbatim>\<open>Passwords\<close>, \<^verbatim>\<open>Accounts\<close> (\<^verbatim>\<open>auth/security.py\<close>,
    \<^verbatim>\<open>auth/service.py\<close>): registration, login, refresh tokens, passwords and verification over
    \<^verbatim>\<open>Accounts.accounts\<close>, which adds the token tables to the store.  \<^verbatim>\<open>Account_Sessions\<close> has
    the step relation \<open>account_step\<close> and the properties: C19, C32 and C36.
  \<^item> \<^verbatim>\<open>Access\<close> (\<^verbatim>\<open>auth/access_service.py\<close>, \<^verbatim>\<open>provisioning_service.py\<close>,
    \<^verbatim>\<open>dependencies.py\<close>, \<^verbatim>\<open>keycloak.py\<close>): access profiles, permissions, internal accounts and
    the user behind a request, as the step relation \<open>access_step\<close>: C30 and C37.
  \<^item> \<^verbatim>\<open>Provider_Catalog\<close> (\<^verbatim>\<open>provider_catalog/\<close>), \<^verbatim>\<open>Onboarding\<close>
    (\<^verbatim>\<open>workforce/onboarding_service.py\<close>), \<^verbatim>\<open>Workforce\<close> (\<^verbatim>\<open>workforce/service.py\<close>,
    \<^verbatim>\<open>api/v1/operations/\<close>) and \<^verbatim>\<open>Provider_Portal\<close> (\<^verbatim>\<open>workforce/provider_service.py\<close>): the
    providers' selections, applications and their review, vendors, workers, areas, calendars and
    capacity, over \<^verbatim>\<open>Provider_Catalog.provider_store\<close>, which adds the tables only providers use.
    \<^verbatim>\<open>Providers\<close> has the step relation \<open>provider_step\<close> over all these commands and its
    invariant, \<^verbatim>\<open>Provider_Review\<close> the properties: C17, C33 and C38.
  \<^item> \<^verbatim>\<open>Geography\<close>, \<^verbatim>\<open>Zone_Administration\<close> (\<^verbatim>\<open>geography/\<close>): service zones, the
    normalised ZIP rows, imports and the public queries, over \<^verbatim>\<open>Geography.geography\<close>.  \<^verbatim>\<open>Zones\<close> has the step
    relation \<open>zone_step\<close> and the invariant of the array the booking code reads: C20.
  \<^item> \<^verbatim>\<open>Public_Forms\<close> (\<^verbatim>\<open>public_submissions/\<close>, \<^verbatim>\<open>api/v1/public_forms.py\<close>,
    \<^verbatim>\<open>api/v1/operations/dispatcher.py\<close>): the public request forms, their consent and the dispatcher's queue.
    \<^verbatim>\<open>Form_Intake\<close> has the step relation \<open>form_step\<close> and the properties: C14 and C26.
  \<^item> \<^verbatim>\<open>Compliance\<close> (\<^verbatim>\<open>compliance/\<close>, \<^verbatim>\<open>api/v1/compliance.py\<close>): privacy requests, preferences and
    revocations, as a refinement of the set of suppressed destinations: C25.
  \<^item> \<^verbatim>\<open>Rate_Limit\<close> (\<^verbatim>\<open>core/rate_limit.py\<close>): the token buckets of Redis and of the process, as two
    interpretations of the locale \<open>limiter\<close>, and the bound they keep together: C6.

  \<^bold>\<open>Choices.\<close>  Handlers are serialised, as their row and advisory locks do for the rows they
  contend on; a column that the database fills with \<^verbatim>\<open>now()\<close> has the handler's first clock
  reading; a query without an ORDER BY, and the ties of one that has it, keep the order of the table;
  the counts inside one availability search use one reading of the clock; integers are unbounded
  (the columns' ranges are not modelled).  Every loop is a total function with a termination proof; no
  fuel is used.

  \<^bold>\<open>Not modelled.\<close>  HTTP routing, request parsing and serialisation, read-only listings,
  the key set of Keycloak and its cookies, the table of route policies, observability, settings validation, migrations, the Celery
  wiring, the HTTP clients of Odoo, Stripe, Geoapify, Keycloak, e-mail and SMS, the frontends, the
  Odoo add-on and the release tooling.  They are I/O and configuration around the logic above.
\<close>

end
